(* ===== verification/Prelude.thy ===== *)
theory Prelude imports Main "HOL-Library.Word" "HOL-Library.List_Lexorder" "HOL-Library.AList" begin

text \<open>
  Shared ground of the development: the types that stand for Python values, the rows-as-lists
  reading of SQL statements, the lemmas on lists, options and sums the components share, and the
  collections of facts their proofs are run with.

  A Python \<open>str\<close> is a sequence of Unicode code points, so it is a list of naturals here
  (\<open>pstr\<close>), compared and ordered as Python compares and orders it (\<open>List_Lexorder\<close>);
  \<open>lit\<close> embeds an ASCII literal. A \<open>UUID\<close> is its 128-bit integer. An aware UTC
  \<open>datetime\<close> is the number of microseconds since 1970-01-01, the resolution Python and both
  databases keep; a \<open>date\<close> is its number of days since the same day.
\<close>

type_synonym pstr = "nat list"
type_synonym uuid = "128 word"
type_synonym timestamp = int
type_synonym day = int

definition lit :: "string \<Rightarrow> pstr" where
  "lit s = map of_char s"

text \<open>\<open>str.startswith\<close>.\<close>

definition starts_with :: "pstr \<Rightarrow> pstr \<Rightarrow> bool" where
  "starts_with p s \<longleftrightarrow> take (length p) s = p"

lemma starts_with_append [simp]: "starts_with p (p @ s)"
  by (simp add: starts_with_def)

text \<open>\<open>sep.join(xs)\<close>.\<close>

fun joined :: "pstr \<Rightarrow> pstr list \<Rightarrow> pstr" where
  "joined sep [] = []"
| "joined sep [x] = x"
| "joined sep (x # y # xs) = x @ sep @ joined sep (y # xs)"

lemma lit_inject [simp]: "lit s = lit t \<longleftrightarrow> s = t"
  unfolding lit_def by (rule inj_map_eq_map) (simp add: inj_on_def)

lemma lit_Nil [simp]: "lit [] = []"
  by (simp add: lit_def)

lemma lit_eq_Nil [simp]: "lit s = [] \<longleftrightarrow> s = []"
  by (simp add: lit_def)

text \<open>Microseconds in a second and in a day; the UTC calendar day of a moment
  (\<open>datetime.date\<close>) rounds towards minus infinity, as \<open>div\<close> does.\<close>

abbreviation second :: int where "second \<equiv> 1000000"
abbreviation one_day :: int where "one_day \<equiv> 86400000000"

definition date_of :: "timestamp \<Rightarrow> day" where
  "date_of t = t div one_day"

section \<open>Collections of facts\<close>

named_theorems vocab \<open>evaluation rules of the closed vocabulary\<close>
named_theorems frame \<open>which tables an operation leaves alone\<close>
named_theorems ledger_ext \<open>operations that extend the audit ledger\<close>

section \<open>Lists\<close>

lemma find_SomeD:
  assumes "find P xs = Some x"
  shows "x \<in> set xs" and "P x"
  using assms by (induction xs) (auto split: if_splits)

lemma find_NoneD: "find P xs = None \<Longrightarrow> x \<in> set xs \<Longrightarrow> \<not> P x"
  by (induction xs) (auto split: if_splits)

lemma find_cong_on: "(\<And>x. x \<in> set xs \<Longrightarrow> P x = Q x) \<Longrightarrow> find P xs = find Q xs"
  by (induction xs) auto

lemma find_append: "find P (xs @ ys) = (case find P xs of None \<Rightarrow> find P ys | Some x \<Rightarrow> Some x)"
  by (induction xs) auto

text \<open>A key selector that is injective on a list finds every one of its elements.\<close>

lemma find_key:
  assumes "distinct (map k xs)" and "x \<in> set xs"
  shows "find (\<lambda>y. k y = k x) xs = Some x"
  using assms by (induction xs) auto

lemma filter_last_append:
  "filter P (xs @ [x]) = (if P x then filter P xs @ [x] else filter P xs)"
  by simp

lemma last_filter_in:
  assumes "filter P xs \<noteq> []"
  shows "last (filter P xs) \<in> set xs" and "P (last (filter P xs))"
  using last_in_set [OF assms] by auto

lemma sum_list_map_filter_eq_count:
  "length (filter P (map f xs)) = length (filter (P \<circ> f) xs)"
  by (simp add: filter_map)

section \<open>Rows: SQL statements over a table kept as a list\<close>

text \<open>
  A table is the list of its rows in insertion order. \<open>UPDATE \<dots> SET f WHERE P\<close> rewrites the
  rows that satisfy \<open>P\<close> in place; its row count is the number of them.
\<close>

definition update_rows :: "('r \<Rightarrow> bool) \<Rightarrow> ('r \<Rightarrow> 'r) \<Rightarrow> 'r list \<Rightarrow> 'r list" where
  "update_rows P f rows = map (\<lambda>r. if P r then f r else r) rows"

definition count_rows :: "('r \<Rightarrow> bool) \<Rightarrow> 'r list \<Rightarrow> nat" where
  "count_rows P rows = length (filter P rows)"

lemma update_rows_simps [simp]:
  "update_rows P f [] = []"
  "update_rows P f (r # rs) = (if P r then f r else r) # update_rows P f rs"
  by (simp_all add: update_rows_def)

lemma count_rows_simps [simp]:
  "count_rows P [] = 0"
  "count_rows P (r # rs) = (if P r then 1 else 0) + count_rows P rs"
  by (simp_all add: count_rows_def)

lemma count_rows_zero: "count_rows P rs = 0 \<longleftrightarrow> (\<forall>r \<in> set rs. \<not> P r)"
  by (auto simp: count_rows_def filter_empty_conv)

lemma length_update_rows [simp]: "length (update_rows P f rs) = length rs"
  by (simp add: update_rows_def)

lemma in_update_rows:
  "r \<in> set (update_rows P f rs) \<longleftrightarrow> (\<exists>s \<in> set rs. r = (if P s then f s else s))"
  by (auto simp: update_rows_def)

lemma map_update_rows: "(\<And>r. k (f r) = k r) \<Longrightarrow> map k (update_rows P f rs) = map k rs"
  by (induction rs) auto

lemma update_rows_none: "(\<And>r. r \<in> set rs \<Longrightarrow> \<not> P r) \<Longrightarrow> update_rows P f rs = rs"
  by (induction rs) auto

lemma update_rows_twice:
  "(\<And>r. P r \<Longrightarrow> \<not> P (f r)) \<Longrightarrow> update_rows P g (update_rows P f rs) = update_rows P f rs"
  by (induction rs) auto

section \<open>Sums: a Python call that returns or raises\<close>

fun bindE :: "'e + 'a \<Rightarrow> ('a \<Rightarrow> 'e + 'b) \<Rightarrow> 'e + 'b" where
  "bindE (Inl e) k = Inl e"
| "bindE (Inr x) k = k x"

definition is_ok :: "'e + 'a \<Rightarrow> bool" where
  "is_ok r \<longleftrightarrow> (case r of Inl _ \<Rightarrow> False | Inr _ \<Rightarrow> True)"

lemma is_ok_simps [simp]: "is_ok (Inr x)" "\<not> is_ok (Inl e)"
  by (simp_all add: is_ok_def)

lemma bindE_eq_Inr: "bindE r k = Inr y \<longleftrightarrow> (\<exists>x. r = Inr x \<and> k x = Inr y)"
  by (cases r) auto

lemma bindE_InrE:
  assumes "bindE r k = Inr y"
  obtains x where "r = Inr x" and "k x = Inr y"
  using assms by (auto simp: bindE_eq_Inr)

lemma bindE_eq_Inl: "bindE r k = Inl e \<longleftrightarrow> r = Inl e \<or> (\<exists>x. r = Inr x \<and> k x = Inl e)"
  by (cases r) auto

end
