(* ===== verification/Vocabulary.thy ===== *)
theory Vocabulary imports Prelude "HOL-Library.Sublist" begin

text \<open>
  The closed vocabulary of the consent layer, \<open>app/consent/constants.py\<close>: every enumeration
  with the string each member stands for, the purpose each action may be requested under, and
  the normalisation and screening of a declared purpose code.

  The Unicode tables of Python's \<open>unicodedata\<close> and \<open>str.upper\<close> are data of the interpreter,
  not of the repository: they are the record \<open>ucd\<close>, an argument of the definitions that
  use them. \<open>ucd_ascii\<close> states what the standard fixes for ASCII text, and \<open>sample_ucd\<close> is a
  concrete instance with the fullwidth forms and the format characters the source's comments name.
\<close>

section \<open>Enumerations\<close>

datatype grantor_type =
    EXECUTOR | ADMINISTRATOR | BENEFICIARY | SELF_PRE_NEED

primrec grantor_type_value :: "grantor_type \<Rightarrow> pstr" where
  "grantor_type_value EXECUTOR = lit ''EXECUTOR''"
| "grantor_type_value ADMINISTRATOR = lit ''ADMINISTRATOR''"
| "grantor_type_value BENEFICIARY = lit ''BENEFICIARY''"
| "grantor_type_value SELF_PRE_NEED = lit ''SELF_PRE_NEED''"

lemma grantor_type_value_inject [simp]: "grantor_type_value a = grantor_type_value b \<longleftrightarrow> a = b"
  by (cases a; cases b; simp)

definition estate_grantor_types :: "grantor_type set" where
  "estate_grantor_types = {EXECUTOR, ADMINISTRATOR, BENEFICIARY}"

lemma estate_grantor_types_iff [simp]: "g \<in> estate_grantor_types \<longleftrightarrow> g \<noteq> SELF_PRE_NEED"
  by (cases g) (simp_all add: estate_grantor_types_def)

datatype purpose_scope =
    PS_MEMORIAL_VIEW | PS_VOICE_SYNTHESIS | PS_SCRIPT_GENERATION

primrec scope_value :: "purpose_scope \<Rightarrow> pstr" where
  "scope_value PS_MEMORIAL_VIEW = lit ''MEMORIAL_VIEW''"
| "scope_value PS_VOICE_SYNTHESIS = lit ''VOICE_SYNTHESIS''"
| "scope_value PS_SCRIPT_GENERATION = lit ''SCRIPT_GENERATION''"

lemma scope_value_inject [simp]: "scope_value a = scope_value b \<longleftrightarrow> a = b"
  by (cases a; cases b; simp)

text \<open>Scopes are sorted by value wherever the code writes them out.\<close>

instantiation purpose_scope :: linorder
begin

definition less_eq_purpose_scope :: "purpose_scope \<Rightarrow> purpose_scope \<Rightarrow> bool" where
  "less_eq_purpose_scope a b \<longleftrightarrow> scope_value a \<le> scope_value b"

definition less_purpose_scope :: "purpose_scope \<Rightarrow> purpose_scope \<Rightarrow> bool" where
  "less_purpose_scope a b \<longleftrightarrow> scope_value a < scope_value b"

instance
  by standard (auto simp: less_eq_purpose_scope_def less_purpose_scope_def less_le)

end

datatype declared_purpose =
    DP_MEMORIAL_VIEW | DP_VOICE_SYNTHESIS | DP_SCRIPT_GENERATION | DP_DATA_PORTABILITY | DP_ERASURE

primrec declared_value :: "declared_purpose \<Rightarrow> pstr" where
  "declared_value DP_MEMORIAL_VIEW = lit ''MEMORIAL_VIEW''"
| "declared_value DP_VOICE_SYNTHESIS = lit ''VOICE_SYNTHESIS''"
| "declared_value DP_SCRIPT_GENERATION = lit ''SCRIPT_GENERATION''"
| "declared_value DP_DATA_PORTABILITY = lit ''DATA_PORTABILITY''"
| "declared_value DP_ERASURE = lit ''ERASURE''"

lemma declared_value_inject [simp]: "declared_value a = declared_value b \<longleftrightarrow> a = b"
  by (cases a; cases b; simp)

definition all_declared :: "declared_purpose list" where
  "all_declared = [DP_MEMORIAL_VIEW, DP_VOICE_SYNTHESIS, DP_SCRIPT_GENERATION, DP_DATA_PORTABILITY, DP_ERASURE]"

lemma in_all_declared [simp]: "d \<in> set all_declared"
  by (cases d) (simp_all add: all_declared_def)

datatype banned_purpose =
    BP_FINANCIAL | BP_PROPERTY_CLAIM | BP_LEGAL_REPRESENTATION | BP_COMMERCIAL_IMPERSONATION

primrec banned_value :: "banned_purpose \<Rightarrow> pstr" where
  "banned_value BP_FINANCIAL = lit ''FINANCIAL''"
| "banned_value BP_PROPERTY_CLAIM = lit ''PROPERTY_CLAIM''"
| "banned_value BP_LEGAL_REPRESENTATION = lit ''LEGAL_REPRESENTATION''"
| "banned_value BP_COMMERCIAL_IMPERSONATION = lit ''COMMERCIAL_IMPERSONATION''"

lemma banned_value_inject [simp]: "banned_value a = banned_value b \<longleftrightarrow> a = b"
  by (cases a; cases b; simp)

definition all_banned :: "banned_purpose list" where
  "all_banned = [BP_COMMERCIAL_IMPERSONATION, BP_FINANCIAL, BP_LEGAL_REPRESENTATION, BP_PROPERTY_CLAIM]"

lemma in_all_banned [simp]: "b \<in> set all_banned"
  by (cases b) (simp_all add: all_banned_def)

definition banned_purposes :: "pstr set" where
  "banned_purposes = set (map banned_value all_banned)"

datatype consent_action =
    VIEW_MEMORIAL | INITIATE_VOICE_SYNTHESIS | GENERATE_SCRIPT | DELIVER_MESSAGE | EXPORT_DATA
  | DELETE_VOICE_MODEL

primrec action_value :: "consent_action \<Rightarrow> pstr" where
  "action_value VIEW_MEMORIAL = lit ''VIEW_MEMORIAL''"
| "action_value INITIATE_VOICE_SYNTHESIS = lit ''INITIATE_VOICE_SYNTHESIS''"
| "action_value GENERATE_SCRIPT = lit ''GENERATE_SCRIPT''"
| "action_value DELIVER_MESSAGE = lit ''DELIVER_MESSAGE''"
| "action_value EXPORT_DATA = lit ''EXPORT_DATA''"
| "action_value DELETE_VOICE_MODEL = lit ''DELETE_VOICE_MODEL''"

lemma action_value_inject [simp]: "action_value a = action_value b \<longleftrightarrow> a = b"
  by (cases a; cases b; simp)

definition all_actions :: "consent_action list" where
  "all_actions = [VIEW_MEMORIAL, INITIATE_VOICE_SYNTHESIS, GENERATE_SCRIPT, DELIVER_MESSAGE, EXPORT_DATA, DELETE_VOICE_MODEL]"

lemma in_all_actions [simp]: "a \<in> set all_actions"
  by (cases a) (simp_all add: all_actions_def)

text \<open>The one purpose each action may be requested under.\<close>

primrec action_purpose :: "consent_action \<Rightarrow> declared_purpose" where
  "action_purpose VIEW_MEMORIAL = DP_MEMORIAL_VIEW"
| "action_purpose INITIATE_VOICE_SYNTHESIS = DP_VOICE_SYNTHESIS"
| "action_purpose GENERATE_SCRIPT = DP_SCRIPT_GENERATION"
| "action_purpose DELIVER_MESSAGE = DP_VOICE_SYNTHESIS"
| "action_purpose EXPORT_DATA = DP_DATA_PORTABILITY"
| "action_purpose DELETE_VOICE_MODEL = DP_ERASURE"

definition use_actions :: "consent_action set" where
  "use_actions = {VIEW_MEMORIAL, INITIATE_VOICE_SYNTHESIS, GENERATE_SCRIPT, DELIVER_MESSAGE}"

definition rights_actions :: "consent_action set" where
  "rights_actions = set all_actions - use_actions"

definition synthesis_actions :: "consent_action set" where
  "synthesis_actions = use_actions - {VIEW_MEMORIAL}"

lemma use_actions_iff [vocab]: "a \<in> use_actions \<longleftrightarrow> a \<noteq> EXPORT_DATA \<and> a \<noteq> DELETE_VOICE_MODEL"
  by (cases a) (simp_all add: use_actions_def)

lemma rights_actions_iff [vocab]: "a \<in> rights_actions \<longleftrightarrow> a = EXPORT_DATA \<or> a = DELETE_VOICE_MODEL"
  by (auto simp: rights_actions_def use_actions_iff)

lemma synthesis_actions_iff [vocab]: "a \<in> synthesis_actions \<longleftrightarrow> a \<in> use_actions \<and> a \<noteq> VIEW_MEMORIAL"
  by (auto simp: synthesis_actions_def)

datatype audit_event_type =
    CONSENT_CREATED | CONSENT_REVOKED | AUTHORITY_VERIFIED | SYNTHESIS_REQUESTED | SYNTHESIS_BLOCKED
  | MODEL_DELETED | DATA_EXPORTED | PURPOSE_VIOLATION_ATTEMPT | PROFILE_CREATED | DEATH_RECORDED
  | BENEFICIARY_ACKNOWLEDGED | SUCCESSOR_DESIGNATED | AUTHORIZATION_GRANTED | AUTHORIZATION_DENIED
  | DELIVERY_CANCELLED | REVOCATION_CASCADE_COMPLETED

primrec event_value :: "audit_event_type \<Rightarrow> pstr" where
  "event_value CONSENT_CREATED = lit ''CONSENT_CREATED''"
| "event_value CONSENT_REVOKED = lit ''CONSENT_REVOKED''"
| "event_value AUTHORITY_VERIFIED = lit ''AUTHORITY_VERIFIED''"
| "event_value SYNTHESIS_REQUESTED = lit ''SYNTHESIS_REQUESTED''"
| "event_value SYNTHESIS_BLOCKED = lit ''SYNTHESIS_BLOCKED''"
| "event_value MODEL_DELETED = lit ''MODEL_DELETED''"
| "event_value DATA_EXPORTED = lit ''DATA_EXPORTED''"
| "event_value PURPOSE_VIOLATION_ATTEMPT = lit ''PURPOSE_VIOLATION_ATTEMPT''"
| "event_value PROFILE_CREATED = lit ''PROFILE_CREATED''"
| "event_value DEATH_RECORDED = lit ''DEATH_RECORDED''"
| "event_value BENEFICIARY_ACKNOWLEDGED = lit ''BENEFICIARY_ACKNOWLEDGED''"
| "event_value SUCCESSOR_DESIGNATED = lit ''SUCCESSOR_DESIGNATED''"
| "event_value AUTHORIZATION_GRANTED = lit ''AUTHORIZATION_GRANTED''"
| "event_value AUTHORIZATION_DENIED = lit ''AUTHORIZATION_DENIED''"
| "event_value DELIVERY_CANCELLED = lit ''DELIVERY_CANCELLED''"
| "event_value REVOCATION_CASCADE_COMPLETED = lit ''REVOCATION_CASCADE_COMPLETED''"

lemma event_value_inject [simp]: "event_value a = event_value b \<longleftrightarrow> a = b"
  by (cases a; cases b; simp)

datatype revocation_status =
    PENDING | PROCESSING | COMPLETE

primrec revocation_value :: "revocation_status \<Rightarrow> pstr" where
  "revocation_value PENDING = lit ''PENDING''"
| "revocation_value PROCESSING = lit ''PROCESSING''"
| "revocation_value COMPLETE = lit ''COMPLETE''"

lemma revocation_value_inject [simp]: "revocation_value a = revocation_value b \<longleftrightarrow> a = b"
  by (cases a; cases b; simp)

datatype role =
    R_OWNER | R_BENEFICIARY | R_SUCCESSOR | R_ADMIN | R_PUBLIC

primrec role_value :: "role \<Rightarrow> pstr" where
  "role_value R_OWNER = lit ''OWNER''"
| "role_value R_BENEFICIARY = lit ''BENEFICIARY''"
| "role_value R_SUCCESSOR = lit ''SUCCESSOR''"
| "role_value R_ADMIN = lit ''ADMIN''"
| "role_value R_PUBLIC = lit ''PUBLIC''"

lemma role_value_inject [simp]: "role_value a = role_value b \<longleftrightarrow> a = b"
  by (cases a; cases b; simp)

datatype denial_reason =
    PURPOSE_VIOLATION | UNKNOWN_PURPOSE | PURPOSE_ACTION_MISMATCH | PROFILE_NOT_FOUND
  | NON_HUMAN_ACTOR | DECEASED_CANNOT_ACT | SUBJECT_NOT_DECEASED | NO_GRANT | ROLE_NOT_PERMITTED
  | GRANT_REVOKED | GRANT_INACTIVE | AUTHORITY_NOT_VERIFIED | PURPOSE_NOT_IN_SCOPE
  | ACKNOWLEDGMENT_QUORUM_NOT_MET

primrec denial_value :: "denial_reason \<Rightarrow> pstr" where
  "denial_value PURPOSE_VIOLATION = lit ''PURPOSE_VIOLATION''"
| "denial_value UNKNOWN_PURPOSE = lit ''UNKNOWN_PURPOSE''"
| "denial_value PURPOSE_ACTION_MISMATCH = lit ''PURPOSE_ACTION_MISMATCH''"
| "denial_value PROFILE_NOT_FOUND = lit ''PROFILE_NOT_FOUND''"
| "denial_value NON_HUMAN_ACTOR = lit ''NON_HUMAN_ACTOR''"
| "denial_value DECEASED_CANNOT_ACT = lit ''DECEASED_CANNOT_ACT''"
| "denial_value SUBJECT_NOT_DECEASED = lit ''SUBJECT_NOT_DECEASED''"
| "denial_value NO_GRANT = lit ''NO_GRANT''"
| "denial_value ROLE_NOT_PERMITTED = lit ''ROLE_NOT_PERMITTED''"
| "denial_value GRANT_REVOKED = lit ''GRANT_REVOKED''"
| "denial_value GRANT_INACTIVE = lit ''GRANT_INACTIVE''"
| "denial_value AUTHORITY_NOT_VERIFIED = lit ''AUTHORITY_NOT_VERIFIED''"
| "denial_value PURPOSE_NOT_IN_SCOPE = lit ''PURPOSE_NOT_IN_SCOPE''"
| "denial_value ACKNOWLEDGMENT_QUORUM_NOT_MET = lit ''ACKNOWLEDGMENT_QUORUM_NOT_MET''"

lemma denial_value_inject [simp]: "denial_value a = denial_value b \<longleftrightarrow> a = b"
  by (cases a; cases b; simp)

definition public_denial_reasons :: "denial_reason set" where
  "public_denial_reasons = {PURPOSE_VIOLATION, UNKNOWN_PURPOSE, PURPOSE_ACTION_MISMATCH, NON_HUMAN_ACTOR}"

definition generic_public_denial :: pstr where
  "generic_public_denial = lit ''NOT_AUTHORIZED''"

definition genesis_hash :: pstr where
  "genesis_hash = replicate 64 48"

definition unattributed_profile_id :: uuid where
  "unattributed_profile_id = 0"

definition ack_statement_version :: pstr where
  "ack_statement_version = lit ''remembrance-ack/v1''"

section \<open>Purpose codes\<close>

record ucd =
  ucd_nfkc :: "pstr \<Rightarrow> pstr"
  ucd_cf :: "nat \<Rightarrow> bool"
  ucd_upper :: "pstr \<Rightarrow> pstr"

text \<open>White space, as \<open>str.strip\<close> and \<open>\s\<close> in a \<open>str\<close> pattern read it.\<close>

definition py_isspace :: "nat \<Rightarrow> bool" where
  "py_isspace c \<longleftrightarrow> (9 \<le> c \<and> c \<le> 13) \<or> (28 \<le> c \<and> c \<le> 32) \<or> c \<in> {133, 160, 5760} \<or>
     (8192 \<le> c \<and> c \<le> 8202) \<or> c \<in> {8232, 8233, 8239, 8287, 12288}"

definition strip_by :: "(nat \<Rightarrow> bool) \<Rightarrow> pstr \<Rightarrow> pstr" where
  "strip_by P s = rev (dropWhile P (rev (dropWhile P s)))"

text \<open>The class \<open>[\s\-./:]\<close>; each maximal run of it becomes one underscore.\<close>

definition is_separator :: "nat \<Rightarrow> bool" where
  "is_separator c \<longleftrightarrow> py_isspace c \<or> c \<in> {45, 46, 47, 58}"

function sub_separators :: "pstr \<Rightarrow> pstr" where
  "sub_separators [] = []"
| "sub_separators (c # cs) =
     (if is_separator c then 95 # sub_separators (dropWhile is_separator cs) else c # sub_separators cs)"
  by pat_completeness auto
termination
  by (relation "measure length") (auto simp: less_Suc_eq_le length_dropWhile_le)

definition normalize_purpose :: "ucd \<Rightarrow> pstr \<Rightarrow> pstr" where
  "normalize_purpose U code =
     (let text = ucd_nfkc U code;
          text = filter (\<lambda>c. \<not> ucd_cf U c) text;
          text = sub_separators (ucd_upper U (strip_by py_isspace text))
      in strip_by (\<lambda>c. c = 95) text)"

text \<open>\<open>str.split(sep)\<close>: always at least one piece.\<close>

fun split_on :: "nat \<Rightarrow> pstr \<Rightarrow> pstr list" where
  "split_on s [] = [[]]"
| "split_on s (c # cs) =
     (if c = s then [] # split_on s cs
      else (case split_on s cs of [] \<Rightarrow> [[c]] | t # ts \<Rightarrow> (c # t) # ts))"

definition banned_tokens :: "pstr list list" where
  "banned_tokens = map (\<lambda>b. split_on 95 (banned_value b)) all_banned"

definition is_banned_purpose :: "ucd \<Rightarrow> pstr \<Rightarrow> bool" where
  "is_banned_purpose U code =
     (let normalized = normalize_purpose U code; tokens = split_on 95 normalized in
      normalized \<in> banned_purposes \<or>
      list_ex (\<lambda>banned. list_ex (\<lambda>i. take (length banned) (drop i tokens) = banned)
        [0 ..< Suc (length tokens) - length banned]) banned_tokens)"

definition parse_declared_purpose :: "ucd \<Rightarrow> pstr \<Rightarrow> declared_purpose option" where
  "parse_declared_purpose U code = find (\<lambda>d. declared_value d = normalize_purpose U code) all_declared"

section \<open>Screening and normalisation, declaratively\<close>

lemma split_on_nonempty [simp]: "split_on s cs \<noteq> []"
  by (induction cs) (auto split: list.splits)

lemma slices_sublist:
  "list_ex (\<lambda>i. take (length b) (drop i ts) = b) [0 ..< Suc (length ts) - length b] \<longleftrightarrow> sublist b ts"
proof
  assume "list_ex (\<lambda>i. take (length b) (drop i ts) = b) [0 ..< Suc (length ts) - length b]"
  then obtain i where "take (length b) (drop i ts) = b"
    by (auto simp: list_ex_iff)
  then have "ts = take i ts @ b @ drop (length b) (drop i ts)"
    by (metis append_take_drop_id)
  then show "sublist b ts"
    unfolding sublist_def by blast
next
  assume "sublist b ts"
  then obtain ps ss where "ts = ps @ b @ ss"
    unfolding sublist_def by blast
  then have "take (length b) (drop (length ps) ts) = b" and "length ps \<in> set [0 ..< Suc (length ts) - length b]"
    by auto
  then show "list_ex (\<lambda>i. take (length b) (drop i ts) = b) [0 ..< Suc (length ts) - length b]"
    unfolding list_ex_iff by blast
qed

lemma banned_purposes_iff: "n \<in> banned_purposes \<longleftrightarrow> (\<exists>b. n = banned_value b)"
  by (force simp: banned_purposes_def)

lemma is_banned_iff_tokens:
  "is_banned_purpose U code \<longleftrightarrow>
     (\<exists>b. sublist (split_on 95 (banned_value b)) (split_on 95 (normalize_purpose U code)))"
  unfolding is_banned_purpose_def Let_def slices_sublist banned_purposes_iff banned_tokens_def
  by (force simp: list_ex_iff)

lemma parse_declared_SomeD:
  "parse_declared_purpose U code = Some d \<Longrightarrow> normalize_purpose U code = declared_value d"
  unfolding parse_declared_purpose_def by (drule find_SomeD(2)) simp

lemma parse_declared_iff:
  "parse_declared_purpose U code = Some d \<longleftrightarrow> normalize_purpose U code = declared_value d"
proof
  assume "normalize_purpose U code = declared_value d"
  then show "parse_declared_purpose U code = Some d"
    by (cases d) (simp_all add: parse_declared_purpose_def all_declared_def)
qed (rule parse_declared_SomeD)

lemma declared_not_banned: "\<not> sublist (split_on 95 (banned_value b)) (split_on 95 (declared_value d))"
  unfolding slices_sublist [symmetric] by (cases b; cases d) (simp_all add: lit_def upt_rec)

lemma banned_parses_to_None: "is_banned_purpose U code \<Longrightarrow> parse_declared_purpose U code = None"
  using declared_not_banned
  by (cases "parse_declared_purpose U code") (auto simp: is_banned_iff_tokens dest!: parse_declared_SomeD)

subsection \<open>ASCII codes\<close>

definition ascii_upper :: "nat \<Rightarrow> nat" where
  "ascii_upper c = (if 97 \<le> c \<and> c \<le> 122 then c - 32 else c)"

definition is_ascii :: "pstr \<Rightarrow> bool" where
  "is_ascii s \<longleftrightarrow> list_all (\<lambda>c. c < 128) s"

definition ucd_ascii :: "ucd \<Rightarrow> bool" where
  "ucd_ascii U \<longleftrightarrow>
     (\<forall>s. is_ascii s \<longrightarrow> ucd_nfkc U s = s \<and> ucd_upper U s = map ascii_upper s) \<and> (\<forall>c < 128. \<not> ucd_cf U c)"

text \<open>Fullwidth forms fold to ASCII; the soft hyphen, the zero-width and the directional marks, the
  word joiner and the byte-order mark are format characters.\<close>

definition sample_ucd :: ucd where
  "sample_ucd = \<lparr>
     ucd_nfkc = map (\<lambda>c. if 65281 \<le> c \<and> c \<le> 65374 then c - 65248 else c),
     ucd_cf = (\<lambda>c. c = 173 \<or> (8203 \<le> c \<and> c \<le> 8207) \<or> c = 8288 \<or> c = 65279),
     ucd_upper = map ascii_upper \<rparr>"

lemma sample_ucd_ascii: "ucd_ascii sample_ucd"
  unfolding ucd_ascii_def
proof (intro conjI allI impI)
  fix s :: pstr
  assume "is_ascii s"
  then show "ucd_nfkc sample_ucd s = s"
    by (induction s) (auto simp: is_ascii_def sample_ucd_def)
qed (simp_all add: sample_ucd_def)

definition in_normal_form :: "pstr \<Rightarrow> bool" where
  "in_normal_form s \<longleftrightarrow> list_all (\<lambda>c. c < 128 \<and> \<not> is_separator c \<and> ascii_upper c = c) s \<and>
     (s \<noteq> [] \<longrightarrow> hd s \<noteq> 95 \<and> last s \<noteq> 95)"

lemma set_strip_by: "set (strip_by P s) \<subseteq> set s"
proof -
  have "set (dropWhile P t) \<subseteq> set t" for t :: pstr
    by (auto dest: set_dropWhileD)
  then show ?thesis
    unfolding strip_by_def set_rev by (metis order_trans set_rev)
qed

lemma strip_by_ends:
  assumes "strip_by P s \<noteq> []"
  shows "\<not> P (hd (strip_by P s))" and "\<not> P (last (strip_by P s))"
proof -
  let ?t = "dropWhile P s" and ?u = "dropWhile P (rev (dropWhile P s))"
  have u: "?u \<noteq> []"
    using assms by (simp add: strip_by_def)
  then show "\<not> P (last (strip_by P s))"
    by (simp add: strip_by_def last_rev hd_dropWhile)
  have "?t \<noteq> []"
    using u by (metis dropWhile.simps(1) rev.simps(1))
  moreover have "last ?u = last (rev ?t)"
    using u by (metis dropWhile_eq_Nil_conv last_appendR takeWhile_dropWhile_id)
  ultimately show "\<not> P (hd (strip_by P s))"
    using u by (simp add: strip_by_def hd_rev last_rev hd_dropWhile)
qed

lemma strip_by_id:
  assumes "s \<noteq> [] \<Longrightarrow> \<not> P (hd s) \<and> \<not> P (last s)"
  shows "strip_by P s = s"
proof (cases "s = []")
  case False
  with assms have "dropWhile P s = s" and "dropWhile P (rev s) = rev s"
    by (auto simp: dropWhile_eq_self_iff hd_rev)
  then show ?thesis by (simp add: strip_by_def)
qed (simp add: strip_by_def)

lemma sub_separators_chars: "c \<in> set (sub_separators s) \<Longrightarrow> c = 95 \<or> (c \<in> set s \<and> \<not> is_separator c)"
  by (induction s rule: sub_separators.induct) (auto split: if_splits dest: set_dropWhileD)

lemma sub_separators_id: "list_all (\<lambda>c. \<not> is_separator c) s \<Longrightarrow> sub_separators s = s"
  by (induction s) simp_all

lemma space_is_separator: "py_isspace c \<Longrightarrow> is_separator c"
  by (simp add: is_separator_def)

lemma underscore_plain: "\<not> is_separator 95" "ascii_upper 95 = 95"
  by (simp_all add: is_separator_def py_isspace_def ascii_upper_def)

lemma ascii_upper_idem [simp]: "ascii_upper (ascii_upper c) = ascii_upper c"
  unfolding ascii_upper_def by arith

lemma ascii_normalize:
  assumes "ucd_ascii U" and "is_ascii s"
  shows "normalize_purpose U s = strip_by (\<lambda>c. c = 95) (sub_separators (map ascii_upper (strip_by py_isspace s)))"
proof -
  have nfkc: "ucd_nfkc U s = s"
    using assms by (simp add: ucd_ascii_def)
  have cf: "filter (\<lambda>c. \<not> ucd_cf U c) s = s"
    using assms by (auto simp: ucd_ascii_def is_ascii_def list_all_iff intro: filter_True)
  have "is_ascii (strip_by py_isspace s)"
    using assms(2) set_strip_by [of py_isspace s] by (auto simp: is_ascii_def list_all_iff)
  with assms nfkc cf show ?thesis
    by (simp add: normalize_purpose_def Let_def ucd_ascii_def)
qed

lemma normalize_in_normal_form:
  assumes "ucd_ascii U" and "is_ascii s"
  shows "in_normal_form (normalize_purpose U s)"
proof -
  let ?r = "sub_separators (map ascii_upper (strip_by py_isspace s))"
  let ?n = "strip_by (\<lambda>c. c = 95) ?r"
  have "c < 128 \<and> \<not> is_separator c \<and> ascii_upper c = c" if "c \<in> set ?n" for c
  proof -
    have "c \<in> set ?r"
      using that set_strip_by by blast
    then consider "c = 95" | d where "c = ascii_upper d" "d \<in> set s" "\<not> is_separator c"
      using sub_separators_chars [of c] set_strip_by [of py_isspace s] by force
    then show ?thesis
    proof cases
      case 2
      then have "d < 128"
        using assms(2) by (auto simp: is_ascii_def list_all_iff)
      with 2 show ?thesis by (auto simp: ascii_upper_def)
    qed (simp_all add: underscore_plain)
  qed
  then show ?thesis
    unfolding ascii_normalize [OF assms] in_normal_form_def
    using strip_by_ends [of "\<lambda>c. c = 95" ?r] by (auto simp: list_all_iff)
qed

lemma normal_form_fixed:
  assumes "ucd_ascii U" and nf: "in_normal_form n"
  shows "normalize_purpose U n = n"
proof -
  have ascii: "is_ascii n" and sep: "list_all (\<lambda>c. \<not> is_separator c) n" and up: "map ascii_upper n = n"
    using nf by (auto simp: in_normal_form_def is_ascii_def list_all_iff intro: map_idI)
  have "strip_by py_isspace n = n"
    using sep by (intro strip_by_id) (auto simp: list_all_iff dest: space_is_separator)
  moreover have "strip_by (\<lambda>c. c = 95) n = n"
    using nf by (intro strip_by_id) (simp add: in_normal_form_def)
  ultimately show ?thesis
    by (simp add: ascii_normalize [OF assms(1) ascii] up sub_separators_id sep)
qed

end
