(* ===== verification/Text_Json.thy ===== *)
theory Text_Json imports Prelude begin

text \<open>
  The text the ledger hashes: decimal and hexadecimal numerals, \<open>str(UUID)\<close>,
  \<open>datetime.isoformat(timespec="microseconds")\<close> and
  \<open>json.dumps(sort_keys=True, separators=(",", ":"), ensure_ascii=False)\<close>, written out as
  CPython computes them. The lemmas show that each encoding is injective, so a digest of the
  text commits to the value: this is the absence of delimiter ambiguity that
  \<open>app/consent/audit.py\<close> claims for hashing one JSON object.
\<close>

section \<open>Numerals\<close>

fun fixed :: "nat \<Rightarrow> nat \<Rightarrow> nat \<Rightarrow> nat list" where
  "fixed b 0 n = []"
| "fixed b (Suc w) n = fixed b w (n div b) @ [n mod b]"

definition digit_char :: "nat \<Rightarrow> nat" where
  "digit_char d = (if d < 10 then 48 + d else 87 + d)"

definition pad10 :: "nat \<Rightarrow> nat \<Rightarrow> pstr" where
  "pad10 w n = map digit_char (fixed 10 w n)"

definition pad16 :: "nat \<Rightarrow> nat \<Rightarrow> pstr" where
  "pad16 w n = map digit_char (fixed 16 w n)"

fun dec :: "nat \<Rightarrow> pstr" where
  "dec n = (if n < 10 then [48 + n] else dec (n div 10) @ [48 + n mod 10])"

declare dec.simps [simp del]

definition int_str :: "int \<Rightarrow> pstr" where
  "int_str i = (if i < 0 then 45 # dec (nat (- i)) else dec (nat i))"

abbreviation is_digit :: "nat \<Rightarrow> bool" where
  "is_digit c \<equiv> 48 \<le> c \<and> c \<le> 57"

lemma length_fixed [simp]: "length (fixed b w n) = w"
  by (induction w arbitrary: n) auto

lemma fixed_less: "0 < b \<Longrightarrow> d \<in> set (fixed b w n) \<Longrightarrow> d < b"
  by (induction w arbitrary: n) auto

lemma fixed_inject:
  assumes "n < b ^ w" and "m < b ^ w" and "fixed b w n = fixed b w m"
  shows "n = m"
  using assms
proof (induction w arbitrary: n m)
  case 0
  then show ?case by simp
next
  case (Suc w)
  from Suc.prems(3) have "fixed b w (n div b) = fixed b w (m div b)" and eq: "n mod b = m mod b"
    by auto
  moreover have "n div b < b ^ w" and "m div b < b ^ w"
    using Suc.prems(1,2) by (auto simp: less_mult_imp_div_less mult.commute)
  ultimately have "n div b = m div b" by (intro Suc.IH)
  with eq show ?case by (metis div_mult_mod_eq)
qed

lemma digit_char_inject: "digit_char d = digit_char e \<Longrightarrow> d = e"
  by (auto simp: digit_char_def split: if_splits)

lemma map_digit_char_inject: "map digit_char ds = map digit_char es \<Longrightarrow> ds = es"
  by (rule injD [OF inj_mapI]) (auto intro: injI digit_char_inject)

lemma length_pad10 [simp]: "length (pad10 w n) = w"
  by (simp add: pad10_def)

lemma length_pad16 [simp]: "length (pad16 w n) = w"
  by (simp add: pad16_def)

lemma pad10_inject: "n < 10 ^ w \<Longrightarrow> m < 10 ^ w \<Longrightarrow> pad10 w n = pad10 w m \<Longrightarrow> n = m"
  unfolding pad10_def by (blast dest: map_digit_char_inject intro: fixed_inject)

lemma pad16_inject: "n < 16 ^ w \<Longrightarrow> m < 16 ^ w \<Longrightarrow> pad16 w n = pad16 w m \<Longrightarrow> n = m"
  unfolding pad16_def by (blast dest: map_digit_char_inject intro: fixed_inject)

text \<open>Decimal numerals: reading the digits back gives the number.\<close>

definition dec_value :: "pstr \<Rightarrow> nat" where
  "dec_value ds = foldl (\<lambda>a d. 10 * a + (d - 48)) 0 ds"

lemma dec_value_dec: "dec_value (dec n) = n"
proof (induction n rule: dec.induct)
  case (1 n)
  then show ?case
    by (subst dec.simps) (auto simp: dec_value_def)
qed

lemma dec_inject: "dec n = dec m \<Longrightarrow> n = m"
  by (metis dec_value_dec)

lemma dec_digits: "c \<in> set (dec n) \<Longrightarrow> is_digit c"
proof (induction n rule: dec.induct)
  case (1 n)
  then show ?case
    by (subst (asm) dec.simps) (auto split: if_splits)
qed

lemma dec_nonempty [simp]: "dec n \<noteq> []"
  by (subst dec.simps) simp

lemma dec_hd: "is_digit (hd (dec n))"
  using dec_digits [OF hd_in_set [OF dec_nonempty]] .

lemma int_str_nonempty [simp]: "int_str i \<noteq> []"
  by (simp add: int_str_def)

lemma int_str_hd: "hd (int_str i) = 45 \<or> is_digit (hd (int_str i))"
  using dec_hd by (simp add: int_str_def)

lemma dec_head_not_minus: "dec n \<noteq> 45 # s"
  using dec_hd [of n] by auto

text \<open>A numeral ends where the digits end, so it is found again in front of any text that does
  not go on with a digit.\<close>

definition stops :: "pstr \<Rightarrow> bool" where
  "stops r \<longleftrightarrow> (case r of [] \<Rightarrow> True | c # _ \<Rightarrow> \<not> is_digit c)"

lemma stops_simps [simp]: "stops []" "stops (c # r) \<longleftrightarrow> \<not> is_digit c"
  by (simp_all add: stops_def)

lemma digits_takeWhile:
  assumes "\<And>c. c \<in> set ds \<Longrightarrow> is_digit c" and "stops r"
  shows "takeWhile is_digit (ds @ r) = ds"
  using assms by (induction ds) (auto simp: stops_def split: list.splits)

lemma dec_prefix:
  assumes "dec n @ r = dec m @ s" and "stops r" and "stops s"
  shows "n = m \<and> r = s"
proof -
  have "takeWhile is_digit (dec n @ r) = dec n" and "takeWhile is_digit (dec m @ s) = dec m"
    using assms(2,3) dec_digits by (blast intro: digits_takeWhile)+
  with assms(1) have "dec n = dec m" by metis
  with assms(1) show ?thesis by (auto dest: dec_inject)
qed

lemma int_str_prefix:
  assumes eq: "int_str i @ r = int_str j @ s" and st: "stops r" "stops s"
  shows "i = j \<and> r = s"
proof -
  have neq: "45 # x \<noteq> dec n @ y" for x y n
    using dec_hd [of n] by (cases "dec n") auto
  consider "i < 0" "j < 0" | "i < 0" "\<not> j < 0" | "\<not> i < 0" "j < 0" | "\<not> i < 0" "\<not> j < 0"
    by blast
  then show ?thesis
  proof cases
    case 1
    with eq have "dec (nat (- i)) @ r = dec (nat (- j)) @ s" by (simp add: int_str_def)
    from dec_prefix [OF this st] 1 show ?thesis by (simp add: nat_eq_iff)
  next
    case 2
    with eq neq show ?thesis by (simp add: int_str_def)
  next
    case 3
    with eq neq [symmetric] show ?thesis by (simp add: int_str_def)
  next
    case 4
    with eq have "dec (nat i) @ r = dec (nat j) @ s" by (simp add: int_str_def)
    from dec_prefix [OF this st] 4 show ?thesis by (simp add: nat_eq_iff)
  qed
qed

lemma int_str_inject: "int_str i = int_str j \<Longrightarrow> i = j"
  using int_str_prefix [of i "[]" j "[]"] by simp

section \<open>str(UUID)\<close>

text \<open>Thirty-two hexadecimal digits, grouped 8-4-4-4-12.\<close>

definition uuid_str :: "uuid \<Rightarrow> pstr" where
  "uuid_str u = (let h = pad16 32 (unat u) in
     take 8 h @ [45] @ take 4 (drop 8 h) @ [45] @ take 4 (drop 12 h) @ [45] @ take 4 (drop 16 h) @ [45] @ drop 20 h)"

definition unhyphen :: "pstr \<Rightarrow> pstr" where
  "unhyphen s = take 8 s @ take 4 (drop 9 s) @ take 4 (drop 14 s) @ take 4 (drop 19 s) @ drop 24 s"

lemma unhyphen_group:
  assumes "length h = 32"
  shows "unhyphen (take 8 h @ [45] @ take 4 (drop 8 h) @ [45] @ take 4 (drop 12 h) @ [45] @ take 4 (drop 16 h) @ [45] @ drop 20 h) = h"
proof -
  have split: "h = take 8 h @ take 4 (drop 8 h) @ take 4 (drop 12 h) @ take 4 (drop 16 h) @ drop 20 h"
  proof -
    have "drop n h = take 4 (drop n h) @ drop (n + 4) h" for n
      by (metis add.commute append_take_drop_id drop_drop)
    from this [of 8] this [of 12] this [of 16] show ?thesis
      by simp
  qed
  show ?thesis
    using assms split by (simp add: unhyphen_def)
qed

lemma unhyphen_uuid_str: "unhyphen (uuid_str u) = pad16 32 (unat u)"
  by (simp only: uuid_str_def Let_def unhyphen_group length_pad16)

lemma uuid_str_inject [simp]: "uuid_str u = uuid_str v \<longleftrightarrow> u = v"
proof
  assume "uuid_str u = uuid_str v"
  then have eq: "pad16 32 (unat u) = pad16 32 (unat v)"
    by (metis unhyphen_uuid_str)
  have lt: "unat w < 16 ^ 32" for w :: uuid
    using unsigned_less [of w] by simp
  have "unat u = unat v"
    by (rule pad16_inject [OF lt lt eq])
  then show "u = v" by (simp only: word_unat_eq_iff)
qed simp

section \<open>datetime.isoformat\<close>

text \<open>
  The proleptic Gregorian calendar as \<open>Lib/datetime.py\<close> computes it: days are counted
  from 0001-01-01 and split into 400-, 100-, 4- and 1-year cycles. A \<open>datetime\<close> lies in the
  years 1 to 9999 (\<open>representable\<close>).
\<close>

definition min_timestamp :: timestamp where "min_timestamp = -62135596800000000"
definition end_timestamp :: timestamp where "end_timestamp = 253402300800000000"

definition representable :: "timestamp \<Rightarrow> bool" where
  "representable t \<longleftrightarrow> min_timestamp \<le> t \<and> t < end_timestamp"

definition is_leap :: "nat \<Rightarrow> bool" where
  "is_leap y \<longleftrightarrow> y mod 4 = 0 \<and> (y mod 100 \<noteq> 0 \<or> y mod 400 = 0)"

definition days_before_month :: "bool \<Rightarrow> nat \<Rightarrow> nat" where
  "days_before_month leap m =
     [0, 31, 59, 90, 120, 151, 181, 212, 243, 273, 304, 334] ! (m - 1) + (if 2 < m \<and> leap then 1 else 0)"

text \<open>The month of a day of the year is the last month that has begun by then.\<close>

definition month_of :: "bool \<Rightarrow> nat \<Rightarrow> nat" where
  "month_of leap doy =
     (case find (\<lambda>m. days_before_month leap m \<le> doy) [12, 11, 10, 9, 8, 7, 6, 5, 4, 3, 2] of
        Some m \<Rightarrow> m | None \<Rightarrow> 1)"

definition day_of_month :: "bool \<Rightarrow> nat \<Rightarrow> nat" where
  "day_of_month leap doy = doy - days_before_month leap (month_of leap doy) + 1"

text \<open>\<open>n\<close> days after 0001-01-01: the year and the day of the year, counted from 0.\<close>

definition year_day :: "nat \<Rightarrow> nat \<times> nat" where
  "year_day n =
     (let n400 = n div 146097; r = n mod 146097;
          n100 = min 3 (r div 36524); r = r - 36524 * n100;
          n4 = r div 1461; r = r mod 1461;
          n1 = min 3 (r div 365); r = r - 365 * n1
      in (400 * n400 + 100 * n100 + 4 * n4 + n1 + 1, r))"

definition days_before_year :: "nat \<Rightarrow> nat" where
  "days_before_year y = (let p = y - 1 in 365 * p + p div 4 - p div 100 + p div 400)"

definition isoformat :: "timestamp \<Rightarrow> pstr" where
  "isoformat t =
     (let m = nat (t - min_timestamp);
          days = m div 86400000000; us = m mod 86400000000;
          y = fst (year_day days); doy = snd (year_day days)
      in pad10 4 y @ [45] @ pad10 2 (month_of (is_leap y) doy) @ [45] @ pad10 2 (day_of_month (is_leap y) doy) @ [84] @
         pad10 2 (us div 3600000000) @ [58] @ pad10 2 (us div 60000000 mod 60) @ [58] @
         pad10 2 (us div 1000000 mod 60) @ [46] @ pad10 6 (us mod 1000000) @ lit ''+00:00'')"

lemma year_day_recover:
  assumes "year_day n = (y, doy)"
  shows "n = days_before_year y + doy" and "doy < 366" and "1 \<le> y"
proof -
  define n400 r1 where "n400 = n div 146097" and "r1 = n mod 146097"
  define n100 where "n100 = min 3 (r1 div 36524)"
  define r2 where "r2 = r1 - 36524 * n100"
  define n4 r3 where "n4 = r2 div 1461" and "r3 = r2 mod 1461"
  define n1 where "n1 = min 3 (r3 div 365)"
  define r4 where "r4 = r3 - 365 * n1"
  have y: "y = 400 * n400 + 100 * n100 + 4 * n4 + n1 + 1" and doy: "doy = r4"
    using assms by (simp_all only: year_day_def Let_def prod.inject n400_def r1_def n100_def r2_def n4_def r3_def n1_def r4_def)
  have n: "n = 146097 * n400 + r1" and r1: "r1 < 146097"
    by (simp_all add: n400_def r1_def)
  have r1': "r1 = 36524 * n100 + r2" and r2: "r2 \<le> 36524" and n100: "n100 \<le> 3"
    using r1 by (auto simp: r2_def n100_def min_def; arith)+
  have r2': "r2 = 1461 * n4 + r3" and r3: "r3 < 1461" and n4: "n4 \<le> 24"
    using r2 by (auto simp: n4_def r3_def; arith)+
  have r3': "r3 = 365 * n1 + r4" and r4: "r4 < 366" and n1: "n1 \<le> 3"
    using r3 by (auto simp: r4_def n1_def min_def; arith)+
  have p4: "(y - 1) div 4 = 100 * n400 + 25 * n100 + n4"
    using n1 by (simp add: y)
  have p100: "(y - 1) div 100 = 4 * n400 + n100"
    using n1 n4 by (simp add: y)
  have p400: "(y - 1) div 400 = n400"
    using n1 n4 n100 by (simp add: y)
  show "n = days_before_year y + doy"
    unfolding days_before_year_def Let_def p4 p100 p400
    using n r1' r2' r3' by (simp add: y doy)
  show "doy < 366" "1 \<le> y"
    using r4 by (simp_all add: doy y)
qed

definition month_day_ok :: "bool \<Rightarrow> nat \<Rightarrow> bool" where
  "month_day_ok leap doy \<longleftrightarrow>
     month_of leap doy < 100 \<and> day_of_month leap doy < 100 \<and>
     days_before_month leap (month_of leap doy) + day_of_month leap doy = doy + 1"

lemma days_before_month_values:
  "days_before_month leap (Suc 0) = 0" "days_before_month leap 2 = 31"
  "days_before_month leap 3 = (if leap then 60 else 59)" "days_before_month leap 4 = (if leap then 91 else 90)"
  "days_before_month leap 5 = (if leap then 121 else 120)" "days_before_month leap 6 = (if leap then 152 else 151)"
  "days_before_month leap 7 = (if leap then 182 else 181)" "days_before_month leap 8 = (if leap then 213 else 212)"
  "days_before_month leap 9 = (if leap then 244 else 243)" "days_before_month leap 10 = (if leap then 274 else 273)"
  "days_before_month leap 11 = (if leap then 305 else 304)" "days_before_month leap 12 = (if leap then 335 else 334)"
  by (simp_all add: days_before_month_def)

lemma month_of_cases:
  assumes "doy < 366"
  shows "month_of leap doy < 100 \<and> days_before_month leap (month_of leap doy) \<le> doy
    \<and> doy < days_before_month leap (month_of leap doy) + 32"
proof -
  have find: "month_of leap doy = (let b = days_before_month leap in
      if b 12 \<le> doy then 12 else if b 11 \<le> doy then 11 else if b 10 \<le> doy then 10
      else if b 9 \<le> doy then 9 else if b 8 \<le> doy then 8 else if b 7 \<le> doy then 7 else if b 6 \<le> doy then 6
      else if b 5 \<le> doy then 5 else if b 4 \<le> doy then 4 else if b 3 \<le> doy then 3 else if b 2 \<le> doy then 2 else 1)"
    by (simp add: month_of_def Let_def)
  show ?thesis
    using assms unfolding find Let_def
    by (cases leap) (simp_all add: days_before_month_values)
qed

lemma month_day_ok: "doy < 366 \<Longrightarrow> month_day_ok leap doy"
  using month_of_cases [of doy leap] by (auto simp: month_day_ok_def day_of_month_def)

lemma year_day_year_bound: "n < 3652059 \<Longrightarrow> fst (year_day n) < 10000"
  using year_day_recover(1) [of n "fst (year_day n)" "snd (year_day n)"]
  by (simp add: days_before_year_def Let_def)

lemma year_day_inject:
  assumes "fst (year_day m) = fst (year_day n)" and "snd (year_day m) = snd (year_day n)"
  shows "m = n"
  using assms year_day_recover(1) [of m] year_day_recover(1) [of n] by (metis prod.collapse)

lemma time_of_day_inject:
  fixes u v :: nat
  assumes "u div 3600000000 = v div 3600000000" and "u div 60000000 mod 60 = v div 60000000 mod 60"
    and "u div 1000000 mod 60 = v div 1000000 mod 60" and "u mod 1000000 = v mod 1000000"
  shows "u = v"
proof -
  have split: "w = 1000000 * (60 * (60 * (w div 3600000000) + w div 60000000 mod 60) + w div 1000000 mod 60)
      + w mod 1000000" for w :: nat
  proof -
    have "w div 60000000 = w div 1000000 div 60" and "w div 3600000000 = w div 60000000 div 60"
      by (simp_all flip: div_mult2_eq)
    then show ?thesis
      by (metis mult_div_mod_eq)
  qed
  show ?thesis
    using split [of u] split [of v] assms by metis
qed

lemma isoformat_inject:
  assumes rep: "representable t" "representable s" and eq: "isoformat t = isoformat s"
  shows "t = s"
proof -
  define days us where "days x = nat (x - min_timestamp) div 86400000000"
    and "us x = nat (x - min_timestamp) mod 86400000000" for x
  define y doy where "y x = fst (year_day (days x))" and "doy x = snd (year_day (days x))" for x
  let ?m = "\<lambda>x. month_of (is_leap (y x)) (doy x)" and ?d = "\<lambda>x. day_of_month (is_leap (y x)) (doy x)"
  have iso: "isoformat x = pad10 4 (y x) @ [45] @ pad10 2 (?m x) @ [45] @ pad10 2 (?d x) @ [84] @
      pad10 2 (us x div 3600000000) @ [58] @ pad10 2 (us x div 60000000 mod 60) @ [58] @
      pad10 2 (us x div 1000000 mod 60) @ [46] @ pad10 6 (us x mod 1000000) @ lit ''+00:00''" for x
    by (simp add: isoformat_def Let_def y_def doy_def days_def us_def)
  have days: "days x < 3652059" if "representable x" for x
    using that by (auto simp: representable_def days_def min_timestamp_def end_timestamp_def
        less_mult_imp_div_less nat_less_iff)
  have yb: "y x < 10 ^ 4" if "representable x" for x
    using year_day_year_bound [OF days [OF that]] by (simp add: y_def)
  have ok: "month_day_ok (is_leap (y x)) (doy x)" for x
    by (rule month_day_ok) (auto simp: doy_def intro: year_day_recover(2) [of "days x" "y x"] simp: y_def)
  have md: "?m x < 10 ^ 2" "?d x < 10 ^ 2" for x
    using ok [of x] by (simp_all add: month_day_ok_def)
  have us: "us x < 86400000000" for x
    by (simp add: us_def)
  have hms: "us x div 3600000000 < 10 ^ 2" "us x div 60000000 mod 60 < 10 ^ 2"
    "us x div 1000000 mod 60 < 10 ^ 2" "us x mod 1000000 < 10 ^ 6" for x
    using us [of x] by (auto simp: less_mult_imp_div_less)
  note eqs = eq [unfolded iso, simplified append_eq_append_conv length_pad10, simplified]
  have y: "y t = y s"
    by (rule pad10_inject [OF yb [OF rep(1)] yb [OF rep(2)]]) (use eqs in \<open>elim conjE\<close>)
  have m: "?m t = ?m s"
    by (rule pad10_inject [OF md(1) md(1)]) (use eqs in \<open>elim conjE\<close>)
  have d: "?d t = ?d s"
    by (rule pad10_inject [OF md(2) md(2)]) (use eqs in \<open>elim conjE\<close>)
  have sum: "doy x + 1 = days_before_month (is_leap (y x)) (?m x) + ?d x" for x
    using ok [of x] unfolding month_day_ok_def by (elim conjE) (rule sym)
  have "doy t + 1 = days_before_month (is_leap (y s)) (?m s) + ?d s"
    by (rule trans [OF sum [of t]]) (subst m, subst d, subst y, rule refl)
  then have "doy t = doy s"
    unfolding sum [of s, symmetric] by (rule add_right_imp_eq)
  with y have days_eq: "days t = days s"
    unfolding y_def doy_def by (rule year_day_inject)
  have "us t div 3600000000 = us s div 3600000000"
    by (rule pad10_inject [OF hms(1) hms(1)]) (use eqs in \<open>elim conjE\<close>)
  moreover have "us t div 60000000 mod 60 = us s div 60000000 mod 60"
    by (rule pad10_inject [OF hms(2) hms(2)]) (use eqs in \<open>elim conjE\<close>)
  moreover have "us t div 1000000 mod 60 = us s div 1000000 mod 60"
    by (rule pad10_inject [OF hms(3) hms(3)]) (use eqs in \<open>elim conjE\<close>)
  moreover have "us t mod 1000000 = us s mod 1000000"
    by (rule pad10_inject [OF hms(4) hms(4)]) (use eqs in \<open>elim conjE\<close>)
  ultimately have us_eq: "us t = us s"
    by (rule time_of_day_inject)
  have "nat (t - min_timestamp) = nat (s - min_timestamp)"
    using days_eq us_eq unfolding days_def us_def by (metis div_mult_mod_eq)
  with rep show ?thesis by (simp add: representable_def eq_nat_nat_iff)
qed

section \<open>json.dumps\<close>

text \<open>JSON documents. An object keeps its items in insertion order, as a \<open>dict\<close> does.
  \<open>sort_keys\<close> orders the items of every object by key; equal dicts have the same sorted form.\<close>

datatype json =
    JNull
  | JBool bool
  | JInt int
  | JStr pstr
  | JList "json list"
  | JObj "(pstr \<times> json) list"

primrec canon :: "json \<Rightarrow> json" where
  "canon JNull = JNull"
| "canon (JBool b) = JBool b"
| "canon (JInt i) = JInt i"
| "canon (JStr s) = JStr s"
| "canon (JList xs) = JList (map canon xs)"
| "canon (JObj kvs) = JObj (sort_key fst (map (map_prod id canon) kvs))"

text \<open>\<open>json.encoder.ESCAPE_DCT\<close> with \<open>ensure_ascii=False\<close>: the quote, the backslash and the
  control characters below 32 are escaped, everything else is kept.\<close>

definition esc :: "nat \<Rightarrow> pstr" where
  "esc c = (if c = 34 then [92, 34] else if c = 92 then [92, 92]
     else if c = 8 then [92, 98] else if c = 12 then [92, 102]
     else if c = 10 then [92, 110] else if c = 13 then [92, 114] else if c = 9 then [92, 116]
     else if c < 32 then [92, 117, 48, 48] @ pad16 2 c else [c])"

definition json_str :: "pstr \<Rightarrow> pstr" where
  "json_str s = 34 # concat (map esc s) @ [34]"

definition commas :: "pstr list \<Rightarrow> pstr" where
  "commas ts = (case ts of [] \<Rightarrow> [] | t # us \<Rightarrow> t @ concat (map (\<lambda>u. 44 # u) us))"

primrec enc :: "json \<Rightarrow> pstr" where
  "enc JNull = lit ''null''"
| "enc (JBool b) = (if b then lit ''true'' else lit ''false'')"
| "enc (JInt i) = int_str i"
| "enc (JStr s) = json_str s"
| "enc (JList xs) = 91 # commas (map enc xs) @ [93]"
| "enc (JObj kvs) = 123 # commas (map (\<lambda>p. json_str (fst p) @ 58 # snd p) (map (map_prod id enc) kvs)) @ [125]"

definition canonical_json :: "json \<Rightarrow> pstr" where
  "canonical_json v = enc (canon v)"

subsection \<open>The encoding is injective\<close>

text \<open>Every escape is found again at the head of any text, and none begins with a quote.\<close>

lemma pad16_2: "pad16 2 c = [digit_char (c div 16 mod 16), digit_char (c mod 16)]"
  by (simp add: pad16_def numeral_2_eq_2)

lemma esc_not_quote: "esc c @ x \<noteq> 34 # y"
  by (simp add: esc_def)

definition hex_value :: "nat \<Rightarrow> nat" where
  "hex_value d = (if d < 58 then d - 48 else d - 87)"

definition unesc :: "pstr \<Rightarrow> nat \<times> pstr" where
  "unesc t = (if hd t \<noteq> 92 then (hd t, tl t)
     else (let k = t ! 1; r = drop 2 t in
       if k = 34 then (34, r) else if k = 92 then (92, r) else if k = 98 then (8, r)
       else if k = 102 then (12, r) else if k = 110 then (10, r) else if k = 114 then (13, r)
       else if k = 116 then (9, r) else (16 * hex_value (t ! 4) + hex_value (t ! 5), drop 6 t)))"

lemma hex_value_digit_char: "hex_value (digit_char d) = d"
  by (simp add: hex_value_def digit_char_def)

lemma unesc_esc: "unesc (esc c @ x) = (c, x)"
proof -
  consider "c = 34" | "c = 92" | "c = 8" | "c = 12" | "c = 10" | "c = 13" | "c = 9"
    | "c < 32" "c \<notin> {8, 12, 10, 13, 9}" | "\<not> c < 32" "c \<noteq> 34" "c \<noteq> 92"
    by blast
  then show ?thesis
  proof cases
    case 8
    then have "esc c = [92, 117, 48, 48, digit_char (c div 16 mod 16), digit_char (c mod 16)]"
      by (simp add: esc_def pad16_2)
    moreover have "16 * (c div 16 mod 16) + c mod 16 = c"
      using 8 by simp
    ultimately show ?thesis by (simp add: unesc_def hex_value_digit_char)
  qed (simp_all add: unesc_def esc_def)
qed

lemma esc_prefix: "esc c @ x = esc d @ y \<Longrightarrow> c = d \<and> x = y"
  by (metis unesc_esc prod.inject)

lemma escaped_prefix:
  "concat (map esc s) @ 34 # x = concat (map esc t) @ 34 # y \<Longrightarrow> s = t \<and> x = y"
proof (induction s arbitrary: t)
  case Nil
  then show ?case
    using esc_not_quote by (cases t) (auto dest: sym)
next
  case (Cons c s)
  show ?case
  proof (cases t)
    case Nil
    with Cons.prems show ?thesis
      using esc_not_quote by auto
  next
    case (Cons d t')
    with Cons.prems esc_prefix [of c _ d] have "c = d"
      and "concat (map esc s) @ 34 # x = concat (map esc t') @ 34 # y"
      by fastforce+
    with Cons.IH Cons show ?thesis by blast
  qed
qed

lemma json_str_prefix: "json_str s @ x = json_str t @ y \<Longrightarrow> s = t \<and> x = y"
  using escaped_prefix [of s x t y] by (simp add: json_str_def)

text \<open>A code: \<open>f\<close> can be read back in front of any text that does not go on with a digit.\<close>

definition readable :: "('a \<Rightarrow> pstr) \<Rightarrow> 'a \<Rightarrow> bool" where
  "readable f a \<longleftrightarrow> (\<forall>b x y. stops x \<longrightarrow> stops y \<longrightarrow> f a @ x = f b @ y \<longrightarrow> a = b \<and> x = y)"

lemma readableD: "readable f a \<Longrightarrow> f a @ x = f b @ y \<Longrightarrow> stops x \<Longrightarrow> stops y \<Longrightarrow> a = b \<and> x = y"
  unfolding readable_def by blast

lemma comma_tail_prefix:
  assumes "\<And>a. a \<in> set as \<Longrightarrow> readable f a" and "c \<noteq> 44" and "\<not> is_digit c"
    and "concat (map (\<lambda>a. 44 # f a) as) @ c # x = concat (map (\<lambda>a. 44 # f a) bs) @ c # y"
  shows "as = bs \<and> x = y"
  using assms
proof (induction as arbitrary: bs)
  case Nil
  then show ?case by (cases bs) auto
next
  case (Cons a as)
  note IH = Cons.IH [OF Cons.prems(1) Cons.prems(2,3)]
  obtain b bs' where bs: "bs = b # bs'"
    using Cons.prems by (cases bs) auto
  have st: "stops (concat (map (\<lambda>a. 44 # f a) ds) @ c # z)" for ds z
    using Cons.prems(3) by (cases ds) auto
  have "f a @ concat (map (\<lambda>a. 44 # f a) as) @ c # x = f b @ concat (map (\<lambda>a. 44 # f a) bs') @ c # y"
    using Cons.prems(4) by (simp add: bs)
  with Cons.prems(1) st have "a = b" and "concat (map (\<lambda>a. 44 # f a) as) @ c # x = concat (map (\<lambda>a. 44 # f a) bs') @ c # y"
    by (auto dest!: readableD [of f a])
  with IH bs show ?case by simp
qed

lemma commas_prefix:
  assumes read: "\<And>a. a \<in> set as \<Longrightarrow> readable f a" and c: "c \<noteq> 44" "\<not> is_digit c"
    and first: "\<And>a z w. f a @ z \<noteq> c # w"
    and eq: "commas (map f as) @ c # x = commas (map f bs) @ c # y"
  shows "as = bs \<and> x = y"
proof (cases as)
  case Nil
  with eq first show ?thesis by (cases bs) (auto simp: commas_def dest: sym)
next
  case (Cons a as')
  with eq first obtain b bs' where bs: "bs = b # bs'"
    by (cases bs) (auto simp: commas_def)
  have st: "stops (concat (map (\<lambda>a. 44 # f a) ds) @ c # z)" for ds z
    using c by (cases ds) auto
  have "f a @ concat (map (\<lambda>a. 44 # f a) as') @ c # x = f b @ concat (map (\<lambda>a. 44 # f a) bs') @ c # y"
    using eq by (simp add: Cons bs commas_def comp_def)
  with read Cons st have "a = b" and "concat (map (\<lambda>a. 44 # f a) as') @ c # x = concat (map (\<lambda>a. 44 # f a) bs') @ c # y"
    by (auto dest!: readableD [of f a])
  with comma_tail_prefix [of as' f c x bs' y] read c Cons bs show ?thesis by simp
qed

lemma lit_Cons: "lit (c # s) = of_char c # lit s"
  by (simp add: lit_def)

lemma int_str_cons: "int_str i @ x = c # y \<Longrightarrow> c = 45 \<or> is_digit c"
  using int_str_hd [of i] by (cases "int_str i") auto

lemma enc_first: "enc v @ x = c # y \<Longrightarrow> c \<notin> {93, 125, 44, 58}"
  by (cases v) (auto simp: json_str_def lit_Cons dest!: int_str_cons split: if_splits)

abbreviation item :: "pstr \<times> json \<Rightarrow> pstr" where
  "item p \<equiv> json_str (fst p) @ 58 # enc (snd p)"

lemma enc_JObj: "enc (JObj kvs) = 123 # commas (map item kvs) @ [125]"
  by (simp add: comp_def)

lemma readable_item:
  assumes "readable enc (snd p)"
  shows "readable item p"
  unfolding readable_def
proof (intro allI impI)
  fix q x y
  assume st: "stops x" "stops y" and "item p @ x = item q @ y"
  then have "json_str (fst p) @ 58 # enc (snd p) @ x = json_str (fst q) @ 58 # enc (snd q) @ y"
    by simp
  from json_str_prefix [OF this] have fst: "fst p = fst q" and "enc (snd p) @ x = enc (snd q) @ y"
    by auto
  from readableD [OF assms this(2) st] fst show "p = q \<and> x = y"
    by (simp add: prod_eq_iff)
qed

lemma enc_readable: "readable enc v"
proof (induction v)
  case JNull
  then show ?case
    unfolding readable_def
  proof (intro allI impI)
    fix b x y
    assume "enc JNull @ x = enc b @ y"
    then show "JNull = b \<and> x = y"
      by (cases b) (auto simp: json_str_def lit_Cons dest: int_str_cons [OF sym] split: if_splits)
  qed
next
  case (JBool a)
  then show ?case
    unfolding readable_def
  proof (intro allI impI)
    fix b x y
    assume "enc (JBool a) @ x = enc b @ y"
    then show "JBool a = b \<and> x = y"
      by (cases b) (auto simp: json_str_def lit_Cons dest: int_str_cons [OF sym] split: if_splits)
  qed
next
  case (JInt i)
  then show ?case
    unfolding readable_def
  proof (intro allI impI)
    fix b x y
    assume "stops x" "stops y" "enc (JInt i) @ x = enc b @ y"
    then show "JInt i = b \<and> x = y"
      by (cases b) (auto simp: json_str_def lit_Cons dest: int_str_cons int_str_prefix split: if_splits)
  qed
next
  case (JStr s)
  then show ?case
    unfolding readable_def
  proof (intro allI impI)
    fix b x y
    assume eq: "enc (JStr s) @ x = enc b @ y"
    then show "JStr s = b \<and> x = y"
      using json_str_prefix [of s x _ y]
      by (cases b) (auto simp: json_str_def [of s] lit_Cons dest: int_str_cons [OF sym] split: if_splits)
  qed
next
  case (JList vs)
  show ?case
    unfolding readable_def
  proof (intro allI impI)
    fix b x y
    assume eq: "enc (JList vs) @ x = enc b @ y"
    then obtain ws where b: "b = JList ws"
      by (cases b) (auto simp: json_str_def lit_Cons dest: int_str_cons [OF sym] split: if_splits)
    with eq have comm: "commas (map enc vs) @ 93 # x = commas (map enc ws) @ 93 # y"
      by simp
    have first: "enc a @ z \<noteq> 93 # w" for a z w
      using enc_first [of a z 93 w] by auto
    from commas_prefix [of vs enc 93 x ws y, OF JList.IH _ _ first comm] b
    show "JList vs = b \<and> x = y" by simp
  qed
next
  case (JObj kvs)
  show ?case
    unfolding readable_def
  proof (intro allI impI)
    fix b x y
    assume eq: "enc (JObj kvs) @ x = enc b @ y"
    then obtain lvs where b: "b = JObj lvs"
      by (cases b) (auto simp: json_str_def lit_Cons dest: int_str_cons [OF sym] split: if_splits)
    with eq have comm: "commas (map item kvs) @ 125 # x = commas (map item lvs) @ 125 # y"
      unfolding b enc_JObj by simp
    have rd: "readable item p" if "p \<in> set kvs" for p
      using that JObj.IH [of p "snd p"] by (intro readable_item) (cases p; auto)
    from commas_prefix [of kvs item 125 x lvs y, OF rd _ _ _ comm] show "JObj kvs = b \<and> x = y"
      by (simp add: json_str_def b)
  qed
qed

lemma enc_inject [simp]: "enc v = enc w \<longleftrightarrow> v = w"
  using readableD [OF enc_readable, of v "[]" w "[]"] by auto

text \<open>Two documents have the same canonical text exactly when they are equal up to the order of
  the items of their objects, which is when Python's \<open>==\<close> holds between them.\<close>

lemma canonical_json_eq [simp]: "canonical_json v = canonical_json w \<longleftrightarrow> canon v = canon w"
  by (simp add: canonical_json_def)

section \<open>UTF-8\<close>

text \<open>\<open>str.encode()\<close> raises on a lone surrogate; \<open>utf8_length\<close> is the number of bytes.\<close>

definition is_surrogate :: "nat \<Rightarrow> bool" where
  "is_surrogate c \<longleftrightarrow> 55296 \<le> c \<and> c \<le> 57343"

definition utf8_width :: "nat \<Rightarrow> nat" where
  "utf8_width c = (if c < 128 then 1 else if c < 2048 then 2 else if c < 65536 then 3 else 4)"

definition utf8_length :: "pstr \<Rightarrow> nat" where
  "utf8_length s = sum_list (map utf8_width s)"

text \<open>The bytes themselves, of a text without surrogates.\<close>

definition utf8_char :: "nat \<Rightarrow> nat list" where
  "utf8_char c = (if c < 128 then [c] else if c < 2048 then [192 + c div 64, 128 + c mod 64]
     else if c < 65536 then [224 + c div 4096, 128 + c div 64 mod 64, 128 + c mod 64]
     else [240 + c div 262144, 128 + c div 4096 mod 64, 128 + c div 64 mod 64, 128 + c mod 64])"

definition utf8 :: "pstr \<Rightarrow> nat list" where
  "utf8 s = concat (map utf8_char s)"

lemma length_utf8: "length (utf8 s) = utf8_length s"
  by (induction s) (simp_all add: utf8_def utf8_length_def utf8_char_def utf8_width_def)

lemma utf8_simps [simp]: "utf8 [] = []" "utf8 (c # s) = utf8_char c @ utf8 s" "utf8 (s @ t) = utf8 s @ utf8 t"
  by (simp_all add: utf8_def)

lemma utf8_ascii: "(\<And>c. c \<in> set s \<Longrightarrow> c < 128) \<Longrightarrow> utf8 s = s"
  by (induction s) (simp_all add: utf8_char_def)

end
