(* ===== verification/Schema.thy ===== *)
theory Schema imports Vocabulary Text_Json "HOL-Library.Product_Lexorder" begin

text \<open>
  The tables of the consent kernel (\<open>app/consent/models.py\<close>, \<open>app/successors/models.py\<close>,
  \<open>app/downstream/models.py\<close>), their CHECK, UNIQUE and FOREIGN KEY constraints and the two row
  triggers that \<open>migrations/versions/0001_consent_kernel_v1.py\<close> installs on PostgreSQL.

  A table is the list of its rows in insertion order. A write is a function to \<open>error + consent_db\<close>:
  the database refuses a row that violates a constraint, and the whole transaction then rolls back,
  so an error carries no state. Column widths are not modelled, and \<open>rr_last_error\<close> holds the
  exception itself where the column holds its text.
\<close>

section \<open>Errors\<close>

text \<open>Whatever a unit of work can raise. An \<open>ApiError\<close> has its status, code, message and
  details (\<open>app/errors.py\<close>); the other constructors are Python and database exceptions.\<close>

datatype error =
    ApiError nat pstr pstr "(pstr \<times> json) list"
  | AuditPayloadError pstr
  | UnicodeEncodeError
  | IntegrityError string
  | GuardError string
  | PurposeViolationError pstr nat
  | CascadeError "(pstr \<times> nat) list"
  | PermanentCascadeError pstr
  | StorageError pstr
  | OsError pstr
  | AssertionError
  | ValueError pstr
  | NoResultFound

definition api_error :: "nat \<Rightarrow> string \<Rightarrow> string \<Rightarrow> error" where
  "api_error s code message = ApiError s (lit code) (lit message) []"

definition not_found :: "string \<Rightarrow> error" where
  "not_found what = ApiError 404 (lit ''NOT_FOUND'') (lit what @ lit '' not found'') []"

text \<open>\<open>app/errors.py\<close> and the exception handlers of \<open>app/main.py\<close>: the status and the
  body of the response an escaping exception becomes. \<open>repr\<close> is Python's, of a string.\<close>

definition error_body :: "(pstr \<Rightarrow> pstr) \<Rightarrow> error \<Rightarrow> nat \<times> json" where
  "error_body repr e = (case e of
       ApiError s code message details \<Rightarrow>
         (s, JObj [(lit ''error'', JObj ([(lit ''code'', JStr code), (lit ''message'', JStr message)] @ details))])
     | PurposeViolationError code event_id \<Rightarrow>
         (403, JObj [(lit ''error'', JObj [(lit ''code'', JStr (lit ''PURPOSE_VIOLATION'')),
            (lit ''message'', JStr (lit ''purpose '' @ repr code @ lit '' is prohibited on this platform'')),
            (lit ''audit_event_id'', JInt (int event_id))])])
     | IntegrityError _ \<Rightarrow>
         (409, JObj [(lit ''error'', JObj [(lit ''code'', JStr (lit ''CONFLICT'')),
            (lit ''message'', JStr (lit ''the request conflicts with the current state''))])])
     | _ \<Rightarrow> (500, JNull))"

section \<open>Rows\<close>

record deceased_profile =
  p_id :: uuid
  p_full_name :: pstr
  p_date_of_birth :: "day option"
  p_date_of_death :: "day option"
  p_jurisdiction :: pstr
  p_created_at :: timestamp

record consent_grant =
  g_id :: uuid
  g_profile_id :: uuid
  g_grantor_type :: grantor_type
  g_grantor_user_id :: pstr
  g_grantor_legal_name :: pstr
  g_grantor_contact_email :: pstr
  g_document_url :: pstr
  g_verified_at :: "timestamp option"
  g_verified_by :: "pstr option"
  g_purpose_scope :: "purpose_scope set"
  g_required_acks :: "int option"
  g_is_active :: bool
  g_granted_at :: timestamp
  g_revoked_at :: "timestamp option"
  g_revocation_reason :: "pstr option"

record grant_beneficiary =
  gb_id :: uuid
  gb_grant_id :: uuid
  gb_name :: pstr
  gb_email :: pstr
  gb_created_at :: timestamp

record beneficiary_ack =
  ba_id :: uuid
  ba_grant_id :: uuid
  ba_name :: pstr
  ba_email :: pstr
  ba_signature_hash :: pstr
  ba_at :: timestamp

record audit_event =
  ae_id :: nat
  ae_type :: audit_event_type
  ae_actor_id :: pstr
  ae_grant_id :: "uuid option"
  ae_profile_id :: uuid
  ae_payload :: json
  ae_previous_hash :: pstr
  ae_hash :: pstr
  ae_created_at :: timestamp

record revocation_request =
  rr_id :: uuid
  rr_grant_id :: uuid
  rr_requested_by :: pstr
  rr_reason :: pstr
  rr_status :: revocation_status
  rr_created_at :: timestamp
  rr_updated_at :: timestamp
  rr_attempts :: nat
  rr_last_error :: "error option"
  rr_completed_at :: "timestamp option"

record auth_token =
  at_jti :: uuid
  at_grant_id :: "uuid option"
  at_profile_id :: uuid
  at_action :: consent_action
  at_purpose :: pstr
  at_actor_id :: pstr
  at_issued_at :: timestamp
  at_expires_at :: timestamp
  at_revoked_at :: "timestamp option"

record successor_designation =
  sd_id :: uuid
  sd_profile_id :: uuid
  sd_user_id :: pstr
  sd_priority :: int
  sd_at :: timestamp
  sd_by :: pstr

datatype delivery_status = SCHEDULED | SENT | CANCELLED | FAILED

primrec delivery_value :: "delivery_status \<Rightarrow> pstr" where
  "delivery_value SCHEDULED = lit ''SCHEDULED''"
| "delivery_value SENT = lit ''SENT''"
| "delivery_value CANCELLED = lit ''CANCELLED''"
| "delivery_value FAILED = lit ''FAILED''"

record voice_model =
  vm_id :: uuid
  vm_grant_id :: uuid
  vm_profile_id :: uuid
  vm_storage_key :: "pstr option"
  vm_created_at :: timestamp
  vm_deleted_at :: "timestamp option"

record audio_artifact =
  aa_id :: uuid
  aa_grant_id :: uuid
  aa_voice_model_id :: "uuid option"
  aa_storage_key :: "pstr option"
  aa_created_at :: timestamp
  aa_deleted_at :: "timestamp option"

record scheduled_delivery =
  de_id :: uuid
  de_grant_id :: uuid
  de_audio_id :: "uuid option"
  de_scheduled_for :: timestamp
  de_status :: delivery_status
  de_cancelled_at :: "timestamp option"

record consent_db =
  profiles :: "deceased_profile list"
  grants :: "consent_grant list"
  beneficiaries :: "grant_beneficiary list"
  acknowledgments :: "beneficiary_ack list"
  events :: "audit_event list"
  requests :: "revocation_request list"
  tokens :: "auth_token list"
  successors :: "successor_designation list"
  voice_models :: "voice_model list"
  audio_artifacts :: "audio_artifact list"
  deliveries :: "scheduled_delivery list"

definition empty_db :: consent_db where
  "empty_db = \<lparr> profiles = [], grants = [], beneficiaries = [], acknowledgments = [], events = [],
     requests = [], tokens = [], successors = [], voice_models = [], audio_artifacts = [], deliveries = [] \<rparr>"

text \<open>\<open>PurposeScopeSet\<close> stores a sorted, duplicate-free list of values.\<close>

definition scope_list :: "purpose_scope set \<Rightarrow> purpose_scope list" where
  "scope_list S = filter (\<lambda>s. s \<in> S) [PS_MEMORIAL_VIEW, PS_SCRIPT_GENERATION, PS_VOICE_SYNTHESIS]"

lemma set_scope_list [simp]: "set (scope_list S) = S"
proof (rule set_eqI)
  show "s \<in> set (scope_list S) \<longleftrightarrow> s \<in> S" for s
    by (cases s) (simp_all add: scope_list_def)
qed

lemma scope_order: "PS_MEMORIAL_VIEW < PS_SCRIPT_GENERATION" "PS_SCRIPT_GENERATION < PS_VOICE_SYNTHESIS"
  by (simp_all add: less_purpose_scope_def lit_def)

lemma scope_list_sorted: "sorted (scope_list S)" and scope_list_distinct: "distinct (scope_list S)"
  unfolding scope_list_def using scope_order by (auto intro!: sorted_wrt_filter)

lemma scope_list_eq: "scope_list S = sorted_list_of_set S"
  using scope_list_sorted scope_list_distinct
  by (metis set_scope_list sorted_list_of_set.idem_if_sorted_distinct)

section \<open>Constraints\<close>

text \<open>The CHECK constraints of each table. SQL reads a NULL comparison as satisfied.\<close>

definition profile_check :: "deceased_profile \<Rightarrow> bool" where
  "profile_check p \<longleftrightarrow>
     (case (p_date_of_birth p, p_date_of_death p) of (Some b, Some d) \<Rightarrow> b \<le> d | _ \<Rightarrow> True) \<and>
     p_full_name p \<noteq> []"

definition grant_check :: "consent_grant \<Rightarrow> bool" where
  "grant_check g \<longleftrightarrow>
     (g_revoked_at g = None \<or> \<not> g_is_active g) \<and>
     ((g_verified_at g = None) = (g_verified_by g = None)) \<and>
     (g_revocation_reason g = None \<or> g_revoked_at g \<noteq> None) \<and>
     (case g_required_acks g of None \<Rightarrow> True | Some n \<Rightarrow> 0 \<le> n) \<and>
     g_purpose_scope g \<noteq> {}"

definition ack_check :: "beneficiary_ack \<Rightarrow> bool" where
  "ack_check a \<longleftrightarrow> length (ba_signature_hash a) = 64"

definition event_check :: "audit_event \<Rightarrow> bool" where
  "event_check e \<longleftrightarrow> length (ae_previous_hash e) = 64 \<and> length (ae_hash e) = 64"

definition request_check :: "revocation_request \<Rightarrow> bool" where
  "request_check r \<longleftrightarrow> (rr_status r = COMPLETE) = (rr_completed_at r \<noteq> None)"

definition token_check :: "auth_token \<Rightarrow> bool" where
  "token_check t \<longleftrightarrow> at_issued_at t < at_expires_at t"

definition successor_check :: "successor_designation \<Rightarrow> bool" where
  "successor_check s \<longleftrightarrow> 1 \<le> sd_priority s"

definition voice_check :: "voice_model \<Rightarrow> bool" where
  "voice_check m \<longleftrightarrow> vm_deleted_at m = None \<or> vm_storage_key m = None"

definition audio_check :: "audio_artifact \<Rightarrow> bool" where
  "audio_check a \<longleftrightarrow> aa_deleted_at a = None \<or> aa_storage_key a = None"

definition delivery_check :: "scheduled_delivery \<Rightarrow> bool" where
  "delivery_check d \<longleftrightarrow> (de_status d = CANCELLED) = (de_cancelled_at d \<noteq> None)"

text \<open>The trigger \<open>consent_grant_guard\<close>: terms are immutable, verification is write-once,
  revocation is terminal. \<open>authorization_token_guard\<close>: only \<open>revoked_at\<close> changes, once.\<close>

definition consent_grant_guard :: "consent_grant \<Rightarrow> consent_grant \<Rightarrow> bool" where
  "consent_grant_guard old new \<longleftrightarrow>
     \<not> (g_id new \<noteq> g_id old \<or> g_profile_id new \<noteq> g_profile_id old \<or>
        g_grantor_type new \<noteq> g_grantor_type old \<or> g_grantor_user_id new \<noteq> g_grantor_user_id old \<or>
        g_document_url new \<noteq> g_document_url old \<or> g_purpose_scope new \<noteq> g_purpose_scope old \<or>
        g_required_acks new \<noteq> g_required_acks old \<or> g_granted_at new \<noteq> g_granted_at old) \<and>
     \<not> (g_verified_at old \<noteq> None \<and>
        (g_verified_at new \<noteq> g_verified_at old \<or> g_verified_by new \<noteq> g_verified_by old)) \<and>
     \<not> (g_revoked_at old \<noteq> None \<and>
        (g_revoked_at new \<noteq> g_revoked_at old \<or> g_is_active new \<or>
         g_revocation_reason new \<noteq> g_revocation_reason old))"

definition authorization_token_guard :: "auth_token \<Rightarrow> auth_token \<Rightarrow> bool" where
  "authorization_token_guard old new \<longleftrightarrow>
     \<not> ((at_jti new, at_grant_id new, at_profile_id new, at_action new, at_purpose new, at_actor_id new,
         at_issued_at new, at_expires_at new) \<noteq>
        (at_jti old, at_grant_id old, at_profile_id old, at_action old, at_purpose old, at_actor_id old,
         at_issued_at old, at_expires_at old) \<or>
        (at_revoked_at old \<noteq> None \<and> at_revoked_at new \<noteq> at_revoked_at old))"

section \<open>Checked writes\<close>

abbreviation has_profile :: "consent_db \<Rightarrow> uuid \<Rightarrow> bool" where
  "has_profile db i \<equiv> i \<in> p_id ` set (profiles db)"

abbreviation has_grant :: "consent_db \<Rightarrow> uuid \<Rightarrow> bool" where
  "has_grant db i \<equiv> i \<in> g_id ` set (grants db)"

definition insert_profile :: "deceased_profile \<Rightarrow> consent_db \<Rightarrow> error + consent_db" where
  "insert_profile p db =
     (if has_profile db (p_id p) then Inl (IntegrityError ''pk_deceased_profile'')
      else if \<not> profile_check p then Inl (IntegrityError ''ck_deceased_profile'')
      else Inr (db\<lparr>profiles := profiles db @ [p]\<rparr>))"

definition insert_grant :: "consent_grant \<Rightarrow> consent_db \<Rightarrow> error + consent_db" where
  "insert_grant g db =
     (if has_grant db (g_id g) then Inl (IntegrityError ''pk_consent_grant'')
      else if \<not> grant_check g then Inl (IntegrityError ''ck_consent_grant'')
      else if \<not> has_profile db (g_profile_id g) then Inl (IntegrityError ''fk_consent_grant_deceased_profile_id_deceased_profile'')
      else Inr (db\<lparr>grants := grants db @ [g]\<rparr>))"

definition insert_beneficiary :: "grant_beneficiary \<Rightarrow> consent_db \<Rightarrow> error + consent_db" where
  "insert_beneficiary b db =
     (if gb_id b \<in> gb_id ` set (beneficiaries db) then Inl (IntegrityError ''pk_grant_beneficiary'')
      else if (gb_grant_id b, gb_email b) \<in> (\<lambda>r. (gb_grant_id r, gb_email r)) ` set (beneficiaries db)
        then Inl (IntegrityError ''uq_grant_beneficiary_grant_email'')
      else if \<not> has_grant db (gb_grant_id b) then Inl (IntegrityError ''fk_grant_beneficiary_consent_grant_id_consent_grant'')
      else Inr (db\<lparr>beneficiaries := beneficiaries db @ [b]\<rparr>))"

definition insert_ack :: "beneficiary_ack \<Rightarrow> consent_db \<Rightarrow> error + consent_db" where
  "insert_ack a db =
     (if ba_id a \<in> ba_id ` set (acknowledgments db) then Inl (IntegrityError ''pk_beneficiary_acknowledgment'')
      else if (ba_grant_id a, ba_email a) \<in> (\<lambda>r. (ba_grant_id r, ba_email r)) ` set (acknowledgments db)
        then Inl (IntegrityError ''uq_beneficiary_ack_grant_email'')
      else if (ba_grant_id a, ba_email a) \<notin> (\<lambda>r. (gb_grant_id r, gb_email r)) ` set (beneficiaries db)
        then Inl (IntegrityError ''fk_beneficiary_acknowledgment_named_beneficiary'')
      else if \<not> ack_check a then Inl (IntegrityError ''ck_beneficiary_acknowledgment_signature_hash_sha256'')
      else Inr (db\<lparr>acknowledgments := acknowledgments db @ [a]\<rparr>))"

definition insert_request :: "revocation_request \<Rightarrow> consent_db \<Rightarrow> error + consent_db" where
  "insert_request r db =
     (if rr_id r \<in> rr_id ` set (requests db) then Inl (IntegrityError ''pk_revocation_request'')
      else if rr_grant_id r \<in> rr_grant_id ` set (requests db) then Inl (IntegrityError ''uq_revocation_request_consent_grant_id'')
      else if \<not> request_check r then Inl (IntegrityError ''ck_revocation_request_completion_timestamp_matches_status'')
      else if \<not> has_grant db (rr_grant_id r) then Inl (IntegrityError ''fk_revocation_request_consent_grant_id_consent_grant'')
      else Inr (db\<lparr>requests := requests db @ [r]\<rparr>))"

definition insert_token :: "auth_token \<Rightarrow> consent_db \<Rightarrow> error + consent_db" where
  "insert_token t db =
     (if at_jti t \<in> at_jti ` set (tokens db) then Inl (IntegrityError ''pk_authorization_token'')
      else if \<not> token_check t then Inl (IntegrityError ''ck_authorization_token_expiry_after_issue'')
      else if (case at_grant_id t of None \<Rightarrow> False | Some g \<Rightarrow> \<not> has_grant db g)
        then Inl (IntegrityError ''fk_authorization_token_consent_grant_id_consent_grant'')
      else if \<not> has_profile db (at_profile_id t)
        then Inl (IntegrityError ''fk_authorization_token_deceased_profile_id_deceased_profile'')
      else Inr (db\<lparr>tokens := tokens db @ [t]\<rparr>))"

definition insert_successor :: "successor_designation \<Rightarrow> consent_db \<Rightarrow> error + consent_db" where
  "insert_successor s db =
     (if sd_id s \<in> sd_id ` set (successors db) then Inl (IntegrityError ''pk_successor_designation'')
      else if (sd_profile_id s, sd_priority s) \<in> (\<lambda>r. (sd_profile_id r, sd_priority r)) ` set (successors db)
        then Inl (IntegrityError ''uq_successor_profile_priority'')
      else if (sd_profile_id s, sd_user_id s) \<in> (\<lambda>r. (sd_profile_id r, sd_user_id r)) ` set (successors db)
        then Inl (IntegrityError ''uq_successor_profile_user'')
      else if \<not> successor_check s then Inl (IntegrityError ''ck_successor_designation_priority_positive'')
      else if \<not> has_profile db (sd_profile_id s)
        then Inl (IntegrityError ''fk_successor_designation_deceased_profile_id_deceased_profile'')
      else Inr (db\<lparr>successors := successors db @ [s]\<rparr>))"

text \<open>Updates by primary key, as the ORM flushes a changed row.\<close>

definition update_profile :: "uuid \<Rightarrow> (deceased_profile \<Rightarrow> deceased_profile) \<Rightarrow> consent_db \<Rightarrow> error + consent_db" where
  "update_profile i f db =
     (if \<exists>p \<in> set (profiles db). p_id p = i \<and> \<not> profile_check (f p)
      then Inl (IntegrityError ''ck_deceased_profile'')
      else Inr (db\<lparr>profiles := update_rows (\<lambda>p. p_id p = i) f (profiles db)\<rparr>))"

definition update_grant :: "uuid \<Rightarrow> (consent_grant \<Rightarrow> consent_grant) \<Rightarrow> consent_db \<Rightarrow> error + consent_db" where
  "update_grant i f db =
     (if \<exists>g \<in> set (grants db). g_id g = i \<and> \<not> consent_grant_guard g (f g)
      then Inl (GuardError ''consent_grant_guard'')
      else if \<exists>g \<in> set (grants db). g_id g = i \<and> \<not> grant_check (f g)
      then Inl (IntegrityError ''ck_consent_grant'')
      else Inr (db\<lparr>grants := update_rows (\<lambda>g. g_id g = i) f (grants db)\<rparr>))"

definition update_request :: "uuid \<Rightarrow> (revocation_request \<Rightarrow> revocation_request) \<Rightarrow> consent_db \<Rightarrow> error + consent_db" where
  "update_request i f db =
     (if \<exists>r \<in> set (requests db). rr_id r = i \<and> \<not> request_check (f r)
      then Inl (IntegrityError ''ck_revocation_request_completion_timestamp_matches_status'')
      else Inr (db\<lparr>requests := update_rows (\<lambda>r. rr_id r = i) f (requests db)\<rparr>))"

section \<open>The invariant the database enforces\<close>

definition grant_rows_ok :: "consent_db \<Rightarrow> bool" where
  "grant_rows_ok db \<longleftrightarrow> distinct (map g_id (grants db)) \<and>
     (\<forall>g \<in> set (grants db). grant_check g \<and> has_profile db (g_profile_id g))"

definition profile_rows_ok :: "consent_db \<Rightarrow> bool" where
  "profile_rows_ok db \<longleftrightarrow> distinct (map p_id (profiles db)) \<and> (\<forall>p \<in> set (profiles db). profile_check p)"

definition beneficiary_rows_ok :: "consent_db \<Rightarrow> bool" where
  "beneficiary_rows_ok db \<longleftrightarrow> distinct (map (\<lambda>b. (gb_grant_id b, gb_email b)) (beneficiaries db)) \<and>
     (\<forall>b \<in> set (beneficiaries db). has_grant db (gb_grant_id b))"

definition ack_rows_ok :: "consent_db \<Rightarrow> bool" where
  "ack_rows_ok db \<longleftrightarrow> distinct (map (\<lambda>a. (ba_grant_id a, ba_email a)) (acknowledgments db)) \<and>
     (\<forall>a \<in> set (acknowledgments db). ack_check a \<and>
        (ba_grant_id a, ba_email a) \<in> (\<lambda>b. (gb_grant_id b, gb_email b)) ` set (beneficiaries db))"

definition request_rows_ok :: "consent_db \<Rightarrow> bool" where
  "request_rows_ok db \<longleftrightarrow> distinct (map rr_id (requests db)) \<and> distinct (map rr_grant_id (requests db)) \<and>
     (\<forall>r \<in> set (requests db). request_check r \<and> has_grant db (rr_grant_id r))"

definition token_rows_ok :: "consent_db \<Rightarrow> bool" where
  "token_rows_ok db \<longleftrightarrow> distinct (map at_jti (tokens db)) \<and>
     (\<forall>t \<in> set (tokens db). token_check t \<and> has_profile db (at_profile_id t) \<and>
        (\<forall>g. at_grant_id t = Some g \<longrightarrow> has_grant db g))"

definition successor_rows_ok :: "consent_db \<Rightarrow> bool" where
  "successor_rows_ok db \<longleftrightarrow> distinct (map (\<lambda>s. (sd_profile_id s, sd_priority s)) (successors db)) \<and>
     distinct (map (\<lambda>s. (sd_profile_id s, sd_user_id s)) (successors db)) \<and>
     (\<forall>s \<in> set (successors db). successor_check s \<and> has_profile db (sd_profile_id s))"

definition downstream_rows_ok :: "consent_db \<Rightarrow> bool" where
  "downstream_rows_ok db \<longleftrightarrow> distinct (map vm_id (voice_models db)) \<and>
     distinct (map aa_id (audio_artifacts db)) \<and> distinct (map de_id (deliveries db)) \<and>
     list_all voice_check (voice_models db) \<and> list_all audio_check (audio_artifacts db) \<and>
     list_all delivery_check (deliveries db)"

definition rows_ok :: "consent_db \<Rightarrow> bool" where
  "rows_ok db \<longleftrightarrow> profile_rows_ok db \<and> grant_rows_ok db \<and> beneficiary_rows_ok db \<and> ack_rows_ok db \<and>
     request_rows_ok db \<and> token_rows_ok db \<and> successor_rows_ok db \<and> downstream_rows_ok db"

lemmas rows_ok_defs = rows_ok_def profile_rows_ok_def grant_rows_ok_def beneficiary_rows_ok_def
  ack_rows_ok_def request_rows_ok_def token_rows_ok_def successor_rows_ok_def downstream_rows_ok_def

lemma rows_ok_empty: "rows_ok empty_db"
  by (simp add: rows_ok_defs empty_db_def)

lemmas insert_defs = insert_profile_def insert_grant_def insert_beneficiary_def insert_ack_def
  insert_request_def insert_token_def insert_successor_def

lemma insert_profile_ok:
  assumes "insert_profile p db = Inr db'" and "rows_ok db"
  shows "rows_ok db'"
proof -
  have db': "db' = db\<lparr>profiles := profiles db @ [p]\<rparr>"
    using assms(1) by (simp add: insert_profile_def split: if_splits)
  show ?thesis
    using assms unfolding db' rows_ok_defs insert_profile_def by (simp split: if_splits option.splits)
qed

lemma insert_grant_ok:
  assumes "insert_grant g db = Inr db'" and "rows_ok db"
  shows "rows_ok db'"
proof -
  have db': "db' = db\<lparr>grants := grants db @ [g]\<rparr>"
    using assms(1) by (simp add: insert_grant_def split: if_splits)
  show ?thesis
    using assms unfolding db' rows_ok_defs insert_grant_def by (simp split: if_splits option.splits)
qed

lemma insert_beneficiary_ok:
  assumes "insert_beneficiary b db = Inr db'" and "rows_ok db"
  shows "rows_ok db'"
proof -
  have db': "db' = db\<lparr>beneficiaries := beneficiaries db @ [b]\<rparr>"
    using assms(1) by (simp add: insert_beneficiary_def split: if_splits)
  show ?thesis
    using assms unfolding db' rows_ok_defs insert_beneficiary_def by (simp split: if_splits option.splits)
qed

lemma insert_ack_ok:
  assumes "insert_ack a db = Inr db'" and "rows_ok db"
  shows "rows_ok db'"
proof -
  have db': "db' = db\<lparr>acknowledgments := acknowledgments db @ [a]\<rparr>"
    using assms(1) by (simp add: insert_ack_def split: if_splits)
  show ?thesis
    using assms unfolding db' rows_ok_defs insert_ack_def by (simp split: if_splits option.splits)
qed

lemma insert_request_ok:
  assumes "insert_request r db = Inr db'" and "rows_ok db"
  shows "rows_ok db'"
proof -
  have db': "db' = db\<lparr>requests := requests db @ [r]\<rparr>"
    using assms(1) by (simp add: insert_request_def split: if_splits)
  show ?thesis
    using assms unfolding db' rows_ok_defs insert_request_def by (simp split: if_splits option.splits)
qed

lemma insert_token_ok:
  assumes "insert_token t db = Inr db'" and "rows_ok db"
  shows "rows_ok db'"
proof -
  have db': "db' = db\<lparr>tokens := tokens db @ [t]\<rparr>"
    using assms(1) by (simp add: insert_token_def split: if_splits)
  show ?thesis
    using assms unfolding db' rows_ok_defs insert_token_def by (simp split: if_splits option.splits)
qed

lemma insert_successor_ok:
  assumes "insert_successor s db = Inr db'" and "rows_ok db"
  shows "rows_ok db'"
proof -
  have db': "db' = db\<lparr>successors := successors db @ [s]\<rparr>"
    using assms(1) by (simp add: insert_successor_def split: if_splits)
  show ?thesis
    using assms unfolding db' rows_ok_defs insert_successor_def by (simp split: if_splits option.splits)
qed

text \<open>Replacing the rows of one table.\<close>

lemma rows_ok_tokens:
  "rows_ok db \<Longrightarrow> distinct (map at_jti ts) \<Longrightarrow>
     (\<And>t. t \<in> set ts \<Longrightarrow> token_check t \<and> has_profile db (at_profile_id t) \<and>
        (\<forall>g. at_grant_id t = Some g \<longrightarrow> has_grant db g)) \<Longrightarrow> rows_ok (db\<lparr>tokens := ts\<rparr>)"
  by (simp add: rows_ok_defs)

lemma rows_ok_grants:
  assumes "rows_ok db" and "map g_id gs = map g_id (grants db)"
    and "\<And>g. g \<in> set gs \<Longrightarrow> grant_check g \<and> has_profile db (g_profile_id g)"
  shows "rows_ok (db\<lparr>grants := gs\<rparr>)"
proof -
  have "g_id ` set gs = g_id ` set (grants db)"
    using assms(2) by (metis set_map)
  with assms show ?thesis
    by (simp add: rows_ok_defs)
qed

lemma rows_ok_profiles:
  assumes "rows_ok db" and "map p_id ps = map p_id (profiles db)"
    and "\<And>p. p \<in> set ps \<Longrightarrow> profile_check p"
  shows "rows_ok (db\<lparr>profiles := ps\<rparr>)"
proof -
  have "p_id ` set ps = p_id ` set (profiles db)"
    using assms(2) by (metis set_map)
  with assms show ?thesis
    by (simp add: rows_ok_defs)
qed

lemma rows_ok_requests:
  "rows_ok db \<Longrightarrow> distinct (map rr_id rs) \<Longrightarrow> distinct (map rr_grant_id rs) \<Longrightarrow>
     (\<And>r. r \<in> set rs \<Longrightarrow> request_check r \<and> has_grant db (rr_grant_id r)) \<Longrightarrow> rows_ok (db\<lparr>requests := rs\<rparr>)"
  by (simp add: rows_ok_defs)

lemma rows_ok_downstream:
  "rows_ok db \<Longrightarrow> distinct (map vm_id vs) \<Longrightarrow> distinct (map aa_id as) \<Longrightarrow> distinct (map de_id ds) \<Longrightarrow>
     list_all voice_check vs \<Longrightarrow> list_all audio_check as \<Longrightarrow> list_all delivery_check ds \<Longrightarrow>
     rows_ok (db\<lparr>voice_models := vs, audio_artifacts := as, deliveries := ds\<rparr>)"
  by (simp add: rows_ok_defs)

lemma update_grant_ok: "update_grant i f db = Inr db' \<Longrightarrow> rows_ok db \<Longrightarrow> rows_ok db'"
proof -
  assume upd: "update_grant i f db = Inr db'" and ok: "rows_ok db"
  then have guard: "\<And>g. g \<in> set (grants db) \<Longrightarrow> g_id g = i \<Longrightarrow> consent_grant_guard g (f g) \<and> grant_check (f g)"
    and db': "db' = db\<lparr>grants := update_rows (\<lambda>g. g_id g = i) f (grants db)\<rparr>"
    by (auto simp: update_grant_def split: if_splits)
  have step: "g_id (if g_id g = i then f g else g) = g_id g \<and> grant_check (if g_id g = i then f g else g) \<and>
      has_profile db (g_profile_id (if g_id g = i then f g else g))" if g: "g \<in> set (grants db)" for g
  proof -
    have "grant_check g" "has_profile db (g_profile_id g)"
      using ok g by (simp_all only: rows_ok_defs)
    then show ?thesis
      using guard [OF g] by (simp add: consent_grant_guard_def)
  qed
  show "rows_ok db'"
    unfolding db'
  proof (rule rows_ok_grants [OF ok])
    show "map g_id (update_rows (\<lambda>g. g_id g = i) f (grants db)) = map g_id (grants db)"
      unfolding update_rows_def list.map_comp by (rule map_cong [OF refl]) (use step in \<open>simp only: comp_def\<close>)
    fix g assume "g \<in> set (update_rows (\<lambda>g. g_id g = i) f (grants db))"
    then obtain h where "h \<in> set (grants db)" and "g = (if g_id h = i then f h else h)"
      by (auto simp: in_update_rows)
    with step [of h] show "grant_check g \<and> has_profile db (g_profile_id g)"
      by simp
  qed
qed

lemma update_profile_ok:
  "update_profile i f db = Inr db' \<Longrightarrow> (\<And>p. p_id (f p) = p_id p) \<Longrightarrow> rows_ok db \<Longrightarrow> rows_ok db'"
proof -
  assume upd: "update_profile i f db = Inr db'" and id: "\<And>p. p_id (f p) = p_id p" and ok: "rows_ok db"
  then have check: "\<And>p. p \<in> set (profiles db) \<Longrightarrow> p_id p = i \<Longrightarrow> profile_check (f p)"
    and db': "db' = db\<lparr>profiles := update_rows (\<lambda>p. p_id p = i) f (profiles db)\<rparr>"
    by (auto simp: update_profile_def split: if_splits)
  have "profile_check p" if "p \<in> set (profiles db)" for p
    using ok that by (simp only: rows_ok_defs)
  with check show "rows_ok db'"
    unfolding db' by (intro rows_ok_profiles [OF ok]) (auto simp: id map_update_rows in_update_rows)
qed

lemma update_request_ok:
  "update_request i f db = Inr db' \<Longrightarrow> (\<And>r. rr_id (f r) = rr_id r \<and> rr_grant_id (f r) = rr_grant_id r) \<Longrightarrow>
     rows_ok db \<Longrightarrow> rows_ok db'"
proof -
  assume upd: "update_request i f db = Inr db'" and id: "\<And>r. rr_id (f r) = rr_id r \<and> rr_grant_id (f r) = rr_grant_id r"
    and ok: "rows_ok db"
  then have check: "\<And>r. r \<in> set (requests db) \<Longrightarrow> rr_id r = i \<Longrightarrow> request_check (f r)"
    and db': "db' = db\<lparr>requests := update_rows (\<lambda>r. rr_id r = i) f (requests db)\<rparr>"
    by (auto simp: update_request_def split: if_splits)
  have old: "request_check r \<and> has_grant db (rr_grant_id r)" if "r \<in> set (requests db)" for r
    using ok that by (simp only: rows_ok_defs)
  have keys: "distinct (map rr_id (requests db))" "distinct (map rr_grant_id (requests db))"
    using ok by (simp_all only: rows_ok_defs)
  show "rows_ok db'"
    unfolding db'
  proof (rule rows_ok_requests [OF ok])
    fix r assume "r \<in> set (update_rows (\<lambda>r. rr_id r = i) f (requests db))"
    then obtain s where "s \<in> set (requests db)" "r = (if rr_id s = i then f s else s)"
      by (auto simp: in_update_rows)
    with check [of s] old [of s] id [of s] show "request_check r \<and> has_grant db (rr_grant_id r)"
      by (cases "rr_id s = i") auto
  qed (use keys id in \<open>simp_all add: map_update_rows\<close>)
qed

text \<open>Rows are found by primary key.\<close>

definition get_profile :: "consent_db \<Rightarrow> uuid \<Rightarrow> deceased_profile option" where
  "get_profile db i = find (\<lambda>p. p_id p = i) (profiles db)"

definition get_grant :: "consent_db \<Rightarrow> uuid \<Rightarrow> consent_grant option" where
  "get_grant db i = find (\<lambda>g. g_id g = i) (grants db)"

definition get_request :: "consent_db \<Rightarrow> uuid \<Rightarrow> revocation_request option" where
  "get_request db gid = find (\<lambda>r. rr_grant_id r = gid) (requests db)"

lemma get_profile_SomeD: "get_profile db i = Some p \<Longrightarrow> p \<in> set (profiles db) \<and> p_id p = i"
  unfolding get_profile_def using find_SomeD by fastforce

lemma get_grant_SomeD: "get_grant db i = Some g \<Longrightarrow> g \<in> set (grants db) \<and> g_id g = i"
  unfolding get_grant_def using find_SomeD by fastforce

lemma get_request_SomeD: "get_request db i = Some r \<Longrightarrow> r \<in> set (requests db) \<and> rr_grant_id r = i"
  unfolding get_request_def using find_SomeD by fastforce

lemma get_profile_None: "get_profile db i = None \<longleftrightarrow> \<not> has_profile db i"
  by (auto simp: get_profile_def find_None_iff)

lemma get_grant_None: "get_grant db i = None \<longleftrightarrow> \<not> has_grant db i"
  by (auto simp: get_grant_def find_None_iff)

lemma get_grant_unique:
  assumes "rows_ok db" and "g \<in> set (grants db)"
  shows "get_grant db (g_id g) = Some g"
  using assms find_key [of g_id "grants db" g] by (simp add: rows_ok_defs get_grant_def)

lemma get_profile_unique:
  assumes "rows_ok db" and "p \<in> set (profiles db)"
  shows "get_profile db (p_id p) = Some p"
  using assms find_key [of p_id "profiles db" p] by (simp add: rows_ok_defs get_profile_def)

lemma get_request_unique:
  assumes "rows_ok db" and "r \<in> set (requests db)"
  shows "get_request db (rr_grant_id r) = Some r"
  using assms find_key [of rr_grant_id "requests db" r] by (simp add: rows_ok_defs get_request_def)

text \<open>\<open>grant.beneficiaries\<close> and \<open>grant.acknowledgments\<close>, in the order of their relationship.\<close>

definition grant_beneficiaries :: "consent_db \<Rightarrow> consent_grant \<Rightarrow> grant_beneficiary list" where
  "grant_beneficiaries db g = sort_key gb_email (filter (\<lambda>b. gb_grant_id b = g_id g) (beneficiaries db))"

definition grant_acks :: "consent_db \<Rightarrow> consent_grant \<Rightarrow> beneficiary_ack list" where
  "grant_acks db g = sort_key ba_at (filter (\<lambda>a. ba_grant_id a = g_id g) (acknowledgments db))"

lemma set_grant_beneficiaries: "set (grant_beneficiaries db g) = {b \<in> set (beneficiaries db). gb_grant_id b = g_id g}"
  by (simp add: grant_beneficiaries_def)

lemma set_grant_acks: "set (grant_acks db g) = {a \<in> set (acknowledgments db). ba_grant_id a = g_id g}"
  by (simp add: grant_acks_def)

end
