(* ===== verification/Hash_Chain.thy ===== *)
theory Hash_Chain imports Prelude begin

text \<open>
  The contract behind the three append-only ledgers of the repository: the audit ledger of the
  consent kernel (\<open>app/consent/audit.py\<close>), the sharing history of the memorial application
  (\<open>remembrance/consent.py\<close>) and the erasure ledger (\<open>remembrance/erasure.py\<close>). A row stores the
  digest of its own material and of its predecessor's digest, so the digest of the last row
  commits to the whole ledger. Collision resistance is stated of the rows at hand only:
  the digest is injective on their materials, which a real digest satisfies unless somebody
  has found a collision among them.
\<close>

primrec chain_from :: "('e \<Rightarrow> 'h) \<Rightarrow> ('e \<Rightarrow> 'h) \<Rightarrow> 'h \<Rightarrow> 'e list \<Rightarrow> bool" where
  "chain_from prev stored h [] = True"
| "chain_from prev stored h (e # es) = (prev e = h \<and> chain_from prev stored (stored e) es)"

primrec head_from :: "('e \<Rightarrow> 'h) \<Rightarrow> 'h \<Rightarrow> 'e list \<Rightarrow> 'h" where
  "head_from stored h [] = h"
| "head_from stored h (e # es) = head_from stored (stored e) es"

lemma head_from_append [simp]: "head_from stored h (xs @ ys) = head_from stored (head_from stored h xs) ys"
  by (induction xs arbitrary: h) auto

lemma head_from_last: "xs \<noteq> [] \<Longrightarrow> head_from stored h xs = stored (last xs)"
  by (induction xs rule: rev_induct) auto

lemma chain_from_append [simp]:
  "chain_from prev stored h (xs @ ys) \<longleftrightarrow>
     chain_from prev stored h xs \<and> chain_from prev stored (head_from stored h xs) ys"
  by (induction xs arbitrary: h) auto

lemma chain_from_take: "chain_from prev stored h xs \<Longrightarrow> chain_from prev stored h (take n xs)"
  by (metis append_take_drop_id chain_from_append)

text \<open>A row is found behind its predecessor.\<close>

lemma chain_from_prev:
  "chain_from prev stored h xs \<Longrightarrow> i < length xs \<Longrightarrow>
     prev (xs ! i) = (if i = 0 then h else stored (xs ! (i - 1)))"
proof (induction xs arbitrary: h i)
  case (Cons x xs)
  then show ?case by (cases i) (auto simp: nth_Cons split: nat.splits)
qed simp

locale hash_chain =
  fixes H :: "'m \<Rightarrow> 'h"
    and material :: "'e \<Rightarrow> 'm"
    and prev :: "'e \<Rightarrow> 'h"
    and stored :: "'e \<Rightarrow> 'h"
    and genesis :: 'h
  assumes material_prev: "material d = material e \<Longrightarrow> prev d = prev e"
begin

definition sealed :: "'e \<Rightarrow> bool" where
  "sealed e \<longleftrightarrow> stored e = H (material e)"

definition intact :: "'e list \<Rightarrow> bool" where
  "intact es \<longleftrightarrow> chain_from prev stored genesis es \<and> (\<forall>e \<in> set es. sealed e)"

definition head :: "'e list \<Rightarrow> 'h" where
  "head es = head_from stored genesis es"

lemma intact_Nil [simp]: "intact []"
  by (simp add: intact_def)

lemma head_snoc [simp]: "head (es @ [e]) = stored e"
  by (simp add: head_def)

lemma intact_snoc [simp]: "intact (es @ [e]) \<longleftrightarrow> intact es \<and> prev e = head es \<and> sealed e"
  by (auto simp: intact_def head_def)

lemma intact_take: "intact es \<Longrightarrow> intact (take n es)"
  by (auto simp: intact_def chain_from_take dest: in_set_takeD)

text \<open>Two intact ledgers of one length and one head record the same materials in the same order.\<close>

lemma head_commits:
  assumes "intact xs" and "intact ys" and "length xs = length ys" and "head xs = head ys"
    and "inj_on H (material ` (set xs \<union> set ys))"
  shows "map material xs = map material ys"
  using assms
proof (induction xs arbitrary: ys rule: rev_induct)
  case Nil
  then show ?case by simp
next
  case (snoc x xs)
  from snoc.prems(3) obtain y ys' where ys: "ys = ys' @ [y]"
    by (cases ys rule: rev_cases) auto
  have "H (material x) = H (material y)"
    using snoc.prems(1,2,4) by (simp add: ys sealed_def)
  then have mat: "material x = material y"
    by (rule inj_onD [OF snoc.prems(5)]) (simp_all add: ys)
  have "inj_on H (material ` (set xs \<union> set ys'))"
    by (rule inj_on_subset [OF snoc.prems(5)]) (auto simp: ys)
  moreover have "head xs = head ys'"
    using material_prev [OF mat] snoc.prems(1,2) by (simp add: ys)
  ultimately have "map material xs = map material ys'"
    using snoc.IH [of ys'] snoc.prems(1-3) by (simp add: ys)
  with mat show ?case by (simp add: ys)
qed

text \<open>An anchor, the head seen at an earlier length, fixes the ledger up to that length.\<close>

lemma anchor_commits:
  assumes "intact xs" and "intact ys" and "n \<le> length xs" and "n \<le> length ys"
    and "head (take n xs) = head (take n ys)"
    and "inj_on H (material ` (set xs \<union> set ys))"
  shows "map material (take n xs) = map material (take n ys)"
proof (rule head_commits)
  show "inj_on H (material ` (set (take n xs) \<union> set (take n ys)))"
    by (rule inj_on_subset [OF assms(6)]) (auto dest: in_set_takeD)
qed (use assms intact_take in auto)

text \<open>Without collisions no digest occurs twice, so a ledger never forks.\<close>

lemma stored_distinct:
  assumes "intact xs" and "inj_on H (material ` set xs)" and "genesis \<notin> H ` material ` set xs"
  shows "distinct (map stored xs)"
  using assms
proof (induction xs rule: rev_induct)
  case Nil
  then show ?case by simp
next
  case (snoc x xs)
  have IH: "distinct (map stored xs)"
    by (rule snoc.IH) (use snoc.prems in \<open>auto elim: inj_on_subset\<close>)
  have "stored x \<noteq> stored (xs ! i)" if i: "i < length xs" for i
  proof
    assume same: "stored x = stored (xs ! i)"
    have sealed: "sealed x" "sealed (xs ! i)"
      using snoc.prems(1) i by (auto simp: intact_def)
    with same snoc.prems(2) i have "material x = material (xs ! i)"
      by (auto simp: sealed_def inj_on_def)
    then have prev: "prev x = prev (xs ! i)"
      by (rule material_prev)
    have "xs \<noteq> []" using i by auto
    then have "prev x = stored (last xs)"
      using snoc.prems(1) by (simp add: head_def head_from_last)
    moreover have "prev (xs ! i) = (if i = 0 then genesis else stored (xs ! (i - 1)))"
      using snoc.prems(1) i by (intro chain_from_prev) (auto simp: intact_def)
    moreover have "stored (last xs) \<noteq> genesis"
      using snoc.prems(1,3) \<open>xs \<noteq> []\<close> by (auto simp: intact_def sealed_def)
    ultimately have "i \<noteq> 0" and "stored (xs ! (i - 1)) = stored (xs ! (length xs - 1))"
      using prev \<open>xs \<noteq> []\<close> by (auto simp: last_conv_nth split: if_splits)
    then show False
      using IH i by (simp add: distinct_conv_nth)
  qed
  then have "stored x \<notin> set (map stored xs)"
    by (metis in_set_conv_nth length_map nth_map)
  with IH show ?case by simp
qed

lemma next_prev_fresh:
  assumes "intact xs" and "inj_on H (material ` set xs)" and "genesis \<notin> H ` material ` set xs"
    and "e \<in> set xs"
  shows "prev e \<noteq> head xs"
proof
  assume eq: "prev e = head xs"
  from assms(4) obtain i where i: "i < length xs" "e = xs ! i"
    by (auto simp: in_set_conv_nth)
  have "xs \<noteq> []"
    using i by auto
  then have "head xs = stored (xs ! (length xs - 1))"
    by (simp add: head_def head_from_last last_conv_nth)
  moreover have "prev e = (if i = 0 then genesis else stored (xs ! (i - 1)))"
    unfolding i(2) using assms(1) i(1) by (intro chain_from_prev) (auto simp: intact_def)
  moreover have "stored (xs ! (length xs - 1)) \<noteq> genesis"
    using assms(1,3) i(1) by (auto simp: intact_def sealed_def)
  ultimately have "i \<noteq> 0" and "stored (xs ! (i - 1)) = stored (xs ! (length xs - 1))"
    using eq by (auto split: if_splits)
  then show False
    using stored_distinct [OF assms(1-3)] i(1) by (simp add: distinct_conv_nth)
qed

end

end
