(* ===== verification/Audit_Log.thy ===== *)
theory Audit_Log imports Schema Hash_Chain begin

text \<open>
  The audit ledger, \<open>app/consent/audit.py\<close>: payload validation, the event digest, appending an
  event to the chain of a profile, and the single-pass verifier with anchors.

  \<open>sha\<close> stands for \<open>lambda s: hashlib.sha256(s.encode()).hexdigest()\<close>; it is an argument of
  every definition that digests, and what is known of it is stated as a hypothesis where it is used.
  The advisory lock that serialises appenders on PostgreSQL is the atomicity of \<open>append_event\<close>.
\<close>

section \<open>Payloads\<close>

text \<open>What a caller may pass: any Python value. The last constructor stands for every other type.\<close>

datatype pyval =
    PyNone
  | PyBool bool
  | PyInt int
  | PyFloat
  | PyStr pstr
  | PyList "pyval list"
  | PyDict "(pyval \<times> pyval) list"
  | PyOther pstr

definition hash_format_version :: int where "hash_format_version = 1"
definition max_payload_bytes :: nat where "max_payload_bytes = 16384"
definition max_payload_depth :: nat where "max_payload_depth = 8"
definition max_safe_integer :: int where "max_safe_integer = 2 ^ 53 - 1"

fun first_fail :: "error option list \<Rightarrow> error option" where
  "first_fail [] = None"
| "first_fail (None # rs) = first_fail rs"
| "first_fail (Some e # rs) = Some e"

abbreviation payload_error :: "string \<Rightarrow> error option" where
  "payload_error m \<equiv> Some (AuditPayloadError (lit m))"

definition str_key :: "pyval \<Rightarrow> pstr option" where
  "str_key k = (case k of PyStr s \<Rightarrow> if 0 \<in> set s then None else Some s | _ \<Rightarrow> None)"

primrec check_value :: "pyval \<Rightarrow> nat \<Rightarrow> error option" where
  "check_value PyNone depth = (if max_payload_depth < depth then payload_error ''payload nested deeper than 8'' else None)"
| "check_value (PyBool b) depth = (if max_payload_depth < depth then payload_error ''payload nested deeper than 8'' else None)"
| "check_value (PyInt i) depth =
     (if max_payload_depth < depth then payload_error ''payload nested deeper than 8''
      else if max_safe_integer < \<bar>i\<bar> then payload_error ''payload integers must fit in 53 bits to survive JSON round trips''
      else None)"
| "check_value PyFloat depth =
     (if max_payload_depth < depth then payload_error ''payload nested deeper than 8''
      else payload_error ''payload floats are not allowed; use integers or strings'')"
| "check_value (PyStr s) depth =
     (if max_payload_depth < depth then payload_error ''payload nested deeper than 8''
      else if 0 \<in> set s then payload_error ''payload strings must not contain NUL'' else None)"
| "check_value (PyList vs) depth =
     (if max_payload_depth < depth then payload_error ''payload nested deeper than 8''
      else first_fail (map (\<lambda>c. c (Suc depth)) (map check_value vs)))"
| "check_value (PyDict kvs) depth =
     (if max_payload_depth < depth then payload_error ''payload nested deeper than 8''
      else first_fail (map (\<lambda>(k, c). if str_key (fst k) = None then payload_error ''payload keys must be strings without NUL''
             else snd c (Suc depth)) (zip kvs (map (map_prod check_value check_value) kvs))))"
| "check_value (PyOther t) depth =
     (if max_payload_depth < depth then payload_error ''payload nested deeper than 8''
      else Some (AuditPayloadError (lit ''unsupported payload type '' @ t)))"

text \<open>The JSON document a checked value is.\<close>

primrec document_of :: "pyval \<Rightarrow> json" where
  "document_of PyNone = JNull"
| "document_of (PyBool b) = JBool b"
| "document_of (PyInt i) = JInt i"
| "document_of PyFloat = JNull"
| "document_of (PyStr s) = JStr s"
| "document_of (PyList vs) = JList (map document_of vs)"
| "document_of (PyDict kvs) = JObj (map (\<lambda>(k, d). (case str_key (fst k) of Some s \<Rightarrow> s | None \<Rightarrow> [], snd d))
     (zip kvs (map (map_prod document_of document_of) kvs)))"
| "document_of (PyOther t) = JNull"

definition encodable :: "pstr \<Rightarrow> bool" where
  "encodable s \<longleftrightarrow> \<not> list_ex is_surrogate s"

definition validate_payload :: "pyval \<Rightarrow> error + json" where
  "validate_payload payload = (case payload of
     PyDict kvs \<Rightarrow>
       (case check_value payload 0 of
          Some e \<Rightarrow> Inl e
        | None \<Rightarrow>
            (let text = canonical_json (document_of payload) in
             if \<not> encodable text then Inl UnicodeEncodeError
             else if max_payload_bytes < utf8_length text then Inl (AuditPayloadError (lit ''payload exceeds 16384 bytes''))
             else Inr (document_of payload)))
   | _ \<Rightarrow> Inl (AuditPayloadError (lit ''payload must be an object'')))"

text \<open>The documents the service itself writes are JSON from the start.\<close>

primrec pyval_of :: "json \<Rightarrow> pyval" where
  "pyval_of JNull = PyNone"
| "pyval_of (JBool b) = PyBool b"
| "pyval_of (JInt i) = PyInt i"
| "pyval_of (JStr s) = PyStr s"
| "pyval_of (JList vs) = PyList (map pyval_of vs)"
| "pyval_of (JObj kvs) = PyDict (map (\<lambda>p. (PyStr (fst p), snd p)) (map (map_prod id pyval_of) kvs))"

section \<open>The event digest\<close>

definition event_material ::
    "pstr \<Rightarrow> pstr \<Rightarrow> uuid \<Rightarrow> uuid option \<Rightarrow> json \<Rightarrow> pstr \<Rightarrow> timestamp \<Rightarrow> json" where
  "event_material event_type actor_id deceased_profile_id consent_grant_id payload previous_hash created_at =
     JObj [(lit ''v'', JInt hash_format_version),
           (lit ''event_type'', JStr event_type),
           (lit ''actor_id'', JStr actor_id),
           (lit ''deceased_profile_id'', JStr (uuid_str deceased_profile_id)),
           (lit ''consent_grant_id'', case consent_grant_id of Some g \<Rightarrow> JStr (uuid_str g) | None \<Rightarrow> JNull),
           (lit ''payload'', payload),
           (lit ''previous_hash'', JStr previous_hash),
           (lit ''created_at'', JStr (isoformat created_at))]"

definition hash_text :: "(pstr \<Rightarrow> pstr) \<Rightarrow> pstr \<Rightarrow> error + pstr" where
  "hash_text sha text = (if encodable text then Inr (sha text) else Inl UnicodeEncodeError)"

definition compute_event_hash ::
    "(pstr \<Rightarrow> pstr) \<Rightarrow> pstr \<Rightarrow> pstr \<Rightarrow> uuid \<Rightarrow> uuid option \<Rightarrow> json \<Rightarrow> pstr \<Rightarrow> timestamp \<Rightarrow> error + pstr" where
  "compute_event_hash sha event_type actor_id deceased_profile_id consent_grant_id payload previous_hash created_at =
     hash_text sha (canonical_json (event_material event_type actor_id deceased_profile_id consent_grant_id
       payload previous_hash created_at))"

section \<open>Appending\<close>

definition profile_events :: "consent_db \<Rightarrow> uuid \<Rightarrow> audit_event list" where
  "profile_events db i = filter (\<lambda>e. ae_profile_id e = i) (events db)"

text \<open>\<open>ORDER BY id DESC LIMIT 1\<close> over rows kept in ascending id order.\<close>

definition chain_head :: "consent_db \<Rightarrow> uuid \<Rightarrow> audit_event option" where
  "chain_head db i = (case profile_events db i of [] \<Rightarrow> None | es \<Rightarrow> Some (last es))"

definition next_event_id :: "consent_db \<Rightarrow> nat" where
  "next_event_id db = (case events db of [] \<Rightarrow> 1 | es \<Rightarrow> Suc (ae_id (last es)))"

definition insert_event :: "audit_event \<Rightarrow> consent_db \<Rightarrow> error + consent_db" where
  "insert_event e db =
     (if ae_hash e \<in> ae_hash ` set (events db) then Inl (IntegrityError ''uq_audit_event_event_hash'')
      else if (ae_profile_id e, ae_previous_hash e) \<in> (\<lambda>r. (ae_profile_id r, ae_previous_hash r)) ` set (events db)
        then Inl (IntegrityError ''uq_audit_event_chain_link'')
      else if \<not> event_check e then Inl (IntegrityError ''ck_audit_event_hashes_sha256'')
      else Inr (db\<lparr>events := events db @ [e]\<rparr>))"

definition append_event ::
    "(pstr \<Rightarrow> pstr) \<Rightarrow> timestamp \<Rightarrow> audit_event_type \<Rightarrow> pstr \<Rightarrow> uuid \<Rightarrow> uuid option \<Rightarrow> pyval \<Rightarrow> consent_db
       \<Rightarrow> error + (consent_db \<times> audit_event)" where
  "append_event sha now event_type actor_id deceased_profile_id consent_grant_id payload db =
     bindE (validate_payload payload) (\<lambda>document.
       let head = chain_head db deceased_profile_id;
           previous_hash = (case head of Some h \<Rightarrow> ae_hash h | None \<Rightarrow> genesis_hash);
           created_at = (case head of Some h \<Rightarrow> if now < ae_created_at h then ae_created_at h else now | None \<Rightarrow> now)
       in bindE (compute_event_hash sha (event_value event_type) actor_id deceased_profile_id consent_grant_id
                   document previous_hash created_at) (\<lambda>event_hash.
       let event = \<lparr> ae_id = next_event_id db, ae_type = event_type, ae_actor_id = actor_id,
             ae_grant_id = consent_grant_id, ae_profile_id = deceased_profile_id, ae_payload = document,
             ae_previous_hash = previous_hash, ae_hash = event_hash, ae_created_at = created_at \<rparr>
       in bindE (insert_event event db) (\<lambda>db'. Inr (db', event))))"

section \<open>Verification\<close>

record event_record =
  er_id :: int
  er_event_type :: pstr
  er_actor_id :: pstr
  er_grant_id :: "uuid option"
  er_profile_id :: uuid
  er_payload :: json
  er_previous_hash :: pstr
  er_event_hash :: pstr
  er_created_at :: timestamp

definition from_row :: "audit_event \<Rightarrow> event_record" where
  "from_row row = \<lparr> er_id = int (ae_id row), er_event_type = event_value (ae_type row), er_actor_id = ae_actor_id row,
     er_grant_id = ae_grant_id row, er_profile_id = ae_profile_id row, er_payload = ae_payload row,
     er_previous_hash = ae_previous_hash row, er_event_hash = ae_hash row, er_created_at = ae_created_at row \<rparr>"

definition record_json :: "event_record \<Rightarrow> json" where
  "record_json e = JObj [
     (lit ''id'', JInt (er_id e)),
     (lit ''event_type'', JStr (er_event_type e)),
     (lit ''actor_id'', JStr (er_actor_id e)),
     (lit ''consent_grant_id'', case er_grant_id e of Some g \<Rightarrow> JStr (uuid_str g) | None \<Rightarrow> JNull),
     (lit ''deceased_profile_id'', JStr (uuid_str (er_profile_id e))),
     (lit ''payload'', er_payload e),
     (lit ''previous_hash'', JStr (er_previous_hash e)),
     (lit ''event_hash'', JStr (er_event_hash e)),
     (lit ''created_at'', JStr (isoformat (er_created_at e)))]"

definition record_material :: "event_record \<Rightarrow> json" where
  "record_material e = event_material (er_event_type e) (er_actor_id e) (er_profile_id e) (er_grant_id e)
     (er_payload e) (er_previous_hash e) (er_created_at e)"

definition recomputed_hash :: "(pstr \<Rightarrow> pstr) \<Rightarrow> event_record \<Rightarrow> error + pstr" where
  "recomputed_hash sha e = compute_event_hash sha (er_event_type e) (er_actor_id e) (er_profile_id e) (er_grant_id e)
     (er_payload e) (er_previous_hash e) (er_created_at e)"

datatype chain_error_kind =
    BAD_GENESIS | BROKEN_LINK | HASH_MISMATCH | TIMESTAMP_REGRESSION | ANCHOR_MISMATCH | ANCHOR_MISSING

record chain_error =
  ce_profile_id :: uuid
  ce_event_id :: "int option"
  ce_kind :: chain_error_kind
  ce_detail :: pstr

record anchor =
  an_length :: int
  an_head_hash :: pstr

record chain_summary =
  cs_length :: nat
  cs_head_hash :: pstr
  cs_head_event_id :: "int option"
  cs_last_created_at :: "timestamp option"

definition new_summary :: chain_summary where
  "new_summary = \<lparr> cs_length = 0, cs_head_hash = genesis_hash, cs_head_event_id = None, cs_last_created_at = None \<rparr>"

record chain_report =
  cr_chains :: "(uuid \<times> chain_summary) list"
  cr_errors :: "chain_error list"

definition report_ok :: "chain_report \<Rightarrow> bool" where
  "report_ok r \<longleftrightarrow> cr_errors r = []"

definition event_count :: "chain_report \<Rightarrow> nat" where
  "event_count r = sum_list (map (cs_length \<circ> snd) (cr_chains r))"

text \<open>\<open>report.anchors()\<close>: the heads to check a later copy of the ledger against.\<close>

definition report_anchors :: "chain_report \<Rightarrow> (uuid \<times> anchor) list" where
  "report_anchors r = map (\<lambda>(i, c). (i, \<lparr> an_length = int (cs_length c), an_head_hash = cs_head_hash c \<rparr>))
     (sort_key fst (cr_chains r))"

definition event_errors ::
    "(pstr \<Rightarrow> pstr) \<Rightarrow> (uuid \<times> anchor) list \<Rightarrow> chain_summary \<Rightarrow> event_record \<Rightarrow> error + chain_error list" where
  "event_errors sha anchors chain event =
     (let err = (\<lambda>kind detail. \<lparr> ce_profile_id = er_profile_id event, ce_event_id = Some (er_id event),
                   ce_kind = kind, ce_detail = detail \<rparr>);
          link = (if er_previous_hash event \<noteq> cs_head_hash chain
                  then [err (if cs_length chain = 0 then BAD_GENESIS else BROKEN_LINK)
                     (lit ''previous_hash '' @ take 12 (er_previous_hash event) @ [8230] @ lit '' expected '' @
                      take 12 (cs_head_hash chain) @ [8230])] else [])
      in bindE (recomputed_hash sha event) (\<lambda>recomputed.
      let seal = (if recomputed \<noteq> er_event_hash event
                  then [err HASH_MISMATCH (lit ''row contents do not match event_hash'')] else []);
          time = (case cs_last_created_at chain of
                    Some t \<Rightarrow> if er_created_at event < t then [err TIMESTAMP_REGRESSION (lit ''created_at went backwards'')] else []
                  | None \<Rightarrow> []);
          length = cs_length chain + 1;
          moored = (case map_of anchors (er_profile_id event) of
                      Some a \<Rightarrow> if int length = an_length a \<and> er_event_hash event \<noteq> an_head_hash a
                        then [err ANCHOR_MISMATCH (lit ''event #'' @ int_str (an_length a) @
                                lit '' of this chain differs from the anchored head'')] else []
                    | None \<Rightarrow> [])
      in Inr (link @ seal @ time @ moored)))"

definition next_summary :: "chain_summary \<Rightarrow> event_record \<Rightarrow> chain_summary" where
  "next_summary chain event = \<lparr> cs_length = cs_length chain + 1, cs_head_hash = er_event_hash event,
     cs_head_event_id = Some (er_id event), cs_last_created_at = Some (er_created_at event) \<rparr>"

definition summary_of :: "chain_report \<Rightarrow> uuid \<Rightarrow> chain_summary" where
  "summary_of report i = (case map_of (cr_chains report) i of Some c \<Rightarrow> c | None \<Rightarrow> new_summary)"

definition verify_event ::
    "(pstr \<Rightarrow> pstr) \<Rightarrow> (uuid \<times> anchor) list \<Rightarrow> chain_report \<Rightarrow> event_record \<Rightarrow> error + chain_report" where
  "verify_event sha anchors report event =
     (let i = er_profile_id event; chain = summary_of report i
      in bindE (event_errors sha anchors chain event) (\<lambda>errs.
         Inr \<lparr> cr_chains = AList.update i (next_summary chain event) (cr_chains report),
               cr_errors = cr_errors report @ errs \<rparr>))"

fun verify_events ::
    "(pstr \<Rightarrow> pstr) \<Rightarrow> (uuid \<times> anchor) list \<Rightarrow> chain_report \<Rightarrow> event_record list \<Rightarrow> error + chain_report" where
  "verify_events sha anchors report [] = Inr report"
| "verify_events sha anchors report (e # es) =
     bindE (verify_event sha anchors report e) (\<lambda>report'. verify_events sha anchors report' es)"

definition missing_anchors :: "(uuid \<times> anchor) list \<Rightarrow> chain_report \<Rightarrow> chain_error list" where
  "missing_anchors anchors report = concat (map (\<lambda>(i, a).
     let n = (case map_of (cr_chains report) i of Some c \<Rightarrow> cs_length c | None \<Rightarrow> 0) in
     if int n < an_length a
     then [\<lparr> ce_profile_id = i, ce_event_id = None, ce_kind = ANCHOR_MISSING,
             ce_detail = lit ''chain has '' @ int_str (int n) @ lit '' events; anchor saw '' @ int_str (an_length a) \<rparr>]
     else []) anchors)"

definition empty_report :: chain_report where
  "empty_report = \<lparr> cr_chains = [], cr_errors = [] \<rparr>"

definition verify_chain ::
    "(pstr \<Rightarrow> pstr) \<Rightarrow> event_record list \<Rightarrow> (uuid \<times> anchor) list \<Rightarrow> error + chain_report" where
  "verify_chain sha es anchors =
     bindE (verify_events sha anchors empty_report es) (\<lambda>report.
       Inr (report\<lparr>cr_errors := cr_errors report @ missing_anchors anchors report\<rparr>))"

definition iter_events :: "consent_db \<Rightarrow> uuid option \<Rightarrow> event_record list" where
  "iter_events db i = map from_row (case i of None \<Rightarrow> events db | Some p \<Rightarrow> profile_events db p)"

end
