(* ===== verification/Ledger.thy ===== *)
theory Ledger imports Audit_Log begin

text \<open>
  Correctness of the audit ledger: what it is for a chain to be valid, stated without the verifier;
  the verifier reports no error exactly of valid, moored ledgers; appending keeps a ledger valid and
  cannot fork it; the digest of the last event commits to the whole chain.
\<close>

section \<open>The encoding of an event is unambiguous\<close>

lemma canon_event_material:
  "canon (event_material t a p g d h c) =
     JObj [(lit ''actor_id'', JStr a),
           (lit ''consent_grant_id'', case g of Some g \<Rightarrow> JStr (uuid_str g) | None \<Rightarrow> JNull),
           (lit ''created_at'', JStr (isoformat c)),
           (lit ''deceased_profile_id'', JStr (uuid_str p)),
           (lit ''event_type'', JStr t),
           (lit ''payload'', canon d),
           (lit ''previous_hash'', JStr h),
           (lit ''v'', JInt 1)]"
  by (cases g) (simp_all add: event_material_def hash_format_version_def lit_def)

lemma event_material_inject:
  assumes "canonical_json (event_material t a p g d h c) = canonical_json (event_material t' a' p' g' d' h' c')"
  shows "t = t'" and "a = a'" and "p = p'" and "g = g'" and "canon d = canon d'" and "h = h'"
    and "isoformat c = isoformat c'"
  using assms by (simp_all add: canon_event_material split: option.splits)

definition same_content :: "event_record \<Rightarrow> event_record \<Rightarrow> bool" where
  "same_content d e \<longleftrightarrow> er_event_type d = er_event_type e \<and> er_actor_id d = er_actor_id e \<and>
     er_profile_id d = er_profile_id e \<and> er_grant_id d = er_grant_id e \<and>
     canon (er_payload d) = canon (er_payload e) \<and> er_previous_hash d = er_previous_hash e \<and>
     isoformat (er_created_at d) = isoformat (er_created_at e)"

definition record_text :: "event_record \<Rightarrow> pstr" where
  "record_text e = canonical_json (record_material e)"

lemma record_text_eq_iff: "record_text d = record_text e \<longleftrightarrow> same_content d e"
proof
  assume "record_text d = record_text e"
  from event_material_inject [OF this [unfolded record_text_def record_material_def]]
  show "same_content d e" by (simp add: same_content_def)
qed (simp add: same_content_def record_text_def record_material_def canon_event_material)

text \<open>The audit ledger is a hash chain.\<close>

interpretation audit: hash_chain sha record_text er_previous_hash er_event_hash genesis_hash
  for sha :: "pstr \<Rightarrow> pstr"
  by unfold_locales (simp add: record_text_eq_iff same_content_def)

section \<open>Valid chains\<close>

definition of_profile :: "uuid \<Rightarrow> event_record list \<Rightarrow> event_record list" where
  "of_profile i es = filter (\<lambda>e. er_profile_id e = i) es"

definition chain_valid :: "(pstr \<Rightarrow> pstr) \<Rightarrow> event_record list \<Rightarrow> bool" where
  "chain_valid sha es \<longleftrightarrow>
     chain_from er_previous_hash er_event_hash genesis_hash es \<and>
     (\<forall>e \<in> set es. recomputed_hash sha e = Inr (er_event_hash e)) \<and>
     sorted (map er_created_at es)"

definition moored :: "anchor \<Rightarrow> event_record list \<Rightarrow> bool" where
  "moored a es \<longleftrightarrow> an_length a \<le> int (length es) \<and>
     (1 \<le> an_length a \<longrightarrow> er_event_hash (es ! (nat (an_length a) - 1)) = an_head_hash a)"

lemma recomputed_hash_text: "recomputed_hash sha e = hash_text sha (record_text e)"
  by (simp add: recomputed_hash_def compute_event_hash_def record_text_def record_material_def)

lemma hash_text_Inr: "hash_text sha t = Inr h \<longleftrightarrow> encodable t \<and> h = sha t"
  by (auto simp: hash_text_def)

lemma chain_valid_intact: "chain_valid sha es \<Longrightarrow> audit.intact sha es"
  by (auto simp: chain_valid_def audit.intact_def audit.sealed_def recomputed_hash_text hash_text_Inr)

lemma chain_valid_Nil [simp]: "chain_valid sha []"
  by (simp add: chain_valid_def)

lemma chain_valid_snoc:
  "chain_valid sha (es @ [e]) \<longleftrightarrow> chain_valid sha es \<and>
     er_previous_hash e = head_from er_event_hash genesis_hash es \<and>
     recomputed_hash sha e = Inr (er_event_hash e) \<and>
     (es \<noteq> [] \<longrightarrow> er_created_at (last es) \<le> er_created_at e)"
proof -
  have "sorted (map er_created_at (es @ [e])) \<longleftrightarrow>
      sorted (map er_created_at es) \<and> (es \<noteq> [] \<longrightarrow> er_created_at (last es) \<le> er_created_at e)"
  proof (cases es rule: rev_cases)
    case (snoc xs x)
    then show ?thesis by (force simp: sorted_append)
  qed simp
  then show ?thesis
    by (auto simp: chain_valid_def)
qed

lemma of_profile_snoc:
  "of_profile i (es @ [e]) = (if er_profile_id e = i then of_profile i es @ [e] else of_profile i es)"
  by (simp add: of_profile_def)

section \<open>The verifier\<close>

definition summary :: "event_record list \<Rightarrow> chain_summary" where
  "summary es = foldl next_summary new_summary es"

lemma summary_Nil [simp]: "summary [] = new_summary"
  by (simp add: summary_def)

lemma summary_snoc [simp]: "summary (es @ [e]) = next_summary (summary es) e"
  by (simp add: summary_def)

lemma summary_fields:
  "cs_length (summary es) = length es"
  "cs_head_hash (summary es) = head_from er_event_hash genesis_hash es"
  "cs_last_created_at (summary es) = (if es = [] then None else Some (er_created_at (last es)))"
  by (induction es rule: rev_induct) (simp_all add: new_summary_def next_summary_def)

lemma verify_events_append:
  "verify_events sha an r (xs @ ys) = bindE (verify_events sha an r xs) (\<lambda>r'. verify_events sha an r' ys)"
proof (induction xs arbitrary: r)
  case (Cons x xs)
  then show ?case by (cases "verify_event sha an r x") simp_all
qed simp

lemma verify_events_snoc:
  "verify_events sha an r (es @ [e]) = bindE (verify_events sha an r es) (\<lambda>r'. verify_event sha an r' e)"
  unfolding verify_events_append
  by (rule arg_cong [of _ _ "bindE _"], rule ext) (simp add: bindE_eq_Inr split: sum.splits, metis bindE.simps sum.exhaust)

lemma verify_chains:
  "verify_events sha an empty_report es = Inr r \<Longrightarrow>
     map_of (cr_chains r) i = (if of_profile i es = [] then None else Some (summary (of_profile i es)))"
proof (induction es arbitrary: r i rule: rev_induct)
  case Nil
  then show ?case by (auto simp: empty_report_def of_profile_def)
next
  case (snoc e es)
  from snoc.prems obtain r' where r': "verify_events sha an empty_report es = Inr r'"
    and step: "verify_event sha an r' e = Inr r"
    by (auto simp: verify_events_snoc bindE_eq_Inr)
  from step have chains: "cr_chains r = AList.update (er_profile_id e) (next_summary (summary_of r' (er_profile_id e)) e) (cr_chains r')"
    by (auto simp: verify_event_def Let_def bindE_eq_Inr)
  have "summary_of r' (er_profile_id e) = summary (of_profile (er_profile_id e) es)"
    using snoc.IH [OF r'] by (simp add: summary_of_def)
  with snoc.IH [OF r'] show ?case
    by (simp add: chains AList.update_conv' of_profile_snoc)
qed

lemma verify_summary:
  "verify_events sha an empty_report es = Inr r \<Longrightarrow> summary_of r i = summary (of_profile i es)"
  by (simp add: summary_of_def verify_chains)

definition anchored_at :: "(uuid \<times> anchor) list \<Rightarrow> uuid \<Rightarrow> event_record list \<Rightarrow> bool" where
  "anchored_at an i es \<longleftrightarrow> (\<forall>a. map_of an i = Some a \<longrightarrow> 1 \<le> an_length a \<longrightarrow> an_length a \<le> int (length es) \<longrightarrow>
     er_event_hash (es ! (nat (an_length a) - 1)) = an_head_hash a)"

lemma anchored_at_snoc:
  "anchored_at an i (es @ [e]) \<longleftrightarrow> anchored_at an i es \<and>
     (\<forall>a. map_of an i = Some a \<longrightarrow> int (length es) + 1 = an_length a \<longrightarrow> er_event_hash e = an_head_hash a)"
proof -
  have nth: "er_event_hash ((es @ [e]) ! (nat n - Suc 0)) =
      (if n \<le> int (length es) then er_event_hash (es ! (nat n - 1)) else er_event_hash e)"
    if "1 \<le> n" "n \<le> int (length es) + 1" for n
    using that by (auto simp: nth_append)
  show ?thesis
  proof (cases "map_of an i")
    case (Some a)
    then show ?thesis
      using nth [of "an_length a"]
      by (cases "an_length a = int (length es) + 1") (auto simp: anchored_at_def)
  qed (simp add: anchored_at_def)
qed

lemma event_errors_none:
  "event_errors sha an (summary es) e = Inr [] \<longleftrightarrow>
     er_previous_hash e = head_from er_event_hash genesis_hash es \<and>
     recomputed_hash sha e = Inr (er_event_hash e) \<and>
     (es \<noteq> [] \<longrightarrow> er_created_at (last es) \<le> er_created_at e) \<and>
     (\<forall>a. map_of an (er_profile_id e) = Some a \<longrightarrow> int (length es) + 1 = an_length a \<longrightarrow> er_event_hash e = an_head_hash a)"
  by (cases "map_of an (er_profile_id e)")
    (auto simp: event_errors_def Let_def bindE_eq_Inr summary_fields split: if_splits option.splits)

definition verified_ledger :: "(pstr \<Rightarrow> pstr) \<Rightarrow> (uuid \<times> anchor) list \<Rightarrow> event_record list \<Rightarrow> bool" where
  "verified_ledger sha an es \<longleftrightarrow> (\<forall>i. chain_valid sha (of_profile i es) \<and> anchored_at an i (of_profile i es))"

lemma verify_events_correct:
  "(\<exists>r. verify_events sha an empty_report es = Inr r \<and> cr_errors r = []) \<longleftrightarrow> verified_ledger sha an es"
proof (induction es rule: rev_induct)
  case Nil
  then show ?case
    by (simp add: empty_report_def verified_ledger_def of_profile_def anchored_at_def)
next
  case (snoc e es)
  let ?i = "er_profile_id e" and ?V = "verify_events sha an empty_report"
  have "verified_ledger sha an (es @ [e]) \<longleftrightarrow>
      verified_ledger sha an es \<and> event_errors sha an (summary (of_profile ?i es)) e = Inr []"
    unfolding verified_ledger_def event_errors_none of_profile_snoc
    by (auto simp: chain_valid_snoc anchored_at_snoc)
  also have "\<dots> \<longleftrightarrow> (\<exists>r. ?V es = Inr r \<and> cr_errors r = [] \<and> event_errors sha an (summary_of r ?i) e = Inr [])"
    unfolding snoc.IH [symmetric] by (metis verify_summary)
  also have "\<dots> \<longleftrightarrow> (\<exists>r. ?V (es @ [e]) = Inr r \<and> cr_errors r = [])"
    by (auto simp: verify_events_snoc bindE_eq_Inr verify_event_def Let_def)
  finally show ?case by simp
qed

lemma missing_none:
  assumes "verify_events sha an empty_report es = Inr r"
  shows "missing_anchors an r = [] \<longleftrightarrow> (\<forall>(i, a) \<in> set an. an_length a \<le> int (length (of_profile i es)))"
proof -
  have "(case map_of (cr_chains r) i of Some c \<Rightarrow> cs_length c | None \<Rightarrow> 0) = length (of_profile i es)" for i
    by (simp add: verify_chains [OF assms] summary_fields)
  then show ?thesis
    by (force simp: missing_anchors_def Let_def concat_eq_Nil_conv split: if_splits)
qed

text \<open>A dictionary of anchors has one anchor for each profile.\<close>

lemma verify_chain_correct:
  assumes "distinct (map fst an)"
  shows "(\<exists>r. verify_chain sha es an = Inr r \<and> report_ok r) \<longleftrightarrow>
    (\<forall>i. chain_valid sha (of_profile i es)) \<and> (\<forall>(i, a) \<in> set an. moored a (of_profile i es))"
proof -
  have "(\<exists>r. verify_chain sha es an = Inr r \<and> report_ok r) \<longleftrightarrow>
      (\<exists>r. verify_events sha an empty_report es = Inr r \<and> cr_errors r = [] \<and> missing_anchors an r = [])"
    by (auto simp: verify_chain_def bindE_eq_Inr report_ok_def)
  also have "\<dots> \<longleftrightarrow> (\<exists>r. verify_events sha an empty_report es = Inr r \<and> cr_errors r = []) \<and>
      (\<forall>(i, a) \<in> set an. an_length a \<le> int (length (of_profile i es)))"
    using missing_none by blast
  also have "\<dots> \<longleftrightarrow> verified_ledger sha an es \<and> (\<forall>(i, a) \<in> set an. an_length a \<le> int (length (of_profile i es)))"
    unfolding verify_events_correct ..
  also have "\<dots> \<longleftrightarrow> (\<forall>i. chain_valid sha (of_profile i es)) \<and> (\<forall>(i, a) \<in> set an. moored a (of_profile i es))"
    unfolding verified_ledger_def anchored_at_def moored_def
    using assms by (auto simp: map_of_eq_Some_iff)
  finally show ?thesis .
qed

lemma verify_chain_plain:
  "(\<exists>r. verify_chain sha es [] = Inr r \<and> report_ok r) \<longleftrightarrow> (\<forall>i. chain_valid sha (of_profile i es))"
  using verify_chain_correct [of "[]" sha es] by simp

section \<open>One tampered row is one error\<close>

lemma verify_events_errors:
  "verify_events sha an \<lparr>cr_chains = c, cr_errors = es @ fs\<rparr> evs =
     bindE (verify_events sha an \<lparr>cr_chains = c, cr_errors = fs\<rparr> evs) (\<lambda>r. Inr (r\<lparr>cr_errors := es @ cr_errors r\<rparr>))"
proof (induction evs arbitrary: c fs)
  case (Cons e evs)
  let ?c = "case map_of c (er_profile_id e) of None \<Rightarrow> new_summary | Some c \<Rightarrow> c"
  show ?case
    using Cons.IH by (cases "event_errors sha an ?c e") (simp_all add: verify_event_def summary_of_def Let_def)
qed simp

text \<open>The columns a row can be edited in without touching the links of its chain.\<close>

definition edited :: "event_record \<Rightarrow> event_record \<Rightarrow> bool" where
  "edited e e' \<longleftrightarrow> er_id e' = er_id e \<and> er_profile_id e' = er_profile_id e \<and>
     er_previous_hash e' = er_previous_hash e \<and> er_event_hash e' = er_event_hash e \<and>
     er_created_at e' = er_created_at e"

lemma event_errors_edited:
  assumes "edited e e'" and "event_errors sha [] chain e = Inr []"
    and "recomputed_hash sha e' = Inr h" and "h \<noteq> er_event_hash e'"
  shows "event_errors sha [] chain e' = Inr [\<lparr> ce_profile_id = er_profile_id e, ce_event_id = Some (er_id e),
      ce_kind = HASH_MISMATCH, ce_detail = lit ''row contents do not match event_hash'' \<rparr>]"
  using assms by (auto simp: edited_def event_errors_def Let_def bindE_eq_Inr split: if_splits option.splits)

lemma verify_chain_edited:
  assumes valid: "\<And>i. chain_valid sha (of_profile i (xs @ e # ys))"
    and ed: "edited e e'" and rec: "recomputed_hash sha e' = Inr h" and ne: "h \<noteq> er_event_hash e'"
  shows "\<exists>r. verify_chain sha (xs @ e' # ys) [] = Inr r \<and>
    cr_errors r = [\<lparr> ce_profile_id = er_profile_id e, ce_event_id = Some (er_id e),
      ce_kind = HASH_MISMATCH, ce_detail = lit ''row contents do not match event_hash'' \<rparr>]"
proof -
  let ?err = "\<lparr> ce_profile_id = er_profile_id e, ce_event_id = Some (er_id e),
      ce_kind = HASH_MISMATCH, ce_detail = lit ''row contents do not match event_hash'' \<rparr>"
  from valid have "verified_ledger sha [] (xs @ e # ys)"
    by (simp add: verified_ledger_def anchored_at_def)
  then obtain r where r: "verify_events sha [] empty_report (xs @ e # ys) = Inr r" and none: "cr_errors r = []"
    using verify_events_correct by blast
  then obtain rx re where rx: "verify_events sha [] empty_report xs = Inr rx"
    and re: "verify_event sha [] rx e = Inr re" and ry: "verify_events sha [] re ys = Inr r"
    by (auto simp: verify_events_append bindE_eq_Inr)
  let ?chain = "summary_of rx (er_profile_id e)"
  obtain errs where errs: "event_errors sha [] ?chain e = Inr errs"
    and re': "re = \<lparr>cr_chains = AList.update (er_profile_id e) (next_summary ?chain e) (cr_chains rx),
      cr_errors = cr_errors rx @ errs\<rparr>"
    using re by (auto simp: verify_event_def Let_def bindE_eq_Inr)
  have "verify_events sha [] re ys =
      bindE (verify_events sha [] \<lparr>cr_chains = cr_chains re, cr_errors = []\<rparr> ys) (\<lambda>r. Inr (r\<lparr>cr_errors := cr_errors re @ cr_errors r\<rparr>))"
    using verify_events_errors [of sha "[]" "cr_chains re" "cr_errors re" "[]" ys] by (cases re) simp
  with ry none obtain rz where rz: "verify_events sha [] \<lparr>cr_chains = cr_chains re, cr_errors = []\<rparr> ys = Inr rz"
    and "cr_errors re = []" and "cr_errors rz = []"
    by (auto simp: bindE_eq_Inr)
  with re' errs have "cr_errors rx = []" and clean: "event_errors sha [] ?chain e = Inr []"
    by auto
  from event_errors_edited [OF ed clean rec ne]
  have "verify_event sha [] rx e' = Inr \<lparr>cr_chains = cr_chains re, cr_errors = [?err] @ []\<rparr>"
    using ed \<open>cr_errors rx = []\<close> by (simp add: verify_event_def Let_def re' edited_def next_summary_def)
  moreover have "verify_events sha [] \<lparr>cr_chains = cr_chains re, cr_errors = [?err] @ []\<rparr> ys = Inr (rz\<lparr>cr_errors := [?err] @ cr_errors rz\<rparr>)"
    using rz by (simp only: verify_events_errors bindE.simps)
  ultimately have "verify_events sha [] empty_report (xs @ e' # ys) = Inr (rz\<lparr>cr_errors := [?err]\<rparr>)"
    by (simp only: verify_events_append rx bindE.simps verify_events.simps \<open>cr_errors rz = []\<close> append_Nil2)
  then show ?thesis
    by (simp add: verify_chain_def missing_anchors_def)
qed

section \<open>Anchors fix the past\<close>

lemma chains_distinct: "verify_events sha an r es = Inr r' \<Longrightarrow> distinct (map fst (cr_chains r)) \<Longrightarrow> distinct (map fst (cr_chains r'))"
proof (induction es arbitrary: r)
  case (Cons e es)
  then show ?case
    by (auto simp: bindE_eq_Inr verify_event_def Let_def distinct_update)
qed simp

lemma report_anchors_distinct:
  assumes "verify_chain sha es an = Inr r"
  shows "distinct (map fst (report_anchors r))"
proof -
  have "distinct (map fst (cr_chains r))"
    using assms chains_distinct [of sha an empty_report es] by (auto simp: verify_chain_def bindE_eq_Inr empty_report_def)
  moreover have "map fst (report_anchors r) = map fst (sort_key fst (cr_chains r))"
    by (simp add: report_anchors_def comp_def case_prod_beta)
  ultimately show ?thesis
    by (simp add: distinct_map)
qed

lemma report_anchors_at:
  assumes "verify_chain sha es an = Inr r" and ne: "of_profile i es \<noteq> []"
  shows "(i, \<lparr> an_length = int (length (of_profile i es)),
      an_head_hash = head_from er_event_hash genesis_hash (of_profile i es) \<rparr>) \<in> set (report_anchors r)"
proof -
  obtain r' where r': "verify_events sha an empty_report es = Inr r'" and "cr_chains r = cr_chains r'"
    using assms(1) by (auto simp: verify_chain_def bindE_eq_Inr)
  then have "map_of (cr_chains r) i = Some (summary (of_profile i es))"
    using verify_chains [OF r', of i] ne by simp
  then have "(i, summary (of_profile i es)) \<in> set (cr_chains r)"
    by (rule map_of_SomeD)
  then show ?thesis
    by (force simp: report_anchors_def summary_fields)
qed

lemma same_content_texts:
  "map record_text xs = map record_text ys \<longleftrightarrow> list_all2 same_content xs ys"
proof -
  have "list_all2 same_content xs ys \<longleftrightarrow> list_all2 (=) (map record_text xs) (map record_text ys)"
    by (simp add: list_all2_map1 list_all2_map2 record_text_eq_iff)
  then show ?thesis
    by (simp add: list.rel_eq)
qed

lemma anchors_fix_past:
  assumes one: "verify_chain sha es [] = Inr r" "report_ok r"
    and two: "verify_chain sha es' (report_anchors r) = Inr r'" "report_ok r'"
    and inj: "inj_on sha (record_text ` (set es \<union> set es'))"
  shows "list_all2 same_content (of_profile i es) (take (length (of_profile i es)) (of_profile i es'))"
proof (cases "of_profile i es = []")
  case False
  let ?xs = "of_profile i es" and ?ys = "of_profile i es'"
  have valid: "chain_valid sha ?xs" "chain_valid sha ?ys"
    using one verify_chain_plain [of sha es] two verify_chain_correct [OF report_anchors_distinct [OF one(1)], of sha es']
    by blast+
  have "moored \<lparr> an_length = int (length ?xs), an_head_hash = head_from er_event_hash genesis_hash ?xs \<rparr> ?ys"
    using report_anchors_at [OF one(1) False] two verify_chain_correct [OF report_anchors_distinct [OF one(1)], of sha es']
    by blast
  then have len: "length ?xs \<le> length ?ys"
    and head: "er_event_hash (?ys ! (length ?xs - 1)) = head_from er_event_hash genesis_hash ?xs"
    using False by (auto simp: moored_def Suc_le_eq)
  have "take (length ?xs) ?ys \<noteq> []"
    using False len by auto
  then have "head_from er_event_hash genesis_hash (take (length ?xs) ?ys) = er_event_hash (last (take (length ?xs) ?ys))"
    by (rule head_from_last)
  also have "last (take (length ?xs) ?ys) = ?ys ! (length ?xs - 1)"
    using False len by (subst last_conv_nth) (auto simp: min_def)
  finally have heads: "audit.head (take (length ?xs) ?ys) = audit.head ?xs"
    using head by (simp add: audit.head_def)
  have "map record_text (take (length ?xs) ?xs) = map record_text (take (length ?xs) ?ys)"
  proof (rule audit.anchor_commits [OF chain_valid_intact [OF valid(1)] chain_valid_intact [OF valid(2)]])
    show "inj_on sha (record_text ` (set ?xs \<union> set ?ys))"
      by (rule inj_on_subset [OF inj]) (auto simp: of_profile_def)
  qed (use len heads in simp_all)
  then show ?thesis
    by (simp add: same_content_texts)
qed (simp add: of_profile_def)

section \<open>Appending\<close>

definition ledger_ok :: "(pstr \<Rightarrow> pstr) \<Rightarrow> consent_db \<Rightarrow> bool" where
  "ledger_ok sha db \<longleftrightarrow> (\<forall>i. chain_valid sha (map from_row (profile_events db i)))"

definition event_rows_ok :: "consent_db \<Rightarrow> bool" where
  "event_rows_ok db \<longleftrightarrow> distinct (map ae_hash (events db)) \<and>
     distinct (map (\<lambda>e. (ae_profile_id e, ae_previous_hash e)) (events db)) \<and>
     sorted_wrt (<) (map ae_id (events db)) \<and> list_all event_check (events db)"

lemma from_row_fields [simp]:
  "er_profile_id (from_row e) = ae_profile_id e" "er_previous_hash (from_row e) = ae_previous_hash e"
  "er_event_hash (from_row e) = ae_hash e" "er_created_at (from_row e) = ae_created_at e"
  "er_id (from_row e) = int (ae_id e)" "er_grant_id (from_row e) = ae_grant_id e"
  "er_event_type (from_row e) = event_value (ae_type e)" "er_actor_id (from_row e) = ae_actor_id e"
  "er_payload (from_row e) = ae_payload e"
  by (simp_all add: from_row_def)

lemma iter_events_of_profile: "map from_row (profile_events db i) = of_profile i (iter_events db None)"
  by (simp add: iter_events_def profile_events_def of_profile_def filter_map comp_def)

lemma ledger_ok_verifies: "ledger_ok sha db \<longleftrightarrow> (\<exists>r. verify_chain sha (iter_events db None) [] = Inr r \<and> report_ok r)"
  by (simp add: verify_chain_plain ledger_ok_def iter_events_of_profile)

lemma chain_head_from:
  "chain_head db i = None \<Longrightarrow> profile_events db i = []"
  "chain_head db i = Some h \<Longrightarrow> profile_events db i \<noteq> [] \<and> h = last (profile_events db i)"
  by (auto simp: chain_head_def split: list.splits)

lemma append_event_Inr:
  assumes "append_event sha now t a i g p db = Inr (db', e)"
  shows "db' = db\<lparr>events := events db @ [e]\<rparr>"
    and "ae_id e = next_event_id db" and "ae_type e = t" and "ae_actor_id e = a" and "ae_profile_id e = i"
    and "ae_grant_id e = g" and "validate_payload p = Inr (ae_payload e)"
    and "ae_previous_hash e = head_from er_event_hash genesis_hash (map from_row (profile_events db i))"
    and "recomputed_hash sha (from_row e) = Inr (ae_hash e)"
    and "now \<le> ae_created_at e"
    and "profile_events db i \<noteq> [] \<Longrightarrow> ae_created_at (last (profile_events db i)) \<le> ae_created_at e"
    and "insert_event e db = Inr db'"
proof -
  have head: "(case chain_head db i of None \<Rightarrow> genesis_hash | Some h \<Rightarrow> ae_hash h) =
      head_from er_event_hash genesis_hash (map from_row (profile_events db i))"
    by (cases "chain_head db i") (auto dest!: chain_head_from simp: head_from_last last_map)
  note unf = assms [unfolded append_event_def Let_def, unfolded head bindE_eq_Inr]
  show "insert_event e db = Inr db'"
    using unf by auto
  then show "db' = db\<lparr>events := events db @ [e]\<rparr>"
    by (simp add: insert_event_def split: if_splits)
  show "ae_id e = next_event_id db" "ae_type e = t" "ae_actor_id e = a" "ae_profile_id e = i"
    "ae_grant_id e = g" "validate_payload p = Inr (ae_payload e)"
    "ae_previous_hash e = head_from er_event_hash genesis_hash (map from_row (profile_events db i))"
    "recomputed_hash sha (from_row e) = Inr (ae_hash e)"
    using unf by (auto simp: recomputed_hash_def)
  show "now \<le> ae_created_at e"
    using unf by (auto split: option.splits)
  show "ae_created_at (last (profile_events db i)) \<le> ae_created_at e" if "profile_events db i \<noteq> []"
    using unf that by (auto dest!: chain_head_from split: option.splits if_splits)
qed

lemma profile_events_append:
  "profile_events (db\<lparr>events := events db @ [e]\<rparr>) i =
     (if ae_profile_id e = i then profile_events db i @ [e] else profile_events db i)"
  by (simp add: profile_events_def)

lemma append_event_ledger:
  assumes "append_event sha now t a i g p db = Inr (db', e)" and "ledger_ok sha db"
  shows "ledger_ok sha db'"
  unfolding ledger_ok_def
proof
  fix j
  note new = append_event_Inr [OF assms(1)]
  show "chain_valid sha (map from_row (profile_events db' j))"
    using assms(2) new
    by (auto simp: new(1) profile_events_append ledger_ok_def chain_valid_snoc last_map)
qed

lemma append_event_rows:
  assumes "append_event sha now t a i g p db = Inr (db', e)" and "event_rows_ok db"
  shows "event_rows_ok db'"
proof -
  note new = append_event_Inr [OF assms(1)]
  have "ae_id r < ae_id e" if r: "r \<in> set (events db)" for r
  proof -
    obtain rs l where rs: "events db = rs @ [l]"
      using r by (cases "events db" rule: rev_cases) auto
    then have "ae_id e = Suc (ae_id l)"
      using new(2) by (cases rs) (auto simp: next_event_id_def)
    with r rs assms(2) show ?thesis
      by (auto simp: event_rows_ok_def sorted_wrt_append)
  qed
  with assms(2) new(12) show ?thesis
    unfolding new(1) by (auto simp: event_rows_ok_def insert_event_def sorted_wrt_append split: if_splits)
qed

lemma append_event_rest [frame]:
  assumes "append_event sha now t a i g p db = Inr (db', e)"
  shows "profiles db' = profiles db" "grants db' = grants db" "beneficiaries db' = beneficiaries db"
    "acknowledgments db' = acknowledgments db" "requests db' = requests db" "tokens db' = tokens db"
    "successors db' = successors db" "voice_models db' = voice_models db"
    "audio_artifacts db' = audio_artifacts db" "deliveries db' = deliveries db"
  using append_event_Inr(1) [OF assms] by simp_all

lemma rows_ok_events: "rows_ok (db\<lparr>events := es\<rparr>) = rows_ok db"
  by (simp add: rows_ok_defs)

lemma append_event_rows_ok: "append_event sha now t a i g p db = Inr (db', e) \<Longrightarrow> rows_ok db' = rows_ok db"
  by (drule append_event_Inr(1)) (simp add: rows_ok_events)

text \<open>No fork and no refusal: without collisions the unique constraints never reject an append.\<close>

lemma insert_event_fresh:
  assumes "\<And>r. r \<in> set (events db) \<Longrightarrow> ae_hash r \<noteq> ae_hash e"
    and "\<And>r. r \<in> set (events db) \<Longrightarrow> (ae_profile_id r, ae_previous_hash r) \<noteq> (ae_profile_id e, ae_previous_hash e)"
    and "event_check e"
  shows "insert_event e db = Inr (db\<lparr>events := events db @ [e]\<rparr>)"
proof -
  have "ae_hash e \<notin> ae_hash ` set (events db)"
    using assms(1) by (metis imageE)
  moreover have "(ae_profile_id e, ae_previous_hash e) \<notin> (\<lambda>r. (ae_profile_id r, ae_previous_hash r)) ` set (events db)"
    using assms(2) by (metis (no_types, lifting) imageE)
  ultimately show ?thesis
    using assms(3) by (simp add: insert_event_def)
qed

definition next_record :: "timestamp \<Rightarrow> audit_event_type \<Rightarrow> pstr \<Rightarrow> uuid \<Rightarrow> uuid option \<Rightarrow> json \<Rightarrow> consent_db \<Rightarrow> event_record" where
  "next_record now t a i g doc db = \<lparr> er_id = int (next_event_id db), er_event_type = event_value t, er_actor_id = a,
     er_grant_id = g, er_profile_id = i, er_payload = doc,
     er_previous_hash = (case chain_head db i of Some h \<Rightarrow> ae_hash h | None \<Rightarrow> genesis_hash),
     er_event_hash = [],
     er_created_at = (case chain_head db i of Some h \<Rightarrow> max (ae_created_at h) now | None \<Rightarrow> now) \<rparr>"

lemma append_event_succeeds:
  assumes ok: "ledger_ok sha db" and rows: "event_rows_ok db"
    and doc: "validate_payload p = Inr doc"
    and enc: "encodable (record_text (next_record now t a i g doc db))"
    and hex: "length (sha (record_text (next_record now t a i g doc db))) = 64"
    and inj: "inj_on sha (insert (record_text (next_record now t a i g doc db)) (record_text ` set (iter_events db None)))"
    and gen: "genesis_hash \<notin> sha ` record_text ` set (iter_events db None)"
  shows "\<exists>db' e. append_event sha now t a i g p db = Inr (db', e)"
proof -
  let ?n = "next_record now t a i g doc db"
  let ?h = "sha (record_text ?n)"
  have sealed: "ae_hash e = sha (record_text (from_row e))" if "e \<in> set (events db)" for e
  proof -
    have "from_row e \<in> set (map from_row (profile_events db (ae_profile_id e)))"
      using that by (auto simp: profile_events_def)
    moreover have "chain_valid sha (map from_row (profile_events db (ae_profile_id e)))"
      using ok by (simp add: ledger_ok_def)
    ultimately have "recomputed_hash sha (from_row e) = Inr (ae_hash e)"
      unfolding chain_valid_def from_row_fields(3) [symmetric] by blast
    then show ?thesis
      by (simp add: recomputed_hash_text hash_text_Inr)
  qed
  have fresh: "(ae_profile_id e, ae_previous_hash e) \<noteq> (i, er_previous_hash ?n)" if e: "e \<in> set (events db)" for e
  proof (cases "ae_profile_id e = i")
    case True
    let ?c = "map from_row (profile_events db i)"
    have "audit.intact sha ?c"
      using ok chain_valid_intact by (auto simp: ledger_ok_def)
    moreover have "inj_on sha (record_text ` set ?c)"
      by (rule inj_on_subset [OF inj]) (auto simp: iter_events_def profile_events_def)
    moreover have "genesis_hash \<notin> sha ` record_text ` set ?c"
      using gen by (auto simp: iter_events_def profile_events_def)
    moreover have "from_row e \<in> set ?c"
      using e True by (auto simp: profile_events_def)
    ultimately have "er_previous_hash (from_row e) \<noteq> audit.head ?c"
      by (rule audit.next_prev_fresh)
    moreover have "er_previous_hash ?n = audit.head ?c"
      by (cases "chain_head db i") (auto dest!: chain_head_from simp: next_record_def audit.head_def head_from_last last_map)
    ultimately show ?thesis by simp
  qed simp
  have "ae_hash e \<noteq> ?h" if e: "e \<in> set (events db)" for e
  proof
    assume "ae_hash e = ?h"
    then have "record_text (from_row e) = record_text ?n"
      using inj e sealed [OF e] by (auto intro: inj_onD simp: iter_events_def)
    then have "same_content (from_row e) ?n"
      by (simp add: record_text_eq_iff)
    with fresh [OF e] show False
      by (simp add: same_content_def next_record_def)
  qed
  moreover have "length (er_previous_hash ?n) = 64"
  proof (cases "chain_head db i")
    case (Some h)
    then have "h \<in> set (events db)"
      using chain_head_from(2) last_in_set [of "profile_events db i"] by (auto simp: profile_events_def)
    then show ?thesis
      using rows Some by (auto simp: next_record_def event_rows_ok_def list_all_iff event_check_def)
  qed (simp add: next_record_def genesis_hash_def)
  moreover have "length ?h = 64"
    by (rule hex)
  ultimately have ins: "insert_event \<lparr> ae_id = next_event_id db, ae_type = t, ae_actor_id = a, ae_grant_id = g,
      ae_profile_id = i, ae_payload = doc, ae_previous_hash = er_previous_hash ?n, ae_hash = ?h,
      ae_created_at = er_created_at ?n \<rparr> db = Inr (db\<lparr>events := events db @ [\<lparr> ae_id = next_event_id db,
      ae_type = t, ae_actor_id = a, ae_grant_id = g, ae_profile_id = i, ae_payload = doc,
      ae_previous_hash = er_previous_hash ?n, ae_hash = ?h, ae_created_at = er_created_at ?n \<rparr>]\<rparr>)"
    using fresh by (intro insert_event_fresh) (simp_all add: event_check_def)
  have hash: "compute_event_hash sha (event_value t) a i g doc (er_previous_hash ?n) (er_created_at ?n) = Inr ?h"
    using enc by (simp add: compute_event_hash_def hash_text_def record_text_def record_material_def next_record_def)
  have prev: "(case chain_head db i of None \<Rightarrow> genesis_hash | Some h \<Rightarrow> ae_hash h) = er_previous_hash ?n"
    and time: "(case chain_head db i of None \<Rightarrow> now | Some h \<Rightarrow> if now < ae_created_at h then ae_created_at h else now) = er_created_at ?n"
    by (simp_all add: next_record_def max_def split: option.split)
  show ?thesis
    by (simp add: append_event_def doc Let_def prev time hash ins)
qed

end
