(* ===== verification/Payloads.thy ===== *)
theory Payloads imports Ledger "HOL-Library.Multiset" begin

text \<open>
  Which payloads the ledger accepts. \<open>validate_payload\<close> and the event digest refuse a payload for its
  types, its depth, a NUL, a lone surrogate or its size in bytes. Here the last two are bounded without
  writing the text out: \<open>clean_json\<close> holds when every string has an encoding, and \<open>room\<close> bounds
  the number of bytes of the canonical text.
\<close>

section \<open>Texts that encode\<close>

lemma encodable_simps [simp]:
  "encodable []" "encodable (c # s) \<longleftrightarrow> \<not> is_surrogate c \<and> encodable s"
  "encodable (s @ t) \<longleftrightarrow> encodable s \<and> encodable t"
  by (auto simp: encodable_def)

lemma encodable_small: "(\<And>c. c \<in> set s \<Longrightarrow> c < 55296) \<Longrightarrow> encodable s"
  by (force simp: encodable_def list_ex_iff is_surrogate_def)

lemma encodable_concat: "(\<And>s. s \<in> set ss \<Longrightarrow> encodable s) \<Longrightarrow> encodable (concat ss)"
  by (induction ss) auto

lemma encodable_lit: "encodable (lit s)"
proof (rule encodable_small)
  fix c assume "c \<in> set (lit s)"
  then obtain d :: char where "c = of_char d"
    by (auto simp: lit_def)
  then show "c < 55296"
    using nat_of_char_less_256 [of d] by linarith
qed

lemma encodable_pad10: "encodable (pad10 w n)"
proof (rule encodable_small)
  fix c assume "c \<in> set (pad10 w n)"
  then obtain d where "d \<in> set (fixed 10 w n)" "c = digit_char d"
    by (auto simp: pad10_def)
  then show "c < 55296"
    using fixed_less [of 10 d w n] by (simp add: digit_char_def)
qed

lemma encodable_pad16: "encodable (pad16 w n)"
proof (rule encodable_small)
  fix c assume "c \<in> set (pad16 w n)"
  then obtain d where "d \<in> set (fixed 16 w n)" "c = digit_char d"
    by (auto simp: pad16_def)
  then show "c < 55296"
    using fixed_less [of 16 d w n] by (simp add: digit_char_def)
qed

lemma encodable_int_str: "encodable (int_str i)"
  using dec_digits by (intro encodable_small) (fastforce simp: int_str_def split: if_splits)

lemma encodable_take_drop: "encodable s \<Longrightarrow> encodable (take n s) \<and> encodable (drop n s)"
  by (metis append_take_drop_id encodable_simps(3))

lemma encodable_uuid_str: "encodable (uuid_str u)"
  using encodable_pad16 [of 32 "unat u"] encodable_take_drop by (simp add: uuid_str_def Let_def is_surrogate_def)

lemma encodable_isoformat: "encodable (isoformat t)"
  by (simp add: isoformat_def Let_def encodable_pad10 encodable_lit is_surrogate_def)

lemma encodable_esc: "\<not> is_surrogate c \<Longrightarrow> encodable (esc c)"
  by (simp add: esc_def encodable_pad16 is_surrogate_def)

lemma encodable_json_str: "encodable s \<Longrightarrow> encodable (json_str s)"
  using encodable_esc by (auto simp: json_str_def is_surrogate_def encodable_def list_ex_iff intro!: encodable_concat [unfolded encodable_def list_ex_iff])

lemma encodable_commas: "(\<And>t. t \<in> set ts \<Longrightarrow> encodable t) \<Longrightarrow> encodable (commas ts)"
  by (cases ts) (auto simp: commas_def is_surrogate_def intro!: encodable_concat)

primrec clean_json :: "json \<Rightarrow> bool" where
  "clean_json JNull \<longleftrightarrow> True"
| "clean_json (JBool b) \<longleftrightarrow> True"
| "clean_json (JInt i) \<longleftrightarrow> True"
| "clean_json (JStr s) \<longleftrightarrow> encodable s"
| "clean_json (JList xs) \<longleftrightarrow> list_all id (map clean_json xs)"
| "clean_json (JObj kvs) \<longleftrightarrow> list_all (\<lambda>p. encodable (fst p) \<and> snd p) (map (map_prod id clean_json) kvs)"

lemma clean_enc: "clean_json v \<Longrightarrow> encodable (enc v)"
proof (induction v)
  case (JList xs)
  then show ?case
    by (auto simp: is_surrogate_def list_all_iff intro!: encodable_commas)
next
  case (JObj kvs)
  have "encodable (json_str k @ 58 # enc w)" if "(k, w) \<in> set kvs" for k w
    using JObj.IH [of "(k, w)" w] JObj.prems that by (force simp: list_all_iff is_surrogate_def encodable_json_str)
  then show ?case
    by (auto simp: is_surrogate_def intro!: encodable_commas)
qed (auto simp: encodable_lit encodable_int_str encodable_json_str)

lemma clean_canon: "clean_json (canon v) = clean_json v"
proof (induction v)
  case (JList xs)
  then show ?case by (auto simp: list_all_iff)
next
  case (JObj kvs)
  then show ?case
    by (fastforce simp: list_all_iff)
qed simp_all

lemma clean_canonical: "clean_json v \<Longrightarrow> encodable (canonical_json v)"
  by (simp add: canonical_json_def clean_enc clean_canon)

lemma clean_record:
  assumes "encodable (er_event_type e)" "encodable (er_actor_id e)" "clean_json (er_payload e)" "encodable (er_previous_hash e)"
  shows "encodable (record_text e)"
  unfolding record_text_def record_material_def event_material_def
  using assms by (intro clean_canonical)
    (simp add: encodable_lit encodable_uuid_str encodable_isoformat split: option.split)

section \<open>The size of a text\<close>

primrec room :: "json \<Rightarrow> nat" where
  "room JNull = 4"
| "room (JBool b) = 5"
| "room (JInt i) = length (int_str i)"
| "room (JStr s) = 6 * length s + 2"
| "room (JList xs) = 2 + sum_list (map (\<lambda>n. n + 1) (map room xs))"
| "room (JObj kvs) = 2 + sum_list (map (\<lambda>p. 6 * length (fst p) + 4 + snd p) (map (map_prod id room) kvs))"

lemma utf8_length_simps [simp]:
  "utf8_length [] = 0" "utf8_length (c # s) = utf8_width c + utf8_length s" "utf8_length (s @ t) = utf8_length s + utf8_length t"
  by (simp_all add: utf8_length_def)

lemma utf8_length_ascii: "(\<And>c. c \<in> set s \<Longrightarrow> c < 128) \<Longrightarrow> utf8_length s = length s"
  by (induction s) (auto simp: utf8_width_def)

lemma utf8_esc: "utf8_length (esc c) \<le> 6"
proof -
  have "d < 128" if "d \<in> set (pad16 2 c)" for d
    using that fixed_less [of 16 _ 2 c] by (fastforce simp: pad16_def digit_char_def)
  then have "utf8_length (pad16 2 c) = 2"
    by (subst utf8_length_ascii) simp_all
  then show ?thesis
    by (simp add: esc_def utf8_width_def)
qed

lemma utf8_json_str: "utf8_length (json_str s) \<le> 6 * length s + 2"
proof -
  have "utf8_length (concat (map esc s)) \<le> 6 * length s"
    by (induction s) (simp_all add: add_mono utf8_esc)
  then show ?thesis
    by (simp add: json_str_def utf8_width_def)
qed

lemma utf8_commas: "utf8_length (commas ts) \<le> sum_list (map (\<lambda>t. utf8_length t + 1) ts)"
proof (cases ts)
  case (Cons t us)
  have "utf8_length (concat (map (\<lambda>u. 44 # u) us)) = sum_list (map (\<lambda>t. utf8_length t + 1) us)" for us
    by (induction us) (simp_all add: utf8_width_def)
  then show ?thesis
    by (simp add: Cons commas_def)
qed (simp add: commas_def)

lemma enc_room: "utf8_length (enc v) \<le> room v"
proof (induction v)
  case (JBool b)
  then show ?case by (simp add: lit_def utf8_width_def)
next
  case (JInt i)
  have "c < 128" if "c \<in> set (int_str i)" for c
    using that dec_digits by (fastforce simp: int_str_def split: if_splits)
  then show ?case
    by (simp add: utf8_length_ascii)
next
  case (JStr s)
  then show ?case using utf8_json_str [of s] by simp
next
  case (JList xs)
  have "utf8_length (commas (map enc xs)) \<le> sum_list (map (\<lambda>x. utf8_length (enc x) + 1) xs)"
    using utf8_commas [of "map enc xs"] by (simp add: comp_def)
  also have "\<dots> \<le> sum_list (map (\<lambda>x. room x + 1) xs)"
    by (rule sum_list_mono) (simp add: JList.IH)
  finally show ?case
    by (simp add: utf8_width_def comp_def)
next
  case (JObj kvs)
  let ?item = "\<lambda>p. json_str (fst p) @ 58 # enc (snd p)"
  have items: "map (\<lambda>p. json_str (fst p) @ 58 # snd p) (map (map_prod id enc) kvs) = map ?item kvs"
    by simp
  have "utf8_length (commas (map ?item kvs)) \<le> sum_list (map (\<lambda>p. utf8_length (?item p) + 1) kvs)"
    using utf8_commas [of "map ?item kvs"] by (simp add: comp_def)
  also have "\<dots> \<le> sum_list (map (\<lambda>p. 6 * length (fst p) + 4 + room (snd p)) kvs)"
  proof (rule sum_list_mono)
    fix p assume "p \<in> set kvs"
    then obtain k w where p: "p = (k, w)" "(k, w) \<in> set kvs"
      by (metis surj_pair)
    then have "utf8_length (enc (snd p)) \<le> room (snd p)"
      using JObj.IH [of "(k, w)" w] by simp
    then show "utf8_length (?item p) + 1 \<le> 6 * length (fst p) + 4 + room (snd p)"
      using utf8_json_str [of "fst p"] by (simp add: utf8_width_def)
  qed
  finally show ?case
    unfolding enc.simps room.simps items by (simp add: utf8_width_def comp_def)
qed (simp add: lit_def utf8_width_def)

lemma room_canon: "room (canon v) = room v"
proof (induction v)
  case (JList xs)
  then show ?case by (simp add: comp_def cong: map_cong)
next
  case (JObj kvs)
  have sort: "sum_list (map f (sort_key fst xs)) = sum_list (map f xs)" for f :: "pstr \<times> json \<Rightarrow> nat" and xs
    by (metis mset_map mset_sort sum_mset_sum_list)
  show ?case
    using JObj.IH by (simp add: sort comp_def case_prod_beta) (rule arg_cong [of _ _ sum_list], auto)
qed simp_all

lemma canonical_room: "utf8_length (canonical_json v) \<le> room v"
  using enc_room [of "canon v"] by (simp add: canonical_json_def room_canon)

section \<open>Acceptance\<close>

lemma validate_payload_accepts:
  assumes "check_value (PyDict kvs) 0 = None" and "clean_json (document_of (PyDict kvs))"
    and "room (document_of (PyDict kvs)) \<le> max_payload_bytes"
  shows "validate_payload (PyDict kvs) = Inr (document_of (PyDict kvs))"
  using assms clean_canonical [OF assms(2)] canonical_room [of "document_of (PyDict kvs)"]
  by (simp add: validate_payload_def del: check_value.simps document_of.simps)

text \<open>The first event of a ledger needs nothing of the digest but its length.\<close>

lemma first_append:
  assumes "events db = []" and "validate_payload p = Inr doc" and "clean_json doc" and "encodable a"
    and "\<And>s. length (sha s) = 64"
  shows "\<exists>db' e. append_event sha now t a i g p db = Inr (db', e)"
proof (rule append_event_succeeds [OF _ _ assms(2)])
  have head: "chain_head db i = None"
    by (simp add: chain_head_def profile_events_def assms(1))
  show "ledger_ok sha db" "event_rows_ok db"
    by (simp_all add: ledger_ok_def event_rows_ok_def profile_events_def assms(1))
  have "encodable (event_value t)"
    by (cases t) (simp_all add: encodable_lit)
  moreover have "encodable genesis_hash"
    by (rule encodable_small) (simp add: genesis_hash_def)
  ultimately show "encodable (record_text (next_record now t a i g doc db))"
    by (intro clean_record) (simp_all add: next_record_def head assms(3,4))
qed (simp_all add: assms iter_events_def)

end
