(* ===== verification/Kernel.thy ===== *)
theory Kernel imports Ledger begin

text \<open>
  The decision procedure of \<open>app/consent/kernel.py\<close>: the facts it reads, the roles of an
  actor, the per-grant failures with their stages, and \<open>decide\<close>. The theorems compare it with the
  policy written as a predicate: a request is allowed exactly when the policy permits it, the grant
  used is the first usable one, and a denial names the reason of the grant that got furthest.
\<close>

section \<open>Actors\<close>

datatype actor_kind = HUMAN | SERVICE

primrec actor_kind_value :: "actor_kind \<Rightarrow> pstr" where
  "actor_kind_value HUMAN = lit ''HUMAN''"
| "actor_kind_value SERVICE = lit ''SERVICE''"

record actor =
  ac_user_id :: pstr
  ac_email :: "pstr option"
  ac_kind :: actor_kind
  ac_is_admin :: bool

section \<open>Facts\<close>

record quorum_count =
  q_required :: int
  q_acknowledged :: int

definition satisfied :: "quorum_count \<Rightarrow> bool" where
  "satisfied q \<longleftrightarrow> q_required q \<le> q_acknowledged q"

definition quorum :: "pstr set \<Rightarrow> pstr set \<Rightarrow> int option \<Rightarrow> quorum_count" where
  "quorum named_emails acknowledged_emails required = \<lparr>
     q_required = (case required of None \<Rightarrow> int (card named_emails) | Some n \<Rightarrow> n),
     q_acknowledged = int (card (named_emails \<inter> acknowledged_emails)) \<rparr>"

record grant_facts =
  gf_id :: uuid
  gf_grantor_type :: grantor_type
  gf_grantor_user_id :: pstr
  gf_purpose_scope :: "purpose_scope set"
  gf_is_active :: bool
  gf_revoked :: bool
  gf_verified :: bool
  gf_named_emails :: "pstr set"
  gf_acknowledged_emails :: "pstr set"
  gf_required_acks :: "int option"

definition grant_quorum :: "grant_facts \<Rightarrow> quorum_count" where
  "grant_quorum g = quorum (gf_named_emails g) (gf_acknowledged_emails g) (gf_required_acks g)"

definition facts_from_row :: "consent_db \<Rightarrow> consent_grant \<Rightarrow> grant_facts" where
  "facts_from_row db g = \<lparr> gf_id = g_id g, gf_grantor_type = g_grantor_type g,
     gf_grantor_user_id = g_grantor_user_id g, gf_purpose_scope = g_purpose_scope g, gf_is_active = g_is_active g,
     gf_revoked = (g_revoked_at g \<noteq> None), gf_verified = (g_verified_at g \<noteq> None),
     gf_named_emails = set (map gb_email (grant_beneficiaries db g)),
     gf_acknowledged_emails = set (map ba_email (grant_acks db g)),
     gf_required_acks = g_required_acks g \<rparr>"

record profile_facts =
  pf_id :: uuid
  pf_date_of_death :: "day option"
  pf_successors :: "pstr set"
  pf_grants :: "grant_facts list"

definition load_profile_facts :: "consent_db \<Rightarrow> uuid \<Rightarrow> profile_facts option" where
  "load_profile_facts db profile_id = (case get_profile db profile_id of
     None \<Rightarrow> None
   | Some profile \<Rightarrow> Some \<lparr> pf_id = p_id profile, pf_date_of_death = p_date_of_death profile,
       pf_successors = set (map sd_user_id (filter (\<lambda>s. sd_profile_id s = profile_id) (successors db))),
       pf_grants = map (facts_from_row db)
         (sort_key (\<lambda>g. (g_granted_at g, g_id g)) (filter (\<lambda>g. g_profile_id g = profile_id) (grants db))) \<rparr>)"

section \<open>Roles\<close>

definition roles_for :: "actor \<Rightarrow> profile_facts \<Rightarrow> grant_facts option \<Rightarrow> role set" where
  "roles_for actor facts grant =
     (let candidates = (case grant of Some g \<Rightarrow> [g] | None \<Rightarrow> pf_grants facts) in
      {R_PUBLIC} \<union> (if ac_is_admin actor then {R_ADMIN} else {}) \<union>
      (if ac_user_id actor \<in> pf_successors facts then {R_SUCCESSOR} else {}) \<union>
      (if list_ex (\<lambda>c. ac_user_id actor = gf_grantor_user_id c) candidates then {R_OWNER} else {}) \<union>
      (if list_ex (\<lambda>c. case ac_email actor of Some e \<Rightarrow> e \<in> gf_named_emails c | None \<Rightarrow> False) candidates
       then {R_BENEFICIARY} else {}))"

definition is_deceased_actor :: "actor \<Rightarrow> profile_facts \<Rightarrow> bool" where
  "is_deceased_actor actor facts \<longleftrightarrow> pf_date_of_death facts \<noteq> None \<and>
     list_ex (\<lambda>g. gf_grantor_type g = SELF_PRE_NEED \<and> gf_grantor_user_id g = ac_user_id actor) (pf_grants facts)"

definition may_use :: "consent_action \<Rightarrow> actor \<Rightarrow> grant_facts \<Rightarrow> profile_facts \<Rightarrow> bool" where
  "may_use action actor grant facts \<longleftrightarrow>
     (if action = VIEW_MEMORIAL then True
      else if gf_grantor_type grant = SELF_PRE_NEED then ac_user_id actor \<in> pf_successors facts
      else ac_user_id actor = gf_grantor_user_id grant)"

section \<open>The decision\<close>

definition grant_stages :: "denial_reason list" where
  "grant_stages = [ROLE_NOT_PERMITTED, GRANT_REVOKED, GRANT_INACTIVE, AUTHORITY_NOT_VERIFIED,
     PURPOSE_NOT_IN_SCOPE, ACKNOWLEDGMENT_QUORUM_NOT_MET]"

definition stage_index :: "denial_reason \<Rightarrow> nat" where
  "stage_index r = length (takeWhile (\<lambda>s. s \<noteq> r) grant_stages)"

text \<open>\<open>PurposeScope(purpose.value)\<close> raises \<open>ValueError\<close> for a purpose that is no scope.\<close>

definition scope_of_purpose :: "declared_purpose \<Rightarrow> error + purpose_scope" where
  "scope_of_purpose p =
     (case find (\<lambda>s. scope_value s = declared_value p) [PS_MEMORIAL_VIEW, PS_VOICE_SYNTHESIS, PS_SCRIPT_GENERATION] of
        Some s \<Rightarrow> Inr s | None \<Rightarrow> Inl (ValueError (declared_value p)))"

definition grant_failure ::
    "consent_action \<Rightarrow> declared_purpose \<Rightarrow> actor \<Rightarrow> grant_facts \<Rightarrow> profile_facts \<Rightarrow> error + denial_reason option" where
  "grant_failure action purpose actor grant facts =
     (if \<not> may_use action actor grant facts then Inr (Some ROLE_NOT_PERMITTED)
      else if gf_revoked grant then Inr (Some GRANT_REVOKED)
      else if \<not> gf_is_active grant then Inr (Some GRANT_INACTIVE)
      else if \<not> gf_verified grant then Inr (Some AUTHORITY_NOT_VERIFIED)
      else bindE (scope_of_purpose purpose) (\<lambda>scope.
        if scope \<notin> gf_purpose_scope grant then Inr (Some PURPOSE_NOT_IN_SCOPE)
        else if \<not> satisfied (grant_quorum grant) then Inr (Some ACKNOWLEDGMENT_QUORUM_NOT_MET)
        else Inr None))"

record decision =
  d_allowed :: bool
  d_reason :: "denial_reason option"
  d_grant_id :: "uuid option"
  d_purpose :: "declared_purpose option"
  d_actor_related :: bool

abbreviation refusal :: "denial_reason option \<Rightarrow> declared_purpose option \<Rightarrow> bool \<Rightarrow> decision" where
  "refusal r p related \<equiv> \<lparr> d_allowed = False, d_reason = r, d_grant_id = None, d_purpose = p, d_actor_related = related \<rparr>"

abbreviation permission :: "uuid option \<Rightarrow> declared_purpose \<Rightarrow> bool \<Rightarrow> decision" where
  "permission g p related \<equiv> \<lparr> d_allowed = True, d_reason = None, d_grant_id = g, d_purpose = Some p, d_actor_related = related \<rparr>"

text \<open>The loop over the grants of a use action.\<close>

fun try_grants ::
    "consent_action \<Rightarrow> declared_purpose \<Rightarrow> actor \<Rightarrow> profile_facts \<Rightarrow> bool \<Rightarrow> denial_reason option \<Rightarrow> grant_facts list
       \<Rightarrow> error + decision" where
  "try_grants action purpose actor facts related best [] = Inr (refusal best (Some purpose) related)"
| "try_grants action purpose actor facts related best (grant # rest) =
     bindE (grant_failure action purpose actor grant facts) (\<lambda>failure.
       case failure of
         None \<Rightarrow> Inr (permission (Some (gf_id grant)) purpose related)
       | Some f \<Rightarrow> try_grants action purpose actor facts related
           (case best of None \<Rightarrow> Some f | Some b \<Rightarrow> if stage_index b < stage_index f then Some f else best) rest)"

definition decide :: "ucd \<Rightarrow> consent_action \<Rightarrow> pstr \<Rightarrow> actor \<Rightarrow> profile_facts option \<Rightarrow> error + decision" where
  "decide U action purpose_code actor facts =
     (case parse_declared_purpose U purpose_code of
        None \<Rightarrow> Inr (refusal (Some UNKNOWN_PURPOSE) None False)
      | Some purpose \<Rightarrow>
          if action_purpose action \<noteq> purpose then Inr (refusal (Some PURPOSE_ACTION_MISMATCH) (Some purpose) False)
          else (case facts of
            None \<Rightarrow> Inr (refusal (Some PROFILE_NOT_FOUND) (Some purpose) False)
          | Some facts \<Rightarrow>
              (let related = (roles_for actor facts None \<noteq> {R_PUBLIC});
                   denied = (\<lambda>reason. Inr (refusal (Some reason) (Some purpose) related))
               in if ac_kind actor \<noteq> HUMAN then denied NON_HUMAN_ACTOR
                  else if is_deceased_actor actor facts then denied DECEASED_CANNOT_ACT
                  else if action \<notin> use_actions then
                    (if ac_is_admin actor \<or> ac_user_id actor \<in> pf_successors facts
                     then Inr (permission None purpose True)
                     else (case find (\<lambda>g. gf_verified g \<and> gf_grantor_user_id g = ac_user_id actor) (pf_grants facts) of
                             Some g \<Rightarrow> Inr (permission (Some (gf_id g)) purpose True)
                           | None \<Rightarrow> denied ROLE_NOT_PERMITTED))
                  else if pf_date_of_death facts = None then denied SUBJECT_NOT_DECEASED
                  else if pf_grants facts = [] then denied NO_GRANT
                  else try_grants action purpose actor facts related None (pf_grants facts))))"

section \<open>The policy\<close>

text \<open>A grant an actor may act under, and the requests the kernel is to allow.\<close>

definition usable :: "consent_action \<Rightarrow> actor \<Rightarrow> profile_facts \<Rightarrow> grant_facts \<Rightarrow> bool" where
  "usable action actor facts g \<longleftrightarrow> may_use action actor g facts \<and> \<not> gf_revoked g \<and> gf_is_active g \<and> gf_verified g \<and>
     (\<exists>s \<in> gf_purpose_scope g. scope_value s = declared_value (action_purpose action)) \<and> satisfied (grant_quorum g)"

definition permitted :: "ucd \<Rightarrow> consent_action \<Rightarrow> pstr \<Rightarrow> actor \<Rightarrow> profile_facts \<Rightarrow> bool" where
  "permitted U action purpose_code actor facts \<longleftrightarrow>
     normalize_purpose U purpose_code = declared_value (action_purpose action) \<and>
     ac_kind actor = HUMAN \<and> \<not> is_deceased_actor actor facts \<and>
     (if action \<in> use_actions
      then pf_date_of_death facts \<noteq> None \<and> (\<exists>g \<in> set (pf_grants facts). usable action actor facts g)
      else ac_is_admin actor \<or> ac_user_id actor \<in> pf_successors facts \<or>
        (\<exists>g \<in> set (pf_grants facts). gf_verified g \<and> gf_grantor_user_id g = ac_user_id actor))"

lemma scope_of_action:
  "action \<in> use_actions \<Longrightarrow> \<exists>s. scope_of_purpose (action_purpose action) = Inr s \<and> scope_value s = declared_value (action_purpose action)"
  by (cases action) (simp_all add: use_actions_iff scope_of_purpose_def)

text \<open>A use action never raises: its purpose is a scope.\<close>

lemma grant_failure_cases:
  assumes "action \<in> use_actions"
  shows "grant_failure action (action_purpose action) actor g facts = Inr None \<and> usable action actor facts g \<or>
    (\<exists>r \<in> set grant_stages. grant_failure action (action_purpose action) actor g facts = Inr (Some r)) \<and>
      \<not> usable action actor facts g"
proof -
  obtain s where s: "scope_of_purpose (action_purpose action) = Inr s" "scope_value s = declared_value (action_purpose action)"
    using scope_of_action [OF assms] by blast
  then have "(\<exists>t \<in> gf_purpose_scope g. scope_value t = declared_value (action_purpose action)) \<longleftrightarrow> s \<in> gf_purpose_scope g"
    using scope_value_inject by metis
  with s show ?thesis
    by (simp add: grant_failure_def usable_def grant_stages_def)
qed

lemma grant_failure_usable:
  "action \<in> use_actions \<Longrightarrow>
     grant_failure action (action_purpose action) actor g facts = Inr None \<longleftrightarrow> usable action actor facts g"
  using grant_failure_cases [of action actor g facts] by auto

definition failure_of :: "consent_action \<Rightarrow> actor \<Rightarrow> profile_facts \<Rightarrow> grant_facts \<Rightarrow> denial_reason" where
  "failure_of action actor facts g = (case grant_failure action (action_purpose action) actor g facts of
     Inr (Some r) \<Rightarrow> r | _ \<Rightarrow> ROLE_NOT_PERMITTED)"

lemma try_grants_allows:
  assumes "action \<in> use_actions" and "find (usable action actor facts) gs = Some g"
  shows "try_grants action (action_purpose action) actor facts related best gs =
    Inr (permission (Some (gf_id g)) (action_purpose action) related)"
  using assms(2)
proof (induction gs arbitrary: best)
  case (Cons h gs)
  then show ?case
    using grant_failure_cases [OF assms(1), of actor h facts] by (auto split: if_splits)
qed simp

text \<open>A denial: the running best is the furthest failure so far.\<close>

lemma try_grants_denies:
  assumes "action \<in> use_actions" and "\<And>g. g \<in> set gs \<Longrightarrow> \<not> usable action actor facts g"
    and "gs \<noteq> [] \<or> best \<noteq> None"
  shows "\<exists>r. try_grants action (action_purpose action) actor facts related best gs =
      Inr (refusal (Some r) (Some (action_purpose action)) related) \<and>
    (best = Some r \<or> r \<in> failure_of action actor facts ` set gs) \<and>
    (\<forall>g \<in> set gs. stage_index (failure_of action actor facts g) \<le> stage_index r) \<and>
    (\<forall>b. best = Some b \<longrightarrow> stage_index b \<le> stage_index r)"
  using assms(2,3)
proof (induction gs arbitrary: best)
  case (Cons g gs)
  have "\<not> usable action actor facts g"
    using Cons.prems by simp
  then obtain f where f: "grant_failure action (action_purpose action) actor g facts = Inr (Some f)"
    using grant_failure_cases [OF assms(1), of actor g facts] by auto
  then have ff: "failure_of action actor facts g = f"
    by (simp add: failure_of_def)
  let ?best = "case best of None \<Rightarrow> Some f | Some b \<Rightarrow> if stage_index b < stage_index f then Some f else best"
  obtain b where b: "?best = Some b" and bf: "b = f \<or> best = Some b" and ge: "stage_index f \<le> stage_index b"
    and old: "\<And>c. best = Some c \<Longrightarrow> stage_index c \<le> stage_index b"
  proof (cases best)
    case None
    then show ?thesis using that [of f] by simp
  next
    case (Some a)
    then show ?thesis
      using that [of "if stage_index a < stage_index f then f else a"] by auto
  qed
  have "\<exists>r. try_grants action (action_purpose action) actor facts related ?best gs =
      Inr (refusal (Some r) (Some (action_purpose action)) related) \<and>
    (?best = Some r \<or> r \<in> failure_of action actor facts ` set gs) \<and>
    (\<forall>g \<in> set gs. stage_index (failure_of action actor facts g) \<le> stage_index r) \<and>
    (\<forall>b. ?best = Some b \<longrightarrow> stage_index b \<le> stage_index r)"
    by (rule Cons.IH) (use Cons.prems b in auto)
  then obtain r where r: "try_grants action (action_purpose action) actor facts related ?best gs =
      Inr (refusal (Some r) (Some (action_purpose action)) related)"
    "b = r \<or> r \<in> failure_of action actor facts ` set gs"
    "\<forall>g \<in> set gs. stage_index (failure_of action actor facts g) \<le> stage_index r" "stage_index b \<le> stage_index r"
    unfolding b by auto
  show ?case
    using r bf ge old by (intro exI [of _ r]) (fastforce simp: f ff)
qed auto

lemma find_usable: "find P gs = None \<longleftrightarrow> (\<forall>g \<in> set gs. \<not> P g)"
  by (auto simp: find_None_iff)

lemma find_Some_both: "find P gs = Some g \<Longrightarrow> g \<in> set gs \<and> P g"
  using find_SomeD by fastforce

lemma decide_unparsed:
  "normalize_purpose U code \<noteq> declared_value (action_purpose a) \<Longrightarrow>
     \<exists>r p. decide U a code actor facts = Inr (refusal (Some r) p False) \<and> r \<in> {UNKNOWN_PURPOSE, PURPOSE_ACTION_MISMATCH}"
  using parse_declared_iff [of U code "action_purpose a"]
  by (cases "parse_declared_purpose U code") (auto simp: decide_def)

lemma decide_parsed:
  "normalize_purpose U code = declared_value (action_purpose a) \<Longrightarrow> parse_declared_purpose U code = Some (action_purpose a)"
  by (simp add: parse_declared_iff)

lemma decide_use:
  assumes "normalize_purpose U code = declared_value (action_purpose a)" and "a \<in> use_actions"
    and "ac_kind actor = HUMAN" and "\<not> is_deceased_actor actor f" and "pf_date_of_death f \<noteq> None" and "pf_grants f \<noteq> []"
  shows "decide U a code actor (Some f) =
    try_grants a (action_purpose a) actor f (roles_for actor f None \<noteq> {R_PUBLIC}) None (pf_grants f)"
  using assms by (auto simp: decide_def decide_parsed Let_def)

lemma decide_total_and_correct:
  "\<exists>d. decide U a code actor (Some f) = Inr d \<and> (d_allowed d \<longleftrightarrow> permitted U a code actor f) \<and>
     (d_allowed d \<longleftrightarrow> d_reason d = None)"
proof (cases "normalize_purpose U code = declared_value (action_purpose a)")
  case False
  then show ?thesis
    using decide_unparsed [OF False, of actor "Some f"] by (auto simp: permitted_def)
next
  case parsed: True
  show ?thesis
  proof (cases "ac_kind actor = HUMAN \<and> \<not> is_deceased_actor actor f \<and> a \<in> use_actions \<and>
      pf_date_of_death f \<noteq> None \<and> pf_grants f \<noteq> []")
    case False
    then show ?thesis
      using parsed by (auto simp: decide_def decide_parsed permitted_def Let_def find_usable dest!: find_Some_both split: option.splits)
  next
    case use: True
    then have eq: "decide U a code actor (Some f) =
        try_grants a (action_purpose a) actor f (roles_for actor f None \<noteq> {R_PUBLIC}) None (pf_grants f)"
      using parsed by (intro decide_use) auto
    show ?thesis
    proof (cases "find (usable a actor f) (pf_grants f)")
      case None
      then have none: "\<not> usable a actor f g" if "g \<in> set (pf_grants f)" for g
        using that by (auto simp: find_usable)
      obtain r where "try_grants a (action_purpose a) actor f (roles_for actor f None \<noteq> {R_PUBLIC}) None (pf_grants f) =
          Inr (refusal (Some r) (Some (action_purpose a)) (roles_for actor f None \<noteq> {R_PUBLIC}))"
        using try_grants_denies [of a "pf_grants f" actor f None "roles_for actor f None \<noteq> {R_PUBLIC}"] use none by blast
      then show ?thesis
        using eq none use by (auto simp: permitted_def)
    next
      case (Some g)
      then have "try_grants a (action_purpose a) actor f (roles_for actor f None \<noteq> {R_PUBLIC}) None (pf_grants f) =
          Inr (permission (Some (gf_id g)) (action_purpose a) (roles_for actor f None \<noteq> {R_PUBLIC}))"
        using use by (intro try_grants_allows) auto
      then show ?thesis
        using eq find_SomeD [OF Some] use parsed by (auto simp: permitted_def)
    qed
  qed
qed

end
