(* ===== verification/Py_Parse.thy ===== *)
theory Py_Parse imports Vocabulary Text_Json begin

text \<open>
  The parsers of the standard library the service applies to untrusted text and to JWT claims:
  \<open>int(x)\<close>, \<open>int(s, 16)\<close>, \<open>UUID(str(x))\<close>, truth and \<open>str\<close> of a JSON value. Digits are the
  ASCII ones. The main lemma is the round trip \<open>UUID(str(u)) == u\<close>.
\<close>

section \<open>Numerals\<close>

definition digit_of :: "nat \<Rightarrow> nat option" where
  "digit_of c = (if 48 \<le> c \<and> c \<le> 57 then Some (c - 48)
     else if 97 \<le> c \<and> c \<le> 122 then Some (c - 87)
     else if 65 \<le> c \<and> c \<le> 90 then Some (c - 55) else None)"

text \<open>Digits with single underscores between them; \<open>after\<close>: the last character allows an underscore.\<close>

fun read_digits :: "nat \<Rightarrow> nat \<Rightarrow> bool \<Rightarrow> pstr \<Rightarrow> nat option" where
  "read_digits b acc after [] = (if after then Some acc else None)"
| "read_digits b acc after (c # cs) =
     (if c = 95 then (if after then read_digits b acc False cs else None)
      else (case digit_of c of
              Some d \<Rightarrow> if d < b then read_digits b (acc * b + d) True cs else None
            | None \<Rightarrow> None))"

definition read_unsigned :: "nat \<Rightarrow> pstr \<Rightarrow> nat option" where
  "read_unsigned b s =
     (case s of
        c # d # cs \<Rightarrow> if b = 16 \<and> c = 48 \<and> (d = 120 \<or> d = 88)
          then (if cs = [] then None else read_digits b 0 True cs) else read_digits b 0 False s
      | _ \<Rightarrow> read_digits b 0 False s)"

definition py_int :: "nat \<Rightarrow> pstr \<Rightarrow> int option" where
  "py_int b s = (case strip_by py_isspace s of
       [] \<Rightarrow> None
     | c # cs \<Rightarrow> if c = 45 then map_option (\<lambda>n. - int n) (read_unsigned b cs)
         else if c = 43 then map_option int (read_unsigned b cs)
         else map_option int (read_unsigned b (c # cs)))"

section \<open>UUID(s)\<close>

function replace_all :: "pstr \<Rightarrow> pstr \<Rightarrow> pstr" where
  "replace_all p [] = []"
| "replace_all p (c # cs) =
     (if p \<noteq> [] \<and> take (length p) (c # cs) = p then replace_all p (drop (length p - 1) cs) else c # replace_all p cs)"
  by pat_completeness auto
termination
  by (relation "measure (length \<circ> snd)") (auto simp: less_Suc_eq_le)

definition parse_uuid :: "pstr \<Rightarrow> uuid option" where
  "parse_uuid s =
     (let h = replace_all (lit ''uuid:'') (replace_all (lit ''urn:'') s);
          h = filter (\<lambda>c. c \<noteq> 45) (strip_by (\<lambda>c. c = 123 \<or> c = 125) h)
      in if length h \<noteq> 32 then None
         else (case py_int 16 h of
                 Some i \<Rightarrow> if 0 \<le> i \<and> i < 2 ^ 128 then Some (word_of_int i) else None
               | None \<Rightarrow> None))"

lemma replace_all_absent: "c \<in> set p \<Longrightarrow> c \<notin> set s \<Longrightarrow> replace_all p s = s"
proof (induction p s rule: replace_all.induct)
  case (2 p d cs)
  have "take (length p) (d # cs) \<noteq> p"
    using 2(3,4) in_set_takeD by metis
  with 2 show ?case by simp
qed simp

definition hex_char :: "nat \<Rightarrow> bool" where
  "hex_char c \<longleftrightarrow> (48 \<le> c \<and> c \<le> 57) \<or> (97 \<le> c \<and> c \<le> 102)"

lemma pad16_hex: "c \<in> set (pad16 w n) \<Longrightarrow> hex_char c"
  using fixed_less [of 16 _ w n] by (fastforce simp: pad16_def digit_char_def hex_char_def)

lemma uuid_str_chars: "c \<in> set (uuid_str u) \<Longrightarrow> hex_char c \<or> c = 45"
  unfolding uuid_str_def Let_def by (auto dest!: in_set_takeD in_set_dropD pad16_hex)

lemma digit_of_char: "d < 16 \<Longrightarrow> digit_of (digit_char d) = Some d \<and> digit_char d \<noteq> 95"
  by (auto simp: digit_of_def digit_char_def)

lemma read_digits_append:
  "read_digits 16 acc after (map digit_char ds @ [digit_char d]) =
     map_option (\<lambda>v. v * 16 + d) (if ds = [] then Some acc else read_digits 16 acc after (map digit_char ds))"
  if "list_all (\<lambda>d. d < 16) ds" and "d < 16"
  using that
proof (induction ds arbitrary: acc after)
  case (Cons e ds)
  then show ?case
    using digit_of_char [of e] digit_of_char [of d] by (cases ds) auto
qed (use digit_of_char in auto)

lemma read_digits_fixed:
  "0 < w \<Longrightarrow> read_digits 16 0 after (map digit_char (fixed 16 w n)) = Some (n mod 16 ^ w)"
proof (induction w arbitrary: n)
  case (Suc w)
  have small: "list_all (\<lambda>d. d < 16) (fixed 16 w m)" for m
    using fixed_less by (auto simp: list_all_iff)
  have split: "n mod (16 * 16 ^ w) = (n div 16 mod 16 ^ w) * 16 + n mod 16"
    by (simp add: mod_mult2_eq mult.commute)
  show ?case
  proof (cases w)
    case 0
    then show ?thesis
      using digit_of_char [of "n mod 16"] by simp
  next
    case (Suc v)
    then have "fixed 16 w (n div 16) \<noteq> []"
      by simp
    with Suc Suc.IH [of "n div 16"] read_digits_append [OF small, of "n mod 16"] split show ?thesis
      by simp
  qed
qed simp

lemma filter_hyphens: "filter (\<lambda>c. c \<noteq> 45) (uuid_str u) = pad16 32 (unat u)"
proof -
  let ?h = "pad16 32 (unat u)"
  have no: "filter (\<lambda>c. c \<noteq> 45) t = t" if "set t \<subseteq> set ?h" for t
    using that pad16_hex [of 45 32 "unat u"] by (auto simp: hex_char_def intro!: filter_True)
  have sub: "set (take n ?h) \<subseteq> set ?h" "set (take n (drop m ?h)) \<subseteq> set ?h" "set (drop m ?h) \<subseteq> set ?h" for n m
    by (auto dest: in_set_takeD in_set_dropD)
  have "filter (\<lambda>c. c \<noteq> 45) (uuid_str u) = take 8 ?h @ take 4 (drop 8 ?h) @ take 4 (drop 12 ?h) @ take 4 (drop 16 ?h) @ drop 20 ?h"
    unfolding uuid_str_def Let_def filter_append by (simp add: no [OF sub(1)] no [OF sub(2)] no [OF sub(3)])
  also have "\<dots> = ?h"
  proof -
    have "drop n ?h = take 4 (drop n ?h) @ drop (n + 4) ?h" for n
      by (metis add.commute append_take_drop_id drop_drop)
    from this [of 8] this [of 12] this [of 16] show ?thesis
      by simp
  qed
  finally show ?thesis .
qed

lemma parse_uuid_str: "parse_uuid (uuid_str u) = Some u"
proof -
  let ?h = "pad16 32 (unat u)"
  have colon: "58 \<notin> set (uuid_str u)" "123 \<notin> set (uuid_str u)" "125 \<notin> set (uuid_str u)"
    using uuid_str_chars by (force simp: hex_char_def)+
  have "replace_all (lit ''urn:'') (uuid_str u) = uuid_str u" "replace_all (lit ''uuid:'') (uuid_str u) = uuid_str u"
    using colon by (auto intro!: replace_all_absent [of 58] simp: lit_def)
  moreover have "strip_by (\<lambda>c. c = 123 \<or> c = 125) (uuid_str u) = uuid_str u"
    using uuid_str_chars [OF hd_in_set, of u] uuid_str_chars [OF last_in_set, of u]
    by (intro strip_by_id) (auto simp: hex_char_def)
  moreover have "py_int 16 ?h = Some (uint u)"
  proof -
    have ne: "?h \<noteq> []"
      by (metis length_pad16 list.size(3) zero_neq_numeral)
    then have "strip_by py_isspace ?h = ?h"
      using pad16_hex [OF hd_in_set [OF ne]] pad16_hex [OF last_in_set [OF ne]]
      by (intro strip_by_id) (auto simp: hex_char_def py_isspace_def)
    moreover obtain c d cs where h: "?h = c # d # cs"
      using length_pad16 [of 32 "unat u"] by (cases ?h; cases "tl ?h") auto
    moreover have "hex_char c" "hex_char d"
      using h pad16_hex [of _ 32 "unat u"] by auto
    moreover have "read_digits 16 0 False ?h = Some (unat u)"
    proof -
      have "unat u < 16 ^ 32"
        using unsigned_less [of u] by simp
      then show ?thesis
        using read_digits_fixed [of 32 False "unat u"] by (simp add: pad16_def)
    qed
    ultimately show ?thesis
      by (auto simp: py_int_def read_unsigned_def hex_char_def)
  qed
  moreover have "uint u < 2 ^ 128"
    using unsigned_less [of u] by simp
  ultimately show ?thesis
    by (simp add: parse_uuid_def Let_def filter_hyphens)
qed

section \<open>Claims\<close>

text \<open>\<open>int(v)\<close>, \<open>UUID(str(v))\<close>, \<open>bool(v)\<close> and \<open>str(v)\<close> of a JSON value. The text of a list or
  an object is never a UUID; where the text itself is kept, \<open>container_repr\<close> stands for it.\<close>

definition int_of_json :: "json \<Rightarrow> int option" where
  "int_of_json v = (case v of JInt i \<Rightarrow> Some i | JBool b \<Rightarrow> Some (if b then 1 else 0) | JStr s \<Rightarrow> py_int 10 s | _ \<Rightarrow> None)"

definition uuid_of_json :: "json \<Rightarrow> uuid option" where
  "uuid_of_json v = (case v of JStr s \<Rightarrow> parse_uuid s | JInt i \<Rightarrow> parse_uuid (int_str i) | _ \<Rightarrow> None)"

definition truthy :: "json \<Rightarrow> bool" where
  "truthy v = (case v of JNull \<Rightarrow> False | JBool b \<Rightarrow> b | JInt i \<Rightarrow> i \<noteq> 0 | JStr s \<Rightarrow> s \<noteq> [] | JList vs \<Rightarrow> vs \<noteq> [] | JObj kvs \<Rightarrow> kvs \<noteq> [])"

definition str_of_json :: "(json \<Rightarrow> pstr) \<Rightarrow> json \<Rightarrow> pstr" where
  "str_of_json container_repr v = (case v of JStr s \<Rightarrow> s | JInt i \<Rightarrow> int_str i | JNull \<Rightarrow> lit ''None''
     | JBool b \<Rightarrow> if b then lit ''True'' else lit ''False'' | _ \<Rightarrow> container_repr v)"

lemma uuid_str_nonempty [simp]: "uuid_str u \<noteq> []"
  by (simp add: uuid_str_def Let_def)

lemma claim_simps [simp]:
  "int_of_json (JInt i) = Some i" "uuid_of_json (JStr s) = parse_uuid s" "truthy (JStr s) \<longleftrightarrow> s \<noteq> []"
  "\<not> truthy JNull" "truthy (JBool b) \<longleftrightarrow> b" "str_of_json r (JStr s) = s"
  by (simp_all add: int_of_json_def uuid_of_json_def truthy_def str_of_json_def)

declare parse_uuid_str [simp]

end
