(* ===== verification/Tokens.thy ===== *)
theory Tokens imports Kernel Py_Parse begin

text \<open>
  Authorization tokens, \<open>app/consent/tokens.py\<close>: issuing, the validator every downstream service
  runs, the revocation list it consults and the dependency that guards a downstream route; and
  \<open>revoke_grant_tokens\<close> of \<open>app/consent/cascade.py\<close>, the other side of the revocation list.

  PyJWT and the Ed25519 keys are third-party code: \<open>pyjwt\<close> is the record of the library functions
  used, an argument of the definitions. What a theorem needs of the library is a hypothesis about
  the token at hand. The contract between the validator and the revocation list is the locale
  \<open>token_ledger\<close>, interpreted by the table \<open>authorization_token\<close>.
\<close>

section \<open>The library\<close>

datatype jwt_error = InvalidSignatureError | InvalidAudienceError | InvalidIssuerError | OtherPyJWTError

type_synonym claims = "(pstr \<times> json) list"

record jwt_options =
  jo_require :: "pstr list"
  jo_verify_exp :: bool
  jo_verify_nbf :: bool
  jo_verify_iat :: bool
  jo_leeway :: int

record ('sk, 'vk) pyjwt =
  jwt_encode :: "claims \<Rightarrow> 'sk \<Rightarrow> pstr \<Rightarrow> claims \<Rightarrow> pstr"
  jwt_header :: "pstr \<Rightarrow> jwt_error + claims"
  jwt_decode :: "pstr \<Rightarrow> 'vk \<Rightarrow> pstr list \<Rightarrow> pstr \<Rightarrow> pstr \<Rightarrow> jwt_options \<Rightarrow> jwt_error + claims"
  jwt_container_repr :: "json \<Rightarrow> pstr"

section \<open>Issuing\<close>

definition token_type :: pstr where "token_type = lit ''consent+jwt''"
definition algorithm :: pstr where "algorithm = lit ''EdDSA''"
definition clock_skew_seconds :: int where "clock_skew_seconds = 5"
definition max_token_ttl_seconds :: int where "max_token_ttl_seconds = 300"

definition required_claims :: "pstr list" where
  "required_claims = map lit [''iss'', ''aud'', ''sub'', ''jti'', ''iat'', ''nbf'', ''exp'', ''act'', ''pid'', ''pur'']"

record ('sk, 'vk) key_ring =
  kr_signing_key :: 'sk
  kr_signing_kid :: pstr
  kr_verification_keys :: "(pstr \<times> 'vk) list"

record ('sk, 'vk) token_issuer =
  ti_keyring :: "('sk, 'vk) key_ring"
  ti_issuer :: pstr
  ti_audience :: pstr
  ti_ttl :: int

definition make_issuer :: "('sk, 'vk) key_ring \<Rightarrow> pstr \<Rightarrow> pstr \<Rightarrow> int \<Rightarrow> error + ('sk, 'vk) token_issuer" where
  "make_issuer keyring issuer audience ttl_seconds =
     (if \<not> (1 \<le> ttl_seconds \<and> ttl_seconds \<le> max_token_ttl_seconds)
      then Inl (ValueError (lit ''token TTL must be within 1..300 seconds''))
      else Inr \<lparr> ti_keyring = keyring, ti_issuer = issuer, ti_audience = audience, ti_ttl = ttl_seconds \<rparr>)"

record issued_token =
  it_token :: pstr
  it_jti :: uuid
  it_issued_at :: timestamp
  it_expires_at :: timestamp

definition token_claims ::
    "('sk, 'vk) token_issuer \<Rightarrow> uuid \<Rightarrow> pstr \<Rightarrow> consent_action \<Rightarrow> uuid \<Rightarrow> uuid option \<Rightarrow> pstr \<Rightarrow> timestamp \<Rightarrow> claims" where
  "token_claims I jti actor_id action profile_id grant_id purpose issued_at =
     [(lit ''iss'', JStr (ti_issuer I)),
      (lit ''aud'', JStr (ti_audience I)),
      (lit ''sub'', JStr actor_id),
      (lit ''jti'', JStr (uuid_str jti)),
      (lit ''iat'', JInt (issued_at div second)),
      (lit ''nbf'', JInt (issued_at div second)),
      (lit ''exp'', JInt ((issued_at + ti_ttl I * second) div second)),
      (lit ''act'', JStr (action_value action)),
      (lit ''pid'', JStr (uuid_str profile_id)),
      (lit ''gid'', case grant_id of Some g \<Rightarrow> JStr (uuid_str g) | None \<Rightarrow> JNull),
      (lit ''pur'', JStr purpose),
      (lit ''dsc'', JBool (action \<in> synthesis_actions))]"

definition token_header :: "('sk, 'vk) token_issuer \<Rightarrow> claims" where
  "token_header I = [(lit ''kid'', JStr (kr_signing_kid (ti_keyring I))), (lit ''typ'', JStr token_type)]"

definition issue ::
    "('sk, 'vk) pyjwt \<Rightarrow> ('sk, 'vk) token_issuer \<Rightarrow> uuid \<Rightarrow> pstr \<Rightarrow> consent_action \<Rightarrow> uuid \<Rightarrow> uuid option \<Rightarrow> pstr
       \<Rightarrow> timestamp \<Rightarrow> issued_token" where
  "issue J I jti actor_id action profile_id grant_id purpose now =
     (let issued_at = now - now mod second;
          expires_at = issued_at + ti_ttl I * second
      in \<lparr> it_token = jwt_encode J (token_claims I jti actor_id action profile_id grant_id purpose issued_at)
             (kr_signing_key (ti_keyring I)) algorithm (token_header I),
           it_jti = jti, it_issued_at = issued_at, it_expires_at = expires_at \<rparr>)"

section \<open>The revocation list\<close>

datatype token_status = UNKNOWN | ACTIVE | REVOKED

definition sql_status :: "consent_db \<Rightarrow> uuid \<Rightarrow> token_status" where
  "sql_status db jti = (case find (\<lambda>t. at_jti t = jti) (tokens db) of
     None \<Rightarrow> UNKNOWN
   | Some row \<Rightarrow> if at_revoked_at row \<noteq> None then REVOKED else ACTIVE)"

definition revoke_grant_tokens :: "uuid \<Rightarrow> timestamp \<Rightarrow> consent_db \<Rightarrow> consent_db \<times> nat" where
  "revoke_grant_tokens grant_id now db =
     (let live = (\<lambda>t. at_grant_id t = Some grant_id \<and> at_revoked_at t = None)
      in (db\<lparr>tokens := update_rows live (\<lambda>t. t\<lparr>at_revoked_at := Some now\<rparr>) (tokens db)\<rparr>, count_rows live (tokens db)))"

section \<open>Validating\<close>

datatype token_failure =
    MISSING | MALFORMED | UNSUPPORTED_ALGORITHM | WRONG_TYPE | UNKNOWN_KEY | BAD_SIGNATURE | WRONG_ISSUER
  | WRONG_AUDIENCE | EXPIRED | NOT_YET_VALID | TTL_EXCEEDS_LIMIT | ACTION_MISMATCH | PROFILE_MISMATCH
  | UNKNOWN_TOKEN | TOKEN_REVOKED

primrec failure_value :: "token_failure \<Rightarrow> pstr" where
  "failure_value MISSING = lit ''MISSING''"
| "failure_value MALFORMED = lit ''MALFORMED''"
| "failure_value UNSUPPORTED_ALGORITHM = lit ''UNSUPPORTED_ALGORITHM''"
| "failure_value WRONG_TYPE = lit ''WRONG_TYPE''"
| "failure_value UNKNOWN_KEY = lit ''UNKNOWN_KEY''"
| "failure_value BAD_SIGNATURE = lit ''BAD_SIGNATURE''"
| "failure_value WRONG_ISSUER = lit ''WRONG_ISSUER''"
| "failure_value WRONG_AUDIENCE = lit ''WRONG_AUDIENCE''"
| "failure_value EXPIRED = lit ''EXPIRED''"
| "failure_value NOT_YET_VALID = lit ''NOT_YET_VALID''"
| "failure_value TTL_EXCEEDS_LIMIT = lit ''TTL_EXCEEDS_LIMIT''"
| "failure_value ACTION_MISMATCH = lit ''ACTION_MISMATCH''"
| "failure_value PROFILE_MISMATCH = lit ''PROFILE_MISMATCH''"
| "failure_value UNKNOWN_TOKEN = lit ''UNKNOWN_TOKEN''"
| "failure_value TOKEN_REVOKED = lit ''REVOKED''"

text \<open>The table \<open>_PYJWT_FAILURES\<close>.\<close>

primrec pyjwt_failure :: "jwt_error \<Rightarrow> token_failure" where
  "pyjwt_failure InvalidSignatureError = BAD_SIGNATURE"
| "pyjwt_failure InvalidAudienceError = WRONG_AUDIENCE"
| "pyjwt_failure InvalidIssuerError = WRONG_ISSUER"
| "pyjwt_failure OtherPyJWTError = MALFORMED"

record verified_authorization =
  va_jti :: uuid
  va_actor_id :: pstr
  va_action :: consent_action
  va_profile_id :: uuid
  va_grant_id :: "uuid option"
  va_purpose :: pstr
  va_issued_at :: timestamp
  va_expires_at :: timestamp
  va_disclosure :: bool

record 'vk token_validator =
  tv_keys :: "(pstr \<times> 'vk) list"
  tv_issuer :: pstr
  tv_audience :: pstr
  tv_leeway :: int

definition validator_options :: jwt_options where
  "validator_options = \<lparr> jo_require = required_claims, jo_verify_exp = False, jo_verify_nbf = False,
     jo_verify_iat = False, jo_leeway = 0 \<rparr>"

record parsed_claims =
  pc_iat :: int
  pc_nbf :: int
  pc_exp :: int
  pc_jti :: uuid
  pc_action :: consent_action
  pc_profile :: uuid
  pc_grant :: "uuid option"

definition claim_int :: "claims \<Rightarrow> string \<Rightarrow> int option" where
  "claim_int claims k = (case map_of claims (lit k) of Some v \<Rightarrow> int_of_json v | None \<Rightarrow> None)"

definition claim_uuid :: "claims \<Rightarrow> string \<Rightarrow> uuid option" where
  "claim_uuid claims k = (case map_of claims (lit k) of Some v \<Rightarrow> uuid_of_json v | None \<Rightarrow> None)"

definition claim_action :: "claims \<Rightarrow> consent_action option" where
  "claim_action claims = (case map_of claims (lit ''act'') of
     Some (JStr s) \<Rightarrow> find (\<lambda>a. action_value a = s) all_actions | _ \<Rightarrow> None)"

text \<open>The \<open>try\<close> block over the claims: \<open>None\<close> is the exception that becomes \<open>MALFORMED\<close>.\<close>

definition parse_claims :: "claims \<Rightarrow> parsed_claims option" where
  "parse_claims claims =
     (case (claim_int claims ''iat'', claim_int claims ''nbf'', claim_int claims ''exp'', claim_uuid claims ''jti'',
            claim_action claims, claim_uuid claims ''pid'') of
        (Some iat, Some nbf, Some exp, Some jti, Some act, Some pid) \<Rightarrow>
          (let done = (\<lambda>g. Some \<lparr> pc_iat = iat, pc_nbf = nbf, pc_exp = exp, pc_jti = jti, pc_action = act,
                        pc_profile = pid, pc_grant = g \<rparr>) in
           case map_of claims (lit ''gid'') of
             None \<Rightarrow> done None
           | Some v \<Rightarrow> if truthy v then (case uuid_of_json v of Some g \<Rightarrow> done (Some g) | None \<Rightarrow> None) else done None)
      | _ \<Rightarrow> None)"

text \<open>The checks on parsed claims, in the code's order; \<open>now\<close> is \<open>clock.now()\<close> in microseconds,
  compared with whole seconds exactly.\<close>

definition check_claims ::
    "'vk token_validator \<Rightarrow> consent_action \<Rightarrow> uuid \<Rightarrow> timestamp \<Rightarrow> (uuid \<Rightarrow> token_status) \<Rightarrow> parsed_claims
       \<Rightarrow> token_failure option" where
  "check_claims V action profile_id now status c =
     (if max_token_ttl_seconds < pc_exp c - pc_iat c \<or> pc_exp c \<le> pc_iat c then Some TTL_EXCEEDS_LIMIT
      else if (pc_exp c + tv_leeway V) * second < now then Some EXPIRED
      else if now + tv_leeway V * second < pc_nbf c * second then Some NOT_YET_VALID
      else if pc_action c \<noteq> action then Some ACTION_MISMATCH
      else if pc_profile c \<noteq> profile_id then Some PROFILE_MISMATCH
      else if status (pc_jti c) = UNKNOWN then Some UNKNOWN_TOKEN
      else if status (pc_jti c) = REVOKED then Some TOKEN_REVOKED
      else None)"

text \<open>\<open>datetime.fromtimestamp\<close> raises for a moment outside the years 1 to 9999: the exception is
  not a \<open>TokenError\<close>.\<close>

datatype validation_error = TokenError token_failure | FromTimestampError

definition verified :: "('sk, 'vk) pyjwt \<Rightarrow> claims \<Rightarrow> parsed_claims \<Rightarrow> validation_error + verified_authorization" where
  "verified J claims c =
     (if representable (pc_iat c * second) \<and> representable (pc_exp c * second)
      then Inr \<lparr> va_jti = pc_jti c,
        va_actor_id = (case map_of claims (lit ''sub'') of Some v \<Rightarrow> str_of_json (jwt_container_repr J) v | None \<Rightarrow> []),
        va_action = pc_action c, va_profile_id = pc_profile c, va_grant_id = pc_grant c,
        va_purpose = (case map_of claims (lit ''pur'') of Some v \<Rightarrow> str_of_json (jwt_container_repr J) v | None \<Rightarrow> []),
        va_issued_at = pc_iat c * second, va_expires_at = pc_exp c * second,
        va_disclosure = (case map_of claims (lit ''dsc'') of Some v \<Rightarrow> truthy v | None \<Rightarrow> False) \<rparr>
      else Inl FromTimestampError)"

definition validate ::
    "('sk, 'vk) pyjwt \<Rightarrow> 'vk token_validator \<Rightarrow> (uuid \<Rightarrow> token_status) \<Rightarrow> timestamp \<Rightarrow> pstr option \<Rightarrow> consent_action
       \<Rightarrow> uuid \<Rightarrow> validation_error + verified_authorization" where
  "validate J V status now token action profile_id =
     (let fail = (\<lambda>f. Inl (TokenError f)) in
      case token of
        None \<Rightarrow> fail MISSING
      | Some t \<Rightarrow>
          if t = [] then fail MISSING
          else (case jwt_header J t of
            Inl _ \<Rightarrow> fail MALFORMED
          | Inr header \<Rightarrow>
              if map_of header (lit ''alg'') \<noteq> Some (JStr algorithm) then fail UNSUPPORTED_ALGORITHM
              else if map_of header (lit ''typ'') \<noteq> Some (JStr token_type) then fail WRONG_TYPE
              else (case map_of (tv_keys V) (case map_of header (lit ''kid'') of
                      Some v \<Rightarrow> str_of_json (jwt_container_repr J) v | None \<Rightarrow> lit ''None'') of
                None \<Rightarrow> fail UNKNOWN_KEY
              | Some key \<Rightarrow>
                  (case jwt_decode J t key [algorithm] (tv_issuer V) (tv_audience V) validator_options of
                     Inl e \<Rightarrow> fail (pyjwt_failure e)
                   | Inr claims \<Rightarrow>
                       (case parse_claims claims of
                          None \<Rightarrow> fail MALFORMED
                        | Some c \<Rightarrow>
                            (case check_claims V action profile_id now status c of
                               Some f \<Rightarrow> fail f
                             | None \<Rightarrow> verified J claims c))))))"

text \<open>The dependency of a downstream route.\<close>

definition require_consent ::
    "('sk, 'vk) pyjwt \<Rightarrow> 'vk token_validator \<Rightarrow> (uuid \<Rightarrow> token_status) \<Rightarrow> timestamp \<Rightarrow> consent_action \<Rightarrow> string
       \<Rightarrow> (pstr \<times> pstr) list \<Rightarrow> pstr option \<Rightarrow> error + verified_authorization" where
  "require_consent J V status now action profile_param path_params header =
     (case (case map_of path_params (lit profile_param) of Some s \<Rightarrow> parse_uuid s | None \<Rightarrow> None) of
        None \<Rightarrow> Inl (ApiError 400 (lit ''BAD_PROFILE_ID'') (lit (''path parameter '' @ profile_param @ '' must be a UUID'')) [])
      | Some profile_id \<Rightarrow>
          (case validate J V status now header action profile_id of
             Inl (TokenError f) \<Rightarrow> Inl (ApiError 403 (lit ''CONSENT_REQUIRED'')
               (lit ''a valid consent authorization token is required'') [(lit ''failure'', JStr (failure_value f))])
           | Inl FromTimestampError \<Rightarrow> Inl (ValueError (lit ''timestamp out of range''))
           | Inr v \<Rightarrow> Inr v))"

section \<open>What acceptance means\<close>

lemma check_claims_None:
  "check_claims V action profile_id now status c = None \<longleftrightarrow>
     pc_iat c < pc_exp c \<and> pc_exp c \<le> pc_iat c + max_token_ttl_seconds \<and>
     now \<le> (pc_exp c + tv_leeway V) * second \<and> pc_nbf c * second \<le> now + tv_leeway V * second \<and>
     pc_action c = action \<and> pc_profile c = profile_id \<and> status (pc_jti c) = ACTIVE"
  by (cases "status (pc_jti c)") (auto simp: check_claims_def)

lemma validate_pieces:
  assumes "validate J V status now token action profile_id = Inr v"
  obtains t header key claims c where "token = Some t" and "t \<noteq> []" and "jwt_header J t = Inr header"
    and "map_of header (lit ''alg'') = Some (JStr algorithm)" and "map_of header (lit ''typ'') = Some (JStr token_type)"
    and "map_of (tv_keys V) (case map_of header (lit ''kid'') of
           Some v \<Rightarrow> str_of_json (jwt_container_repr J) v | None \<Rightarrow> lit ''None'') = Some key"
    and "jwt_decode J t key [algorithm] (tv_issuer V) (tv_audience V) validator_options = Inr claims"
    and "parse_claims claims = Some c" and "check_claims V action profile_id now status c = None"
    and "verified J claims c = Inr v"
  using assms unfolding validate_def Let_def
  by (simp split: option.split_asm if_split_asm sum.split_asm)

lemma validate_InrD:
  assumes "validate J V status now token action profile_id = Inr v"
  shows "\<exists>t claims key c. token = Some t \<and>
      jwt_decode J t key [algorithm] (tv_issuer V) (tv_audience V) validator_options = Inr claims \<and>
      key \<in> snd ` set (tv_keys V) \<and> parse_claims claims = Some c \<and>
      check_claims V action profile_id now status c = None \<and> verified J claims c = Inr v"
  using assms
proof (rule validate_pieces)
  fix t header key claims c
  assume "token = Some t" "map_of (tv_keys V) (case map_of header (lit ''kid'') of
           Some v \<Rightarrow> str_of_json (jwt_container_repr J) v | None \<Rightarrow> lit ''None'') = Some key"
    "jwt_decode J t key [algorithm] (tv_issuer V) (tv_audience V) validator_options = Inr claims"
    "parse_claims claims = Some c" "check_claims V action profile_id now status c = None" "verified J claims c = Inr v"
  moreover from this(2) have "key \<in> snd ` set (tv_keys V)"
    by (metis map_of_SomeD image_eqI snd_conv)
  ultimately show ?thesis by blast
qed

lemma verified_Inr:
  assumes "verified J claims c = Inr v"
  shows "va_jti v = pc_jti c" "va_action v = pc_action c" "va_profile_id v = pc_profile c" "va_grant_id v = pc_grant c"
    "va_issued_at v = pc_iat c * second" "va_expires_at v = pc_exp c * second"
  using assms by (auto simp: verified_def split: if_splits)

lemma validate_bounds:
  assumes "validate J V status now token action profile_id = Inr v"
  shows "va_action v = action" and "va_profile_id v = profile_id" and "status (va_jti v) = ACTIVE"
    and "va_issued_at v < va_expires_at v" and "va_expires_at v \<le> va_issued_at v + max_token_ttl_seconds * second"
    and "now \<le> va_expires_at v + tv_leeway V * second"
  using validate_InrD [OF assms] by (auto simp: check_claims_None verified_Inr algebra_simps)

lemma validate_status_cong:
  assumes "validate J V status now token action profile_id = Inr v" and "status' (va_jti v) = status (va_jti v)"
  shows "validate J V status' now token action profile_id = Inr v"
  using assms(1)
proof (rule validate_pieces)
  fix t header key claims c
  assume pieces: "token = Some t" "t \<noteq> []" "jwt_header J t = Inr header"
    "map_of header (lit ''alg'') = Some (JStr algorithm)" "map_of header (lit ''typ'') = Some (JStr token_type)"
    "map_of (tv_keys V) (case map_of header (lit ''kid'') of
       Some v \<Rightarrow> str_of_json (jwt_container_repr J) v | None \<Rightarrow> lit ''None'') = Some key"
    "jwt_decode J t key [algorithm] (tv_issuer V) (tv_audience V) validator_options = Inr claims"
    "parse_claims claims = Some c"
    and check: "check_claims V action profile_id now status c = None" and v: "verified J claims c = Inr v"
  have "status' (pc_jti c) = status (pc_jti c)"
    using assms(2) by (simp add: verified_Inr(1) [OF v])
  with check have "check_claims V action profile_id now status' c = None"
    by (simp add: check_claims_None)
  with pieces v show ?thesis
    by (simp add: validate_def)
qed

section \<open>The contract of the revocation list\<close>

locale token_ledger =
  fixes status :: "'s \<Rightarrow> uuid \<Rightarrow> token_status"
    and under :: "'s \<Rightarrow> uuid \<Rightarrow> uuid \<Rightarrow> bool"
    and revoke :: "'s \<Rightarrow> uuid \<Rightarrow> timestamp \<Rightarrow> 's"
  assumes revoke_hits: "under s j g \<Longrightarrow> status (revoke s g t) j = REVOKED"
    and revoke_misses: "\<not> under s j g \<Longrightarrow> status (revoke s g t) j = status s j"
    and revoke_keeps: "under (revoke s g t) j h \<longleftrightarrow> under s j h"
    and under_known: "under s j g \<Longrightarrow> status s j \<noteq> UNKNOWN"
begin

lemma revoked_stays: "status s j = REVOKED \<Longrightarrow> status (revoke s g t) j = REVOKED"
  by (cases "under s j g") (simp_all add: revoke_hits revoke_misses)

text \<open>No token of a revoked grant is accepted, whatever the library answers.\<close>

lemma revoked_refused:
  assumes "under s j g" and "validate J V (status (revoke s g t)) now token action profile_id = Inr v"
  shows "va_jti v \<noteq> j"
  using validate_bounds(3) [OF assms(2)] revoke_hits [OF assms(1)] by force

text \<open>Revoking one grant does not disturb the tokens of another.\<close>

lemma others_accepted:
  assumes "validate J V (status s) now token action profile_id = Inr v" and "\<not> under s (va_jti v) g"
  shows "validate J V (status (revoke s g t)) now token action profile_id = Inr v"
  using assms(1) by (rule validate_status_cong) (rule revoke_misses [OF assms(2)])

end

text \<open>The table \<open>authorization_token\<close>, its primary key included.\<close>

definition issued_under :: "consent_db \<Rightarrow> uuid \<Rightarrow> uuid \<Rightarrow> bool" where
  "issued_under db jti g \<longleftrightarrow> (case find (\<lambda>t. at_jti t = jti) (tokens db) of
     None \<Rightarrow> False | Some row \<Rightarrow> at_grant_id row = Some g)"

lemma find_update_rows:
  "(\<And>r. k (f r) = k r) \<Longrightarrow> find (\<lambda>r. k r = i) (update_rows P f rs) =
     map_option (\<lambda>r. if P r then f r else r) (find (\<lambda>r. k r = i) rs)"
  by (induction rs) auto

lemma find_revoked:
  "find (\<lambda>t. at_jti t = j) (tokens (fst (revoke_grant_tokens g now db))) =
     map_option (\<lambda>t. if at_grant_id t = Some g \<and> at_revoked_at t = None then t\<lparr>at_revoked_at := Some now\<rparr> else t)
       (find (\<lambda>t. at_jti t = j) (tokens db))"
  by (simp add: revoke_grant_tokens_def Let_def find_update_rows)

interpretation sql: token_ledger sql_status issued_under "\<lambda>db g now. fst (revoke_grant_tokens g now db)"
  by unfold_locales (auto simp: sql_status_def issued_under_def find_revoked split: option.splits if_splits)

lemma revoke_grant_tokens_guard:
  "authorization_token_guard t (if at_grant_id t = Some g \<and> at_revoked_at t = None then t\<lparr>at_revoked_at := Some now\<rparr> else t)"
  by (simp add: authorization_token_guard_def)

lemma revoke_grant_tokens_none_left:
  assumes "t \<in> set (tokens (fst (revoke_grant_tokens g now db)))" and "at_grant_id t = Some g"
  shows "at_revoked_at t \<noteq> None"
proof -
  obtain s where "t = (if at_grant_id s = Some g \<and> at_revoked_at s = None then s\<lparr>at_revoked_at := Some now\<rparr> else s)"
    using assms(1) by (auto simp: revoke_grant_tokens_def Let_def in_update_rows)
  with assms(2) show ?thesis
    by (cases "at_grant_id s = Some g \<and> at_revoked_at s = None") auto
qed

lemma revoke_grant_tokens_idem:
  "revoke_grant_tokens g now' (fst (revoke_grant_tokens g now db)) = (fst (revoke_grant_tokens g now db), 0)"
proof -
  have "count_rows (\<lambda>t. at_grant_id t = Some g \<and> at_revoked_at t = None) (tokens (fst (revoke_grant_tokens g now db))) = 0"
    unfolding count_rows_zero using revoke_grant_tokens_none_left by blast
  moreover have "update_rows (\<lambda>t. at_grant_id t = Some g \<and> at_revoked_at t = None) (\<lambda>t. t\<lparr>at_revoked_at := Some now'\<rparr>)
      (tokens (fst (revoke_grant_tokens g now db))) = tokens (fst (revoke_grant_tokens g now db))"
    by (rule update_rows_none) (use revoke_grant_tokens_none_left in blast)
  ultimately show ?thesis
    by (simp add: revoke_grant_tokens_def [of g now'] Let_def)
qed

lemma revoke_grant_tokens_frame [frame]:
  "tokens (fst (revoke_grant_tokens g now db)) = update_rows (\<lambda>t. at_grant_id t = Some g \<and> at_revoked_at t = None)
     (\<lambda>t. t\<lparr>at_revoked_at := Some now\<rparr>) (tokens db)"
  "profiles (fst (revoke_grant_tokens g now db)) = profiles db" "grants (fst (revoke_grant_tokens g now db)) = grants db"
  "events (fst (revoke_grant_tokens g now db)) = events db" "requests (fst (revoke_grant_tokens g now db)) = requests db"
  "beneficiaries (fst (revoke_grant_tokens g now db)) = beneficiaries db"
  "acknowledgments (fst (revoke_grant_tokens g now db)) = acknowledgments db"
  "successors (fst (revoke_grant_tokens g now db)) = successors db"
  "voice_models (fst (revoke_grant_tokens g now db)) = voice_models db"
  "audio_artifacts (fst (revoke_grant_tokens g now db)) = audio_artifacts db"
  "deliveries (fst (revoke_grant_tokens g now db)) = deliveries db"
  by (simp_all add: revoke_grant_tokens_def Let_def)

lemma revoke_grant_tokens_ok: "rows_ok db \<Longrightarrow> rows_ok (fst (revoke_grant_tokens g now db))"
proof -
  let ?P = "\<lambda>t. at_grant_id t = Some g \<and> at_revoked_at t = None"
  let ?f = "\<lambda>t. if ?P t then t\<lparr>at_revoked_at := Some now\<rparr> else t"
  assume ok: "rows_ok db"
  have same: "at_jti (?f t) = at_jti t" "at_grant_id (?f t) = at_grant_id t" "at_profile_id (?f t) = at_profile_id t"
    "token_check (?f t) = token_check t" for t
    by (simp_all add: token_check_def)
  have "map at_jti (map ?f (tokens db)) = map at_jti (tokens db)"
    by (simp only: list.map_comp comp_def same)
  moreover have "\<forall>t \<in> set (map ?f (tokens db)). token_check t \<and> has_profile db (at_profile_id t) \<and>
      (\<forall>g. at_grant_id t = Some g \<longrightarrow> has_grant db g)"
    unfolding set_map ball_simps(9) same using ok unfolding rows_ok_defs by blast
  moreover have "fst (revoke_grant_tokens g now db) = db\<lparr>tokens := map ?f (tokens db)\<rparr>"
    by (simp add: revoke_grant_tokens_def Let_def update_rows_def)
  moreover have "distinct (map at_jti (tokens db))"
    using ok by (simp only: rows_ok_defs)
  ultimately show ?thesis
    by (simp only:) (rule rows_ok_tokens [OF ok], simp only:, blast)
qed

section \<open>Issue, then validate\<close>

text \<open>What PyJWT documents of a token it encoded: the header carries the algorithm, and decoding
  with the verification key of the same pair, the issuer and the audience gives the claims back.\<close>

definition jwt_roundtrip_at ::
    "('sk, 'vk) pyjwt \<Rightarrow> ('sk, 'vk) token_issuer \<Rightarrow> 'vk \<Rightarrow> claims \<Rightarrow> bool" where
  "jwt_roundtrip_at J I key claims \<longleftrightarrow>
     (let t = jwt_encode J claims (kr_signing_key (ti_keyring I)) algorithm (token_header I) in
      t \<noteq> [] \<and> jwt_header J t = Inr ((lit ''alg'', JStr algorithm) # token_header I) \<and>
      jwt_decode J t key [algorithm] (ti_issuer I) (ti_audience I) validator_options = Inr claims)"

lemma find_action: "find (\<lambda>b. b = a) all_actions = Some a"
  by (cases a) (simp_all add: all_actions_def)

lemma parse_token_claims:
  "parse_claims (token_claims I jti actor_id a p g purpose t) =
     Some \<lparr> pc_iat = t div second, pc_nbf = t div second, pc_exp = (t + ti_ttl I * second) div second,
       pc_jti = jti, pc_action = a, pc_profile = p, pc_grant = g \<rparr>"
  by (cases g) (simp_all add: parse_claims_def token_claims_def claim_int_def claim_uuid_def claim_action_def
      find_action Let_def)

lemma issue_then_validate:
  assumes ttl: "1 \<le> ti_ttl I" "ti_ttl I \<le> max_token_ttl_seconds"
    and V: "tv_issuer V = ti_issuer I" "tv_audience V = ti_audience I" "0 \<le> tv_leeway V"
      "map_of (tv_keys V) (kr_signing_kid (ti_keyring I)) = Some key"
    and rt: "jwt_roundtrip_at J I key (token_claims I jti actor_id a p g purpose (now - now mod second))"
    and active: "status jti = ACTIVE"
    and rep: "representable (now - now mod second)" "representable (now - now mod second + ti_ttl I * second)"
    and time: "now \<le> now'" "now' \<le> now - now mod second + ti_ttl I * second"
  shows "validate J V status now' (Some (it_token (issue J I jti actor_id a p g purpose now))) a p =
    Inr \<lparr> va_jti = jti, va_actor_id = actor_id, va_action = a, va_profile_id = p, va_grant_id = g, va_purpose = purpose,
      va_issued_at = it_issued_at (issue J I jti actor_id a p g purpose now),
      va_expires_at = it_expires_at (issue J I jti actor_id a p g purpose now), va_disclosure = (a \<in> synthesis_actions) \<rparr>"
proof -
  let ?t = "now - now mod second" and ?c = "token_claims I jti actor_id a p g purpose (now - now mod second)"
  have whole: "?t div second * second = ?t"
    by (simp add: minus_mod_eq_div_mult)
  have exp: "(?t + ti_ttl I * second) div second = ?t div second + ti_ttl I"
    by simp
  have exp': "(?t div second + ti_ttl I) * second = ?t + ti_ttl I * second"
    unfolding distrib_right whole ..
  let ?pc = "\<lparr> pc_iat = ?t div second, pc_nbf = ?t div second, pc_exp = ?t div second + ti_ttl I,
       pc_jti = jti, pc_action = a, pc_profile = p, pc_grant = g \<rparr>"
  have parsed: "parse_claims ?c = Some ?pc"
    by (simp add: parse_token_claims exp)
  have "0 \<le> now mod second"
    by simp
  then have early: "?t div second * second \<le> now' + tv_leeway V * second"
    unfolding whole using time V(3) by linarith
  have late: "now' \<le> (?t div second + ti_ttl I + tv_leeway V) * second"
    using exp' time V(3) by (simp only: distrib_right)
  have "check_claims V a p now' status ?pc = None"
    unfolding check_claims_None using ttl early late active by (simp add: max_token_ttl_seconds_def)
  moreover have "verified J ?c ?pc = Inr \<lparr> va_jti = jti, va_actor_id = actor_id, va_action = a, va_profile_id = p,
      va_grant_id = g, va_purpose = purpose, va_issued_at = ?t, va_expires_at = ?t + ti_ttl I * second,
      va_disclosure = (a \<in> synthesis_actions) \<rparr>"
    using rep by (simp add: verified_def whole exp' token_claims_def)
  ultimately show ?thesis
    using rt V(4) by (simp add: validate_def issue_def Let_def jwt_roundtrip_at_def V(1,2) parsed token_header_def)
qed

end
