(* ===== verification/Authorize.thy ===== *)
theory Authorize imports Tokens begin

text \<open>
  \<open>authorize\<close> of \<open>app/consent/kernel.py\<close>: the decision taken inside one transaction, with the
  token row and the audit event that record it. A unit of work is a function to
  \<open>error + (consent_db \<times> 'a)\<close>; \<open>transact\<close> commits it or rolls it back.

  \<open>request_env\<close> holds what a request reads from outside: \<open>clock_at env n\<close> is its n-th reading of
  the clock and \<open>fresh env n\<close> its n-th \<open>uuid4()\<close>.
\<close>

record request_env =
  clock_at :: "nat \<Rightarrow> timestamp"
  fresh :: "nat \<Rightarrow> uuid"

definition transact :: "consent_db \<Rightarrow> error + (consent_db \<times> 'a) \<Rightarrow> consent_db \<times> (error + 'a)" where
  "transact db r = (case r of Inl e \<Rightarrow> (db, Inl e) | Inr (db', x) \<Rightarrow> (db', Inr x))"

lemma transact_simps [simp]: "transact db (Inl e) = (db, Inl e)" "transact db (Inr (db', x)) = (db', Inr x)"
  by (simp_all add: transact_def)

definition py_obj :: "(string \<times> pyval) list \<Rightarrow> pyval" where
  "py_obj kvs = PyDict (map (\<lambda>(k, v). (PyStr (lit k), v)) kvs)"

text \<open>\<open>datetime.isoformat()\<close> leaves out a zero fraction.\<close>

definition isoformat_auto :: "timestamp \<Rightarrow> pstr" where
  "isoformat_auto t = (if t mod second = 0 then take 19 (isoformat t) @ lit ''+00:00'' else isoformat t)"

section \<open>Recording a purpose violation\<close>

definition max_audited_purpose_length :: nat where "max_audited_purpose_length = 64"

definition audited_purpose :: "ucd \<Rightarrow> pstr \<Rightarrow> pstr" where
  "audited_purpose U purpose_code = take max_audited_purpose_length (normalize_purpose U purpose_code)"

text \<open>Attempts and requests that name no known profile go to the unattributed chain.\<close>

definition chain_for :: "consent_db \<Rightarrow> uuid option \<Rightarrow> uuid" where
  "chain_for db profile_id = (case profile_id of
     Some i \<Rightarrow> if get_profile db i \<noteq> None then i else unattributed_profile_id | None \<Rightarrow> unattributed_profile_id)"

definition record_purpose_violation ::
    "ucd \<Rightarrow> (pstr \<Rightarrow> pstr) \<Rightarrow> timestamp \<Rightarrow> actor \<Rightarrow> pstr list \<Rightarrow> uuid option \<Rightarrow> string \<Rightarrow> pstr \<Rightarrow> consent_db
       \<Rightarrow> error + (consent_db \<times> nat)" where
  "record_purpose_violation U sha now actor purpose_codes profile_id detected_by route db =
     (let known = (case profile_id of Some i \<Rightarrow> get_profile db i \<noteq> None | None \<Rightarrow> False);
          payload = [(''purpose_codes'', PyList (map PyStr (sort (remdups (map (audited_purpose U) purpose_codes))))),
                     (''detected_by'', PyStr (lit detected_by)),
                     (''route'', PyStr route),
                     (''actor_kind'', PyStr (actor_kind_value (ac_kind actor)))] @
                    (case profile_id of
                       Some i \<Rightarrow> if known then [] else [(''requested_profile_id'', PyStr (uuid_str i))]
                     | None \<Rightarrow> [])
      in bindE (append_event sha now PURPOSE_VIOLATION_ATTEMPT (ac_user_id actor)
(chain_for db profile_id) None (py_obj payload) db)
           (\<lambda>(db', event). Inr (db', ae_id event)))"

section \<open>authorize\<close>

record authorization_result =
  ar_allowed :: bool
  ar_action :: consent_action
  ar_profile_id :: uuid
  ar_purpose_code :: pstr
  ar_reason :: "denial_reason option"
  ar_grant_id :: "uuid option"
  ar_token :: "pstr option"
  ar_jti :: "uuid option"
  ar_expires_at :: "timestamp option"
  ar_event_id :: nat
  ar_actor_related :: bool

definition disclosed_reason :: "authorization_result \<Rightarrow> pstr option" where
  "disclosed_reason r = (case ar_reason r of
     None \<Rightarrow> None
   | Some reason \<Rightarrow> if ar_actor_related r \<or> reason \<in> public_denial_reasons then Some (denial_value reason)
       else Some generic_public_denial)"

definition decision_event :: "consent_action \<Rightarrow> bool \<Rightarrow> audit_event_type" where
  "decision_event action allowed =
     (if allowed then (if action \<in> synthesis_actions then SYNTHESIS_REQUESTED else AUTHORIZATION_GRANTED)
      else (if action \<in> synthesis_actions then SYNTHESIS_BLOCKED else AUTHORIZATION_DENIED))"

definition token_row ::
    "issued_token \<Rightarrow> uuid option \<Rightarrow> uuid \<Rightarrow> consent_action \<Rightarrow> declared_purpose \<Rightarrow> actor \<Rightarrow> auth_token" where
  "token_row issued grant_id profile_id action purpose actor = \<lparr> at_jti = it_jti issued, at_grant_id = grant_id,
     at_profile_id = profile_id, at_action = action, at_purpose = declared_value purpose,
     at_actor_id = ac_user_id actor, at_issued_at = it_issued_at issued, at_expires_at = it_expires_at issued,
     at_revoked_at = None \<rparr>"

text \<open>The transaction. An allowed request reads the clock twice, for the token and for the event.\<close>

definition decision_payload :: "ucd \<Rightarrow> consent_action \<Rightarrow> pstr \<Rightarrow> (string \<times> pyval) list \<Rightarrow> bool \<Rightarrow> uuid \<Rightarrow> pyval" where
  "decision_payload U action purpose_code extra known profile_id =
     py_obj ([(''action'', PyStr (action_value action)), (''purpose'', PyStr (audited_purpose U purpose_code))] @ extra @
       (if known then [] else [(''requested_profile_id'', PyStr (uuid_str profile_id))]))"

definition make_result ::
    "ucd \<Rightarrow> consent_action \<Rightarrow> uuid \<Rightarrow> pstr \<Rightarrow> decision \<Rightarrow> issued_token option \<Rightarrow> audit_event \<Rightarrow> authorization_result" where
  "make_result U action profile_id purpose_code decision issued event = \<lparr> ar_allowed = d_allowed decision,
     ar_action = action, ar_profile_id = profile_id, ar_purpose_code = audited_purpose U purpose_code,
     ar_reason = d_reason decision, ar_grant_id = d_grant_id decision, ar_token = map_option it_token issued,
     ar_jti = map_option it_jti issued, ar_expires_at = map_option it_expires_at issued, ar_event_id = ae_id event,
     ar_actor_related = d_actor_related decision \<rparr>"

definition allow_tx ::
    "ucd \<Rightarrow> (pstr \<Rightarrow> pstr) \<Rightarrow> ('sk, 'vk) pyjwt \<Rightarrow> ('sk, 'vk) token_issuer \<Rightarrow> consent_action \<Rightarrow> uuid \<Rightarrow> actor \<Rightarrow> pstr
       \<Rightarrow> request_env \<Rightarrow> bool \<Rightarrow> decision \<Rightarrow> declared_purpose \<Rightarrow> consent_db \<Rightarrow> error + (consent_db \<times> authorization_result)" where
  "allow_tx U sha J I action profile_id actor purpose_code env known decision purpose db =
     (let issued = issue J I (fresh env 0) (ac_user_id actor) action profile_id (d_grant_id decision)
            (declared_value purpose) (clock_at env 0)
      in bindE (insert_token (token_row issued (d_grant_id decision) profile_id action purpose actor) db) (\<lambda>db1.
         bindE (append_event sha (clock_at env 1) (decision_event action True) (ac_user_id actor)
           (if known then profile_id else unattributed_profile_id) (d_grant_id decision)
           (decision_payload U action purpose_code [(''jti'', PyStr (uuid_str (it_jti issued))),
              (''expires_at'', PyStr (isoformat_auto (it_expires_at issued)))] known profile_id) db1) (\<lambda>(db2, event).
         Inr (db2, make_result U action profile_id purpose_code decision (Some issued) event))))"

definition deny_tx ::
    "ucd \<Rightarrow> (pstr \<Rightarrow> pstr) \<Rightarrow> consent_action \<Rightarrow> uuid \<Rightarrow> actor \<Rightarrow> pstr \<Rightarrow> request_env \<Rightarrow> bool \<Rightarrow> decision
       \<Rightarrow> denial_reason \<Rightarrow> consent_db \<Rightarrow> error + (consent_db \<times> authorization_result)" where
  "deny_tx U sha action profile_id actor purpose_code env known decision reason db =
     bindE (append_event sha (clock_at env 0) (decision_event action False) (ac_user_id actor)
       (if known then profile_id else unattributed_profile_id) (d_grant_id decision)
       (decision_payload U action purpose_code [(''reason'', PyStr (denial_value reason))] known profile_id) db) (\<lambda>(db1, event).
     Inr (db1, make_result U action profile_id purpose_code decision None event))"

definition authorize_tx ::
    "ucd \<Rightarrow> (pstr \<Rightarrow> pstr) \<Rightarrow> ('sk, 'vk) pyjwt \<Rightarrow> ('sk, 'vk) token_issuer \<Rightarrow> consent_action \<Rightarrow> uuid \<Rightarrow> actor \<Rightarrow> pstr
       \<Rightarrow> request_env \<Rightarrow> consent_db \<Rightarrow> error + (consent_db \<times> authorization_result)" where
  "authorize_tx U sha J I action profile_id actor purpose_code env db =
     (let facts = load_profile_facts db profile_id; known = (facts \<noteq> None) in
      bindE (decide U action purpose_code actor facts) (\<lambda>decision.
        if d_allowed decision
        then (case d_purpose decision of
            None \<Rightarrow> Inl AssertionError
          | Some purpose \<Rightarrow> allow_tx U sha J I action profile_id actor purpose_code env known decision purpose db)
        else (case d_reason decision of
            None \<Rightarrow> Inl AssertionError
          | Some reason \<Rightarrow> deny_tx U sha action profile_id actor purpose_code env known decision reason db)))"

definition authorize ::
    "ucd \<Rightarrow> (pstr \<Rightarrow> pstr) \<Rightarrow> ('sk, 'vk) pyjwt \<Rightarrow> ('sk, 'vk) token_issuer \<Rightarrow> consent_action \<Rightarrow> uuid \<Rightarrow> actor \<Rightarrow> pstr
       \<Rightarrow> request_env \<Rightarrow> consent_db \<Rightarrow> consent_db \<times> (error + authorization_result)" where
  "authorize U sha J I action profile_id actor purpose_code env db =
     (if is_banned_purpose U purpose_code
      then (case transact db (record_purpose_violation U sha (clock_at env 0) actor [purpose_code] (Some profile_id)
                     ''kernel'' (lit ''kernel.authorize'') db) of
              (db', Inl e) \<Rightarrow> (db', Inl e)
            | (db', Inr event_id) \<Rightarrow> (db', Inl (PurposeViolationError (audited_purpose U purpose_code) event_id)))
      else transact db (authorize_tx U sha J I action profile_id actor purpose_code env db))"

section \<open>What a decision leaves behind\<close>

lemma load_facts_None: "load_profile_facts db i = None \<longleftrightarrow> \<not> has_profile db i"
  using get_profile_None [of db i] by (cases "get_profile db i") (simp_all add: load_profile_facts_def)

lemma record_purpose_violation_Inr:
  assumes "record_purpose_violation U sha now actor codes profile_id by route db = Inr (db', n)"
  shows "\<exists>p e. append_event sha now PURPOSE_VIOLATION_ATTEMPT (ac_user_id actor) (chain_for db profile_id) None p db = Inr (db', e) \<and>
    n = ae_id e"
  using assms unfolding record_purpose_violation_def Let_def bindE_eq_Inr by clarsimp blast

lemma decide_no_facts:
  "\<exists>d. decide U a code actor None = Inr d \<and> \<not> d_allowed d \<and> d_reason d \<noteq> None"
  by (auto simp: decide_def split: option.split)

lemma allow_tx_Inr:
  assumes "allow_tx U sha J I a i actor code env known d purpose db = Inr (db', r)"
  shows "\<exists>issued row p e. issued = issue J I (fresh env 0) (ac_user_id actor) a i (d_grant_id d) (declared_value purpose) (clock_at env 0) \<and>
    row = token_row issued (d_grant_id d) i a purpose actor \<and>
    insert_token row db = Inr (db\<lparr>tokens := tokens db @ [row]\<rparr>) \<and>
    append_event sha (clock_at env 1) (decision_event a True) (ac_user_id actor)
      (if known then i else unattributed_profile_id) (d_grant_id d) p (db\<lparr>tokens := tokens db @ [row]\<rparr>) = Inr (db', e) \<and>
    r = make_result U a i code d (Some issued) e"
proof -
  let ?issued = "issue J I (fresh env 0) (ac_user_id actor) a i (d_grant_id d) (declared_value purpose) (clock_at env 0)"
  let ?row = "token_row ?issued (d_grant_id d) i a purpose actor"
  obtain db1 p e where db1: "insert_token ?row db = Inr db1"
    and ev: "append_event sha (clock_at env 1) (decision_event a True) (ac_user_id actor)
      (if known then i else unattributed_profile_id) (d_grant_id d) p db1 = Inr (db', e)"
    and r: "r = make_result U a i code d (Some ?issued) e"
    using assms unfolding allow_tx_def Let_def bindE_eq_Inr by auto
  have "db1 = db\<lparr>tokens := tokens db @ [?row]\<rparr>"
    using db1 by (simp add: insert_token_def split: if_splits)
  with db1 ev r show ?thesis by blast
qed

lemma deny_tx_Inr:
  assumes "deny_tx U sha a i actor code env known d reason db = Inr (db', r)"
  shows "\<exists>p e. append_event sha (clock_at env 0) (decision_event a False) (ac_user_id actor)
      (if known then i else unattributed_profile_id) (d_grant_id d) p db = Inr (db', e) \<and>
    r = make_result U a i code d None e"
  using assms unfolding deny_tx_def bindE_eq_Inr by (cases known) (clarsimp, blast)+

text \<open>One transaction, one event; a token row exactly when the request is allowed.\<close>

lemma authorize_tx_cases:
  assumes "authorize_tx U sha J I a i actor code env db = Inr (db', r)"
  obtains (allowed) f d purpose where "load_profile_facts db i = Some f" and "decide U a code actor (Some f) = Inr d"
      and "d_allowed d" and "d_purpose d = Some purpose" and "ar_allowed r" and "d_reason d = ar_reason r"
      and "allow_tx U sha J I a i actor code env True d purpose db = Inr (db', r)"
  | (denied) d reason where "decide U a code actor (load_profile_facts db i) = Inr d" and "\<not> d_allowed d"
      and "\<not> ar_allowed r" and "d_reason d = Some reason" and "ar_reason r = Some reason"
      and "deny_tx U sha a i actor code env (load_profile_facts db i \<noteq> None) d reason db = Inr (db', r)"
proof -
  obtain d where d: "decide U a code actor (load_profile_facts db i) = Inr d"
    using assms unfolding authorize_tx_def Let_def bindE_eq_Inr by blast
  show thesis
  proof (cases "d_allowed d")
    case True
    then obtain f where f: "load_profile_facts db i = Some f"
      using d decide_no_facts [of U a code actor] by (cases "load_profile_facts db i") auto
    then obtain purpose where p: "d_purpose d = Some purpose"
      and tx: "allow_tx U sha J I a i actor code env True d purpose db = Inr (db', r)"
      using assms d True by (auto simp: authorize_tx_def Let_def split: option.splits)
    moreover have "ar_allowed r = d_allowed d \<and> ar_reason r = d_reason d"
      using allow_tx_Inr [OF tx] by (auto simp: make_result_def)
    ultimately show thesis
      using d f True by (intro allowed) auto
  next
    case False
    then obtain reason where r: "d_reason d = Some reason"
      and tx: "deny_tx U sha a i actor code env (load_profile_facts db i \<noteq> None) d reason db = Inr (db', r)"
      using assms d by (auto simp: authorize_tx_def Let_def split: option.splits)
    moreover have "ar_allowed r = d_allowed d \<and> ar_reason r = d_reason d"
      using deny_tx_Inr [OF tx] by (auto simp: make_result_def)
    ultimately show thesis
      using d False by (intro denied) auto
  qed
qed

text \<open>Both branches append one event, to a database that differs at most by the new token.\<close>

lemma authorize_tx_event:
  assumes "authorize_tx U sha J I a i actor code env db = Inr (db', r)"
  shows "\<exists>db1 c g p e n. append_event sha n (decision_event a (ar_allowed r)) (ac_user_id actor) c g p db1 = Inr (db', e) \<and>
    c = chain_for db (Some i) \<and> ar_event_id r = ae_id e \<and>
    (if ar_allowed r then \<exists>row. insert_token row db = Inr db1 \<and> db1 = db\<lparr>tokens := tokens db @ [row]\<rparr> \<and> ar_jti r = Some (at_jti row)
     else db1 = db \<and> ar_token r = None)"
  using assms
proof (cases rule: authorize_tx_cases)
  case (allowed f d purpose)
  from allow_tx_Inr [OF allowed(7)] obtain issued row p e where
    row: "row = token_row issued (d_grant_id d) i a purpose actor" "insert_token row db = Inr (db\<lparr>tokens := tokens db @ [row]\<rparr>)"
    and ev: "append_event sha (clock_at env 1) (decision_event a True) (ac_user_id actor)
      (if True then i else unattributed_profile_id) (d_grant_id d) p (db\<lparr>tokens := tokens db @ [row]\<rparr>) = Inr (db', e)"
    and r: "r = make_result U a i code d (Some issued) e"
    by blast
  have "chain_for db (Some i) = i"
    using allowed(1) by (auto simp: chain_for_def load_profile_facts_def split: option.splits)
  with row ev r allowed(5) show ?thesis
    by (intro exI [of _ "db\<lparr>tokens := tokens db @ [row]\<rparr>"] exI [of _ i] exI [of _ "d_grant_id d"] exI [of _ p]
        exI [of _ e] exI [of _ "clock_at env 1"]) (auto simp: make_result_def token_row_def)
next
  case (denied d reason)
  from deny_tx_Inr [OF denied(6)] obtain p e where
    ev: "append_event sha (clock_at env 0) (decision_event a False) (ac_user_id actor)
      (if load_profile_facts db i \<noteq> None then i else unattributed_profile_id) (d_grant_id d) p db = Inr (db', e)"
    and r: "r = make_result U a i code d None e"
    by blast
  have "chain_for db (Some i) = (if load_profile_facts db i \<noteq> None then i else unattributed_profile_id)"
    by (auto simp: chain_for_def load_profile_facts_def split: option.split)
  with ev r denied(3) show ?thesis
    by (intro exI [of _ db] exI [of _ "chain_for db (Some i)"] exI [of _ "d_grant_id d"] exI [of _ p]
        exI [of _ e] exI [of _ "clock_at env 0"]) (simp add: make_result_def)
qed

lemma authorize_Inr:
  "authorize U sha J I a i actor code env db = (db', Inr r) \<Longrightarrow>
     \<not> is_banned_purpose U code \<and> authorize_tx U sha J I a i actor code env db = Inr (db', r)"
  by (auto simp: authorize_def transact_def split: if_splits sum.splits)

lemma authorize_Inl:
  assumes "authorize U sha J I a i actor code env db = (db', Inl e)"
  shows "db' = db \<or> (is_banned_purpose U code \<and> (\<exists>n. e = PurposeViolationError (audited_purpose U code) n \<and>
    record_purpose_violation U sha (clock_at env 0) actor [code] (Some i) ''kernel'' (lit ''kernel.authorize'') db = Inr (db', n)))"
  using assms by (auto simp: authorize_def transact_def split: if_splits sum.splits)

text \<open>Whatever happens, the ledger stays valid and rows are only added.\<close>

lemma authorize_tx_ledger:
  assumes "authorize_tx U sha J I a i actor code env db = Inr (db', r)"
  shows "ledger_ok sha db \<Longrightarrow> ledger_ok sha db'" and "event_rows_ok db \<Longrightarrow> event_rows_ok db'"
    and "rows_ok db \<Longrightarrow> rows_ok db'"
    and "\<exists>e. events db' = events db @ [e]" and "grants db' = grants db" and "requests db' = requests db"
    and "profiles db' = profiles db" and "voice_models db' = voice_models db"
    and "audio_artifacts db' = audio_artifacts db" and "deliveries db' = deliveries db"
proof -
  have tok: "ledger_ok sha (db\<lparr>tokens := ts\<rparr>) = ledger_ok sha db" "event_rows_ok (db\<lparr>tokens := ts\<rparr>) = event_rows_ok db" for ts
    by (simp_all add: ledger_ok_def event_rows_ok_def profile_events_def)
  have "\<exists>db1 t u c g p e n. append_event sha n t u c g p db1 = Inr (db', e) \<and>
      (db1 = db \<or> (\<exists>row. insert_token row db = Inr db1 \<and> db1 = db\<lparr>tokens := tokens db @ [row]\<rparr>))"
    using authorize_tx_event [OF assms] by (metis (full_types))
  then obtain db1 t u c g p e n where ev: "append_event sha n t u c g p db1 = Inr (db', e)"
    and db1: "db1 = db \<or> (\<exists>row. insert_token row db = Inr db1 \<and> db1 = db\<lparr>tokens := tokens db @ [row]\<rparr>)"
    by blast
  have rest: "ledger_ok sha db1 = ledger_ok sha db" "event_rows_ok db1 = event_rows_ok db" "events db1 = events db"
    "grants db1 = grants db" "requests db1 = requests db" "profiles db1 = profiles db"
    "voice_models db1 = voice_models db" "audio_artifacts db1 = audio_artifacts db" "deliveries db1 = deliveries db"
    using db1 tok by auto
  have ok1: "rows_ok db \<Longrightarrow> rows_ok db1"
    using db1 insert_token_ok by blast
  show "ledger_ok sha db \<Longrightarrow> ledger_ok sha db'"
    using append_event_ledger [OF ev] rest(1) by simp
  show "event_rows_ok db \<Longrightarrow> event_rows_ok db'"
    using append_event_rows [OF ev] rest(2) by simp
  show "rows_ok db \<Longrightarrow> rows_ok db'"
    using append_event_rows_ok [OF ev] ok1 by simp
  show "\<exists>e. events db' = events db @ [e]"
    using append_event_Inr(1) [OF ev] rest(3) by simp
  show "grants db' = grants db" "requests db' = requests db" "profiles db' = profiles db"
    "voice_models db' = voice_models db" "audio_artifacts db' = audio_artifacts db" "deliveries db' = deliveries db"
    using append_event_rest [OF ev] rest by simp_all
qed

text \<open>Every token the kernel issues ends within the ceiling.\<close>

lemma issue_lifetime:
  "it_expires_at (issue J I jti u a i g p now) = it_issued_at (issue J I jti u a i g p now) + ti_ttl I * second"
  "it_issued_at (issue J I jti u a i g p now) \<le> now"
  by (simp_all add: issue_def Let_def)

end
