(* ===== verification/Lifecycle.thy ===== *)
theory Lifecycle imports Authorize begin

text \<open>
  The life of a grant: the endpoints of \<open>app/consent/router.py\<close>, \<open>app/profiles/router.py\<close> and
  \<open>app/successors/router.py\<close>, with the request contracts of \<open>app/consent/schemas.py\<close> and the
  acknowledgment statement of \<open>app/consent/acknowledgments.py\<close>. Each handler is one transaction.

  In a handler \<open>clock_at env n\<close> and \<open>fresh env n\<close> number the readings in the order of the code's
  text. Pydantic's \<open>EmailStr\<close> and \<open>urlsplit\<close> are library code: the contracts below leave them out.
\<close>

section \<open>Request contracts\<close>

definition is_upper_az :: "nat \<Rightarrow> bool" where "is_upper_az c \<longleftrightarrow> 65 \<le> c \<and> c \<le> 90"

definition is_jurisdiction :: "pstr \<Rightarrow> bool" where
  "is_jurisdiction s \<longleftrightarrow> 4 \<le> length s \<and> length s \<le> 6 \<and> is_upper_az (s ! 0) \<and> is_upper_az (s ! 1) \<and> s ! 2 = 45 \<and>
     list_all (\<lambda>c. is_upper_az c \<or> is_digit c) (drop 3 s)"

definition is_hex_sha256 :: "pstr \<Rightarrow> bool" where
  "is_hex_sha256 s \<longleftrightarrow> length s = 64 \<and> list_all (\<lambda>c. is_digit c \<or> (97 \<le> c \<and> c \<le> 102)) s"

record profile_in =
  pi_full_name :: pstr
  pi_date_of_birth :: "day option"
  pi_date_of_death :: "day option"
  pi_jurisdiction :: pstr

definition profile_in_ok :: "profile_in \<Rightarrow> bool" where
  "profile_in_ok p \<longleftrightarrow> 1 \<le> length (pi_full_name p) \<and> length (pi_full_name p) \<le> 300 \<and> is_jurisdiction (pi_jurisdiction p) \<and>
     (case (pi_date_of_birth p, pi_date_of_death p) of (Some b, Some d) \<Rightarrow> \<not> d < b | _ \<Rightarrow> True)"

record beneficiary_in =
  bi_name :: pstr
  bi_email :: pstr

record grant_create =
  gc_profile_id :: "uuid option"
  gc_profile :: "profile_in option"
  gc_grantor_type :: grantor_type
  gc_legal_name :: pstr
  gc_contact_email :: pstr
  gc_document_url :: pstr
  gc_purpose_scope :: "purpose_scope list"
  gc_beneficiaries :: "beneficiary_in list"
  gc_required_acks :: "int option"

definition grant_create_ok :: "grant_create \<Rightarrow> bool" where
  "grant_create_ok b \<longleftrightarrow>
     1 \<le> length (gc_legal_name b) \<and> length (gc_legal_name b) \<le> 300 \<and> length (gc_document_url b) \<le> 2048 \<and>
     1 \<le> length (gc_purpose_scope b) \<and> length (gc_purpose_scope b) \<le> 3 \<and> length (gc_beneficiaries b) \<le> 50 \<and>
     list_all (\<lambda>x. 1 \<le> length (bi_name x) \<and> length (bi_name x) \<le> 300) (gc_beneficiaries b) \<and>
     (case gc_required_acks b of None \<Rightarrow> True | Some n \<Rightarrow> 0 \<le> n \<and> n \<le> int (length (gc_beneficiaries b))) \<and>
     ((gc_profile_id b = None) \<noteq> (gc_profile b = None)) \<and>
     distinct (gc_purpose_scope b) \<and> distinct (map bi_email (gc_beneficiaries b)) \<and>
     (case gc_profile b of None \<Rightarrow> True | Some p \<Rightarrow> profile_in_ok p)"

section \<open>Shared by the handlers\<close>

definition read_roles :: "role set" where "read_roles = {R_OWNER, R_ADMIN}"
definition audit_roles :: "role set" where "audit_roles = {R_OWNER, R_BENEFICIARY, R_SUCCESSOR, R_ADMIN}"
definition revoke_roles :: "role set" where "revoke_roles = audit_roles"

record beneficiary_status =
  bs_name :: pstr
  bs_email :: pstr
  bs_acknowledged_at :: "timestamp option"

record grant_out =
  go_grant :: consent_grant
  go_purpose_scope :: "purpose_scope list"
  go_beneficiaries :: "beneficiary_status list"
  go_quorum :: quorum_count
  go_satisfied :: bool

definition grant_out :: "consent_db \<Rightarrow> consent_grant \<Rightarrow> grant_out" where
  "grant_out db grant =
     (let acknowledged = map_of (rev (map (\<lambda>a. (ba_email a, ba_at a)) (grant_acks db grant)));
          q = grant_quorum (facts_from_row db grant)
      in \<lparr> go_grant = grant, go_purpose_scope = scope_list (g_purpose_scope grant),
           go_beneficiaries = map (\<lambda>b. \<lparr> bs_name = gb_name b, bs_email = gb_email b,
             bs_acknowledged_at = acknowledged (gb_email b) \<rparr>) (grant_beneficiaries db grant),
           go_quorum = q, go_satisfied = satisfied q \<rparr>)"

definition grant_and_facts :: "consent_db \<Rightarrow> uuid \<Rightarrow> error + (consent_grant \<times> profile_facts)" where
  "grant_and_facts db grant_id = (case get_grant db grant_id of
     None \<Rightarrow> Inl (not_found ''consent grant'')
   | Some grant \<Rightarrow> (case load_profile_facts db (g_profile_id grant) of
       None \<Rightarrow> Inl AssertionError
     | Some facts \<Rightarrow> Inr (grant, facts)))"

definition deceased_error :: error where
  "deceased_error = api_error 403 ''DECEASED_CANNOT_ACT'' ''death terminates agency; this account can no longer act''"

definition require_roles ::
    "consent_db \<Rightarrow> actor \<Rightarrow> profile_facts \<Rightarrow> consent_grant \<Rightarrow> role set \<Rightarrow> error + role set" where
  "require_roles db actor facts grant allowed =
     (let roles = roles_for actor facts (Some (facts_from_row db grant)) in
      if roles \<inter> allowed = {} then Inl (not_found ''consent grant'')
      else if is_deceased_actor actor facts then Inl deceased_error
      else Inr roles)"

definition require_human :: "actor \<Rightarrow> string \<Rightarrow> error + unit" where
  "require_human actor message = (if ac_kind actor \<noteq> HUMAN then Inl (api_error 403 ''NON_HUMAN_ACTOR'' message) else Inr ())"

section \<open>POST /consent/grants\<close>

fun insert_beneficiaries :: "uuid \<Rightarrow> timestamp \<Rightarrow> (nat \<Rightarrow> uuid) \<Rightarrow> nat \<Rightarrow> beneficiary_in list \<Rightarrow> consent_db \<Rightarrow> error + consent_db" where
  "insert_beneficiaries grant_id now ids n [] db = Inr db"
| "insert_beneficiaries grant_id now ids n (b # bs) db =
     bindE (insert_beneficiary \<lparr> gb_id = ids n, gb_grant_id = grant_id, gb_name = bi_name b, gb_email = bi_email b,
              gb_created_at = now \<rparr> db)
       (insert_beneficiaries grant_id now ids (Suc n) bs)"

definition requested_profile :: "grant_create \<Rightarrow> timestamp \<Rightarrow> uuid \<Rightarrow> consent_db \<Rightarrow> error + deceased_profile" where
  "requested_profile body now new_id db = (case gc_profile body of
     Some spec \<Rightarrow>
       (if (case pi_date_of_death spec of Some d \<Rightarrow> date_of now < d | None \<Rightarrow> False)
        then Inl (api_error 422 ''DATE_OF_DEATH_IN_FUTURE'' ''date_of_death cannot be in the future'')
        else Inr \<lparr> p_id = new_id, p_full_name = pi_full_name spec, p_date_of_birth = pi_date_of_birth spec,
          p_date_of_death = pi_date_of_death spec, p_jurisdiction = pi_jurisdiction spec, p_created_at = now \<rparr>)
   | None \<Rightarrow> (case gc_profile_id body of
       None \<Rightarrow> Inl (not_found ''deceased profile'')
     | Some i \<Rightarrow> (case get_profile db i of None \<Rightarrow> Inl (not_found ''deceased profile'') | Some p \<Rightarrow> Inr p)))"

text \<open>Principle 1: consent comes from the estate after death, or from the person before it.\<close>

definition consent_order :: "grantor_type \<Rightarrow> deceased_profile \<Rightarrow> error + unit" where
  "consent_order t profile =
     (if t = SELF_PRE_NEED \<and> p_date_of_death profile \<noteq> None
      then Inl (api_error 422 ''PRE_NEED_AFTER_DEATH'' ''pre-need consent cannot be granted after death'')
      else if t \<in> estate_grantor_types \<and> p_date_of_death profile = None
      then Inl (api_error 422 ''ESTATE_BEFORE_DEATH'' ''estate consent requires a recorded date_of_death'')
      else Inr ())"

definition admit_grantor :: "grant_create \<Rightarrow> actor \<Rightarrow> deceased_profile \<Rightarrow> consent_db \<Rightarrow> error + consent_db" where
  "admit_grantor body actor profile db =
     (if gc_profile body \<noteq> None then insert_profile profile db
      else (case load_profile_facts db (p_id profile) of
        None \<Rightarrow> Inl AssertionError
      | Some facts \<Rightarrow>
          if is_deceased_actor actor facts then Inl deceased_error
          else if gc_grantor_type body = SELF_PRE_NEED \<and>
            list_ex (\<lambda>g. gf_grantor_type g = SELF_PRE_NEED \<and> gf_grantor_user_id g \<noteq> ac_user_id actor) (pf_grants facts)
          then Inl (api_error 409 ''PRE_NEED_SUBJECT_CONFLICT'' ''another account already holds pre-need consent for this profile'')
          else Inr db))"

definition new_grant :: "grant_create \<Rightarrow> actor \<Rightarrow> uuid \<Rightarrow> uuid \<Rightarrow> timestamp \<Rightarrow> consent_grant" where
  "new_grant body actor grant_id profile_id now = \<lparr> g_id = grant_id, g_profile_id = profile_id,
     g_grantor_type = gc_grantor_type body, g_grantor_user_id = ac_user_id actor,
     g_grantor_legal_name = gc_legal_name body, g_grantor_contact_email = gc_contact_email body,
     g_document_url = gc_document_url body, g_verified_at = None, g_verified_by = None,
     g_purpose_scope = set (gc_purpose_scope body), g_required_acks = gc_required_acks body, g_is_active = True,
     g_granted_at = now, g_revoked_at = None, g_revocation_reason = None \<rparr>"

definition audit_profile_created ::
    "(pstr \<Rightarrow> pstr) \<Rightarrow> timestamp \<Rightarrow> actor \<Rightarrow> deceased_profile \<Rightarrow> consent_db \<Rightarrow> error + consent_db" where
  "audit_profile_created sha now actor profile db =
     bindE (append_event sha now PROFILE_CREATED (ac_user_id actor) (p_id profile) None
       (py_obj [(''jurisdiction_state'', PyStr (p_jurisdiction profile)),
                (''death_recorded'', PyBool (p_date_of_death profile \<noteq> None))]) db) (\<lambda>(db', _). Inr db')"

definition audit_consent_created ::
    "(pstr \<Rightarrow> pstr) \<Rightarrow> timestamp \<Rightarrow> grant_create \<Rightarrow> actor \<Rightarrow> uuid \<Rightarrow> uuid \<Rightarrow> consent_db \<Rightarrow> error + consent_db" where
  "audit_consent_created sha now body actor profile_id grant_id db =
     bindE (hash_text sha (gc_document_url body)) (\<lambda>url_hash.
     bindE (append_event sha now CONSENT_CREATED (ac_user_id actor) profile_id (Some grant_id)
       (py_obj [(''grantor_type'', PyStr (grantor_type_value (gc_grantor_type body))),
                (''purpose_scope'', PyList (map (PyStr \<circ> scope_value) (sort (gc_purpose_scope body)))),
                (''beneficiary_count'', PyInt (int (length (gc_beneficiaries body)))),
                (''required_acknowledgments'', case gc_required_acks body of Some n \<Rightarrow> PyInt n | None \<Rightarrow> PyNone),
                (''legal_authority_document_url_sha256'', PyStr url_hash)]) db) (\<lambda>(db', _). Inr db'))"

definition create_grant ::
    "(pstr \<Rightarrow> pstr) \<Rightarrow> grant_create \<Rightarrow> actor \<Rightarrow> request_env \<Rightarrow> consent_db \<Rightarrow> error + (consent_db \<times> grant_out)" where
  "create_grant sha body actor env db =
     bindE (require_human actor ''consent decisions must be made by a person'') (\<lambda>_.
     let now = clock_at env 0 in
     bindE (requested_profile body now (fresh env 0) db) (\<lambda>profile.
     bindE (consent_order (gc_grantor_type body) profile) (\<lambda>_.
     bindE (admit_grantor body actor profile db) (\<lambda>db1.
     let grant = new_grant body actor (fresh env 1) (p_id profile) now in
     bindE (insert_grant grant db1) (\<lambda>db2.
     bindE (insert_beneficiaries (fresh env 1) now (fresh env) 2 (gc_beneficiaries body) db2) (\<lambda>db3.
     bindE (if gc_profile body \<noteq> None then audit_profile_created sha (clock_at env 1) actor profile db3 else Inr db3) (\<lambda>db4.
     bindE (audit_consent_created sha (clock_at env 2) body actor (p_id profile) (fresh env 1) db4) (\<lambda>db5.
     Inr (db5, grant_out db5 grant)))))))))"

section \<open>POST /consent/grants/{id}/verify\<close>

definition verify_authority ::
    "(pstr \<Rightarrow> pstr) \<Rightarrow> uuid \<Rightarrow> pstr \<Rightarrow> actor \<Rightarrow> request_env \<Rightarrow> consent_db \<Rightarrow> error + (consent_db \<times> grant_out)" where
  "verify_authority sha grant_id document_sha256 actor env db =
     (if \<not> ac_is_admin actor then Inl (api_error 403 ''ADMIN_REQUIRED'' ''only an administrator can verify legal authority'')
      else bindE (require_human actor ''consent decisions must be made by a person'') (\<lambda>_.
      bindE (grant_and_facts db grant_id) (\<lambda>(grant, _).
      if g_grantor_user_id grant = ac_user_id actor
      then Inl (api_error 403 ''SELF_VERIFICATION'' ''an administrator cannot verify their own grant'')
      else if g_revoked_at grant \<noteq> None then Inl (api_error 409 ''GRANT_REVOKED'' ''a revoked grant cannot be verified'')
      else if g_verified_at grant \<noteq> None then Inl (api_error 409 ''ALREADY_VERIFIED'' ''legal authority is already verified'')
      else
        let set_verified = (\<lambda>g. g\<lparr>g_verified_at := Some (clock_at env 0), g_verified_by := Some (ac_user_id actor)\<rparr>) in
        bindE (update_grant grant_id set_verified db) (\<lambda>db1.
        bindE (append_event sha (clock_at env 1) AUTHORITY_VERIFIED (ac_user_id actor) (g_profile_id grant) (Some grant_id)
                 (py_obj [(''document_sha256'', PyStr document_sha256)]) db1) (\<lambda>(db2, _).
        Inr (db2, grant_out db2 (set_verified grant)))))))"

section \<open>POST /consent/grants/{id}/acknowledge\<close>

definition terms :: "pstr list" where
  "terms = map lit
     [''Consent covers memorialization only.'',
      ''It never permits financial, property, legal-representation or commercial use.'',
      ''Any synthesized voice must be presented as synthetic; it does not speak as the deceased.'',
      ''Consent can be revoked at any time by any authorized party; revocation deletes derived voice data.'']"

definition statement_for :: "consent_grant \<Rightarrow> pstr \<Rightarrow> json" where
  "statement_for grant beneficiary_email = JObj [
     (lit ''version'', JStr ack_statement_version),
     (lit ''consent_grant_id'', JStr (uuid_str (g_id grant))),
     (lit ''deceased_profile_id'', JStr (uuid_str (g_profile_id grant))),
     (lit ''grantor_type'', JStr (grantor_type_value (g_grantor_type grant))),
     (lit ''grantor_legal_name'', JStr (g_grantor_legal_name grant)),
     (lit ''purpose_scope'', JList (map (JStr \<circ> scope_value) (scope_list (g_purpose_scope grant)))),
     (lit ''beneficiary_email'', JStr beneficiary_email),
     (lit ''terms'', JList (map JStr terms))]"

definition statement_digest :: "(pstr \<Rightarrow> pstr) \<Rightarrow> json \<Rightarrow> error + pstr" where
  "statement_digest sha statement = hash_text sha (canonical_json statement)"

definition signature_hash :: "(pstr \<Rightarrow> pstr) \<Rightarrow> json \<Rightarrow> pstr \<Rightarrow> error + pstr" where
  "signature_hash sha statement signature =
     hash_text sha (canonical_json (JObj [(lit ''statement'', statement), (lit ''signature'', JStr signature)]))"

record acknowledge_response =
  kr_acknowledgment_id :: uuid
  kr_grant_id :: uuid
  kr_statement :: json
  kr_signature_hash :: pstr
  kr_acknowledged_at :: timestamp
  kr_quorum :: quorum_count

definition acknowledge_as ::
    "(pstr \<Rightarrow> pstr) \<Rightarrow> consent_grant \<Rightarrow> pstr \<Rightarrow> grant_beneficiary \<Rightarrow> pstr \<Rightarrow> actor \<Rightarrow> request_env \<Rightarrow> consent_db
       \<Rightarrow> error + (consent_db \<times> acknowledge_response)" where
  "acknowledge_as sha grant email named signature actor env db =
     (let statement = statement_for grant email; now = clock_at env 0 in
      bindE (signature_hash sha statement signature) (\<lambda>sig.
      let ack = \<lparr> ba_id = fresh env 0, ba_grant_id = g_id grant, ba_name = gb_name named, ba_email = email,
            ba_signature_hash = sig, ba_at = now \<rparr> in
      bindE (insert_ack ack db) (\<lambda>db1.
      let q = grant_quorum (facts_from_row db1 grant) in
      bindE (statement_digest sha statement) (\<lambda>digest.
      bindE (append_event sha (clock_at env 1) BENEFICIARY_ACKNOWLEDGED (ac_user_id actor) (g_profile_id grant)
               (Some (g_id grant))
               (py_obj [(''acknowledgment_id'', PyStr (uuid_str (ba_id ack))),
                        (''grant_beneficiary_id'', PyStr (uuid_str (gb_id named))),
                        (''statement_sha256'', PyStr digest),
                        (''quorum_required'', PyInt (q_required q)),
                        (''quorum_acknowledged'', PyInt (q_acknowledged q))]) db1) (\<lambda>(db2, _).
      Inr (db2, \<lparr> kr_acknowledgment_id = ba_id ack, kr_grant_id = g_id grant, kr_statement = statement,
                  kr_signature_hash = sig, kr_acknowledged_at = now, kr_quorum = q \<rparr>))))))"

definition acknowledge ::
    "(pstr \<Rightarrow> pstr) \<Rightarrow> uuid \<Rightarrow> pstr \<Rightarrow> actor \<Rightarrow> request_env \<Rightarrow> consent_db \<Rightarrow> error + (consent_db \<times> acknowledge_response)" where
  "acknowledge sha grant_id signature actor env db =
     bindE (require_human actor ''consent decisions must be made by a person'') (\<lambda>_.
     bindE (grant_and_facts db grant_id) (\<lambda>(grant, facts).
     bindE (require_roles db actor facts grant {R_BENEFICIARY}) (\<lambda>roles.
     case ac_email actor of
       None \<Rightarrow> Inl AssertionError
     | Some email \<Rightarrow>
       if g_revoked_at grant \<noteq> None then Inl (api_error 409 ''GRANT_REVOKED'' ''a revoked grant cannot be acknowledged'')
       else if list_ex (\<lambda>a. ba_email a = email) (grant_acks db grant)
       then Inl (api_error 409 ''ALREADY_ACKNOWLEDGED'' ''this beneficiary already acknowledged the grant'')
       else (case find (\<lambda>b. gb_email b = email) (grant_beneficiaries db grant) of
           None \<Rightarrow> Inl NoResultFound
         | Some named \<Rightarrow> acknowledge_as sha grant email named signature actor env db))))"

section \<open>POST /consent/grants/{id}/revoke\<close>

record revoke_response =
  rv_grant_id :: uuid
  rv_revoked_at :: timestamp
  rv_request_id :: uuid
  rv_status :: revocation_status
  rv_tokens_invalidated :: nat

definition role_list :: "role set \<Rightarrow> role list" where
  "role_list S = filter (\<lambda>r. r \<in> S) [R_ADMIN, R_BENEFICIARY, R_OWNER, R_PUBLIC, R_SUCCESSOR]"

definition revoked_grant :: "timestamp \<Rightarrow> pstr \<Rightarrow> consent_grant \<Rightarrow> consent_grant" where
  "revoked_grant now reason g = g\<lparr>g_is_active := False, g_revoked_at := Some now, g_revocation_reason := Some reason\<rparr>"

definition new_request :: "uuid \<Rightarrow> uuid \<Rightarrow> pstr \<Rightarrow> pstr \<Rightarrow> timestamp \<Rightarrow> revocation_request" where
  "new_request request_id grant_id requested_by reason now = \<lparr> rr_id = request_id, rr_grant_id = grant_id,
     rr_requested_by = requested_by, rr_reason = reason, rr_status = PENDING, rr_created_at = now, rr_updated_at = now,
     rr_attempts = 0, rr_last_error = None, rr_completed_at = None \<rparr>"

definition revoke_anew ::
    "(pstr \<Rightarrow> pstr) \<Rightarrow> consent_grant \<Rightarrow> role set \<Rightarrow> pstr \<Rightarrow> actor \<Rightarrow> request_env \<Rightarrow> consent_db
       \<Rightarrow> error + (consent_db \<times> (revoke_response \<times> bool))" where
  "revoke_anew sha grant roles reason actor env db =
     (let now = clock_at env 0; request = new_request (fresh env 0) (g_id grant) (ac_user_id actor) reason now in
      bindE (update_grant (g_id grant) (revoked_grant now reason) db) (\<lambda>db1.
      let revoked = revoke_grant_tokens (g_id grant) now db1; invalidated = snd revoked in
      bindE (insert_request request (fst revoked)) (\<lambda>db2.
      bindE (hash_text sha reason) (\<lambda>reason_hash.
      bindE (append_event sha (clock_at env 1) CONSENT_REVOKED (ac_user_id actor) (g_profile_id grant) (Some (g_id grant))
               (py_obj [(''revocation_request_id'', PyStr (uuid_str (rr_id request))),
                        (''revoked_by_roles'', PyList (map (PyStr \<circ> role_value) (role_list (roles - {R_PUBLIC})))),
                        (''tokens_invalidated'', PyInt (int invalidated)),
                        (''reason_sha256'', PyStr reason_hash)]) db2) (\<lambda>(db3, _).
      Inr (db3, (\<lparr> rv_grant_id = g_id grant, rv_revoked_at = now, rv_request_id = rr_id request,
                   rv_status = rr_status request, rv_tokens_invalidated = invalidated \<rparr>, True)))))))"

text \<open>The flag says whether the cascade is dispatched after the commit.\<close>

definition revoke ::
    "(pstr \<Rightarrow> pstr) \<Rightarrow> uuid \<Rightarrow> pstr \<Rightarrow> actor \<Rightarrow> request_env \<Rightarrow> consent_db
       \<Rightarrow> error + (consent_db \<times> (revoke_response \<times> bool))" where
  "revoke sha grant_id reason actor env db =
     bindE (require_human actor ''consent decisions must be made by a person'') (\<lambda>_.
     bindE (grant_and_facts db grant_id) (\<lambda>(grant, facts).
     bindE (require_roles db actor facts grant revoke_roles) (\<lambda>roles.
     case (g_revoked_at grant, get_request db (g_id grant)) of
       (Some at, Some existing) \<Rightarrow>
         Inr (db, (\<lparr> rv_grant_id = g_id grant, rv_revoked_at = at, rv_request_id = rr_id existing,
                     rv_status = rr_status existing, rv_tokens_invalidated = 0 \<rparr>, rr_status existing \<noteq> COMPLETE))
     | _ \<Rightarrow> revoke_anew sha grant roles reason actor env db)))"

section \<open>Reading\<close>

definition read_grant :: "uuid \<Rightarrow> actor \<Rightarrow> consent_db \<Rightarrow> error + grant_out" where
  "read_grant grant_id actor db =
     bindE (grant_and_facts db grant_id) (\<lambda>(grant, facts).
     bindE (require_roles db actor facts grant read_roles) (\<lambda>_. Inr (grant_out db grant)))"

record audit_page =
  ap_events :: "event_record list"
  ap_next_after_id :: "nat option"
  ap_verified :: bool
  ap_length :: nat
  ap_head_hash :: pstr
  ap_errors :: nat

definition read_audit :: "(pstr \<Rightarrow> pstr) \<Rightarrow> uuid \<Rightarrow> actor \<Rightarrow> nat \<Rightarrow> nat \<Rightarrow> consent_db \<Rightarrow> error + audit_page" where
  "read_audit sha grant_id actor after_id limit db =
     bindE (grant_and_facts db grant_id) (\<lambda>(grant, facts).
     bindE (require_roles db actor facts grant audit_roles) (\<lambda>_.
     let rows = take (limit + 1) (filter (\<lambda>e. ae_grant_id e = Some grant_id \<and> after_id < ae_id e) (events db)) in
     bindE (verify_chain sha (iter_events db (Some (g_profile_id grant))) []) (\<lambda>report.
     let chain = map_of (cr_chains report) (g_profile_id grant); page = take limit rows in
     Inr \<lparr> ap_events = map from_row page,
           ap_next_after_id = (if limit < length rows then Some (ae_id (last page)) else None),
           ap_verified = report_ok report,
           ap_length = (case chain of Some c \<Rightarrow> cs_length c | None \<Rightarrow> 0),
           ap_head_hash = (case chain of Some c \<Rightarrow> cs_head_hash c | None \<Rightarrow> replicate 64 48),
           ap_errors = length (cr_errors report) \<rparr>)))"

section \<open>POST /consent/authorize\<close>

record authorize_response =
  as_status :: nat
  as_allowed :: bool
  as_action :: consent_action
  as_profile_id :: uuid
  as_grant_id :: "uuid option"
  as_token :: "pstr option"
  as_token_type :: "pstr option"
  as_jti :: "uuid option"
  as_expires_at :: "timestamp option"
  as_reason :: "pstr option"

definition authorize_action ::
    "ucd \<Rightarrow> (pstr \<Rightarrow> pstr) \<Rightarrow> ('sk, 'vk) pyjwt \<Rightarrow> ('sk, 'vk) token_issuer \<Rightarrow> consent_action \<Rightarrow> uuid \<Rightarrow> pstr \<Rightarrow> actor
       \<Rightarrow> request_env \<Rightarrow> consent_db \<Rightarrow> consent_db \<times> (error + authorize_response)" where
  "authorize_action U sha J I action profile_id purpose_code actor env db =
     (case authorize U sha J I action profile_id actor purpose_code env db of
        (db', Inl (PurposeViolationError code n)) \<Rightarrow> (db', Inl (ApiError 403 (lit ''PURPOSE_VIOLATION'')
          (lit ''financial, property, legal-representation and commercial purposes are prohibited'')
          [(lit ''audit_event_id'', JInt (int n))]))
      | (db', Inl e) \<Rightarrow> (db', Inl e)
      | (db', Inr r) \<Rightarrow> (db', Inr \<lparr> as_status = (if ar_allowed r then 200 else 403), as_allowed = ar_allowed r,
          as_action = ar_action r, as_profile_id = ar_profile_id r,
          as_grant_id = (if ar_allowed r then ar_grant_id r else None), as_token = ar_token r,
          as_token_type = (case ar_token r of Some t \<Rightarrow> if t \<noteq> [] then Some token_type else None | None \<Rightarrow> None),
          as_jti = ar_jti r, as_expires_at = ar_expires_at r, as_reason = disclosed_reason r \<rparr>))"

section \<open>POST /profiles/{id}/death\<close>

definition record_death ::
    "(pstr \<Rightarrow> pstr) \<Rightarrow> uuid \<Rightarrow> day \<Rightarrow> pstr \<Rightarrow> actor \<Rightarrow> request_env \<Rightarrow> consent_db \<Rightarrow> error + (consent_db \<times> deceased_profile)" where
  "record_death sha profile_id date_of_death certificate_sha256 actor env db =
     (if \<not> ac_is_admin actor then Inl (api_error 403 ''ADMIN_REQUIRED'' ''only an administrator can record a death'')
      else (case get_profile db profile_id of
        None \<Rightarrow> Inl (not_found ''deceased profile'')
      | Some profile \<Rightarrow>
        if p_date_of_death profile \<noteq> None
        then Inl (api_error 409 ''DEATH_ALREADY_RECORDED'' ''a date of death is already recorded'')
        else if date_of (clock_at env 0) < date_of_death
        then Inl (api_error 422 ''DATE_OF_DEATH_IN_FUTURE'' ''date_of_death cannot be in the future'')
        else if (case p_date_of_birth profile of Some b \<Rightarrow> date_of_death < b | None \<Rightarrow> False)
        then Inl (api_error 422 ''DATE_OF_DEATH_BEFORE_BIRTH'' ''date_of_death cannot precede date_of_birth'')
        else
          bindE (update_profile profile_id (\<lambda>p. p\<lparr>p_date_of_death := Some date_of_death\<rparr>) db) (\<lambda>db1.
          bindE (append_event sha (clock_at env 1) DEATH_RECORDED (ac_user_id actor) profile_id None
                   (py_obj [(''death_certificate_sha256'', PyStr certificate_sha256)]) db1) (\<lambda>(db2, _).
          Inr (db2, profile\<lparr>p_date_of_death := Some date_of_death\<rparr>)))))"

section \<open>POST /successors\<close>

definition add_successor ::
    "(pstr \<Rightarrow> pstr) \<Rightarrow> timestamp \<Rightarrow> actor \<Rightarrow> successor_designation \<Rightarrow> consent_db
       \<Rightarrow> error + (consent_db \<times> successor_designation)" where
  "add_successor sha now actor designation db =
     bindE (insert_successor designation db) (\<lambda>db1.
     bindE (append_event sha now SUCCESSOR_DESIGNATED (ac_user_id actor) (sd_profile_id designation) None
              (py_obj [(''successor_designation_id'', PyStr (uuid_str (sd_id designation))),
                       (''successor_user_id'', PyStr (sd_user_id designation)),
                       (''priority_order'', PyInt (sd_priority designation))]) db1) (\<lambda>(db2, _).
     Inr (db2, designation)))"

definition may_designate :: "actor \<Rightarrow> profile_facts \<Rightarrow> bool" where
  "may_designate actor facts \<longleftrightarrow> ac_is_admin actor \<or>
     list_ex (\<lambda>g. gf_verified g \<and> \<not> gf_revoked g \<and> gf_grantor_user_id g = ac_user_id actor) (pf_grants facts)"

definition successor_clash :: "consent_db \<Rightarrow> uuid \<Rightarrow> pstr \<Rightarrow> int \<Rightarrow> bool" where
  "successor_clash db profile_id successor_user_id priority_order \<longleftrightarrow>
     list_ex (\<lambda>s. sd_profile_id s = profile_id \<and> (sd_priority s = priority_order \<or> sd_user_id s = successor_user_id))
       (successors db)"

definition designate_successor ::
    "(pstr \<Rightarrow> pstr) \<Rightarrow> uuid \<Rightarrow> pstr \<Rightarrow> int \<Rightarrow> actor \<Rightarrow> request_env \<Rightarrow> consent_db
       \<Rightarrow> error + (consent_db \<times> successor_designation)" where
  "designate_successor sha profile_id successor_user_id priority_order actor env db =
     bindE (require_human actor ''successors must be designated by a person'') (\<lambda>_.
     case load_profile_facts db profile_id of
       None \<Rightarrow> Inl (not_found ''deceased profile'')
     | Some facts \<Rightarrow>
       if roles_for actor facts None = {R_PUBLIC} then Inl (not_found ''deceased profile'')
       else if is_deceased_actor actor facts then Inl deceased_error
       else if \<not> may_designate actor facts
       then Inl (api_error 403 ''OWNER_REQUIRED'' ''only the verified grantor or an administrator can designate successors'')
       else if successor_clash db profile_id successor_user_id priority_order
       then Inl (api_error 409 ''SUCCESSOR_CONFLICT'' ''that successor or priority is already designated for this profile'')
       else add_successor sha (clock_at env 1) actor
         \<lparr> sd_id = fresh env 0, sd_profile_id = profile_id, sd_user_id = successor_user_id,
           sd_priority = priority_order, sd_at = clock_at env 0, sd_by = ac_user_id actor \<rparr> db)"

end
