(* ===== verification/Evolution.thy ===== *)
theory Evolution imports Authorize begin

text \<open>
  How the database may change: \<open>evolves\<close> says that rows are only added, that the terms of a grant
  are fixed, that verification, revocation, a recorded death, a completed cascade and a tombstone
  are final, and that the constraints and the ledger stay intact. Every primitive write satisfies
  it, so every handler does.
\<close>

definition prefix_le :: "('r \<Rightarrow> 'r \<Rightarrow> bool) \<Rightarrow> 'r list \<Rightarrow> 'r list \<Rightarrow> bool" where
  "prefix_le R xs ys \<longleftrightarrow> (\<exists>us vs. ys = us @ vs \<and> list_all2 R xs us)"

lemma prefix_le_refl: "(\<And>x. R x x) \<Longrightarrow> prefix_le R xs xs"
  unfolding prefix_le_def by (intro exI [of _ xs] exI [of _ "[]"]) (simp add: list.rel_refl)

lemma prefix_le_append: "(\<And>x. R x x) \<Longrightarrow> prefix_le R xs (xs @ ys)"
  unfolding prefix_le_def by (intro exI [of _ xs] exI [of _ ys]) (simp add: list.rel_refl)

lemma prefix_le_map: "(\<And>x. x \<in> set xs \<Longrightarrow> R x (f x)) \<Longrightarrow> prefix_le R xs (map f xs)"
  unfolding prefix_le_def by (intro exI [of _ "map f xs"] exI [of _ "[]"]) (simp add: list_all2_map2 list.rel_refl_strong)

lemma prefix_le_update:
  "(\<And>x. R x x) \<Longrightarrow> (\<And>x. x \<in> set xs \<Longrightarrow> P x \<Longrightarrow> R x (f x)) \<Longrightarrow> prefix_le R xs (update_rows P f xs)"
  unfolding update_rows_def by (rule prefix_le_map) simp

lemma prefix_le_trans:
  assumes "\<And>x y z. R x y \<Longrightarrow> R y z \<Longrightarrow> R x z" and "prefix_le R xs ys" and "prefix_le R ys zs"
  shows "prefix_le R xs zs"
proof -
  obtain us vs where ys: "ys = us @ vs" and xu: "list_all2 R xs us"
    using assms(2) by (auto simp: prefix_le_def)
  obtain ps qs where zs: "zs = ps @ qs" and yp: "list_all2 R ys ps"
    using assms(3) by (auto simp: prefix_le_def)
  obtain p1 p2 where ps: "ps = p1 @ p2" and "list_all2 R us p1"
    using yp unfolding ys list_all2_append1 by blast
  then have "list_all2 R xs p1"
    using list_all2_trans [of R R R xs us p1] assms(1) xu by blast
  then show ?thesis
    unfolding prefix_le_def zs ps by (intro exI [of _ p1] exI [of _ "p2 @ qs"]) simp
qed

lemma prefix_le_in:
  assumes "prefix_le R xs ys" and "x \<in> set xs"
  shows "\<exists>y \<in> set ys. R x y"
  using assms by (force simp: prefix_le_def in_set_conv_nth list_all2_conv_all_nth nth_append)

section \<open>Rows\<close>

definition grant_le :: "consent_grant \<Rightarrow> consent_grant \<Rightarrow> bool" where
  "grant_le g h \<longleftrightarrow> g_id h = g_id g \<and> g_profile_id h = g_profile_id g \<and> g_grantor_type h = g_grantor_type g \<and>
     g_grantor_user_id h = g_grantor_user_id g \<and> g_document_url h = g_document_url g \<and>
     g_purpose_scope h = g_purpose_scope g \<and> g_required_acks h = g_required_acks g \<and> g_granted_at h = g_granted_at g \<and>
     (g_verified_at g \<noteq> None \<longrightarrow> g_verified_at h = g_verified_at g \<and> g_verified_by h = g_verified_by g) \<and>
     (g_revoked_at g \<noteq> None \<longrightarrow> g_revoked_at h = g_revoked_at g \<and> g_revocation_reason h = g_revocation_reason g)"

definition profile_le :: "deceased_profile \<Rightarrow> deceased_profile \<Rightarrow> bool" where
  "profile_le p q \<longleftrightarrow> p_id q = p_id p \<and> p_full_name q = p_full_name p \<and> p_date_of_birth q = p_date_of_birth p \<and>
     (p_date_of_death p \<noteq> None \<longrightarrow> p_date_of_death q = p_date_of_death p)"

definition request_le :: "revocation_request \<Rightarrow> revocation_request \<Rightarrow> bool" where
  "request_le r s \<longleftrightarrow> rr_id s = rr_id r \<and> rr_grant_id s = rr_grant_id r \<and>
     (rr_status r = COMPLETE \<longrightarrow> rr_status s = COMPLETE)"

definition voice_le :: "voice_model \<Rightarrow> voice_model \<Rightarrow> bool" where
  "voice_le m n \<longleftrightarrow> vm_id n = vm_id m \<and> vm_grant_id n = vm_grant_id m \<and> (vm_deleted_at m \<noteq> None \<longrightarrow> n = m)"

definition audio_le :: "audio_artifact \<Rightarrow> audio_artifact \<Rightarrow> bool" where
  "audio_le a b \<longleftrightarrow> aa_id b = aa_id a \<and> aa_grant_id b = aa_grant_id a \<and> aa_voice_model_id b = aa_voice_model_id a \<and>
     (aa_deleted_at a \<noteq> None \<longrightarrow> b = a)"

definition delivery_le :: "scheduled_delivery \<Rightarrow> scheduled_delivery \<Rightarrow> bool" where
  "delivery_le d e \<longleftrightarrow> de_id e = de_id d \<and> de_grant_id e = de_grant_id d \<and> de_audio_id e = de_audio_id d \<and>
     (de_status d \<noteq> SCHEDULED \<longrightarrow> e = d)"

lemmas row_le_defs = grant_le_def profile_le_def request_le_def voice_le_def audio_le_def delivery_le_def
  authorization_token_guard_def

lemma row_le_refl [simp]:
  "grant_le g g" "profile_le p p" "request_le r r" "voice_le m m" "audio_le a a" "delivery_le d d"
  "authorization_token_guard t t"
  by (simp_all add: row_le_defs)

lemma row_le_trans:
  "grant_le g1 g2 \<Longrightarrow> grant_le g2 g3 \<Longrightarrow> grant_le g1 g3"
  "profile_le p1 p2 \<Longrightarrow> profile_le p2 p3 \<Longrightarrow> profile_le p1 p3"
  "request_le r1 r2 \<Longrightarrow> request_le r2 r3 \<Longrightarrow> request_le r1 r3"
  "voice_le m1 m2 \<Longrightarrow> voice_le m2 m3 \<Longrightarrow> voice_le m1 m3"
  "audio_le a1 a2 \<Longrightarrow> audio_le a2 a3 \<Longrightarrow> audio_le a1 a3"
  "delivery_le d1 d2 \<Longrightarrow> delivery_le d2 d3 \<Longrightarrow> delivery_le d1 d3"
  "authorization_token_guard t1 t2 \<Longrightarrow> authorization_token_guard t2 t3 \<Longrightarrow> authorization_token_guard t1 t3"
  by (simp_all add: row_le_defs) auto

lemma grant_guard_le: "consent_grant_guard g h \<Longrightarrow> grant_le g h"
  by (auto simp: consent_grant_guard_def grant_le_def)

section \<open>The whole database\<close>

definition sound :: "(pstr \<Rightarrow> pstr) \<Rightarrow> consent_db \<Rightarrow> bool" where
  "sound sha db \<longleftrightarrow> ledger_ok sha db \<and> event_rows_ok db \<and> rows_ok db"

definition rows_evolve :: "consent_db \<Rightarrow> consent_db \<Rightarrow> bool" where
  "rows_evolve db db' \<longleftrightarrow>
     prefix_le (=) (events db) (events db') \<and> prefix_le grant_le (grants db) (grants db') \<and>
     prefix_le profile_le (profiles db) (profiles db') \<and>
     prefix_le authorization_token_guard (tokens db) (tokens db') \<and>
     prefix_le request_le (requests db) (requests db') \<and>
     prefix_le (=) (beneficiaries db) (beneficiaries db') \<and> prefix_le (=) (acknowledgments db) (acknowledgments db') \<and>
     prefix_le (=) (successors db) (successors db') \<and>
     prefix_le voice_le (voice_models db) (voice_models db') \<and>
     prefix_le audio_le (audio_artifacts db) (audio_artifacts db') \<and>
     prefix_le delivery_le (deliveries db) (deliveries db')"

definition evolves :: "(pstr \<Rightarrow> pstr) \<Rightarrow> consent_db \<Rightarrow> consent_db \<Rightarrow> bool" where
  "evolves sha db db' \<longleftrightarrow> (sound sha db \<longrightarrow> sound sha db' \<and> rows_evolve db db')"

lemma rows_evolve_refl: "rows_evolve db db"
  by (simp add: rows_evolve_def prefix_le_refl)

lemma rows_evolve_trans: "rows_evolve a b \<Longrightarrow> rows_evolve b c \<Longrightarrow> rows_evolve a c"
  unfolding rows_evolve_def by (intro conjI; elim conjE; rule prefix_le_trans; (assumption | erule row_le_trans | simp)?)

lemma evolves_refl [simp]: "evolves sha db db"
  by (simp add: evolves_def rows_evolve_refl)

lemma evolves_trans [trans]: "evolves sha a b \<Longrightarrow> evolves sha b c \<Longrightarrow> evolves sha a c"
  unfolding evolves_def using rows_evolve_trans by blast

text \<open>The unit of work: what it leaves behind has evolved, and so has what an error leaves behind.\<close>

lemma transact_evolves:
  "transact db r = (db', x) \<Longrightarrow> (\<And>db1 y. r = Inr (db1, y) \<Longrightarrow> evolves sha db db1) \<Longrightarrow> evolves sha db db'"
  by (auto simp: transact_def split: sum.splits)

section \<open>The primitive writes\<close>

lemma ledger_of_events:
  "events db' = events db \<Longrightarrow> ledger_ok sha db' = ledger_ok sha db" "events db' = events db \<Longrightarrow> event_rows_ok db' = event_rows_ok db"
  by (simp_all add: ledger_ok_def event_rows_ok_def profile_events_def)

lemma evolvesI:
  "events db' = events db \<Longrightarrow> (rows_ok db \<Longrightarrow> rows_ok db') \<Longrightarrow> (rows_ok db \<Longrightarrow> rows_evolve db db') \<Longrightarrow> evolves sha db db'"
  unfolding evolves_def sound_def using ledger_of_events by metis

lemma insert_evolves [ledger_ext]:
  "insert_profile p db = Inr db' \<Longrightarrow> evolves sha db db'"
  "insert_grant g db = Inr db' \<Longrightarrow> evolves sha db db'"
  "insert_beneficiary b db = Inr db' \<Longrightarrow> evolves sha db db'"
  "insert_ack a db = Inr db' \<Longrightarrow> evolves sha db db'"
  "insert_request r db = Inr db' \<Longrightarrow> evolves sha db db'"
  "insert_token t db = Inr db' \<Longrightarrow> evolves sha db db'"
  "insert_successor s db = Inr db' \<Longrightarrow> evolves sha db db'"
proof -
  have append: "rows_evolve db (db\<lparr>profiles := profiles db @ xs\<rparr>)" "rows_evolve db (db\<lparr>grants := grants db @ gs\<rparr>)"
    "rows_evolve db (db\<lparr>beneficiaries := beneficiaries db @ bs\<rparr>)" "rows_evolve db (db\<lparr>acknowledgments := acknowledgments db @ as\<rparr>)"
    "rows_evolve db (db\<lparr>requests := requests db @ rs\<rparr>)" "rows_evolve db (db\<lparr>tokens := tokens db @ ts\<rparr>)"
    "rows_evolve db (db\<lparr>successors := successors db @ ss\<rparr>)" for xs gs bs as rs ts ss
    by (simp_all add: rows_evolve_def prefix_le_refl prefix_le_append)
  show "insert_profile p db = Inr db' \<Longrightarrow> evolves sha db db'"
    by (rule evolvesI; (erule (1) insert_profile_ok | auto simp: insert_profile_def append split: if_splits)?)
  show "insert_grant g db = Inr db' \<Longrightarrow> evolves sha db db'"
    by (rule evolvesI; (erule (1) insert_grant_ok | auto simp: insert_grant_def append split: if_splits)?)
  show "insert_beneficiary b db = Inr db' \<Longrightarrow> evolves sha db db'"
    by (rule evolvesI; (erule (1) insert_beneficiary_ok | auto simp: insert_beneficiary_def append split: if_splits)?)
  show "insert_ack a db = Inr db' \<Longrightarrow> evolves sha db db'"
    by (rule evolvesI; (erule (1) insert_ack_ok | auto simp: insert_ack_def append split: if_splits)?)
  show "insert_request r db = Inr db' \<Longrightarrow> evolves sha db db'"
    by (rule evolvesI; (erule (1) insert_request_ok | auto simp: insert_request_def append split: if_splits)?)
  show "insert_token t db = Inr db' \<Longrightarrow> evolves sha db db'"
    by (rule evolvesI; (erule (1) insert_token_ok | auto simp: insert_token_def append split: if_splits option.splits)?)
  show "insert_successor s db = Inr db' \<Longrightarrow> evolves sha db db'"
    by (rule evolvesI; (erule (1) insert_successor_ok | auto simp: insert_successor_def append split: if_splits)?)
qed

lemma append_event_evolves [ledger_ext]:
  assumes "append_event sha now t a i g p db = Inr (db', e)"
  shows "evolves sha db db'"
proof -
  have "rows_evolve db db'"
    unfolding append_event_Inr(1) [OF assms] by (simp add: rows_evolve_def prefix_le_refl prefix_le_append)
  then show ?thesis
    using append_event_ledger [OF assms] append_event_rows [OF assms] append_event_rows_ok [OF assms]
    by (simp add: evolves_def sound_def)
qed

lemma update_grant_evolves [ledger_ext]:
  assumes "update_grant i f db = Inr db'"
  shows "evolves sha db db'"
proof (rule evolvesI)
  have db': "db' = db\<lparr>grants := update_rows (\<lambda>g. g_id g = i) f (grants db)\<rparr>"
    and guard: "\<And>g. g \<in> set (grants db) \<Longrightarrow> g_id g = i \<Longrightarrow> consent_grant_guard g (f g)"
    using assms by (auto simp: update_grant_def split: if_splits)
  show "events db' = events db"
    by (simp add: db')
  show "rows_evolve db db'"
  proof -
    have "prefix_le grant_le (grants db) (update_rows (\<lambda>g. g_id g = i) f (grants db))"
      by (rule prefix_le_update) (simp_all add: guard grant_guard_le)
    then show ?thesis
      unfolding db' rows_evolve_def by (simp add: prefix_le_refl)
  qed
qed (rule update_grant_ok [OF assms])

lemma update_profile_evolves:
  assumes "update_profile i f db = Inr db'" and "\<And>p. rows_ok db \<Longrightarrow> p \<in> set (profiles db) \<Longrightarrow> p_id p = i \<Longrightarrow> profile_le p (f p)"
    and "\<And>p. p_id (f p) = p_id p"
  shows "evolves sha db db'"
proof (rule evolvesI)
  have db': "db' = db\<lparr>profiles := update_rows (\<lambda>p. p_id p = i) f (profiles db)\<rparr>"
    using assms by (auto simp: update_profile_def split: if_splits)
  show "events db' = events db"
    by (simp add: db')
  show "rows_evolve db db'" if "rows_ok db"
    unfolding db' rows_evolve_def using assms(2) [OF that] by (auto simp: prefix_le_refl intro!: prefix_le_update)
qed (rule update_profile_ok [OF assms(1,3)])

lemma update_request_evolves:
  assumes "update_request i f db = Inr db'" and "\<And>r. rows_ok db \<Longrightarrow> r \<in> set (requests db) \<Longrightarrow> rr_id r = i \<Longrightarrow> request_le r (f r)"
    and "\<And>r. rr_id (f r) = rr_id r \<and> rr_grant_id (f r) = rr_grant_id r"
  shows "evolves sha db db'"
proof (rule evolvesI)
  have db': "db' = db\<lparr>requests := update_rows (\<lambda>r. rr_id r = i) f (requests db)\<rparr>"
    using assms by (auto simp: update_request_def split: if_splits)
  show "events db' = events db"
    by (simp add: db')
  show "rows_evolve db db'" if "rows_ok db"
    unfolding db' rows_evolve_def using assms(2) [OF that] by (auto simp: prefix_le_refl intro!: prefix_le_update)
qed (rule update_request_ok [OF assms(1,3)])

lemma revoke_grant_tokens_evolves [ledger_ext]: "evolves sha db (fst (revoke_grant_tokens g now db))"
proof (rule evolvesI)
  show "rows_evolve db (fst (revoke_grant_tokens g now db))"
    unfolding rows_evolve_def revoke_grant_tokens_frame
    by (auto simp: prefix_le_refl authorization_token_guard_def intro!: prefix_le_update)
qed (simp_all add: revoke_grant_tokens_frame revoke_grant_tokens_ok)

section \<open>The kernel\<close>

lemma record_purpose_violation_evolves [ledger_ext]:
  "record_purpose_violation U sha now actor codes i by route db = Inr (db', n) \<Longrightarrow> evolves sha db db'"
  using record_purpose_violation_Inr append_event_evolves by metis

lemma authorize_tx_evolves [ledger_ext]:
  assumes "authorize_tx U sha J I a i actor code env db = Inr (db', r)"
  shows "evolves sha db db'"
proof -
  obtain db1 c g p e n where ev: "append_event sha n (decision_event a (ar_allowed r)) (ac_user_id actor) c g p db1 = Inr (db', e)"
    and db1: "if ar_allowed r then \<exists>row. insert_token row db = Inr db1 \<and> db1 = db\<lparr>tokens := tokens db @ [row]\<rparr> \<and> ar_jti r = Some (at_jti row)
      else db1 = db \<and> ar_token r = None"
    using authorize_tx_event [OF assms] by blast
  have "evolves sha db db1"
    using db1 insert_evolves(6) by (auto split: if_splits)
  then show ?thesis
    using append_event_evolves [OF ev] by (rule evolves_trans)
qed

lemma authorize_evolves [ledger_ext]:
  assumes "authorize U sha J I a i actor code env db = (db', x)"
  shows "evolves sha db db'"
proof (cases x)
  case (Inl e)
  then show ?thesis
    using assms authorize_Inl [of U sha J I a i actor code env db db' e] record_purpose_violation_evolves by fastforce
next
  case (Inr r)
  then show ?thesis
    using assms authorize_Inr [of U sha J I a i actor code env db db' r] authorize_tx_evolves by blast
qed

end
