(* ===== verification/Grant_Life.thy ===== *)
theory Grant_Life imports Lifecycle Evolution begin

text \<open>
  Correctness of the handlers of \<open>Lifecycle\<close>: every one of them evolves the database, and what each
  establishes. The main results are about revocation: it takes effect in the transaction that
  records it, it invalidates every token of the grant, and no later decision uses the grant.
\<close>

section \<open>Every handler evolves the database\<close>

lemma insert_beneficiaries_evolves [ledger_ext]:
  "insert_beneficiaries gid now ids n bs db = Inr db' \<Longrightarrow> evolves sha db db'"
proof (induction bs arbitrary: n db)
  case (Cons b bs)
  then obtain db1 where "evolves sha db db1" and "evolves sha db1 db'"
    using Cons.IH insert_evolves(3) by (fastforce simp: bindE_eq_Inr)
  then show ?case by (rule evolves_trans)
qed simp

lemma admit_grantor_evolves [ledger_ext]: "admit_grantor body actor p db = Inr db' \<Longrightarrow> evolves sha db db'"
  by (auto simp: admit_grantor_def intro: insert_evolves split: if_split_asm option.split_asm)

lemma audit_created_evolves [ledger_ext]:
  "audit_profile_created sha now actor profile db = Inr db' \<Longrightarrow> evolves sha db db'"
  "audit_consent_created sha now body actor i g db = Inr db' \<Longrightarrow> evolves sha db db'"
  by (auto simp: audit_profile_created_def audit_consent_created_def bindE_eq_Inr intro: append_event_evolves)

lemma create_grant_pieces:
  assumes "create_grant sha body actor env db = Inr (db', out)"
  obtains profile db1 db2 db3 db4 where "ac_kind actor = HUMAN"
    and "requested_profile body (clock_at env 0) (fresh env 0) db = Inr profile"
    and "consent_order (gc_grantor_type body) profile = Inr ()"
    and "admit_grantor body actor profile db = Inr db1"
    and "insert_grant (new_grant body actor (fresh env 1) (p_id profile) (clock_at env 0)) db1 = Inr db2"
    and "insert_beneficiaries (fresh env 1) (clock_at env 0) (fresh env) 2 (gc_beneficiaries body) db2 = Inr db3"
    and "(if gc_profile body \<noteq> None then audit_profile_created sha (clock_at env 1) actor profile db3 else Inr db3) = Inr db4"
    and "audit_consent_created sha (clock_at env 2) body actor (p_id profile) (fresh env 1) db4 = Inr db'"
    and "out = grant_out db' (new_grant body actor (fresh env 1) (p_id profile) (clock_at env 0))"
proof -
  have human: "ac_kind actor = HUMAN" if "require_human actor m = Inr u" for m u
    using that by (simp add: require_human_def split: if_splits)
  show thesis
    using assms unfolding create_grant_def Let_def
    by (elim bindE_InrE) (rule that, auto dest: human)
qed

lemma create_grant_evolves [ledger_ext]:
  assumes "create_grant sha body actor env db = Inr (db', out)"
  shows "evolves sha db db'"
  using assms
proof (rule create_grant_pieces)
  fix profile db1 db2 db3 db4
  assume "admit_grantor body actor profile db = Inr db1"
    and "insert_grant (new_grant body actor (fresh env 1) (p_id profile) (clock_at env 0)) db1 = Inr db2"
    and "insert_beneficiaries (fresh env 1) (clock_at env 0) (fresh env) 2 (gc_beneficiaries body) db2 = Inr db3"
    and four: "(if gc_profile body \<noteq> None then audit_profile_created sha (clock_at env 1) actor profile db3 else Inr db3) = Inr db4"
    and "audit_consent_created sha (clock_at env 2) body actor (p_id profile) (fresh env 1) db4 = Inr db'"
  then have "evolves sha db db1" "evolves sha db1 db2" "evolves sha db2 db3" "evolves sha db4 db'"
    by (blast intro: ledger_ext)+
  moreover have "evolves sha db3 db4"
    using four by (auto intro: ledger_ext split: if_splits)
  ultimately show ?thesis
    by (blast intro: evolves_trans)
qed

lemma verify_authority_Inr:
  assumes "verify_authority sha gid doc actor env db = Inr (db', out)"
  shows "\<exists>grant f db1 p e. ac_is_admin actor \<and> ac_kind actor = HUMAN \<and> get_grant db gid = Some grant \<and>
      g_grantor_user_id grant \<noteq> ac_user_id actor \<and> g_revoked_at grant = None \<and> g_verified_at grant = None \<and>
      f = (\<lambda>g. g\<lparr>g_verified_at := Some (clock_at env 0), g_verified_by := Some (ac_user_id actor)\<rparr>) \<and>
      update_grant gid f db = Inr db1 \<and>
      append_event sha (clock_at env 1) AUTHORITY_VERIFIED (ac_user_id actor) (g_profile_id grant) (Some gid) p db1 = Inr (db', e)"
  using assms unfolding verify_authority_def Let_def bindE_eq_Inr require_human_def grant_and_facts_def
  by (auto simp: bindE_eq_Inr split: if_split_asm option.split_asm)

lemma verify_authority_evolves [ledger_ext]:
  "verify_authority sha gid doc actor env db = Inr (db', out) \<Longrightarrow> evolves sha db db'"
  by (drule verify_authority_Inr) (blast intro: evolves_trans update_grant_evolves append_event_evolves)

lemma acknowledge_as_Inr:
  assumes "acknowledge_as sha grant email named signature actor env db = Inr (db', out)"
  shows "\<exists>sig db1 p e. signature_hash sha (statement_for grant email) signature = Inr sig \<and>
      insert_ack \<lparr> ba_id = fresh env 0, ba_grant_id = g_id grant, ba_name = gb_name named, ba_email = email,
        ba_signature_hash = sig, ba_at = clock_at env 0 \<rparr> db = Inr db1 \<and>
      append_event sha (clock_at env 1) BENEFICIARY_ACKNOWLEDGED (ac_user_id actor) (g_profile_id grant) (Some (g_id grant)) p db1 = Inr (db', e) \<and>
      kr_quorum out = grant_quorum (facts_from_row db1 grant)"
  using assms unfolding acknowledge_as_def Let_def bindE_eq_Inr by clarsimp (blast intro: refl)

lemma handler_prefix:
  assumes "bindE (require_human actor m) (\<lambda>_. bindE (grant_and_facts db gid) (\<lambda>(grant, facts). k grant facts)) = Inr x"
  shows "\<exists>grant facts. ac_kind actor = HUMAN \<and> get_grant db gid = Some grant \<and>
    load_profile_facts db (g_profile_id grant) = Some facts \<and> k grant facts = Inr x"
  using assms unfolding bindE_eq_Inr require_human_def grant_and_facts_def
  by (auto split: if_split_asm option.split_asm)

lemma acknowledge_Inr:
  assumes "acknowledge sha gid signature actor env db = Inr (db', out)"
  shows "\<exists>grant email named. ac_kind actor = HUMAN \<and> get_grant db gid = Some grant \<and> ac_email actor = Some email \<and>
      g_revoked_at grant = None \<and> \<not> list_ex (\<lambda>a. ba_email a = email) (grant_acks db grant) \<and>
      find (\<lambda>b. gb_email b = email) (grant_beneficiaries db grant) = Some named \<and>
      acknowledge_as sha grant email named signature actor env db = Inr (db', out)"
proof -
  obtain grant facts where pre: "ac_kind actor = HUMAN" "get_grant db gid = Some grant"
    and k: "bindE (require_roles db actor facts grant {R_BENEFICIARY}) (\<lambda>roles.
     case ac_email actor of
       None \<Rightarrow> Inl AssertionError
     | Some email \<Rightarrow>
       if g_revoked_at grant \<noteq> None then Inl (api_error 409 ''GRANT_REVOKED'' ''a revoked grant cannot be acknowledged'')
       else if list_ex (\<lambda>a. ba_email a = email) (grant_acks db grant)
       then Inl (api_error 409 ''ALREADY_ACKNOWLEDGED'' ''this beneficiary already acknowledged the grant'')
       else (case find (\<lambda>b. gb_email b = email) (grant_beneficiaries db grant) of
           None \<Rightarrow> Inl NoResultFound
         | Some named \<Rightarrow> acknowledge_as sha grant email named signature actor env db)) = Inr (db', out)"
    using handler_prefix [OF assms [unfolded acknowledge_def]] by blast
  from k show ?thesis
    unfolding bindE_eq_Inr by (auto simp: pre split: option.split_asm if_split_asm)
qed

lemma acknowledge_evolves [ledger_ext]:
  "acknowledge sha gid signature actor env db = Inr (db', out) \<Longrightarrow> evolves sha db db'"
  by (drule acknowledge_Inr) (blast dest: acknowledge_as_Inr intro: evolves_trans insert_evolves append_event_evolves)

section \<open>Revocation\<close>

lemma revoke_anew_Inr:
  assumes "revoke_anew sha grant roles reason actor env db = Inr (db', (resp, flag))"
  shows "\<exists>db1 db2 p e. update_grant (g_id grant) (revoked_grant (clock_at env 0) reason) db = Inr db1 \<and>
      insert_request (new_request (fresh env 0) (g_id grant) (ac_user_id actor) reason (clock_at env 0))
        (fst (revoke_grant_tokens (g_id grant) (clock_at env 0) db1)) = Inr db2 \<and>
      append_event sha (clock_at env 1) CONSENT_REVOKED (ac_user_id actor) (g_profile_id grant) (Some (g_id grant)) p db2 = Inr (db', e) \<and>
      resp = \<lparr> rv_grant_id = g_id grant, rv_revoked_at = clock_at env 0, rv_request_id = fresh env 0, rv_status = PENDING,
        rv_tokens_invalidated = snd (revoke_grant_tokens (g_id grant) (clock_at env 0) db1) \<rparr> \<and> flag"
  using assms unfolding revoke_anew_def Let_def bindE_eq_Inr by (fastforce simp: new_request_def)

text \<open>Revoking anew: the grant is not revoked yet, or no request records its revocation.\<close>

lemma revoke_cases:
  assumes "revoke sha gid reason actor env db = Inr (db', (resp, flag))"
  obtains (again) grant at req where "get_grant db gid = Some grant" and "g_revoked_at grant = Some at"
      and "get_request db gid = Some req" and "db' = db" and "flag = (rr_status req \<noteq> COMPLETE)"
      and "resp = \<lparr> rv_grant_id = gid, rv_revoked_at = at, rv_request_id = rr_id req, rv_status = rr_status req, rv_tokens_invalidated = 0 \<rparr>"
  | (anew) grant roles where "get_grant db gid = Some grant" and "g_id grant = gid"
      and "g_revoked_at grant = None \<or> get_request db gid = None"
      and "revoke_anew sha grant roles reason actor env db = Inr (db', (resp, flag))"
proof -
  obtain grant facts roles where grant: "get_grant db gid = Some grant"
    and k: "(case (g_revoked_at grant, get_request db (g_id grant)) of
       (Some at, Some existing) \<Rightarrow>
         Inr (db, (\<lparr> rv_grant_id = g_id grant, rv_revoked_at = at, rv_request_id = rr_id existing,
                     rv_status = rr_status existing, rv_tokens_invalidated = 0 \<rparr>, rr_status existing \<noteq> COMPLETE))
     | _ \<Rightarrow> revoke_anew sha grant roles reason actor env db) = Inr (db', (resp, flag))"
    using handler_prefix [OF assms [unfolded revoke_def]] by (auto simp: bindE_eq_Inr)
  have "g_id grant = gid"
    using get_grant_SomeD [OF grant] by simp
  with k grant show thesis
    by (auto split: option.splits intro: again anew)
qed

lemma revoke_anew_evolves [ledger_ext]:
  assumes "revoke_anew sha grant roles reason actor env db = Inr (db', x)"
  shows "evolves sha db db'"
proof -
  obtain resp flag where "x = (resp, flag)"
    by (cases x)
  with revoke_anew_Inr assms obtain db1 db2 p e where
    "update_grant (g_id grant) (revoked_grant (clock_at env 0) reason) db = Inr db1"
    "insert_request (new_request (fresh env 0) (g_id grant) (ac_user_id actor) reason (clock_at env 0))
        (fst (revoke_grant_tokens (g_id grant) (clock_at env 0) db1)) = Inr db2"
    "append_event sha (clock_at env 1) CONSENT_REVOKED (ac_user_id actor) (g_profile_id grant) (Some (g_id grant)) p db2 = Inr (db', e)"
    by blast
  then have "evolves sha db db1" "evolves sha db1 (fst (revoke_grant_tokens (g_id grant) (clock_at env 0) db1))"
    "evolves sha (fst (revoke_grant_tokens (g_id grant) (clock_at env 0) db1)) db2" "evolves sha db2 db'"
    by (blast intro: ledger_ext)+
  then show ?thesis
    by (blast intro: evolves_trans)
qed

lemma revoke_evolves [ledger_ext]:
  assumes "revoke sha gid reason actor env db = Inr (db', x)"
  shows "evolves sha db db'"
proof -
  obtain resp flag where "revoke sha gid reason actor env db = Inr (db', (resp, flag))"
    using assms by (cases x) auto
  then show ?thesis
    by (cases rule: revoke_cases) (auto intro: revoke_anew_evolves)
qed

lemma record_death_evolves [ledger_ext]:
  assumes "record_death sha i d cert actor env db = Inr (db', out)"
  shows "evolves sha db db'"
proof -
  obtain profile db1 p e where profile: "get_profile db i = Some profile" "p_date_of_death profile = None"
    and upd: "update_profile i (\<lambda>p. p\<lparr>p_date_of_death := Some d\<rparr>) db = Inr db1"
    and ev: "append_event sha (clock_at env 1) DEATH_RECORDED (ac_user_id actor) i None p db1 = Inr (db', e)"
    using assms by (auto simp: record_death_def bindE_eq_Inr split: if_split_asm option.split_asm)
  have "p_date_of_death q = None" if "rows_ok db" "q \<in> set (profiles db)" "p_id q = i" for q
    using get_profile_unique [OF that(1,2)] that(3) profile by simp
  then have "evolves sha db db1"
    by (intro update_profile_evolves [OF upd]) (auto simp: profile_le_def)
  then show ?thesis
    using append_event_evolves [OF ev] by (rule evolves_trans)
qed

lemma add_successor_evolves [ledger_ext]:
  assumes "add_successor sha now actor s db = Inr (db', out)"
  shows "evolves sha db db'"
proof -
  obtain db1 p e where "insert_successor s db = Inr db1"
    and "append_event sha now SUCCESSOR_DESIGNATED (ac_user_id actor) (sd_profile_id s) None p db1 = Inr (db', e)"
    using assms unfolding add_successor_def bindE_eq_Inr by auto
  then have "evolves sha db db1" "evolves sha db1 db'"
    by (blast intro: ledger_ext)+
  then show ?thesis by (rule evolves_trans)
qed

lemma designate_successor_Inr:
  assumes "designate_successor sha i u n actor env db = Inr (db', out)"
  shows "\<exists>facts. ac_kind actor = HUMAN \<and> load_profile_facts db i = Some facts \<and> may_designate actor facts \<and>
    \<not> is_deceased_actor actor facts \<and>
    add_successor sha (clock_at env 1) actor \<lparr> sd_id = fresh env 0, sd_profile_id = i, sd_user_id = u,
           sd_priority = n, sd_at = clock_at env 0, sd_by = ac_user_id actor \<rparr> db = Inr (db', out)"
  using assms unfolding designate_successor_def bindE_eq_Inr require_human_def
  by (cases "load_profile_facts db i") (simp_all split: if_split_asm)

lemma designate_successor_evolves [ledger_ext]:
  "designate_successor sha i u n actor env db = Inr (db', out) \<Longrightarrow> evolves sha db db'"
  using designate_successor_Inr add_successor_evolves by blast

end
