(* ===== verification/Storage.thy ===== *)
theory Storage imports Schema begin

text \<open>
  Object storage, \<open>app/storage.py\<close>: object keys, the filesystem backend, the signed download URL.
  The contract every backend honours is the locale \<open>object_storage\<close>; the filesystem backend
  interprets it. \<open>S3Storage\<close> is calls to boto3 and is not modelled.

  The storage root holds no symbolic links, so \<open>Path.resolve\<close> only drops empty and \<open>.\<close> segments.
\<close>

type_synonym bytes = "nat list"

section \<open>Keys\<close>

definition is_alnum :: "nat \<Rightarrow> bool" where
  "is_alnum c \<longleftrightarrow> (65 \<le> c \<and> c \<le> 90) \<or> (97 \<le> c \<and> c \<le> 122) \<or> (48 \<le> c \<and> c \<le> 57)"

definition is_key_char :: "nat \<Rightarrow> bool" where
  "is_key_char c \<longleftrightarrow> is_alnum c \<or> c \<in> {47, 95, 46, 61, 45}"

text \<open>\<open>re.match\<close> with \<open>$\<close>: the dollar also matches before one final newline.\<close>

definition key_pattern :: "pstr \<Rightarrow> bool" where
  "key_pattern key \<longleftrightarrow>
     (let body = (if key \<noteq> [] \<and> last key = 10 then butlast key else key) in
      body \<noteq> [] \<and> is_alnum (hd body) \<and> list_all is_key_char (tl body) \<and> length (tl body) \<le> 1023)"

definition valid_key :: "pstr \<Rightarrow> bool" where
  "valid_key key \<longleftrightarrow> key_pattern key \<and> [46, 46] \<notin> set (split_on 47 key) \<and> \<not> sublist [47, 47] key"

definition validate_key :: "pstr \<Rightarrow> error + pstr" where
  "validate_key key = (if valid_key key then Inr key else Inl (StorageError (lit ''invalid object key'')))"

section \<open>The filesystem backend\<close>

text \<open>A path is the list of its segments below the root. \<open>put\<close> makes the parent directories and
  replaces the file in one step; \<open>unlink\<close> of a directory fails.\<close>

record file_store =
  fs_files :: "(pstr list \<times> bytes) list"
  fs_dirs :: "pstr list set"

definition path_of :: "pstr \<Rightarrow> pstr list" where
  "path_of key = filter (\<lambda>s. s \<noteq> [] \<and> s \<noteq> [46]) (split_on 47 key)"

definition resolve_key :: "pstr \<Rightarrow> error + pstr list" where
  "resolve_key key = bindE (validate_key key) (\<lambda>k.
     if path_of k = [] then Inl (StorageError (lit ''key escapes the storage root'')) else Inr (path_of k))"

definition parents :: "pstr list \<Rightarrow> pstr list set" where
  "parents p = set (map (\<lambda>n. take n p) [1..<length p])"

definition fs_put :: "file_store \<Rightarrow> pstr \<Rightarrow> bytes \<Rightarrow> error + file_store" where
  "fs_put s key data = bindE (resolve_key key) (\<lambda>p.
     if p \<in> fs_dirs s \<or> (\<exists>q \<in> parents p. map_of (fs_files s) q \<noteq> None)
     then Inl (OsError (lit ''not a file''))
     else Inr \<lparr> fs_files = AList.update p data (fs_files s), fs_dirs = fs_dirs s \<union> parents p \<rparr>)"

definition fs_get :: "file_store \<Rightarrow> pstr \<Rightarrow> error + bytes" where
  "fs_get s key = bindE (resolve_key key) (\<lambda>p. case map_of (fs_files s) p of
     Some d \<Rightarrow> Inr d
   | None \<Rightarrow> if p \<in> fs_dirs s then Inl (OsError (lit ''is a directory'')) else Inl (StorageError (lit ''object not found'')))"

definition fs_delete :: "file_store \<Rightarrow> pstr \<Rightarrow> error + file_store" where
  "fs_delete s key = bindE (resolve_key key) (\<lambda>p.
     if p \<in> fs_dirs s then Inl (OsError (lit ''is a directory''))
     else Inr (s\<lparr>fs_files := AList.delete p (fs_files s)\<rparr>))"

definition fs_exists :: "file_store \<Rightarrow> pstr \<Rightarrow> bool" where
  "fs_exists s key = (case resolve_key key of Inl _ \<Rightarrow> False | Inr p \<Rightarrow> map_of (fs_files s) p \<noteq> None)"

section \<open>The contract\<close>

locale object_storage =
  fixes put :: "'s \<Rightarrow> pstr \<Rightarrow> bytes \<Rightarrow> error + 's"
    and get :: "'s \<Rightarrow> pstr \<Rightarrow> error + bytes"
    and delete :: "'s \<Rightarrow> pstr \<Rightarrow> error + 's"
    and stored :: "'s \<Rightarrow> pstr \<Rightarrow> bool"
    and same :: "pstr \<Rightarrow> pstr \<Rightarrow> bool"
  assumes put_get: "put s k d = Inr s' \<Longrightarrow> get s' k = Inr d"
    and put_other: "put s k d = Inr s' \<Longrightarrow> \<not> same k j \<Longrightarrow> get s' j = Inr e \<longleftrightarrow> get s j = Inr e"
    and delete_gone: "delete s k = Inr s' \<Longrightarrow> \<not> stored s' k"
    and delete_other: "delete s k = Inr s' \<Longrightarrow> \<not> same k j \<Longrightarrow> get s' j = get s j"
    and delete_again: "delete s k = Inr s' \<Longrightarrow> delete s' k = Inr s'"
    and get_stored: "get s k = Inr d \<Longrightarrow> stored s k"
    and stored_get: "stored s k \<Longrightarrow> \<exists>d. get s k = Inr d"
begin

lemma deleted_unreadable: "delete s k = Inr s' \<Longrightarrow> get s' k \<noteq> Inr d"
  using delete_gone get_stored by blast

text \<open>Deleting is idempotent, so a cascade that died after the delete can be run again.\<close>

lemma delete_put_delete: "put s k d = Inr s' \<Longrightarrow> delete s' k = Inr s'' \<Longrightarrow> delete s'' k = Inr s'' \<and> \<not> stored s'' k"
  using delete_again delete_gone by blast

lemma delete_keeps_others: "delete s k = Inr s' \<Longrightarrow> stored s j \<Longrightarrow> \<not> same k j \<Longrightarrow> stored s' j"
  using delete_other get_stored stored_get by metis

end

interpretation local: object_storage fs_put fs_get fs_delete fs_exists "\<lambda>k j. path_of k = path_of j"
proof unfold_locales
  show "fs_get s' k = Inr d" if "fs_put s k d = Inr s'" for s k d s'
    using that by (auto simp: fs_put_def fs_get_def bindE_eq_Inr AList.update_conv' split: if_splits)
  show "fs_get s' j = Inr e \<longleftrightarrow> fs_get s j = Inr e" if put: "fs_put s k d = Inr s'" and other: "path_of k \<noteq> path_of j" for s k d s' j e
  proof -
    obtain p where p: "resolve_key k = Inr p" and s': "fs_files s' = AList.update p d (fs_files s)"
      using put unfolding fs_put_def by (elim bindE_InrE) (auto split: if_split_asm)
    have "p = path_of k"
      using p by (auto simp: resolve_key_def validate_key_def split: if_splits)
    with other have "map_of (fs_files s') q = map_of (fs_files s) q" if "resolve_key j = Inr q" for q
      using that by (auto simp: s' AList.update_conv' resolve_key_def validate_key_def split: if_splits)
    then show ?thesis
      by (cases "resolve_key j") (auto simp: fs_get_def split: option.splits)
  qed
  show "\<not> fs_exists s' k" if "fs_delete s k = Inr s'" for s k s'
    using that by (auto simp: fs_delete_def fs_exists_def bindE_eq_Inr AList.delete_conv' split: if_splits)
  show "fs_get s' j = fs_get s j" if del: "fs_delete s k = Inr s'" and other: "path_of k \<noteq> path_of j" for s k s' j
  proof -
    obtain p where p: "resolve_key k = Inr p" and s': "fs_files s' = AList.delete p (fs_files s)" "fs_dirs s' = fs_dirs s"
      using del by (auto simp: fs_delete_def bindE_eq_Inr split: if_splits)
    have "p = path_of k"
      using p by (auto simp: resolve_key_def validate_key_def split: if_splits)
    with other have "map_of (fs_files s') q = map_of (fs_files s) q" if "resolve_key j = Inr q" for q
      using that by (auto simp: s'(1) AList.delete_conv' resolve_key_def validate_key_def split: if_splits)
    then show ?thesis
      by (cases "resolve_key j") (simp_all add: fs_get_def s'(2))
  qed
  show "fs_delete s' k = Inr s'" if del: "fs_delete s k = Inr s'" for s k s'
  proof -
    obtain p where p: "resolve_key k = Inr p" and s': "s' = s\<lparr>fs_files := AList.delete p (fs_files s)\<rparr>" and d: "p \<notin> fs_dirs s"
      using del by (auto simp: fs_delete_def bindE_eq_Inr split: if_splits)
    then show ?thesis
      by (simp add: fs_delete_def AList.delete_idem)
  qed
  show "fs_exists s k" if "fs_get s k = Inr d" for s k d
    using that by (auto simp: fs_get_def fs_exists_def bindE_eq_Inr split: option.splits if_splits)
  show "\<exists>d. fs_get s k = Inr d" if "fs_exists s k" for s k
    using that by (auto simp: fs_get_def fs_exists_def split: sum.splits option.splits)
qed

section \<open>Signed URLs\<close>

text \<open>\<open>hmac\<close> stands for the hexadecimal HMAC-SHA256 of a text under the signer's secret.\<close>

definition signed_text :: "pstr \<Rightarrow> int \<Rightarrow> pstr" where
  "signed_text key expires = key @ [10] @ int_str expires"

definition url_signature :: "(pstr \<Rightarrow> pstr) \<Rightarrow> pstr \<Rightarrow> int \<Rightarrow> pstr" where
  "url_signature hmac key expires = hmac (signed_text key expires)"

definition url_verify :: "(pstr \<Rightarrow> pstr) \<Rightarrow> pstr \<Rightarrow> int \<Rightarrow> pstr \<Rightarrow> timestamp \<Rightarrow> bool" where
  "url_verify hmac key expires sig now \<longleftrightarrow>
     (if expires * second < now then False else url_signature hmac key expires = sig)"

text \<open>\<open>LocalFileStorage.signed_url\<close>: \<open>urlencode\<close> with \<open>quote\<close>, for a moment not before 1970.\<close>

definition quote_byte :: "nat \<Rightarrow> pstr" where
  "quote_byte b = (if is_alnum b \<or> b \<in> {95, 46, 45, 126} then [b]
     else 37 # map (\<lambda>d. if d < 10 then 48 + d else 55 + d) [b div 16, b mod 16])"

definition quote :: "pstr \<Rightarrow> pstr" where
  "quote s = concat (map quote_byte (utf8 s))"

definition signed_url :: "(pstr \<Rightarrow> pstr) \<Rightarrow> pstr \<Rightarrow> pstr \<Rightarrow> int \<Rightarrow> timestamp \<Rightarrow> error + pstr" where
  "signed_url hmac public_base_url key ttl_seconds now =
     (let expires = (now + ttl_seconds * second) div second in
      bindE (validate_key key) (\<lambda>k.
        Inr (public_base_url @ lit ''/export/download?key='' @ quote k @ lit ''&expires='' @ int_str expires @
          lit ''&sig='' @ quote (url_signature hmac key expires))))"

text \<open>The text signed determines the key and the expiry: a decimal numeral has no newline.\<close>

lemma int_str_no_newline: "10 \<notin> set (int_str i)"
proof
  assume "10 \<in> set (int_str i)"
  then have "\<exists>n. 10 \<in> set (dec n)"
    by (auto simp: int_str_def split: if_splits)
  then show False
    using dec_digits by fastforce
qed

lemma signed_text_inject:
  assumes "signed_text k e = signed_text k' e'"
  shows "k = k' \<and> e = e'"
proof -
  have tail: "takeWhile (\<lambda>c. c \<noteq> 10) (rev (signed_text k e)) = rev (int_str e)" for k e
  proof -
    have "\<And>c. c \<in> set (rev (int_str e)) \<Longrightarrow> c \<noteq> 10"
      using int_str_no_newline [of e] by auto
    then have "takeWhile (\<lambda>c. c \<noteq> 10) (rev (int_str e) @ 10 # rev k) = rev (int_str e) @ takeWhile (\<lambda>c. c \<noteq> 10) (10 # rev k)"
      by (rule takeWhile_append2)
    then show ?thesis
      by (simp add: signed_text_def)
  qed
  have "rev (int_str e) = rev (int_str e')"
    using tail [of k e] tail [of k' e'] assms by simp
  then have "int_str e = int_str e'" by simp
  then have "e = e'" by (rule int_str_inject)
  with assms show ?thesis
    by (simp add: signed_text_def)
qed

lemma forged_link_needs_collision:
  assumes "url_verify hmac k e sig now" and "sig = url_signature hmac k' e'"
    and "inj_on hmac {signed_text k e, signed_text k' e'}"
  shows "k = k' \<and> e = e'"
proof (rule signed_text_inject)
  have "hmac (signed_text k e) = hmac (signed_text k' e')"
    using assms(1,2) by (simp add: url_verify_def url_signature_def split: if_splits)
  then show "signed_text k e = signed_text k' e'"
    by (rule inj_onD [OF assms(3)]) simp_all
qed

text \<open>A valid key never leaves the root.\<close>

lemma valid_key_resolves:
  assumes "valid_key key"
  shows "resolve_key key = Inr (path_of key)" and "[46, 46] \<notin> set (path_of key)"
proof -
  obtain c cs where key: "key = c # cs" and c: "c \<noteq> 47" "c \<noteq> 46" "c \<noteq> 10"
  proof -
    have pat: "key_pattern key"
      using assms by (simp add: valid_key_def)
    then obtain c cs where key: "key = c # cs"
      by (cases key) (auto simp: key_pattern_def)
    have "is_alnum c"
      using pat by (auto simp: key key_pattern_def Let_def split: if_splits)
    then have "c \<noteq> 47" "c \<noteq> 46" "c \<noteq> 10"
      by (auto simp: is_alnum_def)
    with key that show thesis by blast
  qed
  obtain t ts where "split_on 47 key = (c # t) # ts"
    using key c by (cases "split_on 47 cs") (auto simp: key)
  then have "path_of key \<noteq> []"
    using c by (simp add: path_of_def)
  then show "resolve_key key = Inr (path_of key)"
    using assms by (simp add: resolve_key_def validate_key_def)
  show "[46, 46] \<notin> set (path_of key)"
    using assms by (simp add: path_of_def valid_key_def)
qed

end
