(* ===== verification/Cascade.thy ===== *)
theory Cascade imports Evolution Storage begin

text \<open>
  The revocation cascade, \<open>app/consent/cascade.py\<close>. One run is a sequence of transactions over
  the database and the object store; the store is not rolled back with a transaction. A \<open>world\<close>
  is the database, the store and the number of clock readings made; \<open>clk n\<close> is the n-th reading.
  \<open>erase\<close> is \<open>storage.delete\<close>. A transaction that raises may leave out readings.
\<close>

record 's world =
  w_db :: consent_db
  w_store :: 's
  w_ticks :: nat

fun and_then :: "'w \<times> ('e + 'a) \<Rightarrow> ('w \<Rightarrow> 'a \<Rightarrow> 'w \<times> ('e + 'b)) \<Rightarrow> 'w \<times> ('e + 'b)" where
  "and_then (w, Inl e) k = (w, Inl e)"
| "and_then (w, Inr x) k = k w x"

lemma and_then_InrE:
  assumes "and_then r k = (w', Inr y)"
  obtains w x where "r = (w, Inr x)" and "k w x = (w', Inr y)"
proof (cases r)
  case (Pair w s)
  with assms that show thesis
    by (cases s) auto
qed

definition commit :: "'s world \<Rightarrow> error + (consent_db \<times> 'a) \<Rightarrow> 's world \<times> (error + 'a)" where
  "commit w r = (case r of Inl e \<Rightarrow> (w, Inl e) | Inr (db, x) \<Rightarrow> (w\<lparr>w_db := db\<rparr>, Inr x))"

definition ticked :: "nat \<Rightarrow> 's world \<Rightarrow> 's world" where
  "ticked n w = w\<lparr>w_ticks := w_ticks w + n\<rparr>"

lemma ticked_simps [simp]: "w_db (ticked n w) = w_db w" "w_store (ticked n w) = w_store w"
  by (simp_all add: ticked_def)

definition cascade_actor :: pstr where
  "cascade_actor = lit ''system:revocation-cascade''"

record cascade_report =
  rp_grant_id :: uuid
  rp_already_complete :: bool
  rp_tokens :: nat
  rp_deliveries :: nat
  rp_audio :: nat
  rp_voice :: nat

section \<open>Scopes\<close>

definition grant_models :: "consent_db \<Rightarrow> uuid \<Rightarrow> uuid list" where
  "grant_models db gid = map vm_id (filter (\<lambda>m. vm_grant_id m = gid) (voice_models db))"

definition audio_scope :: "consent_db \<Rightarrow> uuid \<Rightarrow> audio_artifact \<Rightarrow> bool" where
  "audio_scope db gid a \<longleftrightarrow> aa_grant_id a = gid \<or>
     (case aa_voice_model_id a of None \<Rightarrow> False | Some m \<Rightarrow> m \<in> set (grant_models db gid))"

definition delivery_scope :: "consent_db \<Rightarrow> uuid \<Rightarrow> scheduled_delivery \<Rightarrow> bool" where
  "delivery_scope db gid d \<longleftrightarrow> de_grant_id d = gid \<or>
     (case de_audio_id d of None \<Rightarrow> False
      | Some i \<Rightarrow> i \<in> aa_id ` set (filter (audio_scope db gid) (audio_artifacts db)))"

definition live_tokens :: "consent_db \<Rightarrow> uuid \<Rightarrow> auth_token list" where
  "live_tokens db gid = filter (\<lambda>t. at_grant_id t = Some gid \<and> at_revoked_at t = None) (tokens db)"

definition pending_deliveries :: "consent_db \<Rightarrow> uuid \<Rightarrow> uuid list" where
  "pending_deliveries db gid =
     sort (map de_id (filter (\<lambda>d. delivery_scope db gid d \<and> de_status d = SCHEDULED) (deliveries db)))"

datatype artifact_kind = AUDIO_ARTIFACT | VOICE_MODEL

primrec kind_value :: "artifact_kind \<Rightarrow> pstr" where
  "kind_value AUDIO_ARTIFACT = lit ''AUDIO_ARTIFACT''"
| "kind_value VOICE_MODEL = lit ''VOICE_MODEL''"

primrec live_artifacts :: "artifact_kind \<Rightarrow> consent_db \<Rightarrow> uuid \<Rightarrow> uuid list" where
  "live_artifacts AUDIO_ARTIFACT db gid =
     sort (map aa_id (filter (\<lambda>a. audio_scope db gid a \<and> aa_deleted_at a = None) (audio_artifacts db)))"
| "live_artifacts VOICE_MODEL db gid =
     sort (map vm_id (filter (\<lambda>m. vm_grant_id m = gid \<and> vm_deleted_at m = None) (voice_models db)))"

definition remaining :: "consent_db \<Rightarrow> uuid \<Rightarrow> (pstr \<times> nat) list" where
  "remaining db gid = [
     (lit ''tokens'', length (live_tokens db gid)),
     (lit ''deliveries'', length (pending_deliveries db gid)),
     (lit ''audio_artifacts'', length (live_artifacts AUDIO_ARTIFACT db gid)),
     (lit ''voice_models'', length (live_artifacts VOICE_MODEL db gid))]"

section \<open>Claiming the request\<close>

record claimed =
  cl_profile_id :: uuid
  cl_request_id :: uuid
  cl_proceed :: bool

text \<open>The request an operator's out-of-band revocation left out is written by the cascade.\<close>

definition late_request :: "uuid \<Rightarrow> consent_grant \<Rightarrow> timestamp \<Rightarrow> revocation_request" where
  "late_request rid grant now = \<lparr> rr_id = rid, rr_grant_id = g_id grant, rr_requested_by = cascade_actor,
     rr_reason = (case g_revocation_reason grant of
        Some r \<Rightarrow> if r = [] then lit ''revoked'' else r | None \<Rightarrow> lit ''revoked''),
     rr_status = PENDING, rr_created_at = now, rr_updated_at = now, rr_attempts = 0,
     rr_last_error = None, rr_completed_at = None \<rparr>"

definition request_for ::
    "uuid \<Rightarrow> consent_grant \<Rightarrow> timestamp \<Rightarrow> consent_db \<Rightarrow> error + (consent_db \<times> revocation_request)" where
  "request_for rid grant now db = (case get_request db (g_id grant) of
     Some request \<Rightarrow> Inr (db, request)
   | None \<Rightarrow> bindE (insert_request (late_request rid grant now) db) (\<lambda>db'. Inr (db', late_request rid grant now)))"

definition processing :: "timestamp \<Rightarrow> revocation_request \<Rightarrow> revocation_request" where
  "processing now r = r\<lparr>rr_status := PROCESSING, rr_attempts := rr_attempts r + 1, rr_updated_at := now, rr_last_error := None\<rparr>"

definition claim :: "uuid \<Rightarrow> uuid \<Rightarrow> timestamp \<Rightarrow> consent_db \<Rightarrow> error + (consent_db \<times> claimed)" where
  "claim gid rid now db = (case get_grant db gid of
     None \<Rightarrow> Inl (PermanentCascadeError (lit ''unknown consent grant '' @ uuid_str gid))
   | Some grant \<Rightarrow>
       if g_revoked_at grant = None
       then Inl (PermanentCascadeError (lit ''consent grant '' @ uuid_str gid @ lit '' is not revoked''))
       else bindE (request_for rid grant now db) (\<lambda>(db1, request).
         if rr_status request = COMPLETE
         then Inr (db1, \<lparr> cl_profile_id = g_profile_id grant, cl_request_id = rr_id request, cl_proceed = False \<rparr>)
         else bindE (update_request (rr_id request) (processing now) db1) (\<lambda>db2.
           Inr (db2, \<lparr> cl_profile_id = g_profile_id grant, cl_request_id = rr_id request, cl_proceed = True \<rparr>))))"

section \<open>The steps\<close>

definition cascade_audit ::
    "(pstr \<Rightarrow> pstr) \<Rightarrow> timestamp \<Rightarrow> uuid \<Rightarrow> uuid \<Rightarrow> audit_event_type \<Rightarrow> pyval \<Rightarrow> consent_db \<Rightarrow> error + consent_db" where
  "cascade_audit sha now gid profile_id event_type payload db =
     bindE (append_event sha now event_type cascade_actor profile_id (Some gid) payload db) (\<lambda>(db', _). Inr db')"

text \<open>The loop both deleters share: one transaction per row, the first exception ends it.\<close>

fun each :: "('i \<Rightarrow> 'w \<Rightarrow> 'w \<times> ('e + bool)) \<Rightarrow> 'i list \<Rightarrow> nat \<Rightarrow> 'w \<Rightarrow> 'w \<times> ('e + nat)" where
  "each step [] n w = (w, Inr n)"
| "each step (i # is) n w = and_then (step i w) (\<lambda>w' b. each step is (if b then n + 1 else n) w')"

definition cancelled :: "timestamp \<Rightarrow> scheduled_delivery \<Rightarrow> scheduled_delivery" where
  "cancelled now d = d\<lparr>de_status := CANCELLED, de_cancelled_at := Some now\<rparr>"

definition cancel_row :: "uuid \<Rightarrow> timestamp \<Rightarrow> consent_db \<Rightarrow> consent_db" where
  "cancel_row i now db = db\<lparr>deliveries := update_rows (\<lambda>d. de_id d = i \<and> de_status d = SCHEDULED) (cancelled now) (deliveries db)\<rparr>"

definition cancel_delivery ::
    "(pstr \<Rightarrow> pstr) \<Rightarrow> (nat \<Rightarrow> timestamp) \<Rightarrow> uuid \<Rightarrow> uuid \<Rightarrow> uuid \<Rightarrow> 's world \<Rightarrow> 's world \<times> (error + bool)" where
  "cancel_delivery sha clk gid profile_id i w =
     (if \<not> list_ex (\<lambda>d. de_id d = i \<and> de_status d = SCHEDULED) (deliveries (w_db w)) then (w, Inr False)
      else commit (ticked 2 w) (bindE (cascade_audit sha (clk (w_ticks w + 1)) gid profile_id DELIVERY_CANCELLED
             (py_obj [(''delivery_id'', PyStr (uuid_str i))]) (cancel_row i (clk (w_ticks w)) (w_db w)))
           (\<lambda>db'. Inr (db', True))))"

definition cancel_deliveries ::
    "(pstr \<Rightarrow> pstr) \<Rightarrow> (nat \<Rightarrow> timestamp) \<Rightarrow> uuid \<Rightarrow> uuid \<Rightarrow> 's world \<Rightarrow> 's world \<times> (error + nat)" where
  "cancel_deliveries sha clk gid profile_id w =
     each (cancel_delivery sha clk gid profile_id) (pending_deliveries (w_db w) gid) 0 w"

primrec live_key :: "artifact_kind \<Rightarrow> consent_db \<Rightarrow> uuid \<Rightarrow> pstr option option" where
  "live_key AUDIO_ARTIFACT db i =
     map_option aa_storage_key (find (\<lambda>a. aa_id a = i \<and> aa_deleted_at a = None) (audio_artifacts db))"
| "live_key VOICE_MODEL db i =
     map_option vm_storage_key (find (\<lambda>m. vm_id m = i \<and> vm_deleted_at m = None) (voice_models db))"

primrec tombstone :: "artifact_kind \<Rightarrow> uuid \<Rightarrow> timestamp \<Rightarrow> consent_db \<Rightarrow> consent_db" where
  "tombstone AUDIO_ARTIFACT i now db = db\<lparr>audio_artifacts := update_rows (\<lambda>a. aa_id a = i \<and> aa_deleted_at a = None)
     (\<lambda>a. a\<lparr>aa_storage_key := None, aa_deleted_at := Some now\<rparr>) (audio_artifacts db)\<rparr>"
| "tombstone VOICE_MODEL i now db = db\<lparr>voice_models := update_rows (\<lambda>m. vm_id m = i \<and> vm_deleted_at m = None)
     (\<lambda>m. m\<lparr>vm_storage_key := None, vm_deleted_at := Some now\<rparr>) (voice_models db)\<rparr>"

definition erase_object :: "('s \<Rightarrow> pstr \<Rightarrow> error + 's) \<Rightarrow> pstr option \<Rightarrow> 's \<Rightarrow> error + 's" where
  "erase_object erase key store = (case key of None \<Rightarrow> Inr store | Some k \<Rightarrow> if k = [] then Inr store else erase store k)"

definition key_digest :: "(pstr \<Rightarrow> pstr) \<Rightarrow> pstr option \<Rightarrow> error + pyval" where
  "key_digest sha key = (case key of None \<Rightarrow> Inr PyNone
     | Some k \<Rightarrow> if k = [] then Inr PyNone else bindE (hash_text sha k) (\<lambda>h. Inr (PyStr h)))"

definition deletion_payload :: "artifact_kind \<Rightarrow> uuid \<Rightarrow> pyval \<Rightarrow> pyval" where
  "deletion_payload kind i digest = py_obj [
     (''artifact_kind'', PyStr (kind_value kind)),
     (''artifact_id'', PyStr (uuid_str i)),
     (''storage_key_sha256'', digest),
     (''reason'', PyStr (lit ''CONSENT_REVOKED''))]"

text \<open>Object, then tombstone, then audit. When the audit fails the row is live again and the object
  is gone; the next run deletes it again.\<close>

definition delete_artifact ::
    "('s \<Rightarrow> pstr \<Rightarrow> error + 's) \<Rightarrow> (pstr \<Rightarrow> pstr) \<Rightarrow> (nat \<Rightarrow> timestamp) \<Rightarrow> uuid \<Rightarrow> uuid \<Rightarrow> artifact_kind \<Rightarrow> uuid
       \<Rightarrow> 's world \<Rightarrow> 's world \<times> (error + bool)" where
  "delete_artifact erase sha clk gid profile_id kind i w =
     (case live_key kind (w_db w) i of
        None \<Rightarrow> (w, Inr False)
      | Some key \<Rightarrow>
          (case erase_object erase key (w_store w) of
             Inl e \<Rightarrow> (w, Inl e)
           | Inr store \<Rightarrow> commit (ticked 2 w\<lparr>w_store := store\<rparr>)
               (bindE (key_digest sha key) (\<lambda>digest.
                bindE (cascade_audit sha (clk (w_ticks w + 1)) gid profile_id MODEL_DELETED
                        (deletion_payload kind i digest) (tombstone kind i (clk (w_ticks w)) (w_db w))) (\<lambda>db'.
                Inr (db', True))))))"

definition delete_artifacts ::
    "('s \<Rightarrow> pstr \<Rightarrow> error + 's) \<Rightarrow> (pstr \<Rightarrow> pstr) \<Rightarrow> (nat \<Rightarrow> timestamp) \<Rightarrow> uuid \<Rightarrow> uuid \<Rightarrow> artifact_kind
       \<Rightarrow> 's world \<Rightarrow> 's world \<times> (error + nat)" where
  "delete_artifacts erase sha clk gid profile_id kind w =
     each (delete_artifact erase sha clk gid profile_id kind) (live_artifacts kind (w_db w) gid) 0 w"

definition completed :: "timestamp \<Rightarrow> revocation_request \<Rightarrow> revocation_request" where
  "completed now r = r\<lparr>rr_status := COMPLETE, rr_completed_at := Some now, rr_updated_at := now\<rparr>"

definition completion_payload :: "revocation_request \<Rightarrow> cascade_report \<Rightarrow> pyval" where
  "completion_payload request report = py_obj [
     (''revocation_request_id'', PyStr (uuid_str (rr_id request))),
     (''attempts'', PyInt (int (rr_attempts request))),
     (''tokens_revoked'', PyInt (int (rp_tokens report))),
     (''deliveries_cancelled'', PyInt (int (rp_deliveries report))),
     (''audio_artifacts_deleted'', PyInt (int (rp_audio report))),
     (''voice_models_deleted'', PyInt (int (rp_voice report)))]"

definition finish ::
    "(pstr \<Rightarrow> pstr) \<Rightarrow> timestamp \<Rightarrow> timestamp \<Rightarrow> uuid \<Rightarrow> claimed \<Rightarrow> cascade_report \<Rightarrow> consent_db
       \<Rightarrow> error + (consent_db \<times> unit)" where
  "finish sha now now' gid c report db =
     (if list_ex (\<lambda>(_, n). n \<noteq> 0) (remaining db gid) then Inl (CascadeError (remaining db gid))
      else (case find (\<lambda>r. rr_id r = cl_request_id c) (requests db) of
        None \<Rightarrow> Inl NoResultFound
      | Some request \<Rightarrow>
          bindE (update_request (rr_id request) (completed now) db) (\<lambda>db1.
          bindE (cascade_audit sha now' gid (cl_profile_id c) REVOCATION_CASCADE_COMPLETED
                  (completion_payload request report) db1) (\<lambda>db2.
          Inr (db2, ())))))"

definition record_failure :: "uuid \<Rightarrow> error \<Rightarrow> timestamp \<Rightarrow> consent_db \<Rightarrow> error + (consent_db \<times> unit)" where
  "record_failure rid e now db = (case find (\<lambda>r. rr_id r = rid) (requests db) of
     None \<Rightarrow> Inr (db, ())
   | Some request \<Rightarrow>
       if rr_status request = COMPLETE then Inr (db, ())
       else bindE (update_request rid (\<lambda>r. r\<lparr>rr_last_error := Some e, rr_updated_at := now\<rparr>) db) (\<lambda>db'. Inr (db', ())))"

section \<open>A run\<close>

definition revoke_step :: "(nat \<Rightarrow> timestamp) \<Rightarrow> uuid \<Rightarrow> 's world \<Rightarrow> 's world \<times> (error + nat)" where
  "revoke_step clk gid w = (let r = revoke_grant_tokens gid (clk (w_ticks w)) (w_db w) in
     commit (ticked 1 w) (Inr (fst r, snd r)))"

definition cascade_body ::
    "('s \<Rightarrow> pstr \<Rightarrow> error + 's) \<Rightarrow> (pstr \<Rightarrow> pstr) \<Rightarrow> (nat \<Rightarrow> timestamp) \<Rightarrow> uuid \<Rightarrow> claimed \<Rightarrow> 's world
       \<Rightarrow> 's world \<times> (error + cascade_report)" where
  "cascade_body erase sha clk gid c w =
     (let profile_id = cl_profile_id c in
      and_then (revoke_step clk gid w) (\<lambda>w1 n1.
      and_then (cancel_deliveries sha clk gid profile_id w1) (\<lambda>w2 n2.
      and_then (delete_artifacts erase sha clk gid profile_id AUDIO_ARTIFACT w2) (\<lambda>w3 n3.
      and_then (delete_artifacts erase sha clk gid profile_id VOICE_MODEL w3) (\<lambda>w4 n4.
      let report = \<lparr> rp_grant_id = gid, rp_already_complete = False, rp_tokens = n1, rp_deliveries = n2,
                     rp_audio = n3, rp_voice = n4 \<rparr> in
      and_then (commit (ticked 2 w4) (finish sha (clk (w_ticks w4)) (clk (w_ticks w4 + 1)) gid c report (w_db w4)))
        (\<lambda>w5 _. (w5, Inr report)))))))"

definition run_cascade ::
    "('s \<Rightarrow> pstr \<Rightarrow> error + 's) \<Rightarrow> (pstr \<Rightarrow> pstr) \<Rightarrow> (nat \<Rightarrow> timestamp) \<Rightarrow> uuid \<Rightarrow> uuid \<Rightarrow> 's world
       \<Rightarrow> 's world \<times> (error + cascade_report)" where
  "run_cascade erase sha clk rid gid w =
     and_then (commit (ticked 1 w) (claim gid rid (clk (w_ticks w)) (w_db w))) (\<lambda>w1 c.
       if \<not> cl_proceed c
       then (w1, Inr \<lparr> rp_grant_id = gid, rp_already_complete = True, rp_tokens = 0, rp_deliveries = 0, rp_audio = 0, rp_voice = 0 \<rparr>)
       else (case cascade_body erase sha clk gid c w1 of
               (w2, Inr report) \<Rightarrow> (w2, Inr report)
             | (w2, Inl e) \<Rightarrow>
                 (case commit (ticked 1 w2) (record_failure (cl_request_id c) e (clk (w_ticks w2)) (w_db w2)) of
                    (w3, Inl e') \<Rightarrow> (w3, Inl e')
                  | (w3, Inr _) \<Rightarrow> (w3, Inl e))))"

text \<open>\<open>InlineDispatcher\<close>: failures are logged, not raised. Each dispatch brings its own fresh id.\<close>

definition inline_dispatch ::
    "('s \<Rightarrow> pstr \<Rightarrow> error + 's) \<Rightarrow> (pstr \<Rightarrow> pstr) \<Rightarrow> (nat \<Rightarrow> timestamp) \<Rightarrow> uuid \<Rightarrow> uuid \<Rightarrow> 's world \<Rightarrow> 's world" where
  "inline_dispatch erase sha clk rid gid w = fst (run_cascade erase sha clk rid gid w)"

definition stale_revocations :: "timestamp \<Rightarrow> nat \<Rightarrow> consent_db \<Rightarrow> uuid list" where
  "stale_revocations now stale_after_seconds db =
     map rr_grant_id (sort_key rr_updated_at
       (filter (\<lambda>r. rr_status r \<noteq> COMPLETE \<and> rr_updated_at r < now - int stale_after_seconds * second) (requests db)))"

definition sweep_stale_revocations ::
    "(uuid \<Rightarrow> 's world \<Rightarrow> 's world) \<Rightarrow> (nat \<Rightarrow> timestamp) \<Rightarrow> nat \<Rightarrow> 's world \<Rightarrow> 's world \<times> uuid list" where
  "sweep_stale_revocations dispatch clk stale_after_seconds w =
     (let ids = stale_revocations (clk (w_ticks w)) stale_after_seconds (w_db w) in
      (fold dispatch ids (ticked 1 w), ids))"

end
