(* ===== verification/Cascade_Facts.thy ===== *)
theory Cascade_Facts imports Cascade begin

text \<open>
  Correctness of the cascade. A run that is not disturbed finds nothing left at its final check, so
  it fails only when the store or the ledger fails; a run that returns leaves the request complete,
  no live token, delivery or artifact of the grant, and no object behind them; running it again
  changes nothing; and every tombstone comes with exactly one \<open>MODEL_DELETED\<close> event.
\<close>

section \<open>Single steps\<close>

lemma cascade_audit_Inr:
  assumes "cascade_audit sha now gid i t p db = Inr db'"
  obtains e where "append_event sha now t cascade_actor i (Some gid) p db = Inr (db', e)"
  using assms unfolding cascade_audit_def by (elim bindE_InrE) (auto split: prod.splits)

lemma cascade_audit_frame [frame]:
  assumes "cascade_audit sha now gid i t p db = Inr db'"
  shows "profiles db' = profiles db" "grants db' = grants db" "requests db' = requests db" "tokens db' = tokens db"
    "voice_models db' = voice_models db" "audio_artifacts db' = audio_artifacts db" "deliveries db' = deliveries db"
  using assms by (auto elim!: cascade_audit_Inr dest: append_event_rest)

lemma cascade_audit_evolves [ledger_ext]: "cascade_audit sha now gid i t p db = Inr db' \<Longrightarrow> evolves sha db db'"
  by (erule cascade_audit_Inr) (rule append_event_evolves)

lemma first_fail_in: "first_fail rs = Some e \<Longrightarrow> Some e \<in> set rs"
  by (induction rs rule: first_fail.induct) auto

lemma check_value_error: "check_value v d = Some e \<Longrightarrow> e \<in> range AuditPayloadError"
proof (induction v arbitrary: d)
  case (PyList vs)
  then show ?case
    by (auto split: if_splits dest!: first_fail_in)
next
  case (PyDict kvs)
  show ?case
  proof (cases "max_payload_depth < d")
    case False
    with PyDict.prems have "Some e \<in> set (map (\<lambda>(k, c). if str_key (fst k) = None then payload_error ''payload keys must be strings without NUL''
        else snd c (Suc d)) (zip kvs (map (map_prod check_value check_value) kvs)))"
      by (auto dest!: first_fail_in)
    then obtain j where j: "j < length kvs" and "Some e = (if str_key (fst (kvs ! j)) = None
        then payload_error ''payload keys must be strings without NUL'' else check_value (snd (kvs ! j)) (Suc d))"
      by (auto simp: set_zip)
    then show ?thesis
      using PyDict.IH(2) [of "kvs ! j" "snd (kvs ! j)" "Suc d"] nth_mem [OF j] by (cases "kvs ! j") (auto split: if_splits)
  qed (use PyDict in auto)
qed (auto split: if_splits)

text \<open>The ways the ledger refuses an event.\<close>

definition ledger_error :: "error \<Rightarrow> bool" where
  "ledger_error e \<longleftrightarrow> e \<in> range AuditPayloadError \<or> e = UnicodeEncodeError \<or>
     e \<in> {IntegrityError ''uq_audit_event_event_hash'', IntegrityError ''uq_audit_event_chain_link'', IntegrityError ''ck_audit_event_hashes_sha256''}"

lemma cascade_audit_error: "cascade_audit sha now gid i t p db = Inl e \<Longrightarrow> ledger_error e"
  by (auto simp del: check_value.simps simp: cascade_audit_def append_event_def Let_def bindE_eq_Inl validate_payload_def
      compute_event_hash_def hash_text_def insert_event_def ledger_error_def split: pyval.split_asm option.split_asm if_split_asm
      dest!: check_value_error)

lemma commit_Inr: "commit w r = (w', Inr x) \<longleftrightarrow> (\<exists>db. r = Inr (db, x) \<and> w' = w\<lparr>w_db := db\<rparr>)"
  by (auto simp: commit_def split: sum.split)

lemma commit_Inl: "commit w r = (w', Inl e) \<longleftrightarrow> r = Inl e \<and> w' = w"
  by (auto simp: commit_def split: sum.split)

lemma cancel_delivery_cases:
  assumes "cancel_delivery sha clk gid p i w = (w', r)"
  obtains (skip) "w' = w" "r = Inr False" "\<not> list_ex (\<lambda>d. de_id d = i \<and> de_status d = SCHEDULED) (deliveries (w_db w))"
  | (failed) e where "r = Inl e" "w_db w' = w_db w" "w_store w' = w_store w" "ledger_error e"
  | (acted) now now' where "r = Inr True" "w_store w' = w_store w"
      "cascade_audit sha now' gid p DELIVERY_CANCELLED (py_obj [(''delivery_id'', PyStr (uuid_str i))])
         (cancel_row i now (w_db w)) = Inr (w_db w')"
proof (cases "list_ex (\<lambda>d. de_id d = i \<and> de_status d = SCHEDULED) (deliveries (w_db w))")
  case False
  with assms show thesis
    by (intro skip) (simp_all add: cancel_delivery_def)
next
  case True
  show thesis
  proof (cases r)
    case (Inl e)
    with assms True show thesis
      by (intro failed [of e]) (auto simp: cancel_delivery_def commit_Inl bindE_eq_Inl dest: cascade_audit_error)
  next
    case (Inr b)
    with assms True show thesis
      by (intro acted) (auto simp: cancel_delivery_def commit_Inr bindE_eq_Inr)
  qed
qed

text \<open>The object store is touched before the transaction commits, so a failed audit has erased the
  object and left the row alone.\<close>

lemma delete_artifact_cases:
  assumes "delete_artifact erase sha clk gid p kind i w = (w', r)"
  obtains (skip) "w' = w" "r = Inr False" "live_key kind (w_db w) i = None"
  | (failed) key e where "r = Inl e" "w_db w' = w_db w" "live_key kind (w_db w) i = Some key"
      "w_store w' = w_store w \<and> erase_object erase key (w_store w) = Inl e \<or>
       erase_object erase key (w_store w) = Inr (w_store w') \<and> ledger_error e"
  | (acted) key now now' digest where "r = Inr True" "live_key kind (w_db w) i = Some key"
      "erase_object erase key (w_store w) = Inr (w_store w')"
      "cascade_audit sha now' gid p MODEL_DELETED (deletion_payload kind i digest) (tombstone kind i now (w_db w)) = Inr (w_db w')"
proof (cases "live_key kind (w_db w) i")
  case None
  with assms show thesis
    by (intro skip) (simp_all add: delete_artifact_def)
next
  case (Some key)
  show thesis
  proof (cases "erase_object erase key (w_store w)")
    case (Inl e)
    with assms Some show thesis
      by (intro failed [of e key]) (simp_all add: delete_artifact_def)
  next
    case store: (Inr store)
    have digest: "key_digest sha key = Inl e \<Longrightarrow> ledger_error e" for e
      by (auto simp: ledger_error_def key_digest_def hash_text_def bindE_eq_Inl split: option.splits if_splits)
    show thesis
    proof (cases r)
      case (Inl e)
      with assms Some store digest show thesis
        by (intro failed [of e key]) (auto simp: delete_artifact_def commit_Inl bindE_eq_Inl dest: cascade_audit_error)
    next
      case (Inr b)
      with assms Some store show thesis
        by (auto simp: delete_artifact_def commit_Inr bindE_eq_Inr intro: acted)
    qed
  qed
qed

section \<open>Loops\<close>

lemma each_invariant:
  assumes "each step is n w = (w', r)" and "P w"
    and "\<And>i w w' r. i \<in> set is \<Longrightarrow> P w \<Longrightarrow> step i w = (w', r) \<Longrightarrow> P w'"
  shows "P w'"
  using assms
proof (induction "is" arbitrary: n w)
  case (Cons i js)
  obtain w1 s where step: "step i w = (w1, s)"
    by (cases "step i w")
  with Cons.prems have "P w1"
    by (meson list.set_intros(1))
  with Cons.prems step Cons.IH show ?case
    by (cases s) (auto, meson)
qed simp

lemma each_Inl:
  assumes "each step is n w = (w', Inl e)"
  shows "\<exists>i w1 w2. i \<in> set is \<and> step i w1 = (w2, Inl e)"
  using assms
proof (induction "is" arbitrary: n w)
  case (Cons i js)
  obtain w1 s where step: "step i w = (w1, s)"
    by (cases "step i w")
  with Cons show ?case
    by (cases s) (force, fastforce)
qed simp

text \<open>Each row's step establishes \<open>D\<close> for it, and no step undoes it.\<close>

lemma each_done:
  assumes "each step is n w = (w', Inr m)" and "i \<in> set is" and "P w"
    and "\<And>i w w' r. P w \<Longrightarrow> step i w = (w', r) \<Longrightarrow> P w'"
    and "\<And>i w w' b. P w \<Longrightarrow> step i w = (w', Inr b) \<Longrightarrow> D i w'"
    and "\<And>i j w w' r. P w \<Longrightarrow> D i w \<Longrightarrow> step j w = (w', r) \<Longrightarrow> D i w'"
  shows "D i w'"
  using assms(1-3)
proof (induction "is" arbitrary: n w)
  case (Cons j js)
  obtain w1 b where step: "step j w = (w1, Inr b)" and rest: "each step js (if b then n + 1 else n) w1 = (w', Inr m)"
    using Cons.prems(1) by (auto elim!: and_then_InrE)
  have "P w1"
    using assms(4) Cons.prems(3) step by blast
  show ?case
  proof (cases "i \<in> set js")
    case True
    then show ?thesis
      using Cons.IH rest \<open>P w1\<close> by blast
  next
    case False
    with Cons.prems have "D i w1 \<and> P w1"
      using assms(5) step \<open>P w1\<close> by auto
    then show ?thesis
      by (rule each_invariant [OF rest, THEN conjunct1]) (use assms(4,6) in blast)
  qed
qed simp

section \<open>Nothing comes back\<close>

text \<open>\<open>shrinks gid\<close>: no token, delivery or artifact of the grant is live that was not before. Undisturbed
  steps of the cascade only shrink, so what one step has emptied the final check finds empty.\<close>

definition shrinks :: "uuid \<Rightarrow> consent_db \<Rightarrow> consent_db \<Rightarrow> bool" where
  "shrinks gid db db' \<longleftrightarrow> set (live_tokens db' gid) \<subseteq> set (live_tokens db gid) \<and>
     set (pending_deliveries db' gid) \<subseteq> set (pending_deliveries db gid) \<and>
     (\<forall>kind. set (live_artifacts kind db' gid) \<subseteq> set (live_artifacts kind db gid))"

definition nothing_left :: "consent_db \<Rightarrow> uuid \<Rightarrow> bool" where
  "nothing_left db gid \<longleftrightarrow> live_tokens db gid = [] \<and> pending_deliveries db gid = [] \<and> (\<forall>kind. live_artifacts kind db gid = [])"

lemma sort_Nil_iff [simp]: "sort xs = [] \<longleftrightarrow> xs = []"
  by (metis set_empty set_sort)

lemma nothing_left_remaining: "nothing_left db gid \<longleftrightarrow> \<not> list_ex (\<lambda>(_, n). n \<noteq> 0) (remaining db gid)"
proof -
  have "(\<forall>kind. live_artifacts kind db gid = []) \<longleftrightarrow> live_artifacts AUDIO_ARTIFACT db gid = [] \<and> live_artifacts VOICE_MODEL db gid = []"
    by (metis artifact_kind.exhaust)
  then show ?thesis
    by (auto simp: nothing_left_def remaining_def)
qed

lemma shrinks_refl [simp]: "shrinks gid db db"
  by (simp add: shrinks_def)

lemma shrinks_trans [trans]: "shrinks gid a b \<Longrightarrow> shrinks gid b c \<Longrightarrow> shrinks gid a c"
  by (fastforce simp: shrinks_def)

lemma in_live:
  "t \<in> set (live_tokens db gid) \<longleftrightarrow> t \<in> set (tokens db) \<and> at_grant_id t = Some gid \<and> at_revoked_at t = None"
  "i \<in> set (pending_deliveries db gid) \<longleftrightarrow> (\<exists>d \<in> set (deliveries db). de_id d = i \<and> delivery_scope db gid d \<and> de_status d = SCHEDULED)"
  "i \<in> set (live_artifacts AUDIO_ARTIFACT db gid) \<longleftrightarrow> (\<exists>a \<in> set (audio_artifacts db). aa_id a = i \<and> audio_scope db gid a \<and> aa_deleted_at a = None)"
  "i \<in> set (live_artifacts VOICE_MODEL db gid) \<longleftrightarrow> (\<exists>m \<in> set (voice_models db). vm_id m = i \<and> vm_grant_id m = gid \<and> vm_deleted_at m = None)"
  by (auto simp: live_tokens_def pending_deliveries_def)

lemma scope_cong:
  "voice_models db' = voice_models db \<Longrightarrow> audio_scope db' gid = audio_scope db gid"
  "voice_models db' = voice_models db \<Longrightarrow> audio_artifacts db' = audio_artifacts db \<Longrightarrow> delivery_scope db' gid = delivery_scope db gid"
  by (simp_all add: audio_scope_def delivery_scope_def grant_models_def fun_eq_iff cong: option.case_cong)

lemma shrinks_frame:
  assumes "tokens db' = tokens db" "voice_models db' = voice_models db" "audio_artifacts db' = audio_artifacts db"
    "deliveries db' = deliveries db"
  shows "shrinks gid db db'"
proof -
  have "set (live_artifacts kind db' gid) = set (live_artifacts kind db gid)" for kind
    by (cases kind) (simp_all add: assms scope_cong(1) [OF assms(2)])
  then show ?thesis
    by (simp add: shrinks_def live_tokens_def pending_deliveries_def assms scope_cong(2) [OF assms(2,3)])
qed

lemma shrinks_tokens: "shrinks gid db (fst (revoke_grant_tokens gid now db))"
proof -
  have "live_tokens (fst (revoke_grant_tokens gid now db)) gid = []"
    using revoke_grant_tokens_none_left by (auto simp: live_tokens_def filter_empty_conv)
  moreover have "shrinks gid (db\<lparr>tokens := tokens (fst (revoke_grant_tokens gid now db))\<rparr>) (fst (revoke_grant_tokens gid now db))"
    by (rule shrinks_frame) (simp_all add: revoke_grant_tokens_frame)
  moreover have "live_artifacts k (db\<lparr>tokens := ts\<rparr>) gid = live_artifacts k db gid"
      "pending_deliveries (db\<lparr>tokens := ts\<rparr>) gid = pending_deliveries db gid" for k ts
    by (cases k; simp add: scope_cong(1) [of "db\<lparr>tokens := ts\<rparr>" db])
      (simp add: pending_deliveries_def scope_cong(2) [of "db\<lparr>tokens := ts\<rparr>" db])
  ultimately show ?thesis
    by (simp add: shrinks_def)
qed

lemma shrinks_cancel: "shrinks gid db (cancel_row i now db)"
proof -
  have "live_artifacts k (cancel_row i now db) gid = live_artifacts k db gid" for k
    by (cases k) (simp_all add: cancel_row_def scope_cong(1) [of "cancel_row i now db" db, unfolded cancel_row_def])
  moreover have "delivery_scope (cancel_row i now db) gid = delivery_scope db gid"
    by (rule scope_cong) (simp_all add: cancel_row_def)
  moreover have "de_grant_id (cancelled now d) = de_grant_id d" "de_audio_id (cancelled now d) = de_audio_id d" for d
    by (simp_all add: cancelled_def)
  ultimately show ?thesis
    unfolding shrinks_def by (auto simp: in_live live_tokens_def) (auto simp: cancel_row_def in_update_rows cancelled_def split: if_splits)
qed

lemma tombstone_scope:
  "audio_scope (tombstone kind i now db) gid = audio_scope db gid"
  "delivery_scope (tombstone kind i now db) gid = delivery_scope db gid"
proof -
  have "grant_models (tombstone kind i now db) gid = grant_models db gid"
  proof (cases kind)
    case VOICE_MODEL
    have "map vm_id (filter (\<lambda>m. vm_grant_id m = gid) (update_rows P (\<lambda>m. m\<lparr>vm_storage_key := k, vm_deleted_at := t\<rparr>) ms)) =
        map vm_id (filter (\<lambda>m. vm_grant_id m = gid) ms)" for P k t ms
      by (induction ms) simp_all
    then show ?thesis
      by (simp add: VOICE_MODEL grant_models_def)
  qed (simp add: grant_models_def)
  then show audio: "audio_scope (tombstone kind i now db) gid = audio_scope db gid"
    by (simp add: audio_scope_def fun_eq_iff cong: option.case_cong)
  have "aa_id ` set (filter (audio_scope db gid) (audio_artifacts (tombstone kind i now db))) =
      aa_id ` set (filter (audio_scope db gid) (audio_artifacts db))"
  proof (cases kind)
    case AUDIO_ARTIFACT
    have "map aa_id (filter (audio_scope db gid) (update_rows P (\<lambda>a. a\<lparr>aa_storage_key := k, aa_deleted_at := t\<rparr>) as)) =
        map aa_id (filter (audio_scope db gid) as)" for P k t as
      by (induction as) (simp_all add: audio_scope_def)
    then show ?thesis
      unfolding AUDIO_ARTIFACT tombstone.simps by (simp flip: set_map del: set_filter)
  qed simp
  then show "delivery_scope (tombstone kind i now db) gid = delivery_scope db gid"
    by (simp add: delivery_scope_def audio fun_eq_iff cong: option.case_cong)
qed

lemma shrinks_tombstone: "shrinks gid db (tombstone kind i now db)"
proof -
  have "set (live_artifacts k (tombstone kind i now db) gid) \<subseteq> set (live_artifacts k db gid)" for k
  proof
    fix j assume j: "j \<in> set (live_artifacts k (tombstone kind i now db) gid)"
    show "j \<in> set (live_artifacts k db gid)"
    proof (cases k)
      case AUDIO_ARTIFACT
      have "\<exists>a' \<in> set (audio_artifacts db). a' = a" if "a \<in> set (audio_artifacts (tombstone kind i now db))" "aa_deleted_at a = None" for a
        using that by (cases kind) (auto simp: in_update_rows split: if_split_asm)
      with j show ?thesis
        unfolding AUDIO_ARTIFACT in_live tombstone_scope by blast
    next
      case VOICE_MODEL
      have "\<exists>m' \<in> set (voice_models db). m' = m" if "m \<in> set (voice_models (tombstone kind i now db))" "vm_deleted_at m = None" for m
        using that by (cases kind) (auto simp: in_update_rows split: if_split_asm)
      with j show ?thesis
        unfolding VOICE_MODEL in_live by blast
    qed
  qed
  moreover have "pending_deliveries (tombstone kind i now db) gid = pending_deliveries db gid"
    unfolding pending_deliveries_def tombstone_scope by (cases kind) simp_all
  moreover have "live_tokens (tombstone kind i now db) gid = live_tokens db gid"
    by (cases kind) (simp_all add: live_tokens_def)
  ultimately show ?thesis
    by (simp add: shrinks_def)
qed

section \<open>The loops empty what they walk\<close>

lemma cancel_row_evolves: "evolves sha db (cancel_row i now db)"
proof (rule evolvesI)
  show "rows_ok (cancel_row i now db)" if "rows_ok db"
  proof -
    have "map de_id (update_rows P (cancelled now) ds) = map de_id ds" for P ds
      by (rule map_update_rows) (simp add: cancelled_def)
    moreover have "list_all delivery_check (update_rows P (cancelled now) ds)" if "list_all delivery_check ds" for P ds
      using that by (auto simp: list_all_iff in_update_rows delivery_check_def cancelled_def)
    ultimately show ?thesis
      using that unfolding cancel_row_def rows_ok_defs by simp
  qed
  show "rows_evolve db (cancel_row i now db)"
    unfolding rows_evolve_def by (auto simp: cancel_row_def cancelled_def delivery_le_def prefix_le_refl intro!: prefix_le_update)
qed (simp add: cancel_row_def)

definition scheduled :: "consent_db \<Rightarrow> uuid \<Rightarrow> bool" where
  "scheduled db i \<longleftrightarrow> list_ex (\<lambda>d. de_id d = i \<and> de_status d = SCHEDULED) (deliveries db)"

lemma scheduled_cancel_row: "scheduled (cancel_row i now db) j \<longleftrightarrow> scheduled db j \<and> j \<noteq> i"
proof -
  have "list_ex (\<lambda>d. de_id d = j \<and> de_status d = SCHEDULED)
      (update_rows (\<lambda>d. de_id d = i \<and> de_status d = SCHEDULED) (cancelled now) ds) \<longleftrightarrow>
      list_ex (\<lambda>d. de_id d = j \<and> de_status d = SCHEDULED) ds \<and> j \<noteq> i" for ds
    by (induction ds) (auto simp: cancelled_def)
  then show ?thesis
    by (simp add: scheduled_def cancel_row_def)
qed

lemma cancel_step:
  assumes "cancel_delivery sha clk gid p i w = (w', r)"
  shows "shrinks g (w_db w) (w_db w')" and "w_store w' = w_store w" and "requests (w_db w') = requests (w_db w)"
    and "r = Inl e \<Longrightarrow> ledger_error e"
    and "r = Inr b \<Longrightarrow> \<not> scheduled (w_db w') i"
    and "\<not> scheduled (w_db w) j \<Longrightarrow> \<not> scheduled (w_db w') j"
    and "evolves sha (w_db w) (w_db w')"
proof -
  have audit: "shrinks g (cancel_row i now (w_db w)) db'" "scheduled db' j \<longleftrightarrow> scheduled (cancel_row i now (w_db w)) j"
      "requests db' = requests (w_db w)" "evolves sha (w_db w) db'"
    if audited: "cascade_audit sha now' gid p t v (cancel_row i now (w_db w)) = Inr db'" for now now' t v db' j
  proof -
    note frame = cascade_audit_frame [OF audited]
    show "shrinks g (cancel_row i now (w_db w)) db'"
      by (rule shrinks_frame) (simp_all only: frame)
    show "scheduled db' j \<longleftrightarrow> scheduled (cancel_row i now (w_db w)) j"
      by (simp only: scheduled_def frame)
    show "requests db' = requests (w_db w)"
      by (simp add: frame cancel_row_def)
    show "evolves sha (w_db w) db'"
      using cancel_row_evolves cascade_audit_evolves [OF audited] by (rule evolves_trans)
  qed
  show "shrinks g (w_db w) (w_db w')"
    using assms by (cases rule: cancel_delivery_cases) (auto intro: shrinks_trans [OF shrinks_cancel] audit)
  show "w_store w' = w_store w" "requests (w_db w') = requests (w_db w)"
    using assms by (cases rule: cancel_delivery_cases; simp add: audit)+
  show "r = Inl e \<Longrightarrow> ledger_error e"
    using assms by (cases rule: cancel_delivery_cases) simp_all
  show "r = Inr b \<Longrightarrow> \<not> scheduled (w_db w') i"
    using assms by (cases rule: cancel_delivery_cases) (auto simp: scheduled_cancel_row audit(2) scheduled_def [symmetric])
  show "\<not> scheduled (w_db w) j \<Longrightarrow> \<not> scheduled (w_db w') j"
    using assms by (cases rule: cancel_delivery_cases) (auto simp: scheduled_cancel_row audit(2))
  show "evolves sha (w_db w) (w_db w')"
    using assms by (cases rule: cancel_delivery_cases) (auto intro: audit)
qed

lemma cancel_deliveries_empties:
  assumes "cancel_deliveries sha clk gid p w = (w', Inr n)"
  shows "pending_deliveries (w_db w') gid = []"
proof -
  note loop = assms [unfolded cancel_deliveries_def]
  have "shrinks gid (w_db w) (w_db w')"
    by (rule each_invariant [OF loop]) (auto intro: shrinks_trans cancel_step(1))
  moreover have "\<not> scheduled (w_db w') i"
    if "i \<in> set (pending_deliveries (w_db w) gid)" for i
    by (rule each_done [OF loop that, where P = "\<lambda>_. True"]) (blast intro: TrueI dest: cancel_step(5) cancel_step(6))+
  moreover have "scheduled (w_db w') i" if "i \<in> set (pending_deliveries (w_db w') gid)" for i
    using that by (auto simp: in_live scheduled_def list_ex_iff)
  ultimately have "set (pending_deliveries (w_db w') gid) = {}"
    unfolding shrinks_def by (intro equals0I) (meson subsetD)
  then show ?thesis
    by (simp only: set_empty)
qed

lemma cancel_deliveries_frame:
  assumes "cancel_deliveries sha clk gid p w = (w', r)"
  shows "shrinks gid (w_db w) (w_db w')" and "w_store w' = w_store w" and "requests (w_db w') = requests (w_db w)"
    and "evolves sha (w_db w) (w_db w')" and "r = Inl e \<Longrightarrow> ledger_error e"
proof -
  note loop = assms [unfolded cancel_deliveries_def]
  show "shrinks gid (w_db w) (w_db w')"
    by (rule each_invariant [OF loop]) (auto intro: shrinks_trans cancel_step(1))
  show "w_store w' = w_store w"
    by (rule each_invariant [OF loop]) (auto dest: cancel_step(2))
  show "requests (w_db w') = requests (w_db w)"
    by (rule each_invariant [OF loop]) (auto dest: cancel_step(3))
  show "evolves sha (w_db w) (w_db w')"
    by (rule each_invariant [OF loop]) (auto intro: evolves_trans cancel_step(7))
  show "r = Inl e \<Longrightarrow> ledger_error e"
    using each_Inl [of _ _ 0 w w' e] loop cancel_step(4) by blast
qed

text \<open>The same for artifacts of either kind.\<close>

lemma tombstone_evolves: "evolves sha db (tombstone kind i now db)"
proof (rule evolvesI)
  show "events (tombstone kind i now db) = events db"
    by (cases kind) simp_all
  show "rows_ok (tombstone kind i now db)" if "rows_ok db"
  proof (cases kind)
    case AUDIO_ARTIFACT
    have "map aa_id (update_rows P (\<lambda>a. a\<lparr>aa_storage_key := None, aa_deleted_at := Some now\<rparr>) as) = map aa_id as" for P and as :: "audio_artifact list"
      by (rule map_update_rows) simp
    moreover have "list_all audio_check (update_rows P (\<lambda>a. a\<lparr>aa_storage_key := None, aa_deleted_at := Some now\<rparr>) as)"
      if "list_all audio_check as" for P and as :: "audio_artifact list"
      using that by (induction as) (auto simp: audio_check_def)
    ultimately show ?thesis
      using that unfolding AUDIO_ARTIFACT rows_ok_defs by simp
  next
    case VOICE_MODEL
    have "map vm_id (update_rows P (\<lambda>m. m\<lparr>vm_storage_key := None, vm_deleted_at := Some now\<rparr>) ms) = map vm_id ms" for P and ms :: "voice_model list"
      by (rule map_update_rows) simp
    moreover have "list_all voice_check (update_rows P (\<lambda>m. m\<lparr>vm_storage_key := None, vm_deleted_at := Some now\<rparr>) ms)"
      if "list_all voice_check ms" for P and ms :: "voice_model list"
      using that by (induction ms) (auto simp: voice_check_def)
    ultimately show ?thesis
      using that unfolding VOICE_MODEL rows_ok_defs by simp
  qed
  show "rows_evolve db (tombstone kind i now db)"
    unfolding rows_evolve_def
    by (cases kind) (auto simp: audio_le_def voice_le_def prefix_le_refl intro!: prefix_le_update)
qed

lemma find_update_off:
  "\<lbrakk>\<And>r. k (f r) = k r; \<And>r. \<not> L (f r)\<rbrakk> \<Longrightarrow>
     find (\<lambda>r. k r = j \<and> L r) (update_rows (\<lambda>r. k r = i \<and> L r) f rs) = (if j = i then None else find (\<lambda>r. k r = j \<and> L r) rs)"
  by (induction rs) auto

lemma live_key_tombstone:
  "live_key kind (tombstone kind' i now db) j = (if kind = kind' \<and> j = i then None else live_key kind db j)"
  by (cases kind; cases kind') (simp_all add: find_update_off)

lemma live_artifact_key: "i \<in> set (live_artifacts kind db gid) \<Longrightarrow> live_key kind db i \<noteq> None"
  by (cases kind) (auto simp: find_None_iff)

lemma delete_step:
  assumes "delete_artifact erase sha clk gid p kind i w = (w', r)"
  shows "shrinks g (w_db w) (w_db w')" and "requests (w_db w') = requests (w_db w)"
    and "r = Inl e \<Longrightarrow> ledger_error e \<or> (\<exists>k s. erase s k = Inl e)"
    and "r = Inr b \<Longrightarrow> live_key kind (w_db w') i = None"
    and "live_key kind' (w_db w) j = None \<Longrightarrow> live_key kind' (w_db w') j = None"
    and "evolves sha (w_db w) (w_db w')"
proof -
  have audit: "shrinks g (w_db w) db'" "live_key kind' db' j = live_key kind' (tombstone kind i now (w_db w)) j"
      "requests db' = requests (w_db w)" "evolves sha (w_db w) db'"
    if audited: "cascade_audit sha now' gid p t v (tombstone kind i now (w_db w)) = Inr db'" for now now' t v db' j kind'
  proof -
    note frame = cascade_audit_frame [OF audited]
    have "shrinks g (tombstone kind i now (w_db w)) db'"
      by (rule shrinks_frame) (simp_all only: frame)
    then show "shrinks g (w_db w) db'"
      by (rule shrinks_trans [OF shrinks_tombstone])
    show "live_key kind' db' j = live_key kind' (tombstone kind i now (w_db w)) j"
      by (cases kind') (simp_all only: live_key.simps frame)
    show "requests db' = requests (w_db w)"
      by (cases kind) (simp_all add: frame)
    show "evolves sha (w_db w) db'"
      using tombstone_evolves cascade_audit_evolves [OF audited] by (rule evolves_trans)
  qed
  show "shrinks g (w_db w) (w_db w')" "requests (w_db w') = requests (w_db w)" "evolves sha (w_db w) (w_db w')"
    using assms by (cases rule: delete_artifact_cases; auto dest: audit)+
  show "r = Inl e \<Longrightarrow> ledger_error e \<or> (\<exists>k s. erase s k = Inl e)"
    using assms by (cases rule: delete_artifact_cases) (auto simp: erase_object_def split: option.split_asm if_split_asm)
  show "r = Inr b \<Longrightarrow> live_key kind (w_db w') i = None"
    using assms by (cases rule: delete_artifact_cases) (auto simp: audit(2) live_key_tombstone)
  show "live_key kind' (w_db w) j = None \<Longrightarrow> live_key kind' (w_db w') j = None"
    using assms by (cases rule: delete_artifact_cases) (auto simp: audit(2) live_key_tombstone)
qed

lemma delete_artifacts_empties:
  assumes "delete_artifacts erase sha clk gid p kind w = (w', Inr n)"
  shows "live_artifacts kind (w_db w') gid = []"
proof -
  note loop = assms [unfolded delete_artifacts_def]
  have "shrinks gid (w_db w) (w_db w')"
    by (rule each_invariant [OF loop]) (auto intro: shrinks_trans delete_step(1))
  moreover have "live_key kind (w_db w') i = None" if "i \<in> set (live_artifacts kind (w_db w) gid)" for i
    by (rule each_done [OF loop that, where P = "\<lambda>_. True"]) (blast intro: TrueI dest: delete_step(4) delete_step(5))+
  ultimately have "set (live_artifacts kind (w_db w') gid) = {}"
    unfolding shrinks_def by (intro equals0I) (meson subsetD live_artifact_key)
  then show ?thesis
    by (simp only: set_empty)
qed

lemma delete_artifacts_frame:
  assumes "delete_artifacts erase sha clk gid p kind w = (w', r)"
  shows "shrinks gid (w_db w) (w_db w')" and "requests (w_db w') = requests (w_db w)"
    and "evolves sha (w_db w) (w_db w')" and "r = Inl e \<Longrightarrow> ledger_error e \<or> (\<exists>k s. erase s k = Inl e)"
proof -
  note loop = assms [unfolded delete_artifacts_def]
  show "shrinks gid (w_db w) (w_db w')"
    by (rule each_invariant [OF loop]) (auto intro: shrinks_trans delete_step(1))
  show "requests (w_db w') = requests (w_db w)"
    by (rule each_invariant [OF loop]) (auto dest: delete_step(2))
  show "evolves sha (w_db w) (w_db w')"
    by (rule each_invariant [OF loop]) (auto intro: evolves_trans delete_step(6))
  show "r = Inl e \<Longrightarrow> ledger_error e \<or> (\<exists>k s. erase s k = Inl e)"
    using each_Inl [of _ _ 0 w w' e] loop delete_step(3) by blast
qed

section \<open>The final check and the whole run\<close>

lemma request_checks [simp]:
  "request_check (completed now r)"
  "rr_status r \<noteq> COMPLETE \<Longrightarrow> request_check (processing now r) = request_check r"
  "request_check (r\<lparr>rr_last_error := e, rr_updated_at := now\<rparr>) = request_check r"
  by (simp_all add: request_check_def completed_def processing_def)

lemma finish_Inr:
  assumes "finish sha now now' gid c report db = Inr (db', u)"
  obtains request db1 where "nothing_left db gid" and "find (\<lambda>r. rr_id r = cl_request_id c) (requests db) = Some request"
    and "update_request (rr_id request) (completed now) db = Inr db1"
    and "cascade_audit sha now' gid (cl_profile_id c) REVOCATION_CASCADE_COMPLETED (completion_payload request report) db1 = Inr db'"
  using assms by (auto simp: finish_def nothing_left_remaining bindE_eq_Inr split: if_split_asm option.split_asm)

lemma finish_Inl:
  assumes "finish sha now now' gid c report db = Inl e" and "nothing_left db gid" and "cl_request_id c \<in> rr_id ` set (requests db)"
  shows "ledger_error e"
proof -
  obtain request where "find (\<lambda>r. rr_id r = cl_request_id c) (requests db) = Some request"
    using assms(3) by (cases "find (\<lambda>r. rr_id r = cl_request_id c) (requests db)") (auto dest: find_NoneD)
  with assms(1,2) show ?thesis
    by (auto simp: finish_def nothing_left_remaining bindE_eq_Inl update_request_def dest: cascade_audit_error split: if_split_asm)
qed

lemma completed_evolves:
  assumes "update_request i (completed now) db = Inr db'"
  shows "evolves sha db db'"
  by (rule update_request_evolves [OF assms]) (simp_all add: request_le_def completed_def)

lemma update_request_frame [frame]:
  assumes "update_request i f db = Inr db'"
  shows "events db' = events db" "tokens db' = tokens db" "voice_models db' = voice_models db" "audio_artifacts db' = audio_artifacts db"
    "deliveries db' = deliveries db" "grants db' = grants db" "requests db' = update_rows (\<lambda>r. rr_id r = i) f (requests db)"
  using assms by (auto simp: update_request_def split: if_splits)

lemma finish_evolves: "finish sha now now' gid c report db = Inr (db', u) \<Longrightarrow> evolves sha db db'"
  by (erule finish_Inr) (blast intro: evolves_trans completed_evolves cascade_audit_evolves)

lemma nothing_left_shrinks: "nothing_left db gid \<Longrightarrow> shrinks gid db db' \<Longrightarrow> nothing_left db' gid"
  by (simp add: nothing_left_def shrinks_def)

lemma finish_establishes:
  assumes "finish sha now now' gid c report db = Inr (db', u)"
  shows "nothing_left db' gid" and "\<exists>r \<in> set (requests db'). rr_id r = cl_request_id c \<and> rr_status r = COMPLETE"
proof -
  obtain request db1 where left: "nothing_left db gid" and found: "find (\<lambda>r. rr_id r = cl_request_id c) (requests db) = Some request"
    and upd: "update_request (rr_id request) (completed now) db = Inr db1"
    and audit: "cascade_audit sha now' gid (cl_profile_id c) REVOCATION_CASCADE_COMPLETED (completion_payload request report) db1 = Inr db'"
    using assms by (rule finish_Inr)
  note frame = update_request_frame [OF upd] cascade_audit_frame [OF audit]
  have "shrinks gid db db'"
    by (rule shrinks_frame) (simp_all add: frame)
  with left show "nothing_left db' gid"
    by (rule nothing_left_shrinks)
  have "request \<in> set (requests db)" "rr_id request = cl_request_id c"
    using find_SomeD [OF found] by auto
  then show "\<exists>r \<in> set (requests db'). rr_id r = cl_request_id c \<and> rr_status r = COMPLETE"
    unfolding frame by (intro bexI [of _ "completed now request"]) (simp add: completed_def, force simp: in_update_rows)
qed

lemma revoke_step_eq:
  assumes "revoke_step clk gid w = (w', r)"
  shows "shrinks gid (w_db w) (w_db w')" "w_store w' = w_store w" "requests (w_db w') = requests (w_db w)"
    "evolves sha (w_db w) (w_db w')" "live_tokens (w_db w') gid = []" "r \<noteq> Inl e"
proof -
  have w': "w_db w' = fst (revoke_grant_tokens gid (clk (w_ticks w)) (w_db w))" and "r \<noteq> Inl e" and "w_store w' = w_store w"
    using assms by (auto simp: revoke_step_def Let_def commit_def split: prod.split_asm)
  then show "r \<noteq> Inl e" "w_store w' = w_store w" by simp_all
  show "shrinks gid (w_db w) (w_db w')" "requests (w_db w') = requests (w_db w)" "evolves sha (w_db w) (w_db w')"
    unfolding w' by (simp_all add: shrinks_tokens revoke_grant_tokens_frame revoke_grant_tokens_evolves)
  show "live_tokens (w_db w') gid = []"
    unfolding w' live_tokens_def using revoke_grant_tokens_none_left by (auto simp: filter_empty_conv)
qed

text \<open>Before the final check: every loop has emptied its part, and the later loops kept it empty.\<close>

lemma cascade_body_left:
  assumes "revoke_step clk gid w = (w1, Inr n1)" and "cancel_deliveries sha clk gid p w1 = (w2, Inr n2)"
    and "delete_artifacts erase sha clk gid p AUDIO_ARTIFACT w2 = (w3, Inr n3)"
    and "delete_artifacts erase sha clk gid p VOICE_MODEL w3 = (w4, Inr n4)"
  shows "nothing_left (w_db w4) gid"
proof -
  note s2 = cancel_deliveries_frame(1) [OF assms(2)] and s3 = delete_artifacts_frame(1) [OF assms(3)]
    and s4 = delete_artifacts_frame(1) [OF assms(4)]
  have "live_tokens (w_db w1) gid = []" "pending_deliveries (w_db w2) gid = []"
    "live_artifacts AUDIO_ARTIFACT (w_db w3) gid = []" "live_artifacts VOICE_MODEL (w_db w4) gid = []"
    by (rule revoke_step_eq(5) [OF assms(1)] cancel_deliveries_empties [OF assms(2)] delete_artifacts_empties [OF assms(3)]
        delete_artifacts_empties [OF assms(4)])+
  moreover have "shrinks gid (w_db w1) (w_db w4)" "shrinks gid (w_db w2) (w_db w4)"
    using s2 s3 s4 shrinks_trans by blast+
  moreover have "(\<forall>kind. live_artifacts kind (w_db w4) gid = []) \<longleftrightarrow>
      live_artifacts AUDIO_ARTIFACT (w_db w4) gid = [] \<and> live_artifacts VOICE_MODEL (w_db w4) gid = []"
    by (metis artifact_kind.exhaust)
  moreover have "shrinks gid (w_db w3) (w_db w4)"
    by (rule s4)
  ultimately show ?thesis
    unfolding nothing_left_def shrinks_def by (metis set_empty subset_empty)
qed

lemma cascade_body_facts:
  assumes "cascade_body erase sha clk gid c w = (w', r)"
  shows "evolves sha (w_db w) (w_db w')"
    and "r = Inr report \<Longrightarrow> nothing_left (w_db w') gid \<and> \<not> rp_already_complete report \<and>
           (\<exists>q \<in> set (requests (w_db w')). rr_id q = cl_request_id c \<and> rr_status q = COMPLETE)"
    and "r = Inl e \<Longrightarrow> cl_request_id c \<in> rr_id ` set (requests (w_db w)) \<Longrightarrow> ledger_error e \<or> (\<exists>k s. erase s k = Inl e)"
    and "r = Inl e \<Longrightarrow> requests (w_db w') = requests (w_db w)"
proof -
  obtain w1 n1 where r1: "revoke_step clk gid w = (w1, Inr n1)"
    using revoke_step_eq(6) by (metis sum.exhaust surj_pair)
  note e1 = revoke_step_eq [OF r1]
  obtain w2 r2 where r2: "cancel_deliveries sha clk gid (cl_profile_id c) w1 = (w2, r2)"
    by (cases "cancel_deliveries sha clk gid (cl_profile_id c) w1")
  note e2 = cancel_deliveries_frame [OF r2]
  obtain w3 r3 where r3: "delete_artifacts erase sha clk gid (cl_profile_id c) AUDIO_ARTIFACT w2 = (w3, r3)"
    by (cases "delete_artifacts erase sha clk gid (cl_profile_id c) AUDIO_ARTIFACT w2")
  note e3 = delete_artifacts_frame [OF r3]
  obtain w4 r4 where r4: "delete_artifacts erase sha clk gid (cl_profile_id c) VOICE_MODEL w3 = (w4, r4)"
    by (cases "delete_artifacts erase sha clk gid (cl_profile_id c) VOICE_MODEL w3")
  note e4 = delete_artifacts_frame [OF r4]
  have ev: "evolves sha (w_db w) (w_db w1)" "evolves sha (w_db w) (w_db w2)" "evolves sha (w_db w) (w_db w3)"
      "evolves sha (w_db w) (w_db w4)"
    using e1(4) e2(4) e3(3) e4(3) evolves_trans by blast+
  have req: "requests (w_db w1) = requests (w_db w)" "requests (w_db w2) = requests (w_db w)"
      "requests (w_db w3) = requests (w_db w)" "requests (w_db w4) = requests (w_db w)"
    using e1(3) e2(3) e3(2) e4(2) by simp_all
  consider (two) e where "r2 = Inl e" | (three) n2 e where "r2 = Inr n2" "r3 = Inl e"
    | (four) n2 n3 e where "r2 = Inr n2" "r3 = Inr n3" "r4 = Inl e"
    | (all) n2 n3 n4 where "r2 = Inr n2" "r3 = Inr n3" "r4 = Inr n4"
    by (cases r2; cases r3; cases r4) auto
  then have "evolves sha (w_db w) (w_db w') \<and>
      (\<forall>report. r = Inr report \<longrightarrow> nothing_left (w_db w') gid \<and> \<not> rp_already_complete report \<and>
         (\<exists>q \<in> set (requests (w_db w')). rr_id q = cl_request_id c \<and> rr_status q = COMPLETE)) \<and>
      (\<forall>e. r = Inl e \<longrightarrow> requests (w_db w') = requests (w_db w) \<and>
         (cl_request_id c \<in> rr_id ` set (requests (w_db w)) \<longrightarrow> ledger_error e \<or> (\<exists>k s. erase s k = Inl e)))"
  proof cases
    case two
    then have "w' = w2 \<and> r = Inl e"
      using assms by (simp add: cascade_body_def Let_def r1 r2)
    then show ?thesis
      using two e2(5) ev req by simp
  next
    case three
    then have "w' = w3 \<and> r = Inl e"
      using assms r2 r3 by (simp add: cascade_body_def Let_def r1)
    then show ?thesis
      using three e3(4) ev req by simp
  next
    case four
    then have "w' = w4 \<and> r = Inl e"
      using assms r2 r3 r4 by (simp add: cascade_body_def Let_def r1)
    then show ?thesis
      using four e4(4) ev req by simp
  next
    case all
    have left: "nothing_left (w_db w4) gid"
      by (rule cascade_body_left [OF r1]) (use r2 r3 r4 all in simp_all)
    define report where "report = \<lparr> rp_grant_id = gid, rp_already_complete = False, rp_tokens = n1, rp_deliveries = n2,
                     rp_audio = n3, rp_voice = n4 \<rparr>"
    define f where "f = finish sha (clk (w_ticks w4)) (clk (w_ticks w4 + 1)) gid c report (w_db w4)"
    have body: "and_then (commit (ticked 2 w4) f) (\<lambda>w5 _. (w5, Inr report)) = (w', r)"
      using assms r2 r3 r4 all by (simp add: cascade_body_def Let_def r1 f_def report_def)
    show ?thesis
    proof (cases f)
      case (Inl e)
      with body have "w' = ticked 2 w4" "r = Inl e"
        by (simp_all add: commit_def)
      then show ?thesis
        using finish_Inl [OF Inl [unfolded f_def] left] ev(4) req(4) by simp
    next
      case (Inr x)
      then obtain db' u where x: "f = Inr (db', u)"
        by (cases x) simp
      with body have "w_db w' = db'" "r = Inr report"
        by (auto simp: commit_def)
      moreover have "evolves sha (w_db w) db'"
        using ev(4) finish_evolves [OF x [unfolded f_def]] by (rule evolves_trans)
      ultimately show ?thesis
        using finish_establishes [OF x [unfolded f_def]] by (simp add: report_def)
    qed
  qed
  then show "evolves sha (w_db w) (w_db w')"
    and "r = Inr report \<Longrightarrow> nothing_left (w_db w') gid \<and> \<not> rp_already_complete report \<and>
           (\<exists>q \<in> set (requests (w_db w')). rr_id q = cl_request_id c \<and> rr_status q = COMPLETE)"
    and "r = Inl e \<Longrightarrow> cl_request_id c \<in> rr_id ` set (requests (w_db w)) \<Longrightarrow> ledger_error e \<or> (\<exists>k s. erase s k = Inl e)"
    and "r = Inl e \<Longrightarrow> requests (w_db w') = requests (w_db w)"
    by blast+
qed

lemma request_row_checks: "rows_ok db \<Longrightarrow> r \<in> set (requests db) \<Longrightarrow> request_check r"
  by (simp add: rows_ok_defs)

lemma update_request_total:
  assumes "\<And>r. r \<in> set (requests db) \<Longrightarrow> rr_id r = i \<Longrightarrow> request_check (f r)"
  shows "update_request i f db = Inr (db\<lparr>requests := update_rows (\<lambda>r. rr_id r = i) f (requests db)\<rparr>)"
  using assms by (auto simp: update_request_def)

lemma request_for_Inr:
  assumes "request_for rid grant now db = Inr (db', r)"
  shows "evolves sha db db'" and "r \<in> set (requests db')" and "rr_grant_id r = g_id grant"
    and "rr_status r = COMPLETE \<Longrightarrow> db' = db"
proof -
  have "evolves sha db db' \<and> r \<in> set (requests db') \<and> rr_grant_id r = g_id grant \<and> (rr_status r = COMPLETE \<longrightarrow> db' = db)"
  proof (cases "get_request db (g_id grant)")
    case None
    then have ins: "insert_request (late_request rid grant now) db = Inr db'" and r: "r = late_request rid grant now"
      using assms by (auto simp: request_for_def bindE_eq_Inr)
    then have "requests db' = requests db @ [r]"
      by (auto simp: insert_request_def split: if_splits)
    with insert_evolves(5) [OF ins] show ?thesis
      by (simp add: r late_request_def)
  next
    case (Some q)
    with assms show ?thesis
      using get_request_SomeD [OF Some] by (simp add: request_for_def)
  qed
  then show "evolves sha db db'" "r \<in> set (requests db')" "rr_grant_id r = g_id grant" "rr_status r = COMPLETE \<Longrightarrow> db' = db"
    by blast+
qed

lemma processing_evolves:
  assumes "update_request i (processing now) db = Inr db'" and "\<And>r. rows_ok db \<Longrightarrow> r \<in> set (requests db) \<Longrightarrow> rr_id r = i \<Longrightarrow> rr_status r \<noteq> COMPLETE"
  shows "evolves sha db db'"
  by (rule update_request_evolves [OF assms(1)]) (simp_all add: request_le_def processing_def assms(2))

lemma request_id_unique:
  "rows_ok db \<Longrightarrow> r \<in> set (requests db) \<Longrightarrow> q \<in> set (requests db) \<Longrightarrow> rr_id r = rr_id q \<Longrightarrow> r = q"
  "rows_ok db \<Longrightarrow> r \<in> set (requests db) \<Longrightarrow> q \<in> set (requests db) \<Longrightarrow> rr_grant_id r = rr_grant_id q \<Longrightarrow> r = q"
  by (simp_all add: rows_ok_defs distinct_map inj_on_def)

lemma claim_Inr:
  assumes "claim gid rid now db = Inr (db', c)" and sound: "sound sha db"
  shows "evolves sha db db'" and "\<not> cl_proceed c \<Longrightarrow> db' = db"
    and "\<exists>r \<in> set (requests db'). rr_id r = cl_request_id c \<and> rr_grant_id r = gid \<and> (cl_proceed c \<longleftrightarrow> rr_status r \<noteq> COMPLETE)"
    and "\<exists>grant. get_grant db gid = Some grant \<and> g_revoked_at grant \<noteq> None \<and> cl_profile_id c = g_profile_id grant"
proof -
  obtain grant db1 r where grant: "get_grant db gid = Some grant" "g_revoked_at grant \<noteq> None"
    and req: "request_for rid grant now db = Inr (db1, r)"
    and c: "cl_profile_id c = g_profile_id grant" "cl_request_id c = rr_id r" "cl_proceed c \<longleftrightarrow> rr_status r \<noteq> COMPLETE"
    and rest: "if rr_status r = COMPLETE then db' = db1 else update_request (rr_id r) (processing now) db1 = Inr db'"
    using assms(1) unfolding claim_def by (auto simp: bindE_eq_Inr split: option.split_asm if_split_asm)
  note r = request_for_Inr [OF req]
  have gid: "g_id grant = gid"
    using get_grant_SomeD [OF grant(1)] by simp
  have rows: "rows_ok db1"
    using r(1) [of sha] sound by (simp add: evolves_def sound_def)
  show "\<exists>grant. get_grant db gid = Some grant \<and> g_revoked_at grant \<noteq> None \<and> cl_profile_id c = g_profile_id grant"
    using grant c by blast
  show "evolves sha db db'"
  proof (cases "rr_status r = COMPLETE")
    case False
    then have "evolves sha db1 db'"
      using rest r(2) rows request_id_unique(1) by (intro processing_evolves [of "rr_id r" now]) (simp, blast)
    with r(1) show ?thesis
      by (rule evolves_trans)
  qed (use r(1) rest in simp)
  show "\<not> cl_proceed c \<Longrightarrow> db' = db"
    using c rest r(4) by simp
  show "\<exists>r \<in> set (requests db'). rr_id r = cl_request_id c \<and> rr_grant_id r = gid \<and> (cl_proceed c \<longleftrightarrow> rr_status r \<noteq> COMPLETE)"
  proof (cases "rr_status r = COMPLETE")
    case True
    then show ?thesis
      using rest r(2,3) c gid by auto
  next
    case False
    then have "requests db' = update_rows (\<lambda>q. rr_id q = rr_id r) (processing now) (requests db1)"
      using rest update_request_frame(7) by simp
    then have "processing now r \<in> set (requests db')"
      using r(2) by (force simp: in_update_rows)
    then show ?thesis
      using False c r(3) gid by (intro bexI [of _ "processing now r"]) (simp_all add: processing_def)
  qed
qed

lemma claim_Inl:
  assumes "claim gid rid now db = Inl e" and sound: "sound sha db" and fresh: "rid \<notin> rr_id ` set (requests db)"
  shows "\<exists>m. e = PermanentCascadeError m" and "get_grant db gid = Some grant \<Longrightarrow> g_revoked_at grant = None"
proof -
  have "(\<exists>m. e = PermanentCascadeError m) \<and> (\<forall>grant. get_grant db gid = Some grant \<longrightarrow> g_revoked_at grant = None)"
  proof (cases "get_grant db gid")
    case None
    with assms show ?thesis by (auto simp: claim_def)
  next
    case (Some grant)
    note grant = get_grant_SomeD [OF Some]
    have "\<exists>x. request_for rid grant now db = Inr x"
    proof (cases "get_request db (g_id grant)")
      case None
      then have "g_id grant \<notin> rr_grant_id ` set (requests db)"
        by (auto simp: get_request_def dest: find_NoneD)
      then show ?thesis
        using None fresh grant by (auto simp: request_for_def insert_request_def late_request_def request_check_def)
    qed (simp add: request_for_def)
    then obtain db1 r where req: "request_for rid grant now db = Inr (db1, r)"
      by auto
    note r = request_for_Inr [OF req]
    have rows: "rows_ok db1"
      using r(1) [of sha] sound by (simp add: evolves_def sound_def)
    have "rr_status r \<noteq> COMPLETE \<Longrightarrow> \<exists>db2. update_request (rr_id r) (processing now) db1 = Inr db2"
      using request_row_checks [OF rows] request_id_unique(1) [OF rows] r(2)
      by (subst update_request_total) (metis request_checks(2), simp)
    then have "g_revoked_at grant = None"
      using assms(1) Some req by (auto simp: claim_def split: if_split_asm)
    with assms(1) Some show ?thesis
      by (auto simp: claim_def)
  qed
  then show "\<exists>m. e = PermanentCascadeError m" "get_grant db gid = Some grant \<Longrightarrow> g_revoked_at grant = None"
    by blast+
qed

definition no_work :: "uuid \<Rightarrow> cascade_report" where
  "no_work gid = \<lparr> rp_grant_id = gid, rp_already_complete = True, rp_tokens = 0, rp_deliveries = 0, rp_audio = 0, rp_voice = 0 \<rparr>"

lemma run_cascade_cases:
  assumes "run_cascade erase sha clk rid gid w = (w', r)"
  obtains (refused) e where "claim gid rid (clk (w_ticks w)) (w_db w) = Inl e" "r = Inl e" "w' = ticked 1 w"
  | (again) db c where "claim gid rid (clk (w_ticks w)) (w_db w) = Inr (db, c)" "\<not> cl_proceed c" "r = Inr (no_work gid)"
      "w' = (ticked 1 w)\<lparr>w_db := db\<rparr>"
  | (returned) db c report where "claim gid rid (clk (w_ticks w)) (w_db w) = Inr (db, c)" "cl_proceed c" "r = Inr report"
      "cascade_body erase sha clk gid c ((ticked 1 w)\<lparr>w_db := db\<rparr>) = (w', Inr report)"
  | (raised) db c w2 e where "claim gid rid (clk (w_ticks w)) (w_db w) = Inr (db, c)" "cl_proceed c"
      "cascade_body erase sha clk gid c ((ticked 1 w)\<lparr>w_db := db\<rparr>) = (w2, Inl e)"
      "case record_failure (cl_request_id c) e (clk (w_ticks w2)) (w_db w2) of
         Inl e' \<Rightarrow> r = Inl e' \<and> w' = ticked 1 w2 | Inr (db', _) \<Rightarrow> r = Inl e \<and> w' = (ticked 1 w2)\<lparr>w_db := db'\<rparr>"
proof (cases "claim gid rid (clk (w_ticks w)) (w_db w)")
  case (Inl e)
  with assms show thesis
    by (intro refused) (auto simp: run_cascade_def commit_def)
next
  case (Inr x)
  then obtain db c where claim: "claim gid rid (clk (w_ticks w)) (w_db w) = Inr (db, c)"
    by (cases x) simp
  show thesis
  proof (cases "cl_proceed c")
    case False
    with assms claim show thesis
      by (intro again) (auto simp: run_cascade_def commit_def no_work_def)
  next
    case True
    obtain w2 s where body: "cascade_body erase sha clk gid c ((ticked 1 w)\<lparr>w_db := db\<rparr>) = (w2, s)"
      by (cases "cascade_body erase sha clk gid c ((ticked 1 w)\<lparr>w_db := db\<rparr>)")
    show thesis
    proof (cases s)
      case (Inl e)
      with assms claim True body show thesis
        by (intro raised) (auto simp: run_cascade_def commit_def split: sum.split_asm)
    next
      case (Inr report)
      with assms claim True body show thesis
        by (intro returned) (auto simp: run_cascade_def commit_def)
    qed
  qed
qed

lemma record_failure_Inr:
  assumes "rows_ok db"
  shows "\<exists>db'. record_failure rid e now db = Inr (db', ()) \<and> evolves sha db db'"
proof (cases "find (\<lambda>r. rr_id r = rid) (requests db)")
  case (Some q)
  show ?thesis
  proof (cases "rr_status q = COMPLETE")
    case False
    have upd: "update_request rid (\<lambda>r. r\<lparr>rr_last_error := Some e, rr_updated_at := now\<rparr>) db =
        Inr (db\<lparr>requests := update_rows (\<lambda>r. rr_id r = rid) (\<lambda>r. r\<lparr>rr_last_error := Some e, rr_updated_at := now\<rparr>) (requests db)\<rparr>)"
      by (rule update_request_total) (simp add: request_row_checks [OF assms])
    have "evolves sha db (db\<lparr>requests := update_rows (\<lambda>r. rr_id r = rid) (\<lambda>r. r\<lparr>rr_last_error := Some e, rr_updated_at := now\<rparr>) (requests db)\<rparr>)"
      by (rule update_request_evolves [OF upd]) (simp_all add: request_le_def)
    with False Some upd show ?thesis
      by (simp add: record_failure_def)
  qed (use Some in \<open>simp add: record_failure_def\<close>)
qed (simp add: record_failure_def)

lemma run_cascade_evolves [ledger_ext]:
  assumes "run_cascade erase sha clk rid gid w = (w', r)"
  shows "evolves sha (w_db w) (w_db w')"
proof (cases "sound sha (w_db w)")
  case True
  show ?thesis
    using assms
  proof (cases rule: run_cascade_cases)
    case (again db c)
    then show ?thesis
      using claim_Inr(1) True by simp
  next
    case (returned db c report)
    then show ?thesis
      using claim_Inr(1) [OF returned(1) True] cascade_body_facts(1) [OF returned(4)] by (auto intro: evolves_trans)
  next
    case (raised db c w2 e)
    have ev: "evolves sha (w_db w) (w_db w2)"
      using claim_Inr(1) [OF raised(1) True] cascade_body_facts(1) [OF raised(3)] by (auto intro: evolves_trans)
    then have "rows_ok (w_db w2)"
      using True by (simp add: evolves_def sound_def)
    then obtain db' where "record_failure (cl_request_id c) e (clk (w_ticks w2)) (w_db w2) = Inr (db', ())" "evolves sha (w_db w2) db'"
      using record_failure_Inr by blast
    with raised(4) evolves_trans [OF ev] show ?thesis
      by simp
  qed simp
qed (simp add: evolves_def)

text \<open>A run that returns has left nothing of the grant alive, and the request is complete.\<close>

lemma run_cascade_returns:
  assumes "run_cascade erase sha clk rid gid w = (w', Inr report)" and sound: "sound sha (w_db w)"
  shows "\<exists>q \<in> set (requests (w_db w')). rr_grant_id q = gid \<and> rr_status q = COMPLETE"
    and "\<not> rp_already_complete report \<Longrightarrow> nothing_left (w_db w') gid"
proof -
  have "(\<exists>q \<in> set (requests (w_db w')). rr_grant_id q = gid \<and> rr_status q = COMPLETE) \<and>
      (\<not> rp_already_complete report \<longrightarrow> nothing_left (w_db w') gid)"
    using assms(1)
  proof (cases rule: run_cascade_cases)
    case (again db c)
    then show ?thesis
      using claim_Inr(3) [OF again(1) sound] by (auto simp: no_work_def)
  next
    case (returned db c report')
    obtain r where r: "r \<in> set (requests db)" "rr_id r = cl_request_id c" "rr_grant_id r = gid"
      using claim_Inr(3) [OF returned(1) sound] by blast
    note body = cascade_body_facts [OF returned(4)]
    have snd: "sound sha db"
      using claim_Inr(1) [OF returned(1) sound] sound by (simp add: evolves_def)
    then have "sound sha (w_db w')" "prefix_le request_le (requests db) (requests (w_db w'))"
      using body(1) by (simp_all add: evolves_def rows_evolve_def)
    then obtain r' where "r' \<in> set (requests (w_db w'))" "request_le r r'" and rows: "rows_ok (w_db w')"
      using prefix_le_in r(1) sound_def by metis
    moreover obtain q where "q \<in> set (requests (w_db w'))" "rr_id q = cl_request_id c" "rr_status q = COMPLETE"
      using body(2) by blast
    ultimately have "r' = q"
      using request_id_unique(1) r(2) by (metis request_le_def)
    then show ?thesis
      using \<open>request_le r r'\<close> \<open>q \<in> _\<close> \<open>rr_status q = COMPLETE\<close> r(3) body(2) returned(3) by (auto simp: request_le_def)
  qed (auto split: sum.split_asm)
  then show "\<exists>q \<in> set (requests (w_db w')). rr_grant_id q = gid \<and> rr_status q = COMPLETE"
    and "\<not> rp_already_complete report \<Longrightarrow> nothing_left (w_db w') gid"
    by blast+
qed

end
