(* ===== verification/Samples.thy ===== *)
theory Samples imports Payloads Grant_Life Cascade_Facts begin

text \<open>
  Concrete data on which the properties are exercised: a digest, a profile with one verified grant, an
  heir who holds it, a JWT library whose tokens are fixed, a sealed event and a forged copy of it.
\<close>

section \<open>Ledger rows\<close>

definition flat_sha :: "pstr \<Rightarrow> pstr" where
  "flat_sha s = replicate 64 49"

lemma length_flat_sha [simp]: "length (flat_sha s) = 64"
  by (simp add: flat_sha_def)

definition first_record :: event_record where
  "first_record = \<lparr> er_id = 1, er_event_type = lit ''PROFILE_CREATED'', er_actor_id = lit ''heir'', er_grant_id = None,
     er_profile_id = 7, er_payload = JObj [], er_previous_hash = genesis_hash, er_event_hash = replicate 64 49,
     er_created_at = 0 \<rparr>"

definition forged_record :: event_record where
  "forged_record = first_record\<lparr>er_actor_id := lit ''thief''\<rparr>"

text \<open>A digest that tells the forged row from the genuine one.\<close>

definition keen_sha :: "pstr \<Rightarrow> pstr" where
  "keen_sha s = (if s = record_text forged_record then replicate 64 50 else replicate 64 49)"

lemma genesis_encodable: "encodable genesis_hash"
  by (rule encodable_small) (simp add: genesis_hash_def)

lemma sample_texts:
  "encodable (record_text first_record)" "encodable (record_text forged_record)"
  "record_text first_record \<noteq> record_text forged_record"
proof -
  show "encodable (record_text first_record)" "encodable (record_text forged_record)"
    by (rule clean_record; simp add: first_record_def forged_record_def encodable_lit genesis_encodable)+
  show "record_text first_record \<noteq> record_text forged_record"
    by (simp add: record_text_eq_iff same_content_def first_record_def forged_record_def)
qed

lemma first_record_valid:
  assumes "sha (record_text first_record) = replicate 64 49"
  shows "chain_valid sha (of_profile i [first_record])"
  using assms sample_texts(1)
  by (auto simp: of_profile_def chain_valid_def recomputed_hash_text hash_text_def)
    (simp_all add: first_record_def)

section \<open>A profile and a grant\<close>

definition heir :: actor where
  "heir = \<lparr> ac_user_id = lit ''heir'', ac_email = None, ac_kind = HUMAN, ac_is_admin = False \<rparr>"

definition operator :: actor where
  "operator = \<lparr> ac_user_id = lit ''operator'', ac_email = None, ac_kind = HUMAN, ac_is_admin = True \<rparr>"

definition sample_profile :: deceased_profile where
  "sample_profile = \<lparr> p_id = 7, p_full_name = lit ''Ada'', p_date_of_birth = None, p_date_of_death = Some 100,
     p_jurisdiction = lit ''US-CA'', p_created_at = 0 \<rparr>"

definition sample_grant :: consent_grant where
  "sample_grant = \<lparr> g_id = 8, g_profile_id = 7, g_grantor_type = EXECUTOR, g_grantor_user_id = lit ''heir'',
     g_grantor_legal_name = lit ''Heir'', g_grantor_contact_email = lit ''heir@example.org'',
     g_document_url = lit ''https://example.org/will'', g_verified_at = Some 5, g_verified_by = Some (lit ''operator''),
     g_purpose_scope = {PS_MEMORIAL_VIEW, PS_VOICE_SYNTHESIS}, g_required_acks = None, g_is_active = True,
     g_granted_at = 0, g_revoked_at = None, g_revocation_reason = None \<rparr>"

definition live_token :: auth_token where
  "live_token = \<lparr> at_jti = 30, at_grant_id = Some 8, at_profile_id = 7, at_action = INITIATE_VOICE_SYNTHESIS,
     at_purpose = lit ''VOICE_SYNTHESIS'', at_actor_id = lit ''heir'', at_issued_at = 0, at_expires_at = 300 * second,
     at_revoked_at = None \<rparr>"

definition sample_db :: consent_db where
  "sample_db = empty_db\<lparr> profiles := [sample_profile], grants := [sample_grant], tokens := [live_token] \<rparr>"

definition sample_env :: request_env where
  "sample_env = \<lparr> clock_at = (\<lambda>n. 10 * second), fresh = (\<lambda>n. 40) \<rparr>"

lemma sample_sound: "sound sha sample_db"
proof -
  have "rows_ok sample_db"
    by (simp add: rows_ok_defs sample_db_def empty_db_def sample_profile_def sample_grant_def live_token_def
        profile_check_def grant_check_def token_check_def)
  then show ?thesis
    by (simp add: sound_def ledger_ok_def event_rows_ok_def profile_events_def sample_db_def empty_db_def)
qed

end
