(* ===== verification/Ledger_Properties.thy ===== *)
theory Ledger_Properties imports Samples begin

text \<open>
  The properties of the audit ledger (\<open>app/consent/audit.py\<close>): what the verifier accepts, what one
  edited row produces, what an anchor fixes, what an append preserves and when it succeeds.
\<close>

text \<open>The canonical text of a document determines the document: two JSON documents have the same
  canonical text exactly when they differ at most in the order of the items of their objects.\<close>

theorem canonical_text_determines: "canonical_json v = canonical_json w \<longleftrightarrow> canon v = canon w"
  by simp

text \<open>C9. The single-pass verifier agrees with the declarative reading of the ledger: it reports no
  error exactly when the chain of every profile starts at the genesis hash, links each event to the
  digest before it, recomputes to the stored digests and never goes back in time.\<close>

theorem verifier_correct:
  "(\<exists>r. verify_chain sha es [] = Inr r \<and> report_ok r) \<longleftrightarrow> (\<forall>i. chain_valid sha (of_profile i es))"
  by (rule verify_chain_plain)

text \<open>One edited row, with every digest left as it was, gives exactly one error, a hash mismatch at
  that row: the verifier resumes from the stored digest.\<close>

theorem one_edit_one_error:
  assumes "\<And>i. chain_valid sha (of_profile i (xs @ e # ys))" and "edited e e'"
    and "recomputed_hash sha e' = Inr h" and "h \<noteq> er_event_hash e'"
  shows "\<exists>r. verify_chain sha (xs @ e' # ys) [] = Inr r \<and>
    cr_errors r = [\<lparr> ce_profile_id = er_profile_id e, ce_event_id = Some (er_id e),
      ce_kind = HASH_MISMATCH, ce_detail = lit ''row contents do not match event_hash'' \<rparr>]"
  using assms by (rule verify_chain_edited)

theorem one_edit_one_error_witness:
  "\<exists>r. verify_chain keen_sha ([] @ forged_record # []) [] = Inr r \<and>
    cr_errors r = [\<lparr> ce_profile_id = 7, ce_event_id = Some 1,
      ce_kind = HASH_MISMATCH, ce_detail = lit ''row contents do not match event_hash'' \<rparr>]"
proof -
  have "keen_sha (record_text first_record) = replicate 64 49"
    using sample_texts(3) by (simp add: keen_sha_def)
  then have "\<And>i. chain_valid keen_sha (of_profile i ([] @ first_record # []))"
    using first_record_valid by simp
  moreover have "edited first_record forged_record"
    by (simp add: edited_def forged_record_def)
  moreover have "recomputed_hash keen_sha forged_record = Inr (replicate 64 50)"
    using sample_texts(2) by (simp add: recomputed_hash_text hash_text_def keen_sha_def)
  moreover have "replicate 64 50 \<noteq> er_event_hash forged_record"
    by (simp add: forged_record_def first_record_def)
  moreover have "er_profile_id first_record = 7" "er_id first_record = 1"
    by (simp_all add: first_record_def)
  ultimately show ?thesis
    using one_edit_one_error [of keen_sha "[]" first_record "[]" forged_record "replicate 64 50"] by simp
qed

text \<open>C10. Anchors fix the past: when a ledger verified clean and a later copy verifies clean against the
  anchors taken then, every chain of the first is, field by field, a prefix of the chain of the second,
  unless the digest collides on the texts at hand. So truncating or rewriting the past is detected.\<close>

theorem anchors_fix_the_past:
  assumes "verify_chain sha es [] = Inr r" and "report_ok r"
    and "verify_chain sha es' (report_anchors r) = Inr r'" and "report_ok r'"
    and "inj_on sha (record_text ` (set es \<union> set es'))"
  shows "list_all2 same_content (of_profile i es) (take (length (of_profile i es)) (of_profile i es'))"
  using assms by (rule anchors_fix_past)

theorem anchors_fix_the_past_witness:
  "\<exists>r r'. verify_chain flat_sha [first_record] [] = Inr r \<and>
    verify_chain flat_sha [first_record] (report_anchors r) = Inr r' \<and> report_ok r' \<and>
    list_all2 same_content (of_profile 7 [first_record]) (take (length (of_profile 7 [first_record])) (of_profile 7 [first_record]))"
proof -
  have valid: "chain_valid flat_sha (of_profile i [first_record])" for i
    by (rule first_record_valid) (simp add: flat_sha_def)
  then obtain r where r: "verify_chain flat_sha [first_record] [] = Inr r" "report_ok r"
    using verify_chain_plain by blast
  have "moored a (of_profile i [first_record])" if "(i, a) \<in> set (report_anchors r)" for i a
  proof -
    have chains: "cr_chains r = [(7, next_summary new_summary first_record)]"
      using r(1) by (auto simp: verify_chain_def bindE_eq_Inr verify_event_def summary_of_def empty_report_def
          Let_def first_record_def)
    show ?thesis
      using that by (simp add: report_anchors_def chains moored_def of_profile_def next_summary_def new_summary_def
          first_record_def)
  qed
  then have "\<exists>r'. verify_chain flat_sha [first_record] (report_anchors r) = Inr r' \<and> report_ok r'"
    using verify_chain_correct [OF report_anchors_distinct [OF r(1)]] valid by blast
  then obtain r' where r': "verify_chain flat_sha [first_record] (report_anchors r) = Inr r'" "report_ok r'"
    by blast
  have "inj_on flat_sha (record_text ` (set [first_record] \<union> set [first_record]))"
    by simp
  from r(1) r' anchors_fix_the_past [OF r r' this, of 7] show ?thesis by blast
qed

text \<open>C33. Appending an event keeps every chain valid, adds exactly that event at the end, gives it the
  actor, type, profile and grant asked for, and never dates it before the head of its chain or before
  the clock.\<close>

theorem append_keeps_ledger:
  assumes "append_event sha now t a i g p db = Inr (db', e)" and "ledger_ok sha db"
  shows "ledger_ok sha db' \<and> events db' = events db @ [e] \<and> ae_type e = t \<and> ae_actor_id e = a \<and>
    ae_profile_id e = i \<and> ae_grant_id e = g \<and> now \<le> ae_created_at e \<and>
    (case chain_head db i of Some h \<Rightarrow> ae_created_at h \<le> ae_created_at e \<and> ae_previous_hash e = ae_hash h
      | None \<Rightarrow> ae_previous_hash e = genesis_hash)"
proof -
  note new = append_event_Inr [OF assms(1)]
  have "case chain_head db i of Some h \<Rightarrow> ae_created_at h \<le> ae_created_at e \<and> ae_previous_hash e = ae_hash h
      | None \<Rightarrow> ae_previous_hash e = genesis_hash"
    using new(8,11) by (auto split: option.split dest!: chain_head_from simp: head_from_last last_map)
  with new append_event_ledger [OF assms] show ?thesis by simp
qed

theorem append_keeps_ledger_witness:
  "\<exists>db' e. append_event flat_sha 5 DEATH_RECORDED (lit ''operator'') 7 None (PyDict []) sample_db = Inr (db', e) \<and>
    ledger_ok flat_sha db' \<and> events db' = [e]"
proof -
  have "validate_payload (PyDict []) = Inr (JObj [])"
    using validate_payload_accepts [of "[]"] by (simp add: max_payload_bytes_def)
  then have "\<exists>db' e. append_event flat_sha 5 DEATH_RECORDED (lit ''operator'') 7 None (PyDict []) sample_db = Inr (db', e)"
    by (rule first_append [rotated]) (simp_all add: sample_db_def empty_db_def encodable_lit)
  then obtain db' e where app: "append_event flat_sha 5 DEATH_RECORDED (lit ''operator'') 7 None (PyDict []) sample_db = Inr (db', e)"
    by blast
  have "ledger_ok flat_sha sample_db"
    using sample_sound by (simp add: sound_def)
  from app append_keeps_ledger [OF app this] show ?thesis
    by (simp add: sample_db_def empty_db_def)
qed

end
