(* ===== verification/Json_Parse.thy ===== *)
theory Json_Parse imports Text_Json begin

text \<open>
  \<open>json.loads\<close> of the standard library on a \<open>str\<close>: white space, literals, integers, strings with their
  escapes and surrogate pairs, lists and objects (of a repeated key the last value stays). A float, \<open>NaN\<close>
  or \<open>Infinity\<close> has no value in \<open>json\<close> and reads as an error here. The main lemma is the round trip with
  \<open>canonical_json\<close> for the documents Python can hold, whose objects do not repeat a key.
\<close>

section \<open>Scanning\<close>

definition json_space :: "nat \<Rightarrow> bool" where
  "json_space c \<longleftrightarrow> c \<in> {32, 9, 10, 13}"

definition skip :: "pstr \<Rightarrow> pstr" where
  "skip s = dropWhile json_space s"

definition hex_digit :: "nat \<Rightarrow> nat option" where
  "hex_digit c = (if is_digit c then Some (c - 48) else if 97 \<le> c \<and> c \<le> 102 then Some (c - 87)
     else if 65 \<le> c \<and> c \<le> 70 then Some (c - 55) else None)"

definition four_hex :: "pstr \<Rightarrow> (nat \<times> pstr) option" where
  "four_hex s = (case s of
     a # b # c # d # r \<Rightarrow>
       (case (hex_digit a, hex_digit b, hex_digit c, hex_digit d) of
          (Some a, Some b, Some c, Some d) \<Rightarrow> Some (((a * 16 + b) * 16 + c) * 16 + d, r)
        | _ \<Rightarrow> None)
   | _ \<Rightarrow> None)"

text \<open>\<open>\uXXXX\<close>, joined with a low surrogate that follows a high one.\<close>

definition unicode_escape :: "pstr \<Rightarrow> (nat \<times> pstr) option" where
  "unicode_escape s = (case four_hex s of
     None \<Rightarrow> None
   | Some (u, r) \<Rightarrow>
       if 55296 \<le> u \<and> u \<le> 56319 \<and> take 2 r = [92, 117]
       then (case four_hex (drop 2 r) of
               Some (v, r') \<Rightarrow> if 56320 \<le> v \<and> v \<le> 57343 then Some (65536 + (u - 55296) * 1024 + (v - 56320), r') else Some (u, r)
             | None \<Rightarrow> None)
       else Some (u, r))"

definition plain_escape :: "nat \<Rightarrow> nat option" where
  "plain_escape k = map_of [(34, 34), (92, 92), (47, 47), (98, 8), (102, 12), (110, 10), (114, 13), (116, 9)] k"

text \<open>One character of a string literal, after the opening quote.\<close>

definition string_char :: "pstr \<Rightarrow> (nat \<times> pstr) option" where
  "string_char s = (case s of
     [] \<Rightarrow> None
   | c # r \<Rightarrow> if c < 32 then None
       else if c \<noteq> 92 then Some (c, r)
       else (case r of
               [] \<Rightarrow> None
             | k # r' \<Rightarrow> if k = 117 then unicode_escape r' else map_option (\<lambda>d. (d, r')) (plain_escape k)))"

fun scan_string :: "nat \<Rightarrow> pstr \<Rightarrow> (pstr \<times> pstr) option" where
  "scan_string 0 s = None"
| "scan_string (Suc n) s =
     (if s \<noteq> [] \<and> hd s = 34 then Some ([], tl s)
      else (case string_char s of
              None \<Rightarrow> None
            | Some (c, r) \<Rightarrow> map_option (\<lambda>(t, r'). (c # t, r')) (scan_string n r)))"

text \<open>\<open>-?(0|[1-9][0-9]*)\<close>; a fraction or an exponent makes the number a float.\<close>

definition digits_of :: "pstr \<Rightarrow> pstr" where
  "digits_of s = (case s of c # _ \<Rightarrow> if c = 48 then [48] else takeWhile is_digit s | [] \<Rightarrow> [])"

definition is_float :: "pstr \<Rightarrow> bool" where
  "is_float r = (case r of
     c # d # _ \<Rightarrow> (c = 46 \<and> is_digit d) \<or> (c \<in> {69, 101} \<and> (is_digit d \<or> (d \<in> {43, 45} \<and> (case drop 2 r of e # _ \<Rightarrow> is_digit e | [] \<Rightarrow> False))))
   | _ \<Rightarrow> False)"

definition number :: "pstr \<Rightarrow> (json \<times> pstr) option" where
  "number s =
     (let negative = (s \<noteq> [] \<and> hd s = 45); t = (if negative then tl s else s); ds = digits_of t; r = drop (length ds) t in
      if ds = [] \<or> is_float r then None
      else Some (JInt (if negative then - int (dec_value ds) else int (dec_value ds)), r))"

definition word_then :: "string \<Rightarrow> json \<Rightarrow> pstr \<Rightarrow> (json \<times> pstr) option" where
  "word_then w v s = (if starts_with (lit w) s then Some (v, drop (length w) s) else None)"

definition scalar :: "nat \<Rightarrow> pstr \<Rightarrow> (json \<times> pstr) option" where
  "scalar n s = (case s of
     [] \<Rightarrow> None
   | c # r \<Rightarrow> if c = 34 then map_option (\<lambda>(t, r'). (JStr t, r')) (scan_string n r)
       else if c = 110 then word_then ''null'' JNull s
       else if c = 116 then word_then ''true'' (JBool True) s
       else if c = 102 then word_then ''false'' (JBool False) s
       else number s)"

section \<open>Values\<close>

text \<open>\<open>dict(pairs)\<close>: a repeated key keeps its first place and takes its last value.\<close>

definition dict_of :: "(pstr \<times> json) list \<Rightarrow> (pstr \<times> json) list" where
  "dict_of kvs = fold (\<lambda>(k, v) d. AList.update k v d) kvs []"

text \<open>Each call consumes a character, so a fuel of the length of the text is enough.\<close>

fun read_value :: "nat \<Rightarrow> pstr \<Rightarrow> (json \<times> pstr) option"
  and read_elements :: "nat \<Rightarrow> pstr \<Rightarrow> (json list \<times> pstr) option"
  and read_members :: "nat \<Rightarrow> pstr \<Rightarrow> ((pstr \<times> json) list \<times> pstr) option" where
  "read_value 0 s = None"
| "read_value (Suc n) s = (case s of
     [] \<Rightarrow> None
   | c # r \<Rightarrow>
       if c = 91 then (if skip r \<noteq> [] \<and> hd (skip r) = 93 then Some (JList [], tl (skip r))
         else map_option (\<lambda>(vs, r'). (JList vs, r')) (read_elements n (skip r)))
       else if c = 123 then (if skip r \<noteq> [] \<and> hd (skip r) = 125 then Some (JObj [], tl (skip r))
         else map_option (\<lambda>(kvs, r'). (JObj (dict_of kvs), r')) (read_members n (skip r)))
       else scalar n s)"
| "read_elements 0 s = None"
| "read_elements (Suc n) s = (case read_value n s of
     None \<Rightarrow> None
   | Some (v, r) \<Rightarrow> (case skip r of
       [] \<Rightarrow> None
     | c # r' \<Rightarrow> if c = 93 then Some ([v], r')
         else if c = 44 then map_option (\<lambda>(vs, r''). (v # vs, r'')) (read_elements n (skip r'))
         else None))"
| "read_members 0 s = None"
| "read_members (Suc n) s = (case s of
     [] \<Rightarrow> None
   | q # t \<Rightarrow> if q \<noteq> 34 then None
       else (case scan_string n t of
         None \<Rightarrow> None
       | Some (k, r) \<Rightarrow> if skip r = [] \<or> hd (skip r) \<noteq> 58 then None
           else (case read_value n (skip (tl (skip r))) of
             None \<Rightarrow> None
           | Some (v, r1) \<Rightarrow> (case skip r1 of
               [] \<Rightarrow> None
             | c # r2 \<Rightarrow> if c = 125 then Some ([(k, v)], r2)
                 else if c = 44 then map_option (\<lambda>(kvs, r3). ((k, v) # kvs, r3)) (read_members n (skip r2))
                 else None))))"

definition json_loads :: "pstr \<Rightarrow> json option" where
  "json_loads s = (case read_value (length s) (skip s) of
     Some (v, r) \<Rightarrow> if skip r = [] then Some v else None
   | None \<Rightarrow> None)"

section \<open>Reading what \<open>enc\<close> writes\<close>

lemma hex_digit_char: "d < 16 \<Longrightarrow> hex_digit (digit_char d) = Some d"
  by (auto simp: hex_digit_def digit_char_def)

lemma string_char_esc: "string_char (esc c @ x) = Some (c, x)"
proof -
  consider "c \<in> {34, 92, 8, 12, 10, 13, 9}" | "c < 32" "c \<notin> {8, 12, 10, 13, 9}" | "\<not> c < 32" "c \<noteq> 34" "c \<noteq> 92"
    by blast
  then show ?thesis
  proof cases
    case 1
    then show ?thesis
      by (auto simp: string_char_def esc_def plain_escape_def)
  next
    case 2
    then have "esc c = [92, 117, 48, 48, digit_char (c div 16 mod 16), digit_char (c mod 16)]"
      by (simp add: esc_def pad16_2)
    moreover have "four_hex (48 # 48 # digit_char (c div 16 mod 16) # digit_char (c mod 16) # x) = Some (c, x)"
      using 2(1) hex_digit_char [of "c div 16 mod 16"] hex_digit_char [of "c mod 16"] hex_digit_char [of 0]
      by (simp add: four_hex_def digit_char_def [of 0] mult.commute)
    ultimately show ?thesis
      using 2(1) by (simp add: string_char_def unicode_escape_def)
  qed (simp add: string_char_def esc_def)
qed

lemma scan_escaped: "length s < n \<Longrightarrow> scan_string n (concat (map esc s) @ 34 # x) = Some (s, x)"
proof (induction s arbitrary: n)
  case Nil
  then show ?case by (cases n) auto
next
  case (Cons c s)
  then obtain m where n: "n = Suc m" and m: "length s < m"
    by (cases n) auto
  have "esc c \<noteq> []" "hd (esc c) \<noteq> 34"
    by (simp_all add: esc_def)
  with n Cons.IH [OF m] show ?case
    by (simp add: string_char_esc)
qed

lemma dec_zero: "hd (dec n) = 48 \<longleftrightarrow> n = 0"
proof (induction n rule: dec.induct)
  case (1 n)
  show ?case
  proof (cases "n < 10")
    case False
    then have "dec n = dec (n div 10) @ [48 + n mod 10]"
      by (subst dec.simps) simp
    with False 1 show ?thesis by simp
  qed (subst dec.simps, simp)
qed

text \<open>What follows a value: the end, white space, a separator or a closing bracket.\<close>

definition ends :: "pstr \<Rightarrow> bool" where
  "ends r \<longleftrightarrow> r = [] \<or> hd r \<in> {10, 44, 93, 125}"

lemma ends_simps [simp]: "ends []" "ends (44 # r)" "ends (93 # r)" "ends (125 # r)" "ends (10 # r)"
  by (simp_all add: ends_def)

lemma number_int_str:
  assumes "ends r"
  shows "number (int_str i @ r) = Some (JInt i, r)"
proof -
  have float: "\<not> is_float r"
    using assms by (auto simp: ends_def is_float_def split: list.splits)
  have stops: "stops r"
    using assms by (auto simp: ends_def stops_def split: list.splits)
  have digits: "digits_of (dec n @ r) = dec n" for n
  proof (cases "n = 0")
    case True
    then show ?thesis by (simp add: digits_of_def dec.simps)
  next
    case False
    then have "hd (dec n) \<noteq> 48"
      by (simp add: dec_zero)
    moreover have "takeWhile is_digit (dec n @ r) = dec n"
      by (rule digits_takeWhile [OF _ stops]) (rule dec_digits)
    ultimately show ?thesis
      by (cases "dec n") (simp_all add: digits_of_def del: takeWhile.simps)
  qed
  have minus: "hd (dec n @ r) \<noteq> 45" for n
    using dec_hd [of n] by auto
  show ?thesis
    using float digits minus by (auto simp: number_def int_str_def Let_def dec_value_dec)
qed

primrec keyed :: "json \<Rightarrow> bool" where
  "keyed JNull = True"
| "keyed (JBool b) = True"
| "keyed (JInt i) = True"
| "keyed (JStr s) = True"
| "keyed (JList vs) = list_all id (map keyed vs)"
| "keyed (JObj kvs) = (distinct (map fst kvs) \<and> list_all snd (map (map_prod id keyed) kvs))"

lemma dict_of_distinct: "distinct (map fst kvs) \<Longrightarrow> dict_of kvs = kvs"
proof (induction kvs rule: rev_induct)
  case (snoc p kvs)
  then have "dict_of kvs = kvs" and "fst p \<notin> fst ` set kvs"
    by auto
  moreover have "AList.update k v al = al @ [(k, v)]" if "k \<notin> fst ` set al" for k v and al :: "(pstr \<times> json) list"
    using that by (induction al) auto
  ultimately show ?case
    by (simp add: dict_of_def split_beta)
qed (simp add: dict_of_def)

lemma enc_nonempty [simp]: "enc v \<noteq> []"
  by (cases v) (simp_all add: json_str_def)

lemma skip_code: "skip (enc v @ r) = enc v @ r"
proof -
  obtain c y where c: "enc v @ r = c # y"
    by (cases "enc v @ r") (simp_all add: enc_nonempty)
  have "\<not> json_space c"
    using c by (cases v) (auto simp: json_str_def lit_Cons json_space_def dest!: int_str_cons split: if_splits)
  with c show ?thesis
    by (simp add: skip_def)
qed

definition reads :: "nat \<Rightarrow> json \<Rightarrow> bool" where
  "reads n v \<longleftrightarrow> (\<forall>r. ends r \<longrightarrow> read_value n (enc v @ r) = Some (v, r))"

lemma skip_sep [simp]: "skip (44 # r) = 44 # r" "skip (93 # r) = 93 # r" "skip (125 # r) = 125 # r" "skip (58 # r) = 58 # r"
  "skip (34 # r) = 34 # r"
  by (simp_all add: skip_def json_space_def)

lemma commas_simps [simp]: "commas [t] = t" "commas (t # u # ts) = t @ 44 # commas (u # ts)"
  by (simp_all add: commas_def)

lemma length_escaped: "length s \<le> length (concat (map esc s))"
proof (induction s)
  case (Cons c s)
  have "esc c \<noteq> []"
    by (simp add: esc_def)
  with Cons show ?case
    by (cases "esc c") simp_all
qed simp

lemma enc_hd: "hd (enc v) \<noteq> 93"
  using enc_first [of v "[]"] by (cases "enc v") auto

lemma elements_read:
  assumes "vs \<noteq> []" and "length (commas (map enc vs)) < n" and "\<And>v m. v \<in> set vs \<Longrightarrow> length (enc v) \<le> m \<Longrightarrow> reads m v"
  shows "read_elements n (commas (map enc vs) @ 93 # r) = Some (vs, r)"
  using assms
proof (induction vs arbitrary: n rule: induct_list012)
  case (2 v)
  then obtain m where n: "n = Suc m" by (cases n) auto
  with 2 have "reads m v" by simp
  with n show ?case by (simp add: reads_def)
next
  case (3 v w vs)
  then obtain m where n: "n = Suc m" by (cases n) auto
  with 3 have "reads m v" by simp
  moreover have "read_elements m (commas (map enc (w # vs)) @ 93 # r) = Some (w # vs, r)"
    using 3 n by (intro 3(2)) auto
  moreover have "skip (commas (map enc (w # vs)) @ 93 # r) = commas (map enc (w # vs)) @ 93 # r"
    by (cases vs) (simp_all add: skip_code)
  ultimately show ?case
    using n by (simp add: reads_def)
qed simp

lemma members_read:
  assumes "kvs \<noteq> []" and "length (commas (map item kvs)) < n" and "\<And>p m. p \<in> set kvs \<Longrightarrow> length (enc (snd p)) \<le> m \<Longrightarrow> reads m (snd p)"
  shows "read_members n (commas (map item kvs) @ 125 # r) = Some (kvs, r)"
  using assms
proof (induction kvs arbitrary: n rule: induct_list012)
  case (2 p)
  then obtain m where n: "n = Suc m" by (cases n) auto
  then show ?case
    using 2 length_escaped [of "fst p"] by (simp add: reads_def json_str_def scan_escaped skip_code)
next
  case (3 p q kvs)
  then obtain m where n: "n = Suc m" by (cases n) auto
  have "read_members m (commas (map item (q # kvs)) @ 125 # r) = Some (q # kvs, r)"
    using 3 n by (intro 3(2)) auto
  moreover have "skip (commas (map item (q # kvs)) @ 125 # r) = commas (map item (q # kvs)) @ 125 # r"
    by (cases kvs) (simp_all add: json_str_def)
  ultimately show ?case
    using n 3 length_escaped [of "fst p"] by (simp add: reads_def json_str_def scan_escaped skip_code)
qed simp

lemma enc_read: "keyed v \<Longrightarrow> length (enc v) \<le> n \<Longrightarrow> reads n v"
proof (induction v arbitrary: n)
  case (JList vs)
  obtain m where n: "n = Suc m"
    using JList.prems(2) by (cases n) auto
  show ?case
  proof (cases "vs = []")
    case False
    have "read_elements m (commas (map enc vs) @ 93 # r) = Some (vs, r)" for r
      using JList n False by (intro elements_read) (auto simp: list_all_iff)
    moreover have "skip (commas (map enc vs) @ 93 # r) = commas (map enc vs) @ 93 # r" for r
      using False by (cases vs; cases "tl vs") (simp_all add: skip_code)
    moreover have "hd (commas (map enc vs) @ 93 # r) \<noteq> 93" for r
      using False by (cases vs; cases "tl vs") (simp_all add: enc_hd)
    ultimately show ?thesis
      using n by (simp add: reads_def)
  qed (simp add: n reads_def commas_def)
next
  case (JObj kvs)
  obtain m where n: "n = Suc m"
    using JObj.prems(2) by (cases n) auto
  show ?case
  proof (cases "kvs = []")
    case False
    have "reads k (snd p)" if "p \<in> set kvs" "length (enc (snd p)) \<le> k" for p k
      using JObj.prems(1) that by (intro JObj.IH [of p]) (auto simp: list_all_iff snds.simps)
    then have "read_members m (commas (map item kvs) @ 125 # r) = Some (kvs, r)" for r
      using JObj.prems(2) n False unfolding enc_JObj by (intro members_read) auto
    moreover have "skip (commas (map item kvs) @ 125 # r) = commas (map item kvs) @ 125 # r"
      "hd (commas (map item kvs) @ 125 # r) \<noteq> 125" for r
      using False by (cases kvs; cases "tl kvs"; simp add: json_str_def)+
    ultimately show ?thesis
      using n JObj.prems(1) unfolding reads_def enc_JObj by (simp add: dict_of_distinct)
  qed (simp add: n reads_def commas_def)
next
  case (JInt i)
  then obtain m where n: "n = Suc m"
    by (cases n) auto
  obtain c y where c: "int_str i = c # y"
    by (cases "int_str i") simp_all
  then have "c = 45 \<or> is_digit c"
    using int_str_hd [of i] by simp
  then have "read_value n (int_str i @ r) = number (int_str i @ r)" for r
    by (auto simp: n c scalar_def)
  then show ?case
    by (simp add: reads_def number_int_str)
next
  case (JStr s)
  then obtain m where n: "n = Suc m"
    by (cases n) (auto simp: json_str_def)
  have "length s < m"
    using JStr(2) n length_escaped [of s] by (simp add: json_str_def)
  then show ?case
    using n by (simp add: reads_def json_str_def scalar_def scan_escaped)
next
  case JNull
  then show ?case
    by (cases n) (auto simp: reads_def scalar_def word_then_def lit_def starts_with_def)
next
  case (JBool b)
  then show ?case
    by (cases n; cases b) (auto simp: reads_def scalar_def word_then_def lit_def starts_with_def)
qed

lemma canon_keyed: "keyed v \<Longrightarrow> keyed (canon v)"
proof (induction v)
  case (JObj kvs)
  then have "distinct (map fst (map (map_prod id canon) kvs))"
    by (simp add: comp_def)
  then have "distinct (map fst (sort_key fst (map (map_prod id canon) kvs)))"
    by (simp only: distinct_map distinct_sort set_sort)
  moreover have "keyed (canon (snd p))" if "p \<in> set kvs" for p
    using JObj that by (cases p) (auto simp: list_all_iff)
  ultimately show ?case
    by (auto simp: list_all_iff)
qed (auto simp: list_all_iff)

text \<open>The round trip, with white space after the text allowed as in a line of a file.\<close>

lemma json_loads_enc: "keyed v \<Longrightarrow> json_loads (enc v) = Some v"
  using enc_read [of v "length (enc v)"] skip_code [of v "[]"]
  by (auto simp: json_loads_def reads_def skip_def dest: spec [of _ "[]"])

lemma json_loads_canonical: "keyed v \<Longrightarrow> json_loads (canonical_json v) = Some (canon v)"
  by (simp add: canonical_json_def json_loads_enc canon_keyed)

text \<open>What the theorems that leave \<open>json.loads\<close> open use of it.\<close>

definition loads_canonical :: "(pstr \<Rightarrow> json option) \<Rightarrow> bool" where
  "loads_canonical loads \<longleftrightarrow> (\<forall>v. keyed v \<longrightarrow> loads (canonical_json v) = Some (canon v))"

lemma json_loads_is_canonical: "loads_canonical json_loads"
  by (simp add: loads_canonical_def json_loads_canonical)

end
