(* ===== verification/Export.thy ===== *)
theory Export imports Evolution Storage Json_Parse begin

text \<open>
  Verifiable exports: \<open>app/export/manifest.py\<close> and \<open>app/export/router.py\<close>. An archive is the list of
  its members; \<open>pack\<close> and \<open>unpack\<close> stand for the bytes \<open>zipfile\<close> writes and what it reads of any bytes:
  each member with its declared size and its content (\<open>None\<close>: reading it raises, as \<open>BadZipFile\<close>).
  \<open>sha256\<close> is the hexadecimal digest of bytes, so the digest of a text is \<open>sha256 \<circ> utf8\<close>.
  \<open>sign\<close> is the base64 text of an Ed25519 signature, and \<open>sig_valid key text m\<close> says that decoding
  \<open>text\<close> and verifying it over \<open>m\<close> does not raise.
\<close>

record zip_member =
  zm_name :: pstr
  zm_size :: nat
  zm_content :: "bytes option"

section \<open>Files\<close>

definition newline :: "nat \<Rightarrow> pstr" where
  "newline depth = 10 # replicate (2 * depth) 32"

text \<open>\<open>json.dumps(value, indent=2, sort_keys=True, ensure_ascii=False)\<close>, of a value in sorted form.\<close>

primrec pretty :: "json \<Rightarrow> nat \<Rightarrow> pstr" where
  "pretty JNull = (\<lambda>depth. lit ''null'')"
| "pretty (JBool b) = (\<lambda>depth. if b then lit ''true'' else lit ''false'')"
| "pretty (JInt i) = (\<lambda>depth. int_str i)"
| "pretty (JStr s) = (\<lambda>depth. json_str s)"
| "pretty (JList vs) = (\<lambda>depth. if vs = [] then lit ''[]''
     else [91] @ newline (depth + 1) @ joined ([44] @ newline (depth + 1)) (map (\<lambda>f. f (depth + 1)) (map pretty vs)) @ newline depth @ [93])"
| "pretty (JObj kvs) = (\<lambda>depth. if kvs = [] then lit ''{}''
     else [123] @ newline (depth + 1) @ joined ([44] @ newline (depth + 1))
       (map (\<lambda>p. json_str (fst p) @ lit '': '' @ snd p (depth + 1)) (map (map_prod id pretty) kvs)) @ newline depth @ [125])"

definition encode :: "pstr \<Rightarrow> error + bytes" where
  "encode s = (if encodable s then Inr (utf8 s) else Inl UnicodeEncodeError)"

definition json_file :: "json \<Rightarrow> error + bytes" where
  "json_file v = encode (pretty (canon v) 0 @ [10])"

definition audit_jsonl :: "event_record list \<Rightarrow> error + bytes" where
  "audit_jsonl es = encode (concat (map (\<lambda>e. canonical_json (record_json e) @ [10]) es))"

fun encode_files :: "(pstr \<times> json) list \<Rightarrow> error + (pstr \<times> bytes) list" where
  "encode_files [] = Inr []"
| "encode_files ((name, v) # docs) =
     bindE (json_file v) (\<lambda>c. bindE (encode_files docs) (\<lambda>files. Inr ((name, c) # files)))"

section \<open>Building a bundle\<close>

definition export_format :: pstr where "export_format = lit ''remembrance-export/v1''"
definition manifest_name :: pstr where "manifest_name = lit ''manifest.json''"
definition signature_name :: pstr where "signature_name = lit ''manifest.sig''"
definition audit_log_name :: pstr where "audit_log_name = lit ''audit_log.jsonl''"
definition max_entry_bytes :: nat where "max_entry_bytes = 512 * 1024 * 1024"

record export_bundle =
  bu_data :: bytes
  bu_manifest :: json
  bu_manifest_sha256 :: pstr
  bu_file_count :: nat
  bu_chain_length :: nat

definition file_entry :: "(bytes \<Rightarrow> pstr) \<Rightarrow> pstr \<times> bytes \<Rightarrow> json" where
  "file_entry sha256 f = JObj [(lit ''path'', JStr (fst f)), (lit ''sha256'', JStr (sha256 (snd f))),
     (lit ''bytes'', JInt (int (length (snd f))))]"

definition make_manifest ::
    "(bytes \<Rightarrow> pstr) \<Rightarrow> uuid \<Rightarrow> timestamp \<Rightarrow> pstr \<Rightarrow> pstr \<Rightarrow> (pstr \<times> bytes) list \<Rightarrow> chain_report \<Rightarrow> json" where
  "make_manifest sha256 profile_id generated_at generated_by key_id files report =
     (let chain = map_of (cr_chains report) profile_id in
      JObj [(lit ''format'', JStr export_format),
        (lit ''profile_id'', JStr (uuid_str profile_id)),
        (lit ''generated_at'', JStr (isoformat generated_at)),
        (lit ''generated_by'', JStr generated_by),
        (lit ''hash_algorithm'', JStr (lit ''sha256'')),
        (lit ''files'', JList (map (file_entry sha256) files)),
        (lit ''audit_chain'', JObj [
           (lit ''length'', JInt (case chain of Some c \<Rightarrow> int (cs_length c) | None \<Rightarrow> 0)),
           (lit ''head_hash'', JStr (case chain of Some c \<Rightarrow> cs_head_hash c | None \<Rightarrow> genesis_hash)),
           (lit ''verified_at_export'', JBool (report_ok report))]),
        (lit ''signature'', JObj [(lit ''algorithm'', JStr (lit ''Ed25519'')), (lit ''key_id'', JStr key_id),
           (lit ''file'', JStr signature_name)])])"

definition build_bundle ::
    "(bytes \<Rightarrow> pstr) \<Rightarrow> ((pstr \<times> bytes) list \<Rightarrow> bytes) \<Rightarrow> ('sk \<Rightarrow> bytes \<Rightarrow> bytes) \<Rightarrow> ('sk, 'vk) key_ring \<Rightarrow> uuid \<Rightarrow> timestamp
       \<Rightarrow> pstr \<Rightarrow> (pstr \<times> json) list \<Rightarrow> event_record list \<Rightarrow> error + export_bundle" where
  "build_bundle sha256 pack sign keyring profile_id generated_at generated_by documents audit_events =
     bindE (encode_files documents) (\<lambda>docs.
     bindE (audit_jsonl audit_events) (\<lambda>log.
     bindE (verify_chain (sha256 \<circ> utf8) audit_events []) (\<lambda>report.
     let files = sort_key fst (AList.update audit_log_name log docs);
         manifest = make_manifest sha256 profile_id generated_at generated_by (kr_signing_kid keyring) files report
     in bindE (encode (canonical_json manifest @ [10])) (\<lambda>manifest_bytes.
     let signature = sign (kr_signing_key keyring) manifest_bytes @ [10] in
     Inr \<lparr> bu_data = pack (files @ [(manifest_name, manifest_bytes), (signature_name, signature)]), bu_manifest = manifest,
       bu_manifest_sha256 = sha256 manifest_bytes, bu_file_count = length files,
       bu_chain_length = (case map_of (cr_chains report) profile_id of Some c \<Rightarrow> cs_length c | None \<Rightarrow> 0) \<rparr>))))"

section \<open>Verifying a bundle\<close>

text \<open>The errors a verification reports, one constructor for each message, and the exceptions that
  escape it.\<close>

datatype export_error =
    Not_Zip
  | Manifest_Missing
  | Manifest_Not_Json
  | Unsupported_Format "json option"
  | Not_Listed pstr
  | Listed_But_Missing json
  | Too_Large_Entry pstr
  | Differs_From_Manifest pstr
  | Log_Unreadable
  | Log_Error "int option" chain_error_kind
  | Head_Differs
  | Other_Profile
  | Log_Missing
  | No_Public_Key "json option"
  | Signature_Missing
  | Signature_Invalid

datatype escape = Escaped_Unicode | Escaped_Zip | Escaped_Attribute | Escaped_Key | Escaped_Type | Escaped_Chain error

datatype parsed = Parsed json | Not_Json | Undecodable

datatype iso = Aware timestamp | Naive

record export_verification =
  xv_errors :: "export_error list"
  xv_signature_checked :: bool
  xv_chain :: "chain_report option"
  xv_manifest :: "(pstr \<times> json) list option"

definition verification_ok :: "export_verification \<Rightarrow> bool" where
  "verification_ok v \<longleftrightarrow> xv_errors v = []"

definition to_json :: "export_verification \<Rightarrow> bool \<times> bool \<times> export_error list \<times> nat" where
  "to_json v = (verification_ok v, xv_signature_checked v, xv_errors v,
     case xv_chain v of Some report \<Rightarrow> event_count report | None \<Rightarrow> 0)"

definition member_of :: "zip_member list \<Rightarrow> pstr \<Rightarrow> zip_member option" where
  "member_of archive name = find (\<lambda>m. zm_name m = name) (rev archive)"

definition read_member :: "zip_member \<Rightarrow> escape + bytes" where
  "read_member m = (case zm_content m of Some c \<Rightarrow> Inr c | None \<Rightarrow> Inl Escaped_Zip)"

subsection \<open>The list of files\<close>

text \<open>\<open>manifest.get("files", [])\<close>, iterated: a list, the keys of an object, the characters of a string.\<close>

definition iterate :: "json option \<Rightarrow> escape + json list" where
  "iterate v = (case v of
     None \<Rightarrow> Inr []
   | Some (JList vs) \<Rightarrow> Inr vs
   | Some (JObj kvs) \<Rightarrow> Inr (map (JStr \<circ> fst) kvs)
   | Some (JStr s) \<Rightarrow> Inr (map (\<lambda>c. JStr [c]) s)
   | _ \<Rightarrow> Inl Escaped_Type)"

text \<open>\<open>entry["path"]\<close>, to be used as a key: a list or an object is not hashable.\<close>

definition entry_path :: "json \<Rightarrow> escape + (json \<times> (pstr \<times> json) list)" where
  "entry_path entry = (case entry of
     JObj kvs \<Rightarrow> (case map_of kvs (lit ''path'') of
         None \<Rightarrow> Inl Escaped_Key
       | Some (JList _) \<Rightarrow> Inl Escaped_Type
       | Some (JObj _) \<Rightarrow> Inl Escaped_Type
       | Some p \<Rightarrow> Inr (p, kvs))
   | _ \<Rightarrow> Inl Escaped_Type)"

text \<open>Python's \<open>==\<close> between scalars, where \<open>True == 1\<close>.\<close>

definition as_number :: "json \<Rightarrow> int option" where
  "as_number v = (case v of JInt i \<Rightarrow> Some i | JBool b \<Rightarrow> Some (if b then 1 else 0) | _ \<Rightarrow> None)"

definition same_key :: "json \<Rightarrow> json \<Rightarrow> bool" where
  "same_key p q \<longleftrightarrow> p = q \<or> (as_number p \<noteq> None \<and> as_number p = as_number q)"

fun put_entry :: "json \<Rightarrow> 'v \<Rightarrow> (json \<times> 'v) list \<Rightarrow> (json \<times> 'v) list" where
  "put_entry p v [] = [(p, v)]"
| "put_entry p v ((q, w) # rest) = (if same_key q p then (q, v) # rest else (q, w) # put_entry p v rest)"

fun listed_from :: "json list \<Rightarrow> (json \<times> (pstr \<times> json) list) list \<Rightarrow> escape + (json \<times> (pstr \<times> json) list) list" where
  "listed_from [] acc = Inr acc"
| "listed_from (entry # rest) acc = bindE (entry_path entry) (\<lambda>(p, kvs). listed_from rest (put_entry p kvs acc))"

definition text_of :: "json \<Rightarrow> pstr option" where
  "text_of v = (case v of JStr s \<Rightarrow> Some s | _ \<Rightarrow> None)"

text \<open>\<open>sorted(listed.items())\<close>: keys of different kinds do not compare.\<close>

definition sort_listed :: "(json \<times> 'v) list \<Rightarrow> escape + (json \<times> 'v) list" where
  "sort_listed kvs =
     (if list_all (\<lambda>p. text_of (fst p) \<noteq> None) kvs then Inr (sort_key (the \<circ> text_of \<circ> fst) kvs)
      else if list_all (\<lambda>p. as_number (fst p) \<noteq> None) kvs then Inr (sort_key (the \<circ> as_number \<circ> fst) kvs)
      else if length kvs \<le> 1 then Inr kvs
      else Inl Escaped_Type)"

definition equals_int :: "nat \<Rightarrow> json option \<Rightarrow> bool" where
  "equals_int n v = (case v of Some j \<Rightarrow> as_number j = Some (int n) | None \<Rightarrow> False)"

definition check_entry ::
    "(bytes \<Rightarrow> pstr) \<Rightarrow> zip_member list \<Rightarrow> json \<times> (pstr \<times> json) list \<Rightarrow> escape + export_error list" where
  "check_entry sha256 archive listed = (case (case fst listed of JStr name \<Rightarrow> member_of archive name | _ \<Rightarrow> None) of
     None \<Rightarrow> Inr [Listed_But_Missing (fst listed)]
   | Some m \<Rightarrow>
       if max_entry_bytes < zm_size m then Inr [Too_Large_Entry (zm_name m)]
       else bindE (read_member m) (\<lambda>content.
         Inr (if map_of (snd listed) (lit ''sha256'') \<noteq> Some (JStr (sha256 content)) \<or>
             \<not> equals_int (length content) (map_of (snd listed) (lit ''bytes''))
           then [Differs_From_Manifest (zm_name m)] else [])))"

fun collect_errors :: "('a \<Rightarrow> escape + export_error list) \<Rightarrow> 'a list \<Rightarrow> escape + export_error list" where
  "collect_errors check [] = Inr []"
| "collect_errors check (x # xs) = bindE (check x) (\<lambda>es. bindE (collect_errors check xs) (\<lambda>fs. Inr (es @ fs)))"

definition unlisted :: "zip_member list \<Rightarrow> (json \<times> 'v) list \<Rightarrow> pstr list" where
  "unlisted archive listed = sort (remdups (filter (\<lambda>name. JStr name \<notin> fst ` set listed \<and>
     name \<noteq> manifest_name \<and> name \<noteq> signature_name) (map zm_name archive)))"

definition check_files ::
    "(bytes \<Rightarrow> pstr) \<Rightarrow> zip_member list \<Rightarrow> (pstr \<times> json) list \<Rightarrow> escape + export_error list" where
  "check_files sha256 archive manifest =
     bindE (iterate (map_of manifest (lit ''files''))) (\<lambda>entries.
     bindE (listed_from entries []) (\<lambda>listed.
     bindE (sort_listed listed) (\<lambda>ordered.
     bindE (collect_errors (check_entry sha256 archive) ordered) (\<lambda>errors.
     Inr (map Not_Listed (unlisted archive listed) @ errors)))))"

subsection \<open>The audit log\<close>

fun byte_lines :: "bytes \<Rightarrow> bytes \<Rightarrow> bytes list" where
  "byte_lines cur [] = (if cur = [] then [] else [rev cur])"
| "byte_lines cur (c # r) =
     (if c = 10 then rev cur # byte_lines [] r
      else if c = 13 then rev cur # byte_lines [] (if r \<noteq> [] \<and> hd r = 10 then tl r else r)
      else byte_lines (c # cur) r)"

definition is_byte_space :: "nat \<Rightarrow> bool" where
  "is_byte_space b \<longleftrightarrow> b = 32 \<or> (9 \<le> b \<and> b \<le> 13)"

text \<open>\<open>UUID(v)\<close>: a value that is no string fails on \<open>v.replace\<close>, except \<open>None\<close>, which is a \<open>TypeError\<close>.
  Left is an error the caller catches (\<open>None\<close>) or one that escapes.\<close>

definition uuid_arg :: "json \<Rightarrow> escape option + uuid" where
  "uuid_arg v = (case v of
     JStr s \<Rightarrow> (case parse_uuid s of Some u \<Rightarrow> Inr u | None \<Rightarrow> Inl None)
   | JNull \<Rightarrow> Inl None
   | _ \<Rightarrow> Inl (Some Escaped_Attribute))"

text \<open>\<open>dict(v)\<close>. Pairs whose first part is no string count as unreadable here.\<close>

definition pair_of :: "json \<Rightarrow> (pstr \<times> json) option" where
  "pair_of v = (case v of
     JList [JStr k, x] \<Rightarrow> Some (k, x)
   | JStr [a, b] \<Rightarrow> Some ([a], JStr [b])
   | JObj [(a, _), (b, _)] \<Rightarrow> Some (a, JStr b)
   | _ \<Rightarrow> None)"

definition dict_arg :: "json \<Rightarrow> (pstr \<times> json) list option" where
  "dict_arg v = (case v of
     JObj kvs \<Rightarrow> Some kvs
   | JList vs \<Rightarrow> map_option dict_of (those (map pair_of vs))
   | JStr s \<Rightarrow> if s = [] then Some [] else None
   | _ \<Rightarrow> None)"

definition caught :: "'a option \<Rightarrow> escape option + 'a" where
  "caught r = (case r of Some x \<Rightarrow> Inr x | None \<Rightarrow> Inl None)"

text \<open>\<open>EventRecord.from_json\<close>, its arguments in order; the flag says whether \<open>created_at\<close> is aware.\<close>

definition from_json :: "(json \<Rightarrow> pstr) \<Rightarrow> (pstr \<Rightarrow> iso option) \<Rightarrow> json \<Rightarrow> escape option + (event_record \<times> bool)" where
  "from_json repr fromiso data = (case data of
     JObj kvs \<Rightarrow>
       (let at = (\<lambda>k. caught (map_of kvs (lit k))); text = (\<lambda>k. bindE (caught (map_of kvs (lit k))) (\<lambda>v. Inr (str_of_json repr v))) in
        bindE (bindE (at ''id'') (\<lambda>v. caught (int_of_json v))) (\<lambda>i.
        bindE (text ''event_type'') (\<lambda>event_type.
        bindE (text ''actor_id'') (\<lambda>actor_id.
        bindE (case map_of kvs (lit ''consent_grant_id'') of
            Some v \<Rightarrow> if truthy v then bindE (uuid_arg v) (\<lambda>u. Inr (Some u)) else Inr None
          | None \<Rightarrow> Inr None) (\<lambda>grant.
        bindE (bindE (at ''deceased_profile_id'') uuid_arg) (\<lambda>profile.
        bindE (bindE (at ''payload'') (\<lambda>v. caught (dict_arg v))) (\<lambda>payload.
        bindE (text ''previous_hash'') (\<lambda>previous_hash.
        bindE (text ''event_hash'') (\<lambda>event_hash.
        bindE (bindE (at ''created_at'') (\<lambda>v. caught (Option.bind (text_of v) fromiso))) (\<lambda>created_at.
        Inr (\<lparr> er_id = i, er_event_type = event_type, er_actor_id = actor_id, er_grant_id = grant, er_profile_id = profile,
            er_payload = JObj payload, er_previous_hash = previous_hash, er_event_hash = event_hash,
            er_created_at = (case created_at of Aware t \<Rightarrow> t | Naive \<Rightarrow> 0) \<rparr>, created_at \<noteq> Naive)))))))))))
   | _ \<Rightarrow> Inl None)"

text \<open>The comprehension over the lines; \<open>None\<close>: some line is unreadable.\<close>

fun read_log ::
    "(bytes \<Rightarrow> parsed) \<Rightarrow> (json \<Rightarrow> pstr) \<Rightarrow> (pstr \<Rightarrow> iso option) \<Rightarrow> bytes list \<Rightarrow> escape option + (event_record \<times> bool) list" where
  "read_log loads repr fromiso [] = Inr []"
| "read_log loads repr fromiso (line # rest) =
     (if strip_by is_byte_space line = [] then read_log loads repr fromiso rest
      else bindE (case loads line of Parsed v \<Rightarrow> from_json repr fromiso v | _ \<Rightarrow> Inl None) (\<lambda>e.
           bindE (read_log loads repr fromiso rest) (\<lambda>es. Inr (e # es))))"

text \<open>\<open>verify_chain\<close> of what was read: a naive timestamp fails when its event is hashed.\<close>

definition chain_report_of :: "(bytes \<Rightarrow> pstr) \<Rightarrow> (event_record \<times> bool) list \<Rightarrow> escape + chain_report" where
  "chain_report_of sha256 es =
     (case verify_chain (sha256 \<circ> utf8) (map fst (takeWhile snd es)) [] of
        Inl e \<Rightarrow> Inl (Escaped_Chain e)
      | Inr report \<Rightarrow> if list_all snd es then Inr report
          else Inl (Escaped_Chain (ValueError (lit ''audit timestamps must be timezone-aware''))))"

text \<open>\<open>manifest.get(name, {})\<close>, whose result must have a \<open>get\<close> of its own.\<close>

definition section_of :: "(pstr \<times> json) list \<Rightarrow> string \<Rightarrow> escape + (pstr \<times> json) list" where
  "section_of manifest name = (case map_of manifest (lit name) of
     None \<Rightarrow> Inr [] | Some (JObj kvs) \<Rightarrow> Inr kvs | Some _ \<Rightarrow> Inl Escaped_Attribute)"

definition names_profile :: "(pstr \<times> json) list \<Rightarrow> uuid \<Rightarrow> bool" where
  "names_profile manifest i \<longleftrightarrow> map_of manifest (lit ''profile_id'') = Some (JStr (uuid_str i))"

definition check_log ::
    "(bytes \<Rightarrow> pstr) \<Rightarrow> (bytes \<Rightarrow> parsed) \<Rightarrow> (json \<Rightarrow> pstr) \<Rightarrow> (pstr \<Rightarrow> iso option) \<Rightarrow> zip_member list \<Rightarrow> (pstr \<times> json) list
       \<Rightarrow> escape + (export_error list \<times> chain_report option)" where
  "check_log sha256 loads repr fromiso archive manifest = (case member_of archive audit_log_name of
     None \<Rightarrow> Inr ([Log_Missing], None)
   | Some m \<Rightarrow>
       bindE (read_member m) (\<lambda>content.
       bindE (case read_log loads repr fromiso (byte_lines [] content) of
           Inr es \<Rightarrow> Inr ([], es) | Inl None \<Rightarrow> Inr ([Log_Unreadable], []) | Inl (Some x) \<Rightarrow> Inl x) (\<lambda>(unreadable, es).
       bindE (chain_report_of sha256 es) (\<lambda>report.
       bindE (section_of manifest ''audit_chain'') (\<lambda>expected.
       let head = find (\<lambda>c. names_profile manifest (fst c)) (cr_chains report);
           length = (case head of Some (_, c) \<Rightarrow> cs_length c | None \<Rightarrow> 0);
           head_hash = (case head of Some (_, c) \<Rightarrow> cs_head_hash c | None \<Rightarrow> genesis_hash)
       in Inr (unreadable @ map (\<lambda>e. Log_Error (ce_event_id e) (ce_kind e)) (cr_errors report) @
            (if \<not> equals_int length (map_of expected (lit ''length'')) \<or>
                map_of expected (lit ''head_hash'') \<noteq> Some (JStr head_hash) then [Head_Differs] else []) @
            (if list_ex (\<lambda>c. \<not> names_profile manifest (fst c)) (cr_chains report) then [Other_Profile] else []),
            Some report))))))"

subsection \<open>The whole bundle\<close>

definition check_signature ::
    "('vk \<Rightarrow> bytes \<Rightarrow> bytes \<Rightarrow> bool) \<Rightarrow> (json \<Rightarrow> pstr) \<Rightarrow> (pstr \<times> 'vk) list option \<Rightarrow> zip_member list \<Rightarrow> (pstr \<times> json) list \<Rightarrow> bytes
       \<Rightarrow> escape + (export_error list \<times> bool)" where
  "check_signature sig_valid repr public_keys archive manifest manifest_bytes = (case public_keys of
     None \<Rightarrow> Inr ([], False)
   | Some keys \<Rightarrow>
       bindE (section_of manifest ''signature'') (\<lambda>sig.
       let kid = map_of sig (lit ''key_id'') in
       case map_of keys (case kid of Some v \<Rightarrow> str_of_json repr v | None \<Rightarrow> lit ''None'') of
         None \<Rightarrow> Inr ([No_Public_Key kid], False)
       | Some key \<Rightarrow> (case member_of archive signature_name of
           None \<Rightarrow> Inr ([Signature_Missing], False)
         | Some m \<Rightarrow> bindE (read_member m) (\<lambda>content.
             if sig_valid key (strip_by is_byte_space content) manifest_bytes then Inr ([], True)
             else Inr ([Signature_Invalid], False)))))"

definition check_manifest ::
    "(bytes \<Rightarrow> pstr) \<Rightarrow> ('vk \<Rightarrow> bytes \<Rightarrow> bytes \<Rightarrow> bool) \<Rightarrow> (bytes \<Rightarrow> parsed) \<Rightarrow> (json \<Rightarrow> pstr) \<Rightarrow> (pstr \<Rightarrow> iso option)
       \<Rightarrow> (pstr \<times> 'vk) list option \<Rightarrow> zip_member list \<Rightarrow> bytes \<Rightarrow> (pstr \<times> json) list \<Rightarrow> escape + export_verification" where
  "check_manifest sha256 sig_valid loads repr fromiso public_keys archive manifest_bytes manifest =
     bindE (check_files sha256 archive manifest) (\<lambda>file_errors.
     bindE (check_log sha256 loads repr fromiso archive manifest) (\<lambda>(log_errors, report).
     bindE (check_signature sig_valid repr public_keys archive manifest manifest_bytes) (\<lambda>(sig_errors, checked).
     Inr \<lparr> xv_errors = (if map_of manifest (lit ''format'') \<noteq> Some (JStr export_format)
             then [Unsupported_Format (map_of manifest (lit ''format''))] else []) @ file_errors @ log_errors @ sig_errors,
       xv_signature_checked = checked, xv_chain = report, xv_manifest = Some manifest \<rparr>)))"

definition rejected :: "export_error \<Rightarrow> export_verification" where
  "rejected e = \<lparr> xv_errors = [e], xv_signature_checked = False, xv_chain = None, xv_manifest = None \<rparr>"

definition verify_bundle ::
    "(bytes \<Rightarrow> zip_member list option) \<Rightarrow> (bytes \<Rightarrow> pstr) \<Rightarrow> ('vk \<Rightarrow> bytes \<Rightarrow> bytes \<Rightarrow> bool) \<Rightarrow> (bytes \<Rightarrow> parsed)
       \<Rightarrow> (json \<Rightarrow> pstr) \<Rightarrow> (pstr \<Rightarrow> iso option) \<Rightarrow> bytes \<Rightarrow> (pstr \<times> 'vk) list option \<Rightarrow> escape + export_verification" where
  "verify_bundle unpack sha256 sig_valid loads repr fromiso data public_keys = (case unpack data of
     None \<Rightarrow> Inr (rejected Not_Zip)
   | Some archive \<Rightarrow> (case member_of archive manifest_name of
       None \<Rightarrow> Inr (rejected Manifest_Missing)
     | Some m \<Rightarrow> bindE (read_member m) (\<lambda>manifest_bytes.
         case loads manifest_bytes of
           Undecodable \<Rightarrow> Inl Escaped_Unicode
         | Not_Json \<Rightarrow> Inr (rejected Manifest_Not_Json)
         | Parsed (JObj manifest) \<Rightarrow>
             check_manifest sha256 sig_valid loads repr fromiso public_keys archive manifest_bytes manifest
         | Parsed _ \<Rightarrow> Inl Escaped_Attribute)))"

section \<open>The documents of a profile\<close>

definition opt_str :: "pstr option \<Rightarrow> json" where
  "opt_str v = (case v of Some s \<Rightarrow> JStr s | None \<Rightarrow> JNull)"

definition opt_time :: "timestamp option \<Rightarrow> json" where
  "opt_time v = opt_str (map_option isoformat v)"

text \<open>\<open>date.isoformat()\<close>.\<close>

definition date_str :: "day \<Rightarrow> pstr" where
  "date_str d = take 10 (isoformat (d * one_day))"

definition fields :: "(string \<times> json) list \<Rightarrow> json" where
  "fields kvs = JObj (map (\<lambda>(k, v). (lit k, v)) kvs)"

definition profile_document :: "deceased_profile \<Rightarrow> json" where
  "profile_document p = fields [
     (''id'', JStr (uuid_str (p_id p))),
     (''full_name'', JStr (p_full_name p)),
     (''date_of_birth'', opt_str (map_option date_str (p_date_of_birth p))),
     (''date_of_death'', opt_str (map_option date_str (p_date_of_death p))),
     (''jurisdiction_state'', JStr (p_jurisdiction p)),
     (''created_at'', JStr (isoformat (p_created_at p)))]"

definition grant_document :: "consent_db \<Rightarrow> consent_grant \<Rightarrow> json" where
  "grant_document db g = fields [
     (''id'', JStr (uuid_str (g_id g))),
     (''grantor_type'', JStr (grantor_type_value (g_grantor_type g))),
     (''grantor_user_id'', JStr (g_grantor_user_id g)),
     (''grantor_legal_name'', JStr (g_grantor_legal_name g)),
     (''grantor_contact_email'', JStr (g_grantor_contact_email g)),
     (''legal_authority_document_url'', JStr (g_document_url g)),
     (''authority_verified_at'', opt_time (g_verified_at g)),
     (''authority_verified_by'', opt_str (g_verified_by g)),
     (''purpose_scope'', JList (map (JStr \<circ> scope_value) (scope_list (g_purpose_scope g)))),
     (''required_acknowledgments'', case g_required_acks g of Some n \<Rightarrow> JInt n | None \<Rightarrow> JNull),
     (''is_active'', JBool (g_is_active g)),
     (''granted_at'', JStr (isoformat (g_granted_at g))),
     (''revoked_at'', opt_time (g_revoked_at g)),
     (''revocation_reason'', opt_str (g_revocation_reason g)),
     (''named_beneficiaries'', JList (map (\<lambda>b. fields [(''name'', JStr (gb_name b)), (''email'', JStr (gb_email b))])
        (grant_beneficiaries db g)))]"

definition ack_document :: "beneficiary_ack \<Rightarrow> json" where
  "ack_document a = fields [
     (''id'', JStr (uuid_str (ba_id a))),
     (''consent_grant_id'', JStr (uuid_str (ba_grant_id a))),
     (''beneficiary_name'', JStr (ba_name a)),
     (''beneficiary_email'', JStr (ba_email a)),
     (''acknowledgment_signature_hash'', JStr (ba_signature_hash a)),
     (''acknowledged_at'', JStr (isoformat (ba_at a)))]"

definition successor_document :: "successor_designation \<Rightarrow> json" where
  "successor_document s = fields [
     (''id'', JStr (uuid_str (sd_id s))),
     (''successor_user_id'', JStr (sd_user_id s)),
     (''priority_order'', JInt (sd_priority s)),
     (''designated_at'', JStr (isoformat (sd_at s))),
     (''designated_by'', JStr (sd_by s))]"

definition request_document :: "revocation_request \<Rightarrow> json" where
  "request_document r = fields [
     (''id'', JStr (uuid_str (rr_id r))),
     (''consent_grant_id'', JStr (uuid_str (rr_grant_id r))),
     (''requested_by'', JStr (rr_requested_by r)),
     (''reason'', JStr (rr_reason r)),
     (''status'', JStr (revocation_value (rr_status r))),
     (''created_at'', JStr (isoformat (rr_created_at r))),
     (''cascade_completed_at'', opt_time (rr_completed_at r))]"

definition artifact_document :: "uuid \<Rightarrow> uuid \<Rightarrow> timestamp \<Rightarrow> timestamp option \<Rightarrow> json" where
  "artifact_document i grant_id created_at deleted_at = fields [
     (''id'', JStr (uuid_str i)),
     (''consent_grant_id'', JStr (uuid_str grant_id)),
     (''created_at'', JStr (isoformat created_at)),
     (''deleted_at'', opt_time deleted_at)]"

definition delivery_document :: "scheduled_delivery \<Rightarrow> json" where
  "delivery_document d = fields [
     (''id'', JStr (uuid_str (de_id d))),
     (''consent_grant_id'', JStr (uuid_str (de_grant_id d))),
     (''scheduled_for'', JStr (isoformat (de_scheduled_for d))),
     (''status'', JStr (delivery_value (de_status d)))]"

text \<open>\<open>ORDER BY\<close> leaves rows that compare equal in insertion order.\<close>

definition profile_grants :: "consent_db \<Rightarrow> uuid \<Rightarrow> consent_grant list" where
  "profile_grants db i = sort_key (\<lambda>g. (g_granted_at g, g_id g)) (filter (\<lambda>g. g_profile_id g = i) (grants db))"

definition collect_documents :: "consent_db \<Rightarrow> uuid \<Rightarrow> error + (pstr \<times> json) list" where
  "collect_documents db profile_id = (case get_profile db profile_id of
     None \<Rightarrow> Inl AssertionError
   | Some profile \<Rightarrow>
     (let gs = profile_grants db profile_id; ids = map g_id gs;
          models = sort_key vm_created_at (filter (\<lambda>m. vm_profile_id m = profile_id) (voice_models db));
          audio = sort_key aa_created_at (filter (\<lambda>a. aa_grant_id a \<in> set ids \<or> aa_voice_model_id a \<in> Some ` vm_id ` set models)
            (audio_artifacts db));
          upcoming = sort_key de_scheduled_for (filter (\<lambda>d. de_grant_id d \<in> set ids) (deliveries db))
      in Inr [
        (lit ''profile.json'', profile_document profile),
        (lit ''grants.json'', JList (map (grant_document db) gs)),
        (lit ''acknowledgments.json'', JList (map ack_document
           (sort_key (\<lambda>a. (ba_at a, ba_id a)) (filter (\<lambda>a. ba_grant_id a \<in> set ids) (acknowledgments db))))),
        (lit ''successor_designations.json'', JList (map successor_document
           (sort_key sd_priority (filter (\<lambda>s. sd_profile_id s = profile_id) (successors db))))),
        (lit ''revocation_requests.json'', JList (map request_document
           (sort_key rr_created_at (filter (\<lambda>r. rr_grant_id r \<in> set ids) (requests db))))),
        (lit ''derived_artifacts.json'', fields [
           (''voice_models'', JList (map (\<lambda>m. artifact_document (vm_id m) (vm_grant_id m) (vm_created_at m) (vm_deleted_at m)) models)),
           (''audio_artifacts'', JList (map (\<lambda>a. artifact_document (aa_id a) (aa_grant_id a) (aa_created_at a) (aa_deleted_at a)) audio)),
           (''scheduled_deliveries'', JList (map delivery_document upcoming))])]))"

section \<open>POST /export/{profile_id}\<close>

text \<open>What the handler takes from the services: the kernel's parts, the archive and signature functions,
  and the object storage with its state.\<close>

record ('s, 'sk, 'vk) exporter =
  ex_jwt :: "('sk, 'vk) pyjwt"
  ex_issuer :: "('sk, 'vk) token_issuer"
  ex_validator :: "'vk token_validator"
  ex_keyring :: "('sk, 'vk) key_ring"
  ex_sha256 :: "bytes \<Rightarrow> pstr"
  ex_pack :: "(pstr \<times> bytes) list \<Rightarrow> bytes"
  ex_sign :: "'sk \<Rightarrow> bytes \<Rightarrow> bytes"
  ex_put :: "'s \<Rightarrow> pstr \<Rightarrow> bytes \<Rightarrow> error + 's"
  ex_signed_url :: "pstr \<Rightarrow> int \<Rightarrow> timestamp \<Rightarrow> error + pstr"
  ex_url_ttl :: int

record export_response =
  xr_export_id :: uuid
  xr_url :: pstr
  xr_expires_at :: timestamp
  xr_manifest_sha256 :: pstr
  xr_file_count :: nat

definition export_denial :: "authorization_result \<Rightarrow> error" where
  "export_denial r =
     (if ar_reason r \<noteq> None \<and> \<not> ar_actor_related r then not_found ''deceased profile''
      else ApiError 403 (lit ''EXPORT_DENIED'') (lit ''not authorized to export this profile'')
        [(lit ''reason'', opt_str (disclosed_reason r))])"

definition export_key :: "uuid \<Rightarrow> uuid \<Rightarrow> pstr" where
  "export_key profile_id export_id = lit ''exports/'' @ uuid_str profile_id @ lit ''/'' @ uuid_str export_id @ lit ''.zip''"

text \<open>\<open>text_sha X\<close> is the digest of a text that the ledger uses.\<close>

definition text_sha :: "('s, 'sk, 'vk) exporter \<Rightarrow> pstr \<Rightarrow> pstr" where
  "text_sha X = ex_sha256 X \<circ> utf8"

definition export_payload :: "('s, 'sk, 'vk) exporter \<Rightarrow> uuid \<Rightarrow> verified_authorization \<Rightarrow> export_bundle \<Rightarrow> pyval" where
  "export_payload X export_id authorization b = py_obj [
     (''export_id'', PyStr (uuid_str export_id)),
     (''jti'', PyStr (uuid_str (va_jti authorization))),
     (''manifest_sha256'', PyStr (bu_manifest_sha256 b)),
     (''archive_sha256'', PyStr (ex_sha256 X (bu_data b))),
     (''file_count'', PyInt (int (bu_file_count b))),
     (''audit_chain_length'', PyInt (int (bu_chain_length b)))]"

text \<open>After the token is validated. Clock readings 0 to 2 went to the authorization and the validator;
  the object is stored before the event is written, and stays when writing it fails.\<close>

definition export_bundle_of ::
    "('s, 'sk, 'vk) exporter \<Rightarrow> uuid \<Rightarrow> actor \<Rightarrow> timestamp \<Rightarrow> consent_db \<Rightarrow> error + export_bundle" where
  "export_bundle_of X profile_id actor now db =
     bindE (collect_documents db profile_id) (\<lambda>documents.
       build_bundle (ex_sha256 X) (ex_pack X) (ex_sign X) (ex_keyring X) profile_id now (ac_user_id actor) documents
         (iter_events db (Some profile_id)))"

definition record_export ::
    "('s, 'sk, 'vk) exporter \<Rightarrow> timestamp \<Rightarrow> uuid \<Rightarrow> actor \<Rightarrow> uuid \<Rightarrow> verified_authorization \<Rightarrow> export_bundle \<Rightarrow> consent_db
       \<Rightarrow> error + (consent_db \<times> audit_event)" where
  "record_export X now profile_id actor export_id authorization b db =
     append_event (text_sha X) now DATA_EXPORTED (ac_user_id actor) profile_id (va_grant_id authorization)
       (export_payload X export_id authorization b) db"

definition export_authorized ::
    "('s, 'sk, 'vk) exporter \<Rightarrow> uuid \<Rightarrow> actor \<Rightarrow> request_env \<Rightarrow> verified_authorization \<Rightarrow> consent_db \<times> 's
       \<Rightarrow> (consent_db \<times> 's) \<times> (error + export_response)" where
  "export_authorized X profile_id actor env authorization w =
     (let (db, store) = w; export_id = fresh env 1; now = clock_at env 3; key = export_key profile_id export_id in
      case export_bundle_of X profile_id actor now db of
        Inl e \<Rightarrow> (w, Inl e)
      | Inr b \<Rightarrow> (case ex_put X store key (bu_data b) of
          Inl e \<Rightarrow> (w, Inl e)
        | Inr store' \<Rightarrow>
            (case transact db (record_export X (clock_at env 4) profile_id actor export_id authorization b db) of
               (db', Inl e) \<Rightarrow> ((db', store'), Inl e)
             | (db', Inr _) \<Rightarrow> ((db', store'), bindE (ex_signed_url X key (ex_url_ttl X) now) (\<lambda>url.
                 Inr \<lparr> xr_export_id = export_id, xr_url = url, xr_expires_at = now + ex_url_ttl X * second,
                   xr_manifest_sha256 = bu_manifest_sha256 b, xr_file_count = bu_file_count b \<rparr>)))))"

definition export_profile ::
    "ucd \<Rightarrow> ('s, 'sk, 'vk) exporter \<Rightarrow> uuid \<Rightarrow> actor \<Rightarrow> request_env \<Rightarrow> consent_db \<times> 's
       \<Rightarrow> (consent_db \<times> 's) \<times> (error + export_response)" where
  "export_profile U X profile_id actor env w =
     (let (db, store) = w in
      case authorize U (text_sha X) (ex_jwt X) (ex_issuer X) EXPORT_DATA profile_id actor
             (declared_value DP_DATA_PORTABILITY) env db of
        (db', Inl e) \<Rightarrow> ((db', store), Inl e)
      | (db', Inr r) \<Rightarrow>
          if \<not> ar_allowed r then ((db', store), Inl (export_denial r))
          else (case validate (ex_jwt X) (ex_validator X) (sql_status db') (clock_at env 2) (ar_token r) EXPORT_DATA profile_id of
              Inl (TokenError _) \<Rightarrow> ((db', store), Inl (api_error 503 ''EXPORT_UNAVAILABLE'' ''authorization could not be validated''))
            | Inl FromTimestampError \<Rightarrow> ((db', store), Inl (ValueError (lit ''timestamp out of range'')))
            | Inr authorization \<Rightarrow> export_authorized X profile_id actor env authorization (db', store)))"

section \<open>GET /export/download\<close>

text \<open>\<open>files\<close> is the local store, or \<open>None\<close> when the archives are in S3. The answer is the content and
  the name the browser is told; an error of the storage other than \<open>StorageError\<close> escapes.\<close>

definition download_export ::
    "(pstr \<Rightarrow> pstr) \<Rightarrow> file_store option \<Rightarrow> pstr \<Rightarrow> int \<Rightarrow> pstr \<Rightarrow> timestamp \<Rightarrow> error + (bytes \<times> pstr)" where
  "download_export hmac files key expires sig now = (case files of
     None \<Rightarrow> Inl (ApiError 404 (lit ''NOT_FOUND'') (lit ''downloads are served by the object store'') [])
   | Some store \<Rightarrow>
       if \<not> starts_with (lit ''exports/'') key \<or> \<not> url_verify hmac key expires sig now
       then Inl (api_error 403 ''LINK_INVALID'' ''this download link is invalid or has expired'')
       else (case fs_get store key of
           Inr data \<Rightarrow> Inr (data, lit ''remembrance-export-'' @ last (split_on 47 key))
         | Inl (StorageError _) \<Rightarrow> Inl (not_found ''export'')
         | Inl e \<Rightarrow> Inl e))"

end
