(* ===== verification/Export_Facts.thy ===== *)
theory Export_Facts imports Export Ledger begin

text \<open>
  Correctness of exports: an archive the service builds passes its own verification, with its signature
  checked; two archives that pass under the same manifest hold the same files; a verified audit log is a
  valid chain of the manifest's profile. Then the handlers: what an export leaves behind, and the link that
  serves it.
\<close>

section \<open>Bytes and lines\<close>

text \<open>Decoding, and \<open>json.loads\<close> of bytes in UTF-8: an instance of \<open>loads\<close>.\<close>

fun utf8_read :: "bytes \<Rightarrow> pstr option" where
  "utf8_read [] = Some []"
| "utf8_read (b # r) =
     (if b < 128 then map_option ((#) b) (utf8_read r)
      else if b < 192 then None
      else if b < 224 then (case r of x # r \<Rightarrow> map_option ((#) ((b - 192) * 64 + (x - 128))) (utf8_read r) | _ \<Rightarrow> None)
      else if b < 240 then (case r of x # y # r \<Rightarrow>
          map_option ((#) ((b - 224) * 4096 + (x - 128) * 64 + (y - 128))) (utf8_read r) | _ \<Rightarrow> None)
      else (case r of x # y # z # r \<Rightarrow>
          map_option ((#) ((b - 240) * 262144 + (x - 128) * 4096 + (y - 128) * 64 + (z - 128))) (utf8_read r) | _ \<Rightarrow> None))"

lemma base64_digits:
  fixes c :: nat
  shows "c div 64 * 64 + c mod 64 = c" and "c div 4096 * 4096 + (c div 64 mod 64) * 64 + c mod 64 = c"
    and "c div 262144 * 262144 + (c div 4096 mod 64) * 4096 + (c div 64 mod 64) * 64 + c mod 64 = c"
proof -
  have a: "c div 64 * 64 + c mod 64 = c" "c div 64 div 64 * 64 + c div 64 mod 64 = c div 64"
    "c div 64 div 64 div 64 * 64 + c div 64 div 64 mod 64 = c div 64 div 64"
    by (rule div_mult_mod_eq)+
  then show "c div 64 * 64 + c mod 64 = c" by simp
  have d: "c div 4096 = c div 64 div 64" "c div 262144 = c div 64 div 64 div 64"
    by (simp_all add: div_mult2_eq [symmetric])
  from a show "c div 4096 * 4096 + (c div 64 mod 64) * 64 + c mod 64 = c"
    and "c div 262144 * 262144 + (c div 4096 mod 64) * 4096 + (c div 64 mod 64) * 64 + c mod 64 = c"
    unfolding d by linarith+
qed

lemma utf8_read_char: "utf8_read (utf8_char c @ r) = map_option ((#) c) (utf8_read r)"
proof -
  consider "c < 128" | "128 \<le> c" "c < 2048" | "2048 \<le> c" "c < 65536" | "65536 \<le> c"
    by linarith
  then show ?thesis
  proof cases
    case 2
    then show ?thesis
      using base64_digits(1) [of c] by (simp add: utf8_char_def less_mult_imp_div_less)
  next
    case 3
    then show ?thesis
      using base64_digits(2) [of c] by (simp add: utf8_char_def less_mult_imp_div_less)
  next
    case 4
    then show ?thesis
      using base64_digits(3) [of c] by (simp add: utf8_char_def)
  qed (simp add: utf8_char_def)
qed

lemma utf8_round: "utf8_read (utf8 s) = Some s"
  by (induction s) (simp_all add: utf8_read_char del: utf8_read.simps(2))

definition json_loads_bytes :: "bytes \<Rightarrow> parsed" where
  "json_loads_bytes bs = (case utf8_read bs of
     None \<Rightarrow> Undecodable
   | Some s \<Rightarrow> (case json_loads s of Some v \<Rightarrow> Parsed v | None \<Rightarrow> Not_Json))"

text \<open>What the theorems use of \<open>json.loads\<close>: it reads back the texts the service writes, with or
  without the newline.\<close>

definition loads_back :: "(bytes \<Rightarrow> parsed) \<Rightarrow> bool" where
  "loads_back loads \<longleftrightarrow> (\<forall>v. keyed v \<longrightarrow>
     loads (utf8 (canonical_json v)) = Parsed (canon v) \<and> loads (utf8 (canonical_json v @ [10])) = Parsed (canon v))"

lemma json_loads_newline: "keyed v \<Longrightarrow> json_loads (enc v @ [10]) = Some v"
  using enc_read [of v "length (enc v @ [10])"] skip_code [of v "[10]"]
  by (auto simp: json_loads_def reads_def skip_def json_space_def dest: spec [of _ "[10]"])

lemma json_loads_bytes_back: "loads_back json_loads_bytes"
  by (simp add: loads_back_def json_loads_bytes_def utf8_round canonical_json_def json_loads_enc json_loads_newline
      canon_keyed del: utf8_simps)

text \<open>No control character in a JSON text, so a text is one line.\<close>

lemma printable_text:
  "c \<in> set (pad16 2 n) \<Longrightarrow> 32 \<le> c" "c \<in> set (int_str i) \<Longrightarrow> 32 \<le> c"
  by (auto simp: pad16_2 digit_char_def int_str_def dest!: dec_digits split: if_splits)

lemma esc_printable: "c \<in> set (esc d) \<Longrightarrow> 32 \<le> c"
  by (auto simp: esc_def dest: printable_text split: if_splits)

lemma json_str_printable: "c \<in> set (json_str s) \<Longrightarrow> 32 \<le> c"
  by (auto simp: json_str_def dest: esc_printable)

definition printable :: "pstr \<Rightarrow> bool" where
  "printable s \<longleftrightarrow> list_all (\<lambda>c. 32 \<le> c) s"

lemma printable_simps [simp]:
  "printable []" "printable (c # s) \<longleftrightarrow> 32 \<le> c \<and> printable s" "printable (s @ t) \<longleftrightarrow> printable s \<and> printable t"
  by (simp_all add: printable_def)

lemma printable_json_str: "printable (json_str s)"
  using json_str_printable by (auto simp: printable_def list_all_iff)

lemma printable_commas: "list_all printable ts \<Longrightarrow> printable (commas ts)"
  by (cases ts) (auto simp: commas_def printable_def list_all_iff)

lemma enc_printable: "printable (enc v)"
proof (induction v)
  case (JInt i)
  show ?case
    using printable_text(2) by (auto simp: printable_def list_all_iff)
next
  case (JList vs)
  then show ?case
    by (simp add: printable_commas list_all_iff)
next
  case (JObj kvs)
  then have "printable (item p)" if "p \<in> set kvs" for p
    using that by (cases p) (force simp: printable_json_str)
  then show ?case
    unfolding enc_JObj by (simp add: printable_commas list_all_iff)
qed (auto simp: lit_def printable_json_str)

lemma utf8_printable: "printable s \<Longrightarrow> printable (utf8 s)"
  by (induction s) (auto simp: utf8_char_def)

lemma byte_lines_line: "printable line \<Longrightarrow> byte_lines cur (line @ 10 # r) = (rev cur @ line) # byte_lines [] r"
  by (induction line arbitrary: cur) auto

lemma lines_of_texts: "list_all printable us \<Longrightarrow> byte_lines [] (concat (map (\<lambda>t. t @ [10]) us)) = us"
  by (induction us) (simp_all add: byte_lines_line)

section \<open>Sorted form\<close>

lemma insort_key_map: "(\<And>p. fst (g p) = fst p) \<Longrightarrow> insort_key fst (g x) (map g xs) = map g (insort_key fst x xs)"
  by (induction xs) auto

lemma sort_key_map: "(\<And>p. fst (g p) = fst p) \<Longrightarrow> sort_key fst (map g xs) = map g (sort_key fst xs)"
  by (induction xs) (simp_all add: insort_key_map)

lemma canon_canon [simp]: "canon (canon v) = canon v"
proof (induction v)
  case (JObj kvs)
  have twice: "map (map_prod id canon) (map (map_prod id canon) kvs) = map (map_prod id canon) kvs"
    using JObj by (auto simp: snds.simps)
  have move: "sort_key fst (map (map_prod id canon) xs) = map (map_prod id canon) (sort_key fst xs)" for xs :: "(pstr \<times> json) list"
    by (rule sort_key_map) simp
  show ?case
    unfolding canon.simps by (simp only: move [symmetric] twice sort_key_id_if_sorted sorted_sort_key)
qed simp_all

lemma map_of_sort_key: "distinct (map fst kvs) \<Longrightarrow> map_of (sort_key fst kvs) = map_of kvs"
  by (rule map_of_eqI) (auto simp: map_of_eq_Some_iff distinct_map distinct_sort intro!: map_of_eq_Some_iff [THEN iffD1])

lemma canon_lookup:
  assumes "distinct (map fst kvs)"
  shows "\<exists>kvs'. canon (JObj kvs) = JObj kvs' \<and> (\<forall>k. map_of kvs' k = map_option canon (map_of kvs k))"
proof (intro exI conjI allI)
  show "canon (JObj kvs) = JObj (sort_key fst (map (map_prod id canon) kvs))"
    by simp
  have "distinct (map fst (map (map_prod id canon) kvs))"
    using assms by (simp add: comp_def)
  moreover have "map_of (map (map_prod id canon) kvs) k = map_option canon (map_of kvs k)" for k
    by (induction kvs) auto
  ultimately show "map_of (sort_key fst (map (map_prod id canon) kvs)) k = map_option canon (map_of kvs k)" for k
    by (metis map_of_sort_key)
qed

section \<open>The audit log is read back\<close>

definition read_back :: "event_record \<Rightarrow> event_record" where
  "read_back e = e\<lparr>er_payload := canon (er_payload e)\<rparr>"

lemma canon_record_json:
  "canon (record_json e) = JObj [
     (lit ''actor_id'', JStr (er_actor_id e)),
     (lit ''consent_grant_id'', case er_grant_id e of Some g \<Rightarrow> JStr (uuid_str g) | None \<Rightarrow> JNull),
     (lit ''created_at'', JStr (isoformat (er_created_at e))),
     (lit ''deceased_profile_id'', JStr (uuid_str (er_profile_id e))),
     (lit ''event_hash'', JStr (er_event_hash e)),
     (lit ''event_type'', JStr (er_event_type e)),
     (lit ''id'', JInt (er_id e)),
     (lit ''payload'', canon (er_payload e)),
     (lit ''previous_hash'', JStr (er_previous_hash e))]"
  by (cases "er_grant_id e") (simp_all add: record_json_def lit_def)

lemma from_json_record:
  assumes "er_payload e = JObj kvs" and "fromiso (isoformat (er_created_at e)) = Some (Aware (er_created_at e))"
  shows "from_json repr fromiso (canon (record_json e)) = Inr (read_back e, True)"
  unfolding canon_record_json using assms
  by (cases e; cases "er_grant_id e") (auto simp: from_json_def caught_def uuid_arg_def dict_arg_def text_of_def read_back_def)

lemma recomputed_read_back: "recomputed_hash sha (read_back e) = recomputed_hash sha e"
proof -
  have "record_text (read_back e) = record_text e"
    by (simp add: record_text_eq_iff same_content_def read_back_def)
  then show ?thesis
    by (simp add: recomputed_hash_text)
qed

lemma read_back_fields [simp]:
  "er_id (read_back e) = er_id e" "er_profile_id (read_back e) = er_profile_id e" "er_event_hash (read_back e) = er_event_hash e"
  "er_previous_hash (read_back e) = er_previous_hash e" "er_created_at (read_back e) = er_created_at e"
  by (simp_all add: read_back_def)

lemma verify_read_back: "verify_chain sha (map read_back es) an = verify_chain sha es an"
proof -
  have "verify_event sha an r (read_back e) = verify_event sha an r e" for r e
    unfolding verify_event_def event_errors_def next_summary_def recomputed_read_back read_back_fields ..
  then have "verify_events sha an r (map read_back es) = verify_events sha an r es" for r
    by (induction es arbitrary: r) simp_all
  then show ?thesis
    by (simp add: verify_chain_def)
qed

definition writable :: "(pstr \<Rightarrow> iso option) \<Rightarrow> event_record \<Rightarrow> bool" where
  "writable fromiso e \<longleftrightarrow> (\<exists>kvs. er_payload e = JObj kvs) \<and> keyed (er_payload e) \<and>
     fromiso (isoformat (er_created_at e)) = Some (Aware (er_created_at e))"

lemma record_json_keyed: "keyed (er_payload e) \<Longrightarrow> keyed (record_json e)"
  by (cases "er_grant_id e") (simp_all add: record_json_def)

definition log_line :: "event_record \<Rightarrow> bytes" where
  "log_line e = utf8 (canonical_json (record_json e))"

lemma log_line_solid: "printable (log_line e)" "strip_by is_byte_space (log_line e) \<noteq> []"
proof -
  show "printable (log_line e)"
    by (simp add: log_line_def canonical_json_def enc_printable utf8_printable)
  obtain t where t: "canonical_json (record_json e) = 123 # t @ [125]"
    by (simp add: canonical_json_def canon_record_json enc_JObj del: enc.simps(6))
  have "strip_by is_byte_space (log_line e) = log_line e"
    by (rule strip_by_id) (simp add: log_line_def t utf8_char_def is_byte_space_def)
  then show "strip_by is_byte_space (log_line e) \<noteq> []"
    by (simp add: log_line_def t utf8_char_def)
qed

lemma audit_jsonl_lines:
  assumes "audit_jsonl es = Inr log"
  shows "byte_lines [] log = map log_line es"
proof -
  have "utf8 (concat (map (\<lambda>e. canonical_json (record_json e) @ [10]) es)) = concat (map (\<lambda>t. t @ [10]) (map log_line es))"
    by (induction es) (simp_all add: log_line_def utf8_char_def)
  then have "log = concat (map (\<lambda>t. t @ [10]) (map log_line es))"
    using assms by (simp add: audit_jsonl_def encode_def split: if_split_asm)
  then show ?thesis
    using lines_of_texts [of "map log_line es"] by (simp add: list_all_iff log_line_solid)
qed

lemma read_log_back:
  assumes "loads_back loads" and "\<And>e. e \<in> set es \<Longrightarrow> writable fromiso e"
  shows "read_log loads repr fromiso (map log_line es) = Inr (map (\<lambda>e. (read_back e, True)) es)"
  using assms(2)
proof (induction es)
  case (Cons e es)
  then have e: "writable fromiso e"
    by simp
  then have "loads (log_line e) = Parsed (canon (record_json e))"
    using assms(1) record_json_keyed by (simp add: loads_back_def log_line_def writable_def)
  moreover obtain kvs where "er_payload e = JObj kvs"
    using e by (auto simp: writable_def)
  ultimately show ?case
    using Cons e from_json_record [of e kvs fromiso repr] by (simp add: log_line_solid writable_def)
qed simp

lemma chain_report_back:
  assumes "verify_chain (sha256 \<circ> utf8) es [] = Inr report"
  shows "chain_report_of sha256 (map (\<lambda>e. (read_back e, True)) es) = Inr report"
proof -
  have "map fst (takeWhile snd (map (\<lambda>e. (read_back e, True)) es)) = map read_back es"
    "list_all snd (map (\<lambda>e. (read_back e, True)) es)"
    by (induction es) simp_all
  then show ?thesis
    using assms verify_read_back [of "sha256 \<circ> utf8" es "[]"] by (simp only: chain_report_of_def sum.case if_True)
qed

section \<open>A built bundle passes\<close>

definition as_member :: "pstr \<times> bytes \<Rightarrow> zip_member" where
  "as_member f = \<lparr> zm_name = fst f, zm_size = length (snd f), zm_content = Some (snd f) \<rparr>"

lemma as_member_simps [simp]: "zm_name (as_member f) = fst f" "zm_size (as_member f) = length (snd f)" "zm_content (as_member f) = Some (snd f)"
  by (simp_all add: as_member_def)

text \<open>What the theorems use of \<open>zipfile\<close>: it reads back what it wrote.\<close>

definition reads_archives :: "((pstr \<times> bytes) list \<Rightarrow> bytes) \<Rightarrow> (bytes \<Rightarrow> zip_member list option) \<Rightarrow> bool" where
  "reads_archives pack unpack \<longleftrightarrow> (\<forall>fs. distinct (map fst fs) \<longrightarrow> unpack (pack fs) = Some (map as_member fs))"

lemma member_of_packed:
  assumes "distinct (map fst fs)" and "f \<in> set fs"
  shows "member_of (map as_member fs) (fst f) = Some (as_member f)"
proof -
  have "distinct (map zm_name (rev (map as_member fs)))"
    using assms(1) by (simp add: rev_map [symmetric] comp_def)
  moreover have "as_member f \<in> set (rev (map as_member fs))"
    using assms(2) by simp
  ultimately show ?thesis
    unfolding member_of_def using find_key [of zm_name _ "as_member f"] by force
qed

definition entry_fields :: "(bytes \<Rightarrow> pstr) \<Rightarrow> pstr \<times> bytes \<Rightarrow> (pstr \<times> json) list" where
  "entry_fields sha256 f = [(lit ''bytes'', JInt (int (length (snd f)))), (lit ''path'', JStr (fst f)),
     (lit ''sha256'', JStr (sha256 (snd f)))]"

lemma canon_file_entry: "canon (file_entry sha256 f) = JObj (entry_fields sha256 f)"
  by (simp add: file_entry_def entry_fields_def lit_def)

lemma listed_files:
  assumes "distinct (map fst fs)" and "\<And>f. f \<in> set fs \<Longrightarrow> JStr (fst f) \<notin> fst ` set acc"
    and "list_all (\<lambda>p. text_of (fst p) \<noteq> None) acc"
  shows "listed_from (map (\<lambda>f. canon (file_entry sha256 f)) fs) acc =
    Inr (acc @ map (\<lambda>f. (JStr (fst f), entry_fields sha256 f)) fs)"
  using assms
proof (induction fs arbitrary: acc)
  case (Cons f fs)
  have put: "put_entry (JStr n) v acc = acc @ [(JStr n, v)]" if "JStr n \<notin> fst ` set acc" for n v
    using that Cons.prems(3)
    by (induction acc) (auto simp: same_key_def text_of_def as_number_def split: json.splits)
  have "entry_path (canon (file_entry sha256 f)) = Inr (JStr (fst f), entry_fields sha256 f)"
    by (simp add: canon_file_entry entry_path_def entry_fields_def)
  then have "listed_from (map (\<lambda>f. canon (file_entry sha256 f)) (f # fs)) acc =
      listed_from (map (\<lambda>f. canon (file_entry sha256 f)) fs) (acc @ [(JStr (fst f), entry_fields sha256 f)])"
    using Cons.prems(2) [of f] by (simp add: put del: canon.simps)
  also have "\<dots> = Inr ((acc @ [(JStr (fst f), entry_fields sha256 f)]) @ map (\<lambda>f. (JStr (fst f), entry_fields sha256 f)) fs)"
  proof (rule Cons.IH)
    have "fst g \<noteq> fst f" if "g \<in> set fs" for g
      using Cons.prems(1) that by (metis distinct.simps(2) image_eqI list.set_map list.simps(9))
    then show "JStr (fst g) \<notin> fst ` set (acc @ [(JStr (fst f), entry_fields sha256 f)])" if "g \<in> set fs" for g
      using Cons.prems(2) [of g] that by auto
  qed (use Cons.prems in \<open>simp_all add: text_of_def\<close>)
  finally show ?case by simp
qed simp

lemma collect_none: "(\<And>x. x \<in> set xs \<Longrightarrow> check x = Inr []) \<Longrightarrow> collect_errors check xs = Inr []"
  by (induction xs) auto

lemma check_files_built:
  assumes "map_of manifest (lit ''files'') = Some (JList (map (\<lambda>f. canon (file_entry sha256 f)) files))"
    and "sorted (map fst files)" and "distinct (map fst archive)" and "set files \<subseteq> set archive"
    and "\<And>f. f \<in> set archive \<Longrightarrow> f \<notin> set files \<Longrightarrow> fst f \<in> {manifest_name, signature_name}"
    and "\<And>f. f \<in> set archive \<Longrightarrow> length (snd f) \<le> max_entry_bytes" and "distinct (map fst files)"
  shows "check_files sha256 (map as_member archive) manifest = Inr []"
proof -
  let ?listed = "map (\<lambda>f. (JStr (fst f), entry_fields sha256 f)) files"
  have "sort_listed ?listed = Inr ?listed"
    using assms(2) by (simp add: sort_listed_def list_all_iff text_of_def sort_key_id_if_sorted comp_def)
  moreover have "check_entry sha256 (map as_member archive) (JStr (fst f), entry_fields sha256 f) = Inr []" if "f \<in> set files" for f
  proof -
    have "f \<in> set archive" using that assms(4) by blast
    then show ?thesis
      using assms(6) [of f] member_of_packed [OF assms(3), of f]
      by (simp add: check_entry_def read_member_def entry_fields_def equals_int_def as_number_def not_less)
  qed
  then have "collect_errors (check_entry sha256 (map as_member archive)) ?listed = Inr []"
    by (intro collect_none) auto
  moreover have "unlisted (map as_member archive) ?listed = []"
  proof -
    have "fst f \<in> {manifest_name, signature_name}" if "f \<in> set archive" "JStr (fst f) \<notin> fst ` set ?listed" for f
      using assms(5) [OF that(1)] that(2) by force
    then have "filter (\<lambda>name. JStr name \<notin> fst ` set ?listed \<and> name \<noteq> manifest_name \<and> name \<noteq> signature_name)
        (map zm_name (map as_member archive)) = []"
      by (fastforce simp: filter_empty_conv)
    then show ?thesis
      unfolding unlisted_def by (simp only: remdups.simps sort_key_simps)
  qed
  ultimately show ?thesis
    using assms(1) listed_files [OF assms(7), of "[]" sha256] by (simp add: check_files_def iterate_def)
qed

lemma find_fst: "find (\<lambda>c. fst c = i) cs = map_option (Pair i) (map_of cs i)"
  by (induction cs) auto

lemma section_lookup:
  assumes "map_of manifest (lit name) = Some (canon (JObj kvs))" and "distinct (map fst kvs)"
  shows "\<exists>kvs'. section_of manifest name = Inr kvs' \<and> (\<forall>k. map_of kvs' k = map_option canon (map_of kvs k))"
  using canon_lookup [OF assms(2)] assms(1) by (auto simp: section_of_def simp del: canon.simps)

definition chain_section :: "uuid \<Rightarrow> chain_report \<Rightarrow> json" where
  "chain_section i report = JObj [
     (lit ''length'', JInt (case map_of (cr_chains report) i of Some c \<Rightarrow> int (cs_length c) | None \<Rightarrow> 0)),
     (lit ''head_hash'', JStr (case map_of (cr_chains report) i of Some c \<Rightarrow> cs_head_hash c | None \<Rightarrow> genesis_hash)),
     (lit ''verified_at_export'', JBool (report_ok report))]"

lemma check_log_built:
  assumes "audit_jsonl es = Inr log" and "loads_back loads" and "\<And>e. e \<in> set es \<Longrightarrow> writable fromiso e \<and> er_profile_id e = i"
    and "verify_chain (sha256 \<circ> utf8) es [] = Inr report" and "report_ok report"
    and "member_of archive audit_log_name = Some m" and "zm_content m = Some log"
    and "map_of manifest (lit ''profile_id'') = Some (JStr (uuid_str i))"
    and "map_of manifest (lit ''audit_chain'') = Some (canon (chain_section i report))"
  shows "check_log sha256 loads repr fromiso archive manifest = Inr ([], Some report)"
proof -
  have read: "read_log loads repr fromiso (byte_lines [] log) = Inr (map (\<lambda>e. (read_back e, True)) es)"
    unfolding audit_jsonl_lines [OF assms(1)] using assms(2,3) by (intro read_log_back) auto
  have names: "names_profile manifest j \<longleftrightarrow> j = i" for j
    using assms(8) by (auto simp: names_profile_def)
  have "j = i" if j: "(j, c) \<in> set (cr_chains report)" for j c
  proof -
    obtain r where r: "verify_events (sha256 \<circ> utf8) [] empty_report es = Inr r" "cr_chains report = cr_chains r"
      using assms(4) by (auto simp: verify_chain_def bindE_eq_Inr)
    have "map_of (cr_chains report) j \<noteq> None"
      using j by (auto simp: map_of_eq_None_iff intro: rev_image_eqI)
    then have "of_profile j es \<noteq> []"
      using verify_chains [OF r(1), of j] r(2) by auto
    then show ?thesis
      using assms(3) by (auto simp: of_profile_def filter_empty_conv)
  qed
  then have others: "\<not> list_ex (\<lambda>c. \<not> names_profile manifest (fst c)) (cr_chains report)"
    by (auto simp: list_ex_iff names)
  obtain expected where ex: "section_of manifest ''audit_chain'' = Inr expected"
    "\<And>k. map_of expected k = map_option canon (map_of [
     (lit ''length'', JInt (case map_of (cr_chains report) i of Some c \<Rightarrow> int (cs_length c) | None \<Rightarrow> 0)),
     (lit ''head_hash'', JStr (case map_of (cr_chains report) i of Some c \<Rightarrow> cs_head_hash c | None \<Rightarrow> genesis_hash)),
     (lit ''verified_at_export'', JBool (report_ok report))] k)"
    using section_lookup [OF assms(9) [unfolded chain_section_def]] by auto
  show ?thesis
    using assms(5-7) read chain_report_back [OF assms(4)] others ex
    by (cases "map_of (cr_chains report) i")
      (simp_all add: check_log_def read_member_def names find_fst report_ok_def equals_int_def as_number_def Let_def)
qed

lemma built_pieces:
  assumes "build_bundle sha256 pack sign keyring i t by docs es = Inr b"
  obtains files log report body where "encode_files docs = Inr files" and "audit_jsonl es = Inr log"
    and "verify_chain (sha256 \<circ> utf8) es [] = Inr report"
    and "body = utf8 (canonical_json (make_manifest sha256 i t by (kr_signing_kid keyring)
            (sort_key fst (AList.update audit_log_name log files)) report) @ [10])"
    and "bu_data b = pack (sort_key fst (AList.update audit_log_name log files) @
           [(manifest_name, body), (signature_name, sign (kr_signing_key keyring) body @ [10])])"
  using assms unfolding build_bundle_def Let_def
  by (elim bindE_InrE) (auto simp: encode_def split: if_split_asm)

lemma encode_files_names: "encode_files docs = Inr files \<Longrightarrow> map fst files = map fst docs"
  by (induction docs arbitrary: files) (auto simp: bindE_eq_Inr)

lemma manifest_keyed: "keyed (make_manifest sha256 i t by kid files report)"
  by (simp add: make_manifest_def Let_def list_all_iff file_entry_def)

lemma manifest_lookup:
  obtains m where "canon (make_manifest sha256 i t by kid files report) = JObj m"
    and "map_of m (lit ''format'') = Some (JStr export_format)" and "map_of m (lit ''profile_id'') = Some (JStr (uuid_str i))"
    and "map_of m (lit ''files'') = Some (JList (map (\<lambda>f. canon (file_entry sha256 f)) files))"
    and "map_of m (lit ''audit_chain'') = Some (canon (chain_section i report))"
    and "map_of m (lit ''signature'') = Some (canon (JObj [(lit ''algorithm'', JStr (lit ''Ed25519'')), (lit ''key_id'', JStr kid),
           (lit ''file'', JStr signature_name)]))"
proof -
  obtain kvs where kvs: "make_manifest sha256 i t by kid files report = JObj kvs" and d: "distinct (map fst kvs)"
    and look: "map_of kvs (lit ''format'') = Some (JStr export_format)" "map_of kvs (lit ''profile_id'') = Some (JStr (uuid_str i))"
      "map_of kvs (lit ''files'') = Some (JList (map (file_entry sha256) files))"
      "map_of kvs (lit ''audit_chain'') = Some (chain_section i report)"
      "map_of kvs (lit ''signature'') = Some (JObj [(lit ''algorithm'', JStr (lit ''Ed25519'')), (lit ''key_id'', JStr kid),
           (lit ''file'', JStr signature_name)])"
    by (simp add: make_manifest_def Let_def chain_section_def)
  from canon_lookup [OF d] obtain m where "canon (JObj kvs) = JObj m" "\<And>k. map_of m k = map_option canon (map_of kvs k)"
    by blast
  with look kvs show thesis
    by (intro that [of m]) (simp_all add: comp_def del: canon.simps(6))
qed

lemma check_signature_built:
  assumes "map_of manifest (lit ''signature'') = Some (canon (JObj [(lit ''algorithm'', JStr (lit ''Ed25519'')),
        (lit ''key_id'', JStr kid), (lit ''file'', JStr signature_name)]))"
    and "map_of keys kid = Some key" and "member_of archive signature_name = Some m" and "zm_content m = Some c"
    and "sig_valid key (strip_by is_byte_space c) body"
  shows "check_signature sig_valid repr (Some keys) archive manifest body = Inr ([], True)"
proof -
  obtain kvs where "section_of manifest ''signature'' = Inr kvs" "map_of kvs (lit ''key_id'') = Some (JStr kid)"
    using section_lookup [OF assms(1)] by auto
  with assms(2-5) show ?thesis
    by (simp add: check_signature_def read_member_def)
qed

text \<open>What the theorem asks of the signature functions, for a key pair.\<close>

definition signs_for :: "('sk \<Rightarrow> bytes \<Rightarrow> bytes) \<Rightarrow> ('vk \<Rightarrow> bytes \<Rightarrow> bytes \<Rightarrow> bool) \<Rightarrow> 'sk \<Rightarrow> 'vk \<Rightarrow> bool" where
  "signs_for sign sig_valid sk vk \<longleftrightarrow> (\<forall>m. sig_valid vk (strip_by is_byte_space (sign sk m @ [10])) m)"

lemma names_differ [simp]:
  "manifest_name \<noteq> signature_name" "manifest_name \<noteq> audit_log_name" "signature_name \<noteq> audit_log_name"
  "signature_name \<noteq> manifest_name" "audit_log_name \<noteq> manifest_name" "audit_log_name \<noteq> signature_name"
  by (simp_all add: manifest_name_def signature_name_def audit_log_name_def)

lemma built_bundle_verifies:
  assumes "build_bundle sha256 pack sign keyring i t by docs es = Inr b"
    and "distinct (map fst docs)" and "set (map fst docs) \<inter> {manifest_name, signature_name} = {}"
    and "\<And>e. e \<in> set es \<Longrightarrow> writable fromiso e \<and> er_profile_id e = i" and "chain_valid (sha256 \<circ> utf8) es"
    and "reads_archives pack unpack" and "loads_back loads"
    and "map_of keys (kr_signing_kid keyring) = Some key" and "signs_for sign sig_valid (kr_signing_key keyring) key"
    and "\<And>ms m. unpack (bu_data b) = Some ms \<Longrightarrow> m \<in> set ms \<Longrightarrow> zm_size m \<le> max_entry_bytes"
  shows "\<exists>v. verify_bundle unpack sha256 sig_valid loads repr fromiso (bu_data b) (Some keys) = Inr v \<and>
    verification_ok v \<and> xv_signature_checked v"
proof -
  obtain files0 log report body where built: "encode_files docs = Inr files0" "audit_jsonl es = Inr log"
    and report: "verify_chain (sha256 \<circ> utf8) es [] = Inr report"
    and body: "body = utf8 (canonical_json (make_manifest sha256 i t by (kr_signing_kid keyring)
            (sort_key fst (AList.update audit_log_name log files0)) report) @ [10])"
    and data: "bu_data b = pack (sort_key fst (AList.update audit_log_name log files0) @
           [(manifest_name, body), (signature_name, sign (kr_signing_key keyring) body @ [10])])"
    by (rule built_pieces [OF assms(1)])
  define files where "files = sort_key fst (AList.update audit_log_name log files0)"
  let ?archive = "files @ [(manifest_name, body), (signature_name, sign (kr_signing_key keyring) body @ [10])]"
  have "distinct (map fst (AList.update audit_log_name log files0))"
    using assms(2) encode_files_names [OF built(1)] by (simp add: distinct_update)
  then have d: "distinct (map fst files)"
    unfolding files_def by (simp only: distinct_map distinct_sort set_sort)
  have names: "fst ` set files \<subseteq> insert audit_log_name (set (map fst docs))"
    using encode_files_names [OF built(1)] by (auto simp: files_def dom_update dest!: arg_cong [of _ _ set])
      (metis fst_conv image_eqI insertE dom_update)
  have log: "(audit_log_name, log) \<in> set files"
    by (simp add: files_def) (metis map_of_SomeD update_Some_unfold)
  have da: "distinct (map fst ?archive)"
    using d names assms(3) by auto
  have unpacked: "unpack (bu_data b) = Some (map as_member ?archive)"
    using assms(6) da by (simp add: data files_def reads_archives_def)
  have member: "member_of (map as_member ?archive) (fst f) = Some (as_member f)" if "f \<in> set ?archive" for f
    by (rule member_of_packed [OF da that])
  obtain m where m: "canon (make_manifest sha256 i t by (kr_signing_kid keyring) files report) = JObj m"
    and look: "map_of m (lit ''format'') = Some (JStr export_format)" "map_of m (lit ''profile_id'') = Some (JStr (uuid_str i))"
      "map_of m (lit ''files'') = Some (JList (map (\<lambda>f. canon (file_entry sha256 f)) files))"
      "map_of m (lit ''audit_chain'') = Some (canon (chain_section i report))"
      "map_of m (lit ''signature'') = Some (canon (JObj [(lit ''algorithm'', JStr (lit ''Ed25519'')),
         (lit ''key_id'', JStr (kr_signing_kid keyring)), (lit ''file'', JStr signature_name)]))"
    by (rule manifest_lookup)
  have "loads body = Parsed (JObj m)"
    using assms(7) manifest_keyed [of sha256 i t "by" "kr_signing_kid keyring" files report]
    unfolding loads_back_def body files_def [symmetric] m [symmetric] by blast
  moreover have "check_files sha256 (map as_member ?archive) m = Inr []"
  proof (rule check_files_built [OF look(3) _ da])
    show "length (snd f) \<le> max_entry_bytes" if "f \<in> set ?archive" for f
      using assms(10) [OF unpacked, of "as_member f"] that by auto
  qed (use d in \<open>auto simp: files_def\<close>)
  moreover have "report_ok report"
  proof -
    have "of_profile j es = (if j = i then es else [])" for j
      using assms(4) by (auto simp: of_profile_def filter_True filter_empty_conv intro!: filter_True)
    then have "\<exists>r. verify_chain (sha256 \<circ> utf8) es [] = Inr r \<and> report_ok r"
      using assms(5) by (auto simp: verify_chain_plain)
    then show ?thesis using report by auto
  qed
  then have "check_log sha256 loads repr fromiso (map as_member ?archive) m = Inr ([], Some report)"
    using member [of "(audit_log_name, log)"] log
    by (intro check_log_built [OF built(2) assms(7,4) report _ _ _ look(2,4)]) auto
  moreover have "check_signature sig_valid repr (Some keys) (map as_member ?archive) m body = Inr ([], True)"
    using member [of "(signature_name, sign (kr_signing_key keyring) body @ [10])"] assms(9)
    by (intro check_signature_built [OF look(5) assms(8)]) (auto simp: signs_for_def)
  ultimately show ?thesis
    using member [of "(manifest_name, body)"] look(1)
    by (simp add: verify_bundle_def unpacked read_member_def check_manifest_def verification_ok_def del: map_append)
qed

section \<open>What a clean verification shows\<close>

lemma collect_empty: "collect_errors check xs = Inr [] \<Longrightarrow> x \<in> set xs \<Longrightarrow> check x = Inr []"
  by (induction xs) (auto simp: bindE_eq_Inr)

lemma sort_listed_set: "sort_listed kvs = Inr ordered \<Longrightarrow> set ordered = set kvs"
  by (auto simp: sort_listed_def split: if_split_asm)

definition content_at :: "zip_member list \<Rightarrow> pstr \<Rightarrow> bytes option" where
  "content_at archive name = Option.bind (member_of archive name) zm_content"

lemma member_of_Some: "member_of archive name = Some m \<Longrightarrow> m \<in> set archive \<and> zm_name m = name"
  unfolding member_of_def using find_SomeD by fastforce

lemma member_of_None: "member_of archive name = None \<longleftrightarrow> name \<notin> zm_name ` set archive"
  by (auto simp: member_of_def find_None_iff)

lemma check_entry_clean:
  assumes "check_entry sha256 archive (p, kvs) = Inr []"
  shows "\<exists>name c. p = JStr name \<and> content_at archive name = Some c \<and> map_of kvs (lit ''sha256'') = Some (JStr (sha256 c))"
  using assms by (auto simp: check_entry_def read_member_def content_at_def bindE_eq_Inr split: option.split_asm json.split_asm if_split_asm)

lemma check_files_clean:
  assumes "check_files sha256 archive manifest = Inr []"
  obtains entries listed where "iterate (map_of manifest (lit ''files'')) = Inr entries" and "listed_from entries [] = Inr listed"
    and "\<And>p kvs. (p, kvs) \<in> set listed \<Longrightarrow>
      \<exists>name c. p = JStr name \<and> content_at archive name = Some c \<and> map_of kvs (lit ''sha256'') = Some (JStr (sha256 c))"
    and "\<And>name. member_of archive name \<noteq> None \<Longrightarrow> name \<notin> {manifest_name, signature_name} \<Longrightarrow> JStr name \<in> fst ` set listed"
proof -
  obtain entries listed ordered errors where e: "iterate (map_of manifest (lit ''files'')) = Inr entries"
    and l: "listed_from entries [] = Inr listed" and o: "sort_listed listed = Inr ordered"
    and c: "collect_errors (check_entry sha256 archive) ordered = Inr []" and u: "unlisted archive listed = []"
    using assms by (auto simp: check_files_def bindE_eq_Inr)
  show thesis
  proof (rule that [OF e l])
    show "\<exists>name c. p = JStr name \<and> content_at archive name = Some c \<and> map_of kvs (lit ''sha256'') = Some (JStr (sha256 c))"
      if "(p, kvs) \<in> set listed" for p kvs
      using collect_empty [OF c, of "(p, kvs)"] that sort_listed_set [OF o] by (intro check_entry_clean) auto
    show "JStr name \<in> fst ` set listed" if "member_of archive name \<noteq> None" "name \<notin> {manifest_name, signature_name}" for name
    proof (rule ccontr)
      assume "JStr name \<notin> fst ` set listed"
      then have "name \<in> set (unlisted archive listed)"
        using that by (auto simp: unlisted_def member_of_None)
      then show False using u by simp
    qed
  qed
qed

lemma clean_pieces:
  assumes "verify_bundle unpack sha256 sig_valid loads repr fromiso data keys = Inr v" and "verification_ok v"
  obtains archive body manifest report where "unpack data = Some archive" and "content_at archive manifest_name = Some body"
    and "loads body = Parsed (JObj manifest)" and "check_files sha256 archive manifest = Inr []"
    and "check_log sha256 loads repr fromiso archive manifest = Inr ([], xv_chain v)"
    and "check_signature sig_valid repr keys archive manifest body = Inr ([], xv_signature_checked v)"
    and "xv_manifest v = Some manifest"
proof -
  obtain archive where archive: "unpack data = Some archive"
    using assms by (cases "unpack data") (auto simp: verify_bundle_def rejected_def verification_ok_def)
  obtain m where m: "member_of archive manifest_name = Some m"
    using assms archive by (cases "member_of archive manifest_name") (auto simp: verify_bundle_def rejected_def verification_ok_def)
  obtain body where body: "zm_content m = Some body"
    using assms(1) archive m by (cases "zm_content m") (auto simp: verify_bundle_def read_member_def)
  obtain manifest where manifest: "loads body = Parsed (JObj manifest)"
    using assms archive m body
    by (auto simp: verify_bundle_def read_member_def rejected_def verification_ok_def split: parsed.split_asm json.split_asm)
  then have "check_manifest sha256 sig_valid loads repr fromiso keys archive body manifest = Inr v"
    using assms(1) archive m body by (simp add: verify_bundle_def read_member_def)
  then show thesis
    using assms(2) archive m body manifest unfolding check_manifest_def
    by (elim bindE_InrE) (auto simp: verification_ok_def content_at_def elim!: bindE_InrE split: if_split_asm intro!: that)
qed

lemma verified_archives_agree:
  assumes "verify_bundle unpack sha256 sig_valid loads repr fromiso data keys = Inr v" and "verification_ok v"
    and "verify_bundle unpack sha256 sig_valid loads repr fromiso data' keys' = Inr v'" and "verification_ok v'"
    and "unpack data = Some archive" and "unpack data' = Some archive'"
    and "content_at archive manifest_name = content_at archive' manifest_name"
    and "inj_on sha256 (\<Union>name. set_option (content_at archive name) \<union> set_option (content_at archive' name))"
    and "name \<notin> {manifest_name, signature_name}"
  shows "content_at archive name = content_at archive' name"
proof -
  obtain body manifest where a: "content_at archive manifest_name = Some body" "loads body = Parsed (JObj manifest)"
    "check_files sha256 archive manifest = Inr []"
    by (rule clean_pieces [OF assms(1,2)]) (use assms(5) in auto)
  obtain body' manifest' where b: "content_at archive' manifest_name = Some body'" "loads body' = Parsed (JObj manifest')"
    "check_files sha256 archive' manifest' = Inr []"
    by (rule clean_pieces [OF assms(3,4)]) (use assms(6) in auto)
  have same: "manifest' = manifest"
    using a b assms(7) by simp
  obtain entries listed where l: "iterate (map_of manifest (lit ''files'')) = Inr entries" "listed_from entries [] = Inr listed"
    and here: "\<And>p kvs. (p, kvs) \<in> set listed \<Longrightarrow>
      \<exists>name c. p = JStr name \<and> content_at archive name = Some c \<and> map_of kvs (lit ''sha256'') = Some (JStr (sha256 c))"
    and all: "\<And>name. member_of archive name \<noteq> None \<Longrightarrow> name \<notin> {manifest_name, signature_name} \<Longrightarrow> JStr name \<in> fst ` set listed"
    by (rule check_files_clean [OF a(3)]) (rule that; assumption)
  obtain entries' listed' where l': "iterate (map_of manifest (lit ''files'')) = Inr entries'" "listed_from entries' [] = Inr listed'"
    and there: "\<And>p kvs. (p, kvs) \<in> set listed' \<Longrightarrow>
      \<exists>name c. p = JStr name \<and> content_at archive' name = Some c \<and> map_of kvs (lit ''sha256'') = Some (JStr (sha256 c))"
    and all': "\<And>name. member_of archive' name \<noteq> None \<Longrightarrow> name \<notin> {manifest_name, signature_name} \<Longrightarrow> JStr name \<in> fst ` set listed'"
    by (rule check_files_clean [OF b(3) [unfolded same]]) (rule that; assumption)
  have eq: "listed' = listed"
    using l l' by simp
  show ?thesis
  proof (cases "JStr name \<in> fst ` set listed")
    case True
    then obtain kvs where "(JStr name, kvs) \<in> set listed"
      by auto
    with here there eq obtain c c' where c: "content_at archive name = Some c" "content_at archive' name = Some c'"
      and d: "sha256 c = sha256 c'"
      by fastforce
    have "c = c'"
      by (rule inj_onD [OF assms(8) d]) (use c in auto)
    with c show ?thesis by simp
  next
    case False
    then show ?thesis
      using all [of name] all' [of name] eq assms(9) by (cases "member_of archive name"; cases "member_of archive' name") (auto simp: content_at_def)
  qed
qed

text \<open>The log of a clean bundle is one valid chain of the manifest's profile, as long as the manifest says.\<close>

lemma check_log_clean:
  assumes "check_log sha256 loads repr fromiso archive manifest = Inr ([], report)"
  obtains log es where "content_at archive audit_log_name = Some log" and "read_log loads repr fromiso (byte_lines [] log) = Inr es"
    and "list_all snd es" and "\<And>i. chain_valid (sha256 \<circ> utf8) (of_profile i (map fst es))"
    and "\<And>e. e \<in> set es \<Longrightarrow> names_profile manifest (er_profile_id (fst e))"
proof -
  obtain m log where m: "member_of archive audit_log_name = Some m" "zm_content m = Some log"
    using assms by (auto simp: check_log_def read_member_def bindE_eq_Inr split: option.split_asm)
  obtain es where es: "read_log loads repr fromiso (byte_lines [] log) = Inr es"
    using assms m by (auto simp: check_log_def read_member_def bindE_eq_Inr Let_def split: sum.split_asm option.split_asm)
  obtain r where r: "chain_report_of sha256 es = Inr r" and clean: "cr_errors r = []"
    and own: "\<not> list_ex (\<lambda>c. \<not> names_profile manifest (fst c)) (cr_chains r)"
    using assms m es by (auto simp: check_log_def read_member_def bindE_eq_Inr Let_def split: if_split_asm)
  have aware: "list_all snd es" and plain: "verify_chain (sha256 \<circ> utf8) (map fst (takeWhile snd es)) [] = Inr r"
    using r by (auto simp: chain_report_of_def split: sum.split_asm if_split_asm)
  have "takeWhile snd es = es"
    using aware by (simp add: takeWhile_eq_all_conv list_all_iff)
  with plain have plain: "verify_chain (sha256 \<circ> utf8) (map fst es) [] = Inr r"
    by simp
  show thesis
  proof (rule that)
    show "content_at archive audit_log_name = Some log"
      using m by (simp add: content_at_def)
    show "chain_valid (sha256 \<circ> utf8) (of_profile i (map fst es))" for i
      using plain clean verify_chain_plain [of "sha256 \<circ> utf8" "map fst es"] by (auto simp: report_ok_def)
    show "names_profile manifest (er_profile_id (fst e))" if "e \<in> set es" for e
    proof -
      obtain q where q: "verify_events (sha256 \<circ> utf8) [] empty_report (map fst es) = Inr q" "cr_chains r = cr_chains q"
        using plain by (auto simp: verify_chain_def bindE_eq_Inr)
      have "of_profile (er_profile_id (fst e)) (map fst es) \<noteq> []"
        using that by (auto simp: of_profile_def filter_empty_conv)
      then have "map_of (cr_chains r) (er_profile_id (fst e)) \<noteq> None"
        using verify_chains [OF q(1), of "er_profile_id (fst e)"] q(2) by simp
      then obtain c where "(er_profile_id (fst e), c) \<in> set (cr_chains r)"
        by (auto dest: map_of_SomeD)
      with own show ?thesis
        by (auto simp: list_ex_iff)
    qed
  qed (use es aware in auto)
qed

section \<open>The handlers\<close>

lemma record_export_evolves:
  "record_export X now i actor export_id a b db = Inr (db', e) \<Longrightarrow> evolves (text_sha X) db db'"
  unfolding record_export_def by (rule append_event_evolves)

lemma export_authorized_cases:
  assumes "export_authorized X i actor env a (db, store) = ((db', store'), r)"
  obtains (failed) e where "r = Inl e" and "db' = db"
  | (exported) b e where "export_bundle_of X i actor (clock_at env 3) db = Inr b"
      and "ex_put X store (export_key i (fresh env 1)) (bu_data b) = Inr store'"
      and "record_export X (clock_at env 4) i actor (fresh env 1) a b db = Inr (db', e)"
      and "r = bindE (ex_signed_url X (export_key i (fresh env 1)) (ex_url_ttl X) (clock_at env 3)) (\<lambda>url.
                 Inr \<lparr> xr_export_id = fresh env 1, xr_url = url, xr_expires_at = clock_at env 3 + ex_url_ttl X * second,
                   xr_manifest_sha256 = bu_manifest_sha256 b, xr_file_count = bu_file_count b \<rparr>)"
  using assms unfolding export_authorized_def transact_def
  by (auto simp: Let_def split: sum.split_asm prod.split_asm intro: that)

lemma export_authorized_evolves:
  assumes "export_authorized X i actor env a (db, store) = ((db', store'), r)"
  shows "evolves (text_sha X) db db'"
  using assms by (cases rule: export_authorized_cases) (auto dest: record_export_evolves)

lemma export_profile_cases:
  assumes "export_profile U X i actor env (db, store) = ((db', store'), r)"
  obtains (stopped) x e where "authorize U (text_sha X) (ex_jwt X) (ex_issuer X) EXPORT_DATA i actor
        (declared_value DP_DATA_PORTABILITY) env db = (db', x)" and "r = Inl e" and "store' = store"
  | (authorized) db1 q a where "authorize U (text_sha X) (ex_jwt X) (ex_issuer X) EXPORT_DATA i actor
        (declared_value DP_DATA_PORTABILITY) env db = (db1, Inr q)" and "ar_allowed q"
      and "validate (ex_jwt X) (ex_validator X) (sql_status db1) (clock_at env 2) (ar_token q) EXPORT_DATA i = Inr a"
      and "export_authorized X i actor env a (db1, store) = ((db', store'), r)"
  using assms unfolding export_profile_def
  by (auto simp: Let_def split: sum.split_asm prod.split_asm if_split_asm validation_error.split_asm intro: that)

lemma export_profile_evolves [ledger_ext]:
  assumes "export_profile U X i actor env (db, store) = ((db', store'), r)"
  shows "evolves (text_sha X) db db'"
  using assms
proof (cases rule: export_profile_cases)
  case (authorized db1 q a)
  show ?thesis
    using authorize_evolves [OF authorized(1)] export_authorized_evolves [OF authorized(4)] by (rule evolves_trans)
qed (rule authorize_evolves)

text \<open>An export that answers: the actor was permitted, the archive is stored under its own key, and the last
  event of the profile's chain records it.\<close>

lemma export_profile_Inr:
  assumes "export_profile U X i actor env (db, store) = ((db', store'), Inr out)"
  shows "\<exists>f d. load_profile_facts db i = Some f \<and> decide U EXPORT_DATA (declared_value DP_DATA_PORTABILITY) actor (Some f) = Inr d \<and> d_allowed d"
    and "\<exists>(b :: export_bundle) (e :: audit_event). ex_put X store (export_key i (xr_export_id out)) (bu_data b) = Inr store' \<and>
      xr_manifest_sha256 out = bu_manifest_sha256 b \<and> last (events db') = e \<and> ae_type e = DATA_EXPORTED \<and>
      ae_profile_id e = i \<and> ae_actor_id e = ac_user_id actor"
proof -
  from assms show "\<exists>f d. load_profile_facts db i = Some f \<and> decide U EXPORT_DATA (declared_value DP_DATA_PORTABILITY) actor (Some f) = Inr d \<and> d_allowed d"
  proof (cases rule: export_profile_cases)
    case (authorized db1 q a)
    from authorize_Inr [OF authorized(1)] have "authorize_tx U (text_sha X) (ex_jwt X) (ex_issuer X) EXPORT_DATA i actor
        (declared_value DP_DATA_PORTABILITY) env db = Inr (db1, q)"
      by simp
    then show ?thesis
      using authorized(2) by (cases rule: authorize_tx_cases) auto
  qed simp
  from assms show "\<exists>(b :: export_bundle) (e :: audit_event). ex_put X store (export_key i (xr_export_id out)) (bu_data b) = Inr store' \<and>
      xr_manifest_sha256 out = bu_manifest_sha256 b \<and> last (events db') = e \<and> ae_type e = DATA_EXPORTED \<and>
      ae_profile_id e = i \<and> ae_actor_id e = ac_user_id actor"
  proof (cases rule: export_profile_cases)
    case (authorized db1 q a)
    from authorized(4) show ?thesis
    proof (cases rule: export_authorized_cases)
      case (exported b e)
      note app = append_event_Inr [OF exported(3) [unfolded record_export_def]]
      have "xr_export_id out = fresh env 1" "xr_manifest_sha256 out = bu_manifest_sha256 b"
        using exported(4) [symmetric] by (auto simp: bindE_eq_Inr)
      moreover have "last (events db') = e" "ae_type e = DATA_EXPORTED" "ae_profile_id e = i" "ae_actor_id e = ac_user_id actor"
        using app by simp_all
      ultimately show ?thesis
        using exported(2) by (intro exI [of _ b] exI [of _ e]) simp
    qed simp
  qed simp
qed

lemma download_serves:
  assumes "fs_put s key data = Inr s'" and "starts_with (lit ''exports/'') key" and "now \<le> expires * second"
  shows "\<exists>name. download_export hmac (Some s') key expires (url_signature hmac key expires) now = Inr (data, name)"
  using local.put_get [OF assms(1)] assms(2,3) by (simp add: download_export_def url_verify_def)

lemma download_needs_link:
  assumes "download_export hmac files key expires sig now = Inr answer"
  shows "sig = url_signature hmac key expires" and "now \<le> expires * second" and "starts_with (lit ''exports/'') key"
  using assms by (auto simp: download_export_def url_verify_def split: option.split_asm if_split_asm)

lemma export_key_prefix: "starts_with (lit ''exports/'') (export_key i e)"
  by (simp add: export_key_def)

end
