(* ===== verification/Service.thy ===== *)
theory Service imports Grant_Life Cascade_Facts Export_Facts begin

text \<open>
  The service as a whole: the routes \<open>create_app\<close> includes (\<open>app/main.py\<close>) as one executable dispatcher over
  the handlers, and the service as a step relation: requests, attempts recorded at the boundary, runs of the
  cascade by the worker, in any order. Its main lemmas are invariants of every reachable state and what no
  later step can undo.

  A call holds the fields of a request body after parsing and stripping; \<open>call_ok\<close> is the rest of its
  contract (\<open>app/consent/schemas.py\<close>).
\<close>

section \<open>Routes\<close>

datatype call =
    Create_Grant grant_create
  | Verify_Authority uuid pstr
  | Acknowledge uuid pstr
  | Revoke uuid pstr
  | Read_Grant uuid
  | Read_Audit uuid nat nat
  | Authorize_Action consent_action uuid pstr
  | Designate_Successor uuid pstr int
  | Record_Death uuid day pstr
  | Export_Profile uuid

datatype reply =
    Grant_Reply grant_out
  | Acknowledge_Reply acknowledge_response
  | Revoke_Reply revoke_response
  | Audit_Reply audit_page
  | Authorize_Reply authorize_response
  | Successor_Reply successor_designation
  | Profile_Reply deceased_profile
  | Export_Reply export_response

definition max_audit_page :: nat where "max_audit_page = 500"

definition verify_request_ok :: "pstr \<Rightarrow> bool" where
  "verify_request_ok document \<longleftrightarrow> is_hex_sha256 document"

definition acknowledge_request_ok :: "pstr \<Rightarrow> bool" where
  "acknowledge_request_ok signature \<longleftrightarrow> 1 \<le> length signature \<and> length signature \<le> 4096"

definition revoke_request_ok :: "pstr \<Rightarrow> bool" where
  "revoke_request_ok reason \<longleftrightarrow> 1 \<le> length reason \<and> length reason \<le> 2000"

definition audit_query_ok :: "nat \<Rightarrow> bool" where
  "audit_query_ok limit \<longleftrightarrow> 1 \<le> limit \<and> limit \<le> max_audit_page"

definition authorize_request_ok :: "pstr \<Rightarrow> bool" where
  "authorize_request_ok code \<longleftrightarrow> 1 \<le> length code \<and> length code \<le> 64"

definition successor_create_ok :: "pstr \<Rightarrow> int \<Rightarrow> bool" where
  "successor_create_ok user priority \<longleftrightarrow> 1 \<le> length user \<and> length user \<le> 255 \<and> 1 \<le> priority \<and> priority \<le> 100"

definition death_request_ok :: "pstr \<Rightarrow> bool" where
  "death_request_ok certificate \<longleftrightarrow> is_hex_sha256 certificate"

primrec call_ok :: "call \<Rightarrow> bool" where
  "call_ok (Create_Grant body) = grant_create_ok body"
| "call_ok (Verify_Authority gid document) = verify_request_ok document"
| "call_ok (Acknowledge gid signature) = acknowledge_request_ok signature"
| "call_ok (Revoke gid reason) = revoke_request_ok reason"
| "call_ok (Read_Grant gid) = True"
| "call_ok (Read_Audit gid after_id limit) = audit_query_ok limit"
| "call_ok (Authorize_Action action i code) = authorize_request_ok code"
| "call_ok (Designate_Successor i user priority) = successor_create_ok user priority"
| "call_ok (Record_Death i d certificate) = death_request_ok certificate"
| "call_ok (Export_Profile i) = True"

record ('s, 'sk, 'vk) service =
  se_ucd :: ucd
  se_exporter :: "('s, 'sk, 'vk) exporter"
  se_erase :: "'s \<Rightarrow> pstr \<Rightarrow> error + 's"
  se_inline :: bool

definition se_sha :: "('s, 'sk, 'vk) service \<Rightarrow> pstr \<Rightarrow> pstr" where
  "se_sha S = text_sha (se_exporter S)"

text \<open>A handler that is one transaction, and one that only reads.\<close>

definition committed :: "('a \<Rightarrow> reply) \<Rightarrow> error + (consent_db \<times> 'a) \<Rightarrow> 's world \<Rightarrow> 's world \<times> (error + reply)" where
  "committed f r w = (case transact (w_db w) r of (db, x) \<Rightarrow> (w\<lparr>w_db := db\<rparr>, map_sum id f x))"

text \<open>The dispatcher runs the cascade at once (\<open>InlineDispatcher\<close>) or leaves it to the worker.\<close>

definition dispatch_cascade :: "('s, 'sk, 'vk) service \<Rightarrow> (nat \<Rightarrow> timestamp) \<Rightarrow> uuid \<Rightarrow> uuid \<Rightarrow> 's world \<Rightarrow> 's world" where
  "dispatch_cascade S clk rid gid w = (if se_inline S then inline_dispatch (se_erase S) (se_sha S) clk rid gid w else w)"

definition revoke_route ::
    "('s, 'sk, 'vk) service \<Rightarrow> (nat \<Rightarrow> timestamp) \<Rightarrow> uuid \<Rightarrow> pstr \<Rightarrow> actor \<Rightarrow> request_env \<Rightarrow> 's world \<Rightarrow> 's world \<times> (error + reply)" where
  "revoke_route S clk gid reason actor env w =
     (case transact (w_db w) (revoke (se_sha S) gid reason actor env (w_db w)) of
        (db, Inl e) \<Rightarrow> (w\<lparr>w_db := db\<rparr>, Inl e)
      | (db, Inr (response, redispatch)) \<Rightarrow>
          ((if redispatch then dispatch_cascade S clk (fresh env 1) gid (w\<lparr>w_db := db\<rparr>) else w\<lparr>w_db := db\<rparr>),
           Inr (Revoke_Reply response)))"

definition validation_failed :: error where
  "validation_failed = api_error 422 ''VALIDATION_FAILED'' ''request validation failed''"

definition serve ::
    "('s, 'sk, 'vk) service \<Rightarrow> (nat \<Rightarrow> timestamp) \<Rightarrow> call \<Rightarrow> actor \<Rightarrow> request_env \<Rightarrow> 's world \<Rightarrow> 's world \<times> (error + reply)" where
  "serve S clk call actor env w =
     (if \<not> call_ok call then (w, Inl validation_failed)
      else let sha = se_sha S; X = se_exporter S; db = w_db w in
      case call of
        Create_Grant body \<Rightarrow> committed Grant_Reply (create_grant sha body actor env db) w
      | Verify_Authority gid document \<Rightarrow> committed Grant_Reply (verify_authority sha gid document actor env db) w
      | Acknowledge gid signature \<Rightarrow> committed Acknowledge_Reply (acknowledge sha gid signature actor env db) w
      | Revoke gid reason \<Rightarrow> revoke_route S clk gid reason actor env w
      | Read_Grant gid \<Rightarrow> (w, map_sum id Grant_Reply (read_grant gid actor db))
      | Read_Audit gid after_id limit \<Rightarrow> (w, map_sum id Audit_Reply (read_audit sha gid actor after_id limit db))
      | Authorize_Action action i code \<Rightarrow>
          (case authorize_action (se_ucd S) sha (ex_jwt X) (ex_issuer X) action i code actor env db of
             (db', r) \<Rightarrow> (w\<lparr>w_db := db'\<rparr>, map_sum id Authorize_Reply r))
      | Designate_Successor i user priority \<Rightarrow>
          committed Successor_Reply (designate_successor sha i user priority actor env db) w
      | Record_Death i d certificate \<Rightarrow> committed Profile_Reply (record_death sha i d certificate actor env db) w
      | Export_Profile i \<Rightarrow>
          (case export_profile (se_ucd S) X i actor env (db, w_store w) of
             ((db', store'), r) \<Rightarrow> (w\<lparr>w_db := db', w_store := store'\<rparr>, map_sum id Export_Reply r)))"

section \<open>The service in time\<close>

inductive service_step :: "('s, 'sk, 'vk) service \<Rightarrow> 's world \<Rightarrow> 's world \<Rightarrow> bool" for S where
  request: "serve S clk call actor env w = (w', r) \<Longrightarrow> service_step S w w'"
| refused: "transact (w_db w) (record_purpose_violation (se_ucd S) (se_sha S) now actor codes i ''middleware'' route (w_db w)) = (db', r) \<Longrightarrow>
     service_step S w (w\<lparr>w_db := db'\<rparr>)"
| worker: "run_cascade (se_erase S) (se_sha S) clk rid gid w = (w', r) \<Longrightarrow> service_step S w w'"

definition reaches :: "('s, 'sk, 'vk) service \<Rightarrow> 's world \<Rightarrow> 's world \<Rightarrow> bool" where
  "reaches S = (service_step S)\<^sup>*\<^sup>*"

text \<open>The sweeper is a sequence of such runs.\<close>

definition first_world :: "'s \<Rightarrow> 's world" where
  "first_world store = \<lparr> w_db = empty_db, w_store = store, w_ticks = 0 \<rparr>"

section \<open>Invariants\<close>

lemma committed_evolves:
  assumes "committed f r w = (w', x)" and "\<And>db y. r = Inr (db, y) \<Longrightarrow> evolves sha (w_db w) db"
  shows "evolves sha (w_db w) (w_db w')"
  using assms by (auto simp: committed_def transact_def split: sum.splits)

lemma authorize_action_evolves [ledger_ext]:
  assumes "authorize_action U sha J I a i code actor env db = (db', r)"
  shows "evolves sha db db'"
proof -
  obtain db1 x where x: "authorize U sha J I a i actor code env db = (db1, x)"
    by fastforce
  then have "db' = db1"
    using assms by (auto simp: authorize_action_def split: sum.splits error.splits)
  then show ?thesis
    using authorize_evolves [OF x] by simp
qed

lemma revoke_route_evolves:
  assumes "revoke_route S clk gid reason actor env w = (w', r)"
  shows "evolves (se_sha S) (w_db w) (w_db w')"
proof (cases "revoke (se_sha S) gid reason actor env (w_db w)")
  case (Inl e)
  then show ?thesis
    using assms by (simp add: revoke_route_def)
next
  case (Inr y)
  then obtain db resp flag where y: "revoke (se_sha S) gid reason actor env (w_db w) = Inr (db, (resp, flag))"
    by (cases y) auto
  have "evolves (se_sha S) db (w_db w')"
  proof -
    obtain w2 q where "run_cascade (se_erase S) (se_sha S) clk (fresh env 1) gid (w\<lparr>w_db := db\<rparr>) = (w2, q)"
      by fastforce
    then show ?thesis
      using assms y run_cascade_evolves [of "se_erase S" "se_sha S" clk "fresh env 1" gid "w\<lparr>w_db := db\<rparr>" w2 q]
      by (auto simp: revoke_route_def dispatch_cascade_def inline_dispatch_def split: if_splits)
  qed
  then show ?thesis
    using revoke_evolves [OF y] by (rule evolves_trans [rotated])
qed

lemma serve_evolves:
  assumes "serve S clk call actor env w = (w', r)"
  shows "evolves (se_sha S) (w_db w) (w_db w')"
proof (cases "call_ok call")
  case False
  then show ?thesis
    using assms by (simp add: serve_def)
next
  case True
  show ?thesis
  proof (cases call)
    case (Create_Grant body)
    then show ?thesis
      using assms True by (auto simp: serve_def Let_def intro: committed_evolves create_grant_evolves)
  next
    case (Verify_Authority gid document)
    then show ?thesis
      using assms True by (auto simp: serve_def Let_def intro: committed_evolves verify_authority_evolves)
  next
    case (Acknowledge gid signature)
    then show ?thesis
      using assms True by (auto simp: serve_def Let_def intro: committed_evolves acknowledge_evolves)
  next
    case (Revoke gid reason)
    then show ?thesis
      using assms True by (auto simp: serve_def Let_def intro: revoke_route_evolves)
  next
    case (Authorize_Action action i code)
    then show ?thesis
      using assms True by (auto simp: serve_def Let_def split: prod.splits dest: authorize_action_evolves)
  next
    case (Designate_Successor i user priority)
    then show ?thesis
      using assms True by (auto simp: serve_def Let_def intro: committed_evolves designate_successor_evolves)
  next
    case (Record_Death i d certificate)
    then show ?thesis
      using assms True by (auto simp: serve_def Let_def intro: committed_evolves record_death_evolves)
  next
    case (Export_Profile i)
    then show ?thesis
      using assms True export_profile_evolves by (fastforce simp: serve_def Let_def se_sha_def split: prod.splits)
  qed (use assms True in \<open>simp_all add: serve_def Let_def\<close>)
qed

lemma step_evolves:
  assumes "service_step S w w'"
  shows "evolves (se_sha S) (w_db w) (w_db w')"
  using assms
proof (induction rule: service_step.induct)
  case (refused w now actor codes i route db' r)
  have "evolves (se_sha S) (w_db w) db'"
    using refused record_purpose_violation_evolves by (rule transact_evolves) fast
  then show ?case
    by simp
qed (auto dest: serve_evolves run_cascade_evolves)

lemma reaches_evolves: "reaches S w w' \<Longrightarrow> evolves (se_sha S) (w_db w) (w_db w')"
  unfolding reaches_def
proof (induction rule: rtranclp_induct)
  case (step w1 w2)
  show ?case
    using step.IH step_evolves [OF step.hyps(2)] by (rule evolves_trans)
qed simp

lemma empty_sound: "sound sha empty_db"
  by (simp add: sound_def ledger_ok_def event_rows_ok_def profile_events_def rows_ok_defs empty_db_def)

lemma reachable_sound: "reaches S (first_world store) w \<Longrightarrow> sound (se_sha S) (w_db w)"
  using reaches_evolves [of S "first_world store" w] empty_sound by (simp add: evolves_def first_world_def)

section \<open>What no later step undoes\<close>

lemma revoked_stays_revoked:
  assumes "rows_evolve db db'" and "sound sha db'" and "get_grant db gid = Some g" and "g_revoked_at g = Some t"
  shows "\<exists>g'. get_grant db' gid = Some g' \<and> g_revoked_at g' = Some t"
proof -
  have g: "g \<in> set (grants db)" "g_id g = gid"
    using get_grant_SomeD [OF assms(3)] by auto
  obtain g' where g': "g' \<in> set (grants db')" "grant_le g g'"
    using prefix_le_in [OF _ g(1), of grant_le "grants db'"] assms(1) by (auto simp: rows_evolve_def)
  then have "g_id g' = gid" "g_revoked_at g' = Some t"
    using g assms(4) by (auto simp: grant_le_def)
  with g'(1) get_grant_unique [of db' g'] assms(2) show ?thesis
    by (auto simp: sound_def)
qed

lemma token_stays_revoked:
  assumes "rows_evolve db db'" and "sound sha db'" and "t \<in> set (tokens db)" and "at_revoked_at t \<noteq> None"
  shows "sql_status db' (at_jti t) = REVOKED"
proof -
  obtain t' where t': "t' \<in> set (tokens db')" "authorization_token_guard t t'"
    using prefix_le_in [OF _ assms(3), of authorization_token_guard "tokens db'"] assms(1) by (auto simp: rows_evolve_def)
  have "distinct (map at_jti (tokens db'))"
    using assms(2) by (simp add: sound_def rows_ok_defs)
  from find_key [OF this t'(1)] t'(2) assms(4) show ?thesis
    by (auto simp: sql_status_def authorization_token_guard_def)
qed

lemma decide_use_grant:
  assumes "a \<in> use_actions" and "decide U a code actor (Some f) = Inr d" and "d_allowed d"
  shows "\<exists>g \<in> set (pf_grants f). d_grant_id d = Some (gf_id g) \<and> usable a actor f g"
proof -
  have ok: "permitted U a code actor f"
    using decide_total_and_correct [of U a code actor f] assms(2,3) by auto
  then have eq: "decide U a code actor (Some f) =
      try_grants a (action_purpose a) actor f (roles_for actor f None \<noteq> {R_PUBLIC}) None (pf_grants f)"
    using assms(1) by (intro decide_use) (auto simp: permitted_def split: if_splits)
  obtain g where g: "find (usable a actor f) (pf_grants f) = Some g"
    using ok assms(1) by (cases "find (usable a actor f) (pf_grants f)") (auto simp: permitted_def find_usable)
  have "d_grant_id d = Some (gf_id g)"
    using eq try_grants_allows [OF assms(1) g] assms(2) by auto
  then show ?thesis
    using find_SomeD [OF g] by blast
qed

text \<open>A use that is authorized runs under a grant that is there, verified, active and not revoked.\<close>

lemma use_needs_live_grant:
  assumes "a \<in> use_actions" and "authorize U sha J I a i actor code env db = (db', Inr r)" and "ar_allowed r"
  shows "\<exists>g \<in> set (grants db). ar_grant_id r = Some (g_id g) \<and> g_profile_id g = i \<and> g_revoked_at g = None \<and> g_is_active g \<and> g_verified_at g \<noteq> None"
proof -
  from authorize_Inr [OF assms(2)] have "authorize_tx U sha J I a i actor code env db = Inr (db', r)"
    by simp
  then show ?thesis
  proof (cases rule: authorize_tx_cases)
    case (allowed f d purpose)
    obtain gf where gf: "gf \<in> set (pf_grants f)" "d_grant_id d = Some (gf_id gf)" "usable a actor f gf"
      using decide_use_grant [OF assms(1) allowed(2,3)] by blast
    obtain g where g: "g \<in> set (grants db)" "g_profile_id g = i" "gf = facts_from_row db g"
      using gf(1) allowed(1) by (auto simp: load_profile_facts_def split: option.splits)
    have "ar_grant_id r = d_grant_id d"
      using allow_tx_Inr [OF allowed(7)] by (auto simp: make_result_def)
    with gf g show ?thesis
      by (intro bexI [of _ g]) (auto simp: usable_def facts_from_row_def)
  qed (use assms(3) in simp)
qed

lemma revoke_done:
  assumes "revoke sha gid reason actor env db = Inr (db', (resp, flag))" and "sound sha db"
  shows "\<exists>g. get_grant db' gid = Some g \<and> g_revoked_at g = Some (rv_revoked_at resp)"
    and "get_request db gid = None \<Longrightarrow> t \<in> set (tokens db) \<Longrightarrow> at_grant_id t = Some gid \<Longrightarrow>
      \<exists>t' \<in> set (tokens db'). at_jti t' = at_jti t \<and> at_revoked_at t' \<noteq> None"
proof -
  from assms(1) have both: "(\<exists>g. get_grant db' gid = Some g \<and> g_revoked_at g = Some (rv_revoked_at resp)) \<and>
    (get_request db gid = None \<longrightarrow> (\<forall>t \<in> set (tokens db). at_grant_id t = Some gid \<longrightarrow>
      (\<exists>t' \<in> set (tokens db'). at_jti t' = at_jti t \<and> at_revoked_at t' \<noteq> None)))"
  proof (cases rule: revoke_cases)
    case (again grant at req)
    then show ?thesis by auto
  next
    case (anew grant roles)
    obtain db1 db2 p e where up: "update_grant (g_id grant) (revoked_grant (clock_at env 0) reason) db = Inr db1"
      and ins: "insert_request (new_request (fresh env 0) (g_id grant) (ac_user_id actor) reason (clock_at env 0))
        (fst (revoke_grant_tokens (g_id grant) (clock_at env 0) db1)) = Inr db2"
      and app: "append_event sha (clock_at env 1) CONSENT_REVOKED (ac_user_id actor) (g_profile_id grant) (Some (g_id grant)) p db2 = Inr (db', e)"
      and resp: "rv_revoked_at resp = clock_at env 0"
      using revoke_anew_Inr [OF anew(4)] by auto
    have db1: "db1 = db\<lparr>grants := update_rows (\<lambda>g. g_id g = gid) (revoked_grant (clock_at env 0) reason) (grants db)\<rparr>"
      using up anew(2) by (auto simp: update_grant_def split: if_splits)
    have db2: "db2 = (fst (revoke_grant_tokens gid (clock_at env 0) db1))\<lparr>requests :=
        requests (fst (revoke_grant_tokens gid (clock_at env 0) db1)) @ [new_request (fresh env 0) gid (ac_user_id actor) reason (clock_at env 0)]\<rparr>"
      using ins anew(2) by (auto simp: insert_request_def split: if_splits)
    have db': "db' = db2\<lparr>events := events db2 @ [e]\<rparr>"
      using append_event_Inr(1) [OF app] .
    have gs: "grants db' = update_rows (\<lambda>g. g_id g = gid) (revoked_grant (clock_at env 0) reason) (grants db)"
      by (simp add: db' db2 revoke_grant_tokens_frame db1)
    have ts: "tokens db' = update_rows (\<lambda>t. at_grant_id t = Some gid \<and> at_revoked_at t = None)
        (\<lambda>t. t\<lparr>at_revoked_at := Some (clock_at env 0)\<rparr>) (tokens db)"
      by (simp add: db' db2 revoke_grant_tokens_frame db1)
    have g: "get_grant db' gid = Some (revoked_grant (clock_at env 0) reason grant)"
      using anew(1) unfolding get_grant_def gs
      by (subst find_update_rows) (simp_all add: revoked_grant_def anew(2))
    have "\<exists>t' \<in> set (tokens db'). at_jti t' = at_jti t \<and> at_revoked_at t' \<noteq> None" if "t \<in> set (tokens db)" "at_grant_id t = Some gid" for t
    proof (cases "at_revoked_at t")
      case None
      with that show ?thesis
        by (intro bexI [of _ "t\<lparr>at_revoked_at := Some (clock_at env 0)\<rparr>"]) (auto simp: ts in_update_rows intro: bexI [of _ t])
    next
      case (Some x)
      with that show ?thesis
        by (intro bexI [of _ t]) (auto simp: ts in_update_rows intro: bexI [of _ t])
    qed
    with g resp show ?thesis
      by (simp add: revoked_grant_def)
  qed
  then show "\<exists>g. get_grant db' gid = Some g \<and> g_revoked_at g = Some (rv_revoked_at resp)"
    by blast
  from both show "get_request db gid = None \<Longrightarrow> t \<in> set (tokens db) \<Longrightarrow> at_grant_id t = Some gid \<Longrightarrow>
      \<exists>t' \<in> set (tokens db'). at_jti t' = at_jti t \<and> at_revoked_at t' \<noteq> None"
    by blast
qed

text \<open>Revocation is final: whatever the service does afterwards, the grant keeps its revocation, no use is
  authorized under it, and the tokens issued under it stay refused.\<close>

lemma revocation_final:
  assumes "revoke (se_sha S) gid reason actor env (w_db w) = Inr (db, (resp, flag))" and "sound (se_sha S) (w_db w)"
    and "reaches S (w\<lparr>w_db := db\<rparr>) w'"
  shows "\<exists>g. get_grant (w_db w') gid = Some g \<and> g_revoked_at g = Some (rv_revoked_at resp)"
    and "a \<in> use_actions \<Longrightarrow> authorize U sha J I a i user code e (w_db w') = (db', Inr r) \<Longrightarrow> ar_allowed r \<Longrightarrow> ar_grant_id r \<noteq> Some gid"
    and "get_request (w_db w) gid = None \<Longrightarrow> t \<in> set (tokens (w_db w)) \<Longrightarrow> at_grant_id t = Some gid \<Longrightarrow>
      sql_status (w_db w') (at_jti t) = REVOKED"
proof -
  have "evolves (se_sha S) (w_db w) db"
    by (rule revoke_evolves [OF assms(1)])
  then have sound: "sound (se_sha S) db"
    using assms(2) by (simp add: evolves_def)
  then have later: "sound (se_sha S) (w_db w')" "rows_evolve db (w_db w')"
    using reaches_evolves [OF assms(3)] by (simp_all add: evolves_def)
  show final: "\<exists>g. get_grant (w_db w') gid = Some g \<and> g_revoked_at g = Some (rv_revoked_at resp)"
    using revoke_done(1) [OF assms(1,2)] revoked_stays_revoked [OF later(2,1)] by blast
  show "ar_grant_id r \<noteq> Some gid" if use: "a \<in> use_actions" "authorize U sha J I a i user code e (w_db w') = (db', Inr r)" "ar_allowed r"
  proof
    assume "ar_grant_id r = Some gid"
    then obtain g where g: "g \<in> set (grants (w_db w'))" "g_id g = gid" "g_revoked_at g = None"
      using use_needs_live_grant [OF use] by auto
    then have "get_grant (w_db w') gid = Some g"
      using get_grant_unique [of "w_db w'" g] later(1) by (simp add: sound_def)
    with final g(3) show False by simp
  qed
  show "sql_status (w_db w') (at_jti t) = REVOKED"
    if "get_request (w_db w) gid = None" "t \<in> set (tokens (w_db w))" "at_grant_id t = Some gid"
    using revoke_done(2) [OF assms(1,2) that] token_stays_revoked [OF later(2,1)] by metis
qed

text \<open>The ledger of every state the service reaches verifies, and an event once written stays.\<close>

lemma reachable_ledger:
  assumes "reaches S (first_world store) w"
  shows "\<exists>r. verify_chain (se_sha S) (iter_events (w_db w) None) [] = Inr r \<and> report_ok r"
  using reachable_sound [OF assms] ledger_ok_verifies by (auto simp: sound_def)

lemma events_stay:
  assumes "reaches S w w'" and "sound (se_sha S) (w_db w)"
  shows "\<exists>es. events (w_db w') = events (w_db w) @ es"
proof -
  have "prefix_le (=) (events (w_db w)) (events (w_db w'))"
    using reaches_evolves [OF assms(1)] assms(2) by (simp add: evolves_def rows_evolve_def)
  then show ?thesis
    by (auto simp: prefix_le_def list.rel_eq)
qed

end
