(* ===== verification/Sample_Service.thy ===== *)
theory Sample_Service imports Samples Service begin

text \<open>
  Concrete instances of what the service takes from outside (a JWT library, an archive
  format, a signature), a service built from them, and requests to it that succeed.
\<close>

section \<open>Libraries\<close>

text \<open>A JWT library that knows one token.\<close>

definition one_token_jwt :: "claims \<Rightarrow> claims \<Rightarrow> (unit, unit) pyjwt" where
  "one_token_jwt header claims = \<lparr> jwt_encode = (\<lambda>c key alg h. lit ''a.b.c''), jwt_header = (\<lambda>t. Inr header),
     jwt_decode = (\<lambda>t key algs iss aud options. Inr claims), jwt_container_repr = (\<lambda>v. []) \<rparr>"

definition sample_ring :: "(unit, unit) key_ring" where
  "sample_ring = \<lparr> kr_signing_key = (), kr_signing_kid = lit ''k1'', kr_verification_keys = [(lit ''k1'', ())] \<rparr>"

definition sample_issuer :: "(unit, unit) token_issuer" where
  "sample_issuer = \<lparr> ti_keyring = sample_ring, ti_issuer = lit ''remembrance'', ti_audience = lit ''downstream'', ti_ttl = 120 \<rparr>"

definition sample_validator :: "unit token_validator" where
  "sample_validator = \<lparr> tv_keys = [(lit ''k1'', ())], tv_issuer = lit ''remembrance'', tv_audience = lit ''downstream'',
     tv_leeway = clock_skew_seconds \<rparr>"

definition sample_jwt :: "(unit, unit) pyjwt" where
  "sample_jwt = one_token_jwt [] []"

definition flat_sha256 :: "bytes \<Rightarrow> pstr" where
  "flat_sha256 b = replicate 64 49"

definition sample_exporter :: "((pstr \<times> bytes) list, unit, unit) exporter" where
  "sample_exporter = \<lparr> ex_jwt = sample_jwt, ex_issuer = sample_issuer, ex_validator = sample_validator,
     ex_keyring = sample_ring, ex_sha256 = flat_sha256, ex_pack = (\<lambda>ms. concat (map snd ms)), ex_sign = (\<lambda>key b. [1]),
     ex_put = (\<lambda>s k b. Inr (AList.update k b s)), ex_signed_url = (\<lambda>k ttl now. Inr k), ex_url_ttl = 3600 \<rparr>"

definition sample_service :: "((pstr \<times> bytes) list, unit, unit) service" where
  "sample_service = \<lparr> se_ucd = sample_ucd, se_exporter = sample_exporter,
     se_erase = (\<lambda>s k. Inr (AList.delete k s)), se_inline = False \<rparr>"

lemma sample_sha: "se_sha sample_service = flat_sha"
  by (auto simp: se_sha_def sample_service_def text_sha_def sample_exporter_def flat_sha256_def flat_sha_def fun_eq_iff)

definition sample_world :: "(pstr \<times> bytes) list world" where
  "sample_world = \<lparr> w_db = sample_db, w_store = [], w_ticks = 0 \<rparr>"

section \<open>A revocation\<close>

lemma sample_facts:
  "get_grant sample_db 8 = Some sample_grant" "get_profile sample_db 7 = Some sample_profile" "get_request sample_db 8 = None"
  "grant_beneficiaries sample_db sample_grant = []" "grant_acks sample_db sample_grant = []"
  by (simp_all add: sample_db_def empty_db_def get_grant_def get_profile_def get_request_def sample_grant_def sample_profile_def
      grant_beneficiaries_def grant_acks_def)

lemma sample_profile_facts:
  "load_profile_facts sample_db 7 = Some \<lparr> pf_id = 7, pf_date_of_death = Some 100, pf_successors = {},
     pf_grants = [facts_from_row sample_db sample_grant] \<rparr>"
  by (simp add: load_profile_facts_def sample_facts)
    (simp add: sample_profile_def sample_db_def empty_db_def sample_grant_def)

text \<open>The texts in the payloads are short and plain.\<close>

lemma length_lit: "length (lit s) = length s"
  by (simp add: lit_def)

lemma length_uuid_str: "length (uuid_str u) = 36"
  by (simp add: uuid_str_def Let_def)

lemma zero_not_in:
  "0 \<notin> set (uuid_str u)" "0 \<notin> set (flat_sha s)"
  by (auto simp: flat_sha_def hex_char_def dest: uuid_str_chars)

lemma encodable_flat: "encodable (flat_sha s)"
  by (rule encodable_small) (simp add: flat_sha_def)

lemma one_str: "int_str 1 = [49]" "int_str 0 = [48]"
  by (code_simp, code_simp)

lemma zero_lit: "0 \<in> set (lit s) \<longleftrightarrow> (\<exists>c \<in> set s. of_char c = (0::nat))"
  by (auto simp: lit_def)

lemmas plain_payload = py_obj_def str_key_def max_payload_depth_def max_safe_integer_def max_payload_bytes_def
  length_lit length_uuid_str zero_not_in encodable_flat one_str zero_lit encodable_uuid_str encodable_lit

definition revoked_db :: consent_db where
  "revoked_db = sample_db\<lparr>grants := [revoked_grant (10 * second) (lit ''stop'') sample_grant],
     tokens := [live_token\<lparr>at_revoked_at := Some (10 * second)\<rparr>],
     requests := [new_request 40 8 (lit ''heir'') (lit ''stop'') (10 * second)]\<rparr>"

lemma sample_revocation_db:
  "\<exists>e resp. revoke flat_sha 8 (lit ''stop'') heir sample_env sample_db = Inr (revoked_db\<lparr>events := [e]\<rparr>, (resp, True))"
proof -
  let ?p = "py_obj [(''revocation_request_id'', PyStr (uuid_str 40)),
    (''revoked_by_roles'', PyList (map (PyStr \<circ> role_value) (role_list ({R_PUBLIC, R_OWNER} - {R_PUBLIC})))),
    (''tokens_invalidated'', PyInt 1), (''reason_sha256'', PyStr (flat_sha (lit ''stop'')))]"
  have doc: "validate_payload ?p = Inr (document_of ?p)" "clean_json (document_of ?p)"
    unfolding py_obj_def
    by (intro validate_payload_accepts; simp add: role_list_def plain_payload)+ (simp add: role_list_def plain_payload)
  let ?db1 = "sample_db\<lparr>grants := [revoked_grant (10 * second) (lit ''stop'') sample_grant]\<rparr>"
  let ?db2 = "(fst (revoke_grant_tokens 8 (10 * second) ?db1))\<lparr>requests :=
    [new_request 40 8 (lit ''heir'') (lit ''stop'') (10 * second)]\<rparr>"
  have "events ?db2 = []" "encodable (lit ''heir'')"
    by (simp_all add: revoke_grant_tokens_def sample_db_def empty_db_def encodable_lit)
  with doc have "\<exists>db' e. append_event flat_sha (10 * second) CONSENT_REVOKED (lit ''heir'') 7 (Some 8) ?p ?db2 = Inr (db', e)"
    by (intro first_append) auto
  then obtain db' e where app: "append_event flat_sha (10 * second) CONSENT_REVOKED (lit ''heir'') 7 (Some 8) ?p ?db2 = Inr (db', e)"
    by blast
  have up: "update_grant 8 (revoked_grant (10 * second) (lit ''stop'')) sample_db = Inr ?db1"
    by (simp add: update_grant_def sample_db_def empty_db_def sample_grant_def revoked_grant_def consent_grant_guard_def
        grant_check_def update_rows_def)
  have count: "snd (revoke_grant_tokens 8 (10 * second) ?db1) = 1"
    by (simp add: revoke_grant_tokens_def sample_db_def empty_db_def live_token_def count_rows_def)
  have ins: "insert_request (new_request 40 8 (lit ''heir'') (lit ''stop'') (10 * second))
      (fst (revoke_grant_tokens 8 (10 * second) ?db1)) = Inr ?db2"
    by (simp add: insert_request_def revoke_grant_tokens_def sample_db_def empty_db_def new_request_def request_check_def
        sample_grant_def revoked_grant_def)
  have roles: "require_roles sample_db heir f sample_grant revoke_roles = Inr {R_PUBLIC, R_OWNER}"
    if "f = \<lparr> pf_id = 7, pf_date_of_death = Some 100, pf_successors = {}, pf_grants = [facts_from_row sample_db sample_grant] \<rparr>" for f
    by (auto simp: that require_roles_def revoke_roles_def audit_roles_def roles_for_def is_deceased_actor_def Let_def heir_def
        facts_from_row_def sample_facts) (simp_all add: sample_grant_def)
  have hashed: "hash_text flat_sha (lit ''stop'') = Inr (flat_sha (lit ''stop''))"
    by (simp add: hash_text_def encodable_lit)
  have fields: "g_id sample_grant = 8" "g_profile_id sample_grant = 7" "g_revoked_at sample_grant = None"
      "ac_user_id heir = lit ''heir''" "ac_kind heir = HUMAN" "clock_at sample_env n = 10 * second" "fresh sample_env n = 40" for n
    by (simp_all add: sample_grant_def heir_def sample_env_def)
  have "revoke flat_sha 8 (lit ''stop'') heir sample_env sample_db =
    revoke_anew flat_sha sample_grant {R_PUBLIC, R_OWNER} (lit ''stop'') heir sample_env sample_db"
    by (simp add: revoke_def require_human_def grant_and_facts_def sample_facts sample_profile_facts roles fields)
  also have "\<dots> = Inr (db', (\<lparr> rv_grant_id = 8, rv_revoked_at = 10 * second, rv_request_id = 40, rv_status = PENDING,
      rv_tokens_invalidated = 1 \<rparr>, True))"
    unfolding revoke_anew_def Let_def fields up bindE.simps count ins hashed
    using app by (simp add: new_request_def)
  also have "db' = ?db2\<lparr>events := [e]\<rparr>"
    using append_event_Inr(1) [OF app] \<open>events ?db2 = []\<close> by simp
  also have "?db2 = revoked_db"
    by (simp add: revoked_db_def revoke_grant_tokens_def update_rows_def sample_db_def empty_db_def live_token_def)
  finally show ?thesis by blast
qed

lemma sample_revocation:
  "\<exists>db resp. revoke flat_sha 8 (lit ''stop'') heir sample_env sample_db = Inr (db, (resp, True))"
  using sample_revocation_db by blast

lemma sample_revocation_again:
  assumes "db = revoked_db\<lparr>events := es\<rparr>"
  shows "\<exists>resp. revoke sha 8 reason heir env db = Inr (db, (resp, True))"
proof -
  have rows: "get_grant db 8 = Some (revoked_grant (10 * second) (lit ''stop'') sample_grant)" "get_profile db 7 = Some sample_profile"
    "get_request db 8 = Some (new_request 40 8 (lit ''heir'') (lit ''stop'') (10 * second))" "successors db = []"
    by (simp_all add: assms revoked_db_def sample_db_def empty_db_def get_grant_def get_profile_def get_request_def
        revoked_grant_def sample_grant_def sample_profile_def new_request_def)
  have gs: "grants db = [revoked_grant (10 * second) (lit ''stop'') sample_grant]"
    by (simp add: assms revoked_db_def)
  have roles: "require_roles db heir f (revoked_grant (10 * second) (lit ''stop'') sample_grant) revoke_roles \<noteq> Inl x"
    if "load_profile_facts db 7 = Some f" for f x
    using that by (auto simp: load_profile_facts_def rows gs require_roles_def Let_def is_deceased_actor_def revoke_roles_def
        audit_roles_def roles_for_def facts_from_row_def)
      (simp_all add: revoked_grant_def sample_grant_def heir_def facts_from_row_def)
  have "ac_kind heir = HUMAN" "load_profile_facts db 7 \<noteq> None"
    by (simp_all add: heir_def load_profile_facts_def rows)
  then obtain f where f: "load_profile_facts db 7 = Some f"
    by blast
  obtain r where "require_roles db heir f (revoked_grant (10 * second) (lit ''stop'') sample_grant) revoke_roles = Inr r"
    using roles [OF f] by (metis sum.exhaust)
  with f \<open>ac_kind heir = HUMAN\<close> show ?thesis
    by (simp add: revoke_def require_human_def grant_and_facts_def rows)
      (simp add: revoked_grant_def new_request_def sample_grant_def rows(3) [unfolded new_request_def])
qed

section \<open>An authorization\<close>

lemma sample_purpose:
  "normalize_purpose sample_ucd (lit ''VOICE_SYNTHESIS'') = declared_value DP_VOICE_SYNTHESIS"
  "\<not> is_banned_purpose sample_ucd (lit ''VOICE_SYNTHESIS'')"
proof -
  have "in_normal_form (lit ''VOICE_SYNTHESIS'')"
    by (simp add: in_normal_form_def lit_def is_separator_def py_isspace_def ascii_upper_def)
  then show norm: "normalize_purpose sample_ucd (lit ''VOICE_SYNTHESIS'') = declared_value DP_VOICE_SYNTHESIS"
    using normal_form_fixed [OF sample_ucd_ascii] by simp
  show "\<not> is_banned_purpose sample_ucd (lit ''VOICE_SYNTHESIS'')"
    using declared_not_banned [of _ DP_VOICE_SYNTHESIS] unfolding is_banned_iff_tokens norm by simp
qed

definition sample_view :: profile_facts where
  "sample_view = \<lparr> pf_id = 7, pf_date_of_death = Some 100, pf_successors = {},
     pf_grants = [facts_from_row sample_db sample_grant] \<rparr>"

lemma sample_usable: "usable INITIATE_VOICE_SYNTHESIS heir sample_view (facts_from_row sample_db sample_grant)"
  by (simp add: usable_def may_use_def facts_from_row_def sample_facts grant_quorum_def quorum_def satisfied_def)
    (simp add: sample_grant_def heir_def action_purpose_def)

lemma sample_decision:
  "decide sample_ucd INITIATE_VOICE_SYNTHESIS (lit ''VOICE_SYNTHESIS'') heir (Some sample_view) =
     Inr (permission (Some 8) DP_VOICE_SYNTHESIS True)"
proof -
  have use: "INITIATE_VOICE_SYNTHESIS \<in> use_actions"
    by (simp add: use_actions_iff)
  have "decide sample_ucd INITIATE_VOICE_SYNTHESIS (lit ''VOICE_SYNTHESIS'') heir (Some sample_view) =
    try_grants INITIATE_VOICE_SYNTHESIS (action_purpose INITIATE_VOICE_SYNTHESIS) heir sample_view
      (roles_for heir sample_view None \<noteq> {R_PUBLIC}) None (pf_grants sample_view)"
    using sample_purpose(1) by (intro decide_use use)
      (simp_all add: heir_def is_deceased_actor_def sample_view_def facts_from_row_def sample_grant_def)
  moreover have "roles_for heir sample_view None \<noteq> {R_PUBLIC}"
    by (auto simp: roles_for_def Let_def sample_view_def facts_from_row_def sample_grant_def heir_def)
  moreover have "find (usable INITIATE_VOICE_SYNTHESIS heir sample_view) (pf_grants sample_view) =
      Some (facts_from_row sample_db sample_grant)"
    using sample_usable by (simp add: sample_view_def)
  ultimately show ?thesis
    using try_grants_allows [OF use] by (simp add: facts_from_row_def sample_grant_def)
qed

lemma length_isoformat: "length (isoformat t) \<le> 32"
  by (simp add: isoformat_def Let_def length_lit)

lemma zero_isoformat: "0 \<notin> set (isoformat t)"
proof -
  have "0 \<notin> set (pad10 w n)" for w n
    using fixed_less [of 10 _ w n] by (force simp: pad10_def digit_char_def)
  then show ?thesis
    by (simp add: isoformat_def Let_def) (simp add: lit_def)
qed

lemma isoformat_auto_texts:
  "length (isoformat_auto t) \<le> 32" "0 \<notin> set (isoformat_auto t)" "encodable (isoformat_auto t)"
  using length_isoformat [of t] zero_isoformat [of t] encodable_isoformat [of t] encodable_take_drop [of "isoformat t" 19]
  by (auto simp: isoformat_auto_def length_lit encodable_lit dest: in_set_takeD) (simp add: lit_def)

lemma sample_authorization_result:
  "\<exists>db e. authorize sample_ucd flat_sha sample_jwt sample_issuer INITIATE_VOICE_SYNTHESIS 7 heir (lit ''VOICE_SYNTHESIS'')
     sample_env sample_db = (db, Inr (make_result sample_ucd INITIATE_VOICE_SYNTHESIS 7 (lit ''VOICE_SYNTHESIS'')
       (permission (Some 8) DP_VOICE_SYNTHESIS True)
       (Some (issue sample_jwt sample_issuer 40 (lit ''heir'') INITIATE_VOICE_SYNTHESIS 7 (Some 8) (lit ''VOICE_SYNTHESIS'') (10 * second))) e))"
proof -
  let ?code = "lit ''VOICE_SYNTHESIS''" and ?d = "permission (Some 8) DP_VOICE_SYNTHESIS True"
  let ?t = "issue sample_jwt sample_issuer 40 (lit ''heir'') INITIATE_VOICE_SYNTHESIS 7 (Some 8) ?code (10 * second)"
  let ?row = "token_row ?t (Some 8) 7 INITIATE_VOICE_SYNTHESIS DP_VOICE_SYNTHESIS heir"
  let ?db1 = "sample_db\<lparr>tokens := [live_token, ?row]\<rparr>"
  let ?p = "decision_payload sample_ucd INITIATE_VOICE_SYNTHESIS ?code [(''jti'', PyStr (uuid_str 40)),
              (''expires_at'', PyStr (isoformat_auto (it_expires_at ?t)))] True 7"
  have it: "it_jti ?t = 40" "it_issued_at ?t = 10 * second" "it_expires_at ?t = 130 * second"
    by (simp_all add: issue_def Let_def sample_issuer_def)
  have audited: "audited_purpose sample_ucd ?code = ?code"
    by (simp add: audited_purpose_def sample_purpose max_audited_purpose_length_def length_lit)
  have doc: "validate_payload ?p = Inr (document_of ?p)" "clean_json (document_of ?p)"
    unfolding decision_payload_def audited py_obj_def it
    by (intro validate_payload_accepts; simp add: plain_payload isoformat_auto_texts)+
      (use isoformat_auto_texts(1) [of "130 * second"] in \<open>simp_all add: plain_payload isoformat_auto_texts(2,3)\<close>)
  have "events ?db1 = []" "encodable (lit ''heir'')"
    by (simp_all add: sample_db_def empty_db_def encodable_lit)
  with doc have "\<exists>db' e. append_event flat_sha (10 * second) SYNTHESIS_REQUESTED (lit ''heir'') 7 (Some 8) ?p ?db1 = Inr (db', e)"
    by (intro first_append) auto
  then obtain db' e where app: "append_event flat_sha (10 * second) SYNTHESIS_REQUESTED (lit ''heir'') 7 (Some 8) ?p ?db1 = Inr (db', e)"
    by blast
  have ins: "insert_token ?row sample_db = Inr ?db1"
    by (simp only: token_row_def it) (simp add: insert_token_def sample_db_def empty_db_def live_token_def token_check_def sample_grant_def sample_profile_def)
  have fields: "ac_user_id heir = lit ''heir''" "clock_at sample_env n = 10 * second" "fresh sample_env n = 40" for n
    by (simp_all add: heir_def sample_env_def)
  have event: "decision_event INITIATE_VOICE_SYNTHESIS True = SYNTHESIS_REQUESTED"
    by (simp add: decision_event_def synthesis_actions_def use_actions_iff)
  have "allow_tx sample_ucd flat_sha sample_jwt sample_issuer INITIATE_VOICE_SYNTHESIS 7 heir ?code sample_env True ?d
      DP_VOICE_SYNTHESIS sample_db = Inr (db', make_result sample_ucd INITIATE_VOICE_SYNTHESIS 7 ?code ?d (Some ?t) e)"
    by (simp only: allow_tx_def Let_def fields event it declared_value.simps decision.select_convs ins app [unfolded it] bindE.simps if_True prod.case)
  then have "authorize_tx sample_ucd flat_sha sample_jwt sample_issuer INITIATE_VOICE_SYNTHESIS 7 heir ?code sample_env sample_db =
      Inr (db', make_result sample_ucd INITIATE_VOICE_SYNTHESIS 7 ?code ?d (Some ?t) e)"
    using sample_decision sample_profile_facts by (simp add: authorize_tx_def Let_def sample_view_def)
  then show ?thesis
    using sample_purpose(2) by (intro exI) (simp add: authorize_def)
qed

lemma sample_authorization:
  "\<exists>db r. authorize sample_ucd flat_sha sample_jwt sample_issuer INITIATE_VOICE_SYNTHESIS 7 heir (lit ''VOICE_SYNTHESIS'')
     sample_env sample_db = (db, Inr r) \<and> ar_allowed r"
  using sample_authorization_result by (auto simp: make_result_def)

section \<open>A refused attempt\<close>

lemma sample_banned:
  "normalize_purpose sample_ucd (lit ''FINANCIAL'') = lit ''FINANCIAL''"
  "is_banned_purpose sample_ucd (lit ''FINANCIAL'')"
proof -
  have "in_normal_form (lit ''FINANCIAL'')"
    by (simp add: in_normal_form_def lit_def is_separator_def py_isspace_def ascii_upper_def)
  then show norm: "normalize_purpose sample_ucd (lit ''FINANCIAL'') = lit ''FINANCIAL''"
    using normal_form_fixed [OF sample_ucd_ascii] by simp
  have "sublist (split_on 95 (banned_value BP_FINANCIAL)) (split_on 95 (lit ''FINANCIAL''))"
    by simp
  then show "is_banned_purpose sample_ucd (lit ''FINANCIAL'')"
    unfolding is_banned_iff_tokens norm by blast
qed

lemma sample_violation:
  assumes "events db = []" and "(by, route) = (''kernel'', ''kernel.authorize'') \<or> (by, route) = (''middleware'', ''/consent/grants'')"
  shows "\<exists>db' n. record_purpose_violation sample_ucd flat_sha now heir [lit ''FINANCIAL''] pid by (lit route) db = Inr (db', n)"
proof -
  let ?base = "[(''purpose_codes'', PyList [PyStr (lit ''FINANCIAL'')]), (''detected_by'', PyStr (lit by)),
    (''route'', PyStr (lit route)), (''actor_kind'', PyStr (lit ''HUMAN''))]"
  let ?extra = "case pid of Some i \<Rightarrow> if get_profile db i \<noteq> None then [] else [(''requested_profile_id'', PyStr (uuid_str i))] | None \<Rightarrow> []"
  let ?p = "py_obj (?base @ ?extra)"
  have short: "length (lit by) \<le> 10" "length (lit route) \<le> 20" "0 \<notin> set (lit by)" "0 \<notin> set (lit route)"
    using assms(2) by (auto simp: length_lit) (simp_all add: lit_def)
  have "?extra = [] \<or> (\<exists>i. ?extra = [(''requested_profile_id'', PyStr (uuid_str i))])"
    by (cases pid) auto
  then have "validate_payload ?p = Inr (document_of ?p) \<and> clean_json (document_of ?p)"
  proof
    assume "?extra = []"
    then show ?thesis
      unfolding py_obj_def by (intro conjI validate_payload_accepts; use short in \<open>simp add: plain_payload\<close>)
  next
    assume "\<exists>i. ?extra = [(''requested_profile_id'', PyStr (uuid_str i))]"
    then obtain i where "?extra = [(''requested_profile_id'', PyStr (uuid_str i))]"
      by blast
    then show ?thesis
      unfolding py_obj_def by (intro conjI validate_payload_accepts; use short in \<open>simp add: plain_payload\<close>)
  qed
  then have "\<exists>db' e. append_event flat_sha now PURPOSE_VIOLATION_ATTEMPT (lit ''heir'') (chain_for db pid) None ?p db = Inr (db', e)"
    using assms(1) by (intro first_append) (auto simp: encodable_lit)
  moreover have "sort (remdups (map (audited_purpose sample_ucd) [lit ''FINANCIAL''])) = [lit ''FINANCIAL'']"
    by (simp add: audited_purpose_def sample_banned max_audited_purpose_length_def length_lit)
  moreover have "ac_user_id heir = lit ''heir''" "ac_kind heir = HUMAN"
    by (simp_all add: heir_def)
  ultimately show ?thesis
    unfolding record_purpose_violation_def Let_def by (cases pid) (auto simp: bindE_eq_Inr split: if_splits)
qed

end
