(* ===== verification/Sample_Cascade.thy ===== *)
theory Sample_Cascade imports Sample_Service begin

text \<open>
  Runs of the cascade: a revoked grant whose token is still live, which one run completes, and one with a
  voice model whose object the store refuses to delete, which a run leaves for the next.
\<close>

definition pending_db :: consent_db where
  "pending_db = sample_db\<lparr>grants := [revoked_grant 10 (lit ''stop'') sample_grant],
     requests := [new_request 40 8 (lit ''heir'') (lit ''stop'') 10]\<rparr>"

definition voice_db :: consent_db where
  "voice_db = pending_db\<lparr>voice_models := [\<lparr> vm_id = 50, vm_grant_id = 8, vm_profile_id = 7, vm_storage_key = Some (lit ''voices/a''),
     vm_created_at = 0, vm_deleted_at = None \<rparr>]\<rparr>"

abbreviation sample_run :: "consent_db \<Rightarrow> unit world" where
  "sample_run db \<equiv> \<lparr> w_db = db, w_store = (), w_ticks = 0 \<rparr>"

lemmas sample_rows = pending_db_def voice_db_def sample_db_def empty_db_def revoked_grant_def new_request_def sample_grant_def

lemma pending_sound: "sound sha pending_db" "sound sha voice_db"
  by (simp_all add: sound_def ledger_ok_def event_rows_ok_def profile_events_def)
   (simp_all add: rows_ok_defs sample_rows sample_profile_def live_token_def
      profile_check_def grant_check_def token_check_def request_check_def voice_check_def)

lemma sample_claim:
  assumes "db = pending_db \<or> db = voice_db"
  shows "claim 8 60 20 db = Inr (db\<lparr>requests := [processing 20 (new_request 40 8 (lit ''heir'') (lit ''stop'') 10)]\<rparr>,
     \<lparr> cl_profile_id = 7, cl_request_id = 40, cl_proceed = True \<rparr>)"
  using assms by (auto simp: claim_def sample_rows get_grant_def get_request_def request_for_def update_request_def request_check_def
      processing_def update_rows_def)

lemma sample_cascade_blocked:
  "\<exists>w. run_cascade (\<lambda>s k. Inl (OsError k)) flat_sha (\<lambda>n. 20) 60 8 (sample_run voice_db) = (w, Inl (OsError (lit ''voices/a'')))"
  by (simp add: run_cascade_def commit_def sample_claim cascade_body_def Let_def revoke_step_def ticked_def revoke_grant_tokens_def
      cancel_deliveries_def delete_artifacts_def pending_deliveries_def delete_artifact_def erase_object_def record_failure_def
      update_request_def request_check_def)
    (simp add: sample_rows live_token_def processing_def delete_artifact_def erase_object_def record_failure_def update_request_def request_check_def)

lemma sample_cascade:
  "\<exists>w report. run_cascade (\<lambda>s k. Inr s) flat_sha (\<lambda>n. 20) 60 8 (sample_run pending_db) = (w, Inr report) \<and> rp_tokens report = 1"
proof -
  let ?q = "processing 20 (new_request 40 8 (lit ''heir'') (lit ''stop'') 10)"
  let ?report = "\<lparr> rp_grant_id = 8, rp_already_complete = False, rp_tokens = 1, rp_deliveries = 0, rp_audio = 0, rp_voice = 0 \<rparr>"
  let ?db1 = "pending_db\<lparr>requests := [?q], tokens := [live_token\<lparr>at_revoked_at := Some 20\<rparr>]\<rparr>"
  let ?db2 = "?db1\<lparr>requests := [completed 20 ?q]\<rparr>"
  let ?p = "completion_payload ?q ?report"
  have doc: "validate_payload ?p = Inr (document_of ?p)" "clean_json (document_of ?p)"
    unfolding completion_payload_def py_obj_def
    by (intro validate_payload_accepts; simp add: plain_payload processing_def new_request_def)+
      (simp_all add: plain_payload processing_def new_request_def)
  have "events ?db2 = []" "encodable cascade_actor"
    by (simp_all add: sample_rows cascade_actor_def encodable_lit)
  with doc obtain db e where app: "append_event flat_sha 20 REVOCATION_CASCADE_COMPLETED cascade_actor 7 (Some 8) ?p ?db2 = Inr (db, e)"
    using first_append [of ?db2 ?p] by (metis length_flat_sha)
  have quiet: "remaining ?db1 8 = map (\<lambda>k. (lit k, 0)) [''tokens'', ''deliveries'', ''audio_artifacts'', ''voice_models'']"
    by (simp add: remaining_def live_tokens_def pending_deliveries_def live_token_def sample_rows)
  have finish: "finish flat_sha 20 20 8 \<lparr> cl_profile_id = 7, cl_request_id = 40, cl_proceed = True \<rparr> ?report ?db1 = Inr (db, ())"
    unfolding finish_def quiet using app
    by (simp add: update_request_def cascade_audit_def request_check_def completed_def processing_def new_request_def update_rows_def)
  have tokens: "revoke_grant_tokens 8 20 (pending_db\<lparr>requests := [?q]\<rparr>) = (?db1, 1)"
    by (simp add: revoke_grant_tokens_def sample_rows live_token_def count_rows_def)
  have none: "deliveries pending_db = []" "audio_artifacts pending_db = []" "voice_models pending_db = []"
    by (simp_all add: sample_rows)
  show ?thesis
    using finish by (simp add: run_cascade_def commit_def sample_claim cascade_body_def Let_def revoke_step_def ticked_def tokens
        cancel_deliveries_def delete_artifacts_def pending_deliveries_def none)
qed

end
