(* ===== verification/Kernel_Properties.thy ===== *)
theory Kernel_Properties imports Sample_Cascade begin

text \<open>
  The properties of the consent kernel: what it decides, what a decision records, what a revocation ends,
  what the cascade leaves, and the invariants of every state the service reaches.
\<close>

text \<open>C1. Revocation is final. After a revocation commits, in every state the service reaches later (requests,
  refused attempts and worker runs in any order) the grant still carries the moment of that revocation, no use
  is authorized under it, and, when the revocation was the first, each token issued under it before is revoked.\<close>

theorem revocation_is_final:
  fixes J :: "('sk, 'vk) pyjwt"
  assumes "revoke (se_sha S) gid reason actor env (w_db w) = Inr (db, (resp, flag))" and "sound (se_sha S) (w_db w)"
    and "reaches S (w\<lparr>w_db := db\<rparr>) w'"
  shows "(\<exists>g. get_grant (w_db w') gid = Some g \<and> g_revoked_at g = Some (rv_revoked_at resp)) \<and>
    (\<forall>U J I a i user code e db' r. a \<in> use_actions \<and> authorize U (se_sha S) (J :: ('sk, 'vk) pyjwt) I a i user code e (w_db w') = (db', Inr r) \<and>
       ar_allowed r \<longrightarrow> ar_grant_id r \<noteq> Some gid) \<and>
    (get_request (w_db w) gid = None \<longrightarrow>
       (\<forall>t \<in> set (tokens (w_db w)). at_grant_id t = Some gid \<longrightarrow> sql_status (w_db w') (at_jti t) = REVOKED))"
  using revocation_final [OF assms] by blast

theorem revocation_is_final_witness:
  "\<exists>db resp g. revoke flat_sha 8 (lit ''stop'') heir sample_env sample_db = Inr (db, (resp, True)) \<and>
     get_grant db 8 = Some g \<and> g_revoked_at g = Some (rv_revoked_at resp) \<and> sql_status db 30 = REVOKED"
proof -
  obtain db resp where rev: "revoke flat_sha 8 (lit ''stop'') heir sample_env sample_db = Inr (db, (resp, True))"
    using sample_revocation by blast
  have start: "revoke (se_sha sample_service) 8 (lit ''stop'') heir sample_env (w_db sample_world) = Inr (db, (resp, True))"
    "sound (se_sha sample_service) (w_db sample_world)"
    using rev sample_sound by (simp_all add: sample_sha sample_world_def)
  have "reaches sample_service (sample_world\<lparr>w_db := db\<rparr>) (sample_world\<lparr>w_db := db\<rparr>)"
    by (simp add: reaches_def)
  note final = revocation_is_final [OF start this]
  have "get_request sample_db 8 = None" "live_token \<in> set (tokens sample_db)" "at_grant_id live_token = Some 8" "at_jti live_token = 30"
    by (simp_all add: sample_db_def empty_db_def get_request_def live_token_def)
  with final rev show ?thesis
    by (fastforce simp: sample_world_def)
qed

text \<open>C2. A use runs under a live grant: when \<open>authorize\<close> allows a use, the grant it names is a row of this
  profile that is verified, active and not revoked.\<close>

theorem allowed_use_has_live_grant:
  assumes "a \<in> use_actions" and "authorize U sha J I a i actor code env db = (db', Inr r)" and "ar_allowed r"
  shows "\<exists>g \<in> set (grants db). ar_grant_id r = Some (g_id g) \<and> g_profile_id g = i \<and> g_revoked_at g = None \<and>
    g_is_active g \<and> g_verified_at g \<noteq> None"
  using assms by (rule use_needs_live_grant)

theorem allowed_use_has_live_grant_witness:
  "\<exists>db r. authorize sample_ucd flat_sha sample_jwt sample_issuer INITIATE_VOICE_SYNTHESIS 7 heir (lit ''VOICE_SYNTHESIS'')
     sample_env sample_db = (db, Inr r) \<and> (\<exists>g \<in> set (grants sample_db). ar_grant_id r = Some (g_id g) \<and> g_is_active g)"
proof -
  obtain db r where auth: "authorize sample_ucd flat_sha sample_jwt sample_issuer INITIATE_VOICE_SYNTHESIS 7 heir (lit ''VOICE_SYNTHESIS'')
     sample_env sample_db = (db, Inr r)" "ar_allowed r"
    using sample_authorization by blast
  have "INITIATE_VOICE_SYNTHESIS \<in> use_actions"
    by (simp add: use_actions_iff)
  from allowed_use_has_live_grant [OF this auth] auth(1) show ?thesis
    by blast
qed



text \<open>C4. The decision is total and is the policy: for every request on a known profile \<open>decide\<close> returns without
  an exception, allows exactly what the policy permits, and gives a reason exactly when it denies.\<close>

theorem decision_is_policy:
  "\<exists>d. decide U a code actor (Some f) = Inr d \<and> (d_allowed d \<longleftrightarrow> permitted U a code actor f) \<and>
     (d_allowed d \<longleftrightarrow> d_reason d = None)"
  by (rule decide_total_and_correct)



text \<open>C31. A decision leaves exactly one event, on the chain of the profile, of the type the outcome calls for;
  a token row is added exactly when the request is allowed, and a denial discloses no token.\<close>

theorem decision_is_recorded:
  assumes "authorize U sha J I a i actor code env db = (db', Inr r)"
  shows "\<exists>e ts. events db' = events db @ [e] \<and> tokens db' = tokens db @ ts \<and> ar_event_id r = ae_id e \<and>
    ae_type e = decision_event a (ar_allowed r) \<and> ae_actor_id e = ac_user_id actor \<and> ae_profile_id e = chain_for db (Some i) \<and>
    (if ar_allowed r then \<exists>t. ts = [t] \<and> ar_jti r = Some (at_jti t) else ts = [] \<and> ar_token r = None)"
proof -
  have tx: "authorize_tx U sha J I a i actor code env db = Inr (db', r)"
    using authorize_Inr [OF assms] by simp
  obtain db1 c g p e n where ev: "append_event sha n (decision_event a (ar_allowed r)) (ac_user_id actor) c g p db1 = Inr (db', e)"
    and c: "c = chain_for db (Some i)" and id: "ar_event_id r = ae_id e"
    and row: "if ar_allowed r then \<exists>row. insert_token row db = Inr db1 \<and> db1 = db\<lparr>tokens := tokens db @ [row]\<rparr> \<and> ar_jti r = Some (at_jti row)
     else db1 = db \<and> ar_token r = None"
    using authorize_tx_event [OF tx] by (elim exE conjE) (rule that; assumption)
  show ?thesis
    using append_event_Inr(1,3-5) [OF ev] append_event_rest(6) [OF ev] row id c
    by (intro exI [of _ e]) (auto split: if_splits)
qed

theorem decision_is_recorded_witness:
  "\<exists>db r t. authorize sample_ucd flat_sha sample_jwt sample_issuer INITIATE_VOICE_SYNTHESIS 7 heir (lit ''VOICE_SYNTHESIS'')
     sample_env sample_db = (db, Inr r) \<and> tokens db = [live_token, t] \<and> length (events db) = 1"
proof -
  obtain db r where auth: "authorize sample_ucd flat_sha sample_jwt sample_issuer INITIATE_VOICE_SYNTHESIS 7 heir (lit ''VOICE_SYNTHESIS'')
     sample_env sample_db = (db, Inr r)" "ar_allowed r"
    using sample_authorization by blast
  from decision_is_recorded [OF auth(1)] auth show ?thesis
    by (fastforce simp: sample_db_def empty_db_def)
qed

text \<open>A denial among the grants of a profile names the grant that got furthest: when no grant is usable, the
  reason given is the failure of some grant, and no grant passes more of the checks (role, revocation, activity,
  authority, scope, acknowledgments) than the one it is taken from.\<close>

theorem denial_names_furthest_grant:
  assumes "a \<in> use_actions" and "gs \<noteq> []" and "\<forall>g \<in> set gs. \<not> usable a actor f g"
  shows "\<exists>g \<in> set gs. try_grants a (action_purpose a) actor f related None gs =
      Inr (refusal (Some (failure_of a actor f g)) (Some (action_purpose a)) related) \<and>
    (\<forall>h \<in> set gs. stage_index (failure_of a actor f h) \<le> stage_index (failure_of a actor f g))"
  using try_grants_denies [of a gs actor f None related] assms by fastforce

theorem denial_names_furthest_grant_witness:
  "\<exists>g \<in> {facts_from_row sample_db sample_grant}. try_grants VIEW_MEMORIAL DP_MEMORIAL_VIEW operator sample_view True None
     [g\<lparr>gf_revoked := True\<rparr>] = Inr (refusal (Some GRANT_REVOKED) (Some DP_MEMORIAL_VIEW) True)"
proof -
  let ?g = "(facts_from_row sample_db sample_grant)\<lparr>gf_revoked := True\<rparr>"
  have "VIEW_MEMORIAL \<in> use_actions" "\<forall>g \<in> set [?g]. \<not> usable VIEW_MEMORIAL operator sample_view g"
    by (simp_all add: use_actions_iff usable_def)
  moreover have "failure_of VIEW_MEMORIAL operator sample_view ?g = GRANT_REVOKED"
    by (simp add: failure_of_def grant_failure_def may_use_def)
  ultimately show ?thesis
    using denial_names_furthest_grant [of VIEW_MEMORIAL "[?g]" operator sample_view True] by simp
qed



text \<open>A cascade that raises has a cause and leaves a trace. Either the grant is unknown or not revoked, or the
  store or the ledger refused a step, with that very error; then the request of the grant is there, not complete,
  and carries the error, so that the sweeper runs it again.\<close>

theorem cascade_failure_is_recorded:
  assumes "run_cascade erase sha clk rid gid w = (w', Inl e)" and "sound sha (w_db w)" and "rid \<notin> rr_id ` set (requests (w_db w))"
  shows "(\<exists>m. e = PermanentCascadeError m) \<and> w_db w' = w_db w \<and> (\<forall>g. get_grant (w_db w) gid = Some g \<longrightarrow> g_revoked_at g = None) \<or>
    (ledger_error e \<or> (\<exists>s k. erase s k = Inl e)) \<and>
    (\<exists>q \<in> set (requests (w_db w')). rr_grant_id q = gid \<and> rr_status q \<noteq> COMPLETE \<and> rr_last_error q = Some e)"
  using assms(1)
proof (cases rule: run_cascade_cases)
  case (refused e')
  then show ?thesis
    using claim_Inl [OF _ assms(2,3)] by (metis Inl_inject ticked_simps(1))
next
  case (raised db c w2 e')
  obtain r where r: "r \<in> set (requests db)" "rr_id r = cl_request_id c" "rr_grant_id r = gid" "rr_status r \<noteq> COMPLETE"
    using claim_Inr(3) [OF raised(1) assms(2)] raised(2) by blast
  note body = cascade_body_facts [OF raised(3)]
  have "sound sha db"
    using claim_Inr(1) [OF raised(1) assms(2)] assms(2) by (simp add: evolves_def)
  then have rows: "rows_ok (w_db w2)"
    using body(1) by (simp add: evolves_def sound_def)
  have req: "requests (w_db w2) = requests db"
    using body(4) by simp
  moreover have "distinct (map rr_id (requests (w_db w2)))"
    using rows by (simp add: rows_ok_defs)
  ultimately have "find (\<lambda>q. rr_id q = cl_request_id c) (requests (w_db w2)) = Some r"
    using find_key [of rr_id "requests (w_db w2)" r] r by simp
  moreover have "update_request (cl_request_id c) (\<lambda>r. r\<lparr>rr_last_error := Some e', rr_updated_at := clk (w_ticks w2)\<rparr>) (w_db w2) =
      Inr ((w_db w2)\<lparr>requests := update_rows (\<lambda>r. rr_id r = cl_request_id c)
        (\<lambda>r. r\<lparr>rr_last_error := Some e', rr_updated_at := clk (w_ticks w2)\<rparr>) (requests (w_db w2))\<rparr>)"
    by (rule update_request_total) (simp add: request_row_checks [OF rows])
  ultimately have e: "e = e'" and "requests (w_db w') = update_rows (\<lambda>r. rr_id r = cl_request_id c)
        (\<lambda>r. r\<lparr>rr_last_error := Some e', rr_updated_at := clk (w_ticks w2)\<rparr>) (requests db)"
    using raised(4) r(4) by (simp_all add: record_failure_def req)
  then have "r\<lparr>rr_last_error := Some e, rr_updated_at := clk (w_ticks w2)\<rparr> \<in> set (requests (w_db w'))"
    using r by (auto simp: in_update_rows intro!: bexI [of _ r])
  then have "\<exists>q \<in> set (requests (w_db w')). rr_grant_id q = gid \<and> rr_status q \<noteq> COMPLETE \<and> rr_last_error q = Some e"
    using r by (intro bexI [of _ "r\<lparr>rr_last_error := Some e, rr_updated_at := clk (w_ticks w2)\<rparr>"]) simp_all
  moreover have "ledger_error e \<or> (\<exists>s k. erase s k = Inl e)"
    using body(3) [of e'] r e by force
  ultimately show ?thesis
    by blast
qed simp_all

theorem cascade_failure_is_recorded_witness:
  "\<exists>w. run_cascade (\<lambda>s k. Inl (OsError k)) flat_sha (\<lambda>n. 20) 60 8 (sample_run voice_db) = (w, Inl (OsError (lit ''voices/a''))) \<and>
     (\<exists>q \<in> set (requests (w_db w)). rr_status q \<noteq> COMPLETE \<and> rr_last_error q = Some (OsError (lit ''voices/a'')))"
proof -
  obtain w where run: "run_cascade (\<lambda>s k. Inl (OsError k)) flat_sha (\<lambda>n. 20) 60 8 (sample_run voice_db) = (w, Inl (OsError (lit ''voices/a'')))"
    using sample_cascade_blocked by blast
  have "sound flat_sha (w_db (sample_run voice_db))" "60 \<notin> rr_id ` set (requests (w_db (sample_run voice_db)))"
    by (simp add: pending_sound) (simp add: sample_rows)
  from cascade_failure_is_recorded [OF run this] run show ?thesis
    by auto
qed

lemma revoke_leaves_request:
  assumes "revoke sha gid reason actor env db = Inr (db', (resp, flag))"
  shows "\<exists>q. get_request db' gid = Some q \<and> rr_id q = rv_request_id resp"
  using assms
proof (cases rule: revoke_cases)
  case (anew grant roles)
  let ?q = "new_request (fresh env 0) (g_id grant) (ac_user_id actor) reason (clock_at env 0)"
  obtain db1 db2 p e where ins: "insert_request ?q (fst (revoke_grant_tokens (g_id grant) (clock_at env 0) db1)) = Inr db2"
    and app: "append_event sha (clock_at env 1) CONSENT_REVOKED (ac_user_id actor) (g_profile_id grant) (Some (g_id grant)) p db2 = Inr (db', e)"
    and resp: "rv_request_id resp = fresh env 0"
    using revoke_anew_Inr [OF anew(4)] by auto
  let ?rs = "requests (fst (revoke_grant_tokens (g_id grant) (clock_at env 0) db1))"
  have free: "gid \<notin> rr_grant_id ` set ?rs" and rows: "requests db' = ?rs @ [?q]"
    using ins anew(2) append_event_rest(5) [OF app] by (auto simp: insert_request_def new_request_def split: if_split_asm)
  from free have "find (\<lambda>r. rr_grant_id r = gid) ?rs = None"
    by (auto simp: find_None_iff)
  then show ?thesis
    using anew(2) resp by (simp add: get_request_def rows find_append new_request_def)
qed simp

text \<open>Revoking is idempotent: a second revocation of the same grant, by whomever, whenever and for whatever
  reason, changes nothing and answers with the moment and the request of the first.\<close>

theorem revoking_again_changes_nothing:
  assumes "revoke sha gid reason actor env db = Inr (db1, (first, flag))" and "sound sha db"
    and "revoke sha gid reason' actor' env' db1 = Inr (db2, (again, flag'))"
  shows "db2 = db1 \<and> rv_revoked_at again = rv_revoked_at first \<and> rv_request_id again = rv_request_id first \<and>
    rv_tokens_invalidated again = 0"
proof -
  obtain g where g: "get_grant db1 gid = Some g" "g_revoked_at g = Some (rv_revoked_at first)"
    using revoke_done(1) [OF assms(1,2)] by blast
  obtain q where q: "get_request db1 gid = Some q" "rr_id q = rv_request_id first"
    using revoke_leaves_request [OF assms(1)] by blast
  from assms(3) show ?thesis
    by (cases rule: revoke_cases) (use g q in auto)
qed

theorem revoking_again_changes_nothing_witness:
  "\<exists>db first again. revoke flat_sha 8 (lit ''stop'') heir sample_env sample_db = Inr (db, (first, True)) \<and>
     revoke flat_sha 8 (lit ''once more'') heir sample_env db = Inr (db, (again, True)) \<and> rv_revoked_at again = rv_revoked_at first"
proof -
  obtain e first where one: "revoke flat_sha 8 (lit ''stop'') heir sample_env sample_db = Inr (revoked_db\<lparr>events := [e]\<rparr>, (first, True))"
    using sample_revocation_db by blast
  obtain again where two: "revoke flat_sha 8 (lit ''once more'') heir sample_env (revoked_db\<lparr>events := [e]\<rparr>) =
      Inr (revoked_db\<lparr>events := [e]\<rparr>, (again, True))"
    using sample_revocation_again [OF refl] by blast
  from revoking_again_changes_nothing [OF one sample_sound two] one two show ?thesis
    by blast
qed

text \<open>A grant an operator revoked out of band, in the table and without a request, can no longer be revoked
  through the service: the handler sets the moment of revocation again and the row guard refuses it, so the
  request ends in an error (unless it falls on the same microsecond with the same reason).\<close>

theorem out_of_band_revocation_blocks_revoke:
  assumes "get_grant db gid = Some g" and "g_revoked_at g = Some at" and "get_request db gid = None"
    and "clock_at env 0 \<noteq> at"
  shows "\<exists>x. revoke sha gid reason actor env db = Inl x"
proof (cases "revoke sha gid reason actor env db")
  case (Inr y)
  then obtain db' resp flag where run: "revoke sha gid reason actor env db = Inr (db', (resp, flag))"
    by (cases y) auto
  then show ?thesis
  proof (cases rule: revoke_cases)
    case (anew grant roles)
    then obtain db1 where "update_grant gid (revoked_grant (clock_at env 0) reason) db = Inr db1"
      using revoke_anew_Inr [OF anew(4)] by auto
    moreover have "g \<in> set (grants db)" "g_id g = gid"
      using get_grant_SomeD [OF assms(1)] by auto
    ultimately show ?thesis
      using assms(2,4) by (auto simp: update_grant_def consent_grant_guard_def revoked_grant_def split: if_splits)
  qed (use assms(3) in simp)
qed simp

theorem out_of_band_revocation_blocks_revoke_witness:
  "\<exists>x. revoke flat_sha 8 (lit ''stop'') heir sample_env (pending_db\<lparr>requests := []\<rparr>) = Inl x"
  by (rule out_of_band_revocation_blocks_revoke [where g = "revoked_grant 10 (lit ''stop'') sample_grant" and at = 10])
    (simp_all add: sample_env_def get_grant_def get_request_def pending_db_def revoked_grant_def sample_grant_def)

end
