(* ===== verification/Rate_Limit.thy ===== *)
theory Rate_Limit imports Complex_Main Prelude begin

text \<open>
  The rate limiter, \<open>app/ratelimit.py\<close>: the generic cell rate algorithm in process
  (\<open>InMemoryGCRA\<close>, with the pruning of idle keys) and as the Lua script run inside Redis
  (\<open>RedisGCRA\<close>, with the expiry of idle keys).

  Seconds are exact rationals; the rounding of floats and of Lua's \<open>tostring\<close> is not modelled.
  The reading of the clock is an argument of \<open>hit\<close>. Of Redis, the script uses \<open>GET\<close> and
  \<open>SET \<dots> PX\<close>: a key whose time to live has run out is absent.

  What both limiters promise is the locale \<open>rate_limiter\<close>: one number per key, its theoretical
  arrival time, that decides. The bound on what is admitted and the worth of \<open>Retry-After\<close> are
  proved there once; both implementations are interpretations.
\<close>

section \<open>Decisions and parameters\<close>

record rate_decision =
  rd_allowed :: bool
  rd_retry_after_seconds :: rat

definition parameters :: "int \<Rightarrow> int \<Rightarrow> (rat \<times> rat) option" where
  "parameters rate_per_minute burst =
     (if rate_per_minute < 1 \<or> burst < 1 then None
      else (let interval = 60 / of_int rate_per_minute in Some (interval, interval * of_int (burst - 1))))"

lemma parameters_Some:
  assumes "parameters rate burst = Some (interval, tolerance)"
  shows "0 < interval" and "0 \<le> tolerance" and "tolerance = interval * of_int (burst - 1)" and "1 \<le> burst" and "1 \<le> rate"
    and "interval = 60 / of_int rate"
  using assms by (auto simp: parameters_def Let_def split: if_splits)

section \<open>In process\<close>

definition max_keys :: nat where "max_keys = 100000"

record gcra =
  gc_interval :: rat
  gc_tolerance :: rat
  gc_tat :: "(pstr \<times> rat) list"

definition make_gcra :: "int \<Rightarrow> int \<Rightarrow> gcra option" where
  "make_gcra rate_per_minute burst =
     map_option (\<lambda>(interval, tolerance). \<lparr> gc_interval = interval, gc_tolerance = tolerance, gc_tat = [] \<rparr>)
       (parameters rate_per_minute burst)"

definition hit :: "rat \<Rightarrow> pstr \<Rightarrow> gcra \<Rightarrow> gcra \<times> rate_decision" where
  "hit now key limiter =
     (let tat = max (case map_of (gc_tat limiter) key of Some v \<Rightarrow> v | None \<Rightarrow> now) now;
          allow_at = tat - gc_tolerance limiter
      in if now < allow_at
         then (limiter, \<lparr> rd_allowed = False, rd_retry_after_seconds = allow_at - now \<rparr>)
         else (let stored = AList.update key (tat + gc_interval limiter) (gc_tat limiter);
                   kept = (if max_keys < length stored then filter (\<lambda>(k, v). now < v) stored else stored)
               in (limiter\<lparr>gc_tat := kept\<rparr>, \<lparr> rd_allowed = True, rd_retry_after_seconds = 0 \<rparr>)))"

section \<open>In Redis\<close>

text \<open>A stored value with the moment, in milliseconds, at which it expires.\<close>

record redis_gcra =
  rg_interval :: rat
  rg_tolerance :: rat
  rg_prefix :: pstr
  rg_store :: "(pstr \<times> rat \<times> rat) list"

definition make_redis_gcra :: "int \<Rightarrow> int \<Rightarrow> pstr \<Rightarrow> (pstr \<times> rat \<times> rat) list \<Rightarrow> redis_gcra option" where
  "make_redis_gcra rate_per_minute burst prefix store =
     map_option (\<lambda>(interval, tolerance). \<lparr> rg_interval = interval, rg_tolerance = tolerance, rg_prefix = prefix, rg_store = store \<rparr>)
       (parameters rate_per_minute burst)"

definition redis_get :: "rat \<Rightarrow> pstr \<Rightarrow> (pstr \<times> rat \<times> rat) list \<Rightarrow> rat option" where
  "redis_get now key store = (case map_of store key of
     Some (v, expires) \<Rightarrow> if now * 1000 < expires then Some v else None | None \<Rightarrow> None)"

text \<open>The script \<open>_REDIS_GCRA\<close>.\<close>

definition redis_script :: "rat \<Rightarrow> pstr \<Rightarrow> rat \<Rightarrow> rat \<Rightarrow> (pstr \<times> rat \<times> rat) list \<Rightarrow> (pstr \<times> rat \<times> rat) list \<times> (int \<times> rat)" where
  "redis_script now key interval tolerance store =
     (let tat = (case redis_get now key store of Some v \<Rightarrow> v | None \<Rightarrow> now);
          tat = (if tat < now then now else tat);
          allow_at = tat - tolerance
      in if now < allow_at then (store, (0, allow_at - now))
         else (let new_tat = tat + interval;
                   ttl = of_int \<lceil>(new_tat - now) * 1000\<rceil> + 1000
               in (AList.update key (new_tat, now * 1000 + ttl) store, (1, 0))))"

definition redis_hit :: "rat \<Rightarrow> pstr \<Rightarrow> redis_gcra \<Rightarrow> redis_gcra \<times> rate_decision" where
  "redis_hit now key limiter =
     (let (store, (allowed, retry_after)) =
            redis_script now (rg_prefix limiter @ key) (rg_interval limiter) (rg_tolerance limiter) (rg_store limiter)
      in (limiter\<lparr>rg_store := store\<rparr>, \<lparr> rd_allowed = (allowed \<noteq> 0), rd_retry_after_seconds = retry_after \<rparr>))"

section \<open>The contract\<close>

text \<open>\<open>level s k now\<close> is the theoretical arrival time of the key, brought up to the present.\<close>

locale rate_limiter =
  fixes hit :: "rat \<Rightarrow> pstr \<Rightarrow> 's \<Rightarrow> 's \<times> rate_decision"
    and level :: "'s \<Rightarrow> pstr \<Rightarrow> rat \<Rightarrow> rat"
    and ready :: "'s \<Rightarrow> bool"
    and interval :: "'s \<Rightarrow> rat" and tolerance :: "'s \<Rightarrow> rat"
  assumes interval_pos: "ready s \<Longrightarrow> 0 < interval s"
    and tolerance_nonneg: "ready s \<Longrightarrow> 0 \<le> tolerance s"
    and hit_interval: "interval (fst (hit now k s)) = interval s"
    and hit_tolerance: "tolerance (fst (hit now k s)) = tolerance s"
    and level_now: "now \<le> level s k now"
    and level_later: "now \<le> later \<Longrightarrow> level s k later = max (level s k now) later"
    and hit_ready: "ready s \<Longrightarrow> ready (fst (hit now k s))"
    and hit_allowed: "ready s \<Longrightarrow> rd_allowed (snd (hit now k s)) \<longleftrightarrow> level s k now \<le> now + tolerance s"
    and hit_retry: "ready s \<Longrightarrow> rd_retry_after_seconds (snd (hit now k s)) = max 0 (level s k now - tolerance s - now)"
    and hit_level: "ready s \<Longrightarrow> level (fst (hit now k s)) l now =
      (if l = k \<and> rd_allowed (snd (hit now k s)) then level s k now + interval s else level s l now)"
begin

text \<open>A run: requests, each with its moment and its key; the moments at which the key was admitted.\<close>

fun admitted :: "pstr \<Rightarrow> (rat \<times> pstr) list \<Rightarrow> 's \<Rightarrow> rat list" where
  "admitted k [] s = []"
| "admitted k ((now, l) # rest) s =
     (let (s', d) = hit now l s in (if l = k \<and> rd_allowed d then [now] else []) @ admitted k rest s')"

fun after :: "(rat \<times> pstr) list \<Rightarrow> 's \<Rightarrow> 's" where
  "after [] s = s"
| "after ((now, l) # rest) s = after rest (fst (hit now l s))"

lemma after_ready: "ready s \<Longrightarrow> ready (after rs s)"
  by (induction rs s rule: after.induct) (auto simp: hit_ready)

lemma admitted_append: "admitted k (rs @ ts) s = admitted k rs s @ admitted k ts (after rs s)"
  by (induction k rs s rule: admitted.induct) (auto simp: Let_def split: prod.split)

lemma after_parameters: "interval (after rs s) = interval s" "tolerance (after rs s) = tolerance s"
  by (induction rs s rule: after.induct) (auto simp: hit_interval hit_tolerance)

lemma after_append: "after (rs @ ts) s = after ts (after rs s)"
  by (induction rs s rule: after.induct) simp_all

text \<open>From \<open>a\<close> on, every admission pushes the level one interval further, and none happens more than
  the tolerance ahead of the clock.\<close>

lemma level_counts:
  assumes "ready s" and "sorted (a # map fst rs)" and "\<forall>r \<in> set rs. fst r \<le> b" and "a \<le> b"
  shows "level s k a + of_nat (length (admitted k rs s)) * interval s \<le> level (after rs s) k b"
  using assms
proof (induction rs arbitrary: s a)
  case Nil
  then show ?case by (simp add: level_later [of a b])
next
  case (Cons r rs)
  obtain now l where r: "r = (now, l)" by (cases r)
  let ?s = "fst (hit now l s)" and ?d = "snd (hit now l s)"
  have bounds: "a \<le> now" "now \<le> b" and sorted: "sorted (now # map fst rs)"
    using Cons.prems r by auto
  have IH: "level ?s k now + of_nat (length (admitted k rs ?s)) * interval ?s \<le> level (after rs ?s) k b"
    using Cons.prems r bounds sorted by (intro Cons.IH) (auto simp: hit_ready)
  have later: "level s k a \<le> level s k now"
    using level_later [OF bounds(1)] by simp
  show ?case
  proof (cases "l = k \<and> rd_allowed ?d")
    case True
    then have "level ?s k now = level s k now + interval s"
      using hit_level [OF Cons.prems(1), of now l k] by auto
    moreover have "l = k" and "rd_allowed (snd (hit now k s))"
      using True by auto
    ultimately show ?thesis
      using IH later r hit_interval [of now l s] by (simp add: Let_def split_def algebra_simps)
  next
    case False
    then have "level ?s k now = level s k now"
      using hit_level [OF Cons.prems(1), of now l k] by auto
    with False IH later r hit_interval [of now l s] show ?thesis
      by (auto simp add: Let_def split_def)
  qed
qed

lemma last_admission:
  assumes "ready s" and "sorted (map fst rs)" and "admitted k rs s \<noteq> []"
  shows "\<exists>ps now qs. rs = ps @ (now, k) # qs \<and> admitted k qs (fst (hit now k (after ps s))) = [] \<and>
    level (after ps s) k now \<le> now + tolerance s \<and> length (admitted k rs s) = Suc (length (admitted k ps s))"
  using assms
proof (induction rs rule: rev_induct)
  case (snoc r rs)
  obtain now l where r: "r = (now, l)" by (cases r)
  let ?d = "snd (hit now l (after rs s))"
  have all: "admitted k (rs @ [r]) s = admitted k rs s @ (if l = k \<and> rd_allowed ?d then [now] else [])"
    by (simp add: admitted_append r Let_def split_def)
  show ?case
  proof (cases "l = k \<and> rd_allowed ?d")
    case True
    then have "level (after rs s) k now \<le> now + tolerance s"
      using hit_allowed [OF after_ready [OF snoc.prems(1)], of now l rs] after_parameters(2) [of rs s] by auto
    moreover have "l = k" and "rd_allowed (snd (hit now k (after rs s)))"
      using True by auto
    ultimately have "rs @ [r] = rs @ (now, k) # [] \<and> admitted k [] (fst (hit now k (after rs s))) = [] \<and>
        level (after rs s) k now \<le> now + tolerance s \<and> length (admitted k (rs @ [r]) s) = Suc (length (admitted k rs s))"
      using all r by simp
    then show ?thesis by blast
  next
    case False
    then have same: "admitted k (rs @ [r]) s = admitted k rs s"
      using all by (simp only: if_False append_Nil2)
    then have "admitted k rs s \<noteq> []"
      using snoc.prems(3) by simp
    moreover have "sorted (map fst rs)"
      using snoc.prems(2) by (simp add: sorted_append)
    ultimately obtain ps t qs where split: "rs = ps @ (t, k) # qs" "admitted k qs (fst (hit t k (after ps s))) = []"
        "level (after ps s) k t \<le> t + tolerance s" "length (admitted k rs s) = Suc (length (admitted k ps s))"
      using snoc.IH snoc.prems(1) by blast
    have "after rs s = after qs (fst (hit t k (after ps s)))"
      using split(1) by (simp add: after_append)
    then have "admitted k (qs @ [r]) (fst (hit t k (after ps s))) = []"
      using False split(2) r by (auto simp: admitted_append Let_def split_def)
    with split False all r have "rs @ [r] = ps @ (t, k) # (qs @ [r]) \<and>
        admitted k (qs @ [r]) (fst (hit t k (after ps s))) = [] \<and>
        level (after ps s) k t \<le> t + tolerance s \<and> length (admitted k (rs @ [r]) s) = Suc (length (admitted k ps s))"
      by auto
    then show ?thesis by blast
  qed
qed simp

text \<open>In any stretch of time the key gets at most its burst and what its rate allows.\<close>

lemma admission_bound:
  assumes "ready s" and "sorted (a # map fst rs)" and "\<forall>r \<in> set rs. fst r \<le> b" and "a \<le> b"
  shows "of_nat (length (admitted k rs s)) * interval s \<le> (b - a) + tolerance s + interval s"
proof (cases "admitted k rs s = []")
  case True
  then show ?thesis
    using assms(4) interval_pos [OF assms(1)] tolerance_nonneg [OF assms(1)] by simp
next
  case False
  obtain ps now qs where split: "rs = ps @ (now, k) # qs" "level (after ps s) k now \<le> now + tolerance s"
      "length (admitted k rs s) = Suc (length (admitted k ps s))"
    using last_admission [OF assms(1) _ False] assms(2) by auto
  have "a \<le> now" "now \<le> b" "sorted (a # map fst ps)" "\<forall>r \<in> set ps. fst r \<le> now"
    using assms(2,3) split(1) by (auto simp: sorted_append)
  then have "level s k a + of_nat (length (admitted k ps s)) * interval s \<le> level (after ps s) k now"
    using assms(1) by (intro level_counts) auto
  moreover have "a \<le> level s k a"
    by (rule level_now)
  ultimately have "of_nat (length (admitted k ps s)) * interval s \<le> (b - a) + tolerance s"
    using split(2) \<open>now \<le> b\<close> by linarith
  with split(3) show ?thesis
    by (simp add: algebra_simps)
qed

text \<open>A refused caller who waits as told is admitted, unless the key was admitted meanwhile.\<close>

lemma level_kept:
  assumes "ready s" and "sorted (a # map fst rs)" and "\<forall>r \<in> set rs. fst r \<le> b" and "a \<le> b" and "admitted k rs s = []"
  shows "level (after rs s) k b = level s k b"
  using assms
proof (induction rs arbitrary: s a)
  case (Cons r rs)
  obtain now l where r: "r = (now, l)" by (cases r)
  let ?s = "fst (hit now l s)" and ?d = "snd (hit now l s)"
  have no: "\<not> (l = k \<and> rd_allowed ?d)" "admitted k rs ?s = []"
    using Cons.prems(5) r by (auto simp: Let_def split_def split: if_splits)
  have b: "now \<le> b" and sorted: "sorted (now # map fst rs)"
    using Cons.prems r by auto
  have "level (after rs ?s) k b = level ?s k b"
    using Cons.prems r b sorted no(2) by (intro Cons.IH) (auto simp: hit_ready)
  also have "\<dots> = max (level ?s k now) b"
    by (rule level_later [OF b])
  also have "level ?s k now = level s k now"
    using hit_level [OF Cons.prems(1)] no(1) by auto
  also have "max (level s k now) b = level s k b"
    by (rule level_later [OF b, symmetric])
  finally show ?case using r by simp
qed simp

lemma retry_enough:
  assumes "ready s" and "\<not> rd_allowed (snd (hit now k s))" and "now + rd_retry_after_seconds (snd (hit now k s)) \<le> later"
    and "sorted (now # map fst rs)" and "\<forall>r \<in> set rs. fst r \<le> later"
    and "admitted k rs (fst (hit now k s)) = []"
  shows "rd_allowed (snd (hit later k (after rs (fst (hit now k s)))))"
proof -
  let ?s = "fst (hit now k s)"
  have blocked: "now + tolerance s < level s k now"
    using hit_allowed [OF assms(1)] assms(2) by auto
  then have wait: "level s k now - tolerance s \<le> later"
    using assms(3) hit_retry [OF assms(1)] by auto
  then have "now \<le> later"
    using blocked by linarith
  have ready: "ready ?s"
    by (rule hit_ready [OF assms(1)])
  have "level (after rs ?s) k later = level ?s k later"
    using ready assms(4,5) \<open>now \<le> later\<close> assms(6) by (rule level_kept)
  also have "\<dots> = max (level s k now) later"
    using level_later [OF \<open>now \<le> later\<close>] hit_level [OF assms(1)] assms(2) by auto
  finally show ?thesis
    using wait tolerance_nonneg [OF assms(1)] hit_allowed [OF after_ready [OF ready]] by (auto simp: after_parameters hit_tolerance)
qed

end

section \<open>Both limiters keep the contract\<close>

definition tat_at :: "gcra \<Rightarrow> pstr \<Rightarrow> rat \<Rightarrow> rat" where
  "tat_at limiter key now = max (case map_of (gc_tat limiter) key of Some v \<Rightarrow> v | None \<Rightarrow> now) now"

definition runs :: "gcra \<Rightarrow> bool" where
  "runs limiter \<longleftrightarrow> 0 < gc_interval limiter \<and> 0 \<le> gc_tolerance limiter \<and>
     distinct (map fst (gc_tat limiter))"

lemma hit_unfold:
  "hit now k g = (if tat_at g k now \<le> now + gc_tolerance g
     then (let stored = AList.update k (tat_at g k now + gc_interval g) (gc_tat g)
           in (g\<lparr>gc_tat := if max_keys < length stored then filter (\<lambda>(k, v). now < v) stored else stored\<rparr>,
               \<lparr> rd_allowed = True, rd_retry_after_seconds = 0 \<rparr>))
     else (g, \<lparr> rd_allowed = False, rd_retry_after_seconds = tat_at g k now - gc_tolerance g - now \<rparr>))"
  by (auto simp: hit_def tat_at_def Let_def)

text \<open>Pruning drops only keys whose time has passed.\<close>

lemma map_of_filter_later:
  "distinct (map fst kvs) \<Longrightarrow>
     map_of (filter (\<lambda>(k, v). (now :: rat) < v) kvs) k = (case map_of kvs k of Some v \<Rightarrow> if now < v then Some v else None | None \<Rightarrow> None)"
  by (induction kvs) (auto simp: map_of_eq_None_iff image_iff split: option.split)

lemma pruned_level:
  assumes "distinct (map fst kvs)"
  shows "max (case map_of (filter (\<lambda>(k, v). (now :: rat) < v) kvs) k of Some v \<Rightarrow> v | None \<Rightarrow> now) now =
    max (case map_of kvs k of Some v \<Rightarrow> v | None \<Rightarrow> now) now"
  using assms by (auto simp: map_of_filter_later max_def split: option.split)

lemma distinct_pruned: "distinct (map fst kvs) \<Longrightarrow> distinct (map fst (filter P kvs))"
  by (induction kvs) auto

interpretation memory: rate_limiter hit tat_at runs gc_interval gc_tolerance
proof unfold_locales
  fix s :: gcra and k l :: pstr and now :: rat
  assume r: "runs s"
  let ?stored = "AList.update k (tat_at s k now + gc_interval s) (gc_tat s)"
  have distinct: "distinct (map fst ?stored)"
    using r by (simp add: runs_def distinct_update)
  then show "runs (fst (hit now k s))"
    using r by (simp add: hit_unfold runs_def Let_def distinct_pruned)
  show "rd_allowed (snd (hit now k s)) \<longleftrightarrow> tat_at s k now \<le> now + gc_tolerance s"
    using r by (simp add: hit_unfold runs_def Let_def)
  show "rd_retry_after_seconds (snd (hit now k s)) = max 0 (tat_at s k now - gc_tolerance s - now)"
    using r by (simp add: hit_unfold runs_def Let_def max_def)
  have stored: "map_of ?stored l = (if l = k then Some (tat_at s k now + gc_interval s) else map_of (gc_tat s) l)"
    by (simp add: update_conv')
  have "now \<le> tat_at s k now" "0 < gc_interval s"
    using r by (simp_all add: tat_at_def runs_def)
  then have level: "max (case map_of ?stored l of Some v \<Rightarrow> v | None \<Rightarrow> now) now =
      (if l = k then tat_at s k now + gc_interval s else tat_at s l now)"
    by (simp add: stored tat_at_def [of s l])
  have "tat_at (s\<lparr>gc_tat := if max_keys < length ?stored then filter (\<lambda>(k, v). now < v) ?stored else ?stored\<rparr>) l now =
      (if l = k then tat_at s k now + gc_interval s else tat_at s l now)"
    using pruned_level [OF distinct, of now l] level
    by (cases "l = k") (simp_all add: tat_at_def [of "s\<lparr>gc_tat := _\<rparr>"])
  with r show "tat_at (fst (hit now k s)) l now =
      (if l = k \<and> rd_allowed (snd (hit now k s)) then tat_at s k now + gc_interval s else tat_at s l now)"
    by (auto simp: hit_unfold runs_def Let_def)
qed (auto simp: tat_at_def runs_def hit_unfold Let_def split: option.splits)

text \<open>A Redis key outlives its theoretical arrival time.\<close>

definition redis_level :: "redis_gcra \<Rightarrow> pstr \<Rightarrow> rat \<Rightarrow> rat" where
  "redis_level limiter key now = max (case map_of (rg_store limiter) (rg_prefix limiter @ key) of Some (v, _) \<Rightarrow> v | None \<Rightarrow> now) now"

definition redis_runs :: "redis_gcra \<Rightarrow> bool" where
  "redis_runs limiter \<longleftrightarrow> 0 < rg_interval limiter \<and> 0 \<le> rg_tolerance limiter \<and>
     (\<forall>k v expires. map_of (rg_store limiter) k = Some (v, expires) \<longrightarrow> v * 1000 \<le> expires)"

lemma redis_tat:
  assumes "redis_runs r"
  shows "(let tat = (case redis_get now (rg_prefix r @ k) (rg_store r) of Some v \<Rightarrow> v | None \<Rightarrow> now)
          in if tat < now then now else tat) = redis_level r k now"
proof (cases "map_of (rg_store r) (rg_prefix r @ k)")
  case (Some p)
  obtain v e where p: "p = (v, e)" by (cases p)
  then have "v * 1000 \<le> e"
    using assms Some unfolding redis_runs_def by blast
  then show ?thesis
    using Some p by (auto simp: redis_get_def redis_level_def Let_def max_def)
qed (simp add: redis_get_def redis_level_def)

lemma redis_hit_unfold:
  assumes "redis_runs r"
  shows "redis_hit now k r = (if redis_level r k now \<le> now + rg_tolerance r
     then (r\<lparr>rg_store := AList.update (rg_prefix r @ k)
              (redis_level r k now + rg_interval r, now * 1000 + (of_int \<lceil>(redis_level r k now + rg_interval r - now) * 1000\<rceil> + 1000)) (rg_store r)\<rparr>,
           \<lparr> rd_allowed = True, rd_retry_after_seconds = 0 \<rparr>)
     else (r, \<lparr> rd_allowed = False, rd_retry_after_seconds = redis_level r k now - rg_tolerance r - now \<rparr>))"
  using assms redis_tat [OF assms, of now k]
  by (auto simp: redis_hit_def redis_script_def redis_runs_def Let_def algebra_simps)

interpretation redis: rate_limiter redis_hit redis_level redis_runs rg_interval rg_tolerance
proof unfold_locales
  fix s :: redis_gcra and k l :: pstr and now :: rat
  assume r: "redis_runs s"
  note unfold = redis_hit_unfold [OF r, of now k]
  have "(redis_level s k now + rg_interval s) * 1000 \<le> now * 1000 + (of_int \<lceil>(redis_level s k now + rg_interval s - now) * 1000\<rceil> + 1000)"
    using le_of_int_ceiling [of "(redis_level s k now + rg_interval s - now) * 1000"]
    by (simp only: left_diff_distrib distrib_right)
  then show "redis_runs (fst (redis_hit now k s))"
    using r unfold by (auto simp: redis_runs_def update_conv' split: if_splits)
  show "rd_allowed (snd (redis_hit now k s)) \<longleftrightarrow> redis_level s k now \<le> now + rg_tolerance s"
    "rd_retry_after_seconds (snd (redis_hit now k s)) = max 0 (redis_level s k now - rg_tolerance s - now)"
    using unfold by (simp_all add: max_def)
  show "redis_level (fst (redis_hit now k s)) l now =
      (if l = k \<and> rd_allowed (snd (redis_hit now k s)) then redis_level s k now + rg_interval s else redis_level s l now)"
    using unfold r by (auto simp: redis_level_def update_conv' max_def redis_runs_def)
qed (auto simp: redis_level_def redis_runs_def redis_hit_def Let_def split: option.splits prod.splits)

end
