(* ===== verification/Boundary.thy ===== *)
theory Boundary imports Rate_Limit Evolution begin

text \<open>
  The path of a request to the handlers: \<open>app/auth.py\<close> (the identity assertion and the 401),
  the middleware of \<open>app/ratelimit.py\<close> (the 429), \<open>app/consent/middleware.py\<close> (the purpose guard: 413,
  403 and its audit event) and the order in which \<open>app/main.py\<close> wraps them.

  An ASGI application is a function of the request and the server's state: the database and the state of
  the rate limiter. \<open>json.loads\<close> of the body, \<open>str.lower\<close> and PyJWT are arguments. The main theorem
  says of every request that the handlers either never see it, whatever they are, or see it with an
  authenticated actor, its whole body and no banned purpose in it.
\<close>

section \<open>Requests, responses, applications\<close>

datatype scope_type = Http | Websocket | Lifespan

text \<open>An ASGI message; a missing \<open>body\<close> is empty, a missing \<open>more_body\<close> is false.\<close>

datatype message = Http_Request "nat list option" "bool option" | Http_Disconnect

record request =
  rq_type :: scope_type
  rq_method :: pstr
  rq_path :: pstr
  rq_authorization :: "pstr option"
  rq_client :: "pstr option"
  rq_actor :: "actor option"
  rq_messages :: "message list"
  rq_monotonic :: rat
  rq_env :: request_env

record response =
  rs_status :: nat
  rs_headers :: "(string \<times> pstr) list"
  rs_body :: json

datatype outcome = Answer response | No_Answer | Raised error

record 'l server =
  sv_db :: consent_db
  sv_limiter :: 'l

type_synonym 'l asgi = "request \<Rightarrow> 'l server \<Rightarrow> 'l server \<times> outcome"

definition error_response :: "error \<Rightarrow> (string \<times> pstr) list \<Rightarrow> response" where
  "error_response e headers = (let (code, body) = error_body id e in \<lparr> rs_status = code, rs_headers = headers, rs_body = body \<rparr>)"

definition unauthenticated :: error where
  "unauthenticated = api_error 401 ''UNAUTHENTICATED'' ''a valid bearer identity assertion is required''"

section \<open>Authentication\<close>

definition max_subject_length :: nat where "max_subject_length = 255"

record 'vk authenticator =
  jb_key :: 'vk
  jb_algorithm :: pstr
  jb_issuer :: pstr
  jb_audience :: pstr
  jb_leeway :: int

definition auth_options :: "int \<Rightarrow> jwt_options" where
  "auth_options leeway = \<lparr> jo_require = map lit [''sub'', ''exp'', ''iat'', ''iss'', ''aud''],
     jo_verify_exp = True, jo_verify_nbf = True, jo_verify_iat = True, jo_leeway = leeway \<rparr>"

text \<open>\<open>str.partition(" ")\<close>, without its middle part.\<close>

definition partition_space :: "pstr \<Rightarrow> pstr \<times> pstr" where
  "partition_space s = (takeWhile (\<lambda>c. c \<noteq> 32) s, tl (dropWhile (\<lambda>c. c \<noteq> 32) s))"

text \<open>The actor the claims of a verified assertion describe.\<close>

definition actor_of_claims :: "(pstr \<Rightarrow> pstr) \<Rightarrow> (json \<Rightarrow> pstr) \<Rightarrow> claims \<Rightarrow> actor option" where
  "actor_of_claims lower repr claims =
     (let claim = (\<lambda>name. map_of claims (lit name));
          str = str_of_json repr in
      case claim ''sub'' of
        Some (JStr subject) \<Rightarrow>
          if strip_by py_isspace subject = [] \<or> max_subject_length < length subject then None
          else (let kind_claim = lower (case claim ''actor_kind'' of Some v \<Rightarrow> str v | None \<Rightarrow> lit ''human'') in
            if kind_claim \<notin> {lit ''human'', lit ''service''} then None
            else (case (case claim ''roles'' of Some v \<Rightarrow> v | None \<Rightarrow> JList []) of
                JList roles \<Rightarrow> Some \<lparr>
                  ac_user_id = subject,
                  ac_email = (case claim ''email'' of
                      Some (JStr email) \<Rightarrow> if claim ''email_verified'' = Some (JBool True) \<and> 64 \<in> set email
                        then Some (lower (strip_by py_isspace email)) else None
                    | _ \<Rightarrow> None),
                  ac_kind = (if kind_claim = lit ''service'' then SERVICE else HUMAN),
                  ac_is_admin = list_ex (\<lambda>r. lower (str r) = lit ''admin'') roles \<rparr>
              | _ \<Rightarrow> None))
      | _ \<Rightarrow> None)"

definition authenticate ::
    "(pstr \<Rightarrow> pstr) \<Rightarrow> ('sk, 'vk) pyjwt \<Rightarrow> 'vk authenticator \<Rightarrow> pstr option \<Rightarrow> actor option" where
  "authenticate lower J A header = (case header of
     None \<Rightarrow> None
   | Some header \<Rightarrow>
       if header = [] then None
       else (let (scheme, token) = partition_space header; token = strip_by py_isspace token in
         if lower scheme \<noteq> lit ''bearer'' \<or> token = [] then None
         else (case jwt_decode J token (jb_key A) [jb_algorithm A] (jb_audience A) (jb_issuer A) (auth_options (jb_leeway A)) of
             Inl _ \<Rightarrow> None
           | Inr claims \<Rightarrow> actor_of_claims lower (jwt_container_repr J) claims)))"

definition auth_middleware :: "(pstr option \<Rightarrow> actor option) \<Rightarrow> pstr list \<Rightarrow> 'l asgi \<Rightarrow> 'l asgi" where
  "auth_middleware auth exempt_prefixes app r s =
     (if rq_type r \<noteq> Http \<or> list_ex (\<lambda>p. starts_with p (rq_path r)) exempt_prefixes then app r s
      else (case auth (rq_authorization r) of
          None \<Rightarrow> (s, Answer (error_response unauthenticated [(''WWW-Authenticate'', lit ''Bearer'')]))
        | Some actor \<Rightarrow> app (r\<lparr>rq_actor := Some actor\<rparr>) s))"

definition current_actor :: "request \<Rightarrow> error + actor" where
  "current_actor r = (case rq_actor r of Some actor \<Rightarrow> Inr actor | None \<Rightarrow> Inl unauthenticated)"

section \<open>The rate limit\<close>

definition limit_key :: "request \<Rightarrow> pstr" where
  "limit_key r = rq_path r @ lit '':'' @ (case rq_actor r of
     Some actor \<Rightarrow> lit ''actor:'' @ ac_user_id actor
   | None \<Rightarrow> lit ''ip:'' @ (case rq_client r of Some host \<Rightarrow> host | None \<Rightarrow> lit ''unknown''))"

definition too_many :: "rat \<Rightarrow> response" where
  "too_many retry_after_seconds =
     (let retry = max 1 \<lceil>retry_after_seconds\<rceil> in
      error_response (ApiError 429 (lit ''RATE_LIMITED'') (lit ''too many authorization requests'')
        [(lit ''retry_after_seconds'', JInt retry)]) [(''Retry-After'', int_str retry)])"

definition rate_limit_middleware ::
    "(rat \<Rightarrow> pstr \<Rightarrow> 'l \<Rightarrow> 'l \<times> rate_decision) \<Rightarrow> pstr list \<Rightarrow> 'l asgi \<Rightarrow> 'l asgi" where
  "rate_limit_middleware limiter_hit paths app r s =
     (if rq_type r \<noteq> Http \<or> rq_method r \<noteq> lit ''POST'' \<or> rq_path r \<notin> set paths then app r s
      else (let (limiter, decision) = limiter_hit (rq_monotonic r) (limit_key r) (sv_limiter s);
                s = s\<lparr>sv_limiter := limiter\<rparr>
            in if \<not> rd_allowed decision then (s, Answer (too_many (rd_retry_after_seconds decision))) else app r s))"

section \<open>The purpose guard\<close>

definition max_guarded_body_bytes :: nat where "max_guarded_body_bytes = 64 * 1024"

type_synonym extractor = "(pstr \<times> json) list \<Rightarrow> pstr list \<times> uuid option"

definition strings_of :: "json list \<Rightarrow> pstr list" where
  "strings_of vs = concat (map (\<lambda>v. case v of JStr s \<Rightarrow> [s] | _ \<Rightarrow> []) vs)"

text \<open>\<open>_uuid(body.get(name))\<close>.\<close>

definition uuid_field :: "(pstr \<times> json) list \<Rightarrow> string \<Rightarrow> uuid option" where
  "uuid_field body name = (case map_of body (lit name) of Some v \<Rightarrow> uuid_of_json v | None \<Rightarrow> None)"

definition authorize_fields :: extractor where
  "authorize_fields body =
     (case map_of body (lit ''purpose_code'') of Some (JStr code) \<Rightarrow> [code] | _ \<Rightarrow> [], uuid_field body ''profile_id'')"

definition grant_fields :: extractor where
  "grant_fields body =
     (case map_of body (lit ''purpose_scope'') of Some (JList vs) \<Rightarrow> strings_of vs | _ \<Rightarrow> [], uuid_field body ''deceased_profile_id'')"

definition guarded_routes :: "(pstr \<times> extractor) list" where
  "guarded_routes = [(lit ''/consent/authorize'', authorize_fields), (lit ''/consent/grants'', grant_fields)]"

text \<open>The loop that reads the body. A stream that ends delivers a disconnect.\<close>

datatype body_read = Body "nat list" | Too_Large | Disconnected

fun read_body :: "nat list \<Rightarrow> message list \<Rightarrow> body_read \<times> message list" where
  "read_body sofar [] = (Disconnected, [])"
| "read_body sofar (Http_Disconnect # rest) = (Disconnected, rest)"
| "read_body sofar (Http_Request body more_body # rest) =
     (let sofar = sofar @ (case body of Some b \<Rightarrow> b | None \<Rightarrow> []) in
      if max_guarded_body_bytes < length sofar then (Too_Large, rest)
      else if more_body = Some True then read_body sofar rest else (Body sofar, rest))"

definition body_fields :: "(nat list \<Rightarrow> json option) \<Rightarrow> extractor \<Rightarrow> nat list \<Rightarrow> pstr list \<times> uuid option" where
  "body_fields loads extractor body =
     (case (if body = [] then None else loads body) of Some (JObj document) \<Rightarrow> extractor document | _ \<Rightarrow> ([], None))"

definition prohibited :: "nat \<Rightarrow> error" where
  "prohibited event_id = ApiError 403 (lit ''PURPOSE_VIOLATION'')
     (lit ''financial, property, legal-representation and commercial purposes are prohibited'')
     [(lit ''audit_event_id'', JInt (int event_id))]"

definition purpose_guard ::
    "ucd \<Rightarrow> (pstr \<Rightarrow> pstr) \<Rightarrow> (nat list \<Rightarrow> json option) \<Rightarrow> (pstr \<times> extractor) list \<Rightarrow> 'l asgi \<Rightarrow> 'l asgi" where
  "purpose_guard U sha loads routes app r s =
     (case (if rq_type r = Http \<and> rq_method r = lit ''POST'' then map_of routes (rq_path r) else None) of
        None \<Rightarrow> app r s
      | Some extractor \<Rightarrow>
          (case read_body [] (rq_messages r) of
             (Disconnected, _) \<Rightarrow> (s, No_Answer)
           | (Too_Large, _) \<Rightarrow> (s, Answer (error_response (api_error 413 ''PAYLOAD_TOO_LARGE'' ''request body too large'') []))
           | (Body body, rest) \<Rightarrow>
               (let (codes, profile_id) = body_fields loads extractor body;
                    banned = filter (is_banned_purpose U) codes;
                    replayed = r\<lparr>rq_messages := Http_Request (Some body) (Some False) # rest\<rparr>
                in if banned = [] then app replayed s
                   else (case rq_actor r of
                       None \<Rightarrow> app replayed s
                     | Some actor \<Rightarrow>
                         (case transact (sv_db s) (record_purpose_violation U sha (clock_at (rq_env r) 0) actor banned profile_id
                                 ''middleware'' (rq_path r) (sv_db s)) of
                            (db, Inr event_id) \<Rightarrow> (s\<lparr>sv_db := db\<rparr>, Answer (error_response (prohibited event_id) []))
                          | (db, Inl e) \<Rightarrow> (s\<lparr>sv_db := db\<rparr>, Raised e))))))"

section \<open>The application\<close>

definition unauthenticated_prefixes :: "pstr list" where
  "unauthenticated_prefixes = map lit [''/healthz'', ''/export/download'', ''/.well-known/'']"

definition development_doc_prefixes :: "pstr list" where
  "development_doc_prefixes = map lit [''/docs'', ''/openapi.json'']"

definition rate_limited_paths :: "pstr list" where
  "rate_limited_paths = [lit ''/consent/authorize'']"

definition exempt :: "bool \<Rightarrow> pstr list" where
  "exempt production = unauthenticated_prefixes @ (if production then [] else development_doc_prefixes)"

definition create_app ::
    "bool \<Rightarrow> (pstr option \<Rightarrow> actor option) \<Rightarrow> (rat \<Rightarrow> pstr \<Rightarrow> 'l \<Rightarrow> 'l \<times> rate_decision) \<Rightarrow> ucd \<Rightarrow> (pstr \<Rightarrow> pstr)
       \<Rightarrow> (nat list \<Rightarrow> json option) \<Rightarrow> 'l asgi \<Rightarrow> 'l asgi" where
  "create_app production auth limiter_hit U sha loads routers =
     auth_middleware auth (exempt production)
       (rate_limit_middleware limiter_hit rate_limited_paths
         (purpose_guard U sha loads guarded_routes routers))"


section \<open>What reaches the handlers\<close>

text \<open>A request as the handlers may see it, given the request \<open>r\<close> that came in.\<close>

definition vetted :: "bool \<Rightarrow> (pstr option \<Rightarrow> actor option) \<Rightarrow> ucd \<Rightarrow> (nat list \<Rightarrow> json option) \<Rightarrow> request \<Rightarrow> request \<Rightarrow> bool" where
  "vetted production auth U loads r r' \<longleftrightarrow>
     (rq_type r = Http \<and> \<not> list_ex (\<lambda>p. starts_with p (rq_path r)) (exempt production) \<longrightarrow>
        (\<exists>actor. auth (rq_authorization r) = Some actor \<and> current_actor r' = Inr actor) \<and>
        (case (if rq_method r = lit ''POST'' then map_of guarded_routes (rq_path r) else None) of
           None \<Rightarrow> rq_messages r' = rq_messages r
         | Some extractor \<Rightarrow> (\<exists>body rest. fst (read_body [] (rq_messages r)) = Body body \<and>
             rq_messages r' = Http_Request (Some body) (Some False) # rest \<and>
             (\<forall>code \<in> set (fst (body_fields loads extractor body)). \<not> is_banned_purpose U code))))"

lemma guard_cases:
  obtains (passed) r' where "\<And>app. purpose_guard U sha loads routes app r s = app r' s" and "rq_actor r' = rq_actor r"
      and "rq_actor r \<noteq> None \<Longrightarrow> case (if rq_type r = Http \<and> rq_method r = lit ''POST'' then map_of routes (rq_path r) else None) of
           None \<Rightarrow> rq_messages r' = rq_messages r
         | Some extractor \<Rightarrow> (\<exists>body rest. fst (read_body [] (rq_messages r)) = Body body \<and>
             rq_messages r' = Http_Request (Some body) (Some False) # rest \<and>
             (\<forall>code \<in> set (fst (body_fields loads extractor body)). \<not> is_banned_purpose U code))"
  | (stopped) s' answer where "\<And>app. purpose_guard U sha loads routes app r s = (s', answer)" and "evolves sha (sv_db s) (sv_db s')"
      and "sv_limiter s' = sv_limiter s"
proof (cases "if rq_type r = Http \<and> rq_method r = lit ''POST'' then map_of routes (rq_path r) else None")
  case None
  then show thesis
    by (intro passed [of r]) (simp_all add: purpose_guard_def)
next
  case route: (Some extractor)
  obtain outcome rest where read: "read_body [] (rq_messages r) = (outcome, rest)"
    by fastforce
  show thesis
  proof (cases outcome)
    case (Body body)
    obtain codes pid where fields: "body_fields loads extractor body = (codes, pid)"
      by fastforce
    let ?banned = "filter (is_banned_purpose U) codes"
    let ?replayed = "r\<lparr>rq_messages := Http_Request (Some body) (Some False) # rest\<rparr>"
    show thesis
    proof (cases "?banned = [] \<or> rq_actor r = None")
      case True
      then have "purpose_guard U sha loads routes app r s = app ?replayed s" for app
        using route read Body fields by (cases "rq_actor r") (auto simp: purpose_guard_def Let_def)
      then show thesis
        by (rule passed) (use route read Body fields True in \<open>auto simp: filter_empty_conv\<close>)
    next
      case False
      then obtain actor where actor: "rq_actor r = Some actor" and banned: "?banned \<noteq> []"
        by auto
      let ?tx = "record_purpose_violation U sha (clock_at (rq_env r) 0) actor ?banned pid ''middleware'' (rq_path r) (sv_db s)"
      show thesis
      proof (cases ?tx)
        case (Inl e)
        then have "purpose_guard U sha loads routes app r s = (s, Raised e)" for app
          using route read Body fields actor banned by (simp add: purpose_guard_def Let_def)
        then show thesis by (rule stopped) simp_all
      next
        case (Inr p)
        obtain db n where p: "p = (db, n)" by (cases p)
        have "purpose_guard U sha loads routes app r s = (s\<lparr>sv_db := db\<rparr>, Answer (error_response (prohibited n) []))" for app
          using route read Body fields actor banned Inr p by (simp add: purpose_guard_def Let_def)
        then show thesis
          by (rule stopped) (use Inr p record_purpose_violation_evolves in auto)
      qed
    qed
  next
    case Too_Large
    then show thesis
      using route read by (intro stopped [of s]) (simp_all add: purpose_guard_def)
  next
    case Disconnected
    then show thesis
      using route read by (intro stopped [of s]) (simp_all add: purpose_guard_def)
  qed
qed

lemma auth_cases:
  obtains (known) r' where "\<And>app. auth_middleware auth exempted app r s = app r' s"
      and "r' = r \<or> (\<exists>actor. r' = r\<lparr>rq_actor := Some actor\<rparr>)"
      and "rq_type r = Http \<Longrightarrow> \<not> list_ex (\<lambda>p. starts_with p (rq_path r)) exempted \<Longrightarrow>
        \<exists>actor. auth (rq_authorization r) = Some actor \<and> rq_actor r' = Some actor"
  | (refused) answer where "\<And>app. auth_middleware auth exempted app r s = (s, answer)"
proof (cases "rq_type r \<noteq> Http \<or> list_ex (\<lambda>p. starts_with p (rq_path r)) exempted")
  case True
  then show thesis
    by (intro known [of r]) (auto simp: auth_middleware_def)
next
  case False
  show thesis
  proof (cases "auth (rq_authorization r)")
    case None
    then show thesis
      using False by (intro refused) (simp add: auth_middleware_def)
  next
    case (Some actor)
    then show thesis
      using False by (intro known [of "r\<lparr>rq_actor := Some actor\<rparr>"]) (auto simp: auth_middleware_def)
  qed
qed

lemma limit_cases:
  obtains (within) s' where "\<And>app. rate_limit_middleware limiter_hit paths app r s = app r s'" and "sv_db s' = sv_db s"
  | (over) s' answer where "\<And>app. rate_limit_middleware limiter_hit paths app r s = (s', answer)" and "sv_db s' = sv_db s"
proof (cases "rq_type r \<noteq> Http \<or> rq_method r \<noteq> lit ''POST'' \<or> rq_path r \<notin> set paths")
  case True
  then show thesis
    by (intro within [of s]) (auto simp: rate_limit_middleware_def)
next
  case limited: False
  obtain l d where h: "limiter_hit (rq_monotonic r) (limit_key r) (sv_limiter s) = (l, d)"
    by fastforce
  show thesis
  proof (cases "rd_allowed d")
    case True
    then show thesis
      using limited h by (intro within [of "s\<lparr>sv_limiter := l\<rparr>"]) (simp_all add: rate_limit_middleware_def Let_def)
  next
    case False
    then show thesis
      using limited h by (intro over [of "s\<lparr>sv_limiter := l\<rparr>"]) (simp_all add: rate_limit_middleware_def Let_def)
  qed
qed

text \<open>Every request is either handed to the handlers, vetted and with the database as it was, or answered
  without them; then the ledger has at most grown.\<close>

lemma create_app_vets:
  "(\<exists>r' s'. (\<forall>app. create_app production auth limiter_hit U sha loads app r s = app r' s') \<and>
      vetted production auth U loads r r' \<and> sv_db s' = sv_db s) \<or>
   (\<exists>s' answer. (\<forall>app. create_app production auth limiter_hit U sha loads app r s = (s', answer)) \<and>
      evolves sha (sv_db s) (sv_db s'))"
proof (cases rule: auth_cases [of auth "exempt production" r s])
  case (refused answer)
  then have "create_app production auth limiter_hit U sha loads app r s = (s, answer)" for app
    by (simp add: create_app_def)
  then show ?thesis by auto
next
  case (known r1)
  have same: "rq_type r1 = rq_type r" "rq_method r1 = rq_method r" "rq_path r1 = rq_path r" "rq_messages r1 = rq_messages r"
    using known(2) by auto
  show ?thesis
  proof (cases rule: limit_cases [of limiter_hit rate_limited_paths r1 s])
    case (over s1 answer)
    then have "create_app production auth limiter_hit U sha loads app r s = (s1, answer)" for app
      using known(1) by (simp add: create_app_def)
    then show ?thesis
      using over(2) by (auto intro!: exI [of _ s1])
  next
    case (within s1)
    have reach: "create_app production auth limiter_hit U sha loads app r s = purpose_guard U sha loads guarded_routes app r1 s1" for app
      using known(1) within(1) by (simp add: create_app_def)
    show ?thesis
    proof (cases rule: guard_cases [of U sha loads guarded_routes r1 s1])
      case (passed r2)
      have "vetted production auth U loads r r2"
        unfolding vetted_def
      proof (intro impI, elim conjE)
        assume http: "rq_type r = Http" and path: "\<not> list_ex (\<lambda>p. starts_with p (rq_path r)) (exempt production)"
        obtain actor where a: "auth (rq_authorization r) = Some actor" "rq_actor r1 = Some actor"
          using known(3) [OF http path] by blast
        then have "rq_actor r1 \<noteq> None" by simp
        from passed(3) [OF this] a passed(2) http
        show "(\<exists>actor. auth (rq_authorization r) = Some actor \<and> current_actor r2 = Inr actor) \<and>
          (case (if rq_method r = lit ''POST'' then map_of guarded_routes (rq_path r) else None) of
             None \<Rightarrow> rq_messages r2 = rq_messages r
           | Some extractor \<Rightarrow> (\<exists>body rest. fst (read_body [] (rq_messages r)) = Body body \<and>
               rq_messages r2 = Http_Request (Some body) (Some False) # rest \<and>
               (\<forall>code \<in> set (fst (body_fields loads extractor body)). \<not> is_banned_purpose U code)))"
          by (cases "rq_method r = lit ''POST''"; cases "map_of guarded_routes (rq_path r)") (simp_all add: current_actor_def same)
      qed
      moreover have "create_app production auth limiter_hit U sha loads app r s = app r2 s1" for app
        using reach passed(1) by simp
      ultimately show ?thesis
        using within(2) by blast
    next
      case (stopped s2 answer)
      then show ?thesis
        using reach within(2) by (intro disjI2 exI [of _ s2] exI [of _ answer]) simp
    qed
  qed
qed

text \<open>A banned purpose in a guarded body is refused and recorded, whatever the handlers are.\<close>

definition banned_in :: "ucd \<Rightarrow> (nat list \<Rightarrow> json option) \<Rightarrow> request \<Rightarrow> bool" where
  "banned_in U loads r \<longleftrightarrow> rq_type r = Http \<and> rq_method r = lit ''POST'' \<and>
     (case (map_of guarded_routes (rq_path r), fst (read_body [] (rq_messages r))) of
        (Some extractor, Body body) \<Rightarrow> list_ex (is_banned_purpose U) (fst (body_fields loads extractor body))
      | _ \<Rightarrow> False)"

lemma guard_refuses:
  assumes "banned_in U loads r" and "rq_actor r = Some actor"
  shows "\<exists>codes profile_id. codes \<noteq> [] \<and> (\<forall>code \<in> set codes. is_banned_purpose U code) \<and>
    purpose_guard U sha loads guarded_routes app r s =
      (case transact (sv_db s) (record_purpose_violation U sha (clock_at (rq_env r) 0) actor codes profile_id
               ''middleware'' (rq_path r) (sv_db s)) of
         (db, Inr event_id) \<Rightarrow> (s\<lparr>sv_db := db\<rparr>, Answer (error_response (prohibited event_id) []))
       | (db, Inl e) \<Rightarrow> (s\<lparr>sv_db := db\<rparr>, Raised e))"
proof -
  obtain extractor body rest where e: "map_of guarded_routes (rq_path r) = Some extractor" "read_body [] (rq_messages r) = (Body body, rest)"
    and ex: "list_ex (is_banned_purpose U) (fst (body_fields loads extractor body))" and r: "rq_type r = Http" "rq_method r = lit ''POST''"
    using assms(1) by (auto simp: banned_in_def split: option.splits body_read.splits) (metis prod.collapse)
  obtain codes pid where f: "body_fields loads extractor body = (codes, pid)"
    by fastforce
  then have "filter (is_banned_purpose U) codes \<noteq> []"
    using ex by (auto simp: filter_empty_conv list_ex_iff)
  with e r f assms(2) show ?thesis
    by (intro exI [of _ "filter (is_banned_purpose U) codes"] exI [of _ pid]) (simp add: purpose_guard_def Let_def)
qed

lemma guarded_not_exempt:
  assumes "map_of guarded_routes (rq_path r) \<noteq> None"
  shows "\<not> list_ex (\<lambda>p. starts_with p (rq_path r)) (exempt production)"
  using assms
  by (auto simp: guarded_routes_def exempt_def unauthenticated_prefixes_def development_doc_prefixes_def starts_with_def lit_def
      split: if_splits)

text \<open>The route \<open>/consent/grants\<close> is guarded but not rate limited: a flood of banned scopes is recorded in
  full.\<close>

lemma grants_unlimited:
  assumes "banned_in U loads r" and "rq_path r = lit ''/consent/grants''" and "auth (rq_authorization r) = Some actor"
  shows "\<exists>codes profile_id. codes \<noteq> [] \<and>
    create_app production auth limiter_hit U sha loads app r s =
      (case transact (sv_db s) (record_purpose_violation U sha (clock_at (rq_env r) 0) actor codes profile_id
               ''middleware'' (rq_path r) (sv_db s)) of
         (db, Inr event_id) \<Rightarrow> (s\<lparr>sv_db := db\<rparr>, Answer (error_response (prohibited event_id) []))
       | (db, Inl e) \<Rightarrow> (s\<lparr>sv_db := db\<rparr>, Raised e))"
proof -
  let ?r = "r\<lparr>rq_actor := Some actor\<rparr>"
  have http: "rq_type r = Http" and path: "map_of guarded_routes (rq_path r) \<noteq> None"
    using assms(1) by (auto simp: banned_in_def split: option.splits)
  have "create_app production auth limiter_hit U sha loads app r s = purpose_guard U sha loads guarded_routes app ?r s"
    using guarded_not_exempt [OF path] assms(2,3) http
    by (simp add: create_app_def auth_middleware_def rate_limit_middleware_def rate_limited_paths_def)
  moreover have "banned_in U loads ?r"
    using assms(1) by (simp add: banned_in_def)
  ultimately show ?thesis
    using guard_refuses [of U loads ?r actor sha app s] by auto
qed

text \<open>Past its budget a caller of \<open>/consent/authorize\<close> is answered before anything is recorded.\<close>

lemma over_budget:
  assumes "rq_type r = Http" and "rq_method r = lit ''POST''" and "rq_path r = lit ''/consent/authorize''"
    and "auth (rq_authorization r) = Some actor"
    and "limiter_hit (rq_monotonic r) (lit ''/consent/authorize:actor:'' @ ac_user_id actor) (sv_limiter s) = (l, d)" and "\<not> rd_allowed d"
  shows "create_app production auth limiter_hit U sha loads app r s =
    (s\<lparr>sv_limiter := l\<rparr>, Answer (too_many (rd_retry_after_seconds d)))"
proof -
  have path: "map_of guarded_routes (rq_path r) \<noteq> None"
    using assms(3) by (simp add: guarded_routes_def)
  have "limit_key (r\<lparr>rq_actor := Some actor\<rparr>) = lit ''/consent/authorize:actor:'' @ ac_user_id actor"
    using assms(3) by (simp add: limit_key_def lit_def)
  then show ?thesis
    using guarded_not_exempt [OF path, of production] assms
    by (simp add: create_app_def auth_middleware_def rate_limit_middleware_def rate_limited_paths_def Let_def)
qed

end
