(* ===== verification/Config.thy ===== *)
theory Config imports Boundary Storage begin

text \<open>
  \<open>app/config.py\<close>, the settings and what production insists on, and \<open>app/services.py\<close>, the wiring of the
  services from them. The main lemmas: production settings leave no development fallback standing, and a
  token of the issuer a deployment builds is accepted by the validator the same deployment builds.

  Loading PEM keys, generating them and deriving a public key belong to the cryptography package and are
  arguments (\<open>key_lib\<close>); \<open>json.loads\<close> of a string is an argument as well.
\<close>

section \<open>Settings\<close>

datatype environment = Development | Test | Production

primrec environment_value :: "environment \<Rightarrow> pstr" where
  "environment_value Development = lit ''development''"
| "environment_value Test = lit ''test''"
| "environment_value Production = lit ''production''"

datatype rate_backend = Memory_Backend | Redis_Backend
datatype storage_backend = Local_Backend | S3_Backend
datatype dispatch_mode = Celery_Dispatch | Inline_Dispatch

record settings =
  st_env :: environment
  st_database_url :: pstr
  st_token_signing_key_pem :: "pstr option"
  st_token_key_id :: pstr
  st_token_verification_keys_json :: pstr
  st_token_issuer :: pstr
  st_token_audience :: pstr
  st_token_ttl_seconds :: int
  st_auth_jwt_algorithm :: pstr
  st_auth_jwt_key :: "pstr option"
  st_auth_jwt_issuer :: pstr
  st_auth_jwt_audience :: pstr
  st_authorize_rate_per_minute :: int
  st_authorize_burst :: int
  st_rate_limit_backend :: rate_backend
  st_storage_backend :: storage_backend
  st_storage_local_root :: pstr
  st_s3_bucket :: "pstr option"
  st_public_base_url :: pstr
  st_url_signing_secret :: "pstr option"
  st_export_url_ttl_seconds :: int
  st_cascade_dispatch :: dispatch_mode
  st_cascade_stale_after_seconds :: int

definition jwt_algorithms :: "pstr list" where
  "jwt_algorithms = map lit [''HS256'', ''HS384'', ''HS512'', ''RS256'', ''ES256'', ''EdDSA'']"

text \<open>The field constraints pydantic enforces.\<close>

definition settings_fields_ok :: "settings \<Rightarrow> bool" where
  "settings_fields_ok S \<longleftrightarrow> 1 \<le> st_token_ttl_seconds S \<and> st_token_ttl_seconds S \<le> max_token_ttl_seconds \<and>
     st_auth_jwt_algorithm S \<in> set jwt_algorithms \<and>
     1 \<le> st_authorize_rate_per_minute S \<and> 1 \<le> st_authorize_burst S \<and>
     60 \<le> st_export_url_ttl_seconds S \<and> st_export_url_ttl_seconds S \<le> 86400 \<and> 30 \<le> st_cascade_stale_after_seconds S"

definition verification_keys :: "(pstr \<Rightarrow> json option) \<Rightarrow> settings \<Rightarrow> error + (pstr \<times> pstr) list" where
  "verification_keys loads S =
     (let raw = st_token_verification_keys_json S in
      case loads (if raw = [] then lit ''{}'' else raw) of
        None \<Rightarrow> Inl (ValueError (lit ''not JSON''))
      | Some (JObj kvs) \<Rightarrow>
          if list_all (\<lambda>(k, v). case v of JStr _ \<Rightarrow> True | _ \<Rightarrow> False) kvs
          then Inr (map (\<lambda>(k, v). (k, case v of JStr pem \<Rightarrow> pem | _ \<Rightarrow> [])) kvs)
          else Inl (ValueError (lit ''REMEMBRANCE_TOKEN_VERIFICATION_KEYS_JSON must be an object of {kid: public PEM}''))
      | Some _ \<Rightarrow> Inl (ValueError (lit ''REMEMBRANCE_TOKEN_VERIFICATION_KEYS_JSON must be an object of {kid: public PEM}'')))"

definition min_secret_bytes :: nat where "min_secret_bytes = 32"

definition production_problems :: "settings \<Rightarrow> pstr list" where
  "production_problems S =
     (if st_token_signing_key_pem S = None then [lit ''TOKEN_SIGNING_KEY_PEM is required''] else []) @
     (case st_auth_jwt_key S of
        None \<Rightarrow> [lit ''AUTH_JWT_KEY is required'']
      | Some key \<Rightarrow> if starts_with (lit ''HS'') (st_auth_jwt_algorithm S) \<and> length key < min_secret_bytes
          then [lit ''AUTH_JWT_KEY must be at least 32 bytes for HMAC''] else []) @
     (if st_storage_backend S = Local_Backend \<and>
         (case st_url_signing_secret S of None \<Rightarrow> True | Some secret \<Rightarrow> length secret < min_secret_bytes)
      then [lit ''URL_SIGNING_SECRET of at least 32 bytes is required for local storage''] else []) @
     (if st_storage_backend S = S3_Backend \<and> (case st_s3_bucket S of None \<Rightarrow> True | Some bucket \<Rightarrow> bucket = [])
      then [lit ''S3_BUCKET is required for s3 storage''] else []) @
     (if starts_with (lit ''sqlite'') (st_database_url S)
      then [lit ''DATABASE_URL must be PostgreSQL in production (append-only guarantees need role grants)''] else []) @
     (if st_cascade_dispatch S = Inline_Dispatch then [lit ''CASCADE_DISPATCH=inline is for development only''] else [])"

fun join :: "pstr \<Rightarrow> pstr list \<Rightarrow> pstr" where
  "join sep [] = []"
| "join sep [x] = x"
| "join sep (x # y # xs) = x @ sep @ join sep (y # xs)"

definition check_settings :: "(pstr \<Rightarrow> json option) \<Rightarrow> settings \<Rightarrow> error + settings" where
  "check_settings loads S =
     (if \<not> settings_fields_ok S then Inl (ValueError (lit ''validation error''))
      else bindE (verification_keys loads S) (\<lambda>_.
        if st_env S \<noteq> Production then Inr S
        else if production_problems S \<noteq> []
        then Inl (ValueError (lit ''production configuration invalid: '' @ join (lit ''; '') (production_problems S)))
        else Inr S))"

lemma check_settings_production:
  assumes "check_settings loads S = Inr S'" and "st_env S = Production"
  shows "S' = S \<and> settings_fields_ok S \<and> st_token_signing_key_pem S \<noteq> None \<and>
    (\<exists>key. st_auth_jwt_key S = Some key \<and> (starts_with (lit ''HS'') (st_auth_jwt_algorithm S) \<longrightarrow> min_secret_bytes \<le> length key)) \<and>
    (st_storage_backend S = Local_Backend \<longrightarrow> (\<exists>secret. st_url_signing_secret S = Some secret \<and> min_secret_bytes \<le> length secret)) \<and>
    \<not> starts_with (lit ''sqlite'') (st_database_url S) \<and> st_cascade_dispatch S = Celery_Dispatch"
proof -
  have "production_problems S = []" and "settings_fields_ok S" and "S' = S"
    using assms by (auto simp: check_settings_def bindE_eq_Inr split: if_splits)
  then show ?thesis
    by (cases "st_cascade_dispatch S") (auto simp: production_problems_def split: option.splits if_splits)
qed

section \<open>Key rings\<close>

record ('sk, 'vk) key_lib =
  kl_load_private :: "pstr \<Rightarrow> 'sk option"
  kl_load_public :: "pstr \<Rightarrow> 'vk option"
  kl_public_key :: "'sk \<Rightarrow> 'vk"
  kl_generate :: 'sk

fun load_all :: "(pstr \<Rightarrow> 'vk option) \<Rightarrow> (pstr \<times> pstr) list \<Rightarrow> (pstr \<times> 'vk) list option" where
  "load_all load [] = Some []"
| "load_all load ((kid, pem) # rest) =
     (case load pem of None \<Rightarrow> None | Some key \<Rightarrow> map_option ((#) (kid, key)) (load_all load rest))"

definition keyring_from_settings ::
    "(pstr \<Rightarrow> json option) \<Rightarrow> ('sk, 'vk) key_lib \<Rightarrow> settings \<Rightarrow> error + ('sk, 'vk) key_ring" where
  "keyring_from_settings loads L S =
     bindE (verification_keys loads S) (\<lambda>pems.
       case load_all (kl_load_public L) pems of
         None \<Rightarrow> Inl (ValueError (lit ''not an Ed25519 public key''))
       | Some extra \<Rightarrow>
         (case st_token_signing_key_pem S of
            None \<Rightarrow>
              if st_env S = Production then Inl (ValueError (lit ''production requires REMEMBRANCE_TOKEN_SIGNING_KEY_PEM''))
              else Inr \<lparr> kr_signing_key = kl_generate L, kr_signing_kid = st_token_key_id S,
                kr_verification_keys = AList.update (st_token_key_id S) (kl_public_key L (kl_generate L)) extra \<rparr>
          | Some pem \<Rightarrow> (case kl_load_private L pem of
                None \<Rightarrow> Inl (ValueError (lit ''not an Ed25519 private key''))
              | Some key \<Rightarrow> Inr \<lparr> kr_signing_key = key, kr_signing_kid = st_token_key_id S,
                  kr_verification_keys = AList.update (st_token_key_id S) (kl_public_key L key) extra \<rparr>)))"

section \<open>The composition root\<close>

datatype limiter_choice = In_Memory gcra | In_Redis rat rat
datatype storage_choice = S3 pstr | Local_Files pstr pstr pstr

record ('sk, 'vk) services =
  sv_settings :: settings
  sv_keyring :: "('sk, 'vk) key_ring"
  sv_issuer :: "('sk, 'vk) token_issuer"
  sv_validator :: "'vk token_validator"
  sv_storage :: storage_choice
  sv_dispatcher :: dispatch_mode
  sv_rate_limiter :: limiter_choice
  sv_authenticator :: "pstr authenticator"

definition build_services ::
    "(pstr \<Rightarrow> json option) \<Rightarrow> ('sk, 'vk) key_lib \<Rightarrow> pstr \<Rightarrow> settings \<Rightarrow> error + ('sk, 'vk) services" where
  "build_services loads L random_secret S =
     bindE (keyring_from_settings loads L S) (\<lambda>keyring.
     bindE (make_issuer keyring (st_token_issuer S) (st_token_audience S) (st_token_ttl_seconds S)) (\<lambda>issuer.
     case (parameters (st_authorize_rate_per_minute S) (st_authorize_burst S), st_auth_jwt_key S) of
       (None, _) \<Rightarrow> Inl (ValueError (lit ''rate and burst must be positive''))
     | (_, None) \<Rightarrow> Inl (ValueError (lit ''REMEMBRANCE_AUTH_JWT_KEY is required to authenticate callers''))
     | (Some (interval, tolerance), Some key) \<Rightarrow> Inr \<lparr>
         sv_settings = S, sv_keyring = keyring, sv_issuer = issuer,
         sv_validator = \<lparr> tv_keys = kr_verification_keys keyring, tv_issuer = st_token_issuer S,
           tv_audience = st_token_audience S, tv_leeway = clock_skew_seconds \<rparr>,
         sv_storage = (if st_storage_backend S = S3_Backend
           then S3 (case st_s3_bucket S of Some bucket \<Rightarrow> bucket | None \<Rightarrow> [])
           else Local_Files (st_storage_local_root S)
             (case st_url_signing_secret S of Some secret \<Rightarrow> secret | None \<Rightarrow> random_secret) (st_public_base_url S)),
         sv_dispatcher = st_cascade_dispatch S,
         sv_rate_limiter = (if st_rate_limit_backend S = Redis_Backend then In_Redis interval tolerance
           else In_Memory \<lparr> gc_interval = interval, gc_tolerance = tolerance, gc_tat = [] \<rparr>),
         sv_authenticator = \<lparr> jb_key = key, jb_algorithm = st_auth_jwt_algorithm S, jb_issuer = st_auth_jwt_issuer S,
           jb_audience = st_auth_jwt_audience S, jb_leeway = 10 \<rparr> \<rparr>))"

text \<open>The parts fit together: what the issuer signs, the validator can verify.\<close>

lemma keyring_matches:
  assumes "keyring_from_settings loads L S = Inr keyring"
  shows "map_of (kr_verification_keys keyring) (kr_signing_kid keyring) = Some (kl_public_key L (kr_signing_key keyring))"
  using assms unfolding keyring_from_settings_def
  by (elim bindE_InrE) (auto simp: update_conv' split: option.split_asm if_split_asm)

lemma build_services_fits:
  assumes "build_services loads L random_secret S = Inr V"
  shows "map_of (tv_keys (sv_validator V)) (kr_signing_kid (ti_keyring (sv_issuer V))) =
      Some (kl_public_key L (kr_signing_key (ti_keyring (sv_issuer V))))"
    and "tv_issuer (sv_validator V) = ti_issuer (sv_issuer V)" and "tv_audience (sv_validator V) = ti_audience (sv_issuer V)"
    and "tv_leeway (sv_validator V) = clock_skew_seconds"
    and "1 \<le> ti_ttl (sv_issuer V)" and "ti_ttl (sv_issuer V) \<le> max_token_ttl_seconds"
proof -
  obtain keyring issuer where k: "keyring_from_settings loads L S = Inr keyring"
    and i: "make_issuer keyring (st_token_issuer S) (st_token_audience S) (st_token_ttl_seconds S) = Inr issuer"
    and V: "sv_issuer V = issuer" "sv_validator V = \<lparr> tv_keys = kr_verification_keys keyring, tv_issuer = st_token_issuer S,
           tv_audience = st_token_audience S, tv_leeway = clock_skew_seconds \<rparr>"
    using assms unfolding build_services_def
    by (elim bindE_InrE) (cases "parameters (st_authorize_rate_per_minute S) (st_authorize_burst S)";
        cases "st_auth_jwt_key S"; force)
  have issuer: "issuer = \<lparr> ti_keyring = keyring, ti_issuer = st_token_issuer S, ti_audience = st_token_audience S,
      ti_ttl = st_token_ttl_seconds S \<rparr>" "1 \<le> st_token_ttl_seconds S" "st_token_ttl_seconds S \<le> max_token_ttl_seconds"
    using i by (auto simp: make_issuer_def split: if_splits)
  show "map_of (tv_keys (sv_validator V)) (kr_signing_kid (ti_keyring (sv_issuer V))) =
      Some (kl_public_key L (kr_signing_key (ti_keyring (sv_issuer V))))"
    using keyring_matches [OF k] by (simp add: V issuer)
  show "tv_issuer (sv_validator V) = ti_issuer (sv_issuer V)" "tv_audience (sv_validator V) = ti_audience (sv_issuer V)"
    "tv_leeway (sv_validator V) = clock_skew_seconds" "1 \<le> ti_ttl (sv_issuer V)" "ti_ttl (sv_issuer V) \<le> max_token_ttl_seconds"
    using issuer(2,3) by (simp_all add: V issuer(1))
qed

lemma deployment_accepts_own_tokens:
  assumes "build_services loads L random_secret S = Inr V"
    and "jwt_roundtrip_at J (sv_issuer V) (kl_public_key L (kr_signing_key (ti_keyring (sv_issuer V))))
      (token_claims (sv_issuer V) jti actor_id a p g purpose (now - now mod second))"
    and "status jti = ACTIVE" and "representable (now - now mod second)"
    and "representable (now - now mod second + ti_ttl (sv_issuer V) * second)"
    and "now \<le> now'" and "now' \<le> now - now mod second + ti_ttl (sv_issuer V) * second"
  shows "\<exists>v. validate J (sv_validator V) status now' (Some (it_token (issue J (sv_issuer V) jti actor_id a p g purpose now))) a p = Inr v \<and>
    va_jti v = jti \<and> va_actor_id v = actor_id \<and> va_action v = a \<and> va_profile_id v = p \<and> va_grant_id v = g"
proof -
  have "0 \<le> tv_leeway (sv_validator V)"
    using build_services_fits(4) [OF assms(1)] by (simp add: clock_skew_seconds_def)
  with build_services_fits [OF assms(1)] assms(2-) show ?thesis
    by (subst issue_then_validate) auto
qed

end
