(* ===== verification/Boundary_Properties.thy ===== *)
theory Boundary_Properties imports Sample_Service Boundary Config begin

text \<open>
  The properties of the service's boundary: purpose codes, authorization tokens, the path of a request to the
  handlers, the rate limit, the settings of a deployment and download links.
\<close>

section \<open>Tokens\<close>

text \<open>C26. A deployment accepts the tokens it issues: with services built from settings, a token issued now
  and looked up as active validates for its action and profile until it expires, and says of whom, what and
  under which grant it was issued, provided the JWT library reads back what it wrote.\<close>

theorem deployment_validates_own_tokens:
  assumes "build_services loads L random_secret S = Inr V"
    and "jwt_roundtrip_at J (sv_issuer V) (kl_public_key L (kr_signing_key (ti_keyring (sv_issuer V))))
      (token_claims (sv_issuer V) jti actor_id a p g purpose (now - now mod second))"
    and "status jti = ACTIVE" and "representable (now - now mod second)"
    and "representable (now - now mod second + ti_ttl (sv_issuer V) * second)"
    and "now \<le> now'" and "now' \<le> now - now mod second + ti_ttl (sv_issuer V) * second"
  shows "\<exists>v. validate J (sv_validator V) status now' (Some (it_token (issue J (sv_issuer V) jti actor_id a p g purpose now))) a p = Inr v \<and>
    va_jti v = jti \<and> va_actor_id v = actor_id \<and> va_action v = a \<and> va_profile_id v = p \<and> va_grant_id v = g"
  using assms by (rule deployment_accepts_own_tokens)

definition sample_settings :: settings where
  "sample_settings = \<lparr> st_env = Test, st_database_url = lit ''sqlite://'', st_token_signing_key_pem = None,
     st_token_key_id = lit ''k1'', st_token_verification_keys_json = lit ''{}'', st_token_issuer = lit ''remembrance'',
     st_token_audience = lit ''downstream'', st_token_ttl_seconds = 120, st_auth_jwt_algorithm = lit ''HS256'',
     st_auth_jwt_key = Some (lit ''secret''), st_auth_jwt_issuer = lit ''idp'', st_auth_jwt_audience = lit ''remembrance'',
     st_authorize_rate_per_minute = 60, st_authorize_burst = 10, st_rate_limit_backend = Memory_Backend,
     st_storage_backend = Local_Backend, st_storage_local_root = lit ''data'', st_s3_bucket = None,
     st_public_base_url = [], st_url_signing_secret = None, st_export_url_ttl_seconds = 900,
     st_cascade_dispatch = Inline_Dispatch, st_cascade_stale_after_seconds = 300 \<rparr>"

definition sample_keys :: "(unit, unit) key_lib" where
  "sample_keys = \<lparr> kl_load_private = (\<lambda>s. Some ()), kl_load_public = (\<lambda>s. Some ()), kl_public_key = (\<lambda>k. k), kl_generate = () \<rparr>"

lemma sample_services:
  "\<exists>V. build_services (\<lambda>s. Some (JObj [])) sample_keys [1] sample_settings = Inr V \<and> ti_ttl (sv_issuer V) = 120"
  by (simp add: build_services_def keyring_from_settings_def verification_keys_def make_issuer_def parameters_def Let_def
      max_token_ttl_seconds_def sample_keys_def sample_settings_def)

lemma representable_epoch: "representable 0" "representable (120 * second)"
  by (simp_all add: representable_def) (simp_all add: min_timestamp_def end_timestamp_def)

theorem deployment_validates_own_tokens_witness:
  "\<exists>V J v. build_services (\<lambda>s. Some (JObj [])) sample_keys [1] sample_settings = Inr V \<and>
     validate J (sv_validator V) (\<lambda>j. ACTIVE) 60 (Some (it_token (issue J (sv_issuer V) 40 (lit ''heir'') EXPORT_DATA 7 None
       (lit ''DATA_PORTABILITY'') 5))) EXPORT_DATA 7 = Inr v \<and> va_jti v = 40"
proof -
  obtain V where V: "build_services (\<lambda>s. Some (JObj [])) sample_keys [1] sample_settings = Inr V" "ti_ttl (sv_issuer V) = 120"
    using sample_services by blast
  let ?claims = "token_claims (sv_issuer V) 40 (lit ''heir'') EXPORT_DATA 7 None (lit ''DATA_PORTABILITY'') 0"
  let ?J = "one_token_jwt ((lit ''alg'', JStr algorithm) # token_header (sv_issuer V)) ?claims"
  have round: "jwt_roundtrip_at ?J (sv_issuer V) (kl_public_key sample_keys (kr_signing_key (ti_keyring (sv_issuer V)))) ?claims"
    by (simp add: jwt_roundtrip_at_def one_token_jwt_def)
  have zero: "(5 :: timestamp) - 5 mod second = 0"
    by simp
  from deployment_validates_own_tokens [OF V(1), of ?J 40 "lit ''heir''" EXPORT_DATA 7 None "lit ''DATA_PORTABILITY''" 5 "\<lambda>j. ACTIVE" 60]
  show ?thesis
    using V round representable_epoch unfolding zero by auto
qed

text \<open>What an accepted token is worth is bounded: it names the action and the profile it is presented for,
  the revocation list has it as active at that moment, and its lifetime is positive and at most the ceiling of
  300 seconds, past which, and the leeway, it is no longer accepted.\<close>

theorem accepted_token_is_bounded:
  assumes "validate J V status now token action profile_id = Inr v"
  shows "va_action v = action \<and> va_profile_id v = profile_id \<and> status (va_jti v) = ACTIVE \<and>
    va_issued_at v < va_expires_at v \<and> va_expires_at v \<le> va_issued_at v + max_token_ttl_seconds * second \<and>
    now \<le> va_expires_at v + tv_leeway V * second"
  using validate_bounds [OF assms] by blast

lemma sample_validation:
  "\<exists>J v. validate (J :: (unit, unit) pyjwt) sample_validator (sql_status sample_db) 60 (Some (lit ''a.b.c'')) INITIATE_VOICE_SYNTHESIS 7 = Inr v \<and>
     va_jti v = 30"
proof -
  let ?claims = "token_claims sample_issuer 30 (lit ''heir'') INITIATE_VOICE_SYNTHESIS 7 (Some 8) (lit ''VOICE_SYNTHESIS'') 0"
  let ?J = "one_token_jwt ((lit ''alg'', JStr algorithm) # token_header sample_issuer) ?claims"
  let ?issued = "issue ?J sample_issuer 30 (lit ''heir'') INITIATE_VOICE_SYNTHESIS 7 (Some 8) (lit ''VOICE_SYNTHESIS'') 5"
  let ?v = "\<lparr> va_jti = 30, va_actor_id = lit ''heir'', va_action = INITIATE_VOICE_SYNTHESIS, va_profile_id = 7, va_grant_id = Some 8,
      va_purpose = lit ''VOICE_SYNTHESIS'', va_issued_at = it_issued_at ?issued, va_expires_at = it_expires_at ?issued,
      va_disclosure = (INITIATE_VOICE_SYNTHESIS \<in> synthesis_actions) \<rparr>"
  have "validate ?J sample_validator (sql_status sample_db) 60 (Some (it_token ?issued)) INITIATE_VOICE_SYNTHESIS 7 = Inr ?v"
    by (rule issue_then_validate [where key = "()"])
      (simp_all add: sample_issuer_def sample_validator_def sample_ring_def max_token_ttl_seconds_def clock_skew_seconds_def
        jwt_roundtrip_at_def one_token_jwt_def sql_status_def sample_db_def empty_db_def live_token_def representable_epoch [simplified])
  moreover have "it_token ?issued = lit ''a.b.c''"
    by (simp add: issue_def one_token_jwt_def)
  ultimately have "validate ?J sample_validator (sql_status sample_db) 60 (Some (lit ''a.b.c'')) INITIATE_VOICE_SYNTHESIS 7 = Inr ?v"
    by (simp only:)
  then show ?thesis
    by (intro exI conjI, assumption, simp only: verified_authorization.select_convs)
qed

theorem accepted_token_is_bounded_witness:
  "\<exists>J v. validate (J :: (unit, unit) pyjwt) sample_validator (sql_status sample_db) 60 (Some (lit ''a.b.c'')) INITIATE_VOICE_SYNTHESIS 7 = Inr v \<and>
     va_expires_at v \<le> va_issued_at v + max_token_ttl_seconds * second"
proof -
  obtain J v where "validate (J :: (unit, unit) pyjwt) sample_validator (sql_status sample_db) 60 (Some (lit ''a.b.c'')) INITIATE_VOICE_SYNTHESIS 7 = Inr v"
    using sample_validation by blast
  from accepted_token_is_bounded [OF this] this show ?thesis
    by blast
qed

lemma validate_revoked:
  assumes "validate J V status now token action profile_id = Inr v" and "status' (va_jti v) = REVOKED"
  shows "validate J V status' now token action profile_id = Inl (TokenError TOKEN_REVOKED)"
  using assms(1)
proof (rule validate_pieces)
  fix t header key claims c
  assume pieces: "token = Some t" "t \<noteq> []" "jwt_header J t = Inr header"
    "map_of header (lit ''alg'') = Some (JStr algorithm)" "map_of header (lit ''typ'') = Some (JStr token_type)"
    "map_of (tv_keys V) (case map_of header (lit ''kid'') of
       Some v \<Rightarrow> str_of_json (jwt_container_repr J) v | None \<Rightarrow> lit ''None'') = Some key"
    "jwt_decode J t key [algorithm] (tv_issuer V) (tv_audience V) validator_options = Inr claims"
    "parse_claims claims = Some c"
    and check: "check_claims V action profile_id now status c = None" and v: "verified J claims c = Inr v"
  have "status' (pc_jti c) = REVOKED"
    using assms(2) by (simp add: verified_Inr(1) [OF v])
  then have "check_claims V action profile_id now status' c = Some TOKEN_REVOKED"
    using check unfolding check_claims_None by (auto simp: check_claims_def)
  with pieces show ?thesis
    by (simp add: validate_def)
qed

text \<open>The revocation list separates grants: after the tokens of one grant are revoked, no token issued under
  it is accepted, whatever the JWT library answers, and every token of another grant that was accepted still is.\<close>

theorem revoking_tokens_is_exact:
  assumes "validate J V (sql_status db) now token action profile_id = Inr v"
  shows "validate J V (sql_status (fst (revoke_grant_tokens g t db))) now token action profile_id =
    (if issued_under db (va_jti v) g then Inl (TokenError TOKEN_REVOKED) else Inr v)"
proof (cases "issued_under db (va_jti v) g")
  case True
  then have "sql_status (fst (revoke_grant_tokens g t db)) (va_jti v) = REVOKED"
    by (rule sql.revoke_hits)
  with True show ?thesis
    using validate_revoked [OF assms] by simp
qed (use sql.others_accepted [OF assms] in simp)

theorem revoking_tokens_is_exact_witness:
  "\<exists>J. validate (J :: (unit, unit) pyjwt) sample_validator (sql_status (fst (revoke_grant_tokens 8 60 sample_db))) 60 (Some (lit ''a.b.c''))
      INITIATE_VOICE_SYNTHESIS 7 = Inl (TokenError TOKEN_REVOKED) \<and>
    (\<exists>v. validate J sample_validator (sql_status (fst (revoke_grant_tokens 9 60 sample_db))) 60 (Some (lit ''a.b.c''))
      INITIATE_VOICE_SYNTHESIS 7 = Inr v)"
proof -
  obtain J v where v: "validate (J :: (unit, unit) pyjwt) sample_validator (sql_status sample_db) 60 (Some (lit ''a.b.c'')) INITIATE_VOICE_SYNTHESIS 7 = Inr v"
    and jti: "va_jti v = 30"
    using sample_validation by blast
  have "issued_under sample_db 30 8" "\<not> issued_under sample_db 30 9"
    by (simp_all add: issued_under_def sample_db_def empty_db_def live_token_def)
  with revoking_tokens_is_exact [OF v, of 8 60] revoking_tokens_is_exact [OF v, of 9 60] jti show ?thesis
    by auto
qed

section \<open>Purpose codes\<close>

text \<open>Purpose codes have one normal form: for ASCII codes the normalised code is upper case without
  separators inside or underscores at its ends, it is its own normal form, and a code is banned exactly when its
  normal form is, so that spelling cannot carry a banned purpose past the screen.\<close>

theorem purpose_normal_form:
  assumes "ucd_ascii U" and "is_ascii code"
  shows "in_normal_form (normalize_purpose U code) \<and>
    normalize_purpose U (normalize_purpose U code) = normalize_purpose U code \<and>
    is_banned_purpose U (normalize_purpose U code) = is_banned_purpose U code \<and>
    (is_banned_purpose U code \<longrightarrow> parse_declared_purpose U code = None)"
proof -
  have nf: "in_normal_form (normalize_purpose U code)"
    using assms by (rule normalize_in_normal_form)
  then have "normalize_purpose U (normalize_purpose U code) = normalize_purpose U code"
    using normal_form_fixed [OF assms(1)] by blast
  with nf show ?thesis
    using banned_parses_to_None by (simp add: is_banned_iff_tokens)
qed

theorem purpose_normal_form_witness:
  "in_normal_form (normalize_purpose sample_ucd (lit '' financial.advice ''))"
  using purpose_normal_form [OF sample_ucd_ascii, of "lit '' financial.advice ''"] by (simp add: is_ascii_def lit_def)

section \<open>The way to the handlers\<close>

text \<open>C32. Every request is either handed to the handlers vetted (outside the exempt prefixes: with the actor of a
  valid assertion and, on a guarded route, with its whole body and no banned purpose in it) and with the database
  as it was, or answered without them, whatever the handlers are; then the database has evolved by appended
  events at most.\<close>

theorem handlers_see_vetted_requests:
  "(\<exists>r' s'. (\<forall>app. create_app production auth limiter_hit U sha loads app r s = app r' s') \<and>
      vetted production auth U loads r r' \<and> sv_db s' = sv_db s) \<or>
   (\<exists>s' answer. (\<forall>app. create_app production auth limiter_hit U sha loads app r s = (s', answer)) \<and>
      evolves sha (sv_db s) (sv_db s'))"
  by (rule create_app_vets)

text \<open>Past its budget a caller of \<open>/consent/authorize\<close> gets the 429 before anything is recorded: the database
  is untouched, whatever the body says.\<close>

theorem over_budget_is_not_recorded:
  assumes "rq_type r = Http" and "rq_method r = lit ''POST''" and "rq_path r = lit ''/consent/authorize''"
    and "auth (rq_authorization r) = Some actor"
    and "limiter_hit (rq_monotonic r) (lit ''/consent/authorize:actor:'' @ ac_user_id actor) (sv_limiter s) = (l, d)" and "\<not> rd_allowed d"
  shows "create_app production auth limiter_hit U sha loads app r s =
    (s\<lparr>sv_limiter := l\<rparr>, Answer (too_many (rd_retry_after_seconds d)))"
  using assms by (rule over_budget)

definition sample_request :: "pstr \<Rightarrow> request" where
  "sample_request path = \<lparr> rq_type = Http, rq_method = lit ''POST'', rq_path = path, rq_authorization = Some (lit ''Bearer t''),
     rq_client = None, rq_actor = None, rq_messages = [Http_Request (Some [1]) None], rq_monotonic = 0, rq_env = sample_env \<rparr>"

definition closed_limiter :: "rat \<Rightarrow> pstr \<Rightarrow> unit \<Rightarrow> unit \<times> rate_decision" where
  "closed_limiter now key l = (l, \<lparr> rd_allowed = False, rd_retry_after_seconds = 3 \<rparr>)"

theorem over_budget_is_not_recorded_witness:
  "create_app True (\<lambda>h. Some heir) closed_limiter sample_ucd flat_sha (\<lambda>b. None) (\<lambda>r s. (s, No_Answer))
     (sample_request (lit ''/consent/authorize''))
     \<lparr> sv_db = sample_db, sv_limiter = () \<rparr> = (\<lparr> sv_db = sample_db, sv_limiter = () \<rparr>, Answer (too_many 3))"
  using over_budget_is_not_recorded [of "sample_request (lit ''/consent/authorize'')" "\<lambda>h. Some heir" heir closed_limiter
      "\<lparr> sv_db = sample_db, sv_limiter = () \<rparr>" "()" "\<lparr> rd_allowed = False, rd_retry_after_seconds = 3 \<rparr>" True sample_ucd flat_sha
      "\<lambda>b. None" "\<lambda>r s. (s, No_Answer)"]
  by (simp add: sample_request_def closed_limiter_def)

text \<open>The route \<open>/consent/grants\<close> is guarded but not rate limited: every banned scope an authenticated caller
  posts there is screened and recorded, whatever the limiter says.\<close>

theorem banned_grants_are_not_limited:
  assumes "banned_in U loads r" and "rq_path r = lit ''/consent/grants''" and "auth (rq_authorization r) = Some actor"
  shows "\<exists>codes profile_id. codes \<noteq> [] \<and>
    create_app production auth limiter_hit U sha loads app r s =
      (case transact (sv_db s) (record_purpose_violation U sha (clock_at (rq_env r) 0) actor codes profile_id
               ''middleware'' (rq_path r) (sv_db s)) of
         (db, Inr event_id) \<Rightarrow> (s\<lparr>sv_db := db\<rparr>, Answer (error_response (prohibited event_id) []))
       | (db, Inl e) \<Rightarrow> (s\<lparr>sv_db := db\<rparr>, Raised e))"
  using assms by (rule grants_unlimited)

theorem banned_grants_are_not_limited_witness:
  "\<exists>codes profile_id. codes \<noteq> [] \<and> create_app True (\<lambda>h. Some heir) closed_limiter sample_ucd flat_sha
     (\<lambda>b. Some (JObj [(lit ''purpose_scope'', JList [JStr (lit ''FINANCIAL'')])])) (\<lambda>r s. (s, No_Answer))
     (sample_request (lit ''/consent/grants'')) \<lparr> sv_db = sample_db, sv_limiter = () \<rparr> =
     (case transact sample_db (record_purpose_violation sample_ucd flat_sha (10 * second) heir codes profile_id
          ''middleware'' (lit ''/consent/grants'') sample_db) of
        (db, Inr event_id) \<Rightarrow> (\<lparr> sv_db = db, sv_limiter = () \<rparr>, Answer (error_response (prohibited event_id) []))
      | (db, Inl e) \<Rightarrow> (\<lparr> sv_db = db, sv_limiter = () \<rparr>, Raised e))"
proof -
  let ?loads = "\<lambda>b. Some (JObj [(lit ''purpose_scope'', JList [JStr (lit ''FINANCIAL'')])])"
  have "banned_in sample_ucd ?loads (sample_request (lit ''/consent/grants''))"
    by (simp add: banned_in_def sample_request_def guarded_routes_def body_fields_def grant_fields_def strings_of_def
        max_guarded_body_bytes_def sample_banned)
  moreover have "rq_path (sample_request (lit ''/consent/grants'')) = lit ''/consent/grants''"
    "clock_at (rq_env (sample_request (lit ''/consent/grants''))) 0 = 10 * second"
    by (simp_all add: sample_request_def sample_env_def)
  ultimately show ?thesis
    using banned_grants_are_not_limited [of sample_ucd ?loads "sample_request (lit ''/consent/grants'')" "\<lambda>h. Some heir" heir
        True closed_limiter flat_sha "\<lambda>r s. (s, No_Answer)" "\<lparr> sv_db = sample_db, sv_limiter = () \<rparr>"] by simp
qed

section \<open>The rate limit\<close>




text \<open>C36. The \<open>Retry-After\<close> of a refusal is enough: a caller who is refused, comes back no earlier than that and is
  not admitted in between is admitted, whatever the other callers do meanwhile.\<close>

theorem retry_after_is_enough:
  assumes "runs g" and "\<not> rd_allowed (snd (hit now k g))" and "now + rd_retry_after_seconds (snd (hit now k g)) \<le> later"
    and "sorted (now # map fst rs)" and "\<forall>r \<in> set rs. fst r \<le> later" and "memory.admitted k rs (fst (hit now k g)) = []"
  shows "rd_allowed (snd (hit later k (memory.after rs (fst (hit now k g)))))"
  using assms by (rule memory.retry_enough)

theorem retry_after_is_enough_witness:
  "\<exists>g. rd_allowed (snd (hit 0 [] g)) = False \<and> rd_allowed (snd (hit 1 [] (fst (hit 0 [] g))))"
proof -
  let ?g = "\<lparr> gc_interval = 1, gc_tolerance = 0, gc_tat = [([], 1)] \<rparr>"
  have "runs ?g" "\<not> rd_allowed (snd (hit 0 [] ?g))" "rd_retry_after_seconds (snd (hit 0 [] ?g)) = 1"
    by (simp_all add: runs_def hit_def Let_def)
  with retry_after_is_enough [of ?g 0 "[]" 1 "[]"] show ?thesis
    by (intro exI [of _ ?g]) simp
qed

section \<open>Settings\<close>

text \<open>C40. A production deployment starts only when it is safe to: signing key and caller key given, an HMAC key and
  the link secret of at least 32 bytes, no SQLite, no inline cascade, and every numeric setting in its range.\<close>

theorem production_settings_are_vetted:
  assumes "check_settings loads S = Inr S'" and "st_env S = Production"
  shows "S' = S \<and> settings_fields_ok S \<and> st_token_signing_key_pem S \<noteq> None \<and>
    (\<exists>key. st_auth_jwt_key S = Some key \<and> (starts_with (lit ''HS'') (st_auth_jwt_algorithm S) \<longrightarrow> min_secret_bytes \<le> length key)) \<and>
    (st_storage_backend S = Local_Backend \<longrightarrow> (\<exists>secret. st_url_signing_secret S = Some secret \<and> min_secret_bytes \<le> length secret)) \<and>
    \<not> starts_with (lit ''sqlite'') (st_database_url S) \<and> st_cascade_dispatch S = Celery_Dispatch"
  using assms by (rule check_settings_production)

definition production_settings :: settings where
  "production_settings = sample_settings\<lparr>st_env := Production, st_database_url := lit ''postgresql://db'',
     st_token_signing_key_pem := Some [1], st_auth_jwt_key := Some (replicate 32 1), st_url_signing_secret := Some (replicate 32 2),
     st_cascade_dispatch := Celery_Dispatch\<rparr>"

theorem production_settings_are_vetted_witness:
  "check_settings (\<lambda>s. Some (JObj [])) production_settings = Inr production_settings \<and>
   st_cascade_dispatch production_settings = Celery_Dispatch"
proof -
  have ok: "check_settings (\<lambda>s. Some (JObj [])) production_settings = Inr production_settings" "st_env production_settings = Production"
    by (simp_all add: check_settings_def production_settings_def sample_settings_def settings_fields_ok_def jwt_algorithms_def
        max_token_ttl_seconds_def verification_keys_def production_problems_def min_secret_bytes_def)
      (simp add: starts_with_def lit_def)
  from production_settings_are_vetted [OF ok] ok(1) show ?thesis
    by blast
qed

section \<open>Links and keys\<close>

text \<open>Links cannot be forged and keys stay inside the root: a download link that verifies carries the key and
  the expiry it was signed for, unless the two signed texts collide; it is refused after that moment; and a valid
  storage key resolves to a path below the root without a \<open>..\<close> in it.\<close>

theorem links_and_keys_are_confined:
  assumes "url_verify hmac k e sig now" and "sig = url_signature hmac k' e'"
    and "inj_on hmac {signed_text k e, signed_text k' e'}" and "valid_key k'"
  shows "k = k' \<and> e = e' \<and> now \<le> e * second \<and> resolve_key k = Inr (path_of k) \<and> path_of k \<noteq> [] \<and> [46, 46] \<notin> set (path_of k)"
proof -
  have "k = k' \<and> e = e'"
    by (rule forged_link_needs_collision [OF assms(1-3)])
  moreover have "now \<le> e * second"
    using assms(1) by (simp add: url_verify_def split: if_splits)
  moreover have "resolve_key k' = Inr (path_of k')" "[46, 46] \<notin> set (path_of k')"
    using valid_key_resolves [OF assms(4)] by blast+
  ultimately show ?thesis
    by (auto simp: resolve_key_def bindE_eq_Inr split: if_splits)
qed

theorem links_and_keys_are_confined_witness:
  "url_verify id (lit ''exports/7.zip'') 10 (url_signature id (lit ''exports/7.zip'') 10) 5 \<and>
   resolve_key (lit ''exports/7.zip'') = Inr [lit ''exports'', lit ''7.zip'']"
proof -
  have ok: "url_verify id (lit ''exports/7.zip'') 10 (url_signature id (lit ''exports/7.zip'') 10) 5" "valid_key (lit ''exports/7.zip'')"
    by (simp add: url_verify_def) (simp add: valid_key_def key_pattern_def is_key_char_def is_alnum_def sublist_code lit_def)
  have "path_of (lit ''exports/7.zip'') = [lit ''exports'', lit ''7.zip'']"
    by (simp add: path_of_def lit_def)
  with links_and_keys_are_confined [OF ok(1) refl _ ok(2)] ok(1) show ?thesis
    by simp
qed

end
