(* ===== verification/Export_Properties.thy ===== *)
theory Export_Properties imports Sample_Service begin

text \<open>
  The properties of verifiable exports, and of the JSON texts they and the other stores are written in.
\<close>

section \<open>An archive format\<close>

text \<open>The simplest archive format that reads back what it wrote: each text preceded by its length.\<close>

fun pack_files :: "(pstr \<times> bytes) list \<Rightarrow> bytes" where
  "pack_files [] = []"
| "pack_files ((n, d) # fs) = length n # n @ length d # d @ pack_files fs"

fun unpack_files :: "nat \<Rightarrow> bytes \<Rightarrow> zip_member list option" where
  "unpack_files fuel [] = Some []"
| "unpack_files 0 (l # r) = None"
| "unpack_files (Suc fuel) (l # r) = (case drop l r of [] \<Rightarrow> None
     | k # s \<Rightarrow> map_option ((#) \<lparr> zm_name = take l r, zm_size = k, zm_content = Some (take k s) \<rparr>) (unpack_files fuel (drop k s)))"

lemma unpack_pack: "length fs \<le> n \<Longrightarrow> unpack_files n (pack_files fs) = Some (map as_member fs)"
proof (induction fs arbitrary: n)
  case (Cons f fs)
  then show ?case
    by (cases f; cases n) (simp_all add: as_member_def)
qed simp

lemma length_pack: "length fs \<le> length (pack_files fs)"
  by (induction fs rule: pack_files.induct) simp_all

abbreviation unpack_all :: "bytes \<Rightarrow> zip_member list option" where
  "unpack_all data \<equiv> unpack_files (length data) data"

lemma reads_pack: "reads_archives pack_files unpack_all"
  by (simp add: reads_archives_def unpack_pack length_pack)

section \<open>A small export\<close>

definition sample_build :: "(bytes \<Rightarrow> pstr) \<Rightarrow> event_record list \<Rightarrow> error + export_bundle" where
  "sample_build sha256 es = build_bundle sha256 pack_files (\<lambda>k m. [120]) sample_ring 7 0 (lit ''heir'') [] es"

definition sample_verify :: "(bytes \<Rightarrow> pstr) \<Rightarrow> bytes \<Rightarrow> escape + export_verification" where
  "sample_verify sha256 data = verify_bundle unpack_all sha256 (\<lambda>k t m. t = [120]) json_loads_bytes (\<lambda>v. [])
     (\<lambda>t. if t = isoformat 0 then Some (Aware 0) else None) data (Some [(lit ''k1'', ())])"

lemma sample_build_small:
  assumes "verify_chain (sha256 \<circ> utf8) es [] = Inr r" and "audit_jsonl es = Inr log" and "length log \<le> 10000"
    and "clean_json (make_manifest sha256 7 0 (lit ''heir'') (lit ''k1'') [(audit_log_name, log)] r)"
    and "room (make_manifest sha256 7 0 (lit ''heir'') (lit ''k1'') [(audit_log_name, log)] r) \<le> 30000"
  shows "\<exists>b body. sample_build sha256 es = Inr b \<and> length body \<le> 30001 \<and>
    unpack_all (bu_data b) = Some (map as_member [(audit_log_name, log), (manifest_name, body), (signature_name, [120, 10])])"
proof -
  let ?m = "make_manifest sha256 7 0 (lit ''heir'') (lit ''k1'') [(audit_log_name, log)] r"
  have "encode (canonical_json ?m @ [10]) = Inr (utf8 (canonical_json ?m @ [10]))"
    using clean_canonical [OF assms(4)] by (simp add: encode_def is_surrogate_def)
  moreover have "length (utf8 (canonical_json ?m @ [10])) \<le> 30001"
    using canonical_room [of ?m] assms(5) by (simp only: length_utf8) (simp add: utf8_width_def)
  moreover have "kr_signing_kid sample_ring = lit ''k1''"
    by (simp add: sample_ring_def)
  ultimately show ?thesis
    unfolding sample_build_def build_bundle_def using assms(1,2)
    by (simp add: Let_def unpack_pack [OF length_pack] del: pack_files.simps map_append list.map)
      (rule exI [of _ "utf8 (canonical_json ?m) @ utf8_char 10"], simp)
qed

lemma sample_members_small:
  assumes "unpack_all (bu_data b) = Some (map as_member [(audit_log_name, log), (manifest_name, body), (signature_name, [120, 10])])"
    and "length log \<le> 10000" and "length body \<le> 30001" and "unpack_all (bu_data b) = Some ms" and "m \<in> set ms"
  shows "zm_size m \<le> max_entry_bytes"
  using assms by (auto simp: max_entry_bytes_def)

lemma sample_sign: "signs_for (\<lambda>k m. [120]) (\<lambda>k t m. t = [120]) () ()"
  by (simp add: signs_for_def strip_by_def is_byte_space_def)

lemma hex_encodable: "encodable (replicate 64 49)"
  by (rule encodable_small) simp

lemma length_dec: "length (dec n) \<le> n + 1"
  by (induction n rule: dec.induct) (subst dec.simps, auto)

lemma length_int_str: "length (int_str (int n)) \<le> n + 1"
  using length_dec [of n] by (simp add: int_str_def)

lemma sample_log:
  "\<exists>log. audit_jsonl [first_record] = Inr log \<and> length log \<le> 10000"
proof -
  have clean: "clean_json (record_json first_record)"
    by (simp add: record_json_def first_record_def encodable_lit encodable_uuid_str encodable_isoformat genesis_encodable)
      (simp add: hex_encodable)
  have "room (record_json first_record) \<le> 9999"
    using length_isoformat [of 0] by (simp add: record_json_def first_record_def length_lit length_uuid_str one_str genesis_hash_def)
  then have "length (utf8 (canonical_json (record_json first_record) @ [10])) \<le> 10000"
    using canonical_room [of "record_json first_record"] by (simp only: length_utf8) (simp add: utf8_width_def)
  then show ?thesis
    using clean_canonical [OF clean] by (simp add: audit_jsonl_def encode_def is_surrogate_def)
qed

lemma sample_chains:
  assumes "verify_chain (flat_sha256 \<circ> utf8) [first_record] [] = Inr r"
  shows "cr_chains r = [(7, next_summary new_summary first_record)]"
  using assms by (auto simp: verify_chain_def bindE_eq_Inr verify_event_def summary_of_def empty_report_def Let_def first_record_def)

lemma sample_export:
  "\<exists>b body log. sample_build flat_sha256 [first_record] = Inr b \<and> length body \<le> 30001 \<and> length log \<le> 10000 \<and>
    unpack_all (bu_data b) = Some (map as_member [(audit_log_name, log), (manifest_name, body), (signature_name, [120, 10])])"
proof -
  obtain log where log: "audit_jsonl [first_record] = Inr log" "length log \<le> 10000"
    using sample_log by blast
  have "flat_sha256 \<circ> utf8 = flat_sha"
    by (auto simp: flat_sha256_def flat_sha_def)
  then have "chain_valid (flat_sha256 \<circ> utf8) (of_profile i [first_record])" for i
    by (intro first_record_valid) (simp add: flat_sha_def)
  then obtain r where r: "verify_chain (flat_sha256 \<circ> utf8) [first_record] [] = Inr r"
    using verify_chain_plain by blast
  let ?m = "make_manifest flat_sha256 7 0 (lit ''heir'') (lit ''k1'') [(audit_log_name, log)] r"
  have "encodable (flat_sha256 x)" "encodable (cs_head_hash (next_summary new_summary first_record))"
    "length (cs_head_hash (next_summary new_summary first_record)) = 64" "cs_length (next_summary new_summary first_record) = 1" for x
    by (simp_all add: next_summary_def new_summary_def flat_sha256_def first_record_def hex_encodable)
  note facts = this sample_chains [OF r]
  have "clean_json ?m"
    by (simp add: make_manifest_def facts file_entry_def Let_def encodable_lit encodable_uuid_str encodable_isoformat
        export_format_def signature_name_def audit_log_name_def)
  moreover have "room ?m \<le> 30000"
    using length_isoformat [of 0] log(2) length_int_str [of "length log"]
    by (simp add: make_manifest_def facts file_entry_def Let_def length_lit length_uuid_str one_str export_format_def
        signature_name_def audit_log_name_def flat_sha256_def)
  ultimately show ?thesis
    using sample_build_small [OF r log] log(2) by blast
qed

section \<open>Properties\<close>

text \<open>Canonical JSON reads back: parsing the canonical text of a document whose objects have no repeated key
  gives the document in its sorted form.\<close>

theorem canonical_json_reads_back:
  assumes "keyed v"
  shows "json_loads (canonical_json v) = Some (canon v)"
  using assms by (rule json_loads_canonical)

theorem canonical_json_reads_back_witness:
  "json_loads (canonical_json (JObj [(lit ''b'', JInt (- 5)), (lit ''a'', JStr [34, 233, 10])])) =
     Some (JObj [(lit ''a'', JStr [34, 233, 10]), (lit ''b'', JInt (- 5))])"
  using canonical_json_reads_back [of "JObj [(lit ''b'', JInt (- 5)), (lit ''a'', JStr [34, 233, 10])]"]
  by (simp add: lit_def)

text \<open>C29. An archive the service builds verifies: for documents under distinct names and the valid chain of one
  profile, \<open>verify_bundle\<close> on the bytes built, with the public key of the signer, reports no error and has checked
  the signature, provided the zip, JSON and signature libraries read back what they wrote and no member exceeds
  the limit.\<close>

theorem built_export_verifies:
  assumes "build_bundle sha256 pack sign keyring i t by docs es = Inr b"
    and "distinct (map fst docs)" and "set (map fst docs) \<inter> {manifest_name, signature_name} = {}"
    and "\<forall>e \<in> set es. writable fromiso e \<and> er_profile_id e = i" and "chain_valid (sha256 \<circ> utf8) es"
    and "reads_archives pack unpack" and "loads_back loads"
    and "map_of keys (kr_signing_kid keyring) = Some key" and "signs_for sign sig_valid (kr_signing_key keyring) key"
    and "\<forall>ms. unpack (bu_data b) = Some ms \<longrightarrow> (\<forall>m \<in> set ms. zm_size m \<le> max_entry_bytes)"
  shows "\<exists>v. verify_bundle unpack sha256 sig_valid loads repr fromiso (bu_data b) (Some keys) = Inr v \<and>
    verification_ok v \<and> xv_signature_checked v"
  using assms by (intro built_bundle_verifies) auto

lemma sample_bundle_verifies:
  assumes "sample_build sha256 es = Inr b" and "\<forall>e \<in> set es. writable (\<lambda>t. if t = isoformat 0 then Some (Aware 0) else None) e \<and> er_profile_id e = 7"
    and "chain_valid (sha256 \<circ> utf8) es" and "length log \<le> 10000" and "length body \<le> 30001"
    and "unpack_all (bu_data b) = Some (map as_member [(audit_log_name, log), (manifest_name, body), (signature_name, [120, 10])])"
  shows "\<exists>v. sample_verify sha256 (bu_data b) = Inr v \<and> verification_ok v \<and> xv_signature_checked v"
  unfolding sample_verify_def
proof (rule built_bundle_verifies [OF assms(1) [unfolded sample_build_def] _ _ _ assms(3) reads_pack json_loads_bytes_back])
  show "zm_size m \<le> max_entry_bytes" if "unpack_all (bu_data b) = Some ms" "m \<in> set ms" for ms m
    by (rule sample_members_small [OF assms(6,4,5) that])
qed (use assms(2) sample_sign in \<open>simp_all add: sample_ring_def\<close>)

theorem built_export_verifies_witness:
  "\<exists>b v. sample_build flat_sha256 [first_record] = Inr b \<and> sample_verify flat_sha256 (bu_data b) = Inr v \<and>
     verification_ok v \<and> xv_signature_checked v"
proof -
  obtain b body log where b: "sample_build flat_sha256 [first_record] = Inr b" "length body \<le> 30001" "length log \<le> 10000"
    "unpack_all (bu_data b) = Some (map as_member [(audit_log_name, log), (manifest_name, body), (signature_name, [120, 10])])"
    using sample_export by blast
  have "flat_sha256 \<circ> utf8 = flat_sha"
    by (auto simp: flat_sha256_def flat_sha_def)
  then have chain: "chain_valid (flat_sha256 \<circ> utf8) [first_record]"
    using first_record_valid [of flat_sha 7] by (simp add: flat_sha_def of_profile_def first_record_def)
  have row: "\<forall>e \<in> set [first_record]. writable (\<lambda>t. if t = isoformat 0 then Some (Aware 0) else None) e \<and> er_profile_id e = 7"
    by (simp add: writable_def first_record_def)
  have "\<exists>v. sample_verify flat_sha256 (bu_data b) = Inr v \<and> verification_ok v \<and> xv_signature_checked v"
    unfolding sample_verify_def
  proof (rule built_export_verifies [OF b(1) [unfolded sample_build_def] _ _ row chain reads_pack json_loads_bytes_back])
    show "\<forall>ms. unpack_all (bu_data b) = Some ms \<longrightarrow> (\<forall>m \<in> set ms. zm_size m \<le> max_entry_bytes)"
      using sample_members_small [OF b(4,3,2)] by blast
  qed (use sample_sign in \<open>simp_all add: sample_ring_def\<close>)
  with b(1) show ?thesis by blast
qed

text \<open>C30. The manifest fixes the archive: two archives that verify clean and have the same manifest bytes hold the
  same content under every other name, unless the digest collides on the contents at hand.\<close>

theorem manifest_fixes_content:
  assumes "verify_bundle unpack sha256 sig_valid loads repr fromiso data keys = Inr v" and "verification_ok v"
    and "verify_bundle unpack sha256 sig_valid loads repr fromiso data' keys' = Inr v'" and "verification_ok v'"
    and "unpack data = Some archive" and "unpack data' = Some archive'"
    and "content_at archive manifest_name = content_at archive' manifest_name"
    and "inj_on sha256 (\<Union>name. set_option (content_at archive name) \<union> set_option (content_at archive' name))"
    and "name \<notin> {manifest_name, signature_name}"
  shows "content_at archive name = content_at archive' name"
  using assms by (rule verified_archives_agree)

lemma sample_empty_export:
  "\<exists>b body. sample_build id [] = Inr b \<and> length body \<le> 30001 \<and>
    unpack_all (bu_data b) = Some (map as_member [(audit_log_name, []), (manifest_name, body), (signature_name, [120, 10])])"
proof -
  have log: "audit_jsonl [] = Inr []"
    by (simp add: audit_jsonl_def encode_def)
  have report: "verify_chain (id \<circ> utf8) [] [] = Inr \<lparr> cr_chains = [], cr_errors = [] \<rparr>"
    by (simp add: verify_chain_def empty_report_def missing_anchors_def)
  show ?thesis
  proof (rule sample_build_small [OF report log])
    show "clean_json (make_manifest id 7 0 (lit ''heir'') (lit ''k1'') [(audit_log_name, [])] \<lparr>cr_chains = [], cr_errors = []\<rparr>)"
      by (simp add: make_manifest_def file_entry_def Let_def encodable_lit encodable_uuid_str encodable_isoformat
        export_format_def signature_name_def audit_log_name_def genesis_encodable)
    show "room (make_manifest id 7 0 (lit ''heir'') (lit ''k1'') [(audit_log_name, [])] \<lparr>cr_chains = [], cr_errors = []\<rparr>) \<le> 30000"
      using length_isoformat [of 0]
      by (simp add: make_manifest_def file_entry_def Let_def length_lit length_uuid_str one_str export_format_def
        signature_name_def audit_log_name_def genesis_hash_def report_ok_def)
  qed simp
qed

theorem manifest_fixes_content_witness:
  "\<exists>b v archive. sample_build id [] = Inr b \<and> sample_verify id (bu_data b) = Inr v \<and> verification_ok v \<and>
     unpack_all (bu_data b) = Some archive \<and> content_at archive audit_log_name = Some []"
proof -
  obtain b body where b: "sample_build id [] = Inr b" "length body \<le> 30001"
    "unpack_all (bu_data b) = Some (map as_member [(audit_log_name, []), (manifest_name, body), (signature_name, [120, 10])])"
    using sample_empty_export by blast
  obtain v where v: "sample_verify id (bu_data b) = Inr v" "verification_ok v"
    using sample_bundle_verifies [OF b(1) _ _ _ b(2,3)] by (auto simp: chain_valid_def)
  have "content_at (map as_member [(audit_log_name, []), (manifest_name, body), (signature_name, [120, 10])]) audit_log_name = Some []"
    by (simp add: content_at_def member_of_def)
  moreover have "content_at (map as_member [(audit_log_name, []), (manifest_name, body), (signature_name, [120, 10])]) audit_log_name =
      content_at (map as_member [(audit_log_name, []), (manifest_name, body), (signature_name, [120, 10])]) audit_log_name"
    by (rule manifest_fixes_content [OF v [unfolded sample_verify_def] v [unfolded sample_verify_def] b(3) b(3) refl]) simp_all
  ultimately show ?thesis
    using b v by blast
qed

text \<open>A stored export is served to whoever holds its link: after the local backend stored the archive under an
  export key, the link signed for it downloads exactly those bytes until it expires.\<close>

theorem stored_export_is_served:
  assumes "fs_put s (export_key i e) data = Inr s'" and "now \<le> expires * second"
  shows "\<exists>name. download_export hmac (Some s') (export_key i e) expires (url_signature hmac (export_key i e) expires) now = Inr (data, name)"
  using assms export_key_prefix by (intro download_serves)

lemma sample_key: "valid_key (export_key 7 9)"
  by code_simp

theorem stored_export_is_served_witness:
  "\<exists>s name. fs_put \<lparr> fs_files = [], fs_dirs = {} \<rparr> (export_key 7 9) [1, 2] = Inr s \<and>
     download_export id (Some s) (export_key 7 9) 10 (url_signature id (export_key 7 9) 10) 5 = Inr ([1, 2], name)"
proof -
  obtain s where "fs_put \<lparr> fs_files = [], fs_dirs = {} \<rparr> (export_key 7 9) [1, 2] = Inr s"
    using valid_key_resolves(1) [OF sample_key] by (simp add: fs_put_def)
  with stored_export_is_served [OF this, of 5 10 id] show ?thesis
    by auto
qed

end
