(* ===== verification/Memorial_Store.thy ===== *)
theory Memorial_Store imports Audit_Log begin

text \<open>
  The database of the memorial site, \<open>remembrance/schema.sql\<close> and \<open>remembrance/migrations/\<close>: the rows its
  consent, succession and erasure modules read and write, with the CHECK, UNIQUE and FOREIGN KEY constraints
  and the triggers of the consent history. SQLite keeps text, so the columns are text; a NULL is \<open>None\<close>, and
  an INTEGER flag is a truth value. The table \<open>events\<close> of timeline entries is called \<open>timeline\<close>.

  A transaction that raises leaves the database as it was (\<open>unit_of_work\<close>). What an operation reads from
  outside is its environment: \<open>reading env n\<close> is its n-th reading of the clock, \<open>token_hex env\<close> the random
  identifier it draws.
\<close>

datatype site_error =
    ConsentError pstr
  | SuccessionError pstr
  | ErasureError pstr
  | RuntimeError string
  | SqliteIntegrityError string
  | EncodeError
  | OSError

record site_env =
  reading :: "nat \<Rightarrow> timestamp"
  token_hex :: pstr

abbreviation stamp :: "site_env \<Rightarrow> nat \<Rightarrow> pstr" where
  "stamp env n \<equiv> isoformat (reading env n)"

section \<open>Rows\<close>

record site_user =
  us_id :: pstr
  us_email :: pstr
  us_name :: pstr
  us_password :: pstr
  us_created :: pstr

record memorial =
  me_id :: pstr
  me_owner_id :: pstr
  me_name :: pstr
  me_born :: pstr
  me_died :: pstr
  me_tagline :: pstr
  me_biography :: pstr
  me_location :: pstr
  me_visibility :: pstr
  me_portrait_id :: "pstr option"
  me_authority :: pstr
  me_authority_name :: pstr
  me_consent_at :: pstr
  me_successor :: pstr
  me_created :: pstr
  me_updated :: pstr
  me_archived :: bool
  me_demo :: bool

record member =
  mb_memorial_id :: pstr
  mb_email :: pstr

record media =
  mf_id :: pstr
  mf_memorial_id :: pstr
  mf_filename :: pstr
  mf_original_name :: pstr
  mf_mime :: pstr
  mf_caption :: pstr
  mf_visibility :: pstr
  mf_created :: pstr
  mf_archived :: bool

record story =
  sy_id :: pstr
  sy_memorial_id :: pstr
  sy_year :: int
  sy_title :: pstr
  sy_story :: pstr
  sy_visibility :: pstr
  sy_archived :: bool

record tribute =
  tb_id :: pstr
  tb_memorial_id :: pstr
  tb_name :: pstr
  tb_body :: pstr
  tb_status :: pstr
  tb_withdrawal_hash :: pstr
  tb_created :: pstr

record candle =
  cn_memorial_id :: pstr
  cn_visitor_hash :: pstr
  cn_day :: pstr

record abuse_report =
  ab_id :: pstr
  ab_memorial_id :: pstr
  ab_email :: pstr
  ab_category :: pstr
  ab_detail :: pstr
  ab_created :: pstr
  ab_status :: pstr

record hit_count =
  ht_key :: pstr
  ht_window :: int
  ht_hits :: nat

record activity_row =
  au_memorial_id :: pstr
  au_actor_id :: "pstr option"
  au_action :: pstr
  au_target_id :: "pstr option"
  au_created :: pstr

record control =
  co_memorial_id :: pstr
  co_enabled_at :: pstr
  co_death_date :: "pstr option"
  co_death_confirmed_at :: "pstr option"
  co_death_confirmed_by :: "pstr option"
  co_death_evidence :: "pstr option"

record sharing_grant =
  sg_id :: pstr
  sg_memorial_id :: pstr
  sg_created_by :: pstr
  sg_authority :: pstr
  sg_signed_name :: pstr
  sg_scope :: pstr
  sg_policy_version :: int
  sg_declaration_text :: pstr
  sg_audience :: pstr
  sg_activation :: pstr
  sg_status :: pstr
  sg_created_at :: pstr
  sg_verified_at :: "pstr option"
  sg_verified_by :: "pstr option"
  sg_evidence_digest :: "pstr option"
  sg_revoked_at :: "pstr option"
  sg_revoked_by :: "pstr option"

record history_event =
  he_memorial_id :: pstr
  he_sequence :: int
  he_event_type :: pstr
  he_actor_id :: "pstr option"
  he_grant_id :: "pstr option"
  he_payload :: pstr
  he_created_at :: pstr
  he_previous_hash :: pstr
  he_event_hash :: pstr

record succession_request =
  su_id :: pstr
  su_memorial_id :: pstr
  su_from_owner_id :: pstr
  su_nominee_id :: pstr
  su_memorial_name :: pstr
  su_inviter_name :: pstr
  su_status :: pstr
  su_created_at :: pstr
  su_accepted_at :: "pstr option"
  su_accepted_name :: "pstr option"
  su_accepted_authority :: "pstr option"
  su_declaration_text :: "pstr option"
  su_closed_at :: "pstr option"
  su_completed_by :: "pstr option"
  su_evidence_digest :: "pstr option"
  su_previous :: "(pstr \<times> pstr \<times> pstr) option"

record erasure_request =
  eq_id :: pstr
  eq_memorial_id :: pstr
  eq_requested_by :: pstr
  eq_signed_name :: pstr
  eq_declaration_text :: pstr
  eq_status :: pstr
  eq_created_at :: pstr
  eq_closed_at :: "pstr option"
  eq_closed_by :: "pstr option"
  eq_evidence_digest :: "pstr option"

record erasure =
  ez_memorial_id :: pstr
  ez_decided_at :: pstr
  ez_erased_at :: pstr
  ez_erased_by :: pstr
  ez_evidence_digest :: pstr
  ez_ledger_sequence :: int
  ez_ledger_hash :: pstr

record site_db =
  users :: "site_user list"
  memorials :: "memorial list"
  members :: "member list"
  media_files :: "media list"
  timeline :: "story list"
  tributes :: "tribute list"
  candles :: "candle list"
  reports :: "abuse_report list"
  hit_counts :: "hit_count list"
  activities :: "activity_row list"
  controls :: "control list"
  sharing_grants :: "sharing_grant list"
  history :: "history_event list"
  successions :: "succession_request list"
  erasure_requests :: "erasure_request list"
  erasures :: "erasure list"

definition empty_site :: site_db where
  "empty_site = \<lparr> users = [], memorials = [], members = [], media_files = [], timeline = [], tributes = [], candles = [],
     reports = [], hit_counts = [], activities = [], controls = [], sharing_grants = [], history = [], successions = [],
     erasure_requests = [], erasures = [] \<rparr>"

definition get_memorial :: "site_db \<Rightarrow> pstr \<Rightarrow> memorial option" where
  "get_memorial db mid = find (\<lambda>m. me_id m = mid) (memorials db)"

definition unit_of_work :: "site_db \<Rightarrow> site_error + (site_db \<times> 'a) \<Rightarrow> site_db \<times> (site_error + 'a)" where
  "unit_of_work db r = (case r of Inl e \<Rightarrow> (db, Inl e) | Inr (db', x) \<Rightarrow> (db', Inr x))"

lemma unit_of_work_simps [simp]: "unit_of_work db (Inl e) = (db, Inl e)" "unit_of_work db (Inr (db', x)) = (db', Inr x)"
  by (simp_all add: unit_of_work_def)

lemma unit_of_work_Inr: "unit_of_work db r = (db', Inr x) \<longleftrightarrow> r = Inr (db', x)"
  by (auto simp: unit_of_work_def split: sum.split)

section \<open>Constraints\<close>

definition statuses :: "pstr list" where "statuses = map lit [''pending'', ''verified'', ''revoked'']"
definition audiences :: "pstr list" where "audiences = map lit [''family'', ''public'']"
definition activations :: "pstr list" where "activations = map lit [''now'', ''after_death'']"
definition succession_statuses :: "pstr list" where
  "succession_statuses = map lit [''offered'', ''accepted'', ''declined'', ''cancelled'', ''completed'']"
definition active_statuses :: "pstr list" where "active_statuses = map lit [''offered'', ''accepted'']"
definition erasure_statuses :: "pstr list" where "erasure_statuses = map lit [''pending'', ''withdrawn'', ''declined'']"

definition grant_row_check :: "sharing_grant \<Rightarrow> bool" where
  "grant_row_check g \<longleftrightarrow> sg_scope g = lit ''memorial_view'' \<and> sg_policy_version g = 1 \<and> sg_audience g \<in> set audiences \<and>
     sg_activation g \<in> set activations \<and> sg_status g \<in> set statuses"

text \<open>The partial unique indexes: at most one row of a memorial is current.\<close>

definition one_current :: "sharing_grant list \<Rightarrow> bool" where
  "one_current gs \<longleftrightarrow> distinct (map sg_memorial_id (filter (\<lambda>g. sg_status g \<noteq> lit ''revoked'') gs))"

definition one_active :: "succession_request list \<Rightarrow> bool" where
  "one_active rs \<longleftrightarrow> distinct (map su_memorial_id (filter (\<lambda>r. su_status r \<in> set active_statuses) rs))"

definition one_pending :: "erasure_request list \<Rightarrow> bool" where
  "one_pending rs \<longleftrightarrow> distinct (map eq_memorial_id (filter (\<lambda>r. eq_status r = lit ''pending'') rs))"

definition succession_row_check :: "succession_request \<Rightarrow> bool" where
  "succession_row_check r \<longleftrightarrow> su_status r \<in> set succession_statuses \<and> su_from_owner_id r \<noteq> su_nominee_id r"

definition erasure_request_check :: "erasure_request \<Rightarrow> bool" where
  "erasure_request_check r \<longleftrightarrow> eq_status r \<in> set erasure_statuses"

definition insert_sharing_grant :: "sharing_grant \<Rightarrow> site_db \<Rightarrow> site_error + site_db" where
  "insert_sharing_grant g db =
     (let gs = sharing_grants db @ [g] in
      if \<not> grant_row_check g then Inl (SqliteIntegrityError ''consent_grants check'')
      else if \<not> distinct (map sg_id gs) then Inl (SqliteIntegrityError ''consent_grants.id'')
      else if \<not> one_current gs then Inl (SqliteIntegrityError ''consent_one_current_grant'')
      else if sg_memorial_id g \<notin> co_memorial_id ` set (controls db) then Inl (SqliteIntegrityError ''FOREIGN KEY'')
      else Inr (db\<lparr>sharing_grants := gs\<rparr>))"

text \<open>\<open>UPDATE \<dots> WHERE id=?\<close>, with the constraints checked on what it leaves.\<close>

definition update_sharing_grant :: "pstr \<Rightarrow> (sharing_grant \<Rightarrow> sharing_grant) \<Rightarrow> site_db \<Rightarrow> site_error + site_db" where
  "update_sharing_grant gid f db =
     (let gs = update_rows (\<lambda>g. sg_id g = gid) f (sharing_grants db) in
      if \<not> list_all grant_row_check gs then Inl (SqliteIntegrityError ''consent_grants check'')
      else if \<not> distinct (map sg_id gs) then Inl (SqliteIntegrityError ''consent_grants.id'')
      else if \<not> one_current gs then Inl (SqliteIntegrityError ''consent_one_current_grant'')
      else Inr (db\<lparr>sharing_grants := gs\<rparr>))"

definition insert_succession :: "succession_request \<Rightarrow> site_db \<Rightarrow> site_error + site_db" where
  "insert_succession r db =
     (let rs = successions db @ [r] in
      if \<not> succession_row_check r then Inl (SqliteIntegrityError ''succession_requests check'')
      else if \<not> distinct (map su_id rs) then Inl (SqliteIntegrityError ''succession_requests.id'')
      else if \<not> one_active rs then Inl (SqliteIntegrityError ''succession_one_active'')
      else if get_memorial db (su_memorial_id r) = None \<or>
        \<not> {su_from_owner_id r, su_nominee_id r} \<subseteq> us_id ` set (users db) then Inl (SqliteIntegrityError ''FOREIGN KEY'')
      else Inr (db\<lparr>successions := rs\<rparr>))"

definition update_succession :: "pstr \<Rightarrow> (succession_request \<Rightarrow> succession_request) \<Rightarrow> site_db \<Rightarrow> site_error + site_db" where
  "update_succession rid f db =
     (let rs = update_rows (\<lambda>r. su_id r = rid) f (successions db) in
      if \<not> list_all succession_row_check rs then Inl (SqliteIntegrityError ''succession_requests check'')
      else if \<not> one_active rs then Inl (SqliteIntegrityError ''succession_one_active'')
      else Inr (db\<lparr>successions := rs\<rparr>))"

definition insert_erasure_request :: "erasure_request \<Rightarrow> site_db \<Rightarrow> site_error + site_db" where
  "insert_erasure_request r db =
     (let rs = erasure_requests db @ [r] in
      if \<not> erasure_request_check r then Inl (SqliteIntegrityError ''erasure_requests check'')
      else if \<not> distinct (map eq_id rs) then Inl (SqliteIntegrityError ''erasure_requests.id'')
      else if \<not> one_pending rs then Inl (SqliteIntegrityError ''erasure_one_pending'')
      else if get_memorial db (eq_memorial_id r) = None \<or> eq_requested_by r \<notin> us_id ` set (users db)
      then Inl (SqliteIntegrityError ''FOREIGN KEY'')
      else Inr (db\<lparr>erasure_requests := rs\<rparr>))"

definition update_erasure_request :: "pstr \<Rightarrow> (erasure_request \<Rightarrow> erasure_request) \<Rightarrow> site_db \<Rightarrow> site_error + site_db" where
  "update_erasure_request rid f db =
     (let rs = update_rows (\<lambda>r. eq_id r = rid) f (erasure_requests db) in
      if \<not> list_all erasure_request_check rs then Inl (SqliteIntegrityError ''erasure_requests check'')
      else if \<not> one_pending rs then Inl (SqliteIntegrityError ''erasure_one_pending'')
      else Inr (db\<lparr>erasure_requests := rs\<rparr>))"

definition insert_activity :: "activity_row \<Rightarrow> site_db \<Rightarrow> site_error + site_db" where
  "insert_activity a db =
     (if get_memorial db (au_memorial_id a) = None then Inl (SqliteIntegrityError ''FOREIGN KEY'')
      else Inr (db\<lparr>activities := activities db @ [a]\<rparr>))"

definition insert_erasure :: "erasure \<Rightarrow> site_db \<Rightarrow> site_error + site_db" where
  "insert_erasure e db =
     (let es = erasures db @ [e] in
      if \<not> distinct (map ez_memorial_id es) then Inl (SqliteIntegrityError ''erasures.memorial_id'')
      else if \<not> distinct (map ez_ledger_sequence es) then Inl (SqliteIntegrityError ''erasures.ledger_sequence'')
      else Inr (db\<lparr>erasures := es\<rparr>))"

lemmas store_defs = insert_sharing_grant_def update_sharing_grant_def insert_succession_def update_succession_def
  insert_erasure_request_def update_erasure_request_def insert_activity_def insert_erasure_def

end
