(* ===== verification/Memorial_Consent.thy ===== *)
theory Memorial_Consent imports Memorial_Store "HOL-Library.Product_Lexorder" begin

text \<open>
  Reviewed sharing of a memorial, \<open>remembrance/consent.py\<close>: the pure gate \<open>decide\<close>, the owner's grants and
  their review by an operator, the record of a death, \<open>authorize\<close>, and the hash-chained history every
  operation appends to, with its verifier and checkpoints.

  \<open>sha\<close> is SHA-256 of the UTF-8 encoding in hexadecimal, \<open>fromiso\<close> is \<open>date.fromisoformat\<close>; both are
  arguments. \<open>canonical\<close> is the same \<open>json.dumps\<close> call as the kernel's \<open>canonical_json\<close>.
\<close>

section \<open>The gate\<close>

record gate_decision =
  gd_allowed :: bool
  gd_code :: pstr

abbreviation deny :: "string \<Rightarrow> gate_decision" where
  "deny code \<equiv> \<lparr> gd_allowed = False, gd_code = lit code \<rparr>"

definition gate :: "sharing_grant option \<Rightarrow> bool \<Rightarrow> pstr \<Rightarrow> pstr \<Rightarrow> pstr \<Rightarrow> gate_decision" where
  "gate grant death_confirmed role action purpose =
     (if action \<noteq> lit ''memorial_view'' \<or> purpose \<noteq> lit ''memorial'' then deny ''unsupported_use''
      else if role \<notin> {lit ''public'', lit ''family''} then deny ''unsupported_role''
      else (case grant of
          None \<Rightarrow> deny ''no_grant''
        | Some g \<Rightarrow>
            if sg_status g = lit ''revoked'' then deny ''revoked''
            else if sg_status g \<noteq> lit ''verified'' then deny ''awaiting_review''
            else if sg_scope g \<noteq> action \<or> sg_policy_version g \<noteq> 1 then deny ''unsupported_use''
            else if sg_activation g \<notin> {lit ''now'', lit ''after_death''} then deny ''invalid_activation''
            else if sg_activation g = lit ''after_death'' \<and> \<not> death_confirmed then deny ''awaiting_death_confirmation''
            else if sg_audience g \<notin> {lit ''family'', lit ''public''} \<or> (sg_audience g = lit ''family'' \<and> role \<noteq> lit ''family'')
            then deny ''audience_restricted''
            else \<lparr> gd_allowed = True, gd_code = lit ''allowed'' \<rparr>))"

text \<open>The policy the gate decides.\<close>

definition may_view :: "sharing_grant \<Rightarrow> bool \<Rightarrow> pstr \<Rightarrow> bool" where
  "may_view g death_confirmed role \<longleftrightarrow> sg_status g = lit ''verified'' \<and> sg_scope g = lit ''memorial_view'' \<and> sg_policy_version g = 1 \<and>
     (sg_activation g = lit ''now'' \<or> sg_activation g = lit ''after_death'' \<and> death_confirmed) \<and>
     (sg_audience g = lit ''public'' \<and> role \<in> {lit ''public'', lit ''family''} \<or> sg_audience g = lit ''family'' \<and> role = lit ''family'')"

lemma gate_correct:
  "gd_allowed (gate grant death_confirmed role action purpose) \<longleftrightarrow> action = lit ''memorial_view'' \<and> purpose = lit ''memorial'' \<and>
     (\<exists>g. grant = Some g \<and> may_view g death_confirmed role)"
  by (cases grant) (auto simp: gate_def may_view_def)

section \<open>The history\<close>

definition zero_hash :: pstr where "zero_hash = replicate 64 48"

definition event_fields :: "history_event \<Rightarrow> json" where
  "event_fields e = JObj [
     (lit ''memorial_id'', JStr (he_memorial_id e)),
     (lit ''sequence'', JInt (he_sequence e)),
     (lit ''event_type'', JStr (he_event_type e)),
     (lit ''actor_id'', case he_actor_id e of Some a \<Rightarrow> JStr a | None \<Rightarrow> JNull),
     (lit ''grant_id'', case he_grant_id e of Some g \<Rightarrow> JStr g | None \<Rightarrow> JNull),
     (lit ''payload'', JStr (he_payload e)),
     (lit ''created_at'', JStr (he_created_at e)),
     (lit ''previous_hash'', JStr (he_previous_hash e))]"

definition history_text :: "history_event \<Rightarrow> pstr" where
  "history_text e = canonical_json (event_fields e)"

definition digest :: "(pstr \<Rightarrow> pstr) \<Rightarrow> pstr \<Rightarrow> site_error + pstr" where
  "digest sha s = (if encodable s then Inr (sha s) else Inl EncodeError)"

text \<open>\<open>SELECT \<dots> WHERE memorial_id=? ORDER BY sequence\<close>, and its last row.\<close>

definition chain_of :: "site_db \<Rightarrow> pstr \<Rightarrow> history_event list" where
  "chain_of db mid = sort_key he_sequence (filter (\<lambda>e. he_memorial_id e = mid) (history db))"

definition last_event :: "site_db \<Rightarrow> pstr \<Rightarrow> history_event option" where
  "last_event db mid = (if chain_of db mid = [] then None else Some (last (chain_of db mid)))"

text \<open>The primary key and the append-only trigger.\<close>

definition insert_history :: "history_event \<Rightarrow> site_db \<Rightarrow> site_error + site_db" where
  "insert_history e db =
     (let head = last_event db (he_memorial_id e) in
      if he_sequence e \<noteq> (case head of Some p \<Rightarrow> he_sequence p | None \<Rightarrow> 0) + 1 \<or>
         he_previous_hash e \<noteq> (case head of Some p \<Rightarrow> he_event_hash p | None \<Rightarrow> zero_hash)
      then Inl (SqliteIntegrityError ''Consent history must extend the current head'')
      else if (he_memorial_id e, he_sequence e) \<in> set (map (\<lambda>x. (he_memorial_id x, he_sequence x)) (history db))
      then Inl (SqliteIntegrityError ''consent_events'')
      else Inr (db\<lparr>history := history db @ [e]\<rparr>))"

definition append_history ::
    "(pstr \<Rightarrow> pstr) \<Rightarrow> pstr \<Rightarrow> pstr \<Rightarrow> string \<Rightarrow> pstr option \<Rightarrow> pstr option \<Rightarrow> (pstr \<times> json) list \<Rightarrow> site_db \<Rightarrow> site_error + site_db" where
  "append_history sha created_at mid kind actor grant_id payload db =
     (let previous = last_event db mid;
          event = \<lparr> he_memorial_id = mid, he_sequence = (case previous of Some p \<Rightarrow> he_sequence p + 1 | None \<Rightarrow> 1),
            he_event_type = lit kind, he_actor_id = actor, he_grant_id = grant_id, he_payload = canonical_json (JObj payload),
            he_created_at = created_at, he_previous_hash = (case previous of Some p \<Rightarrow> he_event_hash p | None \<Rightarrow> zero_hash),
            he_event_hash = [] \<rparr>
      in bindE (digest sha (history_text event)) (\<lambda>h. insert_history (event\<lparr>he_event_hash := h\<rparr>) db))"

section \<open>Grants\<close>

definition declaration_text :: pstr where
  "declaration_text = lit (''I authorize viewing of this memorial and its current and future original media, stories and tributes '' @
     ''by the audience and at the release time selected in this grant. Existing visibility settings may further '' @
     ''restrict access. This permission excludes voice synthesis, generated messages, advertising and model '' @
     ''training. I can revoke this grant to pause future visitor access; copies already downloaded cannot be recalled.'')"

definition current_grant :: "site_db \<Rightarrow> pstr \<Rightarrow> sharing_grant option" where
  "current_grant db mid = find (\<lambda>g. sg_memorial_id g = mid \<and> sg_status g \<noteq> lit ''revoked'') (sharing_grants db)"

definition get_control :: "site_db \<Rightarrow> pstr \<Rightarrow> control option" where
  "get_control db mid = find (\<lambda>c. co_memorial_id c = mid) (controls db)"

definition consent_error :: "string \<Rightarrow> site_error + 'a" where
  "consent_error m = Inl (ConsentError (lit m))"

text \<open>\<open>INSERT OR IGNORE INTO consent_controls\<close>.\<close>

definition enable_control :: "pstr \<Rightarrow> pstr \<Rightarrow> site_db \<Rightarrow> site_db" where
  "enable_control mid at db =
     (if get_control db mid \<noteq> None then db
      else db\<lparr>controls := controls db @ [\<lparr> co_memorial_id = mid, co_enabled_at = at, co_death_date = None,
        co_death_confirmed_at = None, co_death_confirmed_by = None, co_death_evidence = None \<rparr>]\<rparr>)"

definition owned_by :: "site_db \<Rightarrow> pstr \<Rightarrow> pstr \<Rightarrow> memorial option" where
  "owned_by db mid owner_id = (case get_memorial db mid of
     Some m \<Rightarrow> if me_owner_id m = owner_id \<and> \<not> me_demo m then Some m else None | None \<Rightarrow> None)"

definition name_ok :: "pstr \<Rightarrow> bool" where
  "name_ok s \<longleftrightarrow> 1 \<le> length s \<and> length s \<le> 120"

definition pending_grant :: "site_env \<Rightarrow> memorial \<Rightarrow> pstr \<Rightarrow> pstr \<Rightarrow> pstr \<Rightarrow> pstr \<Rightarrow> sharing_grant" where
  "pending_grant env m owner_id signed_name audience activation = \<lparr> sg_id = token_hex env, sg_memorial_id = me_id m,
     sg_created_by = owner_id, sg_authority = me_authority m, sg_signed_name = signed_name, sg_scope = lit ''memorial_view'',
     sg_policy_version = 1, sg_declaration_text = declaration_text, sg_audience = audience, sg_activation = activation,
     sg_status = lit ''pending'', sg_created_at = stamp env 0, sg_verified_at = None, sg_verified_by = None,
     sg_evidence_digest = None, sg_revoked_at = None, sg_revoked_by = None \<rparr>"

definition record_grant ::
    "(pstr \<Rightarrow> pstr) \<Rightarrow> site_env \<Rightarrow> pstr \<Rightarrow> pstr \<Rightarrow> pstr \<Rightarrow> pstr \<Rightarrow> pstr \<Rightarrow> site_db \<Rightarrow> site_error + (site_db \<times> pstr)" where
  "record_grant sha env mid owner_id signed_name audience activation db =
     (let signed_name = strip_by py_isspace signed_name in
      if \<not> name_ok signed_name \<or> audience \<notin> set audiences \<or> activation \<notin> set activations
      then consent_error ''Choose a valid audience and release time, and enter your full name.''
      else (case owned_by db mid owner_id of
          None \<Rightarrow> consent_error ''Only the memorial owner can record this grant.''
        | Some m \<Rightarrow>
            if current_grant db mid \<noteq> None then consent_error ''Revoke the current grant before recording a replacement.''
            else bindE (insert_sharing_grant (pending_grant env m owner_id signed_name audience activation)
                   (enable_control mid (stamp env 0) db)) (\<lambda>db1.
              bindE (digest sha (canonical_json (JObj [(lit ''signed_name'', JStr signed_name), (lit ''text'', JStr declaration_text)]))) (\<lambda>d.
              bindE (append_history sha (stamp env 1) mid ''grant_recorded'' (Some owner_id) (Some (token_hex env))
                [(lit ''audience'', JStr audience), (lit ''activation'', JStr activation), (lit ''scope'', JStr (lit ''memorial_view'')),
                 (lit ''policy_version'', JInt 1), (lit ''authority'', JStr (me_authority m)), (lit ''declaration_digest'', JStr d)] db1) (\<lambda>db2.
              Inr (db2, token_hex env))))))"

section \<open>The operator\<close>

definition is_ascii_alnum :: "nat \<Rightarrow> bool" where
  "is_ascii_alnum c \<longleftrightarrow> (48 \<le> c \<and> c \<le> 57) \<or> (65 \<le> c \<and> c \<le> 90) \<or> (97 \<le> c \<and> c \<le> 122)"

definition reviewer_id :: "pstr \<Rightarrow> bool" where
  "reviewer_id s \<longleftrightarrow> s \<noteq> [] \<and> is_ascii_alnum (hd s) \<and> list_all (\<lambda>c. is_ascii_alnum c \<or> c \<in> {95, 46, 45}) (tl s) \<and> length s \<le> 64"

definition operator_identity :: "(pstr \<Rightarrow> pstr) \<Rightarrow> pstr \<Rightarrow> pstr \<Rightarrow> site_error + (pstr \<times> pstr)" where
  "operator_identity sha reviewer reference =
     (if \<not> reviewer_id reviewer
      then Inl (ConsentError (lit ''Use an opaque reviewer ID with 1'' @ [8211] @ lit ''64 letters, digits, dots, underscores or hyphens.''))
      else (let reference = strip_by py_isspace reference in
        if \<not> (1 \<le> length reference \<and> length reference \<le> 200)
        then Inl (ConsentError (lit ''Provide a case reference of 1'' @ [8211] @ lit ''200 characters; store evidence separately.''))
        else bindE (digest sha reference) (\<lambda>evidence. Inr (lit ''operator:'' @ reviewer, evidence))))"

definition get_sharing_grant :: "site_db \<Rightarrow> pstr \<Rightarrow> sharing_grant option" where
  "get_sharing_grant db gid = find (\<lambda>g. sg_id g = gid) (sharing_grants db)"

definition verified_grant :: "pstr \<Rightarrow> pstr \<Rightarrow> pstr \<Rightarrow> sharing_grant \<Rightarrow> sharing_grant" where
  "verified_grant at actor evidence g = g\<lparr>sg_status := lit ''verified'', sg_verified_at := Some at, sg_verified_by := Some actor,
     sg_evidence_digest := Some evidence\<rparr>"

definition verify_grant :: "(pstr \<Rightarrow> pstr) \<Rightarrow> site_env \<Rightarrow> pstr \<Rightarrow> pstr \<Rightarrow> pstr \<Rightarrow> site_db \<Rightarrow> site_error + (site_db \<times> unit)" where
  "verify_grant sha env gid reviewer reference db =
     bindE (operator_identity sha reviewer reference) (\<lambda>(actor, evidence).
     case get_sharing_grant db gid of
       None \<Rightarrow> consent_error ''Only a pending grant can be verified.''
     | Some g \<Rightarrow>
         if sg_status g \<noteq> lit ''pending'' then consent_error ''Only a pending grant can be verified.''
         else bindE (update_sharing_grant gid (verified_grant (stamp env 0) actor evidence) db) (\<lambda>db1.
           bindE (append_history sha (stamp env 1) (sg_memorial_id g) ''grant_verified'' (Some actor) (Some gid)
             [(lit ''evidence_digest'', JStr evidence)] db1) (\<lambda>db2.
           Inr (db2, ()))))"

definition revoked_sharing :: "pstr \<Rightarrow> pstr \<Rightarrow> sharing_grant \<Rightarrow> sharing_grant" where
  "revoked_sharing at actor g = g\<lparr>sg_status := lit ''revoked'', sg_revoked_at := Some at, sg_revoked_by := Some actor\<rparr>"

text \<open>Who revokes: the owner, or an operator with a case reference.\<close>

definition revoker ::
    "(pstr \<Rightarrow> pstr) \<Rightarrow> pstr option \<Rightarrow> pstr option \<Rightarrow> pstr option \<Rightarrow> site_error + (pstr \<times> (pstr \<times> json) list)" where
  "revoker sha owner_id reviewer reference = (case owner_id of
     Some owner \<Rightarrow> Inr (owner, [])
   | None \<Rightarrow> bindE (operator_identity sha (case reviewer of Some r \<Rightarrow> r | None \<Rightarrow> []) (case reference of Some r \<Rightarrow> r | None \<Rightarrow> []))
       (\<lambda>(actor, evidence). Inr (actor, [(lit ''evidence_digest'', JStr evidence)])))"

definition revoke_sharing ::
    "(pstr \<Rightarrow> pstr) \<Rightarrow> site_env \<Rightarrow> pstr \<Rightarrow> pstr \<Rightarrow> pstr option \<Rightarrow> pstr option \<Rightarrow> pstr option \<Rightarrow> site_db \<Rightarrow> site_error + (site_db \<times> bool)" where
  "revoke_sharing sha env mid gid owner_id reviewer reference db =
     bindE (revoker sha owner_id reviewer reference) (\<lambda>(actor, payload).
     case get_memorial db mid of
       None \<Rightarrow> consent_error ''Memorial not found or owner does not match.''
     | Some m \<Rightarrow>
         if me_demo m \<or> (case owner_id of Some owner \<Rightarrow> me_owner_id m \<noteq> owner | None \<Rightarrow> False)
         then consent_error ''Memorial not found or owner does not match.''
         else (case find (\<lambda>g. sg_id g = gid \<and> sg_memorial_id g = mid) (sharing_grants db) of
             None \<Rightarrow> consent_error ''Grant not found for this memorial.''
           | Some g \<Rightarrow>
               if sg_status g = lit ''revoked'' then Inr (db, False)
               else bindE (update_sharing_grant gid (revoked_sharing (stamp env 0) actor) db) (\<lambda>db1.
                 bindE (append_history sha (stamp env 1) mid ''grant_revoked'' (Some actor) (Some gid) payload db1) (\<lambda>db2.
                 Inr (db2, True)))))"

section \<open>Deaths\<close>

text \<open>\<open>date.isoformat()\<close>: the date part of the moment the day begins.\<close>

definition date_str :: "day \<Rightarrow> pstr" where
  "date_str d = take 10 (isoformat (d * one_day))"

definition update_control :: "pstr \<Rightarrow> (control \<Rightarrow> control) \<Rightarrow> site_db \<Rightarrow> site_db" where
  "update_control mid f db = db\<lparr>controls := update_rows (\<lambda>c. co_memorial_id c = mid) f (controls db)\<rparr>"

definition confirm_death ::
    "(pstr \<Rightarrow> pstr) \<Rightarrow> (pstr \<Rightarrow> day option) \<Rightarrow> site_env \<Rightarrow> pstr \<Rightarrow> pstr \<Rightarrow> pstr \<Rightarrow> pstr \<Rightarrow> site_db \<Rightarrow> site_error + (site_db \<times> unit)" where
  "confirm_death sha fromiso env mid death_date reviewer reference db =
     bindE (operator_identity sha reviewer reference) (\<lambda>(actor, evidence).
     case fromiso death_date of
       None \<Rightarrow> consent_error ''Use a valid date of passing that is not in the future.''
     | Some parsed \<Rightarrow>
         if date_of (reading env 0) < parsed then consent_error ''Use a valid date of passing that is not in the future.''
         else (case get_control db mid of
             None \<Rightarrow> consent_error ''This memorial has not enabled reviewed sharing.''
           | Some c \<Rightarrow>
               if co_death_confirmed_at c \<notin> {None, Some []} then consent_error ''Clear the existing death confirmation before replacing it.''
               else (case get_memorial db mid of
                   None \<Rightarrow> Inl (RuntimeError ''TypeError'')
                 | Some m \<Rightarrow>
                     if me_born m \<noteq> [] \<and> date_str parsed < me_born m
                     then consent_error ''The date of passing must not precede the date of birth.''
                     else bindE (digest sha (date_str parsed)) (\<lambda>date_digest.
                       bindE (append_history sha (stamp env 2) mid ''death_confirmed'' (Some actor) None
                         [(lit ''evidence_digest'', JStr evidence), (lit ''date_digest'', JStr date_digest)]
                         (update_control mid (\<lambda>c. c\<lparr>co_death_date := Some (date_str parsed), co_death_confirmed_at := Some (stamp env 1),
                            co_death_confirmed_by := Some actor, co_death_evidence := Some evidence\<rparr>) db)) (\<lambda>db2.
                       Inr (db2, ()))))))"

definition clear_death :: "(pstr \<Rightarrow> pstr) \<Rightarrow> site_env \<Rightarrow> pstr \<Rightarrow> pstr \<Rightarrow> pstr \<Rightarrow> site_db \<Rightarrow> site_error + (site_db \<times> unit)" where
  "clear_death sha env mid reviewer reference db =
     bindE (operator_identity sha reviewer reference) (\<lambda>(actor, evidence).
     case get_control db mid of
       None \<Rightarrow> consent_error ''There is no death confirmation to clear.''
     | Some c \<Rightarrow>
         if co_death_confirmed_at c \<in> {None, Some []} then consent_error ''There is no death confirmation to clear.''
         else bindE (append_history sha (stamp env 0) mid ''death_confirmation_cleared'' (Some actor) None
             [(lit ''evidence_digest'', JStr evidence)]
             (update_control mid (\<lambda>c. c\<lparr>co_death_date := None, co_death_confirmed_at := None, co_death_confirmed_by := None,
                co_death_evidence := None\<rparr>) db)) (\<lambda>db2.
           Inr (db2, ())))"

section \<open>Authorizing a view\<close>

definition view_decision :: "site_db \<Rightarrow> pstr \<Rightarrow> pstr \<Rightarrow> pstr \<Rightarrow> pstr \<Rightarrow> sharing_grant option \<times> gate_decision" where
  "view_decision db mid role action purpose = (case get_control db mid of
     None \<Rightarrow> (None, deny ''no_grant'')
   | Some c \<Rightarrow> (let grant = current_grant db mid in
       (grant, gate grant (co_death_confirmed_at c \<notin> {None, Some []}) role action purpose)))"

definition authorize_view ::
    "(pstr \<Rightarrow> pstr) \<Rightarrow> site_env \<Rightarrow> pstr \<Rightarrow> pstr \<Rightarrow> pstr option \<Rightarrow> pstr \<Rightarrow> pstr \<Rightarrow> site_db \<Rightarrow> site_error + (site_db \<times> gate_decision)" where
  "authorize_view sha env mid role actor_id action purpose db =
     (let (grant, result) = view_decision db mid role action purpose in
      bindE (append_history sha (stamp env 0) mid (if gd_allowed result then ''authorized'' else ''denied'') actor_id
        (map_option sg_id grant) [(lit ''reason'', JStr (gd_code result))] db) (\<lambda>db1.
      Inr (db1, result)))"

section \<open>Verifying the history\<close>

type_synonym heads = "(pstr \<times> int \<times> pstr) list"

definition is_hex64 :: "pstr \<Rightarrow> bool" where
  "is_hex64 s \<longleftrightarrow> length s = 64 \<and> list_all (\<lambda>c. (48 \<le> c \<and> c \<le> 57) \<or> (97 \<le> c \<and> c \<le> 102)) s"

definition checkpoint_format :: pstr where "checkpoint_format = lit ''remembrance-consent-checkpoint''"

text \<open>One head of a checkpoint; \<open>type(x) is not int\<close> excludes booleans.\<close>

definition checkpoint_head :: "json \<Rightarrow> (int \<times> pstr) option" where
  "checkpoint_head v = (case v of
     JObj kvs \<Rightarrow> (case (map_of kvs (lit ''sequence''), map_of kvs (lit ''hash'')) of
         (Some (JInt n), Some (JStr h)) \<Rightarrow> if n < 1 \<or> \<not> is_hex64 h then None else Some (n, h)
       | _ \<Rightarrow> None)
   | _ \<Rightarrow> None)"

fun checkpoint_profiles :: "(pstr \<times> json) list \<Rightarrow> heads option" where
  "checkpoint_profiles [] = Some []"
| "checkpoint_profiles ((mid, head) # rest) = (case checkpoint_head head of
     None \<Rightarrow> None | Some h \<Rightarrow> map_option ((#) (mid, h)) (checkpoint_profiles rest))"

text \<open>\<open>1 == True\<close> in Python.\<close>

definition checkpoint_heads :: "json option \<Rightarrow> site_error + heads" where
  "checkpoint_heads checkpoint = (case checkpoint of
     None \<Rightarrow> Inr []
   | Some (JObj d) \<Rightarrow>
       if map_of d (lit ''format'') = Some (JStr checkpoint_format) \<and> map_of d (lit ''version'') \<in> {Some (JInt 1), Some (JBool True)}
       then (case map_of d (lit ''profiles'') of
           Some (JObj recorded) \<Rightarrow> (case checkpoint_profiles recorded of
               Some heads \<Rightarrow> Inr heads | None \<Rightarrow> consent_error ''Invalid consent checkpoint head.'')
         | _ \<Rightarrow> consent_error ''Unsupported consent checkpoint.'')
       else consent_error ''Unsupported consent checkpoint.''
   | Some _ \<Rightarrow> consent_error ''Unsupported consent checkpoint.'')"

definition verify_row :: "(pstr \<Rightarrow> pstr) \<Rightarrow> heads \<Rightarrow> history_event \<Rightarrow> heads \<times> pstr list \<Rightarrow> site_error + (heads \<times> pstr list)" where
  "verify_row sha expected row state =
     (let (heads, matched) = state; mid = he_memorial_id row;
          previous = (case map_of heads mid of Some h \<Rightarrow> h | None \<Rightarrow> (0, zero_hash)) in
      bindE (digest sha (history_text row)) (\<lambda>calculated.
        if he_sequence row \<noteq> fst previous + 1 \<or> he_previous_hash row \<noteq> snd previous \<or> he_event_hash row \<noteq> calculated
        then Inl (ConsentError (lit ''Consent history failed verification for '' @ mid @ lit '' at event '' @ int_str (he_sequence row) @ lit ''.''))
        else (let heads = AList.update mid (he_sequence row, he_event_hash row) heads in
          case map_of expected mid of
            None \<Rightarrow> Inr (heads, matched)
          | Some (n, h) \<Rightarrow>
              if he_sequence row \<noteq> n then Inr (heads, matched)
              else if he_event_hash row \<noteq> h
              then Inl (ConsentError (lit ''Consent history differs from the checkpoint for '' @ mid @ lit ''.''))
              else Inr (heads, mid # matched))))"

fun verify_rows :: "(pstr \<Rightarrow> pstr) \<Rightarrow> heads \<Rightarrow> history_event list \<Rightarrow> heads \<times> pstr list \<Rightarrow> site_error + (heads \<times> pstr list)" where
  "verify_rows sha expected [] state = Inr state"
| "verify_rows sha expected (row # rows) state = bindE (verify_row sha expected row state) (verify_rows sha expected rows)"

definition checkpoint_json :: "heads \<Rightarrow> json" where
  "checkpoint_json heads = JObj [(lit ''format'', JStr checkpoint_format), (lit ''version'', JInt 1),
     (lit ''profiles'', JObj (map (\<lambda>(mid, n, h). (mid, JObj [(lit ''sequence'', JInt n), (lit ''hash'', JStr h)])) heads))]"

definition verify_history :: "(pstr \<Rightarrow> pstr) \<Rightarrow> site_db \<Rightarrow> json option \<Rightarrow> site_error + json" where
  "verify_history sha db checkpoint =
     bindE (checkpoint_heads checkpoint) (\<lambda>expected.
     bindE (verify_rows sha expected (sort_key (\<lambda>e. (he_memorial_id e, he_sequence e)) (history db)) ([], [])) (\<lambda>(heads, matched).
       if set (map fst expected) \<noteq> set matched then consent_error ''Consent history is missing events recorded in the checkpoint.''
       else Inr (checkpoint_json heads)))"

end
