(* ===== verification/Memorial_History.thy ===== *)
theory Memorial_History imports Memorial_Consent begin

text \<open>
  Correctness of the sharing history: the text that is digested determines the event, an append extends the
  chain of its memorial and no other and is never refused by the trigger, the verifier accepts exactly the
  histories whose chains are numbered from one, linked and sealed, and a checkpoint fixes the past.
\<close>

section \<open>The digest commits to the event\<close>

definition same_event :: "history_event \<Rightarrow> history_event \<Rightarrow> bool" where
  "same_event d e \<longleftrightarrow> d\<lparr>he_event_hash := []\<rparr> = e\<lparr>he_event_hash := []\<rparr>"

lemma canon_event_fields:
  "canon (event_fields e) = JObj [
     (lit ''actor_id'', case he_actor_id e of Some a \<Rightarrow> JStr a | None \<Rightarrow> JNull),
     (lit ''created_at'', JStr (he_created_at e)),
     (lit ''event_type'', JStr (he_event_type e)),
     (lit ''grant_id'', case he_grant_id e of Some g \<Rightarrow> JStr g | None \<Rightarrow> JNull),
     (lit ''memorial_id'', JStr (he_memorial_id e)),
     (lit ''payload'', JStr (he_payload e)),
     (lit ''previous_hash'', JStr (he_previous_hash e)),
     (lit ''sequence'', JInt (he_sequence e))]"
  by (cases "he_actor_id e"; cases "he_grant_id e") (simp_all add: event_fields_def lit_def)

lemma history_text_iff: "history_text d = history_text e \<longleftrightarrow> same_event d e"
  unfolding history_text_def canonical_json_eq canon_event_fields
  by (cases d; cases e) (auto simp: same_event_def split: option.splits)

interpretation history: hash_chain sha history_text he_previous_hash he_event_hash zero_hash
  for sha :: "pstr \<Rightarrow> pstr"
proof
  fix d e :: history_event
  assume "history_text d = history_text e"
  then have "he_previous_hash (d\<lparr>he_event_hash := []\<rparr>) = he_previous_hash (e\<lparr>he_event_hash := []\<rparr>)"
    by (simp add: history_text_iff same_event_def)
  then show "he_previous_hash d = he_previous_hash e" by simp
qed

section \<open>Chains\<close>

lemma map_eq_all2: "map f xs = map f ys \<longleftrightarrow> list_all2 (\<lambda>x y. f x = f y) xs ys"
proof (induction xs arbitrary: ys)
  case (Cons x xs)
  then show ?case by (cases ys) auto
qed auto

definition chain_good :: "(pstr \<Rightarrow> pstr) \<Rightarrow> history_event list \<Rightarrow> bool" where
  "chain_good sha es \<longleftrightarrow> chain_from he_previous_hash he_event_hash zero_hash es \<and>
     (\<forall>e \<in> set es. digest sha (history_text e) = Inr (he_event_hash e)) \<and>
     (\<forall>i < length es. he_sequence (es ! i) = int i + 1)"

definition history_ok :: "(pstr \<Rightarrow> pstr) \<Rightarrow> site_db \<Rightarrow> bool" where
  "history_ok sha db \<longleftrightarrow> (\<forall>mid. chain_good sha (chain_of db mid))"

lemma digest_Inr: "digest sha t = Inr h \<longleftrightarrow> encodable t \<and> h = sha t"
  by (auto simp: digest_def)

lemma chain_good_Nil [simp]: "chain_good sha []"
  by (simp add: chain_good_def)

lemma chain_good_intact: "chain_good sha es \<Longrightarrow> history.intact sha es"
  by (auto simp: chain_good_def history.intact_def history.sealed_def digest_Inr)

lemma chain_good_take: "chain_good sha es \<Longrightarrow> chain_good sha (take n es)"
  by (auto simp: chain_good_def chain_from_take dest: in_set_takeD)

lemma chain_good_sequence: "chain_good sha es \<Longrightarrow> i < length es \<Longrightarrow> he_sequence (es ! i) = int i + 1"
  by (simp add: chain_good_def)

lemma chain_good_snoc:
  "chain_good sha (es @ [e]) \<longleftrightarrow> chain_good sha es \<and> he_sequence e = int (length es) + 1 \<and>
     he_previous_hash e = (if es = [] then zero_hash else he_event_hash (last es)) \<and>
     digest sha (history_text e) = Inr (he_event_hash e)"
  by (auto simp: chain_good_def head_from_last nth_append less_Suc_eq)

lemma set_chain_of: "set (chain_of db mid) = {e \<in> set (history db). he_memorial_id e = mid}"
  by (auto simp: chain_of_def)

lemma last_sequence:
  assumes "chain_good sha es" and "es \<noteq> []"
  shows "he_sequence (last es) = int (length es)"
proof -
  have "he_sequence (es ! (length es - 1)) = int (length es - 1) + 1"
    using assms by (intro chain_good_sequence) auto
  with assms(2) show ?thesis by (cases es rule: rev_cases) simp_all
qed

section \<open>Appending\<close>

lemma insort_key_greatest:
  assumes "f x \<le> f e"
  shows "insort_key f x (ys @ [e]) = insort_key f x ys @ [e]"
  using assms by (induction ys) auto

lemma sort_key_snoc:
  assumes "\<And>x. x \<in> set xs \<Longrightarrow> f x \<le> f e"
  shows "sort_key f (xs @ [e]) = sort_key f xs @ [e]"
  using assms by (induction xs) (auto simp: insort_key_greatest)

lemma chain_of_snoc:
  assumes "\<And>x. x \<in> set (history db) \<Longrightarrow> he_memorial_id x = he_memorial_id e \<Longrightarrow> he_sequence x \<le> he_sequence e"
  shows "chain_of (db\<lparr>history := history db @ [e]\<rparr>) mid = chain_of db mid @ (if he_memorial_id e = mid then [e] else [])"
  using assms by (auto simp: chain_of_def intro!: sort_key_snoc)

text \<open>The event an append writes.\<close>

definition appended :: "site_db \<Rightarrow> site_db \<Rightarrow> pstr \<Rightarrow> string \<Rightarrow> pstr option \<Rightarrow> pstr option \<Rightarrow> (pstr \<times> json) list \<Rightarrow> bool" where
  "appended db db' mid kind actor grant_id payload \<longleftrightarrow> (\<exists>e. db' = db\<lparr>history := history db @ [e]\<rparr> \<and> he_memorial_id e = mid \<and>
     he_event_type e = lit kind \<and> he_actor_id e = actor \<and> he_grant_id e = grant_id \<and> he_payload e = canonical_json (JObj payload))"

lemma append_history_event:
  assumes "append_history sha at mid kind actor gid payload db = Inr db'"
  obtains e where "db' = db\<lparr>history := history db @ [e]\<rparr>" and "he_memorial_id e = mid" and "he_event_type e = lit kind"
    and "he_actor_id e = actor" and "he_grant_id e = gid" and "he_payload e = canonical_json (JObj payload)"
    and "he_sequence e = (case last_event db mid of Some p \<Rightarrow> he_sequence p + 1 | None \<Rightarrow> 1)"
    and "he_previous_hash e = (case last_event db mid of Some p \<Rightarrow> he_event_hash p | None \<Rightarrow> zero_hash)"
    and "digest sha (history_text e) = Inr (he_event_hash e)"
proof -
  obtain e h where h: "digest sha (history_text e) = Inr h" and ins: "insert_history (e\<lparr>he_event_hash := h\<rparr>) db = Inr db'"
    and e: "e = \<lparr> he_memorial_id = mid, he_sequence = (case last_event db mid of Some p \<Rightarrow> he_sequence p + 1 | None \<Rightarrow> 1),
            he_event_type = lit kind, he_actor_id = actor, he_grant_id = gid, he_payload = canonical_json (JObj payload),
            he_created_at = at, he_previous_hash = (case last_event db mid of Some p \<Rightarrow> he_event_hash p | None \<Rightarrow> zero_hash),
            he_event_hash = [] \<rparr>"
    using assms unfolding append_history_def Let_def bindE_eq_Inr by blast
  have "history_text (e\<lparr>he_event_hash := h\<rparr>) = history_text e"
    by (simp add: history_text_iff same_event_def)
  moreover have "db' = db\<lparr>history := history db @ [e\<lparr>he_event_hash := h\<rparr>]\<rparr>"
    using ins by (simp add: insert_history_def Let_def split: if_splits)
  ultimately show thesis
    using h by (intro that [of "e\<lparr>he_event_hash := h\<rparr>"]) (simp_all add: e)
qed

lemma append_history_appended: "append_history sha at mid kind actor gid payload db = Inr db' \<Longrightarrow> appended db db' mid kind actor gid payload"
  by (erule append_history_event) (auto simp: appended_def)

lemma append_history_chain:
  assumes "append_history sha at mid kind actor gid payload db = Inr db'" and "history_ok sha db"
  shows "history_ok sha db'" and "\<exists>e. chain_of db' mid = chain_of db mid @ [e] \<and> he_event_type e = lit kind"
    and "other \<noteq> mid \<Longrightarrow> chain_of db' other = chain_of db other"
proof -
  from append_history_event [OF assms(1)] obtain e where
    e: "db' = db\<lparr>history := history db @ [e]\<rparr>" "he_memorial_id e = mid" "he_event_type e = lit kind"
      "he_sequence e = (case last_event db mid of Some p \<Rightarrow> he_sequence p + 1 | None \<Rightarrow> 1)"
      "he_previous_hash e = (case last_event db mid of Some p \<Rightarrow> he_event_hash p | None \<Rightarrow> zero_hash)"
      "digest sha (history_text e) = Inr (he_event_hash e)"
    by metis
  have good: "chain_good sha (chain_of db mid)"
    using assms(2) by (simp add: history_ok_def)
  have seq: "he_sequence e = int (length (chain_of db mid)) + 1"
    using e(4) last_sequence [OF good] by (simp add: last_event_def split: if_splits)
  have chain: "chain_of db' other = chain_of db other @ (if mid = other then [e] else [])" for other
    unfolding e(1) e(2) [symmetric]
  proof (rule chain_of_snoc)
    fix x assume "x \<in> set (history db)" and "he_memorial_id x = he_memorial_id e"
    then have "x \<in> set (chain_of db mid)"
      using e(2) by (simp add: set_chain_of)
    then obtain i where "i < length (chain_of db mid)" and "x = chain_of db mid ! i"
      by (auto simp: in_set_conv_nth)
    with chain_good_sequence [OF good] seq show "he_sequence x \<le> he_sequence e" by simp
  qed
  have "he_previous_hash e = (if chain_of db mid = [] then zero_hash else he_event_hash (last (chain_of db mid)))"
    using e(5) by (simp add: last_event_def)
  then have "chain_good sha (chain_of db mid @ [e])"
    using good seq e(6) by (simp add: chain_good_snoc)
  then show "history_ok sha db'"
    using assms(2) by (auto simp: history_ok_def chain)
  show "\<exists>e. chain_of db' mid = chain_of db mid @ [e] \<and> he_event_type e = lit kind"
    using chain [of mid] e(3) by simp
  show "other \<noteq> mid \<Longrightarrow> chain_of db' other = chain_of db other"
    using chain [of other] by simp
qed

text \<open>The trigger and the primary key never refuse it: an append fails only on text that is not Unicode.\<close>

lemma append_history_total:
  assumes "history_ok sha db"
  shows "(\<exists>db'. append_history sha at mid kind actor gid payload db = Inr db') \<or>
    append_history sha at mid kind actor gid payload db = Inl EncodeError"
proof -
  define e where "e = \<lparr> he_memorial_id = mid, he_sequence = (case last_event db mid of Some p \<Rightarrow> he_sequence p + 1 | None \<Rightarrow> 1),
            he_event_type = lit kind, he_actor_id = actor, he_grant_id = gid, he_payload = canonical_json (JObj payload),
            he_created_at = at, he_previous_hash = (case last_event db mid of Some p \<Rightarrow> he_event_hash p | None \<Rightarrow> zero_hash),
            he_event_hash = [] \<rparr>"
  have good: "chain_good sha (chain_of db mid)"
    using assms by (simp add: history_ok_def)
  have seq: "he_sequence e = int (length (chain_of db mid)) + 1"
    using last_sequence [OF good] by (simp add: e_def last_event_def)
  have "(mid, he_sequence e) \<notin> set (map (\<lambda>x. (he_memorial_id x, he_sequence x)) (history db))"
  proof
    assume "(mid, he_sequence e) \<in> set (map (\<lambda>x. (he_memorial_id x, he_sequence x)) (history db))"
    then obtain x where "x \<in> set (chain_of db mid)" and x: "he_sequence x = he_sequence e"
      by (auto simp: set_chain_of)
    then obtain i where "i < length (chain_of db mid)" and "x = chain_of db mid ! i"
      by (auto simp: in_set_conv_nth)
    with chain_good_sequence [OF good] seq x show False by simp
  qed
  then have "\<exists>db'. insert_history (e\<lparr>he_event_hash := h\<rparr>) db = Inr db'" for h
    by (auto simp: insert_history_def Let_def e_def split: option.splits)
  moreover have "append_history sha at mid kind actor gid payload db =
      bindE (digest sha (history_text e)) (\<lambda>h. insert_history (e\<lparr>he_event_hash := h\<rparr>) db)"
    by (simp add: append_history_def Let_def e_def)
  ultimately show ?thesis
    by (cases "encodable (history_text e)") (simp_all add: digest_def)
qed

section \<open>The verifier\<close>

fun follows :: "(pstr \<Rightarrow> pstr) \<Rightarrow> int \<times> pstr \<Rightarrow> history_event list \<Rightarrow> bool" where
  "follows sha h [] = True"
| "follows sha h (e # es) \<longleftrightarrow> he_sequence e = fst h + 1 \<and> he_previous_hash e = snd h \<and>
     digest sha (history_text e) = Inr (he_event_hash e) \<and> follows sha (he_sequence e, he_event_hash e) es"

definition start :: "heads \<Rightarrow> pstr \<Rightarrow> int \<times> pstr" where
  "start heads mid = (case map_of heads mid of Some h \<Rightarrow> h | None \<Rightarrow> (0, zero_hash))"

definition agrees :: "heads \<Rightarrow> history_event \<Rightarrow> bool" where
  "agrees expected e \<longleftrightarrow> (case map_of expected (he_memorial_id e) of
     Some (n, h) \<Rightarrow> he_sequence e = n \<longrightarrow> he_event_hash e = h | None \<Rightarrow> True)"

definition meets :: "heads \<Rightarrow> history_event \<Rightarrow> bool" where
  "meets expected e \<longleftrightarrow> (\<exists>h. map_of expected (he_memorial_id e) = Some (he_sequence e, h))"

definition add_head :: "history_event \<Rightarrow> heads \<Rightarrow> heads" where
  "add_head e = AList.update (he_memorial_id e) (he_sequence e, he_event_hash e)"

lemma start_add_head [simp]:
  "start (add_head e heads) mid = (if mid = he_memorial_id e then (he_sequence e, he_event_hash e) else start heads mid)"
  by (simp add: start_def add_head_def update_conv')

lemma verify_row_Inr:
  "verify_row sha expected e (heads, matched) = Inr state \<longleftrightarrow>
     follows sha (start heads (he_memorial_id e)) [e] \<and> agrees expected e \<and>
     state = (add_head e heads, if meets expected e then he_memorial_id e # matched else matched)"
  by (cases state)
    (auto simp: verify_row_def Let_def bindE_eq_Inr start_def agrees_def meets_def add_head_def split: option.splits if_splits)

lemma verify_rows_Inr:
  "verify_rows sha expected rows (heads, matched) = Inr (heads', matched') \<longleftrightarrow>
     (\<forall>mid. follows sha (start heads mid) (filter (\<lambda>e. he_memorial_id e = mid) rows)) \<and> list_all (agrees expected) rows \<and>
     heads' = fold add_head rows heads \<and> matched' = rev (map he_memorial_id (filter (meets expected) rows)) @ matched"
proof (induction rows arbitrary: heads matched)
  case (Cons e rows)
  let ?matched = "if meets expected e then he_memorial_id e # matched else matched"
  have split: "(\<forall>mid. follows sha (start heads mid) (filter (\<lambda>x. he_memorial_id x = mid) (e # rows))) \<longleftrightarrow>
      follows sha (start heads (he_memorial_id e)) [e] \<and>
      (\<forall>mid. follows sha (start (add_head e heads) mid) (filter (\<lambda>x. he_memorial_id x = mid) rows))"
  proof (intro iffI conjI allI)
    assume all: "\<forall>mid. follows sha (start heads mid) (filter (\<lambda>x. he_memorial_id x = mid) (e # rows))"
    from all [rule_format, of "he_memorial_id e"] show "follows sha (start heads (he_memorial_id e)) [e]" by simp
    fix mid
    from all [rule_format, of mid] show "follows sha (start (add_head e heads) mid) (filter (\<lambda>x. he_memorial_id x = mid) rows)"
      by (cases "mid = he_memorial_id e") auto
  next
    fix mid
    assume "follows sha (start heads (he_memorial_id e)) [e] \<and>
      (\<forall>mid. follows sha (start (add_head e heads) mid) (filter (\<lambda>x. he_memorial_id x = mid) rows))"
    then show "follows sha (start heads mid) (filter (\<lambda>x. he_memorial_id x = mid) (e # rows))"
      by (auto split: if_splits dest: spec [of _ mid])
  qed
  have "verify_rows sha expected (e # rows) (heads, matched) = Inr (heads', matched') \<longleftrightarrow>
      follows sha (start heads (he_memorial_id e)) [e] \<and> agrees expected e \<and>
      verify_rows sha expected rows (add_head e heads, ?matched) = Inr (heads', matched')"
    by (simp add: bindE_eq_Inr verify_row_Inr conj_assoc)
  then show ?case
    unfolding Cons.IH split by auto
qed auto

lemma follows_good:
  "follows sha (int n, h) es \<longleftrightarrow> chain_from he_previous_hash he_event_hash h es \<and>
     (\<forall>e \<in> set es. digest sha (history_text e) = Inr (he_event_hash e)) \<and>
     (\<forall>i < length es. he_sequence (es ! i) = int (n + i) + 1)"
proof (induction es arbitrary: n h)
  case (Cons e es)
  have numbered: "(\<forall>i < length (e # es). he_sequence ((e # es) ! i) = int (n + i) + 1) \<longleftrightarrow>
      he_sequence e = int n + 1 \<and> (\<forall>i < length es. he_sequence (es ! i) = int (Suc n + i) + 1)"
    by (auto simp: All_less_Suc2 algebra_simps)
  have "he_sequence e = int n + 1 \<Longrightarrow> follows sha (he_sequence e, he_event_hash e) es = follows sha (int (Suc n), he_event_hash e) es"
    by (simp add: add.commute)
  then have "follows sha (int n, h) (e # es) \<longleftrightarrow> he_sequence e = int n + 1 \<and> he_previous_hash e = h \<and>
      digest sha (history_text e) = Inr (he_event_hash e) \<and> follows sha (int (Suc n), he_event_hash e) es"
    by auto
  then show ?case
    unfolding numbered Cons.IH by auto
qed simp

lemma follows_chain_good: "follows sha (0, zero_hash) es \<longleftrightarrow> chain_good sha es"
  using follows_good [of sha 0 zero_hash es] by (simp add: chain_good_def)

lemma insort_key_cong:
  assumes "\<And>y. y \<in> set ys \<Longrightarrow> f x \<le> f y \<longleftrightarrow> g x \<le> g y"
  shows "insort_key f x ys = insort_key g x ys"
  using assms by (induction ys) auto

lemma sort_key_cong_order:
  assumes "\<And>x y. x \<in> set xs \<Longrightarrow> y \<in> set xs \<Longrightarrow> f x \<le> f y \<longleftrightarrow> g x \<le> g y"
  shows "sort_key f xs = sort_key g xs"
  using assms
proof (induction xs)
  case (Cons x xs)
  then have "sort_key f xs = sort_key g xs" by auto
  with Cons.prems show ?case by (auto intro!: insort_key_cong)
qed simp

lemma filter_ordered_rows:
  "filter (\<lambda>e. he_memorial_id e = mid) (sort_key (\<lambda>e. (he_memorial_id e, he_sequence e)) (history db)) = chain_of db mid"
  unfolding filter_sort chain_of_def by (rule sort_key_cong_order) auto

lemma fold_heads:
  "map_of (fold add_head rows heads) mid =
     (case filter (\<lambda>e. he_memorial_id e = mid) rows of
        [] \<Rightarrow> map_of heads mid | e # es \<Rightarrow> Some (he_sequence (last (e # es)), he_event_hash (last (e # es))))"
  by (induction rows rule: rev_induct) (auto simp: add_head_def update_conv' split: list.splits)

lemma fold_heads_distinct: "distinct (map fst heads) \<Longrightarrow> distinct (map fst (fold add_head rows heads))"
  by (induction rows arbitrary: heads) (auto simp: add_head_def distinct_update)

text \<open>The verifier accepts a history exactly when every chain is good.\<close>

lemma verify_history_plain: "(\<exists>cp. verify_history sha db None = Inr cp) \<longleftrightarrow> history_ok sha db"
proof -
  let ?rows = "sort_key (\<lambda>e. (he_memorial_id e, he_sequence e)) (history db)"
  have none: "meets [] = (\<lambda>e. False)" "list_all (agrees []) rows" for rows
    by (auto simp: meets_def agrees_def list_all_iff)
  have "(\<exists>cp. verify_history sha db None = Inr cp) \<longleftrightarrow> (\<exists>s. verify_rows sha [] ?rows ([], []) = Inr s)"
  proof
    assume "\<exists>s. verify_rows sha [] ?rows ([], []) = Inr s"
    then obtain h m where s: "verify_rows sha [] ?rows ([], []) = Inr (h, m)" by auto
    then have "m = []" by (simp add: verify_rows_Inr none)
    with s show "\<exists>cp. verify_history sha db None = Inr cp"
      by (simp add: verify_history_def checkpoint_heads_def)
  qed (auto simp: verify_history_def checkpoint_heads_def bindE_eq_Inr)
  also have "\<dots> \<longleftrightarrow> (\<forall>mid. follows sha (0, zero_hash) (chain_of db mid))"
    by (auto simp: verify_rows_Inr none start_def filter_ordered_rows)
  finally show ?thesis
    by (simp add: follows_chain_good history_ok_def)
qed

lemma checkpoint_profiles_heads:
  "checkpoint_profiles (map (\<lambda>(mid, n, h). (mid, JObj [(lit ''sequence'', JInt n), (lit ''hash'', JStr h)])) heads) = Some expected \<Longrightarrow>
     expected = heads"
  by (induction heads arbitrary: expected)
    (auto simp: checkpoint_head_def split: option.split_asm if_split_asm)

lemma checkpoint_json_heads: "checkpoint_heads (Some (checkpoint_json heads)) = Inr expected \<Longrightarrow> expected = heads"
  by (auto simp: checkpoint_heads_def checkpoint_json_def consent_error_def dest: checkpoint_profiles_heads
      split: option.split_asm if_split_asm json.split_asm)

lemma verify_history_Inr:
  assumes "verify_history sha db checkpoint = Inr cp"
  shows "\<exists>expected heads. checkpoint_heads checkpoint = Inr expected \<and> cp = checkpoint_json heads \<and> history_ok sha db \<and>
    (\<forall>mid. map_of heads mid = (if chain_of db mid = [] then None
       else Some (int (length (chain_of db mid)), he_event_hash (last (chain_of db mid))))) \<and>
    (\<forall>mid n h. map_of expected mid = Some (n, h) \<longrightarrow> (\<exists>e \<in> set (chain_of db mid). he_sequence e = n \<and> he_event_hash e = h))"
proof -
  let ?rows = "sort_key (\<lambda>e. (he_memorial_id e, he_sequence e)) (history db)"
  obtain expected heads matched where e: "checkpoint_heads checkpoint = Inr expected"
    and v: "verify_rows sha expected ?rows ([], []) = Inr (heads, matched)"
    and m: "set (map fst expected) = set matched" and cp: "cp = checkpoint_json heads"
    using assms by (auto simp: verify_history_def bindE_eq_Inr consent_error_def split: if_splits)
  have good: "chain_good sha (chain_of db mid)" for mid
    using v by (simp add: verify_rows_Inr start_def filter_ordered_rows follows_chain_good)
  have heads: "map_of heads mid = (if chain_of db mid = [] then None
       else Some (int (length (chain_of db mid)), he_event_hash (last (chain_of db mid))))" for mid
    using v last_sequence [OF good, of mid]
    by (auto simp: verify_rows_Inr fold_heads filter_ordered_rows split: list.splits)
  have "\<exists>e \<in> set (chain_of db mid). he_sequence e = n \<and> he_event_hash e = h" if "map_of expected mid = Some (n, h)" for mid n h
  proof -
    have "mid \<in> set (map fst expected)"
      using that by (force dest: map_of_SomeD)
    then have "mid \<in> he_memorial_id ` set (filter (meets expected) ?rows)"
      using m v by (auto simp: verify_rows_Inr)
    then obtain e where e: "e \<in> set (history db)" "he_memorial_id e = mid" "meets expected e" by auto
    moreover have "agrees expected e"
      using v e(1) by (simp add: verify_rows_Inr list_all_iff)
    ultimately show ?thesis
      using that by (intro bexI [of _ e]) (auto simp: meets_def agrees_def set_chain_of)
  qed
  with e cp heads good show ?thesis
    by (auto simp: history_ok_def)
qed

text \<open>A history meets its own checkpoint.\<close>

lemma checkpoint_profiles_back:
  assumes "\<And>mid n h. (mid, n, h) \<in> set heads \<Longrightarrow> 1 \<le> n \<and> is_hex64 h"
  shows "checkpoint_profiles (map (\<lambda>(mid, n, h). (mid, JObj [(lit ''sequence'', JInt n), (lit ''hash'', JStr h)])) heads) = Some heads"
  using assms
proof (induction heads)
  case (Cons head heads)
  obtain mid n h where head: "head = (mid, n, h)"
    by (cases head)
  then have "1 \<le> n" "is_hex64 h"
    using Cons.prems by auto
  moreover have "checkpoint_profiles (map (\<lambda>(mid, n, h). (mid, JObj [(lit ''sequence'', JInt n), (lit ''hash'', JStr h)])) heads) = Some heads"
    using Cons.prems by (intro Cons.IH) auto
  ultimately show ?case
    by (simp add: head checkpoint_head_def)
qed simp

lemma own_checkpoint:
  assumes "verify_history sha db None = Inr cp" and "\<And>s. is_hex64 (sha s)"
  shows "verify_history sha db (Some cp) = Inr cp"
proof -
  let ?rows = "sort_key (\<lambda>e. (he_memorial_id e, he_sequence e)) (history db)"
  obtain heads matched where v: "verify_rows sha [] ?rows ([], []) = Inr (heads, matched)" and cp: "cp = checkpoint_json heads"
    using assms(1) by (auto simp: verify_history_def bindE_eq_Inr consent_error_def checkpoint_heads_def split: if_splits)
  have good: "chain_good sha (chain_of db mid)" for mid
    using v by (simp add: verify_rows_Inr start_def filter_ordered_rows follows_chain_good)
  have heads: "map_of heads mid = (if chain_of db mid = [] then None
       else Some (int (length (chain_of db mid)), he_event_hash (last (chain_of db mid))))" for mid
    using v last_sequence [OF good, of mid]
    by (auto simp: verify_rows_Inr fold_heads filter_ordered_rows split: list.splits)
  have "distinct (map fst heads)"
    using v fold_heads_distinct [of "[]"] by (simp add: verify_rows_Inr)
  then have entry: "map_of heads mid = Some (n, h)" if "(mid, n, h) \<in> set heads" for mid n h
    using that by simp
  have sealed: "he_event_hash e = sha (history_text e)" if "e \<in> set (chain_of db mid)" for e mid
    using good that by (auto simp: chain_good_def digest_Inr)
  have "1 \<le> n \<and> is_hex64 h" if "(mid, n, h) \<in> set heads" for mid n h
  proof -
    have some: "chain_of db mid \<noteq> []" "n = int (length (chain_of db mid))" "h = he_event_hash (last (chain_of db mid))"
      using entry [OF that] heads [of mid] by (simp_all split: if_splits)
    have "is_hex64 h"
      unfolding some(3) sealed [OF last_in_set [OF some(1)]] by (rule assms(2))
    with some(1,2) show ?thesis by (simp add: Suc_le_eq)
  qed
  then have expected: "checkpoint_heads (Some cp) = Inr heads"
    using checkpoint_profiles_back [of heads] by (simp add: cp checkpoint_json_def checkpoint_heads_def)
  have last: "meets heads e \<longleftrightarrow> e = last (chain_of db (he_memorial_id e))" if e: "e \<in> set ?rows" for e
  proof -
    let ?es = "chain_of db (he_memorial_id e)"
    have "e \<in> set ?es"
      using e by (simp add: set_chain_of)
    then obtain i where i: "i < length ?es" "e = ?es ! i"
      by (auto simp: in_set_conv_nth)
    then have ne: "?es \<noteq> []" by auto
    have n: "he_sequence (last ?es) = int (length ?es)" "he_sequence e = int i + 1"
      using last_sequence [OF good ne] chain_good_sequence [OF good i(1)] i(2) by simp_all
    have "meets heads e \<longleftrightarrow> he_sequence e = int (length ?es)"
      using heads [of "he_memorial_id e"] ne by (auto simp: meets_def)
    also have "\<dots> \<longleftrightarrow> e = last ?es"
    proof
      assume "he_sequence e = int (length ?es)"
      with n(2) have "i = length ?es - 1" by simp
      with i(2) ne show "e = last ?es" by (simp add: last_conv_nth)
    qed (use n(1) in simp)
    finally show ?thesis .
  qed
  have "agrees heads e" if e: "e \<in> set ?rows" for e
  proof (cases "meets heads e")
    case True
    then have own: "e = last (chain_of db (he_memorial_id e))"
      using last [OF e] by blast
    have "map_of heads (he_memorial_id e) = Some (n, h) \<Longrightarrow> h = he_event_hash e" for n h
      using heads [of "he_memorial_id e"] own by (simp split: if_splits)
    then show ?thesis
      by (auto simp: agrees_def split: option.split)
  qed (auto simp: agrees_def meets_def split: option.split)
  moreover have "set (map fst heads) = set (map he_memorial_id (filter (meets heads) ?rows))"
  proof (intro equalityI subsetI)
    fix mid assume "mid \<in> set (map fst heads)"
    then have "chain_of db mid \<noteq> []"
      using entry heads by fastforce
    then have "last (chain_of db mid) \<in> set (chain_of db mid)"
      by simp
    then have "last (chain_of db mid) \<in> set ?rows" "he_memorial_id (last (chain_of db mid)) = mid"
      by (simp_all add: set_chain_of)
    then show "mid \<in> set (map he_memorial_id (filter (meets heads) ?rows))"
      using last by (auto simp: image_iff intro!: bexI [of _ "last (chain_of db mid)"])
  next
    fix mid assume "mid \<in> set (map he_memorial_id (filter (meets heads) ?rows))"
    then show "mid \<in> set (map fst heads)"
      by (auto simp: meets_def dest!: map_of_SomeD) (force simp: image_iff)
  qed
  ultimately have "verify_rows sha heads ?rows ([], []) = Inr (heads, rev (map he_memorial_id (filter (meets heads) ?rows)))"
    using v by (simp add: verify_rows_Inr list_all_iff)
  then show ?thesis
    using \<open>set (map fst heads) = _\<close> expected [unfolded cp] by (simp add: verify_history_def cp)
qed

text \<open>A checkpoint taken earlier detects any rewriting or truncation, short of a collision.\<close>

lemma checkpoint_fixes_past:
  assumes "verify_history sha db None = Inr cp" and "verify_history sha db' (Some cp) = Inr cp'"
    and "inj_on sha (history_text ` (set (history db) \<union> set (history db')))"
  shows "list_all2 same_event (chain_of db mid) (take (length (chain_of db mid)) (chain_of db' mid))"
proof (cases "chain_of db mid = []")
  case False
  obtain heads where cp: "cp = checkpoint_json heads" and ok: "history_ok sha db"
    and heads: "map_of heads mid = Some (int (length (chain_of db mid)), he_event_hash (last (chain_of db mid)))"
    using verify_history_Inr [OF assms(1)] False by auto
  obtain expected where "checkpoint_heads (Some cp) = Inr expected" and ok': "history_ok sha db'"
    and found: "\<And>n h. map_of expected mid = Some (n, h) \<Longrightarrow> \<exists>e \<in> set (chain_of db' mid). he_sequence e = n \<and> he_event_hash e = h"
    using verify_history_Inr [OF assms(2)] by auto
  then have "expected = heads"
    using checkpoint_json_heads cp by blast
  with found heads obtain e where e: "e \<in> set (chain_of db' mid)" "he_sequence e = int (length (chain_of db mid))"
      "he_event_hash e = he_event_hash (last (chain_of db mid))"
    by blast
  obtain i where i: "i < length (chain_of db' mid)" "e = chain_of db' mid ! i"
    using e(1) by (auto simp: in_set_conv_nth)
  have good: "chain_good sha (chain_of db mid)" "chain_good sha (chain_of db' mid)"
    using ok ok' by (simp_all add: history_ok_def)
  let ?n = "length (chain_of db mid)"
  have n: "?n = Suc i"
    using chain_good_sequence [OF good(2) i(1)] i(2) e(2) by simp
  have "history.head (take ?n (chain_of db mid)) = history.head (take ?n (chain_of db' mid))"
    using False e(3) i n by (simp add: history.head_def head_from_last take_Suc_conv_app_nth)
  moreover have "inj_on sha (history_text ` (set (chain_of db mid) \<union> set (chain_of db' mid)))"
    by (rule inj_on_subset [OF assms(3)]) (auto simp: set_chain_of)
  ultimately have "map history_text (take ?n (chain_of db mid)) = map history_text (take ?n (chain_of db' mid))"
    using good i(1) n by (intro history.anchor_commits [where sha = sha] chain_good_intact) auto
  then have "list_all2 (\<lambda>d e. history_text d = history_text e) (chain_of db mid) (take ?n (chain_of db' mid))"
    by (simp add: map_eq_all2)
  then show ?thesis
    by (simp add: history_text_iff)
qed simp

end
