(* ===== verification/Succession.thy ===== *)
theory Succession imports Memorial_Consent begin

text \<open>
  Care of a memorial, \<open>remembrance/succession.py\<close>: the owner nominates another account, the nominee accepts or
  declines, the owner cancels, and an operator transfers an accepted nomination. Every operation is one
  transaction and appends to the memorial's history and to its activity log. \<open>lower\<close> is \<open>str.lower\<close>.
\<close>

definition care_declaration :: pstr where
  "care_declaration = lit (''I am willing to care for this memorial if the operator confirms my authority and completes the transfer. '' @
     ''I will respect the recorded wishes, sharing permissions and other people'') @ [8217] @ lit (''s rights. '' @
     ''Accepting this nomination does not give me access to private memories or permission to edit them.'')"

definition succession_error :: "string \<Rightarrow> site_error + 'a" where
  "succession_error m = Inl (SuccessionError (lit m))"

definition owner_record :: "site_db \<Rightarrow> pstr \<Rightarrow> pstr \<Rightarrow> site_error + memorial" where
  "owner_record db mid actor_id = (case get_memorial db mid of
     None \<Rightarrow> succession_error ''Only the current memorial owner can change this nomination.''
   | Some m \<Rightarrow> if me_owner_id m \<noteq> actor_id \<or> me_demo m
       then succession_error ''Only the current memorial owner can change this nomination.'' else Inr m)"

text \<open>The history event and the activity row, with \<open>_\<close> written \<open>-\<close> in the latter.\<close>

definition log_activity ::
    "(pstr \<Rightarrow> pstr) \<Rightarrow> pstr \<Rightarrow> pstr \<Rightarrow> pstr \<Rightarrow> string \<Rightarrow> pstr \<Rightarrow> pstr \<Rightarrow> (pstr \<times> json) list \<Rightarrow> site_db \<Rightarrow> site_error + site_db" where
  "log_activity sha event_at row_at mid event_type actor_id request_id payload db =
     bindE (append_history sha event_at mid event_type (Some actor_id) None ((lit ''request_id'', JStr request_id) # payload) db) (\<lambda>db1.
       insert_activity \<lparr> au_memorial_id = mid, au_actor_id = Some actor_id,
         au_action = map (\<lambda>c. if c = 95 then 45 else c) (lit event_type), au_target_id = Some request_id, au_created = row_at \<rparr> db1)"

definition update_memorial :: "pstr \<Rightarrow> (memorial \<Rightarrow> memorial) \<Rightarrow> site_db \<Rightarrow> site_error + site_db" where
  "update_memorial mid f db =
     (let ms = update_rows (\<lambda>m. me_id m = mid) f (memorials db) in
      if \<not> me_owner_id ` set ms \<subseteq> us_id ` set (users db) then Inl (SqliteIntegrityError ''FOREIGN KEY'')
      else Inr (db\<lparr>memorials := ms\<rparr>))"

definition get_user :: "site_db \<Rightarrow> pstr \<Rightarrow> site_user option" where
  "get_user db uid = find (\<lambda>u. us_id u = uid) (users db)"

section \<open>Nominating\<close>

definition has_active :: "site_db \<Rightarrow> pstr \<Rightarrow> bool" where
  "has_active db mid \<longleftrightarrow> list_ex (\<lambda>r. su_memorial_id r = mid \<and> su_status r \<in> set active_statuses) (successions db)"

definition offered :: "pstr \<Rightarrow> memorial \<Rightarrow> pstr \<Rightarrow> pstr \<Rightarrow> pstr \<Rightarrow> pstr \<Rightarrow> succession_request" where
  "offered rid m owner_id nominee_id inviter_name at = \<lparr> su_id = rid, su_memorial_id = me_id m, su_from_owner_id = owner_id,
     su_nominee_id = nominee_id, su_memorial_name = me_name m, su_inviter_name = inviter_name, su_status = lit ''offered'',
     su_created_at = at, su_accepted_at = None, su_accepted_name = None, su_accepted_authority = None,
     su_declaration_text = None, su_closed_at = None, su_completed_by = None, su_evidence_digest = None, su_previous = None \<rparr>"

definition nominate ::
    "(pstr \<Rightarrow> pstr) \<Rightarrow> (pstr \<Rightarrow> pstr) \<Rightarrow> site_env \<Rightarrow> pstr \<Rightarrow> pstr \<Rightarrow> pstr \<Rightarrow> pstr \<Rightarrow> site_db \<Rightarrow> site_error + (site_db \<times> pstr)" where
  "nominate sha lower env mid owner_id email account_code db =
     bindE (owner_record db mid owner_id) (\<lambda>m.
     case find (\<lambda>u. us_email u = lower (strip_by py_isspace email) \<and> us_id u = strip_by py_isspace account_code) (users db) of
       None \<Rightarrow> succession_error ''Choose another existing account and confirm its email and account code directly.''
     | Some nominee \<Rightarrow>
         if us_id nominee = owner_id
         then succession_error ''Choose another existing account and confirm its email and account code directly.''
         else if has_active db mid then succession_error ''Cancel the current nomination before naming someone else.''
         else (case get_user db owner_id of
             None \<Rightarrow> Inl (RuntimeError ''TypeError'')
           | Some owner \<Rightarrow>
               bindE (insert_succession (offered (token_hex env) m owner_id (us_id nominee) (us_name owner) (stamp env 0)) db) (\<lambda>db1.
               bindE (update_memorial mid (\<lambda>m. m\<lparr>me_successor := lower (strip_by py_isspace email), me_updated := stamp env 0\<rparr>) db1) (\<lambda>db2.
               bindE (log_activity sha (stamp env 1) (stamp env 2) mid ''successor_nominated'' owner_id (token_hex env)
                 [(lit ''nominee_id'', JStr (us_id nominee))] db2) (\<lambda>db3.
               Inr (db3, token_hex env))))))"

section \<open>Responding\<close>

datatype response_action = Accept | Decline

text \<open>Any other word for the action is refused before anything is read.\<close>

definition response_action :: "pstr \<Rightarrow> response_action option" where
  "response_action a = (if a = lit ''accept'' then Some Accept else if a = lit ''decline'' then Some Decline else None)"

definition authorities :: "pstr list" where "authorities = map lit [''executor'', ''family-authorized'']"

definition accepted :: "pstr \<Rightarrow> pstr \<Rightarrow> pstr \<Rightarrow> succession_request \<Rightarrow> succession_request" where
  "accepted at signed_name authority r = r\<lparr>su_status := lit ''accepted'', su_accepted_at := Some at, su_accepted_name := Some signed_name,
     su_accepted_authority := Some authority, su_declaration_text := Some care_declaration\<rparr>"

definition closed :: "string \<Rightarrow> pstr \<Rightarrow> succession_request \<Rightarrow> succession_request" where
  "closed status at r = r\<lparr>su_status := lit status, su_closed_at := Some at\<rparr>"

definition accept_nomination ::
    "(pstr \<Rightarrow> pstr) \<Rightarrow> site_env \<Rightarrow> succession_request \<Rightarrow> pstr \<Rightarrow> pstr \<Rightarrow> pstr \<Rightarrow> site_db \<Rightarrow> site_error + (site_db \<times> bool)" where
  "accept_nomination sha env invitation nominee_id signed_name authority db =
     (if su_status invitation = lit ''accepted'' then Inr (db, False)
      else bindE (update_succession (su_id invitation) (accepted (stamp env 0) signed_name authority) db) (\<lambda>db1.
        bindE (digest sha (canonical_json (JObj [(lit ''signed_name'', JStr signed_name), (lit ''text'', JStr care_declaration)]))) (\<lambda>d.
        bindE (log_activity sha (stamp env 1) (stamp env 2) (su_memorial_id invitation) ''successor_accepted'' nominee_id (su_id invitation)
          [(lit ''authority'', JStr authority), (lit ''declaration_digest'', JStr d)] db1) (\<lambda>db2.
        Inr (db2, True)))))"

definition decline_nomination ::
    "(pstr \<Rightarrow> pstr) \<Rightarrow> site_env \<Rightarrow> succession_request \<Rightarrow> pstr \<Rightarrow> site_db \<Rightarrow> site_error + (site_db \<times> bool)" where
  "decline_nomination sha env invitation nominee_id db =
     bindE (update_succession (su_id invitation) (closed ''declined'' (stamp env 0)) db) (\<lambda>db1.
     bindE (update_memorial (su_memorial_id invitation) (\<lambda>m. m\<lparr>me_successor := []\<rparr>) db1) (\<lambda>db2.
     bindE (log_activity sha (stamp env 1) (stamp env 2) (su_memorial_id invitation) ''successor_declined'' nominee_id (su_id invitation) [] db2) (\<lambda>db3.
     Inr (db3, True))))"

definition respond ::
    "(pstr \<Rightarrow> pstr) \<Rightarrow> site_env \<Rightarrow> pstr \<Rightarrow> pstr \<Rightarrow> pstr \<Rightarrow> pstr \<Rightarrow> pstr \<Rightarrow> site_db \<Rightarrow> site_error + (site_db \<times> bool)" where
  "respond sha env request_id nominee_id action signed_name authority db =
     (case response_action action of
        None \<Rightarrow> succession_error ''Choose whether to accept or decline this nomination.''
      | Some action \<Rightarrow>
          (let signed_name = strip_by py_isspace signed_name in
           if action = Accept \<and> (\<not> name_ok signed_name \<or> authority \<notin> set authorities)
           then succession_error ''Enter your full name and the basis of your authority for review.''
           else (case find (\<lambda>r. su_id r = request_id \<and> su_nominee_id r = nominee_id) (successions db) of
               None \<Rightarrow> succession_error ''Nomination not found for this account.''
             | Some invitation \<Rightarrow>
                 bindE (owner_record db (su_memorial_id invitation) (su_from_owner_id invitation)) (\<lambda>_.
                   if su_status invitation \<notin> set active_statuses
                   then succession_error ''This nomination is closed. Ask the owner to record a new one if needed.''
                   else (case action of
                       Accept \<Rightarrow> accept_nomination sha env invitation nominee_id signed_name authority db
                     | Decline \<Rightarrow> decline_nomination sha env invitation nominee_id db)))))"

section \<open>Cancelling\<close>

definition cancel_nomination ::
    "(pstr \<Rightarrow> pstr) \<Rightarrow> site_env \<Rightarrow> pstr \<Rightarrow> pstr \<Rightarrow> pstr \<Rightarrow> site_db \<Rightarrow> site_error + (site_db \<times> bool)" where
  "cancel_nomination sha env mid request_id owner_id db =
     bindE (owner_record db mid owner_id) (\<lambda>_.
     case find (\<lambda>r. su_id r = request_id \<and> su_memorial_id r = mid \<and> su_from_owner_id r = owner_id) (successions db) of
       None \<Rightarrow> succession_error ''Nomination not found for this owner and memorial.''
     | Some invitation \<Rightarrow>
         if su_status invitation \<in> {lit ''cancelled'', lit ''declined''} then Inr (db, False)
         else if su_status invitation = lit ''completed'' then succession_error ''This transfer has already completed.''
         else bindE (update_succession request_id (closed ''cancelled'' (stamp env 0)) db) (\<lambda>db1.
           bindE (update_memorial mid (\<lambda>m. m\<lparr>me_successor := []\<rparr>) db1) (\<lambda>db2.
           bindE (log_activity sha (stamp env 1) (stamp env 2) mid ''successor_cancelled'' owner_id request_id [] db2) (\<lambda>db3.
           Inr (db3, True)))))"

section \<open>Transferring\<close>

definition has_pending_erasure :: "site_db \<Rightarrow> pstr \<Rightarrow> bool" where
  "has_pending_erasure db mid \<longleftrightarrow> list_ex (\<lambda>r. eq_memorial_id r = mid \<and> eq_status r = lit ''pending'') (erasure_requests db)"

definition acceptance_recorded :: "succession_request \<Rightarrow> bool" where
  "acceptance_recorded r \<longleftrightarrow> su_accepted_name r \<notin> {None, Some []} \<and> (\<exists>a \<in> set authorities. su_accepted_authority r = Some a) \<and>
     su_declaration_text r = Some care_declaration"

definition text_of :: "pstr option \<Rightarrow> pstr" where
  "text_of t = (case t of Some s \<Rightarrow> s | None \<Rightarrow> [])"

definition handed_over :: "pstr \<Rightarrow> succession_request \<Rightarrow> pstr \<Rightarrow> memorial \<Rightarrow> memorial" where
  "handed_over to_account_id invitation at m = m\<lparr>me_owner_id := to_account_id, me_authority := text_of (su_accepted_authority invitation),
     me_authority_name := text_of (su_accepted_name invitation), me_consent_at := text_of (su_accepted_at invitation),
     me_successor := [], me_updated := at\<rparr>"

text \<open>\<open>DELETE FROM members WHERE memorial_id=? AND email=(SELECT email FROM users WHERE id=?)\<close>.\<close>

definition drop_member :: "pstr \<Rightarrow> pstr \<Rightarrow> site_db \<Rightarrow> site_db" where
  "drop_member mid uid db = (case get_user db uid of
     None \<Rightarrow> db
   | Some u \<Rightarrow> db\<lparr>members := filter (\<lambda>b. \<not> (mb_memorial_id b = mid \<and> mb_email b = us_email u)) (members db)\<rparr>)"

definition completed :: "pstr \<Rightarrow> pstr \<Rightarrow> pstr \<Rightarrow> memorial \<Rightarrow> succession_request \<Rightarrow> succession_request" where
  "completed at actor evidence m r = r\<lparr>su_status := lit ''completed'', su_closed_at := Some at, su_completed_by := Some actor,
     su_evidence_digest := Some evidence, su_previous := Some (me_authority m, me_authority_name m, me_consent_at m)\<rparr>"

definition hand_over ::
    "(pstr \<Rightarrow> pstr) \<Rightarrow> site_env \<Rightarrow> succession_request \<Rightarrow> memorial \<Rightarrow> pstr \<Rightarrow> pstr \<Rightarrow> site_db \<Rightarrow> site_error + (site_db \<times> bool)" where
  "hand_over sha env invitation m actor evidence db =
     bindE (update_memorial (me_id m) (handed_over (su_nominee_id invitation) invitation (stamp env 0)) db) (\<lambda>db1.
     bindE (update_succession (su_id invitation) (completed (stamp env 0) actor evidence m)
       (drop_member (me_id m) (su_from_owner_id invitation) db1)) (\<lambda>db2.
     bindE (log_activity sha (stamp env 1) (stamp env 2) (me_id m) ''ownership_transferred'' actor (su_id invitation)
       [(lit ''from_owner_id'', JStr (su_from_owner_id invitation)), (lit ''to_account_id'', JStr (su_nominee_id invitation)),
        (lit ''evidence_digest'', JStr evidence)] db2) (\<lambda>db3.
     Inr (db3, True))))"

definition transfer ::
    "(pstr \<Rightarrow> pstr) \<Rightarrow> site_env \<Rightarrow> pstr \<Rightarrow> pstr \<Rightarrow> pstr \<Rightarrow> pstr \<Rightarrow> pstr \<Rightarrow> site_db \<Rightarrow> site_error + (site_db \<times> bool)" where
  "transfer sha env request_id from_owner_id to_account_id reviewer reference db =
     bindE (operator_identity sha reviewer reference) (\<lambda>(actor, evidence).
     case find (\<lambda>r. su_id r = request_id) (successions db) of
       None \<Rightarrow> succession_error ''The nomination, source owner and destination account must all match the reviewed case.''
     | Some invitation \<Rightarrow>
         if su_from_owner_id invitation \<noteq> from_owner_id \<or> su_nominee_id invitation \<noteq> to_account_id
         then succession_error ''The nomination, source owner and destination account must all match the reviewed case.''
         else if su_status invitation = lit ''completed'' then Inr (db, False)
         else if su_status invitation \<noteq> lit ''accepted''
         then succession_error ''Only an accepted, current nomination can be transferred.''
         else bindE (owner_record db (su_memorial_id invitation) from_owner_id) (\<lambda>m.
           if has_pending_erasure db (me_id m)
           then succession_error ''Resolve the pending erasure request before transferring care.''
           else if \<not> acceptance_recorded invitation
           then succession_error ''The nominee must record a valid acceptance declaration before transfer.''
           else hand_over sha env invitation m actor evidence db))"

end
