(* ===== verification/Memorial_Facts.thy ===== *)
theory Memorial_Facts imports Memorial_History Succession begin

text \<open>
  What the operations on grants and nominations keep and do: the constraints on the rows, the history, who may
  view after a revocation, and how the care of a memorial changes hands.
\<close>

section \<open>The invariant of the memorial site\<close>

text \<open>A verified grant names the operator who verified it; an accepted nomination carries its declaration.\<close>

definition reviewed :: "sharing_grant \<Rightarrow> bool" where
  "reviewed g \<longleftrightarrow> (sg_status g = lit ''verified'' \<longrightarrow>
     (\<exists>who. sg_verified_by g = Some who \<and> starts_with (lit ''operator:'') who) \<and> sg_evidence_digest g \<noteq> None)"

definition sharing_ok :: "site_db \<Rightarrow> bool" where
  "sharing_ok db \<longleftrightarrow> distinct (map sg_id (sharing_grants db)) \<and> list_all grant_row_check (sharing_grants db) \<and>
     one_current (sharing_grants db) \<and> list_all reviewed (sharing_grants db)"

definition care_ok :: "site_db \<Rightarrow> bool" where
  "care_ok db \<longleftrightarrow> distinct (map su_id (successions db)) \<and> list_all succession_row_check (successions db) \<and>
     one_active (successions db) \<and> list_all (\<lambda>r. su_status r = lit ''accepted'' \<longrightarrow> acceptance_recorded r) (successions db)"

definition site_ok :: "(pstr \<Rightarrow> pstr) \<Rightarrow> site_db \<Rightarrow> bool" where
  "site_ok sha db \<longleftrightarrow> history_ok sha db \<and> sharing_ok db \<and> care_ok db"

lemma site_ok_empty: "site_ok sha empty_site"
  by (simp add: site_ok_def history_ok_def chain_of_def sharing_ok_def care_ok_def one_current_def one_active_def empty_site_def)

text \<open>Each part depends on its own table.\<close>

lemma part_cong:
  "history db = history db' \<Longrightarrow> history_ok sha db = history_ok sha db'"
  "sharing_grants db = sharing_grants db' \<Longrightarrow> sharing_ok db = sharing_ok db'"
  "successions db = successions db' \<Longrightarrow> care_ok db = care_ok db'"
  by (simp_all add: history_ok_def chain_of_def sharing_ok_def care_ok_def)

lemma append_history_frame:
  assumes "append_history sha at mid kind actor gid payload db = Inr db'"
  shows "memorials db' = memorials db" and "sharing_grants db' = sharing_grants db" and "controls db' = controls db"
    and "successions db' = successions db" and "erasure_requests db' = erasure_requests db" and "users db' = users db"
    and "members db' = members db" and "activities db' = activities db" and "erasures db' = erasures db"
    and "media_files db' = media_files db"
  using append_history_appended [OF assms] by (auto simp: appended_def)

lemma append_site_ok:
  assumes "append_history sha at mid kind actor gid payload db = Inr db'" and "history_ok sha db" and "sharing_ok db" and "care_ok db"
  shows "site_ok sha db'"
  using append_history_chain(1) [OF assms(1,2)] append_history_frame [OF assms(1)] assms(3,4) part_cong(2,3) [of db' db]
  by (simp add: site_ok_def)

section \<open>Grants\<close>

lemma insert_sharing_ok:
  assumes "insert_sharing_grant g db = Inr db'" and "sharing_ok db" and "reviewed g"
  shows "sharing_ok db'" and "db' = db\<lparr>sharing_grants := sharing_grants db @ [g]\<rparr>"
  using assms by (auto simp: insert_sharing_grant_def sharing_ok_def Let_def split: if_split_asm)

lemma update_sharing_ok:
  assumes "update_sharing_grant gid f db = Inr db'" and "sharing_ok db" and "\<And>g. sg_id (f g) = sg_id g"
    and "\<And>g. reviewed g \<Longrightarrow> reviewed (f g)"
  shows "sharing_ok db'"
    and "db' = db\<lparr>sharing_grants := update_rows (\<lambda>g. sg_id g = gid) f (sharing_grants db)\<rparr>"
proof -
  have ids: "map sg_id (update_rows (\<lambda>g. sg_id g = gid) f gs) = map sg_id gs" for gs
    by (rule map_update_rows) (rule assms(3))
  have reviewed: "list_all reviewed (update_rows (\<lambda>g. sg_id g = gid) f gs)" if "list_all reviewed gs" for gs
    using that assms(4) by (induction gs) auto
  show "sharing_ok db'" "db' = db\<lparr>sharing_grants := update_rows (\<lambda>g. sg_id g = gid) f (sharing_grants db)\<rparr>"
    using assms(1,2) by (auto simp: update_sharing_grant_def sharing_ok_def Let_def ids reviewed split: if_split_asm)
qed

lemma operator_identity_Inr:
  "operator_identity sha reviewer reference = Inr (actor, evidence) \<Longrightarrow>
     actor = lit ''operator:'' @ reviewer \<and> reviewer_id reviewer \<and> starts_with (lit ''operator:'') actor \<and>
     evidence = sha (strip_by py_isspace reference)"
  by (auto simp: operator_identity_def Let_def bindE_eq_Inr digest_Inr starts_with_def split: if_split_asm)

lemma enable_control_frame [simp]:
  "sharing_grants (enable_control mid t db) = sharing_grants db" "history (enable_control mid t db) = history db"
  "successions (enable_control mid t db) = successions db" "memorials (enable_control mid t db) = memorials db"
  by (simp_all add: enable_control_def)

lemma record_grant_Inr:
  assumes "record_grant sha env mid owner_id signed_name audience activation db = Inr (db', gid)"
  shows "\<exists>m db1 payload. owned_by db mid owner_id = Some m \<and> current_grant db mid = None \<and>
    insert_sharing_grant (pending_grant env m owner_id (strip_by py_isspace signed_name) audience activation)
      (enable_control mid (stamp env 0) db) = Inr db1 \<and>
    append_history sha (stamp env 1) mid ''grant_recorded'' (Some owner_id) (Some gid) payload db1 = Inr db' \<and> gid = token_hex env"
proof -
  have ok: "name_ok (strip_by py_isspace signed_name) \<and> audience \<in> set audiences \<and> activation \<in> set activations"
    using assms by (auto simp: record_grant_def consent_error_def Let_def split: if_split_asm)
  obtain m where m: "owned_by db mid owner_id = Some m" "current_grant db mid = None"
    using assms ok by (auto simp: record_grant_def consent_error_def Let_def split: option.split_asm if_split_asm)
  with assms ok show ?thesis
    by (simp add: record_grant_def Let_def bindE_eq_Inr) blast
qed

lemma record_grant_ok:
  assumes "record_grant sha env mid owner_id signed_name audience activation db = Inr (db', gid)" and "site_ok sha db"
  shows "site_ok sha db'"
proof -
  obtain m db1 payload where ins: "insert_sharing_grant (pending_grant env m owner_id (strip_by py_isspace signed_name) audience activation)
      (enable_control mid (stamp env 0) db) = Inr db1"
    and app: "append_history sha (stamp env 1) mid ''grant_recorded'' (Some owner_id) (Some gid) payload db1 = Inr db'"
    using record_grant_Inr [OF assms(1)] by blast
  have "sharing_ok (enable_control mid (stamp env 0) db)"
    using assms(2) part_cong(2) [of "enable_control mid (stamp env 0) db" db] by (simp add: site_ok_def)
  from insert_sharing_ok [OF ins this] have new: "sharing_ok db1" "history db1 = history db" "successions db1 = successions db"
    by (simp_all add: reviewed_def pending_grant_def)
  show ?thesis
    by (rule append_site_ok [OF app]) (use new assms(2) part_cong(1,3) [of db1 db] in \<open>simp_all add: site_ok_def\<close>)
qed

lemma verify_grant_Inr:
  assumes "verify_grant sha env gid reviewer reference db = Inr (db', u)"
  shows "\<exists>actor evidence g db1. operator_identity sha reviewer reference = Inr (actor, evidence) \<and>
    get_sharing_grant db gid = Some g \<and> sg_status g = lit ''pending'' \<and>
    update_sharing_grant gid (verified_grant (stamp env 0) actor evidence) db = Inr db1 \<and>
    append_history sha (stamp env 1) (sg_memorial_id g) ''grant_verified'' (Some actor) (Some gid)
      [(lit ''evidence_digest'', JStr evidence)] db1 = Inr db'"
  using assms unfolding verify_grant_def
  by (elim bindE_InrE) (auto simp: consent_error_def bindE_eq_Inr split: option.split_asm if_split_asm prod.split_asm)

lemma verify_grant_ok:
  assumes "verify_grant sha env gid reviewer reference db = Inr (db', u)" and "site_ok sha db"
  shows "site_ok sha db'"
proof -
  obtain actor evidence db1 and g :: sharing_grant where who: "operator_identity sha reviewer reference = Inr (actor, evidence)"
    and upd: "update_sharing_grant gid (verified_grant (stamp env 0) actor evidence) db = Inr db1"
    and app: "append_history sha (stamp env 1) (sg_memorial_id g) ''grant_verified'' (Some actor) (Some gid)
      [(lit ''evidence_digest'', JStr evidence)] db1 = Inr db'"
    using verify_grant_Inr [OF assms(1)] by blast
  have "reviewed (verified_grant (stamp env 0) actor evidence g)" for g
    using operator_identity_Inr [OF who] by (simp add: reviewed_def verified_grant_def)
  with update_sharing_ok [OF upd] assms(2) have new: "sharing_ok db1" "history db1 = history db" "successions db1 = successions db"
    by (simp_all add: site_ok_def verified_grant_def)
  show ?thesis
    by (rule append_site_ok [OF app]) (use new assms(2) part_cong(1,3) [of db1 db] in \<open>simp_all add: site_ok_def\<close>)
qed

lemma revoke_sharing_cases:
  assumes "revoke_sharing sha env mid gid owner_id reviewer reference db = Inr (db', changed)"
  obtains (already) g where "find (\<lambda>g. sg_id g = gid \<and> sg_memorial_id g = mid) (sharing_grants db) = Some g"
      and "sg_status g = lit ''revoked''" and "db' = db" and "\<not> changed"
  | (now) g actor payload db1 where "find (\<lambda>g. sg_id g = gid \<and> sg_memorial_id g = mid) (sharing_grants db) = Some g"
      and "sg_status g \<noteq> lit ''revoked''" and "changed"
      and "update_sharing_grant gid (revoked_sharing (stamp env 0) actor) db = Inr db1"
      and "append_history sha (stamp env 1) mid ''grant_revoked'' (Some actor) (Some gid) payload db1 = Inr db'"
  using assms unfolding revoke_sharing_def
  by (elim bindE_InrE) (auto simp: consent_error_def bindE_eq_Inr split: option.split_asm if_split_asm prod.split_asm)

lemma revoke_sharing_ok:
  assumes "revoke_sharing sha env mid gid owner_id reviewer reference db = Inr (db', changed)" and "site_ok sha db"
  shows "site_ok sha db'"
  using assms(1)
proof (cases rule: revoke_sharing_cases)
  case (now g actor payload db1)
  have "reviewed (revoked_sharing (stamp env 0) actor g)" for g
    by (simp add: reviewed_def revoked_sharing_def)
  with update_sharing_ok [OF now(4)] assms(2) have new: "sharing_ok db1" "history db1 = history db" "successions db1 = successions db"
    by (simp_all add: site_ok_def revoked_sharing_def)
  show ?thesis
    by (rule append_site_ok [OF now(5)]) (use new assms(2) part_cong(1,3) [of db1 db] in \<open>simp_all add: site_ok_def\<close>)
qed (use assms(2) in simp)

text \<open>After a revocation the memorial has no current grant: the index admits one only.\<close>

lemma current_unique:
  assumes "one_current gs" and "g \<in> set gs" and "h \<in> set gs" and "sg_memorial_id g = sg_memorial_id h"
    and "sg_status g \<noteq> lit ''revoked''" and "sg_status h \<noteq> lit ''revoked''"
  shows "g = h"
  using assms unfolding one_current_def by (auto simp: distinct_map inj_on_def)

lemma revoke_leaves_no_grant:
  assumes "revoke_sharing sha env mid gid owner_id reviewer reference db = Inr (db', True)" and "sharing_ok db"
  shows "current_grant db' mid = None"
  using assms(1)
proof (cases rule: revoke_sharing_cases)
  case (now g actor payload db1)
  have g: "g \<in> set (sharing_grants db)" "sg_id g = gid" "sg_memorial_id g = mid"
    using find_SomeD [OF now(1)] by auto
  have "sharing_grants db' = update_rows (\<lambda>g. sg_id g = gid) (revoked_sharing (stamp env 0) actor) (sharing_grants db)"
    using append_history_frame(2) [OF now(5)] now(4) by (auto simp: update_sharing_grant_def Let_def split: if_split_asm)
  note rows = this
  have only: "sg_id h = gid" if "h \<in> set (sharing_grants db)" "sg_memorial_id h = mid" "sg_status h \<noteq> lit ''revoked''" for h
    using current_unique [of "sharing_grants db" h g] that g now(2) assms(2) by (auto simp: sharing_ok_def)
  have "\<not> (sg_memorial_id h = mid \<and> sg_status h \<noteq> lit ''revoked'')" if h: "h \<in> set (sharing_grants db')" for h
  proof -
    obtain x where x: "x \<in> set (sharing_grants db)" "h = (if sg_id x = gid then revoked_sharing (stamp env 0) actor x else x)"
      using h rows by (auto simp: in_update_rows)
    show ?thesis
      using x(2) only [OF x(1)] by (cases "sg_id x = gid") (auto simp: revoked_sharing_def)
  qed
  then show ?thesis
    by (simp add: current_grant_def find_None_iff)
qed simp

section \<open>Views\<close>

lemma authorize_view_Inr:
  assumes "authorize_view sha env mid role actor_id action purpose db = Inr (db', d)"
  shows "d = snd (view_decision db mid role action purpose)"
    and "append_history sha (stamp env 0) mid (if gd_allowed d then ''authorized'' else ''denied'') actor_id
      (map_option sg_id (fst (view_decision db mid role action purpose))) [(lit ''reason'', JStr (gd_code d))] db = Inr db'"
  using assms by (auto simp: authorize_view_def split_def bindE_eq_Inr Let_def)

text \<open>A view is allowed exactly under a current, verified grant whose audience and release time admit it.\<close>

lemma view_allowed_iff:
  "gd_allowed (snd (view_decision db mid role action purpose)) \<longleftrightarrow> action = lit ''memorial_view'' \<and> purpose = lit ''memorial'' \<and>
     (\<exists>c g. get_control db mid = Some c \<and> current_grant db mid = Some g \<and> may_view g (co_death_confirmed_at c \<notin> {None, Some []}) role)"
  by (auto simp: view_decision_def gate_correct Let_def split: option.split)

lemma no_grant_no_view: "current_grant db mid = None \<Longrightarrow> \<not> gd_allowed (snd (view_decision db mid role action purpose))"
  by (simp add: view_allowed_iff)

lemma allowed_view_reviewed:
  assumes "gd_allowed (snd (view_decision db mid role action purpose))" and "sharing_ok db"
  shows "\<exists>g \<in> set (sharing_grants db). sg_memorial_id g = mid \<and> sg_status g = lit ''verified'' \<and>
    (\<exists>who. sg_verified_by g = Some who \<and> starts_with (lit ''operator:'') who)"
proof -
  obtain g where g: "current_grant db mid = Some g" "sg_status g = lit ''verified''"
    using assms(1) by (auto simp: view_allowed_iff may_view_def)
  then have "g \<in> set (sharing_grants db)" "sg_memorial_id g = mid"
    using find_SomeD [of _ "sharing_grants db" g] by (auto simp: current_grant_def)
  with g assms(2) show ?thesis
    by (force simp: sharing_ok_def list_all_iff reviewed_def)
qed

lemma authorize_view_ok:
  assumes "authorize_view sha env mid role actor_id action purpose db = Inr (db', d)" and "site_ok sha db"
  shows "site_ok sha db'"
  using append_site_ok [OF authorize_view_Inr(2) [OF assms(1)]] assms(2) by (simp add: site_ok_def)

lemma death_ok:
  assumes "confirm_death sha fromiso env mid death_date reviewer reference db = Inr (db', u) \<or>
      clear_death sha env mid reviewer reference db = Inr (db', u)" and "site_ok sha db"
  shows "site_ok sha db'"
proof -
  obtain f at kind actor payload where "append_history sha at mid kind (Some actor) None payload (update_control mid f db) = Inr db'"
    using assms(1)
  proof
    assume "confirm_death sha fromiso env mid death_date reviewer reference db = Inr (db', u)"
    then show thesis
      using that unfolding confirm_death_def
      by (elim bindE_InrE) (auto simp: consent_error_def bindE_eq_Inr split: option.split_asm if_split_asm prod.split_asm)
  next
    assume "clear_death sha env mid reviewer reference db = Inr (db', u)"
    then show thesis
      using that unfolding clear_death_def
      by (elim bindE_InrE) (auto simp: consent_error_def bindE_eq_Inr split: option.split_asm if_split_asm prod.split_asm)
  qed
  then show ?thesis
    by (rule append_site_ok) (use assms(2) part_cong [of "update_control mid f db" db] in \<open>simp_all add: site_ok_def update_control_def\<close>)
qed


section \<open>Care of the memorial\<close>

text \<open>The owners of all memorials, in order: only a transfer changes them.\<close>

definition owners :: "site_db \<Rightarrow> (pstr \<times> pstr) list" where
  "owners db = map (\<lambda>m. (me_id m, me_owner_id m)) (memorials db)"

lemma update_memorial_Inr:
  "update_memorial mid f db = Inr db' \<Longrightarrow> db' = db\<lparr>memorials := update_rows (\<lambda>m. me_id m = mid) f (memorials db)\<rparr>"
  by (simp add: update_memorial_def Let_def split: if_split_asm)

lemma update_memorial_owners:
  assumes "update_memorial mid f db = Inr db'" and "\<And>m. me_id (f m) = me_id m \<and> me_owner_id (f m) = me_owner_id m"
  shows "owners db' = owners db"
  using update_memorial_Inr [OF assms(1)] assms(2) by (simp add: owners_def map_update_rows)

lemma log_activity_Inr:
  assumes "log_activity sha t u mid kind actor rid payload db = Inr db'"
  shows "\<exists>db1 a. append_history sha t mid kind (Some actor) None ((lit ''request_id'', JStr rid) # payload) db = Inr db1 \<and>
    db' = db1\<lparr>activities := activities db1 @ [a]\<rparr>"
  using assms unfolding log_activity_def
  by (elim bindE_InrE) (auto simp: insert_activity_def split: if_split_asm)

lemma log_activity_keeps:
  assumes "log_activity sha t u mid kind actor rid payload db = Inr db'"
  shows "owners db' = owners db" and "memorials db' = memorials db" and "successions db' = successions db"
    and "sharing_grants db' = sharing_grants db" and "members db' = members db" and "users db' = users db"
    and "history_ok sha db \<Longrightarrow> sharing_ok db \<Longrightarrow> care_ok db \<Longrightarrow> site_ok sha db'"
proof -
  obtain db1 a where app: "append_history sha t mid kind (Some actor) None ((lit ''request_id'', JStr rid) # payload) db = Inr db1"
    and db': "db' = db1\<lparr>activities := activities db1 @ [a]\<rparr>"
    using log_activity_Inr [OF assms] by blast
  show "owners db' = owners db" "memorials db' = memorials db" "successions db' = successions db"
    "sharing_grants db' = sharing_grants db" "members db' = members db" "users db' = users db"
    using append_history_frame [OF app] by (simp_all add: db' owners_def)
  assume "history_ok sha db" "sharing_ok db" "care_ok db"
  from append_site_ok [OF app this] show "site_ok sha db'"
    using part_cong [of db' db1] by (simp add: site_ok_def db')
qed

lemma update_succession_Inr:
  assumes "update_succession rid f db = Inr db'" and "care_ok db" and "\<And>r. su_id (f r) = su_id r"
    and "\<And>r. su_status (f r) = lit ''accepted'' \<Longrightarrow> acceptance_recorded (f r)"
  shows "care_ok db'" and "db' = db\<lparr>successions := update_rows (\<lambda>r. su_id r = rid) f (successions db)\<rparr>"
proof -
  have ids: "map su_id (update_rows (\<lambda>r. su_id r = rid) f rs) = map su_id rs" for rs
    by (rule map_update_rows) (rule assms(3))
  have declared: "list_all (\<lambda>r. su_status r = lit ''accepted'' \<longrightarrow> acceptance_recorded r) (update_rows (\<lambda>r. su_id r = rid) f rs)"
    if "list_all (\<lambda>r. su_status r = lit ''accepted'' \<longrightarrow> acceptance_recorded r) rs" for rs
    using that assms(4) by (induction rs) auto
  show "care_ok db'" "db' = db\<lparr>successions := update_rows (\<lambda>r. su_id r = rid) f (successions db)\<rparr>"
    using assms(1,2) by (auto simp: update_succession_def care_ok_def Let_def ids declared split: if_split_asm)
qed

lemma insert_succession_Inr:
  assumes "insert_succession r db = Inr db'" and "su_status r \<noteq> lit ''accepted''"
  shows "db' = db\<lparr>successions := successions db @ [r]\<rparr>" and "care_ok db \<Longrightarrow> care_ok db'"
  using assms by (auto simp: insert_succession_def care_ok_def Let_def split: if_split_asm)

lemma finish_care:
  assumes "log_activity sha t u mid kind actor rid payload db2 = Inr db3" and "site_ok sha db" and "history db2 = history db"
    and "sharing_grants db2 = sharing_grants db" and "care_ok db2"
  shows "site_ok sha db3"
  using log_activity_keeps(7) [OF assms(1)] assms(2-) part_cong(1,2) [of db2 db] by (simp add: site_ok_def)

lemma nominate_Inr:
  assumes "nominate sha lower env mid owner_id email account_code db = Inr (db', rid)" and "site_ok sha db"
  shows "site_ok sha db'" and "owners db' = owners db" and "\<not> has_active db mid"
    and "\<exists>m. get_memorial db mid = Some m \<and> me_owner_id m = owner_id"
proof -
  obtain m db1 db2 and nominee owner :: site_user where own: "owner_record db mid owner_id = Inr m" and free: "\<not> has_active db mid"
    and ins: "insert_succession (offered (token_hex env) m owner_id (us_id nominee) (us_name owner) (stamp env 0)) db = Inr db1"
    and upd: "update_memorial mid (\<lambda>m. m\<lparr>me_successor := lower (strip_by py_isspace email), me_updated := stamp env 0\<rparr>) db1 = Inr db2"
    and log: "log_activity sha (stamp env 1) (stamp env 2) mid ''successor_nominated'' owner_id (token_hex env)
                 [(lit ''nominee_id'', JStr (us_id nominee))] db2 = Inr db'"
    using assms(1) unfolding nominate_def
    by (elim bindE_InrE) (auto simp: succession_error_def bindE_eq_Inr split: option.split_asm if_split_asm)
  have new: "db1 = db\<lparr>successions := successions db @ [offered (token_hex env) m owner_id (us_id nominee) (us_name owner) (stamp env 0)]\<rparr>"
    "care_ok db1"
    using insert_succession_Inr [OF ins] assms(2) by (simp_all add: offered_def site_ok_def)
  have db2: "history db2 = history db" "sharing_grants db2 = sharing_grants db" "successions db2 = successions db1"
    using update_memorial_Inr [OF upd] new(1) by simp_all
  show "site_ok sha db'"
    by (rule finish_care [OF log assms(2)]) (use db2 new(2) part_cong(3) [of db2 db1] in simp_all)
  show "owners db' = owners db"
    using log_activity_keeps(1) [OF log] update_memorial_owners [OF upd] new(1) by (simp add: owners_def)
  show "\<not> has_active db mid" by (rule free)
  show "\<exists>m. get_memorial db mid = Some m \<and> me_owner_id m = owner_id"
    using own by (auto simp: owner_record_def succession_error_def split: option.split_asm if_split_asm)
qed

text \<open>Closing a nomination (declined, cancelled) and accepting one.\<close>

lemma close_keeps:
  assumes "update_succession rid (closed status t) db = Inr db1" and "update_memorial mid (\<lambda>m. m\<lparr>me_successor := []\<rparr>) db1 = Inr db2"
    and "log_activity sha u v mid kind actor rid payload db2 = Inr db3" and "site_ok sha db" and "lit status \<noteq> lit ''accepted''"
  shows "site_ok sha db3" and "owners db3 = owners db"
proof -
  have new: "care_ok db1" "db1 = db\<lparr>successions := update_rows (\<lambda>r. su_id r = rid) (closed status t) (successions db)\<rparr>"
    using update_succession_Inr [OF assms(1)] assms(4,5) by (auto simp: closed_def site_ok_def)
  have db2: "history db2 = history db" "sharing_grants db2 = sharing_grants db" "successions db2 = successions db1"
    using update_memorial_Inr [OF assms(2)] new(2) by simp_all
  show "site_ok sha db3"
    by (rule finish_care [OF assms(3,4)]) (use db2 new(1) part_cong(3) [of db2 db1] in simp_all)
  show "owners db3 = owners db"
    using log_activity_keeps(1) [OF assms(3)] update_memorial_owners [OF assms(2)] new(2) by (simp add: owners_def)
qed

lemma accept_nomination_Inr:
  assumes "accept_nomination sha env invitation nominee_id signed_name authority db = Inr (db', changed)" and "site_ok sha db"
    and "signed_name \<noteq> []" and "authority \<in> set authorities"
  shows "site_ok sha db'" and "owners db' = owners db"
    and "changed \<Longrightarrow> successions db' = update_rows (\<lambda>r. su_id r = su_id invitation) (accepted (stamp env 0) signed_name authority) (successions db)"
proof -
  have "site_ok sha db' \<and> owners db' = owners db \<and>
      (changed \<longrightarrow> successions db' = update_rows (\<lambda>r. su_id r = su_id invitation) (accepted (stamp env 0) signed_name authority) (successions db))"
  proof (cases "su_status invitation = lit ''accepted''")
    case True
    then show ?thesis
      using assms(1,2) by (simp add: accept_nomination_def)
  next
    case False
    obtain db1 payload where upd: "update_succession (su_id invitation) (accepted (stamp env 0) signed_name authority) db = Inr db1"
      and log: "log_activity sha (stamp env 1) (stamp env 2) (su_memorial_id invitation) ''successor_accepted'' nominee_id (su_id invitation)
        payload db1 = Inr db'"
      using assms(1) False by (auto simp: accept_nomination_def bindE_eq_Inr)
    have "acceptance_recorded (accepted (stamp env 0) signed_name authority r)" for r
      using assms(3,4) by (simp add: acceptance_recorded_def accepted_def)
    then have new: "care_ok db1"
      "db1 = db\<lparr>successions := update_rows (\<lambda>r. su_id r = su_id invitation) (accepted (stamp env 0) signed_name authority) (successions db)\<rparr>"
      using update_succession_Inr [OF upd] assms(2) by (auto simp: accepted_def site_ok_def)
    have "site_ok sha db'"
      by (rule finish_care [OF log assms(2)]) (use new in simp_all)
    moreover have "owners db' = owners db" "successions db' = successions db1"
      using log_activity_keeps(1,3) [OF log] new(2) by (simp_all add: owners_def)
    ultimately show ?thesis
      using new(2) by simp
  qed
  then show "site_ok sha db'" "owners db' = owners db"
    "changed \<Longrightarrow> successions db' = update_rows (\<lambda>r. su_id r = su_id invitation) (accepted (stamp env 0) signed_name authority) (successions db)"
    by simp_all
qed

lemma respond_Inr:
  assumes "respond sha env rid nominee_id action signed_name authority db = Inr (db', changed)" and "site_ok sha db"
  shows "site_ok sha db'" and "owners db' = owners db"
proof -
  consider (accept) invitation where "accept_nomination sha env invitation nominee_id (strip_by py_isspace signed_name) authority db = Inr (db', changed)"
      and "name_ok (strip_by py_isspace signed_name)" and "authority \<in> set authorities"
    | (decline) invitation where "decline_nomination sha env invitation nominee_id db = Inr (db', changed)"
    using assms(1) unfolding respond_def
    by (auto simp: succession_error_def bindE_eq_Inr Let_def split: option.split_asm if_split_asm response_action.split_asm)
  then have "site_ok sha db' \<and> owners db' = owners db"
  proof cases
    case (accept invitation)
    then have "strip_by py_isspace signed_name \<noteq> []"
      by (auto simp: name_ok_def)
    with accept_nomination_Inr(1,2) [OF accept(1) assms(2)] accept(3) show ?thesis by simp
  next
    case (decline invitation)
    then obtain db1 db2 where "update_succession (su_id invitation) (closed ''declined'' (stamp env 0)) db = Inr db1"
      and "update_memorial (su_memorial_id invitation) (\<lambda>m. m\<lparr>me_successor := []\<rparr>) db1 = Inr db2"
      and "log_activity sha (stamp env 1) (stamp env 2) (su_memorial_id invitation) ''successor_declined'' nominee_id (su_id invitation) [] db2 = Inr db'"
      by (auto simp: decline_nomination_def bindE_eq_Inr)
    from close_keeps [OF this assms(2)] show ?thesis by simp
  qed
  then show "site_ok sha db'" "owners db' = owners db" by simp_all
qed

lemma cancel_nomination_Inr:
  assumes "cancel_nomination sha env mid rid owner_id db = Inr (db', changed)" and "site_ok sha db"
  shows "site_ok sha db'" and "owners db' = owners db"
proof -
  consider "db' = db" | db1 db2 where "update_succession rid (closed ''cancelled'' (stamp env 0)) db = Inr db1"
      and "update_memorial mid (\<lambda>m. m\<lparr>me_successor := []\<rparr>) db1 = Inr db2"
      and "log_activity sha (stamp env 1) (stamp env 2) mid ''successor_cancelled'' owner_id rid [] db2 = Inr db'"
    using assms(1) unfolding cancel_nomination_def
    by (elim bindE_InrE) (auto simp: succession_error_def bindE_eq_Inr split: option.split_asm if_split_asm)
  then have "site_ok sha db' \<and> owners db' = owners db"
  proof cases
    case 2
    from close_keeps [OF 2 assms(2)] show ?thesis by simp
  qed (use assms(2) in simp)
  then show "site_ok sha db'" "owners db' = owners db" by simp_all
qed

section \<open>Transfer\<close>

lemma transfer_cases:
  assumes "transfer sha env rid from_owner_id to_account_id reviewer reference db = Inr (db', changed)"
  obtains (already) r where "find (\<lambda>r. su_id r = rid) (successions db) = Some r" and "su_status r = lit ''completed''"
      and "db' = db" and "\<not> changed"
  | (now) r m actor evidence where "find (\<lambda>r. su_id r = rid) (successions db) = Some r" and "su_status r = lit ''accepted''" and "changed"
      and "su_from_owner_id r = from_owner_id" and "su_nominee_id r = to_account_id" and "acceptance_recorded r"
      and "get_memorial db (su_memorial_id r) = Some m" and "me_owner_id m = from_owner_id" and "\<not> has_pending_erasure db (me_id m)"
      and "hand_over sha env r m actor evidence db = Inr (db', True)"
proof -
  obtain actor evidence r where r: "find (\<lambda>r. su_id r = rid) (successions db) = Some r"
    and match: "su_from_owner_id r = from_owner_id" "su_nominee_id r = to_account_id"
    and rest: "(if su_status r = lit ''completed'' then Inr (db, False)
         else if su_status r \<noteq> lit ''accepted'' then succession_error ''Only an accepted, current nomination can be transferred.''
         else bindE (owner_record db (su_memorial_id r) from_owner_id) (\<lambda>m.
           if has_pending_erasure db (me_id m) then succession_error ''Resolve the pending erasure request before transferring care.''
           else if \<not> acceptance_recorded r
           then succession_error ''The nominee must record a valid acceptance declaration before transfer.''
           else hand_over sha env r m actor evidence db)) = Inr (db', changed)"
    using assms unfolding transfer_def
    by (elim bindE_InrE) (auto simp: succession_error_def split: option.split_asm if_split_asm prod.split_asm)
  show thesis
  proof (cases "su_status r = lit ''completed''")
    case True
    then show thesis
      using r rest by (intro already [of r]) simp_all
  next
    case False
    then obtain m where m: "owner_record db (su_memorial_id r) from_owner_id = Inr m" "\<not> has_pending_erasure db (me_id m)"
        "acceptance_recorded r" "hand_over sha env r m actor evidence db = Inr (db', changed)" "su_status r = lit ''accepted''"
      using rest by (auto simp: succession_error_def bindE_eq_Inr split: if_split_asm)
    moreover have changed
      using m(4) by (auto simp: hand_over_def bindE_eq_Inr)
    moreover have "get_memorial db (su_memorial_id r) = Some m \<and> me_owner_id m = from_owner_id"
      using m(1) by (auto simp: owner_record_def succession_error_def split: option.split_asm if_split_asm)
    ultimately show thesis
      using r match by (intro now [of r m actor evidence]) simp_all
  qed
qed

lemma hand_over_Inr:
  assumes "hand_over sha env r m actor evidence db = Inr (db', changed)" and "site_ok sha db"
  shows "site_ok sha db'"
    and "owners db' = map (\<lambda>(i, j). (i, if i = me_id m then su_nominee_id r else j)) (owners db)"
    and "us_id u = su_from_owner_id r \<Longrightarrow> find (\<lambda>u. us_id u = su_from_owner_id r) (users db) = Some u \<Longrightarrow>
      \<lparr> mb_memorial_id = me_id m, mb_email = us_email u \<rparr> \<notin> set (members db')"
    and "successions db' = update_rows (\<lambda>x. su_id x = su_id r) (completed (stamp env 0) actor evidence m) (successions db)"
proof -
  obtain db1 db2 payload where upd: "update_memorial (me_id m) (handed_over (su_nominee_id r) r (stamp env 0)) db = Inr db1"
    and suc: "update_succession (su_id r) (completed (stamp env 0) actor evidence m) (drop_member (me_id m) (su_from_owner_id r) db1) = Inr db2"
    and log: "log_activity sha (stamp env 1) (stamp env 2) (me_id m) ''ownership_transferred'' actor (su_id r) payload db2 = Inr db'"
    using assms(1) by (auto simp: hand_over_def bindE_eq_Inr)
  have db1: "db1 = db\<lparr>memorials := update_rows (\<lambda>x. me_id x = me_id m) (handed_over (su_nominee_id r) r (stamp env 0)) (memorials db)\<rparr>"
    by (rule update_memorial_Inr [OF upd])
  let ?db1 = "drop_member (me_id m) (su_from_owner_id r) db1"
  have drop: "history ?db1 = history db" "sharing_grants ?db1 = sharing_grants db" "successions ?db1 = successions db"
    "memorials ?db1 = memorials db1" "users ?db1 = users db"
    by (simp_all add: drop_member_def db1 split: option.split)
  have care: "care_ok ?db1"
    using assms(2) part_cong(3) [of ?db1 db] drop(3) by (simp add: site_ok_def)
  have db2: "care_ok db2" "db2 = ?db1\<lparr>successions := update_rows (\<lambda>x. su_id x = su_id r) (completed (stamp env 0) actor evidence m) (successions ?db1)\<rparr>"
    using update_succession_Inr [OF suc care] by (auto simp: completed_def)
  show "site_ok sha db'"
    by (rule finish_care [OF log assms(2)]) (use db2 drop in simp_all)
  have "owners db' = owners db1"
    using log_activity_keeps(1) [OF log] db2(2) drop(4) by (simp add: owners_def)
  also have "\<dots> = map (\<lambda>(i, j). (i, if i = me_id m then su_nominee_id r else j)) (owners db)"
    by (simp add: db1 owners_def update_rows_def handed_over_def)
  finally show "owners db' = map (\<lambda>(i, j). (i, if i = me_id m then su_nominee_id r else j)) (owners db)" .
  show "successions db' = update_rows (\<lambda>x. su_id x = su_id r) (completed (stamp env 0) actor evidence m) (successions db)"
    using log_activity_keeps(3) [OF log] db2(2) drop(3) by simp
  assume "find (\<lambda>u. us_id u = su_from_owner_id r) (users db) = Some u"
  moreover have "members db' = members ?db1"
    using log_activity_keeps(5) [OF log] db2(2) by simp
  ultimately show "\<lparr> mb_memorial_id = me_id m, mb_email = us_email u \<rparr> \<notin> set (members db')"
    by (simp add: drop_member_def get_user_def db1)
qed

lemma transfer_ok:
  assumes "transfer sha env rid from_owner_id to_account_id reviewer reference db = Inr (db', changed)" and "site_ok sha db"
  shows "site_ok sha db'"
  using assms(1)
proof (cases rule: transfer_cases)
  case (now r m actor evidence)
  then show ?thesis
    using hand_over_Inr(1) assms(2) by blast
qed (use assms(2) in simp)

end
