(* ===== verification/Erasure.thy ===== *)
theory Erasure imports Succession begin

text \<open>
  Permanent erasure of a memorial, \<open>remembrance/erasure.py\<close>: the owner's request, the operator's decision in
  a ledger kept outside the database, the deletion, and its reapplication to a restored backup.

  The ledger file is the list of its complete lines and whether a partial line follows them; \<open>loads\<close> stands
  for \<open>json.loads\<close> of a line and \<open>fromiso\<close> for \<open>datetime.fromisoformat\<close> accepting a text. The environment
  says what the disk does: \<open>writes\<close>, whether the ledger line is written whole, and \<open>commits n\<close>, whether
  the n-th commit of the run succeeds. A crash is one of them being false. The lock that serialises
  erasures is the atomicity of an operation on the file.
\<close>

section \<open>The owner's request\<close>

definition erasure_declaration :: pstr where
  "erasure_declaration = lit (''I ask the operator to permanently erase this memorial after reviewing my request: its life story, '' @
     ''private and archived memories, media files, timeline, tributes, family access, reports, sharing grants '' @
     ''and nominations. Recording this request archives the memorial now. Erasure cannot be undone. Copies '' @
     ''already downloaded or shared cannot be recalled, and server backups expire on the operator'') @ [8217] @
     lit ''s published schedule.''"

definition erasure_error :: "string \<Rightarrow> site_error + 'a" where
  "erasure_error m = Inl (ErasureError (lit m))"

definition erasure_owner :: "site_db \<Rightarrow> pstr \<Rightarrow> pstr \<Rightarrow> site_error + memorial" where
  "erasure_owner db mid owner_id = (case owned_by db mid owner_id of
     None \<Rightarrow> erasure_error ''Only the current memorial owner can change this erasure request.'' | Some m \<Rightarrow> Inr m)"

definition request_erasure ::
    "(pstr \<Rightarrow> pstr) \<Rightarrow> site_env \<Rightarrow> pstr \<Rightarrow> pstr \<Rightarrow> pstr \<Rightarrow> site_db \<Rightarrow> site_error + (site_db \<times> pstr)" where
  "request_erasure sha env mid owner_id signed_name db =
     (let signed_name = strip_by py_isspace signed_name in
      if \<not> name_ok signed_name then erasure_error ''Enter your full name to record this request.''
      else bindE (erasure_owner db mid owner_id) (\<lambda>_.
        if has_pending_erasure db mid then erasure_error ''An erasure request for this memorial is already waiting for review.''
        else bindE (insert_erasure_request \<lparr> eq_id = token_hex env, eq_memorial_id = mid, eq_requested_by = owner_id,
               eq_signed_name = signed_name, eq_declaration_text = erasure_declaration, eq_status = lit ''pending'',
               eq_created_at = stamp env 0, eq_closed_at = None, eq_closed_by = None, eq_evidence_digest = None \<rparr> db) (\<lambda>db1.
          bindE (update_memorial mid (\<lambda>m. m\<lparr>me_archived := True, me_updated := stamp env 0\<rparr>) db1) (\<lambda>db2.
          bindE (digest sha erasure_declaration) (\<lambda>d.
          bindE (log_activity sha (stamp env 1) (stamp env 2) mid ''erasure_requested'' owner_id (token_hex env)
            [(lit ''declaration_digest'', JStr d)] db2) (\<lambda>db3.
          Inr (db3, token_hex env)))))))"

definition close_request :: "string \<Rightarrow> pstr \<Rightarrow> pstr \<Rightarrow> pstr option \<Rightarrow> erasure_request \<Rightarrow> erasure_request" where
  "close_request status moment by evidence r = r\<lparr>eq_status := lit status, eq_closed_at := Some moment, eq_closed_by := Some by,
     eq_evidence_digest := evidence\<rparr>"

definition withdraw ::
    "(pstr \<Rightarrow> pstr) \<Rightarrow> site_env \<Rightarrow> pstr \<Rightarrow> pstr \<Rightarrow> pstr \<Rightarrow> site_db \<Rightarrow> site_error + (site_db \<times> bool)" where
  "withdraw sha env mid request_id owner_id db =
     bindE (erasure_owner db mid owner_id) (\<lambda>_.
     case find (\<lambda>r. eq_id r = request_id \<and> eq_memorial_id r = mid) (erasure_requests db) of
       None \<Rightarrow> erasure_error ''Erasure request not found for this memorial.''
     | Some r \<Rightarrow>
         if eq_status r \<noteq> lit ''pending'' then Inr (db, False)
         else bindE (update_erasure_request request_id (\<lambda>r. (close_request ''withdrawn'' (stamp env 0) owner_id None r)
                \<lparr>eq_evidence_digest := eq_evidence_digest r\<rparr>) db) (\<lambda>db1.
           bindE (log_activity sha (stamp env 1) (stamp env 2) mid ''erasure_withdrawn'' owner_id request_id [] db1) (\<lambda>db2.
           Inr (db2, True))))"

definition decline_erasure ::
    "(pstr \<Rightarrow> pstr) \<Rightarrow> site_env \<Rightarrow> pstr \<Rightarrow> pstr \<Rightarrow> pstr \<Rightarrow> site_db \<Rightarrow> site_error + (site_db \<times> bool)" where
  "decline_erasure sha env request_id reviewer reference db =
     bindE (operator_identity sha reviewer reference) (\<lambda>(actor, evidence).
     case find (\<lambda>r. eq_id r = request_id) (erasure_requests db) of
       None \<Rightarrow> erasure_error ''Erasure request not found.''
     | Some r \<Rightarrow>
         if eq_status r = lit ''declined'' then Inr (db, False)
         else if eq_status r \<noteq> lit ''pending'' then erasure_error ''Only a pending erasure request can be declined.''
         else bindE (update_erasure_request request_id (close_request ''declined'' (stamp env 0) actor (Some evidence)) db) (\<lambda>db1.
           bindE (log_activity sha (stamp env 1) (stamp env 2) (eq_memorial_id r) ''erasure_declined'' actor request_id
             [(lit ''evidence_digest'', JStr evidence)] db1) (\<lambda>db2.
           Inr (db2, True))))"

section \<open>The ledger\<close>

record ledger_file =
  lf_lines :: "pstr list"
  lf_partial :: bool

record ledger_entry =
  le_sequence :: int
  le_memorial_id :: pstr
  le_decided_at :: pstr
  le_actor :: pstr
  le_evidence_digest :: pstr
  le_previous_hash :: pstr
  le_entry_hash :: pstr

definition ledger_format :: pstr where "ledger_format = lit ''remembrance-erasure-ledger''"

definition ledger_fields :: "string list" where
  "ledger_fields = [''format'', ''version'', ''sequence'', ''memorial_id'', ''decided_at'', ''actor'', ''evidence_digest'', ''previous_hash'']"

definition entry_items :: "ledger_entry \<Rightarrow> (pstr \<times> json) list" where
  "entry_items e = [(lit ''format'', JStr ledger_format), (lit ''version'', JInt 1), (lit ''sequence'', JInt (le_sequence e)),
     (lit ''memorial_id'', JStr (le_memorial_id e)), (lit ''decided_at'', JStr (le_decided_at e)), (lit ''actor'', JStr (le_actor e)),
     (lit ''evidence_digest'', JStr (le_evidence_digest e)), (lit ''previous_hash'', JStr (le_previous_hash e))]"

definition entry_text :: "ledger_entry \<Rightarrow> pstr" where
  "entry_text e = canonical_json (JObj (entry_items e))"

definition entry_line :: "ledger_entry \<Rightarrow> pstr" where
  "entry_line e = canonical_json (JObj (entry_items e @ [(lit ''entry_hash'', JStr (le_entry_hash e))]))"

definition memorial_id_ok :: "pstr \<Rightarrow> bool" where
  "memorial_id_ok s \<longleftrightarrow> s \<noteq> [] \<and> is_ascii_alnum (hd s) \<and> list_all (\<lambda>c. is_ascii_alnum c \<or> c \<in> {95, 45}) (tl s) \<and> length s \<le> 64"

text \<open>The fields of a document with exactly the keys of an entry, all of the right types.\<close>

definition read_entry :: "json \<Rightarrow> ledger_entry option" where
  "read_entry v = (case v of
     JObj kvs \<Rightarrow>
       if set (map fst kvs) \<noteq> set (map lit (''entry_hash'' # ledger_fields)) then None
       else (case (map_of kvs (lit ''format''), map_of kvs (lit ''version''), map_of kvs (lit ''sequence''),
                   map_of kvs (lit ''memorial_id''), map_of kvs (lit ''decided_at''), map_of kvs (lit ''actor''),
                   map_of kvs (lit ''evidence_digest''), map_of kvs (lit ''previous_hash''), map_of kvs (lit ''entry_hash'')) of
           (Some (JStr format), Some (JInt version), Some (JInt sequence), Some (JStr mid), Some (JStr decided), Some (JStr actor),
            Some (JStr evidence), Some (JStr prev), Some (JStr h)) \<Rightarrow>
              if format \<noteq> ledger_format \<or> version \<noteq> 1 then None
              else Some \<lparr> le_sequence = sequence, le_memorial_id = mid, le_decided_at = decided, le_actor = actor,
                le_evidence_digest = evidence, le_previous_hash = prev, le_entry_hash = h \<rparr>
         | _ \<Rightarrow> None)
   | _ \<Rightarrow> None)"

definition entry_valid :: "(pstr \<Rightarrow> pstr) \<Rightarrow> (pstr \<Rightarrow> bool) \<Rightarrow> int \<Rightarrow> pstr \<Rightarrow> ledger_entry \<Rightarrow> bool" where
  "entry_valid sha fromiso sequence previous_hash e \<longleftrightarrow> le_sequence e = sequence \<and> le_previous_hash e = previous_hash \<and>
     memorial_id_ok (le_memorial_id e) \<and> starts_with (lit ''operator:'') (le_actor e) \<and>
     is_hex64 (le_evidence_digest e) \<and> is_hex64 (le_entry_hash e) \<and> fromiso (le_decided_at e) \<and>
     digest sha (entry_text e) = Inr (le_entry_hash e)"

definition unverified :: "int \<Rightarrow> site_error" where
  "unverified sequence = ErasureError (lit ''The erasure ledger failed verification at entry '' @ int_str sequence @ lit ''.'')"

definition head_hash :: "ledger_entry list \<Rightarrow> pstr" where
  "head_hash es = (if es = [] then zero_hash else le_entry_hash (last es))"

fun read_lines ::
    "(pstr \<Rightarrow> pstr) \<Rightarrow> (pstr \<Rightarrow> json option) \<Rightarrow> (pstr \<Rightarrow> bool) \<Rightarrow> ledger_entry list \<Rightarrow> pstr list \<Rightarrow> site_error + ledger_entry list" where
  "read_lines sha loads fromiso entries [] = Inr entries"
| "read_lines sha loads fromiso entries (line # lines) =
     (let sequence = int (length entries) + 1 in
      case (case loads line of None \<Rightarrow> None | Some v \<Rightarrow> read_entry v) of
        None \<Rightarrow> Inl (unverified sequence)
      | Some e \<Rightarrow>
          if \<not> entry_valid sha fromiso sequence (head_hash entries) e then Inl (unverified sequence)
          else if le_memorial_id e \<in> le_memorial_id ` set entries
          then Inl (ErasureError (lit ''The erasure ledger repeats memorial '' @ le_memorial_id e @ lit '' at entry '' @ int_str sequence @ lit ''.''))
          else read_lines sha loads fromiso (entries @ [e]) lines)"

definition read_ledger ::
    "(pstr \<Rightarrow> pstr) \<Rightarrow> (pstr \<Rightarrow> json option) \<Rightarrow> (pstr \<Rightarrow> bool) \<Rightarrow> ledger_file \<Rightarrow> site_error + ledger_entry list" where
  "read_ledger sha loads fromiso file =
     (if lf_partial file
      then erasure_error ''The erasure ledger ends with an incomplete entry, probably from an interrupted erasure. Nothing was erased for it. Check it, remove only that final partial line, then retry.''
      else read_lines sha loads fromiso [] (lf_lines file))"

definition entry_for :: "pstr \<Rightarrow> ledger_entry list \<Rightarrow> ledger_entry option" where
  "entry_for mid es = find (\<lambda>e. le_memorial_id e = mid) es"

text \<open>A ledger kept inside the data directory is refused; paths are resolved lists of segments.\<close>

definition path_str :: "pstr list \<Rightarrow> pstr" where
  "path_str path = concat (map (\<lambda>s. 47 # s) path)"

definition checked_ledger :: "pstr list \<Rightarrow> pstr list \<Rightarrow> site_error + unit" where
  "checked_ledger path data = (if take (length data) path = data
     then erasure_error ''Keep the erasure ledger outside the live data directory; backups and restores replace that directory.''
     else Inr ())"

section \<open>Deleting a memorial\<close>

record erasure_env = site_env +
  writes :: bool
  commits :: "nat \<Rightarrow> bool"

record world =
  ew_db :: site_db
  ew_ledger :: "ledger_file option"
  ew_media :: "pstr list"

definition check_registry :: "site_db \<Rightarrow> ledger_entry list \<Rightarrow> site_error + unit" where
  "check_registry db entries =
     (let missing = filter (\<lambda>row. case entry_for (ez_memorial_id row) entries of
              None \<Rightarrow> True
            | Some e \<Rightarrow> (le_sequence e, le_entry_hash e) \<noteq> (ez_ledger_sequence row, ez_ledger_hash row))
            (sort_key ez_ledger_sequence (erasures db))
      in case missing of
           [] \<Rightarrow> Inr ()
         | row # _ \<Rightarrow> Inl (ErasureError (lit ''This database records '' @ int_str (int (length missing)) @
             lit '' erasure(s) that this ledger lacks or contradicts, starting with memorial '' @ ez_memorial_id row @
             lit ''. Use the complete ledger for this server.'')))"

definition register :: "pstr \<Rightarrow> ledger_entry \<Rightarrow> site_db \<Rightarrow> site_error + site_db" where
  "register now entry db =
     (if list_ex (\<lambda>z. ez_memorial_id z = le_memorial_id entry) (erasures db) then Inr db
      else insert_erasure \<lparr> ez_memorial_id = le_memorial_id entry, ez_decided_at = le_decided_at entry, ez_erased_at = now,
        ez_erased_by = le_actor entry, ez_evidence_digest = le_evidence_digest entry,
        ez_ledger_sequence = le_sequence entry, ez_ledger_hash = le_entry_hash entry \<rparr> db)"

text \<open>\<open>DELETE FROM table WHERE memorial_id=?\<close> for every table of \<open>MEMORIAL_TABLES\<close>, then the memorial.\<close>

definition delete_memorial :: "pstr \<Rightarrow> site_db \<Rightarrow> site_db" where
  "delete_memorial mid db = db\<lparr>
     candles := filter (\<lambda>r. cn_memorial_id r \<noteq> mid) (candles db),
     tributes := filter (\<lambda>r. tb_memorial_id r \<noteq> mid) (tributes db),
     timeline := filter (\<lambda>r. sy_memorial_id r \<noteq> mid) (timeline db),
     media_files := filter (\<lambda>r. mf_memorial_id r \<noteq> mid) (media_files db),
     members := filter (\<lambda>r. mb_memorial_id r \<noteq> mid) (members db),
     reports := filter (\<lambda>r. ab_memorial_id r \<noteq> mid) (reports db),
     activities := filter (\<lambda>r. au_memorial_id r \<noteq> mid) (activities db),
     successions := filter (\<lambda>r. su_memorial_id r \<noteq> mid) (successions db),
     erasure_requests := filter (\<lambda>r. eq_memorial_id r \<noteq> mid) (erasure_requests db),
     sharing_grants := filter (\<lambda>r. sg_memorial_id r \<noteq> mid) (sharing_grants db),
     controls := filter (\<lambda>r. co_memorial_id r \<noteq> mid) (controls db),
     memorials := filter (\<lambda>m. me_id m \<noteq> mid) (memorials db) \<rparr>"

definition removed_counts :: "pstr \<Rightarrow> site_db \<Rightarrow> (pstr \<times> json) list" where
  "removed_counts mid db = map (\<lambda>(table, n). (lit table, JInt (int n)))
     [(''candles'', count_rows (\<lambda>r. cn_memorial_id r = mid) (candles db)),
      (''tributes'', count_rows (\<lambda>r. tb_memorial_id r = mid) (tributes db)),
      (''events'', count_rows (\<lambda>r. sy_memorial_id r = mid) (timeline db)),
      (''media'', count_rows (\<lambda>r. mf_memorial_id r = mid) (media_files db)),
      (''members'', count_rows (\<lambda>r. mb_memorial_id r = mid) (members db)),
      (''reports'', count_rows (\<lambda>r. ab_memorial_id r = mid) (reports db)),
      (''audit'', count_rows (\<lambda>r. au_memorial_id r = mid) (activities db)),
      (''succession_requests'', count_rows (\<lambda>r. su_memorial_id r = mid) (successions db)),
      (''erasure_requests'', count_rows (\<lambda>r. eq_memorial_id r = mid) (erasure_requests db)),
      (''consent_grants'', count_rows (\<lambda>r. sg_memorial_id r = mid) (sharing_grants db)),
      (''consent_controls'', count_rows (\<lambda>r. co_memorial_id r = mid) (controls db)),
      (''memorials'', count_rows (\<lambda>m. me_id m = mid) (memorials db)),
      (''media_files'', count_rows (\<lambda>r. mf_memorial_id r = mid) (media_files db))]"

text \<open>\<open>Path(name).name != name or name in ('', '.', '..')\<close>.\<close>

definition unsafe_filename :: "pstr \<Rightarrow> bool" where
  "unsafe_filename name \<longleftrightarrow> 47 \<in> set name \<or> name = [] \<or> name = lit ''.'' \<or> name = lit ''..''"

definition filenames_of :: "pstr \<Rightarrow> site_db \<Rightarrow> pstr list" where
  "filenames_of mid db = map mf_filename (filter (\<lambda>r. mf_memorial_id r = mid) (media_files db))"

text \<open>The database part of \<open>_apply\<close>, and the names of the files it then unlinks.\<close>

definition apply_entry ::
    "(pstr \<Rightarrow> pstr) \<Rightarrow> pstr \<Rightarrow> pstr \<Rightarrow> ledger_entry \<Rightarrow> bool \<Rightarrow> site_db \<Rightarrow> site_error + (site_db \<times> pstr list)" where
  "apply_entry sha event_at erased_at entry reapplied db =
     (let mid = le_memorial_id entry; filenames = filenames_of mid db in
      if list_ex unsafe_filename filenames then erasure_error ''A stored media filename is unsafe; erasure stopped for manual review.''
      else bindE (append_history sha event_at mid ''memorial_erased'' (Some (le_actor entry)) None
             [(lit ''evidence_digest'', JStr (le_evidence_digest entry)), (lit ''ledger_sequence'', JInt (le_sequence entry)),
              (lit ''ledger_hash'', JStr (le_entry_hash entry)), (lit ''reapplied'', JBool reapplied),
              (lit ''removed'', JObj (removed_counts mid db))] (delete_memorial mid db)) (\<lambda>db1.
        bindE (register erased_at entry db1) (\<lambda>db2. Inr (db2, filenames))))"

definition unlink :: "pstr list \<Rightarrow> pstr list \<Rightarrow> pstr list" where
  "unlink names media = filter (\<lambda>f. f \<notin> set names) media"

text \<open>The transaction around it: the files go just before the commit, which may fail.\<close>

definition apply_in_world ::
    "(pstr \<Rightarrow> pstr) \<Rightarrow> pstr \<Rightarrow> pstr \<Rightarrow> bool \<Rightarrow> ledger_entry \<Rightarrow> bool \<Rightarrow> world \<Rightarrow> world \<times> (site_error + unit)" where
  "apply_in_world sha event_at erased_at commit_ok entry reapplied w =
     (case apply_entry sha event_at erased_at entry reapplied (ew_db w) of
        Inl e \<Rightarrow> (w, Inl e)
      | Inr (db, names) \<Rightarrow>
          (let w = w\<lparr>ew_media := unlink names (ew_media w)\<rparr> in
           if commit_ok then (w\<lparr>ew_db := db\<rparr>, Inr ()) else (w, Inl OSError)))"

section \<open>Erasing\<close>

definition next_entry ::
    "(pstr \<Rightarrow> pstr) \<Rightarrow> pstr \<Rightarrow> ledger_entry list \<Rightarrow> pstr \<Rightarrow> pstr \<Rightarrow> pstr \<Rightarrow> site_error + ledger_entry" where
  "next_entry sha decided_at entries mid actor evidence =
     (let e = \<lparr> le_sequence = int (length entries) + 1, le_memorial_id = mid, le_decided_at = decided_at, le_actor = actor,
            le_evidence_digest = evidence, le_previous_hash = head_hash entries, le_entry_hash = [] \<rparr>
      in bindE (digest sha (entry_text e)) (\<lambda>h. Inr (e\<lparr>le_entry_hash := h\<rparr>)))"

text \<open>\<open>open_ledger(path, create=True)\<close>.\<close>

definition opened :: "world \<Rightarrow> ledger_file" where
  "opened w = (case ew_ledger w of Some f \<Rightarrow> f | None \<Rightarrow> \<lparr> lf_lines = [], lf_partial = False \<rparr>)"

definition erase_recorded ::
    "(pstr \<Rightarrow> pstr) \<Rightarrow> erasure_env \<Rightarrow> pstr \<Rightarrow> ledger_entry list \<Rightarrow> pstr \<Rightarrow> pstr \<Rightarrow> world \<Rightarrow> world \<times> (site_error + unit)" where
  "erase_recorded sha env mid entries actor evidence w =
     (case entry_for mid entries of
        Some entry \<Rightarrow> apply_in_world sha (isoformat (reading env 0)) (isoformat (reading env 1)) (commits env 0) entry True w
      | None \<Rightarrow>
          (case next_entry sha (isoformat (reading env 0)) entries mid actor evidence of
             Inl e \<Rightarrow> (w, Inl e)
           | Inr entry \<Rightarrow>
               (let f = opened w in
                if \<not> writes env then (w\<lparr>ew_ledger := Some (f\<lparr>lf_partial := True\<rparr>)\<rparr>, Inl OSError)
                else apply_in_world sha (isoformat (reading env 1)) (isoformat (reading env 2)) (commits env 0) entry False
                  (w\<lparr>ew_ledger := Some (f\<lparr>lf_lines := lf_lines f @ [entry_line entry]\<rparr>)\<rparr>))))"

definition erase ::
    "(pstr \<Rightarrow> pstr) \<Rightarrow> (pstr \<Rightarrow> json option) \<Rightarrow> (pstr \<Rightarrow> bool) \<Rightarrow> erasure_env \<Rightarrow> pstr list \<Rightarrow> pstr list \<Rightarrow> pstr \<Rightarrow> pstr \<Rightarrow> pstr \<Rightarrow> pstr
       \<Rightarrow> world \<Rightarrow> world \<times> (site_error + bool)" where
  "erase sha loads fromiso env ledger_path data_dir mid owner_id reviewer reference w =
     (case bindE (operator_identity sha reviewer reference) (\<lambda>who. bindE (checked_ledger ledger_path data_dir) (\<lambda>_. Inr who)) of
        Inl e \<Rightarrow> (w, Inl e)
      | Inr (actor, evidence) \<Rightarrow>
          (let w = w\<lparr>ew_ledger := Some (opened w)\<rparr> in
           case read_ledger sha loads fromiso (opened w) of
             Inl e \<Rightarrow> (w, Inl e)
           | Inr entries \<Rightarrow>
               (case check_registry (ew_db w) entries of
                  Inl e \<Rightarrow> (w, Inl e)
                | Inr _ \<Rightarrow>
                    (case get_memorial (ew_db w) mid of
                       None \<Rightarrow> if list_ex (\<lambda>z. ez_memorial_id z = mid) (erasures (ew_db w)) then (w, Inr False)
                         else (w, erasure_error ''Memorial not found. If a restore removed it, run erasure reapply.'')
                     | Some m \<Rightarrow>
                         if me_owner_id m \<noteq> owner_id
                         then (w, erasure_error ''The memorial and owner account must both match the reviewed case.'')
                         else (case erase_recorded sha env mid entries actor evidence w of
                             (w', Inl e) \<Rightarrow> (w', Inl e) | (w', Inr _) \<Rightarrow> (w', Inr True))))))"

section \<open>Reapplying to a restored backup\<close>

record reapply_summary =
  ry_ledger_entries :: nat
  ry_outstanding :: "pstr list"
  ry_erased :: nat
  ry_recorded :: nat

definition exists_memorial :: "site_db \<Rightarrow> pstr \<Rightarrow> bool" where
  "exists_memorial db mid \<longleftrightarrow> get_memorial db mid \<noteq> None"

definition registered :: "site_db \<Rightarrow> pstr \<Rightarrow> bool" where
  "registered db mid \<longleftrightarrow> list_ex (\<lambda>z. ez_memorial_id z = mid) (erasures db)"

text \<open>The loop; \<open>n\<close> numbers the entry, whose transaction reads the clock at \<open>2 * n\<close>.\<close>

fun reapply_entries ::
    "(pstr \<Rightarrow> pstr) \<Rightarrow> erasure_env \<Rightarrow> bool \<Rightarrow> nat \<Rightarrow> ledger_entry list \<Rightarrow> reapply_summary \<Rightarrow> world \<Rightarrow> world \<times> (site_error + reapply_summary)" where
  "reapply_entries sha env check n [] summary w = (w, Inr summary)"
| "reapply_entries sha env check n (entry # rest) summary w =
     (let mid = le_memorial_id entry; present = exists_memorial (ew_db w) mid; known = registered (ew_db w) mid in
      if check
      then reapply_entries sha env check (Suc n) rest
        (if present \<or> \<not> known then summary\<lparr>ry_outstanding := ry_outstanding summary @ [mid]\<rparr> else summary) w
      else if present
      then (case apply_in_world sha (isoformat (reading env (2 * n))) (isoformat (reading env (2 * n + 1))) (commits env n) entry True w of
          (w, Inl e) \<Rightarrow> (w, Inl e)
        | (w, Inr _) \<Rightarrow> reapply_entries sha env check (Suc n) rest (summary\<lparr>ry_erased := ry_erased summary + 1\<rparr>) w)
      else if \<not> known
      then (case register (isoformat (reading env (2 * n))) entry (ew_db w) of
          Inl e \<Rightarrow> (w, Inl e)
        | Inr db \<Rightarrow> if commits env n
            then reapply_entries sha env check (Suc n) rest (summary\<lparr>ry_recorded := ry_recorded summary + 1\<rparr>) (w\<lparr>ew_db := db\<rparr>)
            else (w, Inl OSError))
      else if commits env n then reapply_entries sha env check (Suc n) rest summary w else (w, Inl OSError))"

definition reapply ::
    "(pstr \<Rightarrow> pstr) \<Rightarrow> (pstr \<Rightarrow> json option) \<Rightarrow> (pstr \<Rightarrow> bool) \<Rightarrow> erasure_env \<Rightarrow> pstr list \<Rightarrow> pstr list \<Rightarrow> bool
       \<Rightarrow> world \<Rightarrow> world \<times> (site_error + reapply_summary)" where
  "reapply sha loads fromiso env ledger_path data_dir check w =
     (case checked_ledger ledger_path data_dir of
        Inl e \<Rightarrow> (w, Inl e)
      | Inr _ \<Rightarrow>
          (case ew_ledger w of
             None \<Rightarrow> (w, Inl (ErasureError (lit ''Erasure ledger not found at '' @ path_str ledger_path @
               lit ''. Check the path; never substitute an empty ledger.'')))
           | Some f \<Rightarrow>
               (case bindE (read_ledger sha loads fromiso f) (\<lambda>entries. bindE (check_registry (ew_db w) entries) (\<lambda>_. Inr entries)) of
                  Inl e \<Rightarrow> (w, Inl e)
                | Inr entries \<Rightarrow> reapply_entries sha env check 0 entries
                    \<lparr> ry_ledger_entries = length entries, ry_outstanding = [], ry_erased = 0, ry_recorded = 0 \<rparr> w)))"

definition create_ledger :: "pstr list \<Rightarrow> pstr list \<Rightarrow> world \<Rightarrow> world \<times> (site_error + unit)" where
  "create_ledger ledger_path data_dir w =
     (case checked_ledger ledger_path data_dir of
        Inl e \<Rightarrow> (w, Inl e)
      | Inr _ \<Rightarrow>
          if erasures (ew_db w) \<noteq> []
          then (w, erasure_error ''This database records erasures. Retrieve the existing ledger instead of starting a new one.'')
          else if ew_ledger w \<noteq> None then (w, Inl (ErasureError (lit ''A ledger already exists at '' @ path_str ledger_path @ lit ''; it was left unchanged.'')))
          else (w\<lparr>ew_ledger := Some \<lparr> lf_lines = [], lf_partial = False \<rparr>\<rparr>, Inr ()))"

end
