(* ===== verification/Erasure_Facts.thy ===== *)
theory Erasure_Facts imports Memorial_Facts Erasure Json_Parse begin

text \<open>
  Correctness of erasure: the ledger is a numbered hash chain that never repeats a memorial, a line the
  program writes is read back as the entry it was written for, nothing is deleted before its decision is on
  record, an erasure leaves no row of the memorial outside the two tables kept by design, and reapplying the
  ledger settles every entry and then changes nothing.
\<close>

section \<open>The ledger\<close>

text \<open>What the theorems use of \<open>hexdigest\<close>.\<close>

definition hex_digest :: "(pstr \<Rightarrow> pstr) \<Rightarrow> bool" where
  "hex_digest sha \<longleftrightarrow> (\<forall>s. is_hex64 (sha s))"

definition same_entry :: "ledger_entry \<Rightarrow> ledger_entry \<Rightarrow> bool" where
  "same_entry d e \<longleftrightarrow> d\<lparr>le_entry_hash := []\<rparr> = e\<lparr>le_entry_hash := []\<rparr>"

lemma canon_entry_items:
  "canon (JObj (entry_items e)) = JObj [(lit ''actor'', JStr (le_actor e)), (lit ''decided_at'', JStr (le_decided_at e)),
     (lit ''evidence_digest'', JStr (le_evidence_digest e)), (lit ''format'', JStr ledger_format),
     (lit ''memorial_id'', JStr (le_memorial_id e)), (lit ''previous_hash'', JStr (le_previous_hash e)),
     (lit ''sequence'', JInt (le_sequence e)), (lit ''version'', JInt 1)]"
  by (simp add: entry_items_def lit_def)

lemma canon_entry_line:
  "canon (JObj (entry_items e @ [(lit ''entry_hash'', JStr (le_entry_hash e))])) =
     JObj [(lit ''actor'', JStr (le_actor e)), (lit ''decided_at'', JStr (le_decided_at e)),
     (lit ''entry_hash'', JStr (le_entry_hash e)),
     (lit ''evidence_digest'', JStr (le_evidence_digest e)), (lit ''format'', JStr ledger_format),
     (lit ''memorial_id'', JStr (le_memorial_id e)), (lit ''previous_hash'', JStr (le_previous_hash e)),
     (lit ''sequence'', JInt (le_sequence e)), (lit ''version'', JInt 1)]"
  by (simp add: entry_items_def lit_def)

lemma entry_text_iff: "entry_text d = entry_text e \<longleftrightarrow> same_entry d e"
  unfolding entry_text_def canonical_json_eq canon_entry_items
  by (cases d; cases e) (auto simp: same_entry_def)

interpretation ledger: hash_chain sha entry_text le_previous_hash le_entry_hash zero_hash
  for sha :: "pstr \<Rightarrow> pstr"
proof
  fix d e :: ledger_entry
  assume "entry_text d = entry_text e"
  then have "le_previous_hash (d\<lparr>le_entry_hash := []\<rparr>) = le_previous_hash (e\<lparr>le_entry_hash := []\<rparr>)"
    by (simp add: entry_text_iff same_entry_def)
  then show "le_previous_hash d = le_previous_hash e" by simp
qed

lemma read_entry_line: "read_entry (canon (JObj (entry_items e @ [(lit ''entry_hash'', JStr (le_entry_hash e))]))) = Some e"
  unfolding canon_entry_line by (auto simp: read_entry_def ledger_fields_def)

definition ledger_good :: "(pstr \<Rightarrow> pstr) \<Rightarrow> ledger_entry list \<Rightarrow> bool" where
  "ledger_good sha es \<longleftrightarrow> ledger.intact sha es \<and> (\<forall>i < length es. le_sequence (es ! i) = int i + 1) \<and>
     distinct (map le_memorial_id es)"

lemma ledger_good_Nil: "ledger_good sha []"
  by (simp add: ledger_good_def)

lemma ledger_good_snoc:
  assumes "ledger_good sha es" and "entry_valid sha fromiso (int (length es) + 1) (head_hash es) e"
    and "le_memorial_id e \<notin> le_memorial_id ` set es"
  shows "ledger_good sha (es @ [e])"
proof -
  have "le_previous_hash e = ledger.head es"
    using assms(2) by (simp add: entry_valid_def head_hash_def ledger.head_def head_from_last)
  moreover have "ledger.sealed sha e"
    using assms(2) by (simp add: entry_valid_def ledger.sealed_def digest_Inr)
  ultimately show ?thesis
    using assms by (auto simp: ledger_good_def entry_valid_def nth_append less_Suc_eq)
qed

lemma read_lines_good:
  "read_lines sha loads fromiso es lines = Inr es' \<Longrightarrow> ledger_good sha es \<Longrightarrow>
     ledger_good sha es' \<and> length es' = length es + length lines"
proof (induction sha loads fromiso es lines rule: read_lines.induct)
  case (2 sha loads fromiso es line lines)
  obtain e where e: "entry_valid sha fromiso (int (length es) + 1) (head_hash es) e" "le_memorial_id e \<notin> le_memorial_id ` set es"
      "read_lines sha loads fromiso (es @ [e]) lines = Inr es'"
      "(case loads line of None \<Rightarrow> None | Some v \<Rightarrow> read_entry v) = Some e"
    using 2(2) by (auto simp: Let_def split: option.split_asm if_split_asm)
  have "ledger_good sha es' \<and> length es' = length (es @ [e]) + length lines"
    by (rule 2(1) [OF refl e(4)]) (use e ledger_good_snoc 2(3) in auto)
  then show ?case by simp
qed simp

lemma read_lines_append:
  "read_lines sha loads fromiso es (xs @ ys) =
     bindE (read_lines sha loads fromiso es xs) (\<lambda>es'. read_lines sha loads fromiso es' ys)"
proof (induction xs arbitrary: es)
  case (Cons x xs)
  show ?case
  proof (cases "case loads x of None \<Rightarrow> None | Some v \<Rightarrow> read_entry v")
    case (Some e)
    then show ?thesis by (simp add: Cons.IH Let_def)
  qed simp
qed simp

text \<open>The entry a run appends is the entry the next run reads.\<close>

lemma appended_line_read:
  assumes "read_ledger sha loads fromiso f = Inr es" and "next_entry sha t es mid actor evidence = Inr e"
    and "entry_for mid es = None" and "loads_canonical loads" and "hex_digest sha"
    and "memorial_id_ok mid" and "starts_with (lit ''operator:'') actor" and "is_hex64 evidence" and "fromiso t"
  shows "read_ledger sha loads fromiso (f\<lparr>lf_lines := lf_lines f @ [entry_line e]\<rparr>) = Inr (es @ [e])"
proof -
  obtain d h where d: "d = \<lparr> le_sequence = int (length es) + 1, le_memorial_id = mid, le_decided_at = t, le_actor = actor,
            le_evidence_digest = evidence, le_previous_hash = head_hash es, le_entry_hash = [] \<rparr>"
    and h: "digest sha (entry_text d) = Inr h" and e: "e = d\<lparr>le_entry_hash := h\<rparr>"
    using assms(2) by (auto simp: next_entry_def Let_def bindE_eq_Inr)
  have "entry_text e = entry_text d"
    by (simp add: e entry_text_iff same_entry_def)
  then have "entry_valid sha fromiso (int (length es) + 1) (head_hash es) e"
    using assms(5-9) h by (auto simp: entry_valid_def e d hex_digest_def digest_Inr)
  moreover have "le_memorial_id e \<notin> le_memorial_id ` set es"
    using assms(3) by (auto simp: entry_for_def find_None_iff e d)
  moreover have "loads (entry_line e) = Some (canon (JObj (entry_items e @ [(lit ''entry_hash'', JStr (le_entry_hash e))])))"
    using assms(4) by (auto simp: loads_canonical_def entry_line_def entry_items_def)
  ultimately have "read_lines sha loads fromiso es [entry_line e] = Inr (es @ [e])"
    by (simp add: read_entry_line Let_def del: canon.simps)
  with assms(1) show ?thesis
    by (simp add: read_ledger_def read_lines_append erasure_error_def split: if_split_asm)
qed

section \<open>The registry\<close>

definition row_agrees :: "ledger_entry list \<Rightarrow> erasure \<Rightarrow> bool" where
  "row_agrees es row \<longleftrightarrow> (\<exists>e. entry_for (ez_memorial_id row) es = Some e \<and> le_sequence e = ez_ledger_sequence row \<and>
     le_entry_hash e = ez_ledger_hash row)"

lemma check_registry_iff: "check_registry db es = Inr () \<longleftrightarrow> (\<forall>row \<in> set (erasures db). row_agrees es row)"
proof -
  let ?bad = "\<lambda>row. case entry_for (ez_memorial_id row) es of None \<Rightarrow> True
    | Some e \<Rightarrow> (le_sequence e, le_entry_hash e) \<noteq> (ez_ledger_sequence row, ez_ledger_hash row)"
  have "check_registry db es = Inr () \<longleftrightarrow> filter ?bad (sort_key ez_ledger_sequence (erasures db)) = []"
    unfolding check_registry_def Let_def by (cases "filter ?bad (sort_key ez_ledger_sequence (erasures db))") simp_all
  then show ?thesis
    by (auto simp: filter_empty_conv row_agrees_def split: option.splits)
qed

lemma entry_for_Some: "entry_for mid es = Some e \<Longrightarrow> e \<in> set es \<and> le_memorial_id e = mid"
  unfolding entry_for_def using find_SomeD by fastforce

lemma entry_for_in: "ledger_good sha es \<Longrightarrow> e \<in> set es \<Longrightarrow> entry_for (le_memorial_id e) es = Some e"
  unfolding entry_for_def ledger_good_def by (rule find_key) auto

definition registry_row :: "pstr \<Rightarrow> ledger_entry \<Rightarrow> erasure" where
  "registry_row now entry = \<lparr> ez_memorial_id = le_memorial_id entry, ez_decided_at = le_decided_at entry, ez_erased_at = now,
     ez_erased_by = le_actor entry, ez_evidence_digest = le_evidence_digest entry,
     ez_ledger_sequence = le_sequence entry, ez_ledger_hash = le_entry_hash entry \<rparr>"

lemma register_Inr:
  "register now entry db = Inr db' \<Longrightarrow>
     db' = db\<lparr>erasures := erasures db @ (if registered db (le_memorial_id entry) then [] else [registry_row now entry])\<rparr>"
  by (auto simp: register_def registered_def insert_erasure_def registry_row_def Let_def split: if_split_asm)

lemma register_agrees:
  assumes "register now entry db = Inr db'" and "check_registry db es = Inr ()" and "ledger_good sha es" and "entry \<in> set es"
  shows "check_registry db' es = Inr ()"
  using assms(2) register_Inr [OF assms(1)] entry_for_in [OF assms(3,4)]
  by (auto simp: check_registry_iff row_agrees_def registry_row_def)

text \<open>A row of the ledger can always be registered.\<close>

lemma register_total:
  assumes "check_registry db es = Inr ()" and "ledger_good sha es" and "entry \<in> set es"
    and "distinct (map ez_memorial_id (erasures db))" and "distinct (map ez_ledger_sequence (erasures db))"
  shows "\<exists>db'. register now entry db = Inr db'"
proof (cases "registered db (le_memorial_id entry)")
  case True
  then show ?thesis by (simp add: register_def registered_def)
next
  case False
  have new: "le_memorial_id entry \<notin> ez_memorial_id ` set (erasures db)"
    using False by (auto simp: registered_def list_ex_iff)
  have "le_sequence entry \<notin> ez_ledger_sequence ` set (erasures db)"
  proof
    assume "le_sequence entry \<in> ez_ledger_sequence ` set (erasures db)"
    then obtain row where row: "row \<in> set (erasures db)" "ez_ledger_sequence row = le_sequence entry" by auto
    then obtain d where d: "entry_for (ez_memorial_id row) es = Some d" "le_sequence d = le_sequence entry"
      using assms(1) by (auto simp: check_registry_iff row_agrees_def)
    then have "d \<in> set es" "le_memorial_id d = ez_memorial_id row"
      using entry_for_Some by blast+
    moreover have "d = entry"
    proof -
      obtain i j where "i < length es" "es ! i = d" "j < length es" "es ! j = entry"
        using \<open>d \<in> set es\<close> assms(3) by (metis in_set_conv_nth)
      with assms(2) d(2) have "i = j" unfolding ledger_good_def by fastforce
      with \<open>es ! i = d\<close> \<open>es ! j = entry\<close> show ?thesis by simp
    qed
    ultimately show False
      using new row(1) by (auto simp: image_iff)
  qed
  with new False assms(4,5) show ?thesis
    by (auto simp: register_def registered_def insert_erasure_def Let_def)
qed

section \<open>Deleting\<close>

text \<open>No row of a memorial in any table that erasure covers.\<close>

definition gone :: "pstr \<Rightarrow> site_db \<Rightarrow> bool" where
  "gone mid db \<longleftrightarrow> mid \<notin> cn_memorial_id ` set (candles db) \<and> mid \<notin> tb_memorial_id ` set (tributes db) \<and> mid \<notin> sy_memorial_id ` set (timeline db) \<and> mid \<notin> ab_memorial_id ` set (reports db) \<and>
     mid \<notin> mf_memorial_id ` set (media_files db) \<and> mid \<notin> mb_memorial_id ` set (members db) \<and>
     mid \<notin> au_memorial_id ` set (activities db) \<and> mid \<notin> su_memorial_id ` set (successions db) \<and>
     mid \<notin> eq_memorial_id ` set (erasure_requests db) \<and> mid \<notin> sg_memorial_id ` set (sharing_grants db) \<and>
     mid \<notin> co_memorial_id ` set (controls db) \<and> mid \<notin> me_id ` set (memorials db)"

definition settled :: "pstr \<Rightarrow> site_db \<Rightarrow> bool" where
  "settled mid db \<longleftrightarrow> get_memorial db mid = None \<and> registered db mid"

lemma delete_gone: "gone mid (delete_memorial mid db)"
  by (auto simp: gone_def delete_memorial_def)

lemma gone_memorial: "gone mid db \<Longrightarrow> get_memorial db mid = None"
  by (auto simp: gone_def get_memorial_def find_None_iff)

lemma apply_entry_Inr:
  assumes "apply_entry sha t u entry again db = Inr (db', names)"
  shows "\<exists>e. db' = (delete_memorial (le_memorial_id entry) db)\<lparr>history := history db @ [e],
      erasures := erasures db @ (if registered db (le_memorial_id entry) then [] else [registry_row u entry])\<rparr> \<and>
      he_memorial_id e = le_memorial_id entry \<and> he_event_type e = lit ''memorial_erased''"
    and "names = filenames_of (le_memorial_id entry) db" and "\<not> list_ex unsafe_filename names"
    and "history_ok sha db \<Longrightarrow> history_ok sha db'"
proof -
  let ?mid = "le_memorial_id entry"
  obtain db1 payload where app: "append_history sha t ?mid ''memorial_erased'' (Some (le_actor entry)) None payload (delete_memorial ?mid db) = Inr db1"
    and reg: "register u entry db1 = Inr db'" and names: "names = filenames_of ?mid db" "\<not> list_ex unsafe_filename names"
    using assms by (auto simp: apply_entry_def erasure_error_def Let_def bindE_eq_Inr split: if_split_asm)
  obtain e where e: "db1 = (delete_memorial ?mid db)\<lparr>history := history (delete_memorial ?mid db) @ [e]\<rparr>"
      "he_memorial_id e = ?mid" "he_event_type e = lit ''memorial_erased''"
    using append_history_appended [OF app] by (auto simp: appended_def)
  have same: "registered db1 ?mid = registered db ?mid" "history (delete_memorial ?mid db) = history db" "erasures db1 = erasures db"
    by (simp_all add: e(1) registered_def delete_memorial_def)
  show "\<exists>e. db' = (delete_memorial ?mid db)\<lparr>history := history db @ [e],
      erasures := erasures db @ (if registered db ?mid then [] else [registry_row u entry])\<rparr> \<and>
      he_memorial_id e = ?mid \<and> he_event_type e = lit ''memorial_erased''"
    using register_Inr [OF reg] e same by (intro exI [of _ e]) (simp add: delete_memorial_def)
  show "names = filenames_of ?mid db" "\<not> list_ex unsafe_filename names" by (rule names)+
  assume "history_ok sha db"
  then have "history_ok sha (delete_memorial ?mid db)"
    using part_cong(1) [OF same(2)] by simp
  from append_history_chain(1) [OF app this] show "history_ok sha db'"
    using part_cong(1) [of db' db1] register_Inr [OF reg] by simp
qed

lemma apply_entry_gone:
  assumes "apply_entry sha t u entry again db = Inr (db', names)"
  shows "gone (le_memorial_id entry) db'" and "registered db' (le_memorial_id entry)" and "settled (le_memorial_id entry) db'"
    and "settled other db \<Longrightarrow> settled other db'"
    and "check_registry db es = Inr () \<Longrightarrow> ledger_good sha es \<Longrightarrow> entry \<in> set es \<Longrightarrow> check_registry db' es = Inr ()"
proof -
  let ?mid = "le_memorial_id entry"
  obtain e where db': "db' = (delete_memorial ?mid db)\<lparr>history := history db @ [e],
      erasures := erasures db @ (if registered db ?mid then [] else [registry_row u entry])\<rparr>"
    using apply_entry_Inr(1) [OF assms] by blast
  show gone: "gone ?mid db'"
    using delete_gone [of ?mid db] by (simp add: db' gone_def)
  show reg: "registered db' ?mid"
    by (auto simp: db' registered_def registry_row_def)
  show "settled ?mid db'"
    using gone_memorial [OF gone] reg by (simp add: settled_def)
  show "settled other db \<Longrightarrow> settled other db'"
    by (auto simp: settled_def db' registered_def get_memorial_def delete_memorial_def find_None_iff)
  assume "check_registry db es = Inr ()" "ledger_good sha es" "entry \<in> set es"
  then show "check_registry db' es = Inr ()"
    using entry_for_in [of sha es entry] by (auto simp: check_registry_iff db' row_agrees_def registry_row_def)
qed

section \<open>Erasing\<close>

lemma apply_in_world_cases:
  assumes "apply_in_world sha t u ok entry again w = (w', r)"
  obtains (refused) e where "r = Inl e" and "w' = w"
  | (crashed) names where "r = Inl OSError" and "w' = w\<lparr>ew_media := unlink names (ew_media w)\<rparr>" and "\<not> ok"
      and "names = filenames_of (le_memorial_id entry) (ew_db w)"
  | (erased) names where "r = Inr ()" and "apply_entry sha t u entry again (ew_db w) = Inr (ew_db w', names)"
      and "ew_media w' = unlink names (ew_media w)" and "ew_ledger w' = ew_ledger w" and ok
  using assms apply_entry_Inr(2)
  by (auto simp: apply_in_world_def Let_def split: sum.split_asm if_split_asm)

lemma opened_again [simp]: "opened (w\<lparr>ew_ledger := Some f\<rparr>) = f"
  by (simp add: opened_def)

text \<open>What a run of \<open>erase\<close> that got past its checks did.\<close>

lemma erase_started:
  assumes "erase sha loads fromiso env path data mid owner_id reviewer reference w = (w', r)" and "w' \<noteq> w\<lparr>ew_ledger := Some (opened w)\<rparr> \<or> r = Inr True"
    and "w' \<noteq> w \<or> r = Inr True"
  shows "\<exists>actor evidence entries m. operator_identity sha reviewer reference = Inr (actor, evidence) \<and>
    read_ledger sha loads fromiso (opened w) = Inr entries \<and> check_registry (ew_db w) entries = Inr () \<and>
    get_memorial (ew_db w) mid = Some m \<and> me_owner_id m = owner_id \<and>
    erase_recorded sha env mid entries actor evidence (w\<lparr>ew_ledger := Some (opened w)\<rparr>) =
      (w', case r of Inl e \<Rightarrow> Inl e | Inr _ \<Rightarrow> Inr ())"
  using assms
  by (auto simp: erase_def bindE_eq_Inr Let_def erasure_error_def split: sum.split_asm option.split_asm if_split_asm prod.split_asm)

text \<open>The decision on a memorial is on record: the ledger on disk reads back, has an entry for it, and covers
  everything the database registers.\<close>

definition on_record :: "(pstr \<Rightarrow> pstr) \<Rightarrow> (pstr \<Rightarrow> json option) \<Rightarrow> (pstr \<Rightarrow> bool) \<Rightarrow> pstr \<Rightarrow> world \<Rightarrow> bool" where
  "on_record sha loads fromiso mid w \<longleftrightarrow> (\<exists>f entries. ew_ledger w = Some f \<and> read_ledger sha loads fromiso f = Inr entries \<and>
     entry_for mid entries \<noteq> None \<and> check_registry (ew_db w) entries = Inr ())"

lemma read_ledger_good: "read_ledger sha loads fromiso f = Inr entries \<Longrightarrow> ledger_good sha entries"
  using read_lines_good [OF _ ledger_good_Nil] by (auto simp: read_ledger_def erasure_error_def split: if_split_asm)

lemma entry_for_snoc: "entry_for mid es = Some e \<Longrightarrow> entry_for mid (es @ xs) = Some e"
  by (simp add: entry_for_def find_append)

lemma check_registry_snoc: "check_registry db es = Inr () \<Longrightarrow> check_registry db (es @ xs) = Inr ()"
  by (auto simp: check_registry_iff row_agrees_def dest: entry_for_snoc)

lemma apply_in_world_record:
  assumes "apply_in_world sha t u ok entry again w = (w', r)" and "ew_ledger w = Some f"
    and "read_ledger sha loads fromiso f = Inr entries" and "check_registry (ew_db w) entries = Inr ()" and "entry \<in> set entries"
  shows "ew_db w' = ew_db w \<and> ew_media w' = ew_media w \<or> on_record sha loads fromiso (le_memorial_id entry) w'"
proof -
  have good: "ledger_good sha entries"
    by (rule read_ledger_good [OF assms(3)])
  note found = entry_for_in [OF good assms(5)]
  show ?thesis
    using assms(1)
  proof (cases rule: apply_in_world_cases)
    case (crashed names)
    then show ?thesis
      using assms(2-4) found by (auto simp: on_record_def)
  next
    case (erased names)
    then show ?thesis
      using assms(2,3) found apply_entry_gone(5) [OF erased(2) assms(4) good assms(5)] by (auto simp: on_record_def)
  qed simp
qed

text \<open>Whatever happens during a run, crashes included: nothing of the memorial is touched, or the decision is
  on record.\<close>

lemma decision_first:
  assumes "erase sha loads fromiso env path data mid owner_id reviewer reference w = (w', r)"
    and "loads_canonical loads" and "hex_digest sha" and "memorial_id_ok mid" and "fromiso (isoformat (reading env 0))"
  shows "ew_db w' = ew_db w \<and> ew_media w' = ew_media w \<or> on_record sha loads fromiso mid w'"
proof (cases "(w' \<noteq> w\<lparr>ew_ledger := Some (opened w)\<rparr> \<or> r = Inr True) \<and> (w' \<noteq> w \<or> r = Inr True)")
  case False
  then show ?thesis by auto
next
  case True
  let ?w = "w\<lparr>ew_ledger := Some (opened w)\<rparr>"
  obtain actor evidence entries res where who: "operator_identity sha reviewer reference = Inr (actor, evidence)"
    and read: "read_ledger sha loads fromiso (opened w) = Inr entries" and reg: "check_registry (ew_db w) entries = Inr ()"
    and run: "erase_recorded sha env mid entries actor evidence ?w = (w', res)"
    using erase_started [OF assms(1)] True by blast
  show ?thesis
  proof (cases "entry_for mid entries")
    case (Some entry)
    then have entry: "entry \<in> set entries" "le_memorial_id entry = mid"
      using entry_for_Some by blast+
    have "apply_in_world sha (isoformat (reading env 0)) (isoformat (reading env 1)) (commits env 0) entry True ?w = (w', res)"
      using run Some by (simp add: erase_recorded_def)
    from apply_in_world_record [OF this _ read _ entry(1)] reg entry(2) show ?thesis by auto
  next
    case None
    show ?thesis
    proof (cases "next_entry sha (isoformat (reading env 0)) entries mid actor evidence")
      case (Inl e)
      then show ?thesis
        using run None by (auto simp: erase_recorded_def)
    next
      case (Inr entry)
      show ?thesis
      proof (cases "writes env")
        case False
        then show ?thesis
          using run None Inr by (auto simp: erase_recorded_def Let_def)
      next
        case True
        let ?f = "(opened w)\<lparr>lf_lines := lf_lines (opened w) @ [entry_line entry]\<rparr>"
        have "is_hex64 evidence"
          using operator_identity_Inr [OF who] assms(3) by (simp add: hex_digest_def)
        then have read': "read_ledger sha loads fromiso ?f = Inr (entries @ [entry])"
          using read Inr None assms(2-5) operator_identity_Inr [OF who] by (intro appended_line_read) auto
        have mid: "le_memorial_id entry = mid"
          using Inr by (auto simp: next_entry_def Let_def bindE_eq_Inr)
        have ap: "apply_in_world sha (isoformat (reading env 1)) (isoformat (reading env 2)) (commits env 0) entry False
            (?w\<lparr>ew_ledger := Some ?f\<rparr>) = (w', res)"
          using run None Inr True by (simp add: erase_recorded_def Let_def)
        have "ew_db w' = ew_db w \<and> ew_media w' = ew_media w \<or> on_record sha loads fromiso mid w'"
          using apply_in_world_record [OF ap _ read'] check_registry_snoc [OF reg] mid by simp
        then show ?thesis
          by blast
      qed
    qed
  qed
qed

text \<open>A run that reports success has erased the memorial, its files and nothing else.\<close>

lemma erase_done:
  assumes "erase sha loads fromiso env path data mid owner_id reviewer reference w = (w', Inr True)"
  shows "\<exists>e u entry. ew_db w' = (delete_memorial mid (ew_db w))\<lparr>history := history (ew_db w) @ [e],
      erasures := erasures (ew_db w) @ (if registered (ew_db w) mid then [] else [registry_row u entry])\<rparr> \<and>
      he_memorial_id e = mid \<and> he_event_type e = lit ''memorial_erased'' \<and> le_memorial_id entry = mid"
    and "gone mid (ew_db w')" and "registered (ew_db w') mid"
    and "ew_media w' = unlink (filenames_of mid (ew_db w)) (ew_media w)"
    and "\<exists>m. get_memorial (ew_db w) mid = Some m \<and> me_owner_id m = owner_id"
    and "history_ok sha (ew_db w) \<Longrightarrow> history_ok sha (ew_db w')"
proof -
  let ?w = "w\<lparr>ew_ledger := Some (opened w)\<rparr>"
  obtain actor evidence entries m where mem: "get_memorial (ew_db w) mid = Some m" "me_owner_id m = owner_id"
    and run: "erase_recorded sha env mid entries actor evidence ?w = (w', Inr ())"
    using erase_started [OF assms] by auto
  obtain t u ok entry again f where ap: "apply_in_world sha t u ok entry again (?w\<lparr>ew_ledger := f\<rparr>) = (w', Inr ())"
    and mid: "le_memorial_id entry = mid"
  proof (cases "entry_for mid entries")
    case (Some entry)
    then show thesis
      using that [of _ _ _ entry True "Some (opened w)"] run entry_for_Some [OF Some] by (simp add: erase_recorded_def)
  next
    case None
    then obtain entry where made: "next_entry sha (isoformat (reading env 0)) entries mid actor evidence = Inr entry" and "writes env"
      using run by (auto simp: erase_recorded_def Let_def split: sum.split_asm if_split_asm)
    with None run have "apply_in_world sha (isoformat (reading env 1)) (isoformat (reading env 2)) (commits env 0) entry False
        (?w\<lparr>ew_ledger := Some ((opened w)\<lparr>lf_lines := lf_lines (opened w) @ [entry_line entry]\<rparr>)\<rparr>) = (w', Inr ())"
      by (simp add: erase_recorded_def Let_def)
    moreover have "le_memorial_id entry = mid"
      using made by (auto simp: next_entry_def Let_def bindE_eq_Inr)
    ultimately show thesis
      by (rule that)
  qed
  from ap obtain names where names: "apply_entry sha t u entry again (ew_db w) = Inr (ew_db w', names)"
    "ew_media w' = unlink names (ew_media w)"
    by (cases rule: apply_in_world_cases) auto
  show "\<exists>e u entry. ew_db w' = (delete_memorial mid (ew_db w))\<lparr>history := history (ew_db w) @ [e],
      erasures := erasures (ew_db w) @ (if registered (ew_db w) mid then [] else [registry_row u entry])\<rparr> \<and>
      he_memorial_id e = mid \<and> he_event_type e = lit ''memorial_erased'' \<and> le_memorial_id entry = mid"
    using apply_entry_Inr(1) [OF names(1)] mid by metis
  show "gone mid (ew_db w')" "registered (ew_db w') mid"
    using apply_entry_gone(1,2) [OF names(1)] mid by simp_all
  show "ew_media w' = unlink (filenames_of mid (ew_db w)) (ew_media w)"
    using names(2) apply_entry_Inr(2) [OF names(1)] mid by simp
  show "\<exists>m. get_memorial (ew_db w) mid = Some m \<and> me_owner_id m = owner_id"
    using mem by blast
  show "history_ok sha (ew_db w) \<Longrightarrow> history_ok sha (ew_db w')"
    by (rule apply_entry_Inr(4) [OF names(1)])
qed

section \<open>Reapplying\<close>

lemma register_settles:
  assumes "register u entry db = Inr db'"
  shows "registered db' (le_memorial_id entry)" and "get_memorial db' mid = get_memorial db mid" and "settled other db \<Longrightarrow> settled other db'"
  using register_Inr [OF assms] by (auto simp: registered_def registry_row_def get_memorial_def settled_def)

text \<open>One entry of the loop, when it is not only checked.\<close>

lemma reapply_settles:
  assumes "reapply_entries sha env False n es summary w = (w', Inr summary')"
  shows "(\<forall>e \<in> set es. settled (le_memorial_id e) (ew_db w')) \<and> (\<forall>mid. settled mid (ew_db w) \<longrightarrow> settled mid (ew_db w'))"
  using assms
proof (induction es arbitrary: n summary w)
  case (Cons entry rest)
  let ?mid = "le_memorial_id entry"
  obtain n' s1 w1 where step: "reapply_entries sha env False n' rest s1 w1 = (w', Inr summary')"
    and here: "settled ?mid (ew_db w1)" and keep: "\<And>mid. settled mid (ew_db w) \<Longrightarrow> settled mid (ew_db w1)"
  proof (cases "exists_memorial (ew_db w) ?mid")
    case True
    obtain w1 r where ap: "apply_in_world sha (isoformat (reading env (2 * n))) (isoformat (reading env (2 * n + 1))) (commits env n) entry True w = (w1, r)"
      by fastforce
    have r: "r = Inr ()"
      using Cons.prems True ap by (cases r) (simp_all add: Let_def)
    from ap obtain names where names: "apply_entry sha (isoformat (reading env (2 * n))) (isoformat (reading env (2 * n + 1))) entry True (ew_db w) =
        Inr (ew_db w1, names)"
      using r by (cases rule: apply_in_world_cases) auto
    show thesis
      using Cons.prems True ap r apply_entry_gone(3,4) [OF names] by (intro that [of "Suc n" _ w1]) (simp_all add: Let_def)
  next
    case absent: False
    show thesis
    proof (cases "registered (ew_db w) ?mid")
      case True
      then show thesis
        using Cons.prems absent by (intro that [of "Suc n" summary w]) (auto simp: Let_def settled_def exists_memorial_def split: if_split_asm)
    next
      case False
      obtain db where db: "register (isoformat (reading env (2 * n))) entry (ew_db w) = Inr db" and ok: "commits env n"
        using Cons.prems absent False by (auto simp: Let_def split: sum.split_asm if_split_asm)
      have "settled ?mid db"
        using register_settles(1,2) [OF db] absent by (simp add: settled_def exists_memorial_def)
      then show thesis
        using Cons.prems absent False db ok register_settles(3) [OF db]
        by (intro that [of "Suc n" "summary\<lparr>ry_recorded := ry_recorded summary + 1\<rparr>" "w\<lparr>ew_db := db\<rparr>"]) (simp_all add: Let_def)
    qed
  qed
  from Cons.IH [OF step] here keep show ?case by auto
qed simp

lemma reapply_settled_id:
  assumes "\<forall>e \<in> set es. settled (le_memorial_id e) (ew_db w)" and "\<And>n. commits env n"
  shows "reapply_entries sha env False n es summary w = (w, Inr summary)"
  using assms by (induction es arbitrary: n) (auto simp: settled_def exists_memorial_def Let_def)

lemma reapply_check:
  "reapply_entries sha env True n es summary w =
     (w, Inr (summary\<lparr>ry_outstanding := ry_outstanding summary @
        map le_memorial_id (filter (\<lambda>e. \<not> settled (le_memorial_id e) (ew_db w)) es)\<rparr>))"
  by (induction es arbitrary: n summary) (auto simp: settled_def exists_memorial_def Let_def)

lemma reapply_Inr:
  assumes "reapply sha loads fromiso env path data check w = (w', Inr summary)"
  obtains f entries where "ew_ledger w = Some f" and "read_ledger sha loads fromiso f = Inr entries"
    and "check_registry (ew_db w) entries = Inr ()"
    and "reapply_entries sha env check 0 entries \<lparr> ry_ledger_entries = length entries, ry_outstanding = [], ry_erased = 0, ry_recorded = 0 \<rparr> w =
      (w', Inr summary)"
  using assms by (auto simp: reapply_def bindE_eq_Inr erasure_error_def split: sum.split_asm option.split_asm)

text \<open>A decision on record is carried out by the next complete reapplication.\<close>

lemma reapply_completes:
  assumes "reapply sha loads fromiso env path data False w = (w', Inr summary)" and "on_record sha loads fromiso mid w"
  shows "settled mid (ew_db w')"
proof -
  from reapply_Inr [OF assms(1)] obtain f entries where f: "ew_ledger w = Some f" "read_ledger sha loads fromiso f = Inr entries"
    and loop: "reapply_entries sha env False 0 entries \<lparr> ry_ledger_entries = length entries, ry_outstanding = [], ry_erased = 0, ry_recorded = 0 \<rparr> w =
      (w', Inr summary)"
    by metis
  obtain entry where "entry \<in> set entries" "le_memorial_id entry = mid"
    using assms(2) f entry_for_Some by (auto simp: on_record_def)
  with reapply_settles [OF loop] show ?thesis by auto
qed

text \<open>The loop keeps the ledger file, and the registry within it.\<close>

lemma reapply_keeps_registry:
  assumes "reapply_entries sha env check n rest summary w = (w', r)" and "check_registry (ew_db w) es = Inr ()" and "ledger_good sha es"
    and "set rest \<subseteq> set es"
  shows "check_registry (ew_db w') es = Inr () \<and> ew_ledger w' = ew_ledger w"
  using assms
proof (induction rest arbitrary: n summary w)
  case (Cons entry rest)
  let ?mid = "le_memorial_id entry"
  have entry: "entry \<in> set es" and rest: "set rest \<subseteq> set es"
    using Cons.prems(4) by auto
  consider (goes_on) n1 s1 w1 where "reapply_entries sha env check n1 rest s1 w1 = (w', r)"
      and "check_registry (ew_db w1) es = Inr ()" and "ew_ledger w1 = ew_ledger w"
    | (stops) "check_registry (ew_db w') es = Inr ()" and "ew_ledger w' = ew_ledger w"
  proof (cases "check \<or> (\<not> exists_memorial (ew_db w) ?mid \<and> registered (ew_db w) ?mid)")
    case True
    then show thesis
      using Cons.prems(1,2) by (auto simp: Let_def intro: goes_on stops split: if_split_asm)
  next
    case acts: False
    show thesis
    proof (cases "exists_memorial (ew_db w) ?mid")
      case True
      obtain w1 res where ap: "apply_in_world sha (isoformat (reading env (2 * n))) (isoformat (reading env (2 * n + 1))) (commits env n) entry True w = (w1, res)"
        by fastforce
      have kept: "check_registry (ew_db w1) es = Inr () \<and> ew_ledger w1 = ew_ledger w"
        using ap
      proof (cases rule: apply_in_world_cases)
        case (erased names)
        then show ?thesis
          using apply_entry_gone(5) [OF erased(2) Cons.prems(2,3) entry] by simp
      qed (use Cons.prems(2) in simp_all)
      show thesis
        using Cons.prems(1) acts True ap kept by (cases res) (auto simp: Let_def intro: goes_on stops)
    next
      case False
      show thesis
      proof (cases "register (isoformat (reading env (2 * n))) entry (ew_db w)")
        case (Inl e)
        then show thesis
          using Cons.prems(1,2) acts False by (auto simp: Let_def intro: stops)
      next
        case (Inr db)
        have "check_registry db es = Inr ()"
          by (rule register_agrees [OF Inr Cons.prems(2,3) entry])
        then show thesis
          using Cons.prems(1,2) acts False Inr by (auto simp: Let_def intro: goes_on stops split: if_split_asm)
      qed
    qed
  qed
  then show ?case
  proof cases
    case goes_on
    from Cons.IH [OF goes_on(1,2) Cons.prems(3) rest] goes_on(3) show ?thesis by simp
  qed simp
qed simp

text \<open>After a complete reapplication nothing is outstanding and a second one changes nothing.\<close>

lemma reapply_idempotent:
  assumes "reapply sha loads fromiso env path data False w = (w', Inr summary)" and "\<And>n. commits env' n"
  shows "\<exists>s. reapply sha loads fromiso env' path data False w' = (w', Inr s) \<and> ry_erased s = 0 \<and> ry_recorded s = 0"
    and "\<exists>s. reapply sha loads fromiso env' path data True w' = (w', Inr s) \<and> ry_outstanding s = []"
proof -
  from reapply_Inr [OF assms(1)] obtain f entries where f: "ew_ledger w = Some f" "read_ledger sha loads fromiso f = Inr entries"
    and reg: "check_registry (ew_db w) entries = Inr ()"
    and loop: "reapply_entries sha env False 0 entries \<lparr> ry_ledger_entries = length entries, ry_outstanding = [], ry_erased = 0, ry_recorded = 0 \<rparr> w =
      (w', Inr summary)"
    by metis
  have good: "ledger_good sha entries"
    by (rule read_ledger_good [OF f(2)])
  have reg': "check_registry (ew_db w') entries = Inr ()" and f': "ew_ledger w' = Some f"
    using reapply_keeps_registry [OF loop reg good] f(1) by auto
  have all_settled: "\<forall>e \<in> set entries. settled (le_memorial_id e) (ew_db w')"
    using reapply_settles [OF loop] by blast
  have path: "checked_ledger path data = Inr ()"
    using assms(1) by (auto simp: reapply_def split: sum.split_asm)
  show "\<exists>s. reapply sha loads fromiso env' path data False w' = (w', Inr s) \<and> ry_erased s = 0 \<and> ry_recorded s = 0"
    using reapply_settled_id [OF all_settled assms(2)] by (simp add: reapply_def path f' f(2) reg')
  have "filter (\<lambda>e. \<not> settled (le_memorial_id e) (ew_db w')) entries = []"
    using all_settled by (simp add: filter_empty_conv)
  then show "\<exists>s. reapply sha loads fromiso env' path data True w' = (w', Inr s) \<and> ry_outstanding s = []"
    by (simp add: reapply_def path f' f(2) reg' reapply_check)
qed

end
