(* ===== verification/Kernel_Client.thy ===== *)
theory Kernel_Client imports Lifecycle begin

text \<open>
  The memorial site's client of the consent kernel, \<open>remembrance/kernel_client.py\<close>: its configuration, the
  identity assertion it signs, the request it sends, and what it accepts as an approval. The theorems say
  that nothing but an explicit approval of exactly the action and profile asked for is taken for one, whatever
  the transport answers, and that what the kernel's own handler answers is read as the kernel meant it.

  HMAC-SHA-256, \<open>urlsplit\<close>, \<open>json.loads\<close>, \<open>datetime.fromisoformat\<close> and the HTTP transport are arguments. A transport
  answers a status and a body, or raises (\<open>None\<close>).
\<close>

type_synonym bytes = "nat list"

section \<open>base64url\<close>

fun sextets :: "nat list \<Rightarrow> nat list" where
  "sextets [] = []"
| "sextets [a] = [a div 4, (a mod 4) * 16]"
| "sextets [a, b] = [a div 4, (a mod 4) * 16 + b div 16, (b mod 16) * 4]"
| "sextets (a # b # c # rest) = [a div 4, (a mod 4) * 16 + b div 16, (b mod 16) * 4 + c div 64, c mod 64] @ sextets rest"

definition sextet_char :: "nat \<Rightarrow> nat" where
  "sextet_char d = (if d < 26 then 65 + d else if d < 52 then 71 + d else if d < 62 then d - 4 else if d = 62 then 45 else 95)"

text \<open>\<open>urlsafe_b64encode(value).rstrip(b'=')\<close>.\<close>

definition b64url :: "bytes \<Rightarrow> pstr" where
  "b64url value = map sextet_char (sextets value)"

fun octets :: "nat list \<Rightarrow> nat list" where
  "octets (p # q # r # s # rest) = [p * 4 + q div 16, (q mod 16) * 16 + r div 4, (r mod 4) * 64 + s] @ octets rest"
| "octets [p, q, r] = [p * 4 + q div 16, (q mod 16) * 16 + r div 4]"
| "octets [p, q] = [p * 4 + q div 16]"
| "octets ds = []"

lemma sextets_small: "list_all (\<lambda>b. b < 256) bs \<Longrightarrow> list_all (\<lambda>d. d < 64) (sextets bs)"
  by (induction bs rule: sextets.induct) auto

lemma octets_sextets: "list_all (\<lambda>b. b < 256) bs \<Longrightarrow> octets (sextets bs) = bs"
  by (induction bs rule: sextets.induct) (auto simp: div_mult2_eq)

lemma sextet_char_inject: "d < 64 \<Longrightarrow> e < 64 \<Longrightarrow> sextet_char d = sextet_char e \<Longrightarrow> d = e"
  by (auto simp: sextet_char_def split: if_splits)

lemma b64url_inject:
  assumes "list_all (\<lambda>b. b < 256) xs" and "list_all (\<lambda>b. b < 256) ys" and "b64url xs = b64url ys"
  shows "xs = ys"
proof -
  have "inj_on sextet_char (set (sextets xs) \<union> set (sextets ys))"
  proof (rule inj_onI)
    fix d e
    assume "d \<in> set (sextets xs) \<union> set (sextets ys)" "e \<in> set (sextets xs) \<union> set (sextets ys)"
      and same: "sextet_char d = sextet_char e"
    then have "d < 64" "e < 64"
      using sextets_small [OF assms(1)] sextets_small [OF assms(2)] by (auto simp: list_all_iff)
    then show "d = e"
      using same by (rule sextet_char_inject)
  qed
  then have "sextets xs = sextets ys"
    by (rule map_inj_on [OF assms(3) [unfolded b64url_def]])
  then show ?thesis
    using octets_sextets [OF assms(1)] octets_sextets [OF assms(2)] by metis
qed

lemma b64url_no_dot: "46 \<notin> set (b64url bs)"
  by (auto simp: b64url_def sextet_char_def split: if_splits)

section \<open>\<open>json.dumps\<close> with its defaults: ASCII only, items in the order given\<close>

definition u_escape :: "nat \<Rightarrow> pstr" where
  "u_escape c = [92, 117] @ pad16 4 c"

definition ascii_esc :: "nat \<Rightarrow> pstr" where
  "ascii_esc c = (if c = 34 \<or> c = 92 \<or> c \<in> {8, 9, 10, 12, 13} then esc c
     else if 32 \<le> c \<and> c \<le> 126 then [c]
     else if c < 65536 then u_escape c
     else u_escape (55296 + (c - 65536) div 1024) @ u_escape (56320 + (c - 65536) mod 1024))"

definition ascii_str :: "pstr \<Rightarrow> pstr" where
  "ascii_str s = [34] @ concat (map ascii_esc s) @ [34]"

text \<open>The separators between items and after a key are arguments.\<close>

fun dumps :: "pstr \<Rightarrow> pstr \<Rightarrow> json \<Rightarrow> pstr" where
  "dumps comma colon JNull = lit ''null''"
| "dumps comma colon (JBool b) = (if b then lit ''true'' else lit ''false'')"
| "dumps comma colon (JInt i) = int_str i"
| "dumps comma colon (JStr s) = ascii_str s"
| "dumps comma colon (JList vs) = [91] @ joined comma (map (dumps comma colon) vs) @ [93]"
| "dumps comma colon (JObj kvs) = [123] @ joined comma (map (\<lambda>p. ascii_str (fst p) @ colon @ dumps comma colon (snd p)) kvs) @ [125]"

section \<open>Configuration\<close>

record kernel_config =
  kc_url :: pstr
  kc_key :: pstr
  kc_issuer :: pstr
  kc_audience :: pstr

record url_parts =
  up_scheme :: pstr
  up_hostname :: pstr
  up_username :: pstr
  up_password :: pstr
  up_query :: pstr
  up_fragment :: pstr

definition min_key_bytes :: nat where "min_key_bytes = 32"

definition environ_get :: "(pstr \<times> pstr) list \<Rightarrow> string \<Rightarrow> pstr" where
  "environ_get environ k = (case map_of environ (lit k) of Some v \<Rightarrow> v | None \<Rightarrow> [])"

definition or_default :: "pstr \<Rightarrow> string \<Rightarrow> pstr" where
  "or_default s d = (if s = [] then lit d else s)"

definition rstrip_slash :: "pstr \<Rightarrow> pstr" where
  "rstrip_slash s = rev (dropWhile (\<lambda>c. c = 47) (rev s))"

text \<open>Not configured, configured, or half configured (an error).\<close>

definition config_from_env :: "(pstr \<Rightarrow> url_parts) \<Rightarrow> (pstr \<times> pstr) list \<Rightarrow> pstr + kernel_config option" where
  "config_from_env urlsplit environ =
     (let url = strip_by py_isspace (environ_get environ ''REMEMBRANCE_CONSENT_KERNEL_URL'');
          key = environ_get environ ''REMEMBRANCE_AUTH_JWT_KEY'' in
      if url = [] \<and> key = [] then Inr None
      else (let parts = urlsplit url in
        if up_scheme parts \<notin> {lit ''http'', lit ''https''} \<or> up_hostname parts = [] \<or> up_username parts \<noteq> [] \<or>
          up_password parts \<noteq> [] \<or> up_query parts \<noteq> [] \<or> up_fragment parts \<noteq> []
        then Inl (lit ''REMEMBRANCE_CONSENT_KERNEL_URL must be an http(s) URL without credentials, query or fragment.'')
        else if utf8_length key < min_key_bytes
        then Inl (lit ''REMEMBRANCE_AUTH_JWT_KEY must be the kernel'' @ [8217] @ lit ''s shared key, at least 32 bytes.'')
        else Inr (Some \<lparr> kc_url = rstrip_slash url, kc_key = key,
          kc_issuer = or_default (environ_get environ ''REMEMBRANCE_AUTH_JWT_ISSUER'') ''remembrance-web'',
          kc_audience = or_default (environ_get environ ''REMEMBRANCE_AUTH_JWT_AUDIENCE'') ''remembrance-consent'' \<rparr>)))"

section \<open>The identity assertion\<close>

datatype denied = Denied pstr

definition refuse :: "string \<Rightarrow> denied + 'a" where
  "refuse reason = Inl (Denied (lit reason))"

definition assertion_seconds :: int where "assertion_seconds = 300"
definition max_subject :: nat where "max_subject = 255"

definition assertion_claims :: "kernel_config \<Rightarrow> pstr \<Rightarrow> int \<Rightarrow> (pstr \<times> json) list" where
  "assertion_claims config user_id issued = [(lit ''sub'', JStr user_id), (lit ''iss'', JStr (kc_issuer config)),
     (lit ''aud'', JStr (kc_audience config)), (lit ''iat'', JInt issued), (lit ''exp'', JInt (issued + assertion_seconds)),
     (lit ''actor_kind'', JStr (lit ''human'')), (lit ''roles'', JList [])]"

definition assertion_header :: "(pstr \<times> json) list" where
  "assertion_header = [(lit ''alg'', JStr (lit ''HS256'')), (lit ''typ'', JStr (lit ''JWT''))]"

definition signing_input :: "kernel_config \<Rightarrow> pstr \<Rightarrow> int \<Rightarrow> pstr" where
  "signing_input config user_id issued =
     b64url (dumps (lit '','') (lit '':'') (JObj assertion_header)) @ lit ''.'' @
     b64url (dumps (lit '','') (lit '':'') (JObj (assertion_claims config user_id issued)))"

definition identity_assertion :: "(pstr \<Rightarrow> pstr \<Rightarrow> bytes) \<Rightarrow> kernel_config \<Rightarrow> pstr \<Rightarrow> int \<Rightarrow> denied + pstr" where
  "identity_assertion hmac config user_id issued =
     (if user_id = [] \<or> user_id \<noteq> strip_by py_isspace user_id \<or> max_subject < length user_id then refuse ''invalid_user''
      else Inr (signing_input config user_id issued @ lit ''.'' @ b64url (hmac (kc_key config) (signing_input config user_id issued))))"

section \<open>The call\<close>

record http_call =
  hc_method :: string
  hc_url :: pstr
  hc_headers :: "(string \<times> pstr) list"
  hc_body :: "pstr option"

type_synonym transport = "http_call \<Rightarrow> (nat \<times> bytes) option"

definition max_response_bytes :: nat where "max_response_bytes = 64 * 1024"

definition call_kernel ::
    "(pstr \<Rightarrow> pstr \<Rightarrow> bytes) \<Rightarrow> transport \<Rightarrow> int \<Rightarrow> kernel_config \<Rightarrow> string \<Rightarrow> pstr \<Rightarrow> pstr option \<Rightarrow> pstr option \<Rightarrow> denied + (nat \<times> bytes)" where
  "call_kernel hmac transport now config method path user_id body =
     bindE (case user_id of None \<Rightarrow> Inr []
            | Some u \<Rightarrow> bindE (identity_assertion hmac config u now) (\<lambda>a. Inr [(''Authorization'', lit ''Bearer '' @ a)])) (\<lambda>auth.
     case transport \<lparr> hc_method = method, hc_url = kc_url config @ path,
            hc_headers = [(''Accept'', lit ''application/json'')] @ auth @
              (if body = None then [] else [(''Content-Type'', lit ''application/json'')]), hc_body = body \<rparr> of
       None \<Rightarrow> refuse ''kernel_unreachable''
     | Some (code, raw) \<Rightarrow> if max_response_bytes < length raw then refuse ''invalid_response'' else Inr (code, raw))"

section \<open>Authorizing a voice action\<close>

definition voice_actions :: "(pstr \<times> pstr) list" where
  "voice_actions = map (\<lambda>(a, p). (lit a, lit p)) [(''INITIATE_VOICE_SYNTHESIS'', ''VOICE_SYNTHESIS''),
     (''GENERATE_SCRIPT'', ''SCRIPT_GENERATION''), (''DELIVER_MESSAGE'', ''VOICE_SYNTHESIS'')]"

record voice_authorization =
  vo_action :: pstr
  vo_profile_id :: pstr
  vo_grant_id :: pstr
  vo_jti :: pstr
  vo_expires_at :: pstr
  vo_token :: pstr

definition str_field :: "(pstr \<times> json) list \<Rightarrow> string \<Rightarrow> pstr option" where
  "str_field kvs k = (case map_of kvs (lit k) of Some (JStr s) \<Rightarrow> Some s | _ \<Rightarrow> None)"

definition canonical_uuid :: "pstr option \<Rightarrow> bool" where
  "canonical_uuid t = (case t of Some s \<Rightarrow> (case parse_uuid s of Some u \<Rightarrow> uuid_str u = s | None \<Rightarrow> False) | None \<Rightarrow> False)"

definition approval :: "(pstr \<Rightarrow> bool) \<Rightarrow> json \<Rightarrow> pstr \<Rightarrow> pstr \<Rightarrow> bool" where
  "approval fromiso reply action profile = (case reply of
     JObj kvs \<Rightarrow> map_of kvs (lit ''allowed'') = Some (JBool True) \<and> str_field kvs ''action'' = Some action \<and>
       str_field kvs ''profile_id'' = Some profile \<and> str_field kvs ''token_type'' = Some (lit ''consent+jwt'') \<and>
       (case str_field kvs ''token'' of Some t \<Rightarrow> length (filter (\<lambda>c. c = 46) t) = 2 | None \<Rightarrow> False) \<and>
       canonical_uuid (str_field kvs ''consent_grant_id'') \<and> canonical_uuid (str_field kvs ''jti'') \<and>
       (case str_field kvs ''expires_at'' of Some e \<Rightarrow> fromiso e | None \<Rightarrow> False)
   | _ \<Rightarrow> False)"

text \<open>The pattern \<open>[A-Z][A-Z_]{0,63}\<close>, matched in full.\<close>

definition is_reason :: "pstr \<Rightarrow> bool" where
  "is_reason s \<longleftrightarrow> s \<noteq> [] \<and> is_upper_az (hd s) \<and> list_all (\<lambda>c. is_upper_az c \<or> c = 95) (tl s) \<and> length s \<le> 64"

definition denial_of :: "(pstr \<times> json) list \<Rightarrow> denied" where
  "denial_of reply =
     (let own = map_of reply (lit ''reason'');
          reason = (if (case own of Some v \<Rightarrow> truthy v | None \<Rightarrow> False) then own
            else (case map_of reply (lit ''error'') of Some (JObj error) \<Rightarrow> map_of error (lit ''code'') | _ \<Rightarrow> None))
      in case reason of Some (JStr s) \<Rightarrow> Denied (if is_reason s then s else lit ''denied'') | _ \<Rightarrow> Denied (lit ''denied''))"

definition voice_request :: "pstr \<Rightarrow> pstr \<Rightarrow> pstr \<Rightarrow> pstr" where
  "voice_request action profile purpose = dumps (lit '', '') (lit '': '')
     (JObj [(lit ''action'', JStr action), (lit ''profile_id'', JStr profile), (lit ''purpose_code'', JStr purpose)])"

definition read_reply :: "(bytes \<Rightarrow> json option) \<Rightarrow> (pstr \<Rightarrow> bool) \<Rightarrow> pstr \<Rightarrow> pstr \<Rightarrow> nat \<times> bytes \<Rightarrow> denied + voice_authorization" where
  "read_reply loads fromiso action profile answer =
     (let (code, raw) = answer in
      if code = 401 then refuse ''identity_rejected''
      else if code = 429 then refuse ''rate_limited''
      else (case loads raw of
          None \<Rightarrow> refuse ''invalid_response''
        | Some reply \<Rightarrow>
            (case (code = 403, reply) of
               (True, JObj kvs) \<Rightarrow> Inl (denial_of kvs)
             | _ \<Rightarrow>
                 if code \<noteq> 200 \<or> \<not> approval fromiso reply action profile then refuse ''invalid_response''
                 else (case reply of
                     JObj kvs \<Rightarrow> Inr \<lparr> vo_action = action, vo_profile_id = profile,
                       vo_grant_id = the (str_field kvs ''consent_grant_id''), vo_jti = the (str_field kvs ''jti''),
                       vo_expires_at = the (str_field kvs ''expires_at''), vo_token = the (str_field kvs ''token'') \<rparr>
                   | _ \<Rightarrow> refuse ''invalid_response''))))"

definition authorize_voice ::
    "(pstr \<Rightarrow> pstr \<Rightarrow> bytes) \<Rightarrow> (bytes \<Rightarrow> json option) \<Rightarrow> (pstr \<Rightarrow> bool) \<Rightarrow> transport \<Rightarrow> int \<Rightarrow> kernel_config option \<Rightarrow> pstr \<Rightarrow> pstr \<Rightarrow> pstr
       \<Rightarrow> denied + voice_authorization" where
  "authorize_voice hmac loads fromiso transport now config user_id profile_id action = (case config of
     None \<Rightarrow> refuse ''kernel_not_configured''
   | Some config \<Rightarrow> (case map_of voice_actions action of
       None \<Rightarrow> refuse ''unsupported_action''
     | Some purpose \<Rightarrow> (case parse_uuid profile_id of
         None \<Rightarrow> refuse ''invalid_profile''
       | Some p \<Rightarrow>
           bindE (call_kernel hmac transport now config ''POST'' (lit ''/consent/authorize'') (Some user_id)
             (Some (voice_request action (uuid_str p) purpose)))
           (read_reply loads fromiso action (uuid_str p)))))"

definition check_kernel ::
    "(pstr \<Rightarrow> pstr \<Rightarrow> bytes) \<Rightarrow> transport \<Rightarrow> int \<Rightarrow> uuid \<Rightarrow> kernel_config option \<Rightarrow> denied + unit" where
  "check_kernel hmac transport now probe config = (case config of
     None \<Rightarrow> refuse ''kernel_not_configured''
   | Some config \<Rightarrow>
       bindE (call_kernel hmac transport now config ''GET'' (lit ''/healthz'') None None) (\<lambda>(code, _).
         if code \<noteq> 200 then refuse ''kernel_unhealthy''
         else bindE (call_kernel hmac transport now config ''GET'' (lit ''/consent/grants/'' @ uuid_str probe)
                (Some (lit ''remembrance-web-check'')) None) (\<lambda>(code, _).
           if code = 404 then Inr () else if code = 401 then refuse ''identity_rejected'' else refuse ''invalid_response'')))"


section \<open>What is taken for an approval\<close>

text \<open>An authorization comes from one answer only: status 200, and a body that approves this action on this
  profile. The request that was answered names the one purpose of the action.\<close>

lemma call_kernel_Inr:
  assumes "call_kernel hmac transport now c method path user body = Inr (code, raw)"
  shows "\<exists>req. transport req = Some (code, raw) \<and> hc_method req = method \<and> hc_url req = kc_url c @ path \<and> hc_body req = body \<and>
    length raw \<le> max_response_bytes"
proof -
  obtain auth where "(case transport \<lparr> hc_method = method, hc_url = kc_url c @ path,
      hc_headers = [(''Accept'', lit ''application/json'')] @ auth @
        (if body = None then [] else [(''Content-Type'', lit ''application/json'')]), hc_body = body \<rparr> of
       None \<Rightarrow> refuse ''kernel_unreachable''
     | Some (code, raw) \<Rightarrow> if max_response_bytes < length raw then refuse ''invalid_response'' else Inr (code, raw)) = Inr (code, raw)"
    using assms unfolding call_kernel_def by (rule bindE_InrE)
  then have "transport \<lparr> hc_method = method, hc_url = kc_url c @ path,
      hc_headers = [(''Accept'', lit ''application/json'')] @ auth @
        (if body = None then [] else [(''Content-Type'', lit ''application/json'')]), hc_body = body \<rparr> = Some (code, raw)"
    and "length raw \<le> max_response_bytes"
    by (simp_all add: refuse_def not_less split: option.split_asm if_split_asm prod.split_asm)
  then show ?thesis
    by (intro exI) (rule conjI, assumption, simp)
qed

lemma authorize_voice_Inr:
  assumes "authorize_voice hmac loads fromiso transport now config user_id profile_id action = Inr v"
  shows "\<exists>c p purpose req raw kvs. config = Some c \<and> parse_uuid profile_id = Some p \<and> map_of voice_actions action = Some purpose \<and>
    hc_method req = ''POST'' \<and> hc_url req = kc_url c @ lit ''/consent/authorize'' \<and>
    hc_body req = Some (voice_request action (uuid_str p) purpose) \<and>
    transport req = Some (200, raw) \<and> length raw \<le> max_response_bytes \<and> loads raw = Some (JObj kvs) \<and>
    approval fromiso (JObj kvs) action (uuid_str p) \<and> str_field kvs ''token'' = Some (vo_token v) \<and>
    str_field kvs ''consent_grant_id'' = Some (vo_grant_id v) \<and> vo_action v = action \<and> vo_profile_id v = uuid_str p"
proof -
  obtain c purpose p where c: "config = Some c" "map_of voice_actions action = Some purpose" "parse_uuid profile_id = Some p"
    and call: "bindE (call_kernel hmac transport now c ''POST'' (lit ''/consent/authorize'') (Some user_id)
             (Some (voice_request action (uuid_str p) purpose))) (read_reply loads fromiso action (uuid_str p)) = Inr v"
    using assms by (auto simp: authorize_voice_def refuse_def split: option.split_asm)
  obtain code raw where ask: "call_kernel hmac transport now c ''POST'' (lit ''/consent/authorize'') (Some user_id)
             (Some (voice_request action (uuid_str p) purpose)) = Inr (code, raw)"
    and read: "read_reply loads fromiso action (uuid_str p) (code, raw) = Inr v"
    using call by (auto simp: bindE_eq_Inr)
  obtain req where req: "hc_method req = ''POST''" "hc_url req = kc_url c @ lit ''/consent/authorize''"
      "hc_body req = Some (voice_request action (uuid_str p) purpose)" "transport req = Some (code, raw)"
    and small: "length raw \<le> max_response_bytes"
    using call_kernel_Inr [OF ask] by auto
  obtain reply where loaded: "loads raw = Some reply" and code: "code = 200" and app: "approval fromiso reply action (uuid_str p)"
    and res: "\<And>kvs. reply = JObj kvs \<Longrightarrow> v = \<lparr> vo_action = action, vo_profile_id = uuid_str p,
       vo_grant_id = the (str_field kvs ''consent_grant_id''), vo_jti = the (str_field kvs ''jti''),
       vo_expires_at = the (str_field kvs ''expires_at''), vo_token = the (str_field kvs ''token'') \<rparr>"
    using read by (auto simp: read_reply_def refuse_def Let_def split: option.split_asm if_split_asm json.split_asm bool.split_asm)
  from app obtain kvs where kvs: "reply = JObj kvs"
    by (auto simp: approval_def split: json.split_asm)
  have "str_field kvs ''token'' \<noteq> None" "str_field kvs ''consent_grant_id'' \<noteq> None"
    using app kvs by (auto simp: approval_def canonical_uuid_def split: option.split_asm)
  with res [OF kvs] c req small loaded code app kvs show ?thesis
    by (intro exI [of _ c] exI [of _ p] exI [of _ purpose] exI [of _ req] exI [of _ raw] exI [of _ kvs]) auto
qed

text \<open>A user the kernel would not accept as a subject is refused before anything is sent.\<close>

lemma assertion_subject:
  "identity_assertion hmac config user_id now = Inr a \<Longrightarrow>
     user_id \<noteq> [] \<and> strip_by py_isspace user_id = user_id \<and> length user_id \<le> 255"
  by (auto simp: identity_assertion_def refuse_def max_subject_def split: if_split_asm)

section \<open>The kernel's answer\<close>

text \<open>\<open>AuthorizeResponse\<close> of \<open>app/consent/schemas.py\<close> as JSON; \<open>dt_text\<close> is pydantic's text of a datetime.\<close>

definition authorize_reply :: "(timestamp \<Rightarrow> pstr) \<Rightarrow> authorize_response \<Rightarrow> json" where
  "authorize_reply dt_text r = (let str = (\<lambda>t. case t of Some s \<Rightarrow> JStr s | None \<Rightarrow> JNull) in
     JObj [(lit ''allowed'', JBool (as_allowed r)), (lit ''action'', JStr (action_value (as_action r))),
       (lit ''profile_id'', JStr (uuid_str (as_profile_id r))), (lit ''consent_grant_id'', str (map_option uuid_str (as_grant_id r))),
       (lit ''token'', str (as_token r)), (lit ''token_type'', str (as_token_type r)), (lit ''jti'', str (map_option uuid_str (as_jti r))),
       (lit ''expires_at'', str (map_option dt_text (as_expires_at r))), (lit ''reason'', str (as_reason r))])"

text \<open>The purpose the client sends is the one the kernel requires of the action.\<close>

lemma voice_actions_purpose:
  "map_of voice_actions (action_value a) = Some purpose \<Longrightarrow> purpose = declared_value (action_purpose a) \<and> a \<in> synthesis_actions"
  by (cases a) (auto simp: voice_actions_def synthesis_actions_iff use_actions_iff split: if_splits)

text \<open>A refusal is read as a refusal, with the reason the kernel disclosed.\<close>

lemma reads_refusal:
  assumes "as_status r = 403" and "as_reason r = Some reason" and "is_reason reason"
    and "loads raw = Some (authorize_reply dt_text r)"
  shows "read_reply loads fromiso action profile (as_status r, raw) = Inl (Denied reason)"
proof -
  have "reason \<noteq> []"
    using assms(3) by (simp add: is_reason_def)
  with assms show ?thesis
    by (simp add: read_reply_def denial_of_def authorize_reply_def Let_def)
qed

text \<open>An approval under a grant is read as one, with the kernel's token.\<close>

lemma reads_approval:
  assumes "as_status r = 200" and "as_allowed r" and "as_grant_id r = Some g" and "as_token r = Some t" and "as_jti r = Some j"
    and "as_expires_at r = Some e" and "as_token_type r = Some token_type" and "length (filter (\<lambda>c. c = 46) t) = 2" and "fromiso (dt_text e)"
    and "loads raw = Some (authorize_reply dt_text r)"
  shows "read_reply loads fromiso (action_value (as_action r)) (uuid_str (as_profile_id r)) (as_status r, raw) =
    Inr \<lparr> vo_action = action_value (as_action r), vo_profile_id = uuid_str (as_profile_id r), vo_grant_id = uuid_str g,
      vo_jti = uuid_str j, vo_expires_at = dt_text e, vo_token = t \<rparr>"
  using assms
  by (simp add: read_reply_def authorize_reply_def Let_def approval_def str_field_def canonical_uuid_def token_type_def)

end
