(* ===== verification/Sample_Memorial.thy ===== *)
theory Sample_Memorial imports Sample_Service Erasure_Facts Kernel_Client begin

text \<open>
  A memorial site on which the properties of sharing, care and erasure are exercised: one memorial shared with
  the public, an accepted nomination for it, one file, and an empty history.
\<close>

section \<open>The first event\<close>

lemma first_history:
  assumes "history db = []" and "encodable at" and "encodable mid" and "clean_json (JObj payload)"
    and "\<forall>a \<in> set_option actor. encodable a" and "\<forall>g \<in> set_option gid. encodable g"
  shows "\<exists>e. append_history flat_sha at mid kind actor gid payload db = Inr (db\<lparr>history := [e]\<rparr>) \<and> he_memorial_id e = mid"
proof -
  have ok: "history_ok flat_sha db"
    using assms(1) by (simp add: history_ok_def chain_of_def)
  have last: "last_event db mid = None"
    using assms(1) by (simp add: last_event_def chain_of_def)
  have "append_history flat_sha at mid kind actor gid payload db \<noteq> Inl EncodeError"
  proof -
    have "encodable zero_hash"
      by (rule encodable_small) (simp add: zero_hash_def)
    then have "encodable (canonical_json (event_fields \<lparr> he_memorial_id = mid, he_sequence = 1,
            he_event_type = lit kind, he_actor_id = actor, he_grant_id = gid, he_payload = canonical_json (JObj payload),
            he_created_at = at, he_previous_hash = zero_hash, he_event_hash = [] \<rparr>))"
      using assms clean_canonical [OF assms(4)]
      by (intro clean_canonical) (auto simp: event_fields_def encodable_lit split: option.split)
    then show ?thesis
      by (simp add: append_history_def last digest_def history_text_def insert_history_def Let_def)
  qed
  with append_history_total [OF ok] obtain db' where app: "append_history flat_sha at mid kind actor gid payload db = Inr db'"
    by metis
  then show ?thesis
    using append_history_appended [OF app] assms(1) by (auto simp: appended_def)
qed

section \<open>The site\<close>

definition ada :: site_user where
  "ada = \<lparr> us_id = lit ''ada'', us_email = lit ''ada@example.org'', us_name = lit ''Ada'', us_password = [], us_created = [] \<rparr>"

definition bea :: site_user where
  "bea = \<lparr> us_id = lit ''bea'', us_email = lit ''bea@example.org'', us_name = lit ''Bea'', us_password = [], us_created = [] \<rparr>"

definition sample_memorial :: memorial where
  "sample_memorial = \<lparr> me_id = lit ''m1'', me_owner_id = lit ''ada'', me_name = lit ''Grace'', me_born = [], me_died = [], me_tagline = [], me_biography = [], me_location = [], me_visibility = lit ''public'',
     me_portrait_id = None, me_authority = lit ''executor'', me_authority_name = lit ''Ada'', me_consent_at = [], me_successor = [], me_created = [], me_updated = [],
     me_archived = False, me_demo = False \<rparr>"

definition sample_control :: control where
  "sample_control = \<lparr> co_memorial_id = lit ''m1'', co_enabled_at = [], co_death_date = None, co_death_confirmed_at = None,
     co_death_confirmed_by = None, co_death_evidence = None \<rparr>"

definition sample_sharing :: sharing_grant where
  "sample_sharing = \<lparr> sg_id = lit ''g1'', sg_memorial_id = lit ''m1'', sg_created_by = lit ''ada'', sg_authority = lit ''executor'',
     sg_signed_name = lit ''Ada'', sg_scope = lit ''memorial_view'', sg_policy_version = 1, sg_declaration_text = declaration_text,
     sg_audience = lit ''public'', sg_activation = lit ''now'', sg_status = lit ''verified'', sg_created_at = [],
     sg_verified_at = Some [], sg_verified_by = Some (lit ''operator:op''), sg_evidence_digest = Some [], sg_revoked_at = None,
     sg_revoked_by = None \<rparr>"

definition sample_nomination :: succession_request where
  "sample_nomination = accepted [] (lit ''Bea'') (lit ''executor'')
     (offered (lit ''s1'') sample_memorial (lit ''ada'') (lit ''bea'') (lit ''Ada'') [])"

definition sample_media :: media where
  "sample_media = \<lparr> mf_id = lit ''f1'', mf_memorial_id = lit ''m1'', mf_filename = lit ''f1.jpg'', mf_original_name = lit ''a.jpg'',
     mf_mime = lit ''image/jpeg'', mf_caption = [], mf_visibility = lit ''public'', mf_created = [], mf_archived = False \<rparr>"

definition sample_site :: site_db where
  "sample_site = empty_site\<lparr>users := [ada, bea], memorials := [sample_memorial], media_files := [sample_media],
     controls := [sample_control], sharing_grants := [sample_sharing], successions := [sample_nomination]\<rparr>"

definition sample_moments :: site_env where
  "sample_moments = \<lparr> reading = (\<lambda>n. 0), token_hex = lit ''t1'' \<rparr>"

lemma sample_site_ok: "site_ok sha sample_site"
  by (simp add: site_ok_def history_ok_def chain_of_def sharing_ok_def care_ok_def one_current_def one_active_def
      sample_site_def empty_site_def sample_sharing_def sample_nomination_def accepted_def offered_def grant_row_check_def
      audiences_def activations_def statuses_def reviewed_def starts_with_def lit_def succession_row_check_def
      succession_statuses_def active_statuses_def acceptance_recorded_def authorities_def)

lemma sample_rows_site:
  "get_memorial sample_site (lit ''m1'') = Some sample_memorial" "get_control sample_site (lit ''m1'') = Some sample_control"
  "current_grant sample_site (lit ''m1'') = Some sample_sharing" "history sample_site = []"
  by (simp_all add: get_memorial_def get_control_def current_grant_def sample_site_def empty_site_def sample_memorial_def
      sample_control_def sample_sharing_def)

lemma sample_operator:
  "operator_identity flat_sha (lit ''op'') (lit ''case 1'') = Inr (lit ''operator:op'', replicate 64 49)"
proof -
  have "strip_by py_isspace (lit ''case 1'') = lit ''case 1''"
    by (rule strip_by_id) (simp_all add: lit_def py_isspace_def)
  moreover have "reviewer_id (lit ''op'')"
    by (simp add: reviewer_id_def lit_def is_ascii_alnum_def)
  moreover have "digest flat_sha (lit ''case 1'') = Inr (replicate 64 49)"
    by (simp add: digest_def encodable_lit flat_sha_def)
  ultimately show ?thesis
    by (simp add: operator_identity_def length_lit lit_def)
qed

section \<open>A view and the end of sharing\<close>

lemma sample_view_decision:
  "view_decision sample_site (lit ''m1'') (lit ''public'') (lit ''memorial_view'') (lit ''memorial'') =
     (Some sample_sharing, \<lparr> gd_allowed = True, gd_code = lit ''allowed'' \<rparr>)"
  by (simp add: view_decision_def sample_rows_site gate_def) (simp add: sample_sharing_def)

lemma sample_visit:
  "\<exists>db. authorize_view flat_sha sample_moments (lit ''m1'') (lit ''public'') None (lit ''memorial_view'') (lit ''memorial'') sample_site =
     Inr (db, \<lparr> gd_allowed = True, gd_code = lit ''allowed'' \<rparr>)"
proof -
  have "\<exists>e. append_history flat_sha (stamp sample_moments 0) (lit ''m1'') ''authorized'' None (Some (sg_id sample_sharing))
      [(lit ''reason'', JStr (lit ''allowed''))] sample_site = Inr (sample_site\<lparr>history := [e]\<rparr>) \<and> he_memorial_id e = lit ''m1''"
    by (rule first_history) (simp_all add: sample_rows_site encodable_isoformat encodable_lit sample_sharing_def)
  then show ?thesis
    by (auto simp: authorize_view_def sample_view_decision)
qed

lemma sample_end_of_sharing:
  "\<exists>db. revoke_sharing flat_sha sample_moments (lit ''m1'') (lit ''g1'') (Some (lit ''ada'')) None None sample_site = Inr (db, True)"
proof -
  let ?db = "sample_site\<lparr>sharing_grants := [revoked_sharing (stamp sample_moments 0) (lit ''ada'') sample_sharing]\<rparr>"
  have upd: "update_sharing_grant (lit ''g1'') (revoked_sharing (stamp sample_moments 0) (lit ''ada'')) sample_site = Inr ?db"
    by (simp add: update_sharing_grant_def sample_site_def empty_site_def one_current_def grant_row_check_def sample_sharing_def
        revoked_sharing_def audiences_def activations_def statuses_def)
  have "\<exists>e. append_history flat_sha (stamp sample_moments 1) (lit ''m1'') ''grant_revoked'' (Some (lit ''ada'')) (Some (lit ''g1'')) [] ?db =
      Inr (?db\<lparr>history := [e]\<rparr>) \<and> he_memorial_id e = lit ''m1''"
    by (rule first_history) (simp_all add: sample_rows_site encodable_isoformat encodable_lit)
  moreover have "find (\<lambda>g. sg_id g = lit ''g1'' \<and> sg_memorial_id g = lit ''m1'') (sharing_grants sample_site) = Some sample_sharing"
    by (simp add: sample_site_def sample_sharing_def)
  ultimately show ?thesis
    using upd by (auto simp: revoke_sharing_def revoker_def sample_rows_site sample_memorial_def sample_sharing_def)
qed

section \<open>A transfer\<close>

lemma sample_transfer:
  "\<exists>db. transfer flat_sha sample_moments (lit ''s1'') (lit ''ada'') (lit ''bea'') (lit ''op'') (lit ''case 1'') sample_site = Inr (db, True)"
proof -
  let ?m = "handed_over (lit ''bea'') sample_nomination (stamp sample_moments 0) sample_memorial"
  let ?s = "completed (stamp sample_moments 0) (lit ''operator:op'') (replicate 64 49) sample_memorial sample_nomination"
  let ?db = "sample_site\<lparr>memorials := [?m], successions := [?s]\<rparr>"
  have upd: "update_memorial (lit ''m1'') (handed_over (lit ''bea'') sample_nomination (stamp sample_moments 0)) sample_site =
      Inr (sample_site\<lparr>memorials := [?m]\<rparr>)"
    by (simp add: update_memorial_def sample_site_def empty_site_def sample_memorial_def handed_over_def ada_def bea_def)
  have drop: "drop_member (lit ''m1'') (lit ''ada'') (sample_site\<lparr>memorials := [?m]\<rparr>) = sample_site\<lparr>memorials := [?m]\<rparr>"
    by (simp add: drop_member_def get_user_def sample_site_def empty_site_def ada_def)
  have suc: "update_succession (lit ''s1'') (completed (stamp sample_moments 0) (lit ''operator:op'') (replicate 64 49) sample_memorial)
      (sample_site\<lparr>memorials := [?m]\<rparr>) = Inr ?db"
    by (simp add: update_succession_def sample_site_def empty_site_def sample_nomination_def accepted_def offered_def completed_def
        succession_row_check_def succession_statuses_def one_active_def active_statuses_def)
  have "\<exists>e. append_history flat_sha (stamp sample_moments 1) (lit ''m1'') ''ownership_transferred'' (Some (lit ''operator:op'')) None
      [(lit ''request_id'', JStr (lit ''s1'')), (lit ''from_owner_id'', JStr (lit ''ada'')), (lit ''to_account_id'', JStr (lit ''bea'')),
        (lit ''evidence_digest'', JStr (replicate 64 49))] ?db = Inr (?db\<lparr>history := [e]\<rparr>) \<and> he_memorial_id e = lit ''m1''"
    by (rule first_history)
      (simp_all add: sample_rows_site encodable_isoformat encodable_lit encodable_flat [unfolded flat_sha_def])
  then obtain e where app: "append_history flat_sha (stamp sample_moments 1) (lit ''m1'') ''ownership_transferred'' (Some (lit ''operator:op'')) None
      [(lit ''request_id'', JStr (lit ''s1'')), (lit ''from_owner_id'', JStr (lit ''ada'')), (lit ''to_account_id'', JStr (lit ''bea'')),
        (lit ''evidence_digest'', JStr (replicate 64 49))] ?db = Inr (?db\<lparr>history := [e]\<rparr>)"
    by blast
  have fields: "me_id sample_memorial = lit ''m1''" "su_id sample_nomination = lit ''s1''" "su_nominee_id sample_nomination = lit ''bea''"
    "su_from_owner_id sample_nomination = lit ''ada''" "su_status sample_nomination = lit ''accepted''"
    "su_memorial_id sample_nomination = lit ''m1''" "me_owner_id sample_memorial = lit ''ada''" "\<not> me_demo sample_memorial"
    by (simp_all add: sample_memorial_def sample_nomination_def accepted_def offered_def)
  have id: "me_id ?m = lit ''m1''"
    by (simp add: handed_over_def fields)
  have over: "\<exists>db. hand_over flat_sha sample_moments sample_nomination sample_memorial (lit ''operator:op'') (replicate 64 49) sample_site = Inr (db, True)"
    by (simp add: hand_over_def fields upd drop suc log_activity_def app insert_activity_def get_memorial_def id
        del: One_nat_def)
  have "find (\<lambda>r. su_id r = lit ''s1'') (successions sample_site) = Some sample_nomination"
    by (simp add: sample_site_def fields)
  moreover have "acceptance_recorded sample_nomination" "\<not> has_pending_erasure sample_site (lit ''m1'')"
    by (simp_all add: acceptance_recorded_def sample_nomination_def accepted_def authorities_def has_pending_erasure_def sample_site_def empty_site_def)
  ultimately show ?thesis
    using over by (simp add: transfer_def sample_operator owner_record_def sample_rows_site fields)
qed

section \<open>An erasure\<close>

definition sample_disk :: "bool \<Rightarrow> erasure_env" where
  "sample_disk ok = \<lparr> reading = (\<lambda>n. 0), token_hex = [], writes = True, commits = (\<lambda>n. ok) \<rparr>"

definition live_site :: "Erasure.world" where
  "live_site = \<lparr> ew_db = sample_site, ew_ledger = None, ew_media = [lit ''f1.jpg''] \<rparr>"

definition sample_entry :: ledger_entry where
  "sample_entry = \<lparr> le_sequence = 1, le_memorial_id = lit ''m1'', le_decided_at = isoformat 0, le_actor = lit ''operator:op'',
     le_evidence_digest = replicate 64 49, le_previous_hash = zero_hash, le_entry_hash = replicate 64 49 \<rparr>"

definition sample_ledger :: ledger_file where
  "sample_ledger = \<lparr> lf_lines = [entry_line sample_entry], lf_partial = False \<rparr>"

abbreviation sample_erase :: "bool \<Rightarrow> Erasure.world \<times> (site_error + bool)" where
  "sample_erase ok \<equiv> erase flat_sha json_loads (\<lambda>t. True) (sample_disk ok) [lit ''ledger''] [lit ''data''] (lit ''m1'') (lit ''ada'')
     (lit ''op'') (lit ''case 1'') live_site"

lemma plain_digest: "encodable (replicate 64 49)" "encodable zero_hash"
  by (rule encodable_small; simp add: zero_hash_def)+

lemma sample_next_entry: "next_entry flat_sha (isoformat 0) [] (lit ''m1'') (lit ''operator:op'') (replicate 64 49) = Inr sample_entry"
proof -
  have "encodable (entry_text (sample_entry\<lparr>le_entry_hash := []\<rparr>))"
    unfolding entry_text_def
    by (rule clean_canonical)
      (simp add: entry_items_def sample_entry_def encodable_lit encodable_isoformat plain_digest ledger_format_def)
  then show ?thesis
    by (simp add: next_entry_def digest_def head_hash_def sample_entry_def flat_sha_def)
qed

lemma sample_apply:
  "\<exists>db. apply_entry flat_sha t u sample_entry again sample_site = Inr (db, [lit ''f1.jpg''])"
  if "encodable t"
proof -
  let ?gone = "delete_memorial (lit ''m1'') sample_site"
  let ?p = "[(lit ''evidence_digest'', JStr (le_evidence_digest sample_entry)), (lit ''ledger_sequence'', JInt (le_sequence sample_entry)),
              (lit ''ledger_hash'', JStr (le_entry_hash sample_entry)), (lit ''reapplied'', JBool again),
              (lit ''removed'', JObj (removed_counts (lit ''m1'') sample_site))]"
  have "\<exists>e. append_history flat_sha t (lit ''m1'') ''memorial_erased'' (Some (lit ''operator:op'')) None ?p ?gone = Inr (?gone\<lparr>history := [e]\<rparr>) \<and>
      he_memorial_id e = lit ''m1''"
    using that by (intro first_history)
      (simp_all add: encodable_lit delete_memorial_def sample_site_def empty_site_def sample_entry_def plain_digest removed_counts_def)
  moreover have "filenames_of (lit ''m1'') sample_site = [lit ''f1.jpg'']"
    by (simp add: filenames_of_def sample_site_def sample_media_def)
  moreover have "\<not> unsafe_filename (lit ''f1.jpg'')"
    by (simp add: unsafe_filename_def lit_def)
  moreover have "le_memorial_id sample_entry = lit ''m1''" "le_actor sample_entry = lit ''operator:op''"
    by (simp_all add: sample_entry_def)
  moreover have "erasures (?gone\<lparr>history := [e]\<rparr>) = []" for e
    by (simp add: delete_memorial_def sample_site_def empty_site_def)
  ultimately show ?thesis
    by (auto simp: apply_entry_def Let_def register_def insert_erasure_def)
qed

lemma sample_erasure:
  "\<exists>db. sample_erase ok = (\<lparr> ew_db = (if ok then db else sample_site), ew_ledger = Some sample_ledger, ew_media = [] \<rparr>,
     if ok then Inr True else Inl OSError)"
proof -
  obtain db where ap: "apply_entry flat_sha (isoformat 0) (isoformat 0) sample_entry False sample_site = Inr (db, [lit ''f1.jpg''])"
    using sample_apply [OF encodable_isoformat] by blast
  have reads: "reading (sample_disk b) n = 0" "commits (sample_disk b) n = b" "writes (sample_disk b)" for n b
    by (simp_all add: sample_disk_def)
  have rest: "checked_ledger [lit ''ledger''] [lit ''data''] = Inr ()" "check_registry sample_site [] = Inr ()"
    by (simp add: checked_ledger_def, simp add: check_registry_def sample_site_def empty_site_def)
  have empty: "opened live_site = \<lparr> lf_lines = [], lf_partial = False \<rparr>" "ew_db live_site = sample_site" "ew_media live_site = [lit ''f1.jpg'']"
    by (simp_all add: opened_def live_site_def)
  have run: "apply_in_world flat_sha (isoformat 0) (isoformat 0) ok sample_entry False (live_site\<lparr>ew_ledger := Some sample_ledger\<rparr>) =
      (\<lparr> ew_db = (if ok then db else sample_site), ew_ledger = Some sample_ledger, ew_media = [] \<rparr>, if ok then Inr () else Inl OSError)"
    using ap by (auto simp: apply_in_world_def live_site_def unlink_def)
  have "erase_recorded flat_sha (sample_disk ok) (lit ''m1'') [] (lit ''operator:op'') (replicate 64 49)
      (live_site\<lparr>ew_ledger := Some \<lparr> lf_lines = [], lf_partial = False \<rparr>\<rparr>) =
      (\<lparr> ew_db = (if ok then db else sample_site), ew_ledger = Some sample_ledger, ew_media = [] \<rparr>, if ok then Inr () else Inl OSError)"
    using run by (cases ok) (simp_all add: erase_recorded_def entry_for_def reads sample_next_entry sample_ledger_def)
  moreover have "me_owner_id sample_memorial = lit ''ada''"
    by (simp add: sample_memorial_def)
  ultimately show ?thesis
    by (cases ok) (auto simp: erase_def sample_operator rest empty read_ledger_def sample_rows_site)
qed

lemma flat_hex: "hex_digest flat_sha"
  by (simp add: hex_digest_def is_hex64_def flat_sha_def list_all_iff)

lemma sample_ledger_reads: "read_ledger flat_sha json_loads (\<lambda>t. True) sample_ledger = Inr [sample_entry]"
proof -
  let ?empty = "\<lparr> lf_lines = [], lf_partial = False \<rparr>"
  have "read_ledger flat_sha json_loads (\<lambda>t. True) (?empty\<lparr>lf_lines := lf_lines ?empty @ [entry_line sample_entry]\<rparr>) = Inr ([] @ [sample_entry])"
  proof (rule appended_line_read [OF _ sample_next_entry _ json_loads_is_canonical flat_hex])
    show "memorial_id_ok (lit ''m1'')"
      by (simp add: memorial_id_ok_def is_ascii_alnum_def lit_def)
    show "starts_with (lit ''operator:'') (lit ''operator:op'')"
      by (simp add: starts_with_def lit_def)
  qed (simp_all add: read_ledger_def entry_for_def is_hex64_def list_all_iff)
  then show ?thesis
    by (simp add: sample_ledger_def)
qed

end
