(* ===== verification/Memorial_Properties.thy ===== *)
theory Memorial_Properties imports Sample_Memorial begin

text \<open>
  The properties of the memorial site: who may view and until when, what its history commits to, how care
  changes hands, that erasure is decided before it happens and is complete, and what the site takes for an
  approval of the consent kernel.
\<close>

section \<open>Sharing\<close>

lemma view_event:
  assumes "authorize_view sha env mid role actor_id action purpose db = Inr (db', d)"
  shows "\<exists>e. history db' = history db @ [e] \<and> he_memorial_id e = mid \<and>
    he_event_type e = (if gd_allowed d then lit ''authorized'' else lit ''denied'')"
  using append_history_appended [OF authorize_view_Inr(2) [OF assms]] by (auto simp: appended_def)



text \<open>C28. Revoking closes the memorial: once the owner or an operator revoked its grant, no visitor in any role is
  allowed until another grant is recorded and verified.\<close>

theorem revoking_closes_the_memorial:
  assumes "revoke_sharing sha env mid gid owner_id reviewer reference db = Inr (db', True)" and "site_ok sha db"
  shows "site_ok sha db' \<and> current_grant db' mid = None \<and>
    (\<forall>env role actor_id action purpose db'' d.
       authorize_view sha env mid role actor_id action purpose db' = Inr (db'', d) \<longrightarrow> \<not> gd_allowed d)"
proof -
  have none: "current_grant db' mid = None"
    using revoke_leaves_no_grant [OF assms(1)] assms(2) by (simp add: site_ok_def)
  then show ?thesis
    using revoke_sharing_ok [OF assms] authorize_view_Inr(1) no_grant_no_view by metis
qed

theorem revoking_closes_the_memorial_witness:
  "\<exists>db. revoke_sharing flat_sha sample_moments (lit ''m1'') (lit ''g1'') (Some (lit ''ada'')) None None sample_site = Inr (db, True) \<and>
     current_grant sample_site (lit ''m1'') \<noteq> None \<and> current_grant db (lit ''m1'') = None"
proof -
  obtain db where "revoke_sharing flat_sha sample_moments (lit ''m1'') (lit ''g1'') (Some (lit ''ada'')) None None sample_site = Inr (db, True)"
    using sample_end_of_sharing by blast
  from revoking_closes_the_memorial [OF this sample_site_ok] this show ?thesis
    by (auto simp: sample_rows_site)
qed

section \<open>The history\<close>

text \<open>The history verifier is exact: without a checkpoint it accepts a database if and only if the events of
  every memorial are numbered from one, linked from the zero hash and carry the digest of their content.\<close>

theorem history_verifier_correct: "(\<exists>cp. verify_history sha db None = Inr cp) \<longleftrightarrow> history_ok sha db"
  by (rule verify_history_plain)

text \<open>A checkpoint fixes the history up to its heads: a database that verifies against an earlier checkpoint
  has, for every memorial, the events of that moment unchanged at the start of its chain, unless the digest
  collides on the events at hand.\<close>

theorem checkpoint_fixes_the_past:
  assumes "verify_history sha db None = Inr cp" and "verify_history sha db' (Some cp) = Inr cp'"
    and "inj_on sha (history_text ` (set (history db) \<union> set (history db')))"
  shows "list_all2 same_event (chain_of db mid) (take (length (chain_of db mid)) (chain_of db' mid))"
  using assms by (rule checkpoint_fixes_past)

theorem checkpoint_fixes_the_past_witness:
  "\<exists>db cp. verify_history flat_sha db None = Inr cp \<and> verify_history flat_sha db (Some cp) = Inr cp \<and>
     length (chain_of db (lit ''m1'')) = 1 \<and> list_all2 same_event (chain_of db (lit ''m1'')) (take 1 (chain_of db (lit ''m1'')))"
proof -
  obtain db where view: "authorize_view flat_sha sample_moments (lit ''m1'') (lit ''public'') None (lit ''memorial_view'') (lit ''memorial'')
      sample_site = Inr (db, \<lparr> gd_allowed = True, gd_code = lit ''allowed'' \<rparr>)"
    using sample_visit by blast
  obtain e where e: "history db = [e]" "he_memorial_id e = lit ''m1''"
    using view_event [OF view] by (auto simp: sample_rows_site)
  have "history_ok flat_sha db"
    using authorize_view_ok [OF view sample_site_ok] by (simp add: site_ok_def)
  then obtain cp where cp: "verify_history flat_sha db None = Inr cp"
    using verify_history_plain by blast
  have own: "verify_history flat_sha db (Some cp) = Inr cp"
    using own_checkpoint [OF cp] flat_hex by (simp add: hex_digest_def)
  have "inj_on flat_sha (history_text ` (set (history db) \<union> set (history db)))"
    by (simp add: e)
  note past = checkpoint_fixes_the_past [OF cp own this, of "lit ''m1''"]
  have "chain_of db (lit ''m1'') = [e]"
    by (simp add: chain_of_def e)
  with past cp own show ?thesis
    by (intro exI [of _ db] exI [of _ cp]) simp
qed

section \<open>Care\<close>

text \<open>C27. Care changes hands once and by consent: a transfer succeeds only on the accepted nomination of this
  account by the present owner, with the nominee's declaration on record and no erasure pending; it makes the
  nominee the owner of this memorial, leaves every other owner alone, takes the former owner off its members, and
  a second transfer of the nomination does nothing.\<close>

theorem care_changes_hands_by_consent:
  assumes "transfer sha env rid from_owner_id to_account_id reviewer reference db = Inr (db', True)" and "site_ok sha db"
  shows "\<exists>r m. r \<in> set (successions db) \<and> su_id r = rid \<and> su_status r = lit ''accepted'' \<and> acceptance_recorded r \<and>
    su_from_owner_id r = from_owner_id \<and> su_nominee_id r = to_account_id \<and>
    get_memorial db (su_memorial_id r) = Some m \<and> me_owner_id m = from_owner_id \<and> \<not> has_pending_erasure db (me_id m) \<and>
    owners db' = map (\<lambda>(i, j). (i, if i = me_id m then to_account_id else j)) (owners db) \<and>
    (\<forall>u. get_user db from_owner_id = Some u \<longrightarrow> \<lparr> mb_memorial_id = me_id m, mb_email = us_email u \<rparr> \<notin> set (members db')) \<and>
    (\<exists>r'. find (\<lambda>r. su_id r = rid) (successions db') = Some r' \<and> su_status r' = lit ''completed'') \<and> site_ok sha db'"
  using assms(1)
proof (cases rule: transfer_cases)
  case (now r m actor evidence)
  have r: "r \<in> set (successions db)" "su_id r = rid"
    using find_SomeD [OF now(1)] by auto
  have rows: "successions db' = update_rows (\<lambda>x. su_id x = rid) (completed (stamp env 0) actor evidence m) (successions db)"
    using hand_over_Inr(4) [OF now(10) assms(2)] r(2) by simp
  have "find (\<lambda>x. su_id x = rid) (update_rows (\<lambda>x. su_id x = rid) (completed (stamp env 0) actor evidence m) rs) =
      map_option (completed (stamp env 0) actor evidence m) (find (\<lambda>x. su_id x = rid) rs)" for rs
    by (induction rs) (auto simp: completed_def)
  then have "find (\<lambda>x. su_id x = rid) (successions db') = Some (completed (stamp env 0) actor evidence m r)"
    using now(1) rows by simp
  moreover have "\<forall>u. get_user db from_owner_id = Some u \<longrightarrow> \<lparr> mb_memorial_id = me_id m, mb_email = us_email u \<rparr> \<notin> set (members db')"
    using hand_over_Inr(3) [OF now(10) assms(2)] now(4) find_SomeD by (fastforce simp: get_user_def)
  ultimately show ?thesis
    using r now(2,4-9) hand_over_Inr(1) [OF now(10) assms(2)] hand_over_Inr(2) [OF now(10) assms(2), unfolded now(5)]
    by (intro exI [of _ r] exI [of _ m]) (simp add: completed_def)
qed simp

theorem care_changes_hands_by_consent_witness:
  "\<exists>db. transfer flat_sha sample_moments (lit ''s1'') (lit ''ada'') (lit ''bea'') (lit ''op'') (lit ''case 1'') sample_site = Inr (db, True) \<and>
     owners db = [(lit ''m1'', lit ''bea'')]"
proof -
  obtain db where run: "transfer flat_sha sample_moments (lit ''s1'') (lit ''ada'') (lit ''bea'') (lit ''op'') (lit ''case 1'') sample_site = Inr (db, True)"
    using sample_transfer by blast
  have "owners sample_site = [(lit ''m1'', lit ''ada'')]"
    by (simp add: owners_def sample_site_def sample_memorial_def)
  moreover have "successions sample_site = [sample_nomination]" "su_memorial_id sample_nomination = lit ''m1''" "me_id sample_memorial = lit ''m1''"
    by (simp_all add: sample_site_def sample_nomination_def accepted_def offered_def sample_memorial_def)
  ultimately show ?thesis
    using care_changes_hands_by_consent [OF run sample_site_ok] run by (auto simp: sample_rows_site)
qed

section \<open>Erasure\<close>

text \<open>C11. Nothing is erased before it is decided: whatever happens during a run of \<open>erase\<close>, a failing write or
  commit included, either the database and the files are as they were, or the ledger on disk reads back, holds
  the decision on this memorial and covers every erasure the database registers.\<close>

theorem erasure_is_decided_first:
  assumes "erase sha loads fromiso env path data mid owner_id reviewer reference w = (w', r)"
    and "loads_canonical loads" and "hex_digest sha" and "memorial_id_ok mid" and "fromiso (isoformat (reading env 0))"
  shows "ew_db w' = ew_db w \<and> ew_media w' = ew_media w \<or> on_record sha loads fromiso mid w'"
  using assms by (rule decision_first)

theorem erasure_is_decided_first_witness:
  "\<exists>w. sample_erase False = (w, Inl OSError) \<and> ew_media w = [] \<and> on_record flat_sha json_loads (\<lambda>t. True) (lit ''m1'') w"
proof -
  obtain w where run: "sample_erase False = (w, Inl OSError)" and w: "ew_media w = []"
    using sample_erasure [of False] by auto
  have "memorial_id_ok (lit ''m1'')"
    by (simp add: memorial_id_ok_def is_ascii_alnum_def lit_def)
  from erasure_is_decided_first [OF run json_loads_is_canonical flat_hex this] run w show ?thesis
    by (auto simp: live_site_def)
qed

text \<open>C12. An erasure that reports success is complete: no table has a row of the memorial left outside the history
  and the registry of erasures, which each keep what they had and gain one row at most; its files are unlinked;
  the history still verifies.\<close>

theorem erasure_is_complete:
  assumes "erase sha loads fromiso env path data mid owner_id reviewer reference w = (w', Inr True)"
  shows "gone mid (ew_db w') \<and> registered (ew_db w') mid \<and>
    (\<exists>e. history (ew_db w') = history (ew_db w) @ [e] \<and> he_memorial_id e = mid \<and> he_event_type e = lit ''memorial_erased'') \<and>
    (\<exists>rs. erasures (ew_db w') = erasures (ew_db w) @ rs) \<and>
    memorials (ew_db w') = filter (\<lambda>m. me_id m \<noteq> mid) (memorials (ew_db w)) \<and>
    ew_media w' = unlink (filenames_of mid (ew_db w)) (ew_media w) \<and>
    (history_ok sha (ew_db w) \<longrightarrow> history_ok sha (ew_db w'))"
proof -
  obtain e u entry where db: "ew_db w' = (delete_memorial mid (ew_db w))\<lparr>history := history (ew_db w) @ [e],
      erasures := erasures (ew_db w) @ (if registered (ew_db w) mid then [] else [registry_row u entry])\<rparr>"
    and e: "he_memorial_id e = mid" "he_event_type e = lit ''memorial_erased''"
    using erase_done(1) [OF assms] by blast
  have "history (ew_db w') = history (ew_db w) @ [e]" "\<exists>rs. erasures (ew_db w') = erasures (ew_db w) @ rs"
    "memorials (ew_db w') = filter (\<lambda>m. me_id m \<noteq> mid) (memorials (ew_db w))"
    by (simp_all add: db delete_memorial_def)
  with e erase_done(2-4,6) [OF assms] show ?thesis
    by blast
qed

theorem erasure_is_complete_witness:
  "\<exists>w. sample_erase True = (w, Inr True) \<and> gone (lit ''m1'') (ew_db w) \<and> ew_media w = [] \<and> length (history (ew_db w)) = 1"
proof -
  obtain w where run: "sample_erase True = (w, Inr True)" and w: "ew_media w = []"
    using sample_erasure [of True] by auto
  from erasure_is_complete [OF run] run w show ?thesis
    by (auto simp: live_site_def sample_rows_site)
qed

text \<open>C34. Reapplying the ledger to a restored backup finishes every decision on record and is idempotent: afterwards
  no memorial with a decision is there and each is registered, a second run erases and records nothing, and a
  check finds nothing outstanding.\<close>

theorem reapplying_settles_every_decision:
  assumes "reapply sha loads fromiso env path data False w = (w', Inr s0)" and "\<forall>n. commits env' n"
  shows "(\<forall>mid. on_record sha loads fromiso mid w \<longrightarrow> settled mid (ew_db w')) \<and>
    (\<exists>s. reapply sha loads fromiso env' path data False w' = (w', Inr s) \<and> ry_erased s = 0 \<and> ry_recorded s = 0) \<and>
    (\<exists>s. reapply sha loads fromiso env' path data True w' = (w', Inr s) \<and> ry_outstanding s = [])"
  using reapply_completes [OF assms(1)] reapply_idempotent [OF assms(1), of env'] assms(2) by blast

lemma sample_reapplication:
  "\<exists>db s. reapply flat_sha json_loads (\<lambda>t. True) (sample_disk True) [lit ''ledger''] [lit ''data''] False
     (live_site\<lparr>ew_ledger := Some sample_ledger\<rparr>) =
       (live_site\<lparr>ew_db := db, ew_ledger := Some sample_ledger, ew_media := []\<rparr>, Inr s) \<and> ry_erased s = 1"
proof -
  obtain db where ap: "apply_entry flat_sha (isoformat 0) (isoformat 0) sample_entry True sample_site = Inr (db, [lit ''f1.jpg''])"
    using sample_apply [OF encodable_isoformat] by blast
  let ?w = "live_site\<lparr>ew_ledger := Some sample_ledger\<rparr>"
  have run: "apply_in_world flat_sha (isoformat 0) (isoformat 0) True sample_entry True ?w =
      (live_site\<lparr>ew_db := db, ew_ledger := Some sample_ledger, ew_media := []\<rparr>, Inr ())"
    using ap by (simp add: apply_in_world_def live_site_def unlink_def)
  have reads: "reading (sample_disk b) n = 0" "commits (sample_disk b) n = b" for n b
    by (simp_all add: sample_disk_def)
  have "checked_ledger [lit ''ledger''] [lit ''data''] = Inr ()" "check_registry sample_site [sample_entry] = Inr ()"
    by (simp add: checked_ledger_def, simp add: check_registry_def sample_site_def empty_site_def)
  moreover have "exists_memorial sample_site (lit ''m1'')" "le_memorial_id sample_entry = lit ''m1''" "ew_db ?w = sample_site"
    by (simp_all add: exists_memorial_def sample_rows_site sample_entry_def live_site_def)
  ultimately show ?thesis
    using run by (simp add: reapply_def sample_ledger_reads reads Let_def) (simp add: live_site_def)
qed

theorem reapplying_settles_every_decision_witness:
  "\<exists>w s. reapply flat_sha json_loads (\<lambda>t. True) (sample_disk True) [lit ''ledger''] [lit ''data''] False
     (live_site\<lparr>ew_ledger := Some sample_ledger\<rparr>) = (w, Inr s) \<and> ry_erased s = 1 \<and> settled (lit ''m1'') (ew_db w)"
proof -
  obtain w s where run: "reapply flat_sha json_loads (\<lambda>t. True) (sample_disk True) [lit ''ledger''] [lit ''data''] False
     (live_site\<lparr>ew_ledger := Some sample_ledger\<rparr>) = (w, Inr s)" "ry_erased s = 1"
    using sample_reapplication by blast
  have "on_record flat_sha json_loads (\<lambda>t. True) (lit ''m1'') (live_site\<lparr>ew_ledger := Some sample_ledger\<rparr>)"
    using sample_ledger_reads
    by (simp add: on_record_def entry_for_def sample_entry_def live_site_def check_registry_def sample_site_def empty_site_def)
  with reapplying_settles_every_decision [OF run(1), of "sample_disk True"] run show ?thesis
    by (auto simp: sample_disk_def)
qed

section \<open>The kernel, as the site sees it\<close>

text \<open>What \<open>POST /consent/authorize\<close> of a kernel over \<open>db\<close> answers, on the wire: the response of
  \<open>authorize_action\<close> to some request, in a text that reads back as its JSON document.\<close>

definition answers_for ::
    "ucd \<Rightarrow> (pstr \<Rightarrow> pstr) \<Rightarrow> ('sk, 'vk) pyjwt \<Rightarrow> ('sk, 'vk) token_issuer \<Rightarrow> (timestamp \<Rightarrow> pstr) \<Rightarrow> (bytes \<Rightarrow> json option) \<Rightarrow> consent_db
       \<Rightarrow> nat \<times> bytes \<Rightarrow> bool" where
  "answers_for U sha J I dt_text loads db answer \<longleftrightarrow> (\<exists>a i code actor env db' r.
     authorize_action U sha J I a i code actor env db = (db', Inr r) \<and> fst answer = as_status r \<and>
     loads (snd answer) = Some (authorize_reply dt_text r))"

lemma authorize_echoes:
  assumes "authorize U sha J I a i actor code env db = (db', Inr r)"
  shows "ar_action r = a \<and> ar_profile_id r = i"
proof -
  have "authorize_tx U sha J I a i actor code env db = Inr (db', r)"
    using authorize_Inr [OF assms] by simp
  then show ?thesis
  proof (cases rule: authorize_tx_cases)
    case (allowed f d purpose)
    from allow_tx_Inr [OF allowed(7)] show ?thesis by (auto simp: make_result_def)
  next
    case (denied d reason)
    from deny_tx_Inr [OF denied(6)] show ?thesis by (auto simp: make_result_def)
  qed
qed

lemma authorize_action_allowed:
  assumes "authorize_action U sha J I a i code actor env db = (db', Inr r)" and "as_allowed r" and "a \<in> use_actions"
  shows "as_action r = a \<and> as_profile_id r = i \<and>
    (\<exists>g \<in> set (grants db). as_grant_id r = Some (g_id g) \<and> g_profile_id g = i \<and> g_revoked_at g = None \<and> g_is_active g \<and> g_verified_at g \<noteq> None)"
proof -
  obtain r0 where auth: "authorize U sha J I a i actor code env db = (db', Inr r0)" "ar_allowed r0"
    and r: "as_action r = ar_action r0" "as_profile_id r = ar_profile_id r0" "as_grant_id r = ar_grant_id r0"
    using assms(1,2) by (auto simp: authorize_action_def split: prod.splits sum.splits error.splits)
  show ?thesis
    using use_needs_live_grant [OF assms(3) auth] authorize_echoes [OF auth(1)] unfolding r by blast
qed

lemma reply_fields:
  assumes "approval fromiso (authorize_reply dt_text r) action profile"
  shows "as_allowed r" and "action_value (as_action r) = action" and "uuid_str (as_profile_id r) = profile"
  using assms by (simp_all add: approval_def authorize_reply_def str_field_def Let_def)

text \<open>C7. The two programs agree on consent: when the site takes an answer of the kernel for an approval of a voice
  action, the kernel's database has a grant of that very profile and identifier that is verified, active and not
  revoked, and the request that was answered named the one purpose of the action.\<close>

theorem site_approval_has_live_grant:
  assumes "authorize_voice hmac loads fromiso transport now (Some c) user_id profile_id action = Inr v"
    and "\<forall>req answer. transport req = Some answer \<and> hc_url req = kc_url c @ lit ''/consent/authorize'' \<longrightarrow>
      answers_for U sha J I dt_text loads db answer"
  shows "\<exists>g \<in> set (grants db). vo_grant_id v = uuid_str (g_id g) \<and> vo_profile_id v = uuid_str (g_profile_id g) \<and>
    g_revoked_at g = None \<and> g_is_active g \<and> g_verified_at g \<noteq> None"
proof -
  obtain p purpose req raw kvs where p: "map_of voice_actions action = Some purpose" "vo_profile_id v = uuid_str p"
    and url: "hc_url req = kc_url c @ lit ''/consent/authorize''" and answer: "transport req = Some (200, raw)"
    and kvs: "loads raw = Some (JObj kvs)" "approval fromiso (JObj kvs) action (uuid_str p)"
      "str_field kvs ''consent_grant_id'' = Some (vo_grant_id v)"
    using authorize_voice_Inr [OF assms(1)] by auto
  then obtain a i code actor env db' r where run: "authorize_action U sha J I a i code actor env db = (db', Inr r)"
    and "loads raw = Some (authorize_reply dt_text r)"
    using assms(2) unfolding answers_for_def by fastforce
  then have reply: "JObj kvs = authorize_reply dt_text r"
    using kvs(1) by simp
  note r = reply_fields [OF kvs(2) [unfolded reply]]
  have "as_action r = a"
    using run by (auto simp: authorize_action_def dest: authorize_echoes split: prod.splits sum.splits error.splits)
  then have "a \<in> use_actions"
    using voice_actions_purpose [of a purpose] p(1) r(2) synthesis_actions_def by auto
  with authorize_action_allowed [OF run r(1)] obtain g where g: "g \<in> set (grants db)" "as_grant_id r = Some (g_id g)"
      "g_profile_id g = i" "g_revoked_at g = None" "g_is_active g" "g_verified_at g \<noteq> None" "as_profile_id r = i"
    by blast
  have "vo_grant_id v = uuid_str (g_id g)"
    using kvs(3) reply g(2) by (simp add: authorize_reply_def str_field_def Let_def)
  with g r(3) p(2) show ?thesis by auto
qed

definition sample_config :: kernel_config where
  "sample_config = \<lparr> kc_url = lit ''http://kernel'', kc_key = [], kc_issuer = lit ''web'', kc_audience = lit ''kernel'' \<rparr>"

lemma sample_approval:
  "\<exists>loads v. authorize_voice (\<lambda>key s. []) loads (\<lambda>t. True) (\<lambda>req. Some (200, [])) 0 (Some sample_config) (lit ''heir'') (uuid_str 7)
      (action_value INITIATE_VOICE_SYNTHESIS) = Inr v \<and>
     answers_for sample_ucd flat_sha sample_jwt sample_issuer isoformat loads sample_db (200, [])"
proof -
  let ?code = "lit ''VOICE_SYNTHESIS''"
  let ?t = "issue sample_jwt sample_issuer 40 (lit ''heir'') INITIATE_VOICE_SYNTHESIS 7 (Some 8) ?code (10 * second)"
  have t: "it_token ?t = lit ''a.b.c''" "it_jti ?t = 40"
    by (simp_all add: issue_def Let_def sample_jwt_def one_token_jwt_def sample_issuer_def)
  obtain db e t where auth: "authorize sample_ucd flat_sha sample_jwt sample_issuer INITIATE_VOICE_SYNTHESIS 7 heir ?code sample_env sample_db =
      (db, Inr (make_result sample_ucd INITIATE_VOICE_SYNTHESIS 7 ?code (permission (Some 8) DP_VOICE_SYNTHESIS True) (Some t) e))"
    and t: "it_token t = lit ''a.b.c''" "it_jti t = 40"
    using sample_authorization_result t by blast
  obtain r where run: "authorize_action sample_ucd flat_sha sample_jwt sample_issuer INITIATE_VOICE_SYNTHESIS 7 ?code heir sample_env sample_db = (db, Inr r)"
    and r: "as_status r = 200" "as_allowed r" "as_action r = INITIATE_VOICE_SYNTHESIS" "as_profile_id r = 7" "as_grant_id r = Some 8"
      "as_token r = Some (lit ''a.b.c'')" "as_jti r = Some 40" "as_expires_at r = Some (it_expires_at t)" "as_token_type r = Some token_type"
    using auth by (auto simp: authorize_action_def make_result_def t)
  let ?loads = "\<lambda>b :: bytes. Some (authorize_reply isoformat r)"
  have "length (filter (\<lambda>c. c = 46) (lit ''a.b.c'')) = 2"
    by (simp add: lit_def)
  from reads_approval [OF r(1,2,5-9) this, of "\<lambda>t. True" isoformat ?loads "[]"]
  have "\<exists>v. read_reply ?loads (\<lambda>t. True) (action_value INITIATE_VOICE_SYNTHESIS) (uuid_str 7) (200, []) = Inr v"
    by (simp add: r)
  moreover have "\<exists>a. identity_assertion (\<lambda>key s. []) sample_config (lit ''heir'') 0 = Inr a"
    using strip_by_id [of "lit ''heir''" py_isspace]
    by (auto simp: identity_assertion_def max_subject_def lit_def py_isspace_def)
  moreover have "map_of voice_actions (action_value INITIATE_VOICE_SYNTHESIS) = Some ?code"
    by (simp add: voice_actions_def)
  ultimately have "\<exists>v. authorize_voice (\<lambda>key s. []) ?loads (\<lambda>t. True) (\<lambda>req. Some (200, [])) 0 (Some sample_config) (lit ''heir'') (uuid_str 7)
      (action_value INITIATE_VOICE_SYNTHESIS) = Inr v"
    by (auto simp: authorize_voice_def call_kernel_def max_response_bytes_def parse_uuid_str)
  moreover have "answers_for sample_ucd flat_sha sample_jwt sample_issuer isoformat ?loads sample_db (200, [])"
    unfolding answers_for_def by (intro exI conjI, rule run) (simp_all add: r(1))
  ultimately show ?thesis by blast
qed

theorem site_approval_has_live_grant_witness:
  "\<exists>loads v. authorize_voice (\<lambda>key s. []) loads (\<lambda>t. True) (\<lambda>req. Some (200, [])) 0 (Some sample_config) (lit ''heir'') (uuid_str 7)
      (action_value INITIATE_VOICE_SYNTHESIS) = Inr v \<and> (\<exists>g \<in> set (grants sample_db). vo_grant_id v = uuid_str (g_id g) \<and> g_is_active g)"
proof -
  obtain loads v where v: "authorize_voice (\<lambda>key s. []) loads (\<lambda>t. True) (\<lambda>req. Some (200, [])) 0 (Some sample_config) (lit ''heir'') (uuid_str 7)
      (action_value INITIATE_VOICE_SYNTHESIS) = Inr v"
    and answers: "answers_for sample_ucd flat_sha sample_jwt sample_issuer isoformat loads sample_db (200, [])"
    using sample_approval by blast
  from site_approval_has_live_grant [OF v, of sample_ucd flat_sha sample_jwt sample_issuer isoformat sample_db] answers v show ?thesis
    by (simp, blast)
qed

end
