(* ===== verification/Site_Request.thy ===== *)
theory Site_Request imports Erasure begin

text \<open>
  The memorial web site, \<open>remembrance/app.py\<close>: what every route shares. A visit is a request as Flask hands it
  over; a route is a step on the database, the media directory and the session cookie that ends in a reply or
  goes on with a value. A transaction that is given up leaves the database as it was; the operations of the
  consent, succession and erasure modules are transactions of their own.

  \<open>vs_meanwhile\<close> is what other connections commit between the checks of a route and its own write
  transaction. Password hashing, HMAC, the image library, JSON parsing and the Unicode tables are arguments,
  in \<open>site_config\<close>. Templates are not modelled: a page is the rows it is given.
\<close>

section \<open>Visits and replies\<close>

type_synonym bytes = "nat list"

record session =
  sn_uid :: "pstr option"
  sn_csrf :: "pstr option"
  sn_visitor :: "pstr option"

record visit =
  vs_post :: bool
  vs_path :: pstr
  vs_origin :: "pstr option"
  vs_remote :: pstr
  vs_form :: "(pstr \<times> pstr) list"
  vs_file :: "(pstr \<times> bytes) option"
  vs_clock :: "nat \<Rightarrow> timestamp"
  vs_today :: day
  vs_ident :: "nat \<Rightarrow> pstr"
  vs_token :: "nat \<Rightarrow> pstr"
  vs_env :: "nat \<Rightarrow> site_env"
  vs_meanwhile :: "site_db \<Rightarrow> site_db"

record site_config =
  cf_secret :: pstr
  cf_public_url :: pstr
  cf_max_media_bytes :: nat
  cf_dummy_hash :: pstr
  cf_sha :: "pstr \<Rightarrow> pstr"
  cf_hmac :: "pstr \<Rightarrow> pstr \<Rightarrow> pstr"
  cf_lower :: "pstr \<Rightarrow> pstr"
  cf_digit :: "nat \<Rightarrow> nat option"
  cf_fromiso :: "pstr \<Rightarrow> day option"
  cf_hash_password :: "pstr \<Rightarrow> pstr \<Rightarrow> pstr"
  cf_check_password :: "pstr \<Rightarrow> pstr \<Rightarrow> bool"
  cf_clean_image :: "bytes \<Rightarrow> bytes option"
  cf_loads :: "bytes \<Rightarrow> json option"

record archive =
  ax_exported_at :: pstr
  ax_memorial :: memorial
  ax_media :: "media list"
  ax_events :: "story list"
  ax_tributes :: "tribute list"
  ax_members :: "member list"
  ax_audit :: "activity_row list"
  ax_consent :: "(control \<times> sharing_grant list \<times> history_event list) option"
  ax_succession :: "succession_request list"
  ax_erasure_requests :: "erasure_request list"
  ax_consent_history :: "history_event list option"
  ax_files :: "(pstr \<times> bytes) list"

datatype page =
    Home_Page "memorial list"
  | Auth_Page string
  | Dashboard_Page "(memorial \<times> pstr) list" "memorial list" "succession_request list"
  | Edit_Page "memorial option"
  | Memorial_Page memorial pstr "media list" "story list" "tribute list" "media option"
  | Manage_Page memorial "media list" "story list" "tribute list" "member list" "activity_row list" "abuse_report list" pstr
      "erasure_request option" "control option"
  | Consent_Page memorial "control option" "sharing_grant option" gate_decision "sharing_grant list" "history_event list"
  | Succession_Page memorial "(succession_request \<times> site_user) list" "(succession_request \<times> site_user) option"
  | Invitation_Page succession_request
  | Erasure_Page memorial "erasure_request option" "erasure_request list"
  | Receipt_Page pstr pstr memorial
  | Form_Page string

datatype reply =
    Redirect string "pstr list"
  | Shown nat page
  | Aborted nat pstr
  | Media_File bytes pstr
  | Archive_File archive
  | Crashed site_error

record web =
  wb_db :: site_db
  wb_files :: "(pstr \<times> bytes) list"
  wb_session :: session

section \<open>Steps\<close>

type_synonym 'a step = "web \<Rightarrow> web \<times> (reply + 'a)"

definition pass :: "'a \<Rightarrow> 'a step" where
  "pass x w = (w, Inr x)"

definition halt :: "reply \<Rightarrow> 'a step" where
  "halt r w = (w, Inl r)"

definition then_do :: "'a step \<Rightarrow> ('a \<Rightarrow> 'b step) \<Rightarrow> 'b step" where
  "then_do s k w = (case s w of (w', Inl r) \<Rightarrow> (w', Inl r) | (w', Inr x) \<Rightarrow> k x w')"

definition look :: "(site_db \<Rightarrow> 'a) \<Rightarrow> 'a step" where
  "look f w = (w, Inr (f (wb_db w)))"

definition check :: "bool \<Rightarrow> nat \<Rightarrow> string \<Rightarrow> unit step" where
  "check b status message = (if b then pass () else halt (Aborted status (lit message)))"

text \<open>A write transaction: committed whole, or given up.\<close>

definition committing :: "(site_db \<Rightarrow> reply + site_db) \<Rightarrow> unit step" where
  "committing f w = (case f (wb_db w) of Inl r \<Rightarrow> (w, Inl r) | Inr db \<Rightarrow> (w\<lparr>wb_db := db\<rparr>, Inr ()))"

text \<open>The error handler of the three modules' exceptions; any other is a server error.\<close>

definition failed :: "site_error \<Rightarrow> reply" where
  "failed e = (case e of ConsentError m \<Rightarrow> Aborted 400 m | SuccessionError m \<Rightarrow> Aborted 400 m | ErasureError m \<Rightarrow> Aborted 400 m
     | _ \<Rightarrow> Crashed e)"

definition operation :: "(site_db \<Rightarrow> site_error + (site_db \<times> 'a)) \<Rightarrow> 'a step" where
  "operation f w = (case f (wb_db w) of Inl e \<Rightarrow> (w, Inl (failed e)) | Inr (db, x) \<Rightarrow> (w\<lparr>wb_db := db\<rparr>, Inr x))"

definition meanwhile :: "visit \<Rightarrow> unit step" where
  "meanwhile v w = (w\<lparr>wb_db := vs_meanwhile v (wb_db w)\<rparr>, Inr ())"

definition sql :: "site_error + 'a \<Rightarrow> reply + 'a" where
  "sql r = (case r of Inl e \<Rightarrow> Inl (failed e) | Inr x \<Rightarrow> Inr x)"

section \<open>Reading the form\<close>

text \<open>\<open>now()\<close>: seconds, with the offset.\<close>

definition seconds_text :: "timestamp \<Rightarrow> pstr" where
  "seconds_text t = take 19 (isoformat t) @ lit ''+00:00''"

abbreviation now_text :: "visit \<Rightarrow> nat \<Rightarrow> pstr" where
  "now_text v n \<equiv> seconds_text (vs_clock v n)"

definition form_get :: "visit \<Rightarrow> string \<Rightarrow> pstr" where
  "form_get v name = (case map_of (vs_form v) (lit name) of Some s \<Rightarrow> s | None \<Rightarrow> [])"

definition said_yes :: "visit \<Rightarrow> string \<Rightarrow> bool" where
  "said_yes v name \<longleftrightarrow> form_get v name = lit ''yes''"

definition capitalized :: "string \<Rightarrow> string" where
  "capitalized name = (case map (\<lambda>c. if c = CHR ''_'' then CHR '' '' else c) name of
     [] \<Rightarrow> [] | c # cs \<Rightarrow> (if of_char c \<in> {97..122 :: nat} then char_of (of_char c - 32 :: nat) else c) # cs)"

definition field :: "visit \<Rightarrow> string \<Rightarrow> nat \<Rightarrow> bool \<Rightarrow> pstr step" where
  "field v name maximum required =
     (let value = strip_by py_isspace (form_get v name) in
      if maximum < length value \<or> (required \<and> value = [])
      then halt (Aborted 400 (lit (capitalized name) @ lit '' is required or exceeds '' @ int_str (int maximum) @ lit '' characters.''))
      else pass value)"

text \<open>The pattern of one at sign with no white space, something before it, and a dot inside what follows it.\<close>

definition is_email :: "pstr \<Rightarrow> bool" where
  "is_email s \<longleftrightarrow> list_all (\<lambda>c. \<not> py_isspace c) s \<and>
     (case split_on 64 s of [a, d] \<Rightarrow> a \<noteq> [] \<and> 46 \<in> set (butlast (tl d)) | _ \<Rightarrow> False)"

definition email_field :: "site_config \<Rightarrow> visit \<Rightarrow> pstr step" where
  "email_field C v = then_do (field v ''email'' 254 True) (\<lambda>value.
     let value = cf_lower C value in
     if value \<noteq> [] \<and> \<not> is_email value then halt (Aborted 400 (lit ''Please enter a valid email address.'')) else pass value)"

definition visibilities :: "pstr list" where
  "visibilities = map lit [''public'', ''family'', ''private'']"

definition visibility :: "visit \<Rightarrow> pstr step" where
  "visibility v = then_do (field v ''visibility'' 200 False) (\<lambda>value.
     let value = (if value = [] then lit ''private'' else value) in
     if value \<notin> set visibilities then halt (Aborted 400 (lit ''Invalid visibility.'')) else pass value)"

text \<open>\<open>int(s)\<close>: an optional sign, then decimal digits of any script with single underscores between them.\<close>

fun int_digits :: "(nat \<Rightarrow> nat option) \<Rightarrow> nat \<Rightarrow> pstr \<Rightarrow> nat option" where
  "int_digits D n [] = Some n"
| "int_digits D n (c # s) =
     (if c = 95
      then (case s of [] \<Rightarrow> None | d # t \<Rightarrow> (case D d of None \<Rightarrow> None | Some k \<Rightarrow> int_digits D (10 * n + k) t))
      else (case D c of None \<Rightarrow> None | Some k \<Rightarrow> int_digits D (10 * n + k) s))"

definition py_int :: "(nat \<Rightarrow> nat option) \<Rightarrow> pstr \<Rightarrow> int option" where
  "py_int D s =
     (let t = strip_by py_isspace s; signed = (t \<noteq> [] \<and> hd t \<in> {43, 45}); body = (if signed then tl t else t) in
      case body of [] \<Rightarrow> None
      | c # cs \<Rightarrow> (case D c of None \<Rightarrow> None
          | Some k \<Rightarrow> map_option (\<lambda>n. if signed \<and> hd t = 45 then - int n else int n) (int_digits D k cs)))"

section \<open>Before a request\<close>

definition exempt_path :: "pstr \<Rightarrow> bool" where
  "exempt_path p \<longleftrightarrow> starts_with (lit ''/static/'') p \<or> p \<in> {lit ''/healthz'', lit ''/sw.js''}"

text \<open>\<open>hmac.compare_digest\<close> takes ASCII strings only and raises \<open>TypeError\<close> for others.\<close>

definition same_token :: "pstr \<Rightarrow> pstr \<Rightarrow> site_error + bool" where
  "same_token a b = (if list_all (\<lambda>c. c < 128) a \<and> list_all (\<lambda>c. c < 128) b then Inr (a = b) else Inl (RuntimeError ''TypeError''))"

definition give_csrf :: "visit \<Rightarrow> pstr step" where
  "give_csrf v w = (case sn_csrf (wb_session w) of
     Some t \<Rightarrow> (w, Inr t)
   | None \<Rightarrow> (w\<lparr>wb_session := (wb_session w)\<lparr>sn_csrf := Some (vs_token v 0)\<rparr>\<rparr>, Inr (vs_token v 0)))"

definition session_user :: "web \<Rightarrow> site_user option" where
  "session_user w = (case sn_uid (wb_session w) of None \<Rightarrow> None | Some uid \<Rightarrow> get_user (wb_db w) uid)"

definition check_form :: "site_config \<Rightarrow> visit \<Rightarrow> pstr \<Rightarrow> unit step" where
  "check_form C v csrf =
     (if \<not> vs_post v then pass ()
      else if vs_origin v \<notin> {None, Some [], Some (cf_public_url C)} then halt (Aborted 403 (lit ''This request came from another site.''))
      else (case same_token (form_get v ''csrf'') csrf of
          Inl e \<Rightarrow> halt (failed e)
        | Inr same \<Rightarrow> check same 403 ''Your form expired. Refresh the page and try again.''))"

definition prepare :: "site_config \<Rightarrow> visit \<Rightarrow> (site_user option) step" where
  "prepare C v =
     (if exempt_path (vs_path v) then pass None
      else then_do (give_csrf v) (\<lambda>csrf. then_do (\<lambda>w. (w, Inr (session_user w))) (\<lambda>user. then_do (check_form C v csrf) (\<lambda>_. pass user))))"

text \<open>Counts by the hashed address of the visitor in windows of \<open>period\<close> seconds.\<close>

definition counted :: "pstr \<Rightarrow> int \<Rightarrow> hit_count list \<Rightarrow> hit_count list \<times> nat" where
  "counted key window rows =
     (let kept = filter (\<lambda>r. window - 2 \<le> ht_window r) rows in
      case find (\<lambda>r. ht_key r = key) kept of
        None \<Rightarrow> (kept @ [\<lparr> ht_key = key, ht_window = window, ht_hits = 1 \<rparr>], 1)
      | Some r \<Rightarrow> (let hits = (if ht_window r = window then ht_hits r + 1 else 1) in
          (update_rows (\<lambda>r. ht_key r = key) (\<lambda>r. r\<lparr>ht_window := window, ht_hits := hits\<rparr>) kept, hits)))"

definition rate_limit :: "site_config \<Rightarrow> visit \<Rightarrow> string \<Rightarrow> nat \<Rightarrow> unit step" where
  "rate_limit C v kind limit w =
     (let (rows, hits) = counted (cf_hmac C (cf_secret C) (lit kind @ lit '':'' @ vs_remote v)) (vs_clock v 0 div second div 3600)
            (hit_counts (wb_db w));
          w' = w\<lparr>wb_db := (wb_db w)\<lparr>hit_counts := rows\<rparr>\<rparr> in
      if limit < hits then (w', Inl (Aborted 429 (lit ''Please wait before trying again.''))) else (w', Inr ()))"

definition login_required :: "site_user option \<Rightarrow> site_user step" where
  "login_required user = (case user of None \<Rightarrow> halt (Redirect ''login'' []) | Some u \<Rightarrow> pass u)"

section \<open>Who may see what\<close>

definition role_of :: "site_db \<Rightarrow> site_user option \<Rightarrow> memorial \<Rightarrow> pstr" where
  "role_of db user m = (case user of
     None \<Rightarrow> lit ''public''
   | Some u \<Rightarrow> if us_id u = me_owner_id m then lit ''owner''
       else if list_ex (\<lambda>b. mb_memorial_id b = me_id m \<and> mb_email b = us_email u) (members db) then lit ''family''
       else lit ''public'')"

text \<open>The n-th question to the consent gate in a visit.\<close>

definition sharing_allowed :: "site_config \<Rightarrow> visit \<Rightarrow> nat \<Rightarrow> site_user option \<Rightarrow> pstr \<Rightarrow> pstr \<Rightarrow> bool step" where
  "sharing_allowed C v n user mid role = then_do (look (\<lambda>db. get_control db mid)) (\<lambda>control. case control of
     None \<Rightarrow> pass True
   | Some _ \<Rightarrow> then_do (operation (authorize_view (cf_sha C) (vs_env v n) mid role (map_option us_id user)
         (lit ''memorial_view'') (lit ''memorial''))) (\<lambda>d. pass (gd_allowed d)))"

definition get_memorial_for :: "site_config \<Rightarrow> visit \<Rightarrow> site_user option \<Rightarrow> pstr \<Rightarrow> bool \<Rightarrow> (memorial \<times> pstr) step" where
  "get_memorial_for C v user mid owner = then_do (look (\<lambda>db. map_option (\<lambda>m. (m, role_of db user m)) (get_memorial db mid))) (\<lambda>found.
     case found of
       None \<Rightarrow> halt (Aborted 404 [])
     | Some (m, role) \<Rightarrow>
         if owner \<and> role \<noteq> lit ''owner'' then halt (Aborted 403 (lit ''Only the memorial owner can do this.''))
         else if role \<noteq> lit ''owner'' \<and> (me_archived m \<or> me_visibility m = lit ''private'' \<or>
           (me_visibility m = lit ''family'' \<and> role \<noteq> lit ''family'')) then halt (Aborted 404 [])
         else if role \<noteq> lit ''owner''
         then then_do (sharing_allowed C v 0 user mid role) (\<lambda>allowed. if allowed then pass (m, role) else halt (Aborted 404 []))
         else pass (m, role))"

definition pending_erasure :: "site_db \<Rightarrow> pstr \<Rightarrow> erasure_request option" where
  "pending_erasure db mid = find (\<lambda>r. eq_memorial_id r = mid \<and> eq_status r = lit ''pending'') (erasure_requests db)"

definition capital_text :: "pstr \<Rightarrow> pstr" where
  "capital_text s = (case s of [] \<Rightarrow> [] | c # cs \<Rightarrow> (if 97 \<le> c \<and> c \<le> 122 then c - 32 else c) # cs)"

definition sharing_label :: "site_db \<Rightarrow> memorial \<Rightarrow> pstr" where
  "sharing_label db m =
     (if pending_erasure db (me_id m) \<noteq> None then lit ''Erasure requested''
      else if me_archived m then lit ''Archived''
      else if me_visibility m = lit ''private'' then lit ''Private''
      else (case get_control db (me_id m) of
          None \<Rightarrow> capital_text (me_visibility m)
        | Some c \<Rightarrow> (let grant = current_grant db (me_id m) in
            if \<not> gd_allowed (gate grant (co_death_confirmed_at c \<notin> {None, Some []}) (lit ''family'') (lit ''memorial_view'') (lit ''memorial''))
            then lit ''Sharing paused''
            else (case grant of
                Some g \<Rightarrow> if sg_audience g = lit ''family'' then lit ''Family'' else capital_text (me_visibility m)
              | None \<Rightarrow> capital_text (me_visibility m)))))"

definition visible :: "bool \<Rightarrow> pstr \<Rightarrow> pstr \<Rightarrow> bool" where
  "visible archived vis role \<longleftrightarrow> role = lit ''owner'' \<or>
     (\<not> archived \<and> (vis = lit ''public'' \<or> (role = lit ''family'' \<and> vis = lit ''family'')))"

definition owned_action :: "site_config \<Rightarrow> visit \<Rightarrow> site_user option \<Rightarrow> pstr \<Rightarrow> (site_user \<times> memorial) step" where
  "owned_action C v user mid = then_do (login_required user) (\<lambda>u. then_do (get_memorial_for C v user mid True) (\<lambda>(m, _).
     if me_demo m then halt (Aborted 403 (lit ''The example memorial is read-only.'')) else pass (u, m)))"

section \<open>Writing\<close>

definition site_audit :: "visit \<Rightarrow> nat \<Rightarrow> session \<Rightarrow> pstr \<Rightarrow> pstr \<Rightarrow> pstr option \<Rightarrow> site_db \<Rightarrow> site_error + site_db" where
  "site_audit v n session mid action target = insert_activity \<lparr> au_memorial_id = mid, au_actor_id = sn_uid session, au_action = action,
     au_target_id = target, au_created = now_text v n \<rparr>"

text \<open>\<open>commit_owned\<close>: ownership is read again inside the write transaction, after its statements.\<close>

definition still_owned :: "site_user \<Rightarrow> pstr \<Rightarrow> site_db \<Rightarrow> bool" where
  "still_owned u mid db \<longleftrightarrow> (case get_memorial db mid of None \<Rightarrow> False | Some m \<Rightarrow> \<not> me_demo m \<and> me_owner_id m = us_id u)"

definition committing_owned :: "site_user \<Rightarrow> pstr \<Rightarrow> (site_db \<Rightarrow> reply + site_db) \<Rightarrow> unit step" where
  "committing_owned u mid f = committing (\<lambda>db. bindE (f db) (\<lambda>db'.
     if still_owned u mid db' then Inr db' else Inl (Aborted 403 (lit ''Memorial ownership changed. Your edit was not saved.''))))"

end
