(* ===== verification/Site_Pages.thy ===== *)
theory Site_Pages imports Site_Request begin

text \<open>
  Accounts, reading and visitors' contributions on the memorial site: the routes of \<open>remembrance/app.py\<close> that
  register and sign in, show pages and files, and take tributes, candles, withdrawals and reports.
\<close>

section \<open>Accounts\<close>

definition insert_user :: "site_user \<Rightarrow> site_db \<Rightarrow> site_db option" where
  "insert_user u db = (if us_id u \<in> us_id ` set (users db) \<or> us_email u \<in> us_email ` set (users db) then None
     else Some (db\<lparr>users := users db @ [u]\<rparr>))"

definition signed_in :: "pstr \<Rightarrow> pstr \<Rightarrow> web \<Rightarrow> web" where
  "signed_in uid csrf w = w\<lparr>wb_session := \<lparr> sn_uid = Some uid, sn_csrf = Some csrf, sn_visitor = None \<rparr>\<rparr>"

definition new_account :: "site_user \<Rightarrow> pstr \<Rightarrow> reply step" where
  "new_account u csrf w = (case insert_user u (wb_db w) of
     None \<Rightarrow> (w, Inr (Shown 400 (Auth_Page ''register'')))
   | Some db \<Rightarrow> (signed_in (us_id u) csrf (w\<lparr>wb_db := db\<rparr>), Inr (Redirect ''dashboard'' [])))"

definition register_account :: "site_config \<Rightarrow> visit \<Rightarrow> reply step" where
  "register_account C v =
     (if \<not> vs_post v then pass (Shown 200 (Auth_Page ''register''))
      else then_do (rate_limit C v ''register'' 10) (\<lambda>_. then_do (email_field C v) (\<lambda>email.
        then_do (field v ''name'' 100 True) (\<lambda>name. then_do (field v ''password'' 256 True) (\<lambda>password.
        then_do (check (12 \<le> length password) 400 ''Use a password of at least 12 characters.'') (\<lambda>_.
        then_do (check (said_yes v ''terms'') 400 ''Please accept the terms and privacy notice.'') (\<lambda>_.
          new_account \<lparr> us_id = vs_ident v 0, us_email = email, us_name = name,
            us_password = cf_hash_password C password (vs_token v 2), us_created = now_text v 1 \<rparr> (vs_token v 1))))))))"

definition login :: "site_config \<Rightarrow> visit \<Rightarrow> reply step" where
  "login C v =
     (if \<not> vs_post v then pass (Shown 200 (Auth_Page ''login''))
      else then_do (rate_limit C v ''login'' 30) (\<lambda>_. then_do (email_field C v) (\<lambda>email.
        then_do (look (\<lambda>db. find (\<lambda>u. us_email u = email) (users db))) (\<lambda>user.
        then_do (field v ''password'' 256 True) (\<lambda>password.
          let valid = cf_check_password C (case user of Some u \<Rightarrow> us_password u | None \<Rightarrow> cf_dummy_hash C) password in
          case user of
            Some u \<Rightarrow> if valid then (\<lambda>w. (signed_in (us_id u) (vs_token v 1) w, Inr (Redirect ''dashboard'' [])))
              else pass (Shown 401 (Auth_Page ''login''))
          | None \<Rightarrow> pass (Shown 401 (Auth_Page ''login'')))))))"

definition logout :: "reply step" where
  "logout w = (w\<lparr>wb_session := \<lparr> sn_uid = None, sn_csrf = None, sn_visitor = None \<rparr>\<rparr>, Inr (Redirect ''home'' []))"

section \<open>Lists of memorials\<close>

text \<open>\<open>ORDER BY key DESC\<close>.\<close>

definition newest :: "('r \<Rightarrow> pstr) \<Rightarrow> 'r list \<Rightarrow> 'r list" where
  "newest key rows = rev (sort_key key (rev rows))"

definition home :: "reply step" where
  "home = then_do (look (\<lambda>db. filter (\<lambda>m. me_demo m \<and> me_visibility m = lit ''public'' \<and> \<not> me_archived m) (memorials db)))
     (\<lambda>examples. pass (Shown 200 (Home_Page examples)))"

fun allowed_shared :: "site_config \<Rightarrow> visit \<Rightarrow> nat \<Rightarrow> site_user \<Rightarrow> memorial list \<Rightarrow> memorial list step" where
  "allowed_shared C v n u [] = pass []"
| "allowed_shared C v n u (m # ms) =
     (if me_owner_id m = us_id u then then_do (allowed_shared C v n u ms) (\<lambda>rest. pass (m # rest))
      else then_do (sharing_allowed C v n (Some u) (me_id m) (lit ''family'')) (\<lambda>ok.
        then_do (allowed_shared C v (Suc n) u ms) (\<lambda>rest. pass (if ok then m # rest else rest))))"

definition shared_with :: "site_user \<Rightarrow> site_db \<Rightarrow> memorial list" where
  "shared_with u db = filter (\<lambda>m. list_ex (\<lambda>b. mb_memorial_id b = me_id m \<and> mb_email b = us_email u) (members db) \<and>
     me_visibility m \<in> {lit ''public'', lit ''family''} \<and> \<not> me_archived m) (memorials db)"

definition open_invitations :: "site_user \<Rightarrow> site_db \<Rightarrow> succession_request list" where
  "open_invitations u db = newest su_created_at (filter (\<lambda>r. su_nominee_id r = us_id u \<and> su_status r \<in> set active_statuses \<and>
     list_ex (\<lambda>m. me_id m = su_memorial_id r \<and> me_owner_id m = su_from_owner_id r) (memorials db)) (successions db))"

definition dashboard :: "site_config \<Rightarrow> visit \<Rightarrow> site_user option \<Rightarrow> reply step" where
  "dashboard C v user = then_do (login_required user) (\<lambda>u.
     then_do (look (\<lambda>db. map (\<lambda>m. (m, sharing_label db m)) (newest me_created (filter (\<lambda>m. me_owner_id m = us_id u) (memorials db))))) (\<lambda>own.
     then_do (look (shared_with u)) (\<lambda>candidates. then_do (allowed_shared C v 0 u candidates) (\<lambda>shared.
     then_do (look (open_invitations u)) (\<lambda>invitations. pass (Shown 200 (Dashboard_Page own shared invitations)))))))"

section \<open>Reading a memorial\<close>

definition shown_media :: "site_db \<Rightarrow> pstr \<Rightarrow> pstr \<Rightarrow> media list" where
  "shown_media db mid role = filter (\<lambda>x. visible (mf_archived x) (mf_visibility x) role)
     (sort_key mf_created (filter (\<lambda>x. mf_memorial_id x = mid \<and> \<not> mf_archived x) (media_files db)))"

definition shown_events :: "site_db \<Rightarrow> pstr \<Rightarrow> pstr \<Rightarrow> story list" where
  "shown_events db mid role = filter (\<lambda>x. visible (sy_archived x) (sy_visibility x) role)
     (sort_key (\<lambda>x. (sy_year x, sy_id x)) (filter (\<lambda>x. sy_memorial_id x = mid \<and> \<not> sy_archived x) (timeline db)))"

definition shown_tributes :: "site_db \<Rightarrow> pstr \<Rightarrow> tribute list" where
  "shown_tributes db mid = newest tb_created (filter (\<lambda>x. tb_memorial_id x = mid \<and> tb_status x = lit ''approved'') (tributes db))"

definition memorial_page :: "site_config \<Rightarrow> visit \<Rightarrow> site_user option \<Rightarrow> pstr \<Rightarrow> reply step" where
  "memorial_page C v user mid = then_do (get_memorial_for C v user mid False) (\<lambda>(m, role).
     look (\<lambda>db. let media = shown_media db mid role in
       Shown 200 (Memorial_Page m role media (shown_events db mid role) (shown_tributes db mid)
         (find (\<lambda>x. Some (mf_id x) = me_portrait_id m) media))))"

text \<open>\<open>path.is_file()\<close> and the bytes \<open>send_file\<close> sends.\<close>

definition read_file :: "pstr \<Rightarrow> (bytes option) step" where
  "read_file name w = (w, Inr (map_of (wb_files w) name))"

definition media_file :: "site_config \<Rightarrow> visit \<Rightarrow> site_user option \<Rightarrow> pstr \<Rightarrow> reply step" where
  "media_file C v user fid = then_do (look (\<lambda>db. find (\<lambda>x. mf_id x = fid) (media_files db))) (\<lambda>found. case found of
     None \<Rightarrow> halt (Aborted 404 [])
   | Some row \<Rightarrow> then_do (get_memorial_for C v user (mf_memorial_id row) False) (\<lambda>(_, role).
       then_do (read_file (mf_filename row)) (\<lambda>content. case content of
         Some b \<Rightarrow> if visible (mf_archived row) (mf_visibility row) role then pass (Media_File b (mf_mime row)) else halt (Aborted 404 [])
       | None \<Rightarrow> halt (Aborted 404 []))))"

definition manage :: "site_config \<Rightarrow> visit \<Rightarrow> site_user option \<Rightarrow> pstr \<Rightarrow> reply step" where
  "manage C v user mid = then_do (owned_action C v user mid) (\<lambda>(_, m). look (\<lambda>db.
     Shown 200 (Manage_Page m (filter (\<lambda>x. mf_memorial_id x = mid) (media_files db)) (filter (\<lambda>x. sy_memorial_id x = mid) (timeline db))
       (filter (\<lambda>x. tb_memorial_id x = mid) (tributes db)) (filter (\<lambda>x. mb_memorial_id x = mid) (members db))
       (take 30 (rev (filter (\<lambda>x. au_memorial_id x = mid) (activities db))))
       (filter (\<lambda>x. ab_memorial_id x = mid) (reports db)) (sharing_label db m) (pending_erasure db mid) (get_control db mid))))"

text \<open>The owner's archive; a media file missing on disk is a server error.\<close>

definition archive_of :: "site_db \<Rightarrow> memorial \<Rightarrow> pstr \<Rightarrow> (pstr \<times> bytes) list \<Rightarrow> archive" where
  "archive_of db m at files =
     (let mid = me_id m; control = get_control db mid; history = chain_of db mid;
          nominations = sort_key su_created_at (filter (\<lambda>r. su_memorial_id r = mid) (successions db));
          requests = sort_key eq_created_at (filter (\<lambda>r. eq_memorial_id r = mid) (erasure_requests db))
      in \<lparr> ax_exported_at = at, ax_memorial = m, ax_media = filter (\<lambda>x. mf_memorial_id x = mid) (media_files db),
        ax_events = filter (\<lambda>x. sy_memorial_id x = mid) (timeline db),
        ax_tributes = map (\<lambda>t. t\<lparr>tb_withdrawal_hash := []\<rparr>) (filter (\<lambda>x. tb_memorial_id x = mid) (tributes db)),
        ax_members = filter (\<lambda>x. mb_memorial_id x = mid) (members db), ax_audit = filter (\<lambda>x. au_memorial_id x = mid) (activities db),
        ax_consent = map_option (\<lambda>c. (c, sort_key sg_created_at (filter (\<lambda>g. sg_memorial_id g = mid) (sharing_grants db)), history)) control,
        ax_succession = nominations, ax_erasure_requests = requests,
        ax_consent_history = (if control = None \<and> (nominations \<noteq> [] \<or> requests \<noteq> []) then Some history else None),
        ax_files = files \<rparr>)"

definition media_contents :: "(pstr \<times> bytes) list \<Rightarrow> media list \<Rightarrow> (pstr \<times> bytes) list option" where
  "media_contents files rows = those (map (\<lambda>x. map_option (Pair (mf_filename x)) (map_of files (mf_filename x))) rows)"

definition export_archive :: "site_config \<Rightarrow> visit \<Rightarrow> site_user option \<Rightarrow> pstr \<Rightarrow> reply step" where
  "export_archive C v user mid = then_do (owned_action C v user mid) (\<lambda>(_, m). then_do (rate_limit C v ''export'' 10) (\<lambda>_ w.
     case media_contents (wb_files w) (filter (\<lambda>x. mf_memorial_id x = mid) (media_files (wb_db w))) of
       None \<Rightarrow> (w, Inl (Crashed OSError))
     | Some files \<Rightarrow> (w, Inr (Archive_File (archive_of (wb_db w) m (now_text v 1) files)))))"

section \<open>Contributions of visitors\<close>

definition insert_tribute :: "tribute \<Rightarrow> site_db \<Rightarrow> site_error + site_db" where
  "insert_tribute t db =
     (if tb_id t \<in> tb_id ` set (tributes db) then Inl (SqliteIntegrityError ''tributes.id'')
      else if get_memorial db (tb_memorial_id t) = None then Inl (SqliteIntegrityError ''FOREIGN KEY'')
      else Inr (db\<lparr>tributes := tributes db @ [t]\<rparr>))"

definition submit_tribute :: "site_config \<Rightarrow> visit \<Rightarrow> site_user option \<Rightarrow> pstr \<Rightarrow> reply step" where
  "submit_tribute C v user mid = then_do (get_memorial_for C v user mid False) (\<lambda>(m, _).
     then_do (check (\<not> me_demo m \<and> \<not> me_archived m) 400 ''Contributions are disabled on this memorial.'') (\<lambda>_.
     then_do (rate_limit C v ''tribute'' 15) (\<lambda>_.
     then_do (check (said_yes v ''consent'') 400 ''Please consent to displaying this tribute after review.'') (\<lambda>_.
     then_do (field v ''name'' 100 True) (\<lambda>name. then_do (field v ''body'' 5000 True) (\<lambda>body.
     then_do (meanwhile v) (\<lambda>_ w.
       then_do (committing (\<lambda>db. sql (bindE (insert_tribute \<lparr> tb_id = vs_ident v 0, tb_memorial_id = mid, tb_name = name, tb_body = body,
           tb_status = lit ''pending'', tb_withdrawal_hash = cf_sha C (vs_token v 1), tb_created = now_text v 1 \<rparr> db)
         (site_audit v 2 (wb_session w) mid (lit ''tribute-submitted'') (Some (vs_ident v 0))))))
       (\<lambda>_. pass (Shown 200 (Receipt_Page (vs_token v 1) (vs_ident v 0) m))) w)))))))"

definition withdraw_tribute :: "site_config \<Rightarrow> visit \<Rightarrow> reply step" where
  "withdraw_tribute C v =
     (if \<not> vs_post v then pass (Shown 200 (Form_Page ''withdraw''))
      else then_do (rate_limit C v ''withdraw'' 30) (\<lambda>_. then_do (field v ''token'' 100 True) (\<lambda>token.
        then_do (look (\<lambda>db. find (\<lambda>t. tb_withdrawal_hash t = cf_sha C token) (tributes db))) (\<lambda>row. case row of
          None \<Rightarrow> halt (Aborted 400 (lit ''That withdrawal code was not found.''))
        | Some t \<Rightarrow> then_do (meanwhile v) (\<lambda>_ w.
            then_do (committing (\<lambda>db. sql (site_audit v 1 (wb_session w) (tb_memorial_id t) (lit ''tribute-erased'') (Some (tb_id t))
              (db\<lparr>tributes := filter (\<lambda>x. tb_id x \<noteq> tb_id t) (tributes db)\<rparr>))))
            (\<lambda>_. pass (Redirect ''home'' [])) w)))))"

definition give_visitor :: "visit \<Rightarrow> pstr step" where
  "give_visitor v w = (case sn_visitor (wb_session w) of
     Some t \<Rightarrow> (w, Inr t)
   | None \<Rightarrow> (w\<lparr>wb_session := (wb_session w)\<lparr>sn_visitor := Some (vs_token v 1)\<rparr>\<rparr>, Inr (vs_token v 1)))"

text \<open>\<open>DELETE \<dots> WHERE day < date('now','-30 days')\<close>, then \<open>INSERT OR IGNORE\<close>.\<close>

definition light_candle :: "pstr \<Rightarrow> candle \<Rightarrow> site_db \<Rightarrow> site_error + site_db" where
  "light_candle oldest c db =
     (let rows = filter (\<lambda>r. \<not> cn_day r < oldest) (candles db) in
      if c \<in> set rows then Inr (db\<lparr>candles := rows\<rparr>)
      else if get_memorial db (cn_memorial_id c) = None then Inl (SqliteIntegrityError ''FOREIGN KEY'')
      else Inr (db\<lparr>candles := rows @ [c]\<rparr>))"

definition candle_route :: "site_config \<Rightarrow> visit \<Rightarrow> site_user option \<Rightarrow> pstr \<Rightarrow> reply step" where
  "candle_route C v user mid = then_do (get_memorial_for C v user mid False) (\<lambda>(m, _).
     then_do (check (\<not> me_demo m \<and> \<not> me_archived m) 400 ''Candles are disabled on this example.'') (\<lambda>_.
     then_do (rate_limit C v ''candle'' 60) (\<lambda>_. then_do (give_visitor v) (\<lambda>visitor. then_do (meanwhile v) (\<lambda>_.
     then_do (committing (\<lambda>db. sql (light_candle (date_str (date_of (vs_clock v 1) - 30)) \<lparr> cn_memorial_id = mid,
         cn_visitor_hash = cf_hmac C (cf_secret C) (visitor @ lit '':'' @ mid @ lit '':'' @ date_str (vs_today v)),
         cn_day = date_str (vs_today v) \<rparr> db)))
     (\<lambda>_. pass (Redirect ''memorial'' [mid])))))))"

definition report_categories :: "pstr list" where
  "report_categories = map lit [''privacy'', ''copyright'', ''authority'', ''other'']"

definition insert_report :: "abuse_report \<Rightarrow> site_db \<Rightarrow> site_error + site_db" where
  "insert_report r db =
     (if ab_id r \<in> ab_id ` set (reports db) then Inl (SqliteIntegrityError ''reports.id'')
      else if get_memorial db (ab_memorial_id r) = None then Inl (SqliteIntegrityError ''FOREIGN KEY'')
      else Inr (db\<lparr>reports := reports db @ [r]\<rparr>))"

definition file_report :: "site_config \<Rightarrow> visit \<Rightarrow> pstr \<Rightarrow> reply step" where
  "file_report C v mid = then_do (look (\<lambda>db. get_memorial db mid)) (\<lambda>found.
     if found = None then halt (Aborted 404 [])
     else if \<not> vs_post v then pass (Shown 200 (Form_Page ''report''))
     else then_do (rate_limit C v ''report'' 10) (\<lambda>_. then_do (field v ''category'' 200 False) (\<lambda>category.
       if category \<notin> set report_categories then halt (Aborted 400 [])
       else then_do (email_field C v) (\<lambda>email. then_do (field v ''detail'' 5000 True) (\<lambda>detail. then_do (meanwhile v) (\<lambda>_.
         then_do (committing (\<lambda>db. sql (insert_report \<lparr> ab_id = vs_ident v 0, ab_memorial_id = mid, ab_email = email,
           ab_category = category, ab_detail = detail, ab_created = now_text v 1, ab_status = lit ''open'' \<rparr> db)))
         (\<lambda>_. pass (Redirect ''policy'' []))))))))"

end
