(* ===== verification/Paths.thy ===== *)
theory Paths imports Vocabulary begin

text \<open>
  The parts of a POSIX path that \<open>pathlib\<close> gives the programs: the last component, its extension and the rest of it.
\<close>

text \<open>\<open>Path(s).name\<close>, its \<open>suffix\<close> and its \<open>stem\<close>.\<close>

definition path_name :: "pstr \<Rightarrow> pstr" where
  "path_name s = (let parts = filter (\<lambda>c. c \<noteq> [] \<and> c \<noteq> lit ''.'') (split_on 47 s) in if parts = [] then [] else last parts)"

definition path_suffix :: "pstr \<Rightarrow> pstr" where
  "path_suffix s = (let name = path_name s; tail = takeWhile (\<lambda>c. c \<noteq> 46) (rev name) in
     if 46 \<in> set name \<and> tail \<noteq> [] \<and> length tail + 1 < length name then 46 # rev tail else [])"

definition path_stem :: "pstr \<Rightarrow> pstr" where
  "path_stem s = (let name = path_name s in take (length name - length (path_suffix s)) name)"

end
