(* ===== verification/Site_Owner.thy ===== *)
theory Site_Owner imports Site_Pages Paths begin

text \<open>
  The routes of \<open>remembrance/app.py\<close> that change a memorial: creating and editing it, its media, timeline,
  tributes, members, settings and reports, and the pages of sharing, care and erasure, which call the
  operations of those modules. Every direct edit commits through \<open>commit_owned\<close>.
\<close>

section \<open>Profiles\<close>

record profile_fields =
  pp_name :: pstr
  pp_born :: pstr
  pp_died :: pstr
  pp_tagline :: pstr
  pp_biography :: pstr
  pp_location :: pstr
  pp_visibility :: pstr

definition memorial_fields :: "site_config \<Rightarrow> visit \<Rightarrow> profile_fields step" where
  "memorial_fields C v = then_do (field v ''name'' 120 True) (\<lambda>name. then_do (field v ''born'' 10 False) (\<lambda>born.
     then_do (field v ''died'' 10 False) (\<lambda>died. then_do (field v ''tagline'' 240 False) (\<lambda>tagline.
     then_do (field v ''biography'' 30000 False) (\<lambda>biography. then_do (field v ''location'' 200 False) (\<lambda>location.
     then_do (check (born = [] \<or> cf_fromiso C born \<noteq> None) 400 ''Dates must use YYYY-MM-DD.'') (\<lambda>_.
     then_do (check (died = [] \<or> cf_fromiso C died \<noteq> None) 400 ''Dates must use YYYY-MM-DD.'') (\<lambda>_.
     then_do (check (born = [] \<or> died = [] \<or> \<not> died < born) 400 ''The birth date must be before the death date.'') (\<lambda>_.
     then_do (visibility v) (\<lambda>vis. pass \<lparr> pp_name = name, pp_born = born, pp_died = died, pp_tagline = tagline,
       pp_biography = biography, pp_location = location, pp_visibility = vis \<rparr>))))))))))"

definition insert_memorial :: "memorial \<Rightarrow> site_db \<Rightarrow> site_error + site_db" where
  "insert_memorial m db =
     (if me_id m \<in> me_id ` set (memorials db) then Inl (SqliteIntegrityError ''memorials.id'')
      else if me_owner_id m \<notin> us_id ` set (users db) then Inl (SqliteIntegrityError ''FOREIGN KEY'')
      else if me_visibility m \<notin> set visibilities then Inl (SqliteIntegrityError ''memorials check'')
      else Inr (db\<lparr>memorials := memorials db @ [m]\<rparr>))"

definition new_memorial :: "site_config \<Rightarrow> visit \<Rightarrow> site_user option \<Rightarrow> reply step" where
  "new_memorial C v user = then_do (login_required user) (\<lambda>u.
     if \<not> vs_post v then pass (Shown 200 (Edit_Page None))
     else then_do (rate_limit C v ''create-memorial'' 20) (\<lambda>_. then_do (memorial_fields C v) (\<lambda>p.
       then_do (field v ''authority'' 80 True) (\<lambda>authority. then_do (field v ''authority_name'' 120 True) (\<lambda>authority_name.
       then_do (check (said_yes v ''consent'' \<and> authority \<in> lit ` {''executor'', ''family-authorized'', ''self''}) 400
         ''Please confirm your authority and consent to create this memorial.'') (\<lambda>_. then_do (meanwhile v) (\<lambda>_ w.
       then_do (committing (\<lambda>db. sql (bindE (insert_memorial \<lparr> me_id = vs_ident v 0, me_owner_id = us_id u, me_name = pp_name p,
           me_born = pp_born p, me_died = pp_died p, me_tagline = pp_tagline p, me_biography = pp_biography p,
           me_location = pp_location p, me_visibility = pp_visibility p, me_portrait_id = None, me_authority = authority,
           me_authority_name = authority_name, me_consent_at = now_text v 1, me_successor = [], me_created = now_text v 2,
           me_updated = now_text v 3, me_archived = False, me_demo = False \<rparr> db)
         (site_audit v 4 (wb_session w) (vs_ident v 0) (lit ''created; consent-v1'') None))))
       (\<lambda>_. pass (Redirect ''manage'' [vs_ident v 0])) w)))))))"

definition put_profile :: "pstr \<Rightarrow> profile_fields \<Rightarrow> memorial \<Rightarrow> memorial" where
  "put_profile updated p m = m\<lparr>me_name := pp_name p, me_born := pp_born p, me_died := pp_died p, me_tagline := pp_tagline p,
     me_biography := pp_biography p, me_location := pp_location p, me_visibility := pp_visibility p, me_updated := updated\<rparr>"

text \<open>The edits that follow have this shape: statements, an audit row, \<open>commit_owned\<close>, a redirect.\<close>

definition owner_edit :: "visit \<Rightarrow> nat \<Rightarrow> site_user \<Rightarrow> pstr \<Rightarrow> pstr \<Rightarrow> pstr option \<Rightarrow> (site_db \<Rightarrow> reply + site_db) \<Rightarrow> reply \<Rightarrow> reply step" where
  "owner_edit v n u mid action target statements answer = then_do (meanwhile v) (\<lambda>_ w.
     then_do (committing_owned u mid (\<lambda>db. bindE (statements db) (\<lambda>db'. sql (site_audit v n (wb_session w) mid action target db'))))
     (\<lambda>_. pass answer) w)"

definition edit_memorial :: "site_config \<Rightarrow> visit \<Rightarrow> site_user option \<Rightarrow> pstr \<Rightarrow> reply step" where
  "edit_memorial C v user mid = then_do (owned_action C v user mid) (\<lambda>(u, m).
     if \<not> vs_post v then pass (Shown 200 (Edit_Page (Some m)))
     else then_do (memorial_fields C v) (\<lambda>p.
       owner_edit v 2 u mid (lit ''profile-updated'') None
         (\<lambda>db. Inr (db\<lparr>memorials := update_rows (\<lambda>m. me_id m = mid) (put_profile (now_text v 1) p) (memorials db)\<rparr>))
         (Redirect ''manage'' [mid])))"

section \<open>Media\<close>

definition part :: "nat \<Rightarrow> nat \<Rightarrow> bytes \<Rightarrow> bytes" where
  "part i n content = take n (drop i content)"

definition ascii_bytes :: "string \<Rightarrow> bytes" where
  "ascii_bytes s = map of_char s"

text \<open>The table of other formats: the MIME type and whether the content looks like it.\<close>

definition sound_or_video :: "bytes \<Rightarrow> (string \<times> string \<times> bool) list" where
  "sound_or_video content =
     [(''.mp4'', ''video/mp4'', part 4 4 content = ascii_bytes ''ftyp''),
      (''.webm'', ''video/webm'', part 0 4 content = [26, 69, 223, 163]),
      (''.mp3'', ''audio/mpeg'', part 0 3 content = ascii_bytes ''ID3'' \<or>
         (1 < length content \<and> content ! 0 = 255 \<and> content ! 1 mod 256 div 32 = 7)),
      (''.wav'', ''audio/wav'', part 0 4 content = ascii_bytes ''RIFF'' \<and> part 8 4 content = ascii_bytes ''WAVE''),
      (''.m4a'', ''audio/mp4'', part 4 4 content = ascii_bytes ''ftyp'')]"

text \<open>The extension, type and bytes to store, or the refusal.\<close>

definition accept_media :: "site_config \<Rightarrow> pstr \<Rightarrow> bytes \<Rightarrow> reply + (pstr \<times> pstr \<times> bytes)" where
  "accept_media C filename content =
     (let ext = cf_lower C (path_suffix filename) in
      if ext \<in> lit ` {''.jpg'', ''.jpeg'', ''.png'', ''.webp''}
      then (case cf_clean_image C content of
          None \<Rightarrow> Inl (Aborted 400 (lit ''The image could not be read safely.''))
        | Some clean \<Rightarrow> Inr (lit ''.jpg'', lit ''image/jpeg'', clean))
      else (case find (\<lambda>(e, _, _). lit e = ext) (sound_or_video content) of
          Some (_, mime, True) \<Rightarrow> Inr (ext, lit mime, content)
        | _ \<Rightarrow> Inl (Aborted 400 (lit ''Supported files: JPEG, PNG, WebP, MP4, WebM, MP3, WAV, and M4A. Maximum 32 MB per request.''))))"

definition insert_media :: "media \<Rightarrow> site_db \<Rightarrow> site_error + site_db" where
  "insert_media r db =
     (if mf_id r \<in> mf_id ` set (media_files db) then Inl (SqliteIntegrityError ''media.id'')
      else if get_memorial db (mf_memorial_id r) = None then Inl (SqliteIntegrityError ''FOREIGN KEY'')
      else if mf_visibility r \<notin> set visibilities then Inl (SqliteIntegrityError ''media check'')
      else Inr (db\<lparr>media_files := media_files db @ [r]\<rparr>))"

definition set_portrait :: "pstr \<Rightarrow> pstr \<Rightarrow> site_db \<Rightarrow> site_db" where
  "set_portrait mid fid db = db\<lparr>memorials := update_rows (\<lambda>m. me_id m = mid) (\<lambda>m. m\<lparr>me_portrait_id := Some fid\<rparr>) (memorials db)\<rparr>"

definition is_image :: "pstr \<Rightarrow> bool" where
  "is_image mime \<longleftrightarrow> starts_with (lit ''image/'') mime"

text \<open>The file is written first and removed again when the transaction is given up.\<close>

definition store_media :: "visit \<Rightarrow> site_user \<Rightarrow> media \<Rightarrow> bytes \<Rightarrow> reply step" where
  "store_media v u row content w =
     (let filename = mf_filename row;
          (w', r) = owner_edit v 2 u (mf_memorial_id row) (lit ''media-uploaded'') (Some (mf_id row))
            (\<lambda>db. bindE (sql (insert_media row db)) (\<lambda>db'.
              Inr (if form_get v ''portrait'' = lit ''yes'' \<and> is_image (mf_mime row) then set_portrait (mf_memorial_id row) (mf_id row) db' else db')))
            (Redirect ''manage'' [mf_memorial_id row]) (w\<lparr>wb_files := AList.update filename content (wb_files w)\<rparr>)
      in case r of Inl e \<Rightarrow> (w'\<lparr>wb_files := AList.delete filename (wb_files w')\<rparr>, Inl e) | Inr x \<Rightarrow> (w', Inr x))"

definition stored_bytes :: "(pstr \<times> bytes) list \<Rightarrow> nat" where
  "stored_bytes files = sum_list (map (length \<circ> snd) files)"

definition room_for :: "site_config \<Rightarrow> bytes \<Rightarrow> unit step" where
  "room_for C content w = (if cf_max_media_bytes C < stored_bytes (wb_files w) + length content
     then (w, Inl (Aborted 413 (lit ''This server'' @ [8217] @ lit ''s media storage limit has been reached. Contact its operator.'')))
     else (w, Inr ()))"

definition upload :: "site_config \<Rightarrow> visit \<Rightarrow> site_user option \<Rightarrow> pstr \<Rightarrow> reply step" where
  "upload C v user mid = then_do (owned_action C v user mid) (\<lambda>(u, _). then_do (rate_limit C v ''upload'' 100) (\<lambda>_.
     case vs_file v of
       None \<Rightarrow> halt (Aborted 400 (lit ''Choose a photo, video, or audio file.''))
     | Some (filename, content) \<Rightarrow>
         then_do (check (filename \<noteq> []) 400 ''Choose a photo, video, or audio file.'') (\<lambda>_.
         then_do (check (said_yes v ''rights'') 400 ''Please confirm permission to share this media.'') (\<lambda>_.
         then_do (field v ''caption'' 500 True) (\<lambda>caption. then_do (visibility v) (\<lambda>chosen.
         then_do (check (content \<noteq> []) 400 ''This file is empty.'') (\<lambda>_.
         then_do (room_for C content) (\<lambda>_.
         case accept_media C filename content of
           Inl r \<Rightarrow> halt r
         | Inr (ext, mime, kept) \<Rightarrow>
             store_media v u \<lparr> mf_id = vs_ident v 0, mf_memorial_id = mid, mf_filename = vs_ident v 0 @ ext,
               mf_original_name = take 200 (path_name filename), mf_mime = mime, mf_caption = caption,
               mf_visibility = (if said_yes v ''children'' \<and> chosen = lit ''public'' then lit ''family'' else chosen),
               mf_created = now_text v 1, mf_archived = False \<rparr> kept))))))))"

definition update_media_rows :: "pstr \<Rightarrow> (media \<Rightarrow> media) \<Rightarrow> site_db \<Rightarrow> site_db" where
  "update_media_rows fid f db = db\<lparr>media_files := update_rows (\<lambda>x. mf_id x = fid) f (media_files db)\<rparr>"

definition update_media :: "site_config \<Rightarrow> visit \<Rightarrow> site_user option \<Rightarrow> pstr \<Rightarrow> pstr \<Rightarrow> reply step" where
  "update_media C v user mid fid = then_do (owned_action C v user mid) (\<lambda>(u, _).
     then_do (look (\<lambda>db. find (\<lambda>x. mf_id x = fid \<and> mf_memorial_id x = mid) (media_files db))) (\<lambda>found. case found of
       None \<Rightarrow> halt (Aborted 404 [])
     | Some row \<Rightarrow> then_do (field v ''action'' 200 False) (\<lambda>action.
         let finish = (\<lambda>f. owner_edit v 1 u mid (lit ''media-'' @ action) (Some fid) (\<lambda>db. Inr (f db)) (Redirect ''manage'' [mid])) in
         if action \<in> {lit ''archive'', lit ''restore''}
         then finish (update_media_rows fid (\<lambda>x. x\<lparr>mf_archived := (action = lit ''archive'')\<rparr>))
         else if action = lit ''visibility''
         then then_do (visibility v) (\<lambda>vis. finish (update_media_rows fid (\<lambda>x. x\<lparr>mf_visibility := vis\<rparr>)))
         else if action = lit ''portrait'' \<and> is_image (mf_mime row) \<and> \<not> mf_archived row
         then finish (set_portrait mid fid)
         else halt (Aborted 400 []))))"

section \<open>Timeline\<close>

definition insert_story :: "story \<Rightarrow> site_db \<Rightarrow> site_error + site_db" where
  "insert_story s db =
     (if sy_id s \<in> sy_id ` set (timeline db) then Inl (SqliteIntegrityError ''events.id'')
      else if get_memorial db (sy_memorial_id s) = None then Inl (SqliteIntegrityError ''FOREIGN KEY'')
      else if sy_visibility s \<notin> set visibilities then Inl (SqliteIntegrityError ''events check'')
      else Inr (db\<lparr>timeline := timeline db @ [s]\<rparr>))"

fun insert_stories :: "story list \<Rightarrow> site_db \<Rightarrow> site_error + site_db" where
  "insert_stories [] db = Inr db"
| "insert_stories (s # ss) db = bindE (insert_story s db) (insert_stories ss)"

definition add_event :: "site_config \<Rightarrow> visit \<Rightarrow> site_user option \<Rightarrow> pstr \<Rightarrow> reply step" where
  "add_event C v user mid = then_do (owned_action C v user mid) (\<lambda>(u, _). then_do (field v ''year'' 4 True) (\<lambda>written.
     case py_int (cf_digit C) written of
       None \<Rightarrow> halt (Aborted 400 (lit ''Enter a year from 1 to 9999.''))
     | Some year \<Rightarrow>
         then_do (check (1 \<le> year \<and> year \<le> 9999) 400 ''Enter a year from 1 to 9999.'') (\<lambda>_.
         then_do (field v ''title'' 200 True) (\<lambda>title. then_do (field v ''story'' 5000 False) (\<lambda>text. then_do (visibility v) (\<lambda>vis.
           owner_edit v 1 u mid (lit ''event-added'') (Some (vs_ident v 0))
             (\<lambda>db. sql (insert_story \<lparr> sy_id = vs_ident v 0, sy_memorial_id = mid, sy_year = year, sy_title = title, sy_story = text,
               sy_visibility = vis, sy_archived = False \<rparr> db))
             (Redirect ''manage'' [mid])))))))"

definition update_stories :: "pstr \<Rightarrow> (story \<Rightarrow> story) \<Rightarrow> site_db \<Rightarrow> site_db" where
  "update_stories eid f db = db\<lparr>timeline := update_rows (\<lambda>x. sy_id x = eid) f (timeline db)\<rparr>"

definition archive_event :: "site_config \<Rightarrow> visit \<Rightarrow> site_user option \<Rightarrow> pstr \<Rightarrow> pstr \<Rightarrow> reply step" where
  "archive_event C v user mid eid = then_do (owned_action C v user mid) (\<lambda>(u, _).
     then_do (look (\<lambda>db. list_ex (\<lambda>x. sy_id x = eid \<and> sy_memorial_id x = mid) (timeline db))) (\<lambda>there.
     if \<not> there then halt (Aborted 404 [])
     else then_do (field v ''action'' 200 False) (\<lambda>action.
       if action \<notin> {lit ''archive'', lit ''restore''} then halt (Aborted 400 [])
       else owner_edit v 1 u mid (lit ''event-'' @ action) (Some eid)
         (\<lambda>db. Inr (update_stories eid (\<lambda>x. x\<lparr>sy_archived := (action = lit ''archive'')\<rparr>) db)) (Redirect ''manage'' [mid]))))"

text \<open>\<open>UPDATE \<dots> WHERE id=? AND memorial_id=?\<close>, refused when it changes no row.\<close>

definition event_visibility :: "site_config \<Rightarrow> visit \<Rightarrow> site_user option \<Rightarrow> pstr \<Rightarrow> pstr \<Rightarrow> reply step" where
  "event_visibility C v user mid eid = then_do (owned_action C v user mid) (\<lambda>(u, _). then_do (visibility v) (\<lambda>vis.
     owner_edit v 1 u mid (lit ''event-visibility'') (Some eid)
       (\<lambda>db. if list_ex (\<lambda>x. sy_id x = eid \<and> sy_memorial_id x = mid) (timeline db)
         then Inr (db\<lparr>timeline := update_rows (\<lambda>x. sy_id x = eid \<and> sy_memorial_id x = mid) (\<lambda>x. x\<lparr>sy_visibility := vis\<rparr>) (timeline db)\<rparr>)
         else Inl (Aborted 404 []))
       (Redirect ''manage'' [mid])))"

text \<open>One imported memory: an object with a title, a year and perhaps a story.\<close>

definition imported_story :: "visit \<Rightarrow> pstr \<Rightarrow> nat \<Rightarrow> json \<Rightarrow> story option" where
  "imported_story v mid n doc = (case doc of
     JObj kvs \<Rightarrow> (case (map_of kvs (lit ''title''), case map_of kvs (lit ''story'') of None \<Rightarrow> JStr [] | Some s \<Rightarrow> s, map_of kvs (lit ''year'')) of
         (Some (JStr title), JStr text, Some (JInt year)) \<Rightarrow>
           (let trimmed = strip_by py_isspace title in
            if 1 \<le> length trimmed \<and> length trimmed \<le> 200 \<and> length text \<le> 5000 \<and> 1 \<le> year \<and> year \<le> 9999
            then Some \<lparr> sy_id = vs_ident v n, sy_memorial_id = mid, sy_year = year, sy_title = trimmed, sy_story = text,
              sy_visibility = lit ''private'', sy_archived = False \<rparr>
            else None)
       | _ \<Rightarrow> None)
   | _ \<Rightarrow> None)"

fun imported_stories :: "visit \<Rightarrow> pstr \<Rightarrow> nat \<Rightarrow> json list \<Rightarrow> story list option" where
  "imported_stories v mid n [] = Some []"
| "imported_stories v mid n (d # ds) = (case imported_story v mid n d of
     None \<Rightarrow> None | Some s \<Rightarrow> map_option ((#) s) (imported_stories v mid (Suc n) ds))"

definition read_import :: "site_config \<Rightarrow> visit \<Rightarrow> pstr \<Rightarrow> bytes \<Rightarrow> story list option" where
  "read_import C v mid content = (case cf_loads C content of
     Some (JObj kvs) \<Rightarrow>
       if map_of kvs (lit ''format'') = Some (JStr (lit ''remembrance-import'')) \<and> map_of kvs (lit ''version'') \<in> {Some (JInt 1), Some (JBool True)}
       then (case map_of kvs (lit ''memories'') of
           Some (JList docs) \<Rightarrow> if 1 \<le> length docs \<and> length docs \<le> 100 then imported_stories v mid 0 docs else None
         | _ \<Rightarrow> None)
       else None
   | _ \<Rightarrow> None)"

definition import_memories :: "site_config \<Rightarrow> visit \<Rightarrow> site_user option \<Rightarrow> pstr \<Rightarrow> reply step" where
  "import_memories C v user mid = then_do (owned_action C v user mid) (\<lambda>(u, _).
     if \<not> vs_post v then pass (Shown 200 (Form_Page ''import''))
     else (case vs_file v of
         None \<Rightarrow> halt (Aborted 400 (lit ''Choose a Remembrance JSON file.''))
       | Some (_, content) \<Rightarrow> (case read_import C v mid content of
             None \<Rightarrow> halt (Aborted 400 (lit ''Invalid import. Use the documented format with 1'' @ [8211] @
               lit ''100 memories, a year, title, and optional story.''))
           | Some stories \<Rightarrow>
               then_do (check (said_yes v ''consent'') 400 ''Confirm that you are authorized to import these memories.'') (\<lambda>_.
               owner_edit v 1 u mid (lit ''private-memories-imported'') None (\<lambda>db. sql (insert_stories stories db))
                 (Redirect ''manage'' [mid])))))"

section \<open>Tributes, members, settings, reports\<close>

definition moderate :: "site_config \<Rightarrow> visit \<Rightarrow> site_user option \<Rightarrow> pstr \<Rightarrow> pstr \<Rightarrow> reply step" where
  "moderate C v user mid tid = then_do (owned_action C v user mid) (\<lambda>(u, _). then_do (field v ''status'' 200 False) (\<lambda>status.
     if status \<notin> {lit ''approved'', lit ''archived''} then halt (Aborted 400 [])
     else owner_edit v 1 u mid (lit ''tribute-'' @ status) (Some tid)
       (\<lambda>db. if list_ex (\<lambda>t. tb_id t = tid \<and> tb_memorial_id t = mid) (tributes db)
         then Inr (db\<lparr>tributes := update_rows (\<lambda>t. tb_id t = tid \<and> tb_memorial_id t = mid) (\<lambda>t. t\<lparr>tb_status := status\<rparr>) (tributes db)\<rparr>)
         else Inl (Aborted 404 []))
       (Redirect ''manage'' [mid])))"

definition insert_member :: "member \<Rightarrow> site_db \<Rightarrow> site_error + site_db" where
  "insert_member b db =
     (if b \<in> set (members db) then Inr db
      else if get_memorial db (mb_memorial_id b) = None then Inl (SqliteIntegrityError ''FOREIGN KEY'')
      else Inr (db\<lparr>members := members db @ [b]\<rparr>))"

definition member_route :: "site_config \<Rightarrow> visit \<Rightarrow> site_user option \<Rightarrow> pstr \<Rightarrow> reply step" where
  "member_route C v user mid = then_do (owned_action C v user mid) (\<lambda>(u, _). then_do (email_field C v) (\<lambda>email.
     then_do (field v ''action'' 200 False) (\<lambda>action.
       let finish = (\<lambda>f. owner_edit v 1 u mid (lit ''family-access-'' @ action) None f (Redirect ''manage'' [mid])) in
       if action = lit ''remove''
       then finish (\<lambda>db. Inr (db\<lparr>members := filter (\<lambda>b. \<not> (mb_memorial_id b = mid \<and> mb_email b = email)) (members db)\<rparr>))
       else if action = lit ''add''
       then then_do (field v ''account_code'' 16 True) (\<lambda>code.
         then_do (look (\<lambda>db. list_ex (\<lambda>x. us_email x = email \<and> us_id x = code) (users db))) (\<lambda>known.
         then_do (check known 400 ''The account email and code did not match. Ask your relative for the code shown on their My memorials page.'') (\<lambda>_.
           finish (\<lambda>db. sql (insert_member \<lparr> mb_memorial_id = mid, mb_email = email \<rparr> db)))))
       else halt (Aborted 400 []))))"

definition set_archived :: "pstr \<Rightarrow> bool \<Rightarrow> site_db \<Rightarrow> site_db" where
  "set_archived mid b db = db\<lparr>memorials := update_rows (\<lambda>m. me_id m = mid) (\<lambda>m. m\<lparr>me_archived := b\<rparr>) (memorials db)\<rparr>"

definition settings_route :: "site_config \<Rightarrow> visit \<Rightarrow> site_user option \<Rightarrow> pstr \<Rightarrow> reply step" where
  "settings_route C v user mid = then_do (owned_action C v user mid) (\<lambda>(u, _). then_do (field v ''action'' 200 False) (\<lambda>action.
     if action = lit ''successor'' then halt (Aborted 400 (lit ''Use the succession page to nominate a confirmed account.''))
     else if action \<in> {lit ''archive'', lit ''restore''}
     then owner_edit v 1 u mid (lit ''memorial-'' @ action) None
       (\<lambda>db. let db' = set_archived mid (action = lit ''archive'') db in
         if action = lit ''restore'' \<and> pending_erasure db' mid \<noteq> None
         then Inl (Aborted 400 (lit ''Withdraw the pending erasure request before restoring this memorial.'')) else Inr db')
       (Redirect ''manage'' [mid])
     else halt (Aborted 400 [])))"

definition resolve_report :: "site_config \<Rightarrow> visit \<Rightarrow> site_user option \<Rightarrow> pstr \<Rightarrow> pstr \<Rightarrow> reply step" where
  "resolve_report C v user mid rid = then_do (owned_action C v user mid) (\<lambda>(u, _).
     owner_edit v 1 u mid (lit ''report-reviewed'') (Some rid)
       (\<lambda>db. if list_ex (\<lambda>r. ab_id r = rid \<and> ab_memorial_id r = mid) (reports db)
         then Inr (db\<lparr>reports := update_rows (\<lambda>r. ab_id r = rid \<and> ab_memorial_id r = mid) (\<lambda>r. r\<lparr>ab_status := lit ''reviewed''\<rparr>) (reports db)\<rparr>)
         else Inl (Aborted 404 []))
       (Redirect ''manage'' [mid]))"

section \<open>Sharing, care and erasure\<close>

definition sharing_decision :: "control option \<Rightarrow> sharing_grant option \<Rightarrow> gate_decision" where
  "sharing_decision control grant = gate grant
     (case control of None \<Rightarrow> False | Some c \<Rightarrow> co_death_confirmed_at c \<notin> {None, Some []})
     (case grant of Some g \<Rightarrow> if sg_audience g = lit ''family'' then lit ''family'' else lit ''public'' | None \<Rightarrow> lit ''public'')
     (lit ''memorial_view'') (lit ''memorial'')"

definition consent_page :: "site_config \<Rightarrow> visit \<Rightarrow> site_user option \<Rightarrow> pstr \<Rightarrow> reply step" where
  "consent_page C v user mid = then_do (owned_action C v user mid) (\<lambda>(u, m).
     if vs_post v
     then then_do (rate_limit C v ''consent-grant'' 20) (\<lambda>_.
       then_do (check (said_yes v ''consent'') 400 ''Confirm the sharing permission before recording a grant.'') (\<lambda>_.
       then_do (field v ''signed_name'' 120 True) (\<lambda>name. then_do (field v ''audience'' 200 False) (\<lambda>audience.
       then_do (field v ''activation'' 200 False) (\<lambda>activation. then_do (meanwhile v) (\<lambda>_.
       then_do (operation (record_grant (cf_sha C) (vs_env v 0) mid (us_id u) name audience activation)) (\<lambda>_.
         pass (Redirect ''consent_page'' [mid]))))))))
     else look (\<lambda>db. let control = get_control db mid; grant = current_grant db mid in
       Shown 200 (Consent_Page m control grant (sharing_decision control grant)
         (newest sg_created_at (filter (\<lambda>g. sg_memorial_id g = mid) (sharing_grants db))) (take 30 (rev (chain_of db mid))))))"

definition revoke_consent :: "site_config \<Rightarrow> visit \<Rightarrow> site_user option \<Rightarrow> pstr \<Rightarrow> pstr \<Rightarrow> reply step" where
  "revoke_consent C v user mid gid = then_do (owned_action C v user mid) (\<lambda>(u, _). then_do (meanwhile v) (\<lambda>_.
     then_do (operation (revoke_sharing (cf_sha C) (vs_env v 0) mid gid (Some (us_id u)) None None)) (\<lambda>_.
     pass (Redirect ''consent_page'' [mid]))))"

definition succession_page :: "site_config \<Rightarrow> visit \<Rightarrow> site_user option \<Rightarrow> pstr \<Rightarrow> reply step" where
  "succession_page C v user mid = then_do (owned_action C v user mid) (\<lambda>(u, m).
     if vs_post v
     then then_do (rate_limit C v ''successor-nomination'' 15) (\<lambda>_.
       then_do (check (said_yes v ''consent'') 400 ''Confirm the nomination and the information shared with this account.'') (\<lambda>_.
       then_do (email_field C v) (\<lambda>email. then_do (field v ''account_code'' 16 True) (\<lambda>code. then_do (meanwhile v) (\<lambda>_.
       then_do (operation (nominate (cf_sha C) (cf_lower C) (vs_env v 0) mid (us_id u) email code)) (\<lambda>_.
         pass (Redirect ''succession_page'' [mid])))))))
     else look (\<lambda>db. let nominations = newest (su_created_at \<circ> fst) (concat (map (\<lambda>r. map (Pair r) (filter (\<lambda>x. us_id x = su_nominee_id r) (users db)))
           (filter (\<lambda>r. su_memorial_id r = mid) (successions db)))) in
       Shown 200 (Succession_Page m nominations (find (\<lambda>(r, _). su_status r \<in> set active_statuses) nominations))))"

definition cancel_succession :: "site_config \<Rightarrow> visit \<Rightarrow> site_user option \<Rightarrow> pstr \<Rightarrow> pstr \<Rightarrow> reply step" where
  "cancel_succession C v user mid rid = then_do (owned_action C v user mid) (\<lambda>(u, _). then_do (meanwhile v) (\<lambda>_.
     then_do (operation (cancel_nomination (cf_sha C) (vs_env v 0) mid rid (us_id u))) (\<lambda>_. pass (Redirect ''succession_page'' [mid]))))"

definition succession_invitation :: "site_config \<Rightarrow> visit \<Rightarrow> site_user option \<Rightarrow> pstr \<Rightarrow> reply step" where
  "succession_invitation C v user rid = then_do (login_required user) (\<lambda>u.
     then_do (look (\<lambda>db. find (\<lambda>r. su_id r = rid \<and> su_nominee_id r = us_id u) (successions db))) (\<lambda>found. case found of
       None \<Rightarrow> halt (Aborted 404 [])
     | Some invitation \<Rightarrow>
         if \<not> vs_post v then pass (Shown 200 (Invitation_Page invitation))
         else then_do (rate_limit C v ''successor-response'' 20) (\<lambda>_. then_do (field v ''action'' 200 False) (\<lambda>action.
           then_do (check (action \<noteq> lit ''accept'' \<or> said_yes v ''consent'') 400
             ''Confirm your willingness and the declaration before accepting.'') (\<lambda>_.
           then_do (field v ''signed_name'' 120 False) (\<lambda>name. then_do (field v ''authority'' 80 False) (\<lambda>authority.
           then_do (meanwhile v) (\<lambda>_.
           then_do (operation (respond (cf_sha C) (vs_env v 0) rid (us_id u) action name authority)) (\<lambda>_.
             pass (Redirect ''succession_invitation'' [rid]))))))))))"

definition erasure_page :: "site_config \<Rightarrow> visit \<Rightarrow> site_user option \<Rightarrow> pstr \<Rightarrow> reply step" where
  "erasure_page C v user mid = then_do (owned_action C v user mid) (\<lambda>(u, m).
     if vs_post v
     then then_do (rate_limit C v ''erasure-request'' 10) (\<lambda>_.
       then_do (check (said_yes v ''consent'') 400 ''Confirm the erasure declaration before recording a request.'') (\<lambda>_.
       then_do (field v ''signed_name'' 120 True) (\<lambda>name. then_do (meanwhile v) (\<lambda>_.
       then_do (operation (request_erasure (cf_sha C) (vs_env v 0) mid (us_id u) name)) (\<lambda>_.
         pass (Redirect ''erasure_page'' [mid]))))))
     else look (\<lambda>db. Shown 200 (Erasure_Page m (pending_erasure db mid)
       (newest eq_created_at (filter (\<lambda>r. eq_memorial_id r = mid) (erasure_requests db))))))"

definition withdraw_erasure :: "site_config \<Rightarrow> visit \<Rightarrow> site_user option \<Rightarrow> pstr \<Rightarrow> pstr \<Rightarrow> reply step" where
  "withdraw_erasure C v user mid rid = then_do (owned_action C v user mid) (\<lambda>(u, _). then_do (meanwhile v) (\<lambda>_.
     then_do (operation (withdraw (cf_sha C) (vs_env v 0) mid rid (us_id u))) (\<lambda>_. pass (Redirect ''erasure_page'' [mid]))))"

end
