(* ===== verification/Site.thy ===== *)
theory Site imports Site_Owner begin

text \<open>
  The memorial web site as a whole: the URL map of \<open>remembrance/app.py\<close>, the methods each rule accepts, and
  one request from \<open>before_request\<close> to the reply.
\<close>

datatype route =
    Static_Route | Home_Route | Register_Route | Login_Route | Logout_Route | Dashboard_Route | New_Route | Withdraw_Route
  | Policy_Route | Install_Route | Worker_Route | Health_Route
  | Memorial_Route pstr | Edit_Route pstr | Manage_Route pstr | Consent_Route pstr | Succession_Route pstr | Erasure_Route pstr
  | Upload_Route pstr | Events_Route pstr | Tributes_Route pstr | Candle_Route pstr | Members_Route pstr | Settings_Route pstr
  | Report_Route pstr | Code_Route pstr pstr | Plaque_Route pstr | Export_Route pstr | Import_Route pstr
  | Media_Route pstr | Invitation_Route pstr
  | Update_Media_Route pstr pstr | Event_Route pstr pstr | Tribute_Route pstr pstr | Resolve_Route pstr pstr
  | Revoke_Route pstr pstr | Cancel_Route pstr pstr | Withdraw_Erasure_Route pstr pstr | Event_Visibility_Route pstr pstr

section \<open>The URL map\<close>

definition top_routes :: "(string \<times> route) list" where
  "top_routes = [('''', Home_Route), (''register'', Register_Route), (''login'', Login_Route), (''logout'', Logout_Route),
     (''dashboard'', Dashboard_Route), (''withdraw'', Withdraw_Route), (''privacy'', Policy_Route), (''install'', Install_Route),
     (''sw.js'', Worker_Route), (''healthz'', Health_Route)]"

definition memorial_routes :: "pstr \<Rightarrow> (string \<times> route) list" where
  "memorial_routes mid = [(''edit'', Edit_Route mid), (''manage'', Manage_Route mid), (''consent'', Consent_Route mid),
     (''succession'', Succession_Route mid), (''erasure'', Erasure_Route mid), (''upload'', Upload_Route mid),
     (''events'', Events_Route mid), (''tributes'', Tributes_Route mid), (''candle'', Candle_Route mid),
     (''members'', Members_Route mid), (''settings'', Settings_Route mid), (''report'', Report_Route mid),
     (''plaque'', Plaque_Route mid), (''export'', Export_Route mid), (''import'', Import_Route mid)]"

definition part_routes :: "pstr \<Rightarrow> pstr \<Rightarrow> (string \<times> route) list" where
  "part_routes mid x = [(''media'', Update_Media_Route mid x), (''events'', Event_Route mid x), (''tributes'', Tribute_Route mid x),
     (''reports'', Resolve_Route mid x)]"

definition deed_routes :: "pstr \<Rightarrow> pstr \<Rightarrow> ((string \<times> string) \<times> route) list" where
  "deed_routes mid x = [((''consent'', ''revoke''), Revoke_Route mid x), ((''succession'', ''cancel''), Cancel_Route mid x),
     ((''erasure'', ''withdraw''), Withdraw_Erasure_Route mid x), ((''events'', ''visibility''), Event_Visibility_Route mid x)]"

definition named :: "pstr \<Rightarrow> (string \<times> route) list \<Rightarrow> route option" where
  "named s rules = map_option snd (find (\<lambda>(k, _). lit k = s) rules)"

definition code_format :: "pstr \<Rightarrow> pstr option" where
  "code_format s = (if starts_with (lit ''qr.'') s \<and> 3 < length s then Some (drop 3 s) else None)"

definition route_of :: "pstr \<Rightarrow> route option" where
  "route_of path = (if starts_with (lit ''/static/'') path then Some Static_Route else (case split_on 47 path of
     [[], a] \<Rightarrow> named a top_routes
   | [[], a, x] \<Rightarrow>
       if a = lit ''memorials'' \<and> x = lit ''new'' then Some New_Route
       else if x = [] then None
       else if a = lit ''m'' then Some (Memorial_Route x)
       else if a = lit ''media'' then Some (Media_Route x)
       else if a = lit ''succession'' then Some (Invitation_Route x)
       else None
   | [[], a, mid, b] \<Rightarrow>
       if a \<noteq> lit ''m'' \<or> mid = [] then None
       else (case named b (memorial_routes mid) of Some r \<Rightarrow> Some r | None \<Rightarrow> map_option (Code_Route mid) (code_format b))
   | [[], a, mid, b, x] \<Rightarrow> if a \<noteq> lit ''m'' \<or> mid = [] \<or> x = [] then None else named b (part_routes mid x)
   | [[], a, mid, b, x, c] \<Rightarrow>
       if a \<noteq> lit ''m'' \<or> mid = [] \<or> x = [] then None
       else map_option snd (find (\<lambda>((k, l), _). lit k = b \<and> lit l = c) (deed_routes mid x))
   | _ \<Rightarrow> None))"

text \<open>Which methods a rule accepts: \<open>GET\<close>, \<open>POST\<close>.\<close>

definition post_only :: "route \<Rightarrow> bool" where
  "post_only r \<longleftrightarrow> (case r of
     Logout_Route \<Rightarrow> True | Upload_Route _ \<Rightarrow> True | Events_Route _ \<Rightarrow> True | Tributes_Route _ \<Rightarrow> True | Candle_Route _ \<Rightarrow> True
   | Members_Route _ \<Rightarrow> True | Settings_Route _ \<Rightarrow> True | Update_Media_Route _ _ \<Rightarrow> True | Event_Route _ _ \<Rightarrow> True
   | Tribute_Route _ _ \<Rightarrow> True | Resolve_Route _ _ \<Rightarrow> True | Revoke_Route _ _ \<Rightarrow> True | Cancel_Route _ _ \<Rightarrow> True
   | Withdraw_Erasure_Route _ _ \<Rightarrow> True | Event_Visibility_Route _ _ \<Rightarrow> True | _ \<Rightarrow> False)"

definition get_only :: "route \<Rightarrow> bool" where
  "get_only r \<longleftrightarrow> (case r of
     Static_Route \<Rightarrow> True | Home_Route \<Rightarrow> True | Dashboard_Route \<Rightarrow> True | Policy_Route \<Rightarrow> True | Install_Route \<Rightarrow> True
   | Worker_Route \<Rightarrow> True | Health_Route \<Rightarrow> True | Memorial_Route _ \<Rightarrow> True | Manage_Route _ \<Rightarrow> True | Code_Route _ _ \<Rightarrow> True
   | Plaque_Route _ \<Rightarrow> True | Export_Route _ \<Rightarrow> True | Media_Route _ \<Rightarrow> True | _ \<Rightarrow> False)"

definition accepts :: "bool \<Rightarrow> route \<Rightarrow> bool" where
  "accepts post r \<longleftrightarrow> (if post then \<not> get_only r else \<not> post_only r)"

section \<open>A request\<close>

definition qr_download :: "site_config \<Rightarrow> visit \<Rightarrow> site_user option \<Rightarrow> pstr \<Rightarrow> pstr \<Rightarrow> reply step" where
  "qr_download C v user mid fmt = then_do (get_memorial_for C v user mid False) (\<lambda>_.
     if fmt \<notin> {lit ''png'', lit ''svg''} then halt (Aborted 404 []) else pass (Shown 200 (Form_Page ''qr'')))"

definition plaque :: "site_config \<Rightarrow> visit \<Rightarrow> site_user option \<Rightarrow> pstr \<Rightarrow> reply step" where
  "plaque C v user mid = then_do (get_memorial_for C v user mid False) (\<lambda>_. pass (Shown 200 (Form_Page ''plaque'')))"

fun dispatch :: "site_config \<Rightarrow> visit \<Rightarrow> site_user option \<Rightarrow> route \<Rightarrow> reply step" where
  "dispatch C v user Static_Route = pass (Shown 200 (Form_Page ''static''))"
| "dispatch C v user Home_Route = home"
| "dispatch C v user Register_Route = register_account C v"
| "dispatch C v user Login_Route = login C v"
| "dispatch C v user Logout_Route = logout"
| "dispatch C v user Dashboard_Route = dashboard C v user"
| "dispatch C v user New_Route = new_memorial C v user"
| "dispatch C v user Withdraw_Route = withdraw_tribute C v"
| "dispatch C v user Policy_Route = pass (Shown 200 (Form_Page ''policy''))"
| "dispatch C v user Install_Route = pass (Shown 200 (Form_Page ''install''))"
| "dispatch C v user Worker_Route = pass (Shown 200 (Form_Page ''sw.js''))"
| "dispatch C v user Health_Route = pass (Shown 200 (Form_Page ''healthz''))"
| "dispatch C v user (Memorial_Route mid) = memorial_page C v user mid"
| "dispatch C v user (Edit_Route mid) = edit_memorial C v user mid"
| "dispatch C v user (Manage_Route mid) = manage C v user mid"
| "dispatch C v user (Consent_Route mid) = consent_page C v user mid"
| "dispatch C v user (Succession_Route mid) = succession_page C v user mid"
| "dispatch C v user (Erasure_Route mid) = erasure_page C v user mid"
| "dispatch C v user (Upload_Route mid) = upload C v user mid"
| "dispatch C v user (Events_Route mid) = add_event C v user mid"
| "dispatch C v user (Tributes_Route mid) = submit_tribute C v user mid"
| "dispatch C v user (Candle_Route mid) = candle_route C v user mid"
| "dispatch C v user (Members_Route mid) = member_route C v user mid"
| "dispatch C v user (Settings_Route mid) = settings_route C v user mid"
| "dispatch C v user (Report_Route mid) = file_report C v mid"
| "dispatch C v user (Code_Route mid fmt) = qr_download C v user mid fmt"
| "dispatch C v user (Plaque_Route mid) = plaque C v user mid"
| "dispatch C v user (Export_Route mid) = export_archive C v user mid"
| "dispatch C v user (Import_Route mid) = import_memories C v user mid"
| "dispatch C v user (Media_Route fid) = media_file C v user fid"
| "dispatch C v user (Invitation_Route rid) = succession_invitation C v user rid"
| "dispatch C v user (Update_Media_Route mid fid) = update_media C v user mid fid"
| "dispatch C v user (Event_Route mid eid) = archive_event C v user mid eid"
| "dispatch C v user (Tribute_Route mid tid) = moderate C v user mid tid"
| "dispatch C v user (Resolve_Route mid rid) = resolve_report C v user mid rid"
| "dispatch C v user (Revoke_Route mid gid) = revoke_consent C v user mid gid"
| "dispatch C v user (Cancel_Route mid rid) = cancel_succession C v user mid rid"
| "dispatch C v user (Withdraw_Erasure_Route mid rid) = withdraw_erasure C v user mid rid"
| "dispatch C v user (Event_Visibility_Route mid eid) = event_visibility C v user mid eid"

definition site_request :: "site_config \<Rightarrow> visit \<Rightarrow> web \<Rightarrow> web \<times> reply" where
  "site_request C v w =
     (case then_do (prepare C v) (\<lambda>user. case route_of (vs_path v) of
        None \<Rightarrow> halt (Aborted 404 [])
      | Some r \<Rightarrow> if accepts (vs_post v) r then dispatch C v user r else halt (Aborted 405 [])) w of
        (w', Inl r) \<Rightarrow> (w', r)
      | (w', Inr r) \<Rightarrow> (w', r))"

end
