(* ===== verification/Site_Facts.thy ===== *)
theory Site_Facts imports Site Memorial_Facts begin

text \<open>
  Who can change what through the memorial site. Every route is put together from steps that either leave the
  protected content of a memorial alone or commit as its present owner, and this is kept by composition; the
  rules below decompose the routes.
\<close>

section \<open>Protected content\<close>

text \<open>What only the owner may change. The nominee may clear the successor named in the profile.\<close>

definition protected :: "pstr \<Rightarrow> site_db \<Rightarrow> memorial option \<times> media list \<times> story list \<times> member list \<times> sharing_grant list \<times> control option" where
  "protected mid db = (map_option (\<lambda>m. m\<lparr>me_successor := []\<rparr>) (get_memorial db mid), filter (\<lambda>x. mf_memorial_id x = mid) (media_files db),
     filter (\<lambda>x. sy_memorial_id x = mid) (timeline db), filter (\<lambda>b. mb_memorial_id b = mid) (members db),
     filter (\<lambda>g. sg_memorial_id g = mid) (sharing_grants db), get_control db mid)"

definition owned_now :: "site_user option \<Rightarrow> pstr \<Rightarrow> site_db \<Rightarrow> bool" where
  "owned_now user mid db \<longleftrightarrow> (\<exists>u. user = Some u \<and> still_owned u mid db)"

lemma same_apart_from_successor:
  "a\<lparr>me_successor := s\<rparr> = b\<lparr>me_successor := s\<rparr> \<Longrightarrow> me_demo a = me_demo b \<and> me_owner_id a = me_owner_id b"
  by (drule sym, drule arg_cong [where f = "\<lambda>m. (me_demo m, me_owner_id m)"]) simp

lemma owned_now_protected:
  assumes "protected mid db = protected mid db'"
  shows "owned_now user mid db = owned_now user mid db'"
proof -
  have "map_option (\<lambda>m. m\<lparr>me_successor := []\<rparr>) (get_memorial db mid) = map_option (\<lambda>m. m\<lparr>me_successor := []\<rparr>) (get_memorial db' mid)"
    using assms by (simp add: protected_def)
  then show ?thesis
    by (cases "get_memorial db mid"; cases "get_memorial db' mid")
       (auto simp: owned_now_def still_owned_def dest: same_apart_from_successor)
qed

text \<open>What a write of the user does: it leaves the content, or the user owns the memorial in what it leaves.
  The content does not depend on which of two states with the same protected content is looked at.\<close>

definition by_owner :: "site_user option \<Rightarrow> pstr \<Rightarrow> site_db \<Rightarrow> site_db \<Rightarrow> bool" where
  "by_owner user mid db db' \<longleftrightarrow> protected mid db' = protected mid db \<or> owned_now user mid db'"

lemma by_owner_same: "protected mid db' = protected mid db \<Longrightarrow> by_owner user mid db db'"
  by (simp add: by_owner_def)

lemma by_owner_left: "protected mid db1 = protected mid db \<Longrightarrow> by_owner user mid db1 db' \<Longrightarrow> by_owner user mid db db'"
  by (auto simp: by_owner_def)

lemma by_owner_right: "by_owner user mid db db1 \<Longrightarrow> protected mid db' = protected mid db1 \<Longrightarrow> by_owner user mid db db'"
  using owned_now_protected [of mid db' db1 user] by (auto simp: by_owner_def)

text \<open>What its owner does to a memorial leaves the others alone.\<close>

lemma by_owner_own:
  assumes "user = Some u" and "still_owned u here db'" and "mid \<noteq> here \<Longrightarrow> protected mid db' = protected mid db"
  shows "by_owner user mid db db'"
  using assms by (cases "mid = here") (auto simp: by_owner_def owned_now_def)

text \<open>What a request does, with one interval \<open>f\<close> in which other connections commit: their commit is seen, the
  content is left alone, or the user owns the memorial in the end.\<close>

definition lawful :: "site_user option \<Rightarrow> pstr \<Rightarrow> (site_db \<Rightarrow> site_db) \<Rightarrow> site_db \<Rightarrow> site_db \<Rightarrow> bool" where
  "lawful user mid f db db' \<longleftrightarrow> by_owner user mid db db' \<or>
     (\<exists>d. protected mid d = protected mid db \<and> protected mid db' = protected mid (f d))"

section \<open>Steps\<close>

definition keeps :: "(site_db \<Rightarrow> site_db \<Rightarrow> bool) \<Rightarrow> 'a step \<Rightarrow> bool" where
  "keeps R s \<longleftrightarrow> (\<forall>w. R (wb_db w) (wb_db (fst (s w))))"

abbreviation calm :: "pstr \<Rightarrow> 'a step \<Rightarrow> bool" where
  "calm mid \<equiv> keeps (\<lambda>db db'. protected mid db' = protected mid db)"

abbreviation own :: "site_user option \<Rightarrow> pstr \<Rightarrow> 'a step \<Rightarrow> bool" where
  "own user mid \<equiv> keeps (by_owner user mid)"

abbreviation safe :: "site_user option \<Rightarrow> pstr \<Rightarrow> (site_db \<Rightarrow> site_db) \<Rightarrow> 'a step \<Rightarrow> bool" where
  "safe user mid f \<equiv> keeps (lawful user mid f)"

lemma calm_own: "calm mid s \<Longrightarrow> own user mid s"
  by (simp add: keeps_def by_owner_same)

lemma own_safe: "own user mid s \<Longrightarrow> safe user mid f s"
  by (simp add: keeps_def lawful_def)

lemma calm_safe: "calm mid s \<Longrightarrow> safe user mid f s"
  by (rule own_safe) (rule calm_own)

named_theorems safe_rules \<open>steps that leave protected content to its owner\<close>

lemma calm_leaf [safe_rules]: "calm mid (pass x)" "calm mid (halt r)" "calm mid (look g)" "calm mid (check b n m)"
  by (simp_all add: keeps_def pass_def halt_def look_def check_def)

lemmas leaf_rules [safe_rules] = calm_leaf [THEN calm_own] calm_leaf [THEN calm_safe]

lemma keeps_if [safe_rules]: "(b \<Longrightarrow> keeps R s) \<Longrightarrow> (\<not> b \<Longrightarrow> keeps R t) \<Longrightarrow> keeps R (if b then s else t)"
  by simp

lemma keeps_option [safe_rules]:
  "(x = None \<Longrightarrow> keeps R s) \<Longrightarrow> (\<And>y. x = Some y \<Longrightarrow> keeps R (t y)) \<Longrightarrow> keeps R (case x of None \<Rightarrow> s | Some y \<Rightarrow> t y)"
  by (cases x) simp_all

lemma keeps_sum [safe_rules]:
  "(\<And>y. x = Inl y \<Longrightarrow> keeps R (s y)) \<Longrightarrow> (\<And>y. x = Inr y \<Longrightarrow> keeps R (t y)) \<Longrightarrow> keeps R (case x of Inl y \<Rightarrow> s y | Inr y \<Rightarrow> t y)"
  by (cases x) simp_all

lemma keeps_pair [safe_rules]: "(\<And>y z. x = (y, z) \<Longrightarrow> keeps R (s y z)) \<Longrightarrow> keeps R (case x of (y, z) \<Rightarrow> s y z)"
  by (cases x) simp

lemma keeps_let [safe_rules]: "keeps R (s x) \<Longrightarrow> keeps R (let y = x in s y)"
  by simp

text \<open>A step that reads the whole state, as \<open>\<lambda>w. s w w\<close>.\<close>

lemma keeps_state: "(\<And>w. keeps R (s w)) \<Longrightarrow> keeps R (\<lambda>w. s w w)"
  by (simp add: keeps_def)

lemma keeps_then:
  assumes "keeps R s" and "\<And>x. keeps S (k x)" and "\<And>a b. R a b \<Longrightarrow> T a b" and "\<And>a b c. R a b \<Longrightarrow> S b c \<Longrightarrow> T a c"
  shows "keeps T (then_do s k)"
  unfolding keeps_def
proof
  fix w
  have "R (wb_db w) (wb_db (fst (s w)))" using assms(1) by (simp add: keeps_def)
  moreover have "S (wb_db w') (wb_db (fst (k x w')))" for x w' using assms(2) by (simp add: keeps_def)
  ultimately show "T (wb_db w) (wb_db (fst (then_do s k w)))"
    unfolding then_do_def by (cases "s w") (auto split: sum.split intro: assms(3,4))
qed

lemma calm_then [safe_rules]:
  assumes "calm mid s" and "\<And>x. calm mid (k x)"
  shows "calm mid (then_do s k)"
  by (rule keeps_then [OF assms]) simp_all

lemma safe_then [safe_rules]:
  assumes "calm mid s" and "\<And>x. safe user mid f (k x)"
  shows "safe user mid f (then_do s k)"
  by (rule keeps_then [OF assms]) (auto simp: lawful_def by_owner_def)

lemma own_then:
  assumes "own user mid s" and "\<And>x. calm mid (k x)"
  shows "own user mid (then_do s k)"
  by (rule keeps_then [OF assms]) (auto intro: by_owner_right)

text \<open>The interval of other connections, and what follows it.\<close>

definition racing :: "visit \<Rightarrow> 'a step \<Rightarrow> 'a step" where
  "racing v s = then_do (meanwhile v) (\<lambda>_. s)"

lemma racing_fold: "then_do (meanwhile v) (\<lambda>_. s) = racing v s"
  by (simp add: racing_def)

lemma safe_racing [safe_rules]:
  assumes "own user mid s"
  shows "safe user mid (vs_meanwhile v) (racing v s)"
  unfolding keeps_def
proof
  fix w :: web
  let ?w = "w\<lparr>wb_db := vs_meanwhile v (wb_db w)\<rparr>"
  have "by_owner user mid (wb_db ?w) (wb_db (fst (s ?w)))"
    using assms unfolding keeps_def by (rule spec)
  then show "lawful user mid (vs_meanwhile v) (wb_db w) (wb_db (fst (racing v s w)))"
    by (auto simp: racing_def then_do_def meanwhile_def lawful_def by_owner_def)
qed

text \<open>A step that does not touch the tables of content.\<close>

lemma calm_committing:
  assumes "\<And>db db'. f db = Inr db' \<Longrightarrow> protected mid db' = protected mid db"
  shows "calm mid (committing f)"
  using assms by (auto simp: keeps_def committing_def split: sum.split)

lemma own_committing:
  assumes "\<And>db db'. f db = Inr db' \<Longrightarrow> by_owner user mid db db'"
  shows "own user mid (committing f)"
  using assms by (auto simp: keeps_def committing_def by_owner_same split: sum.split)

lemma calm_operation:
  assumes "\<And>db db' x. f db = Inr (db', x) \<Longrightarrow> protected mid db' = protected mid db"
  shows "calm mid (operation f)"
  using assms by (auto simp: keeps_def operation_def split: sum.split)

lemma own_operation:
  assumes "\<And>db db' x. f db = Inr (db', x) \<Longrightarrow> by_owner user mid db db'"
  shows "own user mid (operation f)"
  using assms by (auto simp: keeps_def operation_def by_owner_same split: sum.split)

section \<open>Frames\<close>

lemma filter_update_rows:
  assumes "\<And>x. x \<in> set xs \<Longrightarrow> P x \<Longrightarrow> \<not> Q x \<and> \<not> Q (f x)"
  shows "filter Q (update_rows P f xs) = filter Q xs"
  using assms by (induction xs) auto

lemma find_update_other:
  assumes "\<And>x. P x \<Longrightarrow> \<not> Q x \<and> \<not> Q (f x)"
  shows "find Q (update_rows P f xs) = find Q xs"
  using assms by (induction xs) auto

lemma protected_tables:
  assumes "memorials db' = memorials db" and "media_files db' = media_files db" and "timeline db' = timeline db"
    and "members db' = members db" and "sharing_grants db' = sharing_grants db" and "controls db' = controls db"
  shows "protected mid db' = protected mid db"
  using assms by (simp add: protected_def get_memorial_def get_control_def)

text \<open>An update of one memorial's row is not seen by another.\<close>

lemma get_memorial_update:
  assumes "mid \<noteq> here" and "\<And>m. me_id (f m) = me_id m"
  shows "get_memorial (db\<lparr>memorials := update_rows (\<lambda>m. me_id m = here) f ms\<rparr>) mid = find (\<lambda>m. me_id m = mid) ms"
  using assms by (simp add: get_memorial_def) (rule find_update_other, auto)

lemma protected_memorials:
  assumes "mid \<noteq> here" and "\<And>m. me_id (f m) = me_id m"
  shows "protected mid (db\<lparr>memorials := update_rows (\<lambda>m. me_id m = here) f (memorials db)\<rparr>) = protected mid db"
  using get_memorial_update [OF assms, where db = db and ms = "memorials db"]
  by (simp add: protected_def get_memorial_def get_control_def)

lemma append_history_protected:
  assumes "append_history sha t here kind actor gid payload db = Inr db'"
  shows "protected mid db' = protected mid db"
  using append_history_appended [OF assms] by (intro protected_tables) (auto simp: appended_def)

lemma log_activity_protected:
  assumes "log_activity sha t u here kind actor rid payload db = Inr db'"
  shows "protected mid db' = protected mid db"
proof -
  obtain db1 a where "append_history sha t here kind (Some actor) None ((lit ''request_id'', JStr rid) # payload) db = Inr db1"
    and "db' = db1\<lparr>activities := activities db1 @ [a]\<rparr>"
    using log_activity_Inr [OF assms] by blast
  then show ?thesis
    using append_history_protected [of sha t here kind] protected_tables [of db' db1] by simp
qed

lemma update_memorial_protected:
  assumes "update_memorial here f db = Inr db'" and "mid \<noteq> here" and "\<And>m. me_id (f m) = me_id m"
  shows "protected mid db' = protected mid db"
  using update_memorial_Inr [OF assms(1)] protected_memorials [OF assms(2,3)] by simp

section \<open>The operations of the modules\<close>

lemma still_owned_append:
  "append_history sha t here kind actor gid payload db = Inr db' \<Longrightarrow> still_owned u mid db' = still_owned u mid db"
  using append_history_frame(1) [of sha t here kind actor gid payload db db'] by (simp add: still_owned_def get_memorial_def)

lemma still_owned_log:
  "log_activity sha t w here kind actor rid payload db = Inr db' \<Longrightarrow> still_owned u mid db' = still_owned u mid db"
  using log_activity_keeps(2) [of sha t w here kind actor rid payload db db'] by (simp add: still_owned_def get_memorial_def)

lemma still_owned_update:
  assumes "update_memorial here f db = Inr db'" and "\<And>m. me_id (f m) = me_id m \<and> me_owner_id (f m) = me_owner_id m \<and> me_demo (f m) = me_demo m"
  shows "still_owned u mid db' = still_owned u mid db"
proof -
  have "map_option (\<lambda>m. (me_demo m, me_owner_id m)) (find (\<lambda>m. me_id m = mid) (update_rows (\<lambda>m. me_id m = here) f ms)) =
      map_option (\<lambda>m. (me_demo m, me_owner_id m)) (find (\<lambda>m. me_id m = mid) ms)" for ms
    using assms(2) by (induction ms) auto
  from this [of "memorials db"] show ?thesis
    using update_memorial_Inr [OF assms(1)]
    by (cases "get_memorial db mid"; cases "get_memorial db' mid") (auto simp: still_owned_def get_memorial_def)
qed

lemma owner_record_still: "owner_record db here (us_id u) = Inr m \<Longrightarrow> still_owned u here db"
  by (auto simp: owner_record_def still_owned_def succession_error_def split: option.split_asm if_split_asm)

lemma view_protected:
  assumes "authorize_view sha env here role actor action purpose db = Inr (db', d)"
  shows "protected mid db' = protected mid db"
  by (rule append_history_protected [OF authorize_view_Inr(2) [OF assms]])

lemma safe_record_grant:
  assumes "record_grant sha env here (us_id u) name audience activation db = Inr (db', gid)" and "user = Some u"
  shows "by_owner user mid db db'"
proof -
  obtain m db1 payload where m: "owned_by db here (us_id u) = Some m"
    and ins: "insert_sharing_grant (pending_grant env m (us_id u) (strip_by py_isspace name) audience activation) (enable_control here (stamp env 0) db) = Inr db1"
    and app: "append_history sha (stamp env 1) here ''grant_recorded'' (Some (us_id u)) (Some gid) payload db1 = Inr db'"
    using record_grant_Inr [OF assms(1)] by blast
  have found: "get_memorial db here = Some m" "me_owner_id m = us_id u \<and> \<not> me_demo m"
    using m by (auto simp: owned_by_def split: option.split_asm if_split_asm)
  then have own: "still_owned u here db" "me_id m = here"
    using find_SomeD [OF found(1) [unfolded get_memorial_def]] by (simp_all add: still_owned_def)
  have db1: "db1 = (enable_control here (stamp env 0) db)\<lparr>sharing_grants := sharing_grants db1\<rparr>"
    "sharing_grants db1 = sharing_grants db @ [pending_grant env m (us_id u) (strip_by py_isspace name) audience activation]"
    using ins by (auto simp: insert_sharing_grant_def Let_def split: if_split_asm)
  have "still_owned u here db1"
    using own db1 by (subst db1(1)) (simp add: still_owned_def get_memorial_def)
  moreover have "protected mid db1 = protected mid db" if "mid \<noteq> here"
    by (subst db1(1)) (use that own(2) db1(2) in \<open>auto simp: protected_def get_memorial_def get_control_def enable_control_def pending_grant_def find_append
      split: option.split\<close>)
  ultimately show ?thesis
    using still_owned_append [OF app] append_history_protected [OF app, of mid] by (intro by_owner_own [OF assms(2)]) auto
qed

lemma update_sharing_protected:
  assumes "update_sharing_grant gid f db = Inr db'" and "find (\<lambda>g. sg_id g = gid \<and> sg_memorial_id g = here) (sharing_grants db) = Some g"
    and "\<And>g. sg_id (f g) = sg_id g \<and> sg_memorial_id (f g) = sg_memorial_id g" and "mid \<noteq> here"
  shows "protected mid db' = protected mid db" and "memorials db' = memorials db"
proof -
  have db': "db' = db\<lparr>sharing_grants := update_rows (\<lambda>g. sg_id g = gid) f (sharing_grants db)\<rparr>"
    and "distinct (map sg_id (update_rows (\<lambda>g. sg_id g = gid) f (sharing_grants db)))"
    using assms(1) by (auto simp: update_sharing_grant_def Let_def split: if_split_asm)
  then have ids: "distinct (map sg_id (sharing_grants db))"
    using assms(3) by (simp add: map_update_rows)
  have "g \<in> set (sharing_grants db)" "sg_id g = gid" "sg_memorial_id g = here"
    using find_SomeD [OF assms(2)] by auto
  then have "sg_memorial_id h = here" if "h \<in> set (sharing_grants db)" "sg_id h = gid" for h
    using that ids by (auto simp: distinct_map dest: inj_onD)
  then have "filter (\<lambda>g. sg_memorial_id g = mid) (update_rows (\<lambda>g. sg_id g = gid) f (sharing_grants db)) =
      filter (\<lambda>g. sg_memorial_id g = mid) (sharing_grants db)"
    using assms(3,4) by (intro filter_update_rows) auto
  then show "protected mid db' = protected mid db" "memorials db' = memorials db"
    by (simp_all add: db' protected_def get_memorial_def get_control_def)
qed

lemma safe_revoke:
  assumes "revoke_sharing sha env here gid (Some (us_id u)) None None db = Inr (db', changed)" and "user = Some u"
  shows "by_owner user mid db db'"
proof -
  have own: "still_owned u here db"
    using assms(1) unfolding revoke_sharing_def
    by (elim bindE_InrE) (auto simp: consent_error_def still_owned_def split: option.split_asm if_split_asm)
  from assms(1) show ?thesis
  proof (cases rule: revoke_sharing_cases)
    case (already g)
    then show ?thesis by (simp add: by_owner_same)
  next
    case (now g actor payload db1)
    have kept: "sg_id (revoked_sharing t a h) = sg_id h \<and> sg_memorial_id (revoked_sharing t a h) = sg_memorial_id h" for t a h
      by (simp add: revoked_sharing_def)
    have "still_owned u here db1"
      using own now(4) by (auto simp: update_sharing_grant_def still_owned_def get_memorial_def Let_def split: if_split_asm)
    then show ?thesis
      using still_owned_append [OF now(5)] append_history_protected [OF now(5), of mid]
        update_sharing_protected(1) [OF now(4,1) kept, of mid]
      by (intro by_owner_own [OF assms(2)]) auto
  qed
qed

text \<open>Nominations and erasure requests: a row of another table, then the profile, then the log.\<close>

lemma by_owner_logged:
  assumes "user = Some u" and "still_owned u here db" and "db1 = db\<lparr>successions := rs\<rparr> \<or> db1 = db\<lparr>erasure_requests := es\<rparr>"
    and "update_memorial here f db1 = Inr db2"
    and "\<And>m. me_id (f m) = me_id m \<and> me_owner_id (f m) = me_owner_id m \<and> me_demo (f m) = me_demo m"
    and "log_activity sha t w here kind actor rid payload db2 = Inr db'"
  shows "by_owner user mid db db'"
proof (rule by_owner_own [OF assms(1)])
  have same: "memorials db1 = memorials db" "protected mid db1 = protected mid db"
    using assms(3) by (auto intro: protected_tables)
  then show "still_owned u here db'"
    using assms(2) still_owned_log [OF assms(6)] still_owned_update [OF assms(4,5)] by (simp add: still_owned_def get_memorial_def)
  show "protected mid db' = protected mid db" if "mid \<noteq> here"
    using log_activity_protected [OF assms(6)] update_memorial_protected [OF assms(4) that] assms(5) same(2) by simp
qed

lemma safe_nominate:
  assumes "nominate sha lower env here (us_id u) email code db = Inr (db', rid)" and "user = Some u"
  shows "by_owner user mid db db'"
proof -
  obtain m r db1 db2 payload where own: "owner_record db here (us_id u) = Inr m" and ins: "insert_succession r db = Inr db1"
    and upd: "update_memorial here (\<lambda>m. m\<lparr>me_successor := lower (strip_by py_isspace email), me_updated := stamp env 0\<rparr>) db1 = Inr db2"
    and log: "log_activity sha (stamp env 1) (stamp env 2) here ''successor_nominated'' (us_id u) (token_hex env) payload db2 = Inr db'"
    using assms(1) unfolding nominate_def
    by (elim bindE_InrE) (auto simp: succession_error_def bindE_eq_Inr split: option.split_asm if_split_asm)
  have "db1 = db\<lparr>successions := successions db @ [r]\<rparr> \<or> db1 = db\<lparr>erasure_requests := []\<rparr>"
    using ins by (auto simp: insert_succession_def Let_def split: if_split_asm)
  from by_owner_logged [OF assms(2) owner_record_still [OF own] this upd _ log] show ?thesis by simp
qed

lemma safe_cancel:
  assumes "cancel_nomination sha env here rid (us_id u) db = Inr (db', changed)" and "user = Some u"
  shows "by_owner user mid db db'"
proof -
  obtain m where own: "owner_record db here (us_id u) = Inr m"
    using assms(1) unfolding cancel_nomination_def by (elim bindE_InrE)
  consider "db' = db" | db1 db2 where "update_succession rid (closed ''cancelled'' (stamp env 0)) db = Inr db1"
      and "update_memorial here (\<lambda>m. m\<lparr>me_successor := []\<rparr>) db1 = Inr db2"
      and "log_activity sha (stamp env 1) (stamp env 2) here ''successor_cancelled'' (us_id u) rid [] db2 = Inr db'"
    using assms(1) unfolding cancel_nomination_def
    by (elim bindE_InrE) (auto simp: succession_error_def bindE_eq_Inr split: option.split_asm if_split_asm)
  then show ?thesis
  proof cases
    case (2 db1 db2)
    have "db1 = db\<lparr>successions := successions db1\<rparr> \<or> db1 = db\<lparr>erasure_requests := []\<rparr>"
      using 2(1) by (auto simp: update_succession_def Let_def split: if_split_asm)
    from by_owner_logged [OF assms(2) owner_record_still [OF own] this 2(2) _ 2(3)] show ?thesis by simp
  qed (simp add: by_owner_same)
qed

text \<open>The nominee only clears the successor that the profile names.\<close>

lemma cleared_successor_protected:
  "protected mid (db\<lparr>memorials := update_rows (\<lambda>m. me_id m = here) (\<lambda>m. m\<lparr>me_successor := []\<rparr>) (memorials db)\<rparr>) = protected mid db"
proof -
  have "map_option (\<lambda>m. m\<lparr>me_successor := []\<rparr>) (find (\<lambda>m. me_id m = mid) (update_rows (\<lambda>m. me_id m = here) (\<lambda>m. m\<lparr>me_successor := []\<rparr>) ms)) =
      map_option (\<lambda>m. m\<lparr>me_successor := []\<rparr>) (find (\<lambda>m. me_id m = mid) ms)" for ms
    by (induction ms) auto
  then show ?thesis
    by (simp add: protected_def get_memorial_def get_control_def)
qed

lemma update_succession_protected:
  assumes "update_succession rid f db = Inr db'"
  shows "protected mid db' = protected mid db"
  using assms by (auto simp: update_succession_def Let_def split: if_split_asm intro: protected_tables)

lemma respond_protected:
  assumes "respond sha env rid nominee_id action name authority db = Inr (db', changed)"
  shows "protected mid db' = protected mid db"
proof -
  consider (accept) invitation where "accept_nomination sha env invitation nominee_id (strip_by py_isspace name) authority db = Inr (db', changed)"
    | (decline) invitation where "decline_nomination sha env invitation nominee_id db = Inr (db', changed)"
    using assms unfolding respond_def
    by (auto simp: succession_error_def bindE_eq_Inr Let_def split: option.split_asm if_split_asm response_action.split_asm)
  then show ?thesis
  proof cases
    case (accept invitation)
    show ?thesis
    proof (cases "su_status invitation = lit ''accepted''")
      case True
      then show ?thesis using accept by (simp add: accept_nomination_def)
    next
      case False
      then obtain db1 payload where "update_succession (su_id invitation) (accepted (stamp env 0) (strip_by py_isspace name) authority) db = Inr db1"
        and "log_activity sha (stamp env 1) (stamp env 2) (su_memorial_id invitation) ''successor_accepted'' nominee_id (su_id invitation)
          payload db1 = Inr db'"
        using accept by (auto simp: accept_nomination_def bindE_eq_Inr)
      from log_activity_protected [OF this(2), of mid] update_succession_protected [OF this(1), of mid] show ?thesis by simp
    qed
  next
    case (decline invitation)
    then obtain db1 db2 where "update_succession (su_id invitation) (closed ''declined'' (stamp env 0)) db = Inr db1"
      and "update_memorial (su_memorial_id invitation) (\<lambda>m. m\<lparr>me_successor := []\<rparr>) db1 = Inr db2"
      and "log_activity sha (stamp env 1) (stamp env 2) (su_memorial_id invitation) ''successor_declined'' nominee_id (su_id invitation) [] db2 = Inr db'"
      by (auto simp: decline_nomination_def bindE_eq_Inr)
    from log_activity_protected [OF this(3), of mid] update_memorial_Inr [OF this(2)] update_succession_protected [OF this(1), of mid]
    show ?thesis by (simp add: cleared_successor_protected)
  qed
qed

lemma erasure_owner_still: "erasure_owner db here (us_id u) = Inr m \<Longrightarrow> still_owned u here db"
  by (auto simp: erasure_owner_def owned_by_def still_owned_def erasure_error_def split: option.split_asm if_split_asm)

lemma safe_request_erasure:
  assumes "request_erasure sha env here (us_id u) name db = Inr (db', rid)" and "user = Some u"
  shows "by_owner user mid db db'"
proof -
  obtain m r db1 db2 payload where own: "erasure_owner db here (us_id u) = Inr m" and ins: "insert_erasure_request r db = Inr db1"
    and upd: "update_memorial here (\<lambda>m. m\<lparr>me_archived := True, me_updated := stamp env 0\<rparr>) db1 = Inr db2"
    and log: "log_activity sha (stamp env 1) (stamp env 2) here ''erasure_requested'' (us_id u) (token_hex env) payload db2 = Inr db'"
    using assms(1) unfolding request_erasure_def Let_def
    by (auto simp: erasure_error_def bindE_eq_Inr split: if_split_asm)
  have "db1 = db\<lparr>successions := []\<rparr> \<or> db1 = db\<lparr>erasure_requests := erasure_requests db @ [r]\<rparr>"
    using ins by (auto simp: insert_erasure_request_def Let_def split: if_split_asm)
  from by_owner_logged [OF assms(2) erasure_owner_still [OF own] this upd _ log] show ?thesis by simp
qed

lemma safe_withdraw:
  assumes "withdraw sha env here rid (us_id u) db = Inr (db', changed)" and "user = Some u"
  shows "by_owner user mid db db'"
proof -
  consider "db' = db" | db1 f where "update_erasure_request rid f db = Inr db1"
      and "log_activity sha (stamp env 1) (stamp env 2) here ''erasure_withdrawn'' (us_id u) rid [] db1 = Inr db'"
    using assms(1) unfolding withdraw_def
    by (elim bindE_InrE) (auto simp: erasure_error_def bindE_eq_Inr split: option.split_asm if_split_asm)
  then show ?thesis
  proof cases
    case (2 db1 f)
    have "protected mid db1 = protected mid db"
      using 2(1) by (auto simp: update_erasure_request_def Let_def split: if_split_asm intro: protected_tables)
    then show ?thesis
      using log_activity_protected [OF 2(2), of mid] by (simp add: by_owner_same)
  qed (simp add: by_owner_same)
qed

end
