(* ===== verification/Site_Access.thy ===== *)
theory Site_Access imports Site_Facts begin

text \<open>
  Every route of the memorial site leaves the protected content of a memorial to its owner: the rules of
  \<open>Site_Facts\<close> decompose a route, and its own statements are shown to stay with the memorial in its path.
\<close>

section \<open>Shared steps\<close>

lemma calm_field [safe_rules]: "calm mid (field v name n required)"
  unfolding field_def Let_def by (intro safe_rules)

lemma calm_email [safe_rules]: "calm mid (email_field C v)"
  unfolding email_field_def Let_def by (intro safe_rules)

lemma calm_visibility [safe_rules]: "calm mid (visibility v)"
  unfolding visibility_def Let_def by (intro safe_rules)

lemma calm_rate_limit [safe_rules]: "calm mid (rate_limit C v kind limit)"
  by (auto simp: keeps_def rate_limit_def Let_def split: prod.split intro: protected_tables)

lemma calm_sharing_allowed [safe_rules]: "calm mid (sharing_allowed C v n who here role)"
  unfolding sharing_allowed_def by (intro safe_rules calm_operation) (rule view_protected)

lemma calm_get_memorial [safe_rules]: "calm mid (get_memorial_for C v who here owner)"
  unfolding get_memorial_for_def by (intro safe_rules)

text \<open>Behind \<open>login_required\<close> and \<open>owned_action\<close> the user is known.\<close>

lemma keeps_login:
  assumes "\<And>a. R a a" and "\<And>u. user = Some u \<Longrightarrow> keeps R (k u)"
  shows "keeps R (then_do (login_required user) k)"
  using assms by (cases user) (auto simp: keeps_def then_do_def login_required_def halt_def pass_def)

lemmas calm_login = keeps_login [where R = "\<lambda>db db'. protected mid db' = protected mid db" for mid, OF refl]

lemma safe_login: "(\<And>u. user = Some u \<Longrightarrow> safe user mid f (k u)) \<Longrightarrow> safe user mid f (then_do (login_required user) k)"
  by (rule keeps_login) (simp_all add: lawful_def by_owner_def)

lemma owned_action_result:
  assumes "owned_action C v user here w = (w', Inr (u, m))"
  shows "user = Some u"
  using assms
  by (auto simp: owned_action_def then_do_def login_required_def pass_def halt_def split: option.split_asm prod.split_asm sum.split_asm if_split_asm)

lemma calm_owned_action [safe_rules]: "calm mid (owned_action C v user here)"
  unfolding owned_action_def by (intro calm_login safe_rules)

lemma keeps_owned:
  assumes "\<And>a b. protected mid b = protected mid a \<Longrightarrow> R a b" and "\<And>a b c. protected mid b = protected mid a \<Longrightarrow> R b c \<Longrightarrow> R a c"
    and "\<And>u m. user = Some u \<Longrightarrow> keeps R (k u m)"
  shows "keeps R (then_do (owned_action C v user here) (\<lambda>(u, m). k u m))"
  unfolding keeps_def
proof
  fix w :: web
  obtain w' r where run: "owned_action C v user here w = (w', r)" by fastforce
  then have same: "protected mid (wb_db w') = protected mid (wb_db w)"
    using calm_owned_action [of mid C v user here] unfolding keeps_def by (metis fst_conv)
  show "R (wb_db w) (wb_db (fst (then_do (owned_action C v user here) (\<lambda>(u, m). k u m) w)))"
  proof (cases r)
    case (Inl a)
    then have "then_do (owned_action C v user here) (\<lambda>(u, m). k u m) w = (w', Inl a)"
      using run by (simp add: then_do_def)
    then show ?thesis using assms(1) [OF same] by simp
  next
    case (Inr p)
    obtain u m where p: "p = (u, m)" by fastforce
    have "keeps R (k u m)"
      by (rule assms(3), rule owned_action_result) (use run Inr p in simp)
    then have "R (wb_db w') (wb_db (fst (k u m w')))"
      by (simp add: keeps_def)
    moreover have "then_do (owned_action C v user here) (\<lambda>(u, m). k u m) w = k u m w'"
      using run Inr p by (simp add: then_do_def)
    ultimately show ?thesis
      using assms(2) [OF same] by simp
  qed
qed

lemma calm_owned:
  "(\<And>u m. user = Some u \<Longrightarrow> calm mid (k u m)) \<Longrightarrow> calm mid (then_do (owned_action C v user here) (\<lambda>(u, m). k u m))"
  by (rule keeps_owned) simp_all

lemma safe_owned:
  "(\<And>u m. user = Some u \<Longrightarrow> safe user mid f (k u m)) \<Longrightarrow> safe user mid f (then_do (owned_action C v user here) (\<lambda>(u, m). k u m))"
  by (rule keeps_owned) (auto simp: lawful_def by_owner_def)

section \<open>Edits\<close>

lemma site_audit_protected: "site_audit v n s here action target db = Inr db' \<Longrightarrow> protected mid db' = protected mid db"
  by (auto simp: site_audit_def insert_activity_def split: if_split_asm intro: protected_tables)

lemma sql_Inr: "sql r = Inr x \<longleftrightarrow> r = Inr x"
  by (cases r) (simp_all add: sql_def)

text \<open>What an edit does stays with its memorial.\<close>

definition stays :: "pstr \<Rightarrow> pstr \<Rightarrow> (site_db \<Rightarrow> reply + site_db) \<Rightarrow> bool" where
  "stays mid here f \<longleftrightarrow> (mid \<noteq> here \<longrightarrow> (\<forall>db db'. f db = Inr db' \<longrightarrow> protected mid db' = protected mid db))"

lemma own_owner_edit:
  assumes "user = Some u" and "\<And>db'. f db = Inr db' \<Longrightarrow> mid \<noteq> here \<Longrightarrow> protected mid db' = protected mid db"
    and "bindE (bindE (f db) (\<lambda>db'. sql (site_audit v n s here action target db')))
      (\<lambda>db'. if still_owned u here db' then Inr db' else Inl (Aborted 403 (lit ''Memorial ownership changed. Your edit was not saved.''))) = Inr db'"
  shows "by_owner user mid db db'"
proof -
  obtain db1 where f: "f db = Inr db1" and log: "site_audit v n s here action target db1 = Inr db'" and own: "still_owned u here db'"
    using assms(3) by (auto simp: bindE_eq_Inr sql_Inr split: if_split_asm)
  show ?thesis
    using assms(2) f site_audit_protected [OF log] by (intro by_owner_own [OF assms(1) own]) auto
qed

lemma safe_owner_edit:
  assumes "user = Some u" and "stays mid here f"
  shows "safe user mid (vs_meanwhile v) (owner_edit v n u here action target f answer)"
  unfolding owner_edit_def racing_fold committing_owned_def
  by (rule safe_racing, rule keeps_state, rule own_then [OF own_committing calm_leaf(1)], rule own_owner_edit [OF assms(1)])
     (use assms(2) in \<open>auto simp: stays_def\<close>)

lemma stays_bind: "stays mid here (\<lambda>db. Inr (f db)) \<longleftrightarrow> (mid \<noteq> here \<longrightarrow> (\<forall>db. protected mid (f db) = protected mid db))"
  by (auto simp: stays_def)

lemma stays_same: "(\<And>db db'. f db = Inr db' \<Longrightarrow> protected mid db' = protected mid db) \<Longrightarrow> stays mid here f"
  by (simp add: stays_def)

section \<open>Statements\<close>

lemma stays_memorials:
  assumes "\<And>m. me_id (g m) = me_id m"
  shows "stays mid here (\<lambda>db. Inr (db\<lparr>memorials := update_rows (\<lambda>m. me_id m = here) g (memorials db)\<rparr>))"
  using protected_memorials [OF _ assms] by (simp add: stays_bind)

lemma set_portrait_protected: "mid \<noteq> here \<Longrightarrow> protected mid (set_portrait here fid db) = protected mid db"
  unfolding set_portrait_def by (rule protected_memorials) simp_all

lemma insert_media_protected:
  assumes "insert_media r db = Inr db'" and "mid \<noteq> mf_memorial_id r"
  shows "protected mid db' = protected mid db"
  using assms by (auto simp: insert_media_def protected_def get_memorial_def get_control_def split: if_split_asm)

lemma insert_story_protected:
  assumes "insert_story r db = Inr db'" and "mid \<noteq> sy_memorial_id r"
  shows "protected mid db' = protected mid db"
  using assms by (auto simp: insert_story_def protected_def get_memorial_def get_control_def split: if_split_asm)

lemma insert_stories_protected:
  assumes "insert_stories ss db = Inr db'" and "\<And>s. s \<in> set ss \<Longrightarrow> mid \<noteq> sy_memorial_id s"
  shows "protected mid db' = protected mid db"
  using assms
proof (induction ss arbitrary: db)
  case (Cons s ss)
  then obtain db1 where "insert_story s db = Inr db1" "insert_stories ss db1 = Inr db'"
    by (auto simp: bindE_eq_Inr)
  with Cons.IH [of db1] Cons.prems(2) insert_story_protected [of s db db1 mid] show ?case by simp
qed simp

lemma imported_stories_here:
  assumes "imported_stories v here n ds = Some ss" and "s \<in> set ss"
  shows "sy_memorial_id s = here"
  using assms
proof (induction ds arbitrary: n ss)
  case (Cons d ds)
  then obtain t rest where "imported_story v here n d = Some t" "imported_stories v here (Suc n) ds = Some rest" "ss = t # rest"
    by (auto split: option.split_asm)
  moreover have "sy_memorial_id t = here"
    using calculation(1) by (auto simp: imported_story_def Let_def split: json.split_asm option.split_asm prod.split_asm if_split_asm)
  ultimately show ?case
    using Cons.IH Cons.prems(2) by auto
qed simp

lemma insert_member_protected:
  assumes "insert_member b db = Inr db'" and "mid \<noteq> mb_memorial_id b"
  shows "protected mid db' = protected mid db"
  using assms by (auto simp: insert_member_def protected_def get_memorial_def get_control_def split: if_split_asm)

lemma remove_member_protected:
  "mid \<noteq> here \<Longrightarrow> protected mid (db\<lparr>members := filter (\<lambda>b. \<not> (mb_memorial_id b = here \<and> mb_email b = email)) (members db)\<rparr>) = protected mid db"
  by (auto simp: protected_def get_memorial_def get_control_def intro!: filter_cong)

section \<open>Routes that change nothing protected\<close>

named_theorems route_safe \<open>the routes, as steps that leave protected content to its owner\<close>

lemma calm_session_step [safe_rules]: "(\<And>w. wb_db (f w) = wb_db w) \<Longrightarrow> calm mid (\<lambda>w. (f w, Inr x))"
  by (simp add: keeps_def by_owner_same)

lemma calm_new_account [safe_rules]: "calm mid (new_account u csrf)"
  by (auto simp: keeps_def new_account_def insert_user_def signed_in_def split: option.split if_split_asm intro: protected_tables)

lemma calm_register [safe_rules]: "calm mid (register_account C v)"
  unfolding register_account_def by (intro safe_rules)

lemma calm_signing_in [safe_rules]: "calm mid (login C v)"
  unfolding login_def Let_def by (intro safe_rules) (simp add: signed_in_def)

lemma calm_logout [safe_rules]: "calm mid logout"
  by (simp add: keeps_def logout_def)

lemma calm_home [safe_rules]: "calm mid home"
  unfolding home_def by (intro safe_rules)

lemma calm_allowed_shared [safe_rules]: "calm mid (allowed_shared C v n u ms)"
proof (induction ms arbitrary: n)
  case (Cons m ms)
  show ?case unfolding allowed_shared.simps by (intro safe_rules Cons.IH)
qed (simp add: calm_leaf(1))

lemma calm_dashboard [safe_rules]: "calm mid (dashboard C v user)"
  unfolding dashboard_def by (intro calm_login safe_rules)

lemma calm_memorial_page [safe_rules]: "calm mid (memorial_page C v user here)"
  unfolding memorial_page_def by (intro safe_rules)

lemma calm_read_file [safe_rules]: "calm mid (read_file name)"
  by (simp add: keeps_def read_file_def)

lemma calm_media_file [safe_rules]: "calm mid (media_file C v user fid)"
  unfolding media_file_def by (intro safe_rules)

lemma calm_manage [safe_rules]: "calm mid (manage C v user here)"
  unfolding manage_def by (intro calm_owned safe_rules)

lemma calm_export [safe_rules]: "calm mid (export_archive C v user here)"
  unfolding export_archive_def
  by (intro calm_owned safe_rules) (auto simp: keeps_def split: option.split)

lemma calm_qr [safe_rules]: "calm mid (qr_download C v user here fmt)"
  unfolding qr_download_def by (intro safe_rules)

lemma calm_plaque [safe_rules]: "calm mid (plaque C v user here)"
  unfolding plaque_def by (intro safe_rules)

text \<open>Visitors' contributions: tables of their own, and the activity log.\<close>

lemma insert_tribute_protected: "insert_tribute t db = Inr db' \<Longrightarrow> protected mid db' = protected mid db"
  by (auto simp: insert_tribute_def split: if_split_asm intro: protected_tables)

lemma light_candle_protected: "light_candle oldest c db = Inr db' \<Longrightarrow> protected mid db' = protected mid db"
  by (auto simp: light_candle_def Let_def split: if_split_asm intro: protected_tables)

lemma insert_report_protected: "insert_report r db = Inr db' \<Longrightarrow> protected mid db' = protected mid db"
  by (auto simp: insert_report_def split: if_split_asm intro: protected_tables)

lemma safe_submit_tribute [route_safe]: "safe user mid (vs_meanwhile v) (submit_tribute C v user here)"
  unfolding submit_tribute_def racing_fold
  by (intro safe_rules, rule keeps_state, rule calm_own, intro safe_rules calm_committing)
     (auto simp: sql_Inr bindE_eq_Inr dest!: site_audit_protected [where mid = mid] insert_tribute_protected [where mid = mid])

lemma safe_withdraw_tribute [route_safe]: "safe user mid (vs_meanwhile v) (withdraw_tribute C v)"
  unfolding withdraw_tribute_def racing_fold
proof (intro safe_rules, rule keeps_state, rule calm_own, intro safe_rules calm_committing)
  fix t :: tribute and w :: web and db db'
  assume "sql (site_audit v 1 (wb_session w) (tb_memorial_id t) (lit ''tribute-erased'') (Some (tb_id t))
      (db\<lparr>tributes := filter (\<lambda>x. tb_id x \<noteq> tb_id t) (tributes db)\<rparr>)) = Inr db'"
  then have "protected mid db' = protected mid (db\<lparr>tributes := filter (\<lambda>x. tb_id x \<noteq> tb_id t) (tributes db)\<rparr>)"
    unfolding sql_Inr by (rule site_audit_protected)
  then show "protected mid db' = protected mid db"
    by (rule trans) (rule protected_tables, simp_all)
qed

lemma calm_give_visitor [safe_rules]: "calm mid (give_visitor v)"
  by (auto simp: keeps_def give_visitor_def split: option.split)

lemma safe_candle [route_safe]: "safe user mid (vs_meanwhile v) (candle_route C v user here)"
  unfolding candle_route_def racing_fold by (intro safe_rules, rule calm_own, intro safe_rules calm_committing) (simp add: sql_Inr light_candle_protected)

lemma safe_file_report [route_safe]: "safe user mid (vs_meanwhile v) (file_report C v here)"
  unfolding file_report_def racing_fold by (intro safe_rules, rule calm_own, intro safe_rules calm_committing) (simp add: sql_Inr insert_report_protected)

section \<open>Routes that edit\<close>

lemma safe_insert_memorial:
  assumes "insert_memorial m db = Inr db'" and "user = Some u" and "me_owner_id m = us_id u" and "\<not> me_demo m"
  shows "by_owner user mid db db'"
proof (rule by_owner_own [OF assms(2), where here = "me_id m"])
  have db': "db' = db\<lparr>memorials := memorials db @ [m]\<rparr>" and new: "me_id m \<notin> me_id ` set (memorials db)"
    using assms(1) by (auto simp: insert_memorial_def split: if_split_asm)
  have "find (\<lambda>x. me_id x = me_id m) (memorials db) = None"
    using new by (auto simp: find_None_iff image_iff)
  then show "still_owned u (me_id m) db'"
    using assms(3,4) by (simp add: db' still_owned_def get_memorial_def find_append)
  show "protected mid db' = protected mid db" if "mid \<noteq> me_id m"
    using that by (auto simp: db' protected_def get_memorial_def get_control_def find_append split: option.split)
qed

lemma calm_memorial_fields [safe_rules]: "calm mid (memorial_fields C v)"
  unfolding memorial_fields_def by (intro safe_rules)

lemma safe_new_memorial [route_safe]: "safe user mid (vs_meanwhile v) (new_memorial C v user)"
  unfolding new_memorial_def racing_fold
proof (intro safe_login safe_rules, rule keeps_state, rule own_then [OF own_committing calm_leaf(1)])
  fix u p authority authority_name and w :: web and db db'
  assume u: "user = Some u"
  let ?m = "\<lparr> me_id = vs_ident v 0, me_owner_id = us_id u, me_name = pp_name p,
           me_born = pp_born p, me_died = pp_died p, me_tagline = pp_tagline p, me_biography = pp_biography p,
           me_location = pp_location p, me_visibility = pp_visibility p, me_portrait_id = None, me_authority = authority,
           me_authority_name = authority_name, me_consent_at = now_text v 1, me_successor = [], me_created = now_text v 2,
           me_updated = now_text v 3, me_archived = False, me_demo = False \<rparr>"
  assume "sql (bindE (insert_memorial ?m db) (site_audit v 4 (wb_session w) (vs_ident v 0) (lit ''created; consent-v1'') None)) = Inr db'"
  then obtain db1 where ins: "insert_memorial ?m db = Inr db1"
    and log: "site_audit v 4 (wb_session w) (vs_ident v 0) (lit ''created; consent-v1'') None db1 = Inr db'"
    by (auto simp: sql_Inr bindE_eq_Inr)
  have "by_owner user mid db db1"
    by (rule safe_insert_memorial [OF ins u]) simp_all
  then show "by_owner user mid db db'"
    by (rule by_owner_right) (rule site_audit_protected [OF log])
qed

lemma safe_edit_memorial [route_safe]: "safe user mid (vs_meanwhile v) (edit_memorial C v user here)"
  unfolding edit_memorial_def
  by (intro safe_owned safe_rules safe_owner_edit stays_memorials) (simp_all add: put_profile_def)

lemma safe_store_media:
  assumes "user = Some u"
  shows "safe user mid (vs_meanwhile v) (store_media v u row content)"
proof -
  let ?f = "\<lambda>db. bindE (sql (insert_media row db)) (\<lambda>db'. Inr (if form_get v ''portrait'' = lit ''yes'' \<and> is_image (mf_mime row)
    then set_portrait (mf_memorial_id row) (mf_id row) db' else db'))"
  have "stays mid (mf_memorial_id row) ?f"
    unfolding stays_def
  proof (intro impI allI)
    fix db db' assume "mid \<noteq> mf_memorial_id row" and "?f db = Inr db'"
    then show "protected mid db' = protected mid db"
      using insert_media_protected [of row db _ mid] set_portrait_protected [of mid "mf_memorial_id row" "mf_id row"]
      by (auto simp: bindE_eq_Inr sql_Inr split: if_split_asm)
  qed
  then have "safe user mid (vs_meanwhile v)
      (owner_edit v 2 u (mf_memorial_id row) (lit ''media-uploaded'') (Some (mf_id row)) ?f (Redirect ''manage'' [mf_memorial_id row]))"
    by (rule safe_owner_edit [OF assms])
  then have edit: "lawful user mid (vs_meanwhile v) (wb_db w)
      (wb_db (fst (owner_edit v 2 u (mf_memorial_id row) (lit ''media-uploaded'') (Some (mf_id row)) ?f
        (Redirect ''manage'' [mf_memorial_id row]) (w\<lparr>wb_files := files\<rparr>))))" for w :: web and files
    unfolding keeps_def by (drule_tac spec [where x = "w\<lparr>wb_files := files\<rparr>"]) simp
  show ?thesis
    unfolding keeps_def store_media_def Let_def
  proof
    fix w :: web
    show "lawful user mid (vs_meanwhile v) (wb_db w) (wb_db (fst (case owner_edit v 2 u (mf_memorial_id row) (lit ''media-uploaded'')
        (Some (mf_id row)) ?f (Redirect ''manage'' [mf_memorial_id row])
        (w\<lparr>wb_files := AList.update (mf_filename row) content (wb_files w)\<rparr>) of
          (w', r) \<Rightarrow> case r of Inl e \<Rightarrow> (w'\<lparr>wb_files := AList.delete (mf_filename row) (wb_files w')\<rparr>, Inl e) | Inr x \<Rightarrow> (w', Inr x))))"
      using edit [of w "AList.update (mf_filename row) content (wb_files w)"] by (auto split: prod.split sum.split)
  qed
qed

lemma calm_room_for [safe_rules]: "calm mid (room_for C content)"
  by (simp add: keeps_def room_for_def)

lemma safe_upload [route_safe]: "safe user mid (vs_meanwhile v) (upload C v user here)"
  unfolding upload_def by (intro safe_owned safe_rules safe_store_media)

lemma safe_add_event [route_safe]: "safe user mid (vs_meanwhile v) (add_event C v user here)"
  unfolding add_event_def
  by (intro safe_owned safe_rules safe_owner_edit) (auto simp: stays_def sql_Inr insert_story_protected)

lemma stays_guarded: "stays mid here (\<lambda>db. Inr (f db)) \<Longrightarrow> stays mid here (\<lambda>db. if b db then Inr (f db) else Inl r)"
  by (auto simp: stays_def split: if_split_asm)

lemma safe_event_visibility [route_safe]: "safe user mid (vs_meanwhile v) (event_visibility C v user here eid)"
  unfolding event_visibility_def
  by (intro safe_owned safe_rules safe_owner_edit stays_guarded)
     (auto simp: stays_bind protected_def get_memorial_def get_control_def intro!: filter_update_rows)

lemma safe_import [route_safe]: "safe user mid (vs_meanwhile v) (import_memories C v user here)"
  unfolding import_memories_def
proof (intro safe_owned safe_rules safe_owner_edit)
  fix f :: "pstr \<times> bytes" and name content stories
  assume "read_import C v here content = Some stories"
  then have "s \<in> set stories \<Longrightarrow> sy_memorial_id s = here" for s
    by (auto simp: read_import_def split: json.split_asm option.split_asm if_split_asm dest: imported_stories_here)
  then show "stays mid here (\<lambda>db. sql (insert_stories stories db))"
    by (auto simp: stays_def sql_Inr insert_stories_protected)
qed

lemma safe_moderate [route_safe]: "safe user mid (vs_meanwhile v) (moderate C v user here tid)"
  unfolding moderate_def
  by (intro safe_owned safe_rules safe_owner_edit stays_guarded) (auto simp: stays_bind intro: protected_tables)

lemma safe_resolve_report [route_safe]: "safe user mid (vs_meanwhile v) (resolve_report C v user here rid)"
  unfolding resolve_report_def
  by (intro safe_owned safe_rules safe_owner_edit stays_guarded) (auto simp: stays_bind intro: protected_tables)

lemma safe_member_route [route_safe]: "safe user mid (vs_meanwhile v) (member_route C v user here)"
  unfolding member_route_def Let_def
  by (intro safe_owned safe_rules safe_owner_edit)
     (auto simp: stays_def sql_Inr insert_member_protected remove_member_protected [simplified])

lemma safe_settings [route_safe]: "safe user mid (vs_meanwhile v) (settings_route C v user here)"
  unfolding settings_route_def Let_def set_archived_def
proof (intro safe_owned safe_rules safe_owner_edit)
  fix action :: pstr
  have "mid \<noteq> here \<Longrightarrow> protected mid (db\<lparr>memorials := update_rows (\<lambda>m. me_id m = here) (\<lambda>m. m\<lparr>me_archived := b\<rparr>) (memorials db)\<rparr>) = protected mid db" for db b
    by (rule protected_memorials) simp_all
  then show "stays mid here (\<lambda>db. if action = lit ''restore'' \<and> pending_erasure (db\<lparr>memorials := update_rows (\<lambda>m. me_id m = here)
        (\<lambda>m. m\<lparr>me_archived := action = lit ''archive''\<rparr>) (memorials db)\<rparr>) here \<noteq> None
      then Inl (Aborted 400 (lit ''Withdraw the pending erasure request before restoring this memorial.''))
      else Inr (db\<lparr>memorials := update_rows (\<lambda>m. me_id m = here) (\<lambda>m. m\<lparr>me_archived := action = lit ''archive''\<rparr>) (memorials db)\<rparr>))"
    by (auto simp: stays_def split: if_split_asm)
qed

section \<open>Sharing, care and erasure\<close>

lemma safe_consent_page [route_safe]: "safe user mid (vs_meanwhile v) (consent_page C v user here)"
  unfolding consent_page_def Let_def racing_fold
  by (intro safe_owned safe_rules own_then [OF own_operation calm_leaf(1)]) (rule safe_record_grant)

lemma safe_revoke_consent [route_safe]: "safe user mid (vs_meanwhile v) (revoke_consent C v user here gid)"
  unfolding revoke_consent_def racing_fold
  by (intro safe_owned safe_rules own_then [OF own_operation calm_leaf(1)]) (rule safe_revoke)

lemma safe_succession_page [route_safe]: "safe user mid (vs_meanwhile v) (succession_page C v user here)"
  unfolding succession_page_def Let_def racing_fold
  by (intro safe_owned safe_rules own_then [OF own_operation calm_leaf(1)]) (rule safe_nominate)

lemma safe_cancel_succession [route_safe]: "safe user mid (vs_meanwhile v) (cancel_succession C v user here rid)"
  unfolding cancel_succession_def racing_fold
  by (intro safe_owned safe_rules own_then [OF own_operation calm_leaf(1)]) (rule safe_cancel)

lemma safe_invitation [route_safe]: "safe user mid (vs_meanwhile v) (succession_invitation C v user rid)"
  unfolding succession_invitation_def racing_fold
  by (intro safe_login safe_rules own_then [OF own_operation calm_leaf(1)]) (rule by_owner_same, rule respond_protected)

lemma safe_erasure_page [route_safe]: "safe user mid (vs_meanwhile v) (erasure_page C v user here)"
  unfolding erasure_page_def racing_fold
  by (intro safe_owned safe_rules own_then [OF own_operation calm_leaf(1)]) (rule safe_request_erasure)

lemma safe_withdraw_erasure [route_safe]: "safe user mid (vs_meanwhile v) (withdraw_erasure C v user here rid)"
  unfolding withdraw_erasure_def racing_fold
  by (intro safe_owned safe_rules own_then [OF own_operation calm_leaf(1)]) (rule safe_withdraw)

section \<open>Updates by the row's own key\<close>

text \<open>Two routes check that a row belongs to the memorial and then update it by its key alone: a row must not
  have moved to another memorial in between.\<close>

definition rows_stay :: "site_db \<Rightarrow> site_db \<Rightarrow> bool" where
  "rows_stay db db' \<longleftrightarrow>
     (\<forall>x \<in> set (media_files db). \<forall>y \<in> set (media_files db'). mf_id x = mf_id y \<longrightarrow> mf_memorial_id x = mf_memorial_id y) \<and>
     (\<forall>x \<in> set (timeline db). \<forall>y \<in> set (timeline db'). sy_id x = sy_id y \<longrightarrow> sy_memorial_id x = sy_memorial_id y)"

text \<open>A step as seen from one state of the database, and steps that leave it there.\<close>

definition safe_at :: "site_user option \<Rightarrow> pstr \<Rightarrow> (site_db \<Rightarrow> site_db) \<Rightarrow> site_db \<Rightarrow> 'a step \<Rightarrow> bool" where
  "safe_at user mid f db s \<longleftrightarrow> (\<forall>w. wb_db w = db \<longrightarrow> lawful user mid f db (wb_db (fst (s w))))"

definition quiet :: "'a step \<Rightarrow> bool" where
  "quiet s \<longleftrightarrow> (\<forall>w. wb_db (fst (s w)) = wb_db w)"

named_theorems quiet_rules \<open>steps that leave the database as it is\<close>

lemma quiet_simple [quiet_rules]: "quiet (pass x)" "quiet (halt r)" "quiet (look f)" "quiet (check b n m)"
  by (auto simp: quiet_def pass_def halt_def look_def check_def)

lemma quiet_then [quiet_rules]: "quiet s \<Longrightarrow> (\<And>x. quiet (k x)) \<Longrightarrow> quiet (then_do s k)"
  by (auto simp: quiet_def then_do_def split: prod.split sum.split) (metis fst_conv)+

lemma quiet_field [quiet_rules]: "quiet (field v name n required)"
  by (simp add: field_def Let_def quiet_rules)

lemma quiet_visibility [quiet_rules]: "quiet (visibility v)"
  unfolding visibility_def by (intro quiet_rules) (simp add: Let_def quiet_rules)

lemma quiet_owner_found [quiet_rules]: "quiet (get_memorial_for C v user here True)"
  unfolding get_memorial_for_def by (intro quiet_rules) (auto simp: quiet_rules split: option.split prod.split)

lemma quiet_owned [quiet_rules]: "quiet (owned_action C v user here)"
  unfolding owned_action_def
  by (intro quiet_rules) (auto simp: login_required_def quiet_rules split: option.split prod.split intro!: quiet_rules)

lemma safe_at_safe: "safe user mid f s \<Longrightarrow> safe_at user mid f db s"
  by (auto simp: keeps_def safe_at_def)

lemma safe_at_then:
  assumes "quiet s" and "\<And>w w' x. s w = (w', Inr x) \<Longrightarrow> safe_at user mid f db (k x)"
  shows "safe_at user mid f db (then_do s k)"
  unfolding safe_at_def
proof (intro allI impI)
  fix w :: web assume w: "wb_db w = db"
  obtain w' r where s: "s w = (w', r)" by fastforce
  then have w': "wb_db w' = db"
    using assms(1) w unfolding quiet_def by (metis fst_conv)
  show "lawful user mid f db (wb_db (fst (then_do s k w)))"
  proof (cases r)
    case (Inl a)
    then show ?thesis using s w' by (simp add: then_do_def lawful_def by_owner_same)
  next
    case (Inr x)
    then have "safe_at user mid f db (k x)" using assms(2) s by simp
    then show ?thesis using s w' Inr by (simp add: then_do_def safe_at_def)
  qed
qed

lemma safe_at_if: "(b \<Longrightarrow> safe_at user mid f db s) \<Longrightarrow> (\<not> b \<Longrightarrow> safe_at user mid f db t) \<Longrightarrow> safe_at user mid f db (if b then s else t)"
  by simp

lemma safe_at_look: "safe_at user mid f db (k (g db)) \<Longrightarrow> safe_at user mid f db (then_do (look g) k)"
  by (simp add: safe_at_def then_do_def look_def)

lemma safe_at_owner_edit:
  assumes "user = Some u" and "\<And>db'. f (vs_meanwhile v db) = Inr db' \<Longrightarrow> mid \<noteq> here \<Longrightarrow> protected mid db' = protected mid (vs_meanwhile v db)"
  shows "safe_at user mid (vs_meanwhile v) db (owner_edit v n u here action target f answer)"
  unfolding safe_at_def
proof (intro allI impI)
  fix w :: web assume w: "wb_db w = db"
  let ?e = "vs_meanwhile v db"
  have "by_owner user mid ?e (wb_db (fst (owner_edit v n u here action target f answer w)))"
    using own_owner_edit [OF assms, where v = v and n = n and s = "wb_session w" and action = action and target = target] w
    by (auto simp: owner_edit_def then_do_def meanwhile_def committing_owned_def committing_def pass_def by_owner_same split: sum.split)
  then show "lawful user mid (vs_meanwhile v) db (wb_db (fst (owner_edit v n u here action target f answer w)))"
    by (auto simp: lawful_def by_owner_def)
qed

lemma safe_at_owned:
  assumes "\<And>u m. user = Some u \<Longrightarrow> safe_at user mid f db (k u m)"
  shows "safe_at user mid f db (then_do (owned_action C v user here) (\<lambda>(u, m). k u m))"
proof (rule safe_at_then [OF quiet_owned], clarify)
  fix w w' :: web and u m assume "owned_action C v user here w = (w', Inr (u, m))"
  then show "safe_at user mid f db (k u m)" by (rule assms [OF owned_action_result])
qed

lemma update_media_rows_protected:
  assumes "\<And>y. y \<in> set (media_files db) \<Longrightarrow> mf_id y = fid \<Longrightarrow> mf_memorial_id y \<noteq> mid" and "\<And>y. mf_memorial_id (f y) = mf_memorial_id y"
  shows "protected mid (update_media_rows fid f db) = protected mid db"
  using assms by (simp add: update_media_rows_def protected_def get_memorial_def get_control_def filter_update_rows)

lemma update_stories_protected:
  assumes "\<And>y. y \<in> set (timeline db) \<Longrightarrow> sy_id y = eid \<Longrightarrow> sy_memorial_id y \<noteq> mid" and "\<And>y. sy_memorial_id (f y) = sy_memorial_id y"
  shows "protected mid (update_stories eid f db) = protected mid db"
  using assms by (simp add: update_stories_def protected_def get_memorial_def get_control_def filter_update_rows)

lemma safe_update_media:
  assumes "rows_stay db (vs_meanwhile v db)"
  shows "safe_at user mid (vs_meanwhile v) db (update_media C v user here fid)"
  unfolding update_media_def Let_def
proof (rule safe_at_owned, rule safe_at_look)
  fix u m assume u: "user = Some u"
  show "safe_at user mid (vs_meanwhile v) db
      (case find (\<lambda>x. mf_id x = fid \<and> mf_memorial_id x = here) (media_files db) of
         None \<Rightarrow> halt (Aborted 404 [])
       | Some row \<Rightarrow> then_do (field v ''action'' 200 False) (\<lambda>action.
           if action \<in> {lit ''archive'', lit ''restore''}
           then owner_edit v 1 u here (lit ''media-'' @ action) (Some fid)
             (\<lambda>db. Inr (update_media_rows fid (\<lambda>x. x\<lparr>mf_archived := (action = lit ''archive'')\<rparr>) db)) (Redirect ''manage'' [here])
           else if action = lit ''visibility''
           then then_do (visibility v) (\<lambda>vis. owner_edit v 1 u here (lit ''media-'' @ action) (Some fid)
             (\<lambda>db. Inr (update_media_rows fid (\<lambda>x. x\<lparr>mf_visibility := vis\<rparr>) db)) (Redirect ''manage'' [here]))
           else if action = lit ''portrait'' \<and> is_image (mf_mime row) \<and> \<not> mf_archived row
           then owner_edit v 1 u here (lit ''media-'' @ action) (Some fid) (\<lambda>db. Inr (set_portrait here fid db)) (Redirect ''manage'' [here])
           else halt (Aborted 400 [])))"
  proof (cases "find (\<lambda>x. mf_id x = fid \<and> mf_memorial_id x = here) (media_files db)")
    case None
    then show ?thesis by (simp add: safe_at_safe calm_safe [OF calm_leaf(2)])
  next
    case (Some row)
    have home: "mf_memorial_id y = here" if "y \<in> set (media_files (vs_meanwhile v db))" "mf_id y = fid" for y
      using find_SomeD [OF Some] that assms by (auto simp: rows_stay_def)
    show ?thesis
      unfolding Some option.case
      by (intro safe_at_then [OF quiet_field] safe_at_then [OF quiet_visibility] safe_at_if
          safe_at_owner_edit [OF u] safe_at_safe [OF calm_safe [OF calm_leaf(2)]])
         (auto dest: home intro: update_media_rows_protected set_portrait_protected)
  qed
qed

lemma safe_archive_event:
  assumes "rows_stay db (vs_meanwhile v db)"
  shows "safe_at user mid (vs_meanwhile v) db (archive_event C v user here eid)"
  unfolding archive_event_def
proof (rule safe_at_owned, rule safe_at_look)
  fix u m assume u: "user = Some u"
  let ?there = "list_ex (\<lambda>x. sy_id x = eid \<and> sy_memorial_id x = here) (timeline db)"
  have home: "sy_memorial_id y = here" if ?there "y \<in> set (timeline (vs_meanwhile v db))" "sy_id y = eid" for y
    using that assms by (auto simp: rows_stay_def list_ex_iff)
  have frame: "protected mid (update_stories eid (\<lambda>x. x\<lparr>sy_archived := b\<rparr>) (vs_meanwhile v db)) = protected mid (vs_meanwhile v db)"
    if there: ?there and "mid \<noteq> here" for b
    by (rule update_stories_protected) (use home [OF there] that(2) in auto)
  show "safe_at user mid (vs_meanwhile v) db
     (if \<not> ?there then halt (Aborted 404 [])
      else then_do (field v ''action'' 200 False) (\<lambda>action.
        if action \<notin> {lit ''archive'', lit ''restore''} then halt (Aborted 400 [])
        else owner_edit v 1 u here (lit ''event-'' @ action) (Some eid)
          (\<lambda>db. Inr (update_stories eid (\<lambda>x. x\<lparr>sy_archived := (action = lit ''archive'')\<rparr>) db)) (Redirect ''manage'' [here])))"
    by (intro safe_at_then [OF quiet_field] safe_at_if safe_at_owner_edit [OF u] safe_at_safe [OF calm_safe [OF calm_leaf(2)]])
       (auto simp: frame)
qed

section \<open>A request\<close>

lemma quiet_prepare: "quiet (prepare C v)"
proof -
  have "quiet (give_csrf v)" "quiet (\<lambda>w. (w, Inr (session_user w)))"
    by (auto simp: quiet_def give_csrf_def split: option.split)
  moreover have "quiet (check_form C v csrf)" for csrf
    by (auto simp: check_form_def quiet_rules split: sum.split)
  ultimately show ?thesis
    by (simp add: prepare_def quiet_rules)
qed

lemma dispatch_safe:
  assumes "rows_stay db (vs_meanwhile v db)"
  shows "safe_at user mid (vs_meanwhile v) db (dispatch C v user r)"
  using safe_update_media [OF assms] safe_archive_event [OF assms]
  by (cases r) (simp_all add: safe_at_safe route_safe safe_rules calm_safe)

end
