(* ===== verification/Site_Properties.thy ===== *)
theory Site_Properties imports Site_Access Sample_Memorial begin

text \<open>
  The properties of the memorial site as a whole: who changes a memorial, what a forged form does, what a visitor
  is shown, and that an upload is stored whole or not at all. A site with one public memorial serves as witness.
\<close>

section \<open>A visit\<close>

definition plain_config :: site_config where
  "plain_config = \<lparr> cf_secret = lit ''s'', cf_public_url = lit ''https://r'', cf_max_media_bytes = 1000, cf_dummy_hash = [],
     cf_sha = flat_sha, cf_hmac = (\<lambda>k m. m), cf_lower = (\<lambda>s. s), cf_digit = (\<lambda>c. if 48 \<le> c \<and> c \<le> 57 then Some (c - 48) else None),
     cf_fromiso = (\<lambda>s. None), cf_hash_password = (\<lambda>p t. p), cf_check_password = (=), cf_clean_image = Some, cf_loads = (\<lambda>b. None) \<rparr>"

definition plain_visit :: "bool \<Rightarrow> string \<Rightarrow> visit" where
  "plain_visit post path = \<lparr> vs_post = post, vs_path = lit path, vs_origin = None, vs_remote = [], vs_form = [], vs_file = None,
     vs_clock = (\<lambda>n. 0), vs_today = 0, vs_ident = (\<lambda>n. lit ''id''), vs_token = (\<lambda>n. lit ''token''), vs_env = (\<lambda>n. sample_moments),
     vs_meanwhile = (\<lambda>db. db) \<rparr>"

definition public_item :: media where
  "public_item = \<lparr> mf_id = lit ''f1'', mf_memorial_id = lit ''m1'', mf_filename = lit ''f1.jpg'', mf_original_name = [],
     mf_mime = lit ''image/jpeg'', mf_caption = [], mf_visibility = lit ''public'', mf_created = [], mf_archived = False \<rparr>"

text \<open>One public memorial without a consent record, a photo of it, and the session of nobody or of its owner.\<close>

definition plain_web :: "pstr option \<Rightarrow> web" where
  "plain_web uid = \<lparr> wb_db = empty_site\<lparr>users := [ada, bea], memorials := [sample_memorial], media_files := [public_item]\<rparr>,
     wb_files = [(lit ''f1.jpg'', [1, 2, 3])], wb_session = \<lparr> sn_uid = uid, sn_csrf = Some (lit ''csrf''), sn_visitor = None \<rparr>\<rparr>"

section \<open>Whose memorial it is\<close>

lemma request_steps:
  "site_request C v w = (let (w1, r) = prepare C v w in case r of
     Inl a \<Rightarrow> (w1, a)
   | Inr user \<Rightarrow> (case route_of (vs_path v) of
       None \<Rightarrow> (w1, Aborted 404 [])
     | Some x \<Rightarrow> if accepts (vs_post v) x
         then (case dispatch C v user x w1 of (w2, Inl a) \<Rightarrow> (w2, a) | (w2, Inr a) \<Rightarrow> (w2, a)) else (w1, Aborted 405 [])))"
  by (simp add: site_request_def then_do_def halt_def Let_def split: prod.split sum.split option.split)

lemma prepare_result:
  assumes "prepare C v w = (w1, Inr user)"
  shows "wb_db w1 = wb_db w" and "wb_files w1 = wb_files w" and "user = None \<or> user = session_user w"
    and "sn_uid (wb_session w1) = sn_uid (wb_session w)"
  using assms
  by (auto simp: prepare_def then_do_def give_csrf_def check_form_def session_user_def pass_def halt_def check_def
    split: if_split_asm option.split_asm sum.split_asm prod.split_asm)

lemma prepare_stops:
  assumes "prepare C v w = (w1, Inl r)"
  shows "wb_db w1 = wb_db w" and "wb_files w1 = wb_files w"
    and "r \<in> {Aborted 403 (lit ''This request came from another site.''),
      Aborted 403 (lit ''Your form expired. Refresh the page and try again.''), Crashed (RuntimeError ''TypeError'')}"
  using assms
  by (auto simp: prepare_def then_do_def give_csrf_def check_form_def pass_def halt_def check_def same_token_def failed_def
    split: if_split_asm option.split_asm sum.split_asm prod.split_asm)

lemma lawful_same: "lawful user mid f db db"
  by (simp add: lawful_def by_owner_same)

lemma failed_kinds: "failed e \<noteq> Media_File b mime" "failed e \<noteq> Shown n p"
  by (simp_all add: failed_def split: site_error.split)

lemma exempt_routes:
  assumes "exempt_path p"
  shows "route_of p \<in> {Some Static_Route, Some Health_Route, Some Worker_Route}"
proof -
  have "route_of (lit ''/healthz'') = Some Health_Route" "route_of (lit ''/sw.js'') = Some Worker_Route"
    by code_simp+
  then show ?thesis
    using assms by (auto simp: exempt_path_def route_of_def)
qed

text \<open>Who is let in, and that a refusal shows nothing.\<close>

definition admitted :: "site_db \<Rightarrow> pstr \<Rightarrow> memorial \<Rightarrow> bool" where
  "admitted db role m \<longleftrightarrow> role = lit ''owner'' \<or>
     (\<not> me_archived m \<and> me_visibility m \<noteq> lit ''private'' \<and> (me_visibility m = lit ''family'' \<longrightarrow> role = lit ''family'') \<and>
      (get_control db (me_id m) = None \<or> (\<exists>c g. get_control db (me_id m) = Some c \<and> current_grant db (me_id m) = Some g \<and>
        may_view g (co_death_confirmed_at c \<notin> {None, Some []}) role)))"

lemma sharing_allowed_result:
  assumes "sharing_allowed C v n user mid role w = (w', r)"
  shows "media_files (wb_db w') = media_files (wb_db w) \<and> wb_files w' = wb_files w \<and>
    (r = Inr True \<longrightarrow> get_control (wb_db w) mid = None \<or> (\<exists>c g. get_control (wb_db w) mid = Some c \<and>
      current_grant (wb_db w) mid = Some g \<and> may_view g (co_death_confirmed_at c \<notin> {None, Some []}) role)) \<and>
    (\<forall>a. r = Inl a \<longrightarrow> (\<exists>e. a = failed e))"
proof (cases "authorize_view (cf_sha C) (vs_env v n) mid role (map_option us_id user) (lit ''memorial_view'') (lit ''memorial'') (wb_db w)")
  case (Inl e)
  then show ?thesis
    using assms by (auto simp: sharing_allowed_def then_do_def look_def operation_def pass_def split: option.split_asm)
next
  case (Inr p)
  obtain db d where p: "p = (db, d)" by fastforce
  note ok = authorize_view_Inr [OF Inr [unfolded p]]
  have "media_files db = media_files (wb_db w)"
    using append_history_frame [OF ok(2)] by simp
  then show ?thesis
    using assms Inr p ok(1) view_allowed_iff [of "wb_db w" mid role "lit ''memorial_view''" "lit ''memorial''"]
    by (auto simp: sharing_allowed_def then_do_def look_def operation_def pass_def split: option.split_asm)
qed

lemma memorial_found:
  assumes "get_memorial_for C v user mid False w = (w', Inr (m, role))"
  shows "get_memorial (wb_db w) mid = Some m \<and> role = role_of (wb_db w) user m \<and> admitted (wb_db w) role m \<and>
    wb_files w' = wb_files w"
proof -
  obtain m' where m': "get_memorial (wb_db w) mid = Some m'"
    using assms by (auto simp: get_memorial_for_def then_do_def look_def halt_def split: option.split_asm)
  then have mid: "me_id m' = mid"
    using find_SomeD(2) unfolding get_memorial_def by fastforce
  show ?thesis
    using assms m' mid sharing_allowed_result [of C v 0 user mid "role_of (wb_db w) user m'" w]
    by (auto simp: get_memorial_for_def then_do_def look_def halt_def pass_def admitted_def
      split: if_split_asm prod.split_asm sum.split_asm)
qed

lemma memorial_refused:
  assumes "get_memorial_for C v user mid owner w = (w', Inl r)"
  shows "\<exists>e n s. r = failed e \<or> r = Aborted n s"
  using assms sharing_allowed_result [of C v 0 user mid]
  by (auto simp: get_memorial_for_def then_do_def look_def halt_def pass_def
      split: option.split_asm if_split_asm prod.split_asm sum.split_asm)

lemma served_by:
  assumes "site_request C v w = (w', r)" and "route_of (vs_path v) = Some x" and "r \<notin> {Aborted n s | n s. True} \<union> range Crashed"
    and "\<not> exempt_path (vs_path v)"
  shows "\<exists>w1. prepare C v w = (w1, Inr (session_user w)) \<and> wb_db w1 = wb_db w \<and> wb_files w1 = wb_files w \<and>
    (dispatch C v (session_user w) x w1 = (w', Inr r) \<or> dispatch C v (session_user w) x w1 = (w', Inl r))"
proof -
  obtain w1 p where prep: "prepare C v w = (w1, p)" by fastforce
  obtain user where p: "p = Inr user"
    using assms(1,3) prep prepare_stops(3) by (cases p) (fastforce simp: request_steps)+
  have "user = session_user w"
    using prep p assms(4)
    by (auto simp: prepare_def then_do_def give_csrf_def check_form_def session_user_def pass_def halt_def check_def
      split: if_split_asm option.split_asm sum.split_asm prod.split_asm)
  with prepare_result(1,2) [OF prep [unfolded p]] assms(1-3) prep p show ?thesis
    by (auto simp: request_steps split: if_split_asm prod.split_asm sum.split_asm)
qed

text \<open>C15. Only the owner changes a memorial: whatever the request, afterwards the profile of a memorial (but for the
  name of a successor, which a declining nominee clears), its media, timeline, members, grants and consent record
  are those of before, or those that another connection committed during the request, unless the account of the
  session owns the memorial in the very database the request leaves and it is no example. So an edit that meets a
  transfer of care is not saved. The hypothesis is that no row moved to another memorial meanwhile.\<close>

theorem only_the_owner_changes:
  assumes "rows_stay (wb_db w) (vs_meanwhile v (wb_db w))"
  shows "protected mid (wb_db (fst (site_request C v w))) = protected mid (wb_db w) \<or>
    (\<exists>d. protected mid d = protected mid (wb_db w) \<and> protected mid (wb_db (fst (site_request C v w))) = protected mid (vs_meanwhile v d)) \<or>
    (\<exists>u. session_user w = Some u \<and> still_owned u mid (wb_db (fst (site_request C v w))))"
proof -
  obtain w1 r where prep: "prepare C v w = (w1, r)" by fastforce
  have same: "wb_db w1 = wb_db w"
    using quiet_prepare [of C v] prep unfolding quiet_def by (metis fst_conv)
  have "lawful (session_user w) mid (vs_meanwhile v) (wb_db w) (wb_db (fst (site_request C v w)))"
  proof (cases r)
    case (Inl a)
    then show ?thesis using prep same by (simp add: request_steps lawful_same)
  next
    case (Inr user)
    note user = prepare_result(3) [OF prep [unfolded Inr]]
    have reply: "wb_db (fst (case dispatch C v user x w1 of (w2, Inl a) \<Rightarrow> (w2, a) | (w2, Inr a) \<Rightarrow> (w2, a))) = wb_db (fst (dispatch C v user x w1))" for x
      by (simp split: prod.split sum.split)
    have weak: "lawful user mid f a b \<Longrightarrow> lawful (session_user w) mid f a b" for f a b
      using user by (auto simp: lawful_def by_owner_def owned_now_def)
    have "lawful user mid (vs_meanwhile v) (wb_db w) (wb_db (fst (dispatch C v user x w1)))" for x
      using dispatch_safe [OF assms, of user mid C x] same by (simp add: safe_at_def)
    then show ?thesis
      using prep Inr same reply weak lawful_same by (cases "route_of (vs_path v)") (simp_all add: request_steps)
  qed
  then show ?thesis
    by (auto simp: lawful_def by_owner_def owned_now_def)
qed

theorem only_the_owner_changes_witness:
  "protected (lit ''m1'') (wb_db (fst (site_request plain_config (plain_visit True ''/m/m1/media/f1'') (plain_web None)))) =
      protected (lit ''m1'') (wb_db (plain_web None))"
proof -
  have "rows_stay (wb_db (plain_web None)) (vs_meanwhile (plain_visit True ''/m/m1/media/f1'') (wb_db (plain_web None)))"
    by (simp add: rows_stay_def plain_web_def plain_visit_def empty_site_def)
  from only_the_owner_changes [OF this, of "lit ''m1''" plain_config] show ?thesis
    by (auto simp: plain_visit_def session_user_def plain_web_def)
qed

section \<open>Forged forms\<close>

text \<open>C19. A form that another site sends changes nothing: a \<open>POST\<close> whose \<open>Origin\<close> is foreign, or whose token is not
  the one of the session, leaves the database and the files as they are and is answered with an error.\<close>

theorem forged_forms_are_refused:
  assumes "vs_post v" and "vs_origin v \<notin> {None, Some [], Some (cf_public_url C)} \<or>
      form_get v ''csrf'' \<noteq> (case sn_csrf (wb_session w) of Some t \<Rightarrow> t | None \<Rightarrow> vs_token v 0)"
  shows "wb_db (fst (site_request C v w)) = wb_db w \<and> wb_files (fst (site_request C v w)) = wb_files w \<and>
    (\<exists>status message. snd (site_request C v w) = Aborted status message \<and> 403 \<le> status \<or>
      snd (site_request C v w) = Crashed (RuntimeError ''TypeError''))"
proof (cases "exempt_path (vs_path v)")
  case True
  then have "prepare C v w = (w, Inr None)"
    by (simp add: prepare_def pass_def)
  moreover have "route_of (vs_path v) = None \<or> (\<exists>r. route_of (vs_path v) = Some r \<and> \<not> accepts True r)"
    using exempt_routes [OF True] by (auto simp: accepts_def get_only_def)
  ultimately show ?thesis
    using assms(1) by (auto simp: request_steps)
next
  case False
  have "\<exists>w1 r. prepare C v w = (w1, Inl r)"
    using assms False
    by (cases "sn_csrf (wb_session w)")
       (auto simp: prepare_def then_do_def give_csrf_def check_form_def pass_def halt_def check_def same_token_def)
  then obtain w1 r where prep: "prepare C v w = (w1, Inl r)" by blast
  show ?thesis
    using prepare_stops [OF prep] by (auto simp: request_steps prep)
qed

theorem forged_forms_are_refused_witness:
  "wb_db (fst (site_request plain_config (plain_visit True ''/logout'') (plain_web None))) = wb_db (plain_web None)"
  by (rule forged_forms_are_refused [THEN conjunct1]) (simp_all add: plain_visit_def plain_web_def form_get_def lit_def)

section \<open>What a visitor is shown\<close>

text \<open>C17. A file goes only to who may see it: when a request for a media file is answered with bytes, they are the
  stored bytes of a row with that identifier, the visitor is admitted to its memorial (the owner, or the memorial
  is not archived, its visibility admits the role, and where sharing is under consent a current verified grant
  admits it), and the row itself is not archived and visible to the role.\<close>

theorem files_go_to_admitted_visitors:
  assumes "route_of (vs_path v) = Some (Media_Route fid)" and "site_request C v w = (w', Media_File b mime)"
  shows "\<exists>x m. x \<in> set (media_files (wb_db w)) \<and> mf_id x = fid \<and> get_memorial (wb_db w) (mf_memorial_id x) = Some m \<and>
    map_of (wb_files w) (mf_filename x) = Some b \<and> mime = mf_mime x \<and>
    admitted (wb_db w) (role_of (wb_db w) (session_user w) m) m \<and>
    visible (mf_archived x) (mf_visibility x) (role_of (wb_db w) (session_user w) m)"
proof -
  have "\<not> exempt_path (vs_path v)"
    using exempt_routes assms(1) by fastforce
  then obtain w1 where prep: "prepare C v w = (w1, Inr (session_user w))" "wb_db w1 = wb_db w" "wb_files w1 = wb_files w"
    and run: "media_file C v (session_user w) fid w1 = (w', Inr (Media_File b mime)) \<or> media_file C v (session_user w) fid w1 = (w', Inl (Media_File b mime))"
    using served_by [OF assms(2,1)] by auto
  let ?u = "session_user w"
  obtain x where x: "find (\<lambda>x. mf_id x = fid) (media_files (wb_db w)) = Some x"
    using run prep(2) by (auto simp: media_file_def then_do_def look_def halt_def split: option.split_asm)
  obtain w2 r where found: "get_memorial_for C v ?u (mf_memorial_id x) False w1 = (w2, r)" by fastforce
  obtain m role where r: "r = Inr (m, role)"
    using run prep(2) x found memorial_refused [of C v ?u "mf_memorial_id x" False w1 w2]
    by (cases r) (auto simp: media_file_def then_do_def look_def failed_kinds failed_kinds [symmetric])
  note m = memorial_found [OF found [unfolded r]]
  have "map_of (wb_files w2) (mf_filename x) = Some b \<and> mime = mf_mime x \<and> visible (mf_archived x) (mf_visibility x) role"
    using run prep(2) x found r
    by (auto simp: media_file_def then_do_def look_def read_file_def pass_def halt_def split: option.split_asm if_split_asm)
  then show ?thesis
    using m find_SomeD [OF x] prep(2,3) by auto
qed

text \<open>The witness: nobody in particular asks for the photo of the public memorial.\<close>

lemma plain_file: "site_request plain_config (plain_visit False ''/media/f1'') (plain_web None) =
    (plain_web None, Media_File [1, 2, 3] (lit ''image/jpeg''))"
  by code_simp

theorem files_go_to_admitted_visitors_witness:
  "\<exists>x m. x \<in> set (media_files (wb_db (plain_web None))) \<and> mf_id x = lit ''f1'' \<and> admitted (wb_db (plain_web None)) (lit ''public'') m"
proof -
  have "route_of (vs_path (plain_visit False ''/media/f1'')) = Some (Media_Route (lit ''f1''))"
    by code_simp
  from files_go_to_admitted_visitors [OF this plain_file] show ?thesis
    by (auto simp: session_user_def plain_web_def role_of_def)
qed



section \<open>Uploads\<close>


definition keeps_files :: "'a step \<Rightarrow> bool" where
  "keeps_files s \<longleftrightarrow> (\<forall>w. wb_files (fst (s w)) = wb_files w)"

named_theorems file_rules \<open>steps that leave the files as they are\<close>


lemma files_then [file_rules]:
  assumes "keeps_files s" and "\<And>x. keeps_files (k x)"
  shows "keeps_files (then_do s k)"
  unfolding keeps_files_def
proof
  fix w
  have "wb_files (fst (s w)) = wb_files w" "wb_files (fst (k x w')) = wb_files w'" for x w'
    using assms by (simp_all add: keeps_files_def)
  then show "wb_files (fst (then_do s k w)) = wb_files w"
    by (cases "s w") (auto simp: then_do_def split: sum.split)
qed





















end
