(* ===== verification/Ledger_File.thy ===== *)
theory Ledger_File imports Erasure begin

text \<open>
  The bytes of the erasure ledger. \<open>Ledger.append\<close> writes its line with as many calls of \<open>os.write\<close> as it takes, and
  \<open>Ledger.__init__\<close> reads the file with as many calls of \<open>os.pread\<close>; how many bytes a call moves is up to the system,
  which moves at least one. Both loops are partial functions here: a loop that does not end has no value.
  The main lemmas: they end; and a file of bytes is the \<open>ledger_file\<close> of \<open>Erasure\<close> at every moment of
  an append, as it was, with an incomplete line, or with the whole line.
\<close>

section \<open>The loops\<close>

text \<open>\<open>sizes k\<close>: the bytes the \<open>k\<close>-th call would move if there are that many.\<close>

partial_function (option) write_all :: "(nat \<Rightarrow> nat) \<Rightarrow> nat \<Rightarrow> nat list \<Rightarrow> nat list \<Rightarrow> (nat list \<times> nat) option" where
  "write_all sizes k disk remaining =
     (if remaining = [] then Some (disk, k)
      else write_all sizes (Suc k) (disk @ take (sizes k) remaining) (drop (sizes k) remaining))"

partial_function (option) read_all :: "(nat \<Rightarrow> nat) \<Rightarrow> nat \<Rightarrow> nat list \<Rightarrow> nat list \<Rightarrow> nat list option" where
  "read_all sizes k disk raw =
     (let chunk = take (min (sizes k) 65536) (drop (length raw) disk) in
      if chunk = [] then Some raw else read_all sizes (Suc k) disk (raw @ chunk))"

text \<open>The file after \<open>n\<close> calls of the write loop.\<close>

primrec written :: "(nat \<Rightarrow> nat) \<Rightarrow> nat \<Rightarrow> nat \<Rightarrow> nat list \<Rightarrow> nat list \<Rightarrow> nat list" where
  "written sizes 0 k disk remaining = disk"
| "written sizes (Suc n) k disk remaining = written sizes n (Suc k) (disk @ take (sizes k) remaining) (drop (sizes k) remaining)"

lemma write_all_ends:
  assumes "\<And>k. 0 < sizes k"
  shows "\<exists>k'. write_all sizes k disk remaining = Some (disk @ remaining, k') \<and> k' \<le> k + length remaining"
proof (induction "length remaining" arbitrary: k disk remaining rule: less_induct)
  case less
  show ?case
  proof (cases "remaining = []")
    case True
    then show ?thesis
      by (subst write_all.simps) simp
  next
    case False
    then have shorter: "length (drop (sizes k) remaining) < length remaining"
      using assms [of k] by simp
    from less [OF this, of "Suc k" "disk @ take (sizes k) remaining"] obtain k'
      where "write_all sizes (Suc k) (disk @ take (sizes k) remaining) (drop (sizes k) remaining) = Some (disk @ remaining, k')"
        and "k' \<le> Suc k + length (drop (sizes k) remaining)"
      by auto
    with False shorter show ?thesis
      by (subst write_all.simps) auto
  qed
qed

text \<open>Without progress the loop never ends.\<close>

lemma write_all_stuck:
  assumes "write_all sizes k disk remaining = Some r" and "\<And>k. sizes k = 0"
  shows "remaining = []"
proof -
  have "(\<forall>k. sizes k = 0) \<longrightarrow> remaining = []"
    using assms(1)
  proof (rule write_all.raw_induct [rotated])
    fix write_all :: "(nat \<Rightarrow> nat) \<Rightarrow> nat \<Rightarrow> nat list \<Rightarrow> nat list \<Rightarrow> (nat list \<times> nat) option"
    fix sizes :: "nat \<Rightarrow> nat" and k :: nat and disk remaining :: "nat list" and r
    assume step: "\<And>sizes k disk remaining r. write_all sizes k disk remaining = Some r \<Longrightarrow> (\<forall>k. sizes k = 0) \<longrightarrow> remaining = []"
      and r: "(if remaining = [] then Some (disk, k)
        else write_all sizes (Suc k) (disk @ take (sizes k) remaining) (drop (sizes k) remaining)) = Some r"
    show "(\<forall>k. sizes k = 0) \<longrightarrow> remaining = []"
    proof (cases "remaining = []")
      case False
      with r have "write_all sizes (Suc k) (disk @ take (sizes k) remaining) (drop (sizes k) remaining) = Some r"
        by simp
      from step [OF this] show ?thesis
        by (metis drop0)
    qed simp
  qed
  with assms(2) show ?thesis
    by blast
qed

lemma read_all_ends:
  assumes "\<And>k. 0 < sizes k" and "take (length raw) disk = raw"
  shows "read_all sizes k disk raw = Some disk"
  using assms(2)
proof (induction "length disk - length raw" arbitrary: k raw rule: less_induct)
  case less
  define chunk where "chunk = take (min (sizes k) 65536) (drop (length raw) disk)"
  show ?case
  proof (cases "chunk = []")
    case True
    then have "disk = raw"
      using less.prems assms(1) [of k] by (auto simp: chunk_def)
    then show ?thesis
      by (subst read_all.simps) simp
  next
    case False
    have "take (length (raw @ chunk)) disk = raw @ chunk"
    proof -
      have "take (length (raw @ chunk)) disk = take (length raw) disk @ take (length chunk) (drop (length raw) disk)"
        by (simp add: take_add)
      also have "take (length chunk) (drop (length raw) disk) = chunk"
        by (simp add: chunk_def min_def)
      finally show ?thesis
        using less.prems by simp
    qed
    moreover have "length disk - length (raw @ chunk) < length disk - length raw"
      using False by (auto simp: chunk_def)
    ultimately have "read_all sizes (Suc k) disk (raw @ chunk) = Some disk"
      using less.hyps by blast
    with False show ?thesis
      by (subst read_all.simps) (simp add: chunk_def [symmetric])
  qed
qed

lemma written_prefix: "\<exists>m. written sizes n k disk remaining = disk @ take m remaining"
proof (induction n arbitrary: k disk remaining)
  case 0
  show ?case
    by (intro exI [of _ 0]) simp
next
  case (Suc n)
  from Suc [of "Suc k" "disk @ take (sizes k) remaining" "drop (sizes k) remaining"] obtain m
    where "written sizes (Suc n) k disk remaining = disk @ take (sizes k) remaining @ take m (drop (sizes k) remaining)"
    by auto
  then show ?case
    by (intro exI [of _ "sizes k + m"]) (simp add: take_add)
qed

section \<open>Lines\<close>

text \<open>The bytes that stand for a ledger file: its lines, each ended, and after them an unfinished line or nothing.\<close>

definition stands_for :: "nat list \<Rightarrow> ledger_file \<Rightarrow> bool" where
  "stands_for bytes f \<longleftrightarrow>
     (\<exists>rest. bytes = concat (map (\<lambda>l. utf8 l @ [10]) (lf_lines f)) @ rest \<and> 10 \<notin> set rest \<and> (lf_partial f \<longleftrightarrow> rest \<noteq> []))"

text \<open>\<open>raw and not raw.endswith(b'\n')\<close>.\<close>

definition incomplete :: "nat list \<Rightarrow> bool" where
  "incomplete raw \<longleftrightarrow> raw \<noteq> [] \<and> last raw \<noteq> 10"

lemma stands_for_incomplete: "stands_for bytes f \<Longrightarrow> incomplete bytes \<longleftrightarrow> lf_partial f"
proof -
  assume "stands_for bytes f"
  then obtain rest where bytes: "bytes = concat (map (\<lambda>l. utf8 l @ [10]) (lf_lines f)) @ rest" and "10 \<notin> set rest"
    and partial: "lf_partial f \<longleftrightarrow> rest \<noteq> []"
    unfolding stands_for_def by blast
  show ?thesis
  proof (cases "rest = []")
    case True
    then show ?thesis
      by (cases "lf_lines f" rule: rev_cases) (auto simp: bytes partial incomplete_def)
  next
    case False
    with \<open>10 \<notin> set rest\<close> show ?thesis
      using last_in_set [OF False] by (cases "last rest = 10") (simp_all add: bytes partial incomplete_def)
  qed
qed

lemma written_stands_for:
  fixes sizes :: "nat \<Rightarrow> nat" and n k :: nat
  assumes "stands_for bytes f" and "\<not> lf_partial f" and line: "10 \<notin> set (utf8 line)"
  defines "bytes' \<equiv> written sizes n k bytes (utf8 line @ [10])"
  shows "stands_for bytes' f \<or> stands_for bytes' (f\<lparr>lf_partial := True\<rparr>) \<or> stands_for bytes' (f\<lparr>lf_lines := lf_lines f @ [line]\<rparr>)"
proof -
  obtain m where m: "bytes' = bytes @ take m (utf8 line @ [10])"
    unfolding bytes'_def using written_prefix by blast
  have bytes: "bytes = concat (map (\<lambda>l. utf8 l @ [10]) (lf_lines f))"
    using assms(1,2) unfolding stands_for_def by auto
  show ?thesis
  proof (cases "m \<le> length (utf8 line)")
    case True
    then have "bytes' = bytes @ take m (utf8 line)"
      by (simp add: m)
    moreover have "10 \<notin> set (take m (utf8 line))"
      using line by (auto dest: in_set_takeD)
    ultimately show ?thesis
      using assms(2) by (cases "take m (utf8 line) = []") (auto simp: stands_for_def bytes)
  next
    case False
    then have "bytes' = bytes @ utf8 line @ [10]"
      by (simp add: m)
    with assms(2) show ?thesis
      by (auto simp: stands_for_def bytes)
  qed
qed

section \<open>A line holds no line feed\<close>

lemma utf8_newline: "10 \<in> set (utf8 s) \<longleftrightarrow> 10 \<in> set s"
  by (induction s) (auto simp: utf8_char_def)

lemma pad16_plain: "c \<in> set (pad16 w n) \<Longrightarrow> 48 \<le> c"
  by (auto simp: pad16_def digit_char_def)

lemma json_str_newline: "10 \<notin> set (json_str s)"
proof -
  have "10 \<notin> set (esc c)" for c
    using pad16_plain [of 10 2 c] by (auto simp: esc_def)
  then show ?thesis
    by (auto simp: json_str_def)
qed

lemma commas_newline: "10 \<in> set (commas ts) \<longleftrightarrow> (\<exists>t \<in> set ts. 10 \<in> set t)"
  by (cases ts) (auto simp: commas_def)

lemma enc_newline: "10 \<notin> set (enc v)"
proof (induction v)
  case (JInt i)
  show ?case
    using dec_digits [of 10] by (auto simp: int_str_def)
next
  case (JObj kvs)
  then show ?case
    using json_str_newline by (fastforce simp: commas_newline)
qed (auto simp: lit_def json_str_newline commas_newline)

lemma entry_line_newline: "10 \<notin> set (utf8 (entry_line e))"
  unfolding utf8_newline entry_line_def canonical_json_def by (rule enc_newline)

end
