(* ===== verification/Ledger_File_Properties.thy ===== *)
theory Ledger_File_Properties imports Ledger_File begin

text \<open>
  The properties of the bytes of the erasure ledger, with their witnesses on an empty file and a system that moves seven
  bytes at a time.
\<close>

text \<open>C21. Appending an entry ends, however few bytes each call of \<open>os.write\<close> takes as long as it takes some, after at most
  as many calls as there are bytes; the file then holds the old lines and the new one, and reading it back ends with all of it.\<close>

theorem append_to_ledger_ends:
  assumes "\<And>k. 0 < sizes k" and "\<And>k. 0 < chunks k" and "stands_for disk f" and "\<not> lf_partial f"
  shows "\<exists>disk' k. write_all sizes 0 disk (utf8 (entry_line e) @ [10]) = Some (disk', k) \<and>
     k \<le> Suc (length (utf8 (entry_line e))) \<and> read_all chunks 0 disk' [] = Some disk' \<and>
     stands_for disk' (f\<lparr>lf_lines := lf_lines f @ [entry_line e]\<rparr>)"
proof -
  let ?line = "utf8 (entry_line e) @ [10]"
  obtain k where "write_all sizes 0 disk ?line = Some (disk @ ?line, k)" and "k \<le> length ?line"
    using write_all_ends [where sizes = sizes and k = 0 and disk = disk and remaining = ?line] assms(1) by auto
  moreover have "read_all chunks 0 (disk @ ?line) [] = Some (disk @ ?line)"
    by (rule read_all_ends) (simp_all add: assms(2))
  moreover have "stands_for (disk @ ?line) (f\<lparr>lf_lines := lf_lines f @ [entry_line e]\<rparr>)"
    using assms(3,4) by (auto simp: stands_for_def)
  ultimately show ?thesis
    by auto
qed

definition first_entry :: ledger_entry where
  "first_entry = \<lparr> le_sequence = 1, le_memorial_id = lit ''m'', le_decided_at = lit ''d'', le_actor = lit ''operator:o'',
     le_evidence_digest = lit ''e'', le_previous_hash = lit ''0'', le_entry_hash = lit ''h'' \<rparr>"

definition empty_ledger :: ledger_file where
  "empty_ledger = \<lparr> lf_lines = [], lf_partial = False \<rparr>"

lemma empty_stands [simp]: "stands_for [] empty_ledger" "\<not> lf_partial empty_ledger"
  by (simp_all add: stands_for_def empty_ledger_def)

theorem append_to_ledger_ends_witness:
  "\<exists>disk k. write_all (\<lambda>k. 7) 0 [] (utf8 (entry_line first_entry) @ [10]) = Some (disk, k) \<and>
     stands_for disk (empty_ledger\<lparr>lf_lines := [entry_line first_entry]\<rparr>)"
  using append_to_ledger_ends [of "\<lambda>k. 7" "\<lambda>k. 9" "[]" empty_ledger first_entry]
  by (auto simp: empty_ledger_def stands_for_def)

text \<open>C37. The ledger file of the erasure model is what the bytes are at every moment of an append: after any number of
  writes the file stands for the old ledger, for the old ledger with an incomplete line, which is what the next start
  refuses, or for the ledger with the new line.\<close>

theorem interrupted_append_is_seen:
  assumes "stands_for disk f" and "\<not> lf_partial f" and "disk' = written sizes n k disk (utf8 (entry_line e) @ [10])"
  shows "\<exists>f'. stands_for disk' f' \<and> f' \<in> {f, f\<lparr>lf_partial := True\<rparr>, f\<lparr>lf_lines := lf_lines f @ [entry_line e]\<rparr>} \<and>
     (incomplete disk' \<longleftrightarrow> lf_partial f')"
  using written_stands_for [OF assms(1,2) entry_line_newline] stands_for_incomplete unfolding assms(3) by blast

theorem interrupted_append_is_seen_witness:
  "\<exists>f'. stands_for (written (\<lambda>k. 7) 2 0 [] (utf8 (entry_line first_entry) @ [10])) f'"
  using interrupted_append_is_seen [OF empty_stands refl] by blast

end
