(* ===== verification/Saint_Regex.thy ===== *)
theory Saint_Regex imports Vocabulary begin

text \<open>
  The part of Python's \<open>re\<close> module The Saint uses, as a backtracking matcher: \<open>run\<close> lists every way a
  pattern can match at a place of a text, in the order the engine tries them, so its first element is the
  match of \<open>re\<close>. A place is a cursor: the text before it, nearest character first, and the text after it.
  \<open>searches\<close>, \<open>matches\<close>, \<open>sub\<close>, \<open>splits\<close> and \<open>findall\<close> are \<open>re.search\<close>, \<open>re.match\<close>, \<open>re.sub\<close>,
  \<open>re.split\<close> and \<open>re.findall\<close>; the patterns of the program that are used with the last three never match
  the empty text (\<open>eager\<close>). The main lemmas: a match consumes a prefix of what is left, and cutting a text
  at the matches loses nothing of it.
\<close>

section \<open>Patterns\<close>

type_synonym cursor = "pstr \<times> pstr"

text \<open>\<open>Then r k\<close> is \<open>(r)\<close> followed by a pattern that may refer back to what the group took.\<close>

datatype rx =
    Empty
  | One "nat \<Rightarrow> bool"
  | Seq rx rx
  | Alt rx rx
  | Many rx
  | Few rx
  | Then rx "pstr \<Rightarrow> rx"
  | Start
  | Line_Start
  | Stop
  | Line_Stop

text \<open>The text between two cursors.\<close>

definition between :: "cursor \<Rightarrow> cursor \<Rightarrow> pstr" where
  "between c d = take (length (snd c) - length (snd d)) (snd c)"

function many :: "(cursor \<Rightarrow> cursor list) \<Rightarrow> cursor \<Rightarrow> cursor list" where
  "many f c = concat (map (\<lambda>d. if length (snd d) < length (snd c) then many f d else []) (f c)) @ [c]"
  by pat_completeness auto
termination
  by (relation "measure (\<lambda>(f, c). length (snd c))") auto

function few :: "(cursor \<Rightarrow> cursor list) \<Rightarrow> cursor \<Rightarrow> cursor list" where
  "few f c = c # concat (map (\<lambda>d. if length (snd d) < length (snd c) then few f d else []) (f c))"
  by pat_completeness auto
termination
  by (relation "measure (\<lambda>(f, c). length (snd c))") auto

declare many.simps [simp del] few.simps [simp del]

definition step_over :: "(nat \<Rightarrow> bool) \<Rightarrow> cursor \<Rightarrow> cursor list" where
  "step_over P c = (case snd c of [] \<Rightarrow> [] | x # a \<Rightarrow> if P x then [(x # fst c, a)] else [])"

primrec run :: "rx \<Rightarrow> cursor \<Rightarrow> cursor list" where
  "run Empty c = [c]"
| "run (One P) c = step_over P c"
| "run (Seq r s) c = concat (map (run s) (run r c))"
| "run (Alt r s) c = run r c @ run s c"
| "run (Many r) c = many (run r) c"
| "run (Few r) c = few (run r) c"
| "run (Then r k) c = concat (map (\<lambda>d. run (k (between c d)) d) (run r c))"
| "run Start c = (if fst c = [] then [c] else [])"
| "run Line_Start c = (if fst c = [] \<or> hd (fst c) = 10 then [c] else [])"
| "run Stop c = (if snd c = [] \<or> snd c = [10] then [c] else [])"
| "run Line_Stop c = (if snd c = [] \<or> hd (snd c) = 10 then [c] else [])"

subsection \<open>Notation of the patterns\<close>

definition optional :: "rx \<Rightarrow> rx" where "optional r = Alt r Empty"

primrec times :: "nat \<Rightarrow> rx \<Rightarrow> rx" where
  "times 0 r = Empty"
| "times (Suc n) r = Seq r (times n r)"

definition at_least :: "nat \<Rightarrow> rx \<Rightarrow> rx" where "at_least n r = Seq (times n r) (Many r)"

primrec up_to :: "nat \<Rightarrow> rx \<Rightarrow> rx" where
  "up_to 0 r = Empty"
| "up_to (Suc n) r = Alt (Seq r (up_to n r)) Empty"

definition exactly :: "pstr \<Rightarrow> rx" where
  "exactly s = foldr (\<lambda>x. Seq (One (\<lambda>c. c = x))) s Empty"

text \<open>
  \<open>re.IGNORECASE\<close> on ASCII letters. Besides the letter and its capital, the engine takes the dotted capital
  and the dotless small i for i, the long s for s and the Kelvin sign for k.
\<close>

definition caseless :: "nat \<Rightarrow> nat" where
  "caseless c = (if 65 \<le> c \<and> c \<le> 90 then c + 32 else if c = 304 \<or> c = 305 then 105
     else if c = 383 then 115 else if c = 8490 then 107 else c)"

definition anycase :: "string \<Rightarrow> rx" where
  "anycase w = foldr (\<lambda>x. Seq (One (\<lambda>c. caseless c = x))) (lit w) Empty"

primrec one_of :: "rx \<Rightarrow> rx list \<Rightarrow> rx" where
  "one_of r [] = r"
| "one_of r (s # ss) = Alt r (one_of s ss)"

primrec seqs :: "rx list \<Rightarrow> rx" where
  "seqs [] = Empty"
| "seqs (r # rs) = Seq r (seqs rs)"

text \<open>\<open>.\<close>, \<open>\s\<close> and \<open>\S\<close>.\<close>

definition dot :: rx where "dot = One (\<lambda>c. c \<noteq> 10)"
definition space :: rx where "space = One py_isspace"
definition nonspace :: rx where "nonspace = One (\<lambda>c. \<not> py_isspace c)"

section \<open>Searching\<close>

fun find_from :: "rx \<Rightarrow> pstr \<Rightarrow> pstr \<Rightarrow> (cursor \<times> cursor) option" where
  "find_from r b [] = (case run r (b, []) of d # _ \<Rightarrow> Some ((b, []), d) | [] \<Rightarrow> None)"
| "find_from r b (x # a) = (case run r (b, x # a) of d # _ \<Rightarrow> Some ((b, x # a), d) | [] \<Rightarrow> find_from r (x # b) a)"

definition searches :: "rx \<Rightarrow> pstr \<Rightarrow> bool" where
  "searches r s \<longleftrightarrow> find_from r [] s \<noteq> None"

definition matches :: "rx \<Rightarrow> pstr \<Rightarrow> bool" where
  "matches r s \<longleftrightarrow> run r ([], s) \<noteq> []"

lemma find_from_later:
  assumes "find_from r b a = Some (m, d)"
  shows "\<exists>g. a = g @ snd m \<and> fst m = rev g @ b \<and> d \<in> set (run r m)"
  using assms
proof (induction a arbitrary: b)
  case Nil
  then show ?case
    by (cases "run r (b, [])") auto
next
  case (Cons x a)
  show ?case
  proof (cases "run r (b, x # a)")
    case Nil
    with Cons.prems obtain g where "a = g @ snd m" and "fst m = rev g @ x # b" and "d \<in> set (run r m)"
      using Cons.IH [of "x # b"] by auto
    then show ?thesis
      by (intro exI [of _ "x # g"]) simp
  next
    case (Cons e es)
    with Cons.prems show ?thesis
      by auto
  qed
qed

lemma find_from_None: "find_from r b a = None \<Longrightarrow> a = g @ a' \<Longrightarrow> run r (rev g @ b, a') = []"
proof (induction a arbitrary: b g)
  case Nil
  then show ?case
    by (cases "run r (b, [])") auto
next
  case (Cons x a)
  then show ?case
    by (cases "run r (b, x # a)"; cases g) auto
qed

text \<open>The matches of a text from left to right, each with the text between it and the one before, and the rest.\<close>

function pieces :: "rx \<Rightarrow> cursor \<Rightarrow> (pstr \<times> pstr) list \<times> pstr" where
  "pieces r c =
     (case find_from r (fst c) (snd c) of
        None \<Rightarrow> ([], snd c)
      | Some (m, d) \<Rightarrow>
          if length (snd d) < length (snd m)
          then map_prod (Cons (between c m, between m d)) id (pieces r d)
          else ([], snd c))"
  by pat_completeness auto
termination
  by (relation "measure (\<lambda>(r, c). length (snd c))") (auto dest!: find_from_later)

declare pieces.simps [simp del]

definition sub :: "rx \<Rightarrow> pstr \<Rightarrow> pstr \<Rightarrow> pstr" where
  "sub r by s = (let (ps, rest) = pieces r ([], s) in concat (map (\<lambda>(g, _). g @ by) ps) @ rest)"

definition findall :: "rx \<Rightarrow> pstr \<Rightarrow> pstr list" where
  "findall r s = map snd (fst (pieces r ([], s)))"

definition splits :: "rx \<Rightarrow> pstr \<Rightarrow> pstr list" where
  "splits r s = (let (ps, rest) = pieces r ([], s) in map fst ps @ [rest])"

section \<open>Matches move forward\<close>

text \<open>One cursor is reached from another by reading on.\<close>

definition onward :: "cursor \<Rightarrow> cursor \<Rightarrow> bool" where
  "onward c d \<longleftrightarrow> (\<exists>g. snd c = g @ snd d \<and> fst d = rev g @ fst c)"

lemma onward_refl [simp]: "onward c c"
  by (simp add: onward_def)

lemma onward_trans: "onward c d \<Longrightarrow> onward d e \<Longrightarrow> onward c e"
  by (fastforce simp: onward_def)

lemma onward_between: "onward c d \<Longrightarrow> snd c = between c d @ snd d"
  by (auto simp: onward_def between_def)

lemma onward_length: "onward c d \<Longrightarrow> length (snd d) \<le> length (snd c)"
  by (auto simp: onward_def)

lemma many_onward:
  assumes "\<And>c d. d \<in> set (f c) \<Longrightarrow> onward c d"
  shows "d \<in> set (many f c) \<Longrightarrow> onward c d"
proof (induction "length (snd c)" arbitrary: c rule: less_induct)
  case less
  from less.prems consider "d = c" | e where "e \<in> set (f c)" and "length (snd e) < length (snd c)" and "d \<in> set (many f e)"
    by (subst (asm) many.simps) (auto split: if_splits)
  then show ?case
    by cases (auto intro: onward_trans [OF assms less.hyps])
qed

lemma few_onward:
  assumes "\<And>c d. d \<in> set (f c) \<Longrightarrow> onward c d"
  shows "d \<in> set (few f c) \<Longrightarrow> onward c d"
proof (induction "length (snd c)" arbitrary: c rule: less_induct)
  case less
  from less.prems consider "d = c" | e where "e \<in> set (f c)" and "length (snd e) < length (snd c)" and "d \<in> set (few f e)"
    by (subst (asm) few.simps) (auto split: if_splits)
  then show ?case
    by cases (auto intro: onward_trans [OF assms less.hyps])
qed

lemma step_over_onward: "d \<in> set (step_over P c) \<Longrightarrow> onward c d"
  by (auto simp: step_over_def onward_def split: list.splits if_splits)

theorem run_onward: "d \<in> set (run r c) \<Longrightarrow> onward c d"
proof (induction r arbitrary: c d)
  case (Seq r s)
  then obtain e where "e \<in> set (run r c)" and "d \<in> set (run s e)"
    by auto
  with Seq.IH show ?case
    using onward_trans by blast
next
  case (Many r)
  then show ?case
    using many_onward [of "run r"] by simp
next
  case (Few r)
  then show ?case
    using few_onward [of "run r"] by simp
next
  case (Then r k)
  then obtain e where "e \<in> set (run r c)" and "d \<in> set (run (k (between c e)) e)"
    by auto
  with Then.IH show ?case
    using onward_trans by blast
qed (auto dest: step_over_onward split: if_splits)

text \<open>What a successful search found: a place reached by reading on, and a match from there.\<close>

lemma find_from_onward:
  assumes "find_from r (fst c) (snd c) = Some (m, d)"
  shows "onward c m" and "onward m d"
proof -
  from find_from_later [OF assms] obtain g where "snd c = g @ snd m" and "fst m = rev g @ fst c" and d: "d \<in> set (run r m)"
    by blast
  then show "onward c m"
    by (auto simp: onward_def)
  show "onward m d"
    by (rule run_onward [OF d])
qed

lemma pieces_cases:
  obtains (stop) "pieces r c = ([], snd c)"
  | (more) m d where "find_from r (fst c) (snd c) = Some (m, d)" and "length (snd d) < length (snd m)"
      and "pieces r c = map_prod (Cons (between c m, between m d)) id (pieces r d)"
proof (cases "find_from r (fst c) (snd c)")
  case None
  then have "pieces r c = ([], snd c)"
    by (subst pieces.simps) simp
  then show thesis
    by (rule stop)
next
  case (Some found)
  obtain m d where found: "found = (m, d)"
    by (cases found)
  show thesis
  proof (cases "length (snd d) < length (snd m)")
    case True
    with Some found have "pieces r c = map_prod (Cons (between c m, between m d)) id (pieces r d)"
      by (subst pieces.simps) simp
    with Some found True show thesis
      by (intro more) simp_all
  next
    case False
    with Some found have "pieces r c = ([], snd c)"
      by (subst pieces.simps) simp
    then show thesis
      by (rule stop)
  qed
qed

lemma pieces_lossless: "concat (map (\<lambda>(g, m). g @ m) (fst (pieces r c))) @ snd (pieces r c) = snd c"
proof (induction "length (snd c)" arbitrary: c rule: less_induct)
  case less
  show ?case
  proof (cases r c rule: pieces_cases)
    case (more m d)
    note onward = find_from_onward [OF more(1)]
    have "length (snd d) < length (snd c)"
      using more(2) onward_length [OF onward(1)] by simp
    from less [OF this] show ?thesis
      by (simp add: more(3) fst_map_prod snd_map_prod onward_between [OF onward(1)] onward_between [OF onward(2)])
  qed simp
qed

text \<open>What \<open>findall\<close> returns are matches of the pattern inside the text.\<close>

lemma pieces_match:
  "w \<in> snd ` set (fst (pieces r c)) \<Longrightarrow> \<exists>m d. onward c m \<and> d \<in> set (run r m) \<and> w = between m d \<and> w \<noteq> []"
proof (induction "length (snd c)" arbitrary: c rule: less_induct)
  case less
  show ?case
  proof (cases r c rule: pieces_cases)
    case stop
    with less.prems show ?thesis
      by simp
  next
    case (more m d)
    note onward = find_from_onward [OF more(1)]
    have shorter: "length (snd d) < length (snd c)"
      using more(2) onward_length [OF onward(1)] by simp
    from less.prems consider "w = between m d" | "w \<in> snd ` set (fst (pieces r d))"
      by (auto simp: more(3) fst_map_prod)
    then show ?thesis
    proof cases
      case 1
      from find_from_later [OF more(1)] have "d \<in> set (run r m)"
        by blast
      moreover have "between m d \<noteq> []"
        using more(2) by (auto simp: between_def)
      ultimately show ?thesis
        using onward(1) 1 by blast
    next
      case 2
      from less.hyps [OF shorter 2] show ?thesis
        using onward onward_trans by blast
    qed
  qed
qed

lemma findall_match:
  assumes "w \<in> set (findall r s)"
  shows "\<exists>m d. onward ([], s) m \<and> d \<in> set (run r m) \<and> w = between m d \<and> w \<noteq> []"
  using assms pieces_match [of w r "([], s)"] by (simp add: findall_def image_iff)

text \<open>A pattern made of one class: what it takes is of that class, and long enough.\<close>

lemma step_over_class: "d \<in> set (step_over P c) \<Longrightarrow> list_all P (between c d) \<and> length (snd c) = Suc (length (snd d))"
  by (cases "snd c") (auto simp: step_over_def between_def Suc_diff_le split: if_splits)

lemma run_One [simp]: "run (One P) = step_over P"
  by (rule ext) simp

lemma between_trans: "onward c d \<Longrightarrow> onward d e \<Longrightarrow> between c e = between c d @ between d e"
  by (auto simp: onward_def between_def)

lemma times_class:
  "d \<in> set (run (times n (One P)) c) \<Longrightarrow> list_all P (between c d) \<and> length (between c d) = n"
proof (induction n arbitrary: c)
  case (Suc n)
  then obtain e where e: "e \<in> set (step_over P c)" and d: "d \<in> set (run (times n (One P)) e)"
    by auto
  from Suc.IH [OF d] step_over_class [OF e] show ?case
    by (simp add: between_trans [OF step_over_onward [OF e] run_onward [OF d]])
      (simp add: between_def)
qed (simp add: between_def)

lemma many_class: "d \<in> set (many (step_over P) c) \<Longrightarrow> list_all P (between c d)"
proof (induction "length (snd c)" arbitrary: c rule: less_induct)
  case less
  from less.prems consider "d = c"
    | e where "e \<in> set (step_over P c)" and "length (snd e) < length (snd c)" and "d \<in> set (many (step_over P) e)"
    by (subst (asm) many.simps) (auto split: if_splits)
  then show ?case
  proof cases
    case (2 e)
    with less.hyps step_over_class [OF 2(1)] show ?thesis
      by (simp add: between_trans [OF step_over_onward [OF 2(1)] many_onward [OF step_over_onward 2(3)]])
  qed (simp add: between_def)
qed

lemma at_least_class:
  assumes "d \<in> set (run (at_least n (One P)) c)"
  shows "list_all P (between c d) \<and> n \<le> length (between c d)"
proof -
  from assms obtain e where e: "e \<in> set (run (times n (One P)) c)" and d: "d \<in> set (many (step_over P) e)"
    by (auto simp: at_least_def)
  from times_class [OF e] many_class [OF d] show ?thesis
    by (simp add: between_trans [OF run_onward [OF e] many_onward [OF step_over_onward d]])
qed

end
