(* ===== verification/Saint_Records.thy ===== *)
theory Saint_Records imports Saint_Regex Py_Parse Paths begin

text \<open>
  What the readers of The Saint share: a passage (\<open>Record\<close> of \<open>src/mirror.py\<close>), the state a reader fills
  (passages, assigned labels, watch times and the keys it has seen), the walk over every object of a
  document, and the repair of Meta's text encoding.

  Moments are microseconds, the resolution of \<open>datetime\<close>. A number of a document is an integer: as in
  \<open>json_loads\<close>, one with a fraction or an exponent has no value in \<open>json\<close>. What the code takes from Unicode
  tables, \<open>datetime\<close>, \<open>csv\<close>, \<open>urllib\<close>, \<open>json\<close> and SQLite is the record \<open>library\<close>.
\<close>

type_synonym moment = int

record passage =
  pa_text :: pstr
  pa_source :: pstr
  pa_detail :: pstr
  pa_when :: "moment option"

text \<open>An exception: one the server reports with its message, or any other.\<close>

datatype trouble = Value_Error pstr | Other_Exception

text \<open>
  \<open>lb_word\<close> and \<open>lb_decimal\<close> are the classes \<open>\w\<close> and \<open>\d\<close>; \<open>lb_fromiso\<close> and \<open>lb_strptime\<close> read a date as a moment, one
  without an offset as UTC, and have no value where Python raises \<open>ValueError\<close>; \<open>lb_query\<close> is
  \<open>parse_qs(urlparse(url).query).get('q')\<close>; \<open>lb_csv\<close> is what \<open>csv.DictReader\<close> reads, the header and then the
  rows, \<open>Inl\<close> with the message of a \<open>csv.Error\<close>; a missing cell has no value.
\<close>

type_synonym csv_row = "pstr \<Rightarrow> pstr option"
type_synonym csv_table = "pstr + (pstr list \<times> (pstr + csv_row list))"

record library =
  lb_lower :: "pstr \<Rightarrow> pstr"
  lb_word :: "nat \<Rightarrow> bool"
  lb_decimal :: "nat \<Rightarrow> bool"
  lb_fromiso :: "pstr \<Rightarrow> moment option"
  lb_strptime :: "pstr \<Rightarrow> moment option"
  lb_repr :: "json \<Rightarrow> pstr"
  lb_query :: "pstr \<Rightarrow> pstr list option"
  lb_csv :: "pstr \<Rightarrow> csv_table"
  lb_loads :: "pstr \<Rightarrow> json option"
  lb_history :: "pstr \<Rightarrow> trouble + (pstr \<times> pstr option) list"

abbreviation stripped :: "pstr \<Rightarrow> pstr" where
  "stripped s \<equiv> strip_by py_isspace s"

text \<open>\<open>parse_timestamp\<close> of a string.\<close>

definition parse_timestamp :: "library \<Rightarrow> pstr \<Rightarrow> moment option" where
  "parse_timestamp L v = lb_fromiso L (concat (map (\<lambda>c. if c = 90 then lit ''+00:00'' else [c]) (stripped v)))"

section \<open>Documents\<close>

definition dget :: "(pstr \<times> json) list \<Rightarrow> string \<Rightarrow> json option" where
  "dget d k = map_of d (lit k)"

text \<open>The string under a key, and a value \<open>isinstance(v, (int, float))\<close> holds of: a boolean is an \<open>int\<close>.\<close>

definition dstr :: "(pstr \<times> json) list \<Rightarrow> string \<Rightarrow> pstr option" where
  "dstr d k = (case dget d k of Some (JStr s) \<Rightarrow> Some s | _ \<Rightarrow> None)"

definition int_like :: "json \<Rightarrow> int option" where
  "int_like v = (case v of JInt i \<Rightarrow> Some i | JBool b \<Rightarrow> Some (if b then 1 else 0) | _ \<Rightarrow> None)"

text \<open>\<open>float(i)\<close> raises \<open>OverflowError\<close> for what rounds beyond the largest double.\<close>

definition float_overflows :: "int \<Rightarrow> bool" where
  "float_overflows i \<longleftrightarrow> 2 ^ 1024 - 2 ^ 970 \<le> \<bar>i\<bar>"

definition strings :: "json list \<Rightarrow> pstr list" where
  "strings vs = concat (map (\<lambda>v. case v of JStr s \<Rightarrow> [s] | _ \<Rightarrow> []) vs)"

text \<open>Rows of a document: \<open>blob if isinstance(blob, list) else [blob]\<close>.\<close>

definition rows_of :: "json \<Rightarrow> json list" where
  "rows_of blob = (case blob of JList vs \<Rightarrow> vs | _ \<Rightarrow> [blob])"

text \<open>\<open>_iter_dicts\<close>: every object, an outer one first, with the keys that lead to it.\<close>

fun iter_dicts :: "pstr list \<Rightarrow> json \<Rightarrow> ((pstr \<times> json) list \<times> pstr list) list" where
  "iter_dicts path (JObj kvs) = (kvs, path) # concat (map (\<lambda>(k, v). iter_dicts (path @ [k]) v) kvs)"
| "iter_dicts path (JList vs) = concat (map (iter_dicts path) vs)"
| "iter_dicts path v = []"

text \<open>The last date among the string items whose key looks like one of a date.\<close>

definition node_date :: "rx \<Rightarrow> (pstr \<Rightarrow> moment option) \<Rightarrow> (pstr \<times> json) list \<Rightarrow> moment option" where
  "node_date key_rx parse d =
     fold (\<lambda>(k, v) date. case v of
         JStr s \<Rightarrow> if searches key_rx k then (case parse s of Some t \<Rightarrow> Some t | None \<Rightarrow> date) else date
       | _ \<Rightarrow> date) d None"

section \<open>The state of a reader\<close>

record intake =
  in_seen :: "pstr list"
  in_records :: "passage list"
  in_categories :: "pstr list"
  in_watches :: "moment list"

definition nothing_read :: intake where
  "nothing_read = \<lparr> in_seen = [], in_records = [], in_categories = [], in_watches = [] \<rparr>"

definition passage_of :: "pstr \<Rightarrow> string \<Rightarrow> pstr \<Rightarrow> moment option \<Rightarrow> passage" where
  "passage_of text source detail moment = \<lparr> pa_text = text, pa_source = lit source, pa_detail = detail, pa_when = moment \<rparr>"

text \<open>\<open>if key not in seen: seen.add(key); records.append(...)\<close>.\<close>

definition accept :: "pstr \<Rightarrow> passage \<Rightarrow> intake \<Rightarrow> intake" where
  "accept key p st = (if key \<in> set (in_seen st) then st
     else st\<lparr>in_seen := key # in_seen st, in_records := in_records st @ [p]\<rparr>)"

definition add_labels :: "pstr list \<Rightarrow> intake \<Rightarrow> intake" where
  "add_labels labels st = st\<lparr>in_categories := in_categories st @ labels\<rparr>"

definition add_watch :: "moment \<Rightarrow> intake \<Rightarrow> intake" where
  "add_watch t st = st\<lparr>in_watches := in_watches st @ [t]\<rparr>"

text \<open>\<open>sorted(set(labels))\<close>.\<close>

definition sorted_set :: "pstr list \<Rightarrow> pstr list" where
  "sorted_set xs = sort (remdups xs)"

definition settle :: "intake \<Rightarrow> intake" where
  "settle st = st\<lparr>in_categories := sorted_set (in_categories st)\<rparr>"

text \<open>A loop whose body may raise.\<close>

primrec fold_try :: "('a \<Rightarrow> 's \<Rightarrow> 'e + 's) \<Rightarrow> 'a list \<Rightarrow> 's \<Rightarrow> 'e + 's" where
  "fold_try f [] st = Inr st"
| "fold_try f (x # xs) st = bindE (f x st) (fold_try f xs)"

lemma fold_try_total: "fold_try (\<lambda>x st. Inr (f x st)) xs st = Inr (fold f xs st)"
  by (induction xs arbitrary: st) simp_all

lemma fold_try_invariant:
  assumes "\<And>x st st'. x \<in> set xs \<Longrightarrow> f x st = Inr st' \<Longrightarrow> P st \<Longrightarrow> P st'" and "P st" and "fold_try f xs st = Inr st'"
  shows "P st'"
  using assms
proof (induction xs arbitrary: st)
  case (Cons x xs)
  from Cons.prems(3) obtain mid where "f x st = Inr mid" and "fold_try f xs mid = Inr st'"
    by (cases "f x st") auto
  with Cons show ?case
    by (meson list.set_intros)
qed simp

section \<open>Text encoded twice\<close>

text \<open>\<open>bytes.decode('utf-8')\<close>: the shortest encoding only, no surrogates, nothing above U+10FFFF.\<close>

definition cont :: "nat \<Rightarrow> bool" where "cont b \<longleftrightarrow> 128 \<le> b \<and> b \<le> 191"

fun utf8_decode :: "nat list \<Rightarrow> pstr option" where
  "utf8_decode [] = Some []"
| "utf8_decode (a # s) =
     (if a < 128 then map_option (Cons a) (utf8_decode s)
      else if 194 \<le> a \<and> a \<le> 223 then (case s of
          b # t \<Rightarrow> if cont b then map_option (Cons ((a - 192) * 64 + (b - 128))) (utf8_decode t) else None
        | _ \<Rightarrow> None)
      else if 224 \<le> a \<and> a \<le> 239 then (case s of
          b # c # t \<Rightarrow> (let x = (a - 224) * 4096 + (b - 128) * 64 + (c - 128) in
            if cont b \<and> cont c \<and> 2048 \<le> x \<and> \<not> is_surrogate x then map_option (Cons x) (utf8_decode t) else None)
        | _ \<Rightarrow> None)
      else if 240 \<le> a \<and> a \<le> 244 then (case s of
          b # c # d # t \<Rightarrow> (let x = (a - 240) * 262144 + (b - 128) * 4096 + (c - 128) * 64 + (d - 128) in
            if cont b \<and> cont c \<and> cont d \<and> 65536 \<le> x \<and> x \<le> 1114111 then map_option (Cons x) (utf8_decode t) else None)
        | _ \<Rightarrow> None)
      else None)"

definition fix_meta_text :: "pstr \<Rightarrow> pstr" where
  "fix_meta_text value =
     (if \<not> list_ex (\<lambda>c. 128 \<le> c \<and> c \<le> 255) value then value
      else if list_ex (\<lambda>c. 255 < c) value then value
      else (case utf8_decode value of Some s \<Rightarrow> s | None \<Rightarrow> value))"

definition scalar_value :: "nat \<Rightarrow> bool" where
  "scalar_value c \<longleftrightarrow> c \<le> 1114111 \<and> \<not> is_surrogate c"

text \<open>The groups of six bits of a number.\<close>

lemma sextets:
  fixes c :: nat
  shows "c = c div 64 * 64 + c mod 64"
    and "c = c div 4096 * 4096 + c div 64 mod 64 * 64 + c mod 64"
    and "c = c div 262144 * 262144 + c div 4096 mod 64 * 4096 + c div 64 mod 64 * 64 + c mod 64"
proof -
  have a: "c = c div 64 * 64 + c mod 64"
    by simp
  have b: "c div 64 = c div 4096 * 64 + c div 64 mod 64"
    using div_mult_mod_eq [of "c div 64" 64] by (simp add: div_mult2_eq [symmetric])
  have d: "c div 4096 = c div 262144 * 64 + c div 4096 mod 64"
    using div_mult_mod_eq [of "c div 4096" 64] by (simp add: div_mult2_eq [symmetric])
  show "c = c div 64 * 64 + c mod 64"
    by (rule a)
  show "c = c div 4096 * 4096 + c div 64 mod 64 * 64 + c mod 64"
    using a b by linarith
  show "c = c div 262144 * 262144 + c div 4096 mod 64 * 4096 + c div 64 mod 64 * 64 + c mod 64"
    using a b d by linarith
qed

lemma cont_sextet [simp]: "cont (128 + n mod 64)"
proof -
  have "n mod 64 < 64"
    by simp
  then show ?thesis
    by (simp add: cont_def)
qed

lemma utf8_decode_char:
  assumes "scalar_value c"
  shows "utf8_decode (utf8_char c @ s) = map_option (Cons c) (utf8_decode s)"
proof -
  consider "c < 128" | "128 \<le> c" "c < 2048" | "2048 \<le> c" "c < 65536" | "65536 \<le> c" "c \<le> 1114111"
    using assms by (fastforce simp: scalar_value_def)
  then show ?thesis
  proof cases
    case 1
    then show ?thesis
      by (simp add: utf8_char_def)
  next
    case 2
    have "2 \<le> c div 64" and "c div 64 \<le> 31"
      using 2 div_le_mono [of 128 c 64] by (simp_all add: less_mult_imp_div_less less_Suc_eq_le [symmetric])
    with 2 sextets(1) [of c] show ?thesis
      by (simp add: utf8_char_def)
  next
    case 3
    have "c div 4096 \<le> 15"
      using 3 by (simp add: less_mult_imp_div_less less_Suc_eq_le [symmetric])
    with 3 assms sextets(2) [of c] show ?thesis
      by (simp add: utf8_char_def scalar_value_def Let_def)
  next
    case 4
    have "c div 262144 \<le> 4"
      using 4 by (simp add: less_mult_imp_div_less less_Suc_eq_le [symmetric])
    with 4 assms sextets(3) [of c] show ?thesis
      by (simp add: utf8_char_def scalar_value_def Let_def)
  qed
qed

lemma utf8_decode_utf8: "list_all scalar_value s \<Longrightarrow> utf8_decode (utf8 s) = Some s"
  by (induction s) (simp_all add: utf8_decode_char)

lemma sextet_byte: "128 + n mod 64 \<le> (255::nat)"
  using cont_sextet [of n] by (simp add: cont_def)

lemma utf8_byte:
  assumes "scalar_value c" and "b \<in> set (utf8_char c)"
  shows "b \<le> 255"
proof -
  have "c < 2048 \<Longrightarrow> c div 64 < 32" and "c < 65536 \<Longrightarrow> c div 4096 < 16" and "c div 262144 < 5"
    using assms(1) by (simp_all add: less_mult_imp_div_less scalar_value_def)
  with assms(2) sextet_byte show ?thesis
    by (auto simp: utf8_char_def split: if_splits)
qed

lemma utf8_high_byte: "\<not> c < 128 \<Longrightarrow> \<exists>b \<in> set (utf8_char c). 128 \<le> b"
  by (auto simp: utf8_char_def)

theorem fix_meta_text_undoes:
  assumes "list_all scalar_value s"
  shows "fix_meta_text (utf8 s) = s"
proof (cases "list_ex (\<lambda>c. 128 \<le> c \<and> c \<le> 255) (utf8 s)")
  case True
  have "\<not> list_ex (\<lambda>c. 255 < c) (utf8 s)"
    using assms utf8_byte by (fastforce simp: list_ex_iff list_all_iff utf8_def)
  with True assms show ?thesis
    by (simp add: fix_meta_text_def utf8_decode_utf8)
next
  case False
  have "c < 128" if c: "c \<in> set s" for c
  proof (rule ccontr)
    assume "\<not> c < 128"
    then obtain b where b: "b \<in> set (utf8_char c)" and "128 \<le> b"
      using utf8_high_byte by blast
    moreover have "b \<le> 255"
      using assms c utf8_byte [OF _ b] by (simp add: list_all_iff)
    ultimately show False
      using False c by (auto simp: list_ex_iff utf8_def)
  qed
  with False show ?thesis
    by (simp add: fix_meta_text_def utf8_ascii)
qed

end
