(* ===== verification/Saint_Readers.thy ===== *)
theory Saint_Readers imports Saint_Records begin

text \<open>
  The readers of JSON exports: \<open>usage.py\<close>, \<open>youtube.py\<close>, \<open>spotify.py\<close>, \<open>instagram.py\<close>, \<open>tiktok.py\<close> and \<open>x.py\<close>,
  each its patterns, the loop body for one entry and \<open>load_blobs\<close>. A set of keys is the list of its elements.
\<close>

section \<open>Screen time\<close>

definition usage_row :: "library \<Rightarrow> json \<Rightarrow> intake \<Rightarrow> trouble + intake" where
  "usage_row L row st = (case row of
     JObj d \<Rightarrow>
       (case (dstr d ''app'', Option.bind (dget d ''minutes'') int_like) of
          (Some app, Some minutes) \<Rightarrow>
            if stripped app = [] \<or> minutes < 0 then Inr st
            else
              (let app = stripped app;
                   date = (case dget d ''date'' of Some v \<Rightarrow> v | None \<Rightarrow> JNull);
                   moment = (case date of JStr s \<Rightarrow> parse_timestamp L s | _ \<Rightarrow> None);
                   key = lb_lower L app @ lit '':'' @ str_of_json (lb_repr L) date
               in if key \<in> set (in_seen st) then Inr st
                  else if float_overflows minutes then Inl Other_Exception
                  else Inr (accept key (passage_of (app @ lit '': '' @ int_str minutes @ lit '' minutes'') ''usage'' app moment) st))
        | _ \<Rightarrow> Inr st)
   | _ \<Rightarrow> Inr st)"

definition load_usage :: "library \<Rightarrow> json list \<Rightarrow> trouble + intake" where
  "load_usage L blobs = fold_try (\<lambda>blob. fold_try (usage_row L) (rows_of blob)) blobs nothing_read"

section \<open>YouTube\<close>

definition searched_rx :: rx where "searched_rx = seqs [Start, anycase ''searched for'', at_least 1 space]"
definition watched_rx :: rx where "watched_rx = seqs [Start, anycase ''watched'', at_least 1 space]"
definition removed_rx :: rx where
  "removed_rx = Alt (anycase ''a video that has been removed'') (seqs [anycase ''a video that isn'', dot, anycase ''t available''])"
definition bare_url_rx :: rx where "bare_url_rx = seqs [Start, anycase ''http'', optional (anycase ''s''), anycase ''://'']"
definition ad_detail_rx :: rx where "ad_detail_rx = anycase ''google ads''"

definition youtube_ad :: "(pstr \<times> json) list \<Rightarrow> bool" where
  "youtube_ad d = (case dget d ''details'' of
     Some (JList ds) \<Rightarrow> list_ex (\<lambda>e. case e of
         JObj f \<Rightarrow> (case dstr f ''name'' of Some n \<Rightarrow> searches ad_detail_rx n | None \<Rightarrow> False)
       | _ \<Rightarrow> False) ds
   | _ \<Rightarrow> False)"

text \<open>The text and kind of an entry; none for a removed video or a bare link.\<close>

definition youtube_text :: "(pstr \<times> json) list \<Rightarrow> pstr \<Rightarrow> (pstr \<times> string) option" where
  "youtube_text d title =
     (if matches searched_rx title then Some (stripped (sub searched_rx [] title), ''search'')
      else if searches removed_rx title then None
      else (let text = stripped (sub watched_rx [] title) in
        if matches bare_url_rx text then None
        else Some (text, if youtube_ad d then ''ad'' else ''watch'')))"

definition youtube_entry :: "library \<Rightarrow> json \<Rightarrow> intake \<Rightarrow> intake" where
  "youtube_entry L entry st = (case entry of
     JObj d \<Rightarrow>
       (case dstr d ''title'' of
          Some title \<Rightarrow>
            if stripped title = [] then st
            else
              (let moment = Option.bind (dstr d ''time'') (parse_timestamp L);
                   detail = (case dstr d ''titleUrl'' of Some u \<Rightarrow> u | None \<Rightarrow> lit ''youtube'')
               in case youtube_text d title of
                    None \<Rightarrow> st
                  | Some (text, source) \<Rightarrow>
                      if text = [] then st
                      else accept (lit source @ lit '':'' @ lb_lower L text) (passage_of text source detail moment) st)
        | None \<Rightarrow> st)
   | _ \<Rightarrow> st)"

definition load_youtube :: "library \<Rightarrow> json list \<Rightarrow> intake" where
  "load_youtube L blobs = fold (\<lambda>blob. fold (youtube_entry L) (rows_of blob)) blobs nothing_read"

section \<open>Spotify\<close>

definition min_play_ms :: int where "min_play_ms = 30000"
definition zone_suffix_rx :: rx where
  "zone_suffix_rx = seqs [One (\<lambda>c. c = 91), Many (One (\<lambda>c. c \<noteq> 93)), One (\<lambda>c. c = 93), Stop]"

text \<open>\<open>_text(entry.get(k))\<close> and \<open>_when(value)\<close>.\<close>

definition spotify_text :: "(pstr \<times> json) list \<Rightarrow> string \<Rightarrow> pstr option" where
  "spotify_text d k = (case dget d k of
     Some (JInt i) \<Rightarrow> Some (int_str i)
   | Some (JStr s) \<Rightarrow> if stripped s = [] then None else Some (stripped s)
   | _ \<Rightarrow> None)"

definition spotify_when :: "library \<Rightarrow> json option \<Rightarrow> moment option" where
  "spotify_when L v = (case v of Some (JStr s) \<Rightarrow> parse_timestamp L (sub zone_suffix_rx [] (stripped s)) | _ \<Rightarrow> None)"

definition either_of :: "'a option \<Rightarrow> 'a option \<Rightarrow> 'a option" where
  "either_of x y = (case x of Some _ \<Rightarrow> x | None \<Rightarrow> y)"

definition dash :: pstr where "dash = [32, 8212, 32]"

definition spotify_add :: "library \<Rightarrow> pstr \<Rightarrow> string \<Rightarrow> moment option \<Rightarrow> intake \<Rightarrow> intake" where
  "spotify_add L text source moment =
     accept (lit source @ lit '':'' @ lb_lower L text) (passage_of text source (lit ''spotify'') moment)"

definition skipped_play :: "(pstr \<times> json) list \<Rightarrow> bool" where
  "skipped_play d = (case either_of (dget d ''ms_played'') (dget d ''msPlayed'') of
     Some (JInt played) \<Rightarrow> played < min_play_ms | _ \<Rightarrow> False)"

definition spotify_play :: "library \<Rightarrow> (pstr \<times> json) list \<Rightarrow> intake \<Rightarrow> intake" where
  "spotify_play L d st =
     (let moment = spotify_when L (either_of (dget d ''ts'') (dget d ''endTime''));
          track = either_of (spotify_text d ''master_metadata_track_name'') (spotify_text d ''trackName'');
          artist = either_of (spotify_text d ''master_metadata_album_artist_name'') (spotify_text d ''artistName'');
          episode = either_of (spotify_text d ''episode_name'') (spotify_text d ''episodeName'');
          shown = either_of (spotify_text d ''episode_show_name'') (spotify_text d ''podcastName'');
          audiobook = spotify_text d ''audiobook_title'';
          part = spotify_text d ''audiobook_chapter_title''
      in case (track, artist) of
           (Some t, Some a) \<Rightarrow> spotify_add L (t @ dash @ a) ''track'' moment st
         | _ \<Rightarrow> (case episode of
             Some e \<Rightarrow> spotify_add L (case shown of Some s \<Rightarrow> e @ dash @ s | None \<Rightarrow> e) ''podcast'' moment st
           | None \<Rightarrow> (case audiobook of
               Some b \<Rightarrow> spotify_add L (case part of Some c \<Rightarrow> c @ dash @ b | None \<Rightarrow> b) ''audiobook'' moment st
             | None \<Rightarrow> st)))"

definition spotify_entry :: "library \<Rightarrow> json \<Rightarrow> intake \<Rightarrow> intake" where
  "spotify_entry L entry st = (case entry of
     JObj d \<Rightarrow>
       if dget d ''searchQuery'' \<noteq> None
       then (case spotify_text d ''searchQuery'' of
               Some query \<Rightarrow> spotify_add L query ''search'' (spotify_when L (dget d ''searchTime'')) st
             | None \<Rightarrow> st)
       else if skipped_play d then st
       else spotify_play L d st
   | _ \<Rightarrow> st)"

definition spotify_label :: "pstr \<Rightarrow> pstr" where
  "spotify_label label = stripped (map (\<lambda>c. if c = 95 then 32 else c) label)"

definition spotify_blob :: "library \<Rightarrow> json \<Rightarrow> intake \<Rightarrow> intake" where
  "spotify_blob L blob st =
     (case (case blob of JObj d \<Rightarrow> dget d ''inferences'' | _ \<Rightarrow> None) of
        Some (JList vs) \<Rightarrow>
          add_labels (map spotify_label (filter (\<lambda>s. 0 < length (stripped s) \<and> length (stripped s) < 100) (strings vs))) st
      | _ \<Rightarrow> fold (spotify_entry L) (rows_of blob) st)"

definition load_spotify :: "library \<Rightarrow> json list \<Rightarrow> intake" where
  "load_spotify L blobs = settle (fold (spotify_blob L) blobs nothing_read)"

section \<open>Instagram\<close>

definition search_field_rx :: rx where "search_field_rx = anycase ''search''"
definition topic_field_rx :: rx where "topic_field_rx = seqs [Start, anycase ''name'', Stop]"
definition topic_container_rx :: rx where "topic_container_rx = seqs [Start, anycase ''topics_'']"
definition search_container_rx :: rx where "search_container_rx = seqs [Start, anycase ''searches_'']"
definition people_container_rx :: rx where
  "people_container_rx = one_of (anycase ''account'') [anycase ''user'', anycase ''profile'']"

text \<open>The last nonzero timestamp among the fields.\<close>

definition instagram_when :: "(pstr \<times> json) list \<Rightarrow> trouble + moment option" where
  "instagram_when smd =
     fold_try (\<lambda>(_, v) sofar.
       case (case v of JObj f \<Rightarrow> Option.bind (dget f ''timestamp'') int_like | _ \<Rightarrow> None) of
         Some i \<Rightarrow> if i = 0 then Inr sofar else if float_overflows i then Inl Other_Exception else Inr (Some (i * second))
       | None \<Rightarrow> Inr sofar) smd None"

definition instagram_values :: "library \<Rightarrow> (pstr \<times> json) list \<Rightarrow> (pstr \<times> pstr) list" where
  "instagram_values L smd =
     concat (map (\<lambda>(field, v). case (case v of JObj f \<Rightarrow> dstr f ''value'' | _ \<Rightarrow> None) of
         Some value \<Rightarrow>
           if stripped value = [] \<or> lb_lower L (stripped value) = lit ''not_stored'' then []
           else [(field, fix_meta_text (stripped value))]
       | None \<Rightarrow> []) smd)"

definition instagram_search :: "library \<Rightarrow> pstr \<Rightarrow> moment option \<Rightarrow> intake \<Rightarrow> intake" where
  "instagram_search L value moment =
     accept (lit ''search:'' @ lb_lower L value) (passage_of value ''search'' (lit ''instagram'') moment)"

definition instagram_field :: "library \<Rightarrow> moment option \<Rightarrow> pstr \<times> pstr \<Rightarrow> intake \<Rightarrow> intake" where
  "instagram_field L moment = (\<lambda>(field, value) st.
     if matches topic_field_rx field then (if length value < 60 then add_labels [value] st else st)
     else if searches search_field_rx field then instagram_search L value moment st
     else st)"

definition instagram_node :: "library \<Rightarrow> (pstr \<times> json) list \<times> pstr list \<Rightarrow> intake \<Rightarrow> trouble + intake" where
  "instagram_node L = (\<lambda>(node, path) st. case dget node ''string_map_data'' of
     Some (JObj smd) \<Rightarrow>
       bindE (instagram_when smd) (\<lambda>moment.
         (let values = instagram_values L smd;
              container = find (\<lambda>k. matches topic_container_rx k \<or> matches search_container_rx k) (rev path)
          in Inr (case container of
               Some k \<Rightarrow>
                 if matches topic_container_rx k
                 then add_labels (filter (\<lambda>v. length v < 60) (map snd values)) st
                 else if searches people_container_rx k then st
                 else (case values of (_, v) # _ \<Rightarrow> instagram_search L v moment st | [] \<Rightarrow> st)
             | None \<Rightarrow> fold (instagram_field L moment) values st)))
   | _ \<Rightarrow> Inr st)"

definition load_instagram :: "library \<Rightarrow> json list \<Rightarrow> trouble + intake" where
  "load_instagram L blobs =
     bindE (fold_try (\<lambda>blob. fold_try (instagram_node L) (iter_dicts [] blob)) blobs nothing_read) (\<lambda>st. Inr (settle st))"

section \<open>TikTok\<close>

definition served_url_rx :: rx where
  "served_url_rx = seqs [anycase ''http'', optional (anycase ''s''), anycase ''://'', Many nonspace,
     anycase ''tiktok'', optional (anycase ''v''), anycase ''.com/'', at_least 1 nonspace]"
definition date_key_rx :: rx where "date_key_rx = Alt (anycase ''date'') (anycase ''time'')"
definition search_key_rx :: rx where "search_key_rx = seqs [anycase ''search'', optional dot, anycase ''term'']"
definition hashtag_key_rx :: rx where
  "hashtag_key_rx = Alt (seqs [anycase ''hashtag'', optional dot, anycase ''name'']) (seqs [Start, anycase ''hashtag'', Stop])"
definition sound_key_rx :: rx where
  "sound_key_rx = Alt (seqs [anycase ''sound'', optional dot, anycase ''name'']) (seqs [anycase ''song'', optional dot, anycase ''name''])"
definition comment_key_rx :: rx where
  "comment_key_rx = seqs [Start, anycase ''comment'', optional (anycase ''content''), Stop]"
definition watch_section_rx :: rx where
  "watch_section_rx = Alt (seqs [anycase ''watch'', optional dot, anycase ''history''])
     (seqs [anycase ''video'', optional dot, anycase ''browsing''])"
definition ad_interest_rx :: rx where "ad_interest_rx = seqs [anycase ''ad'', optional dot, anycase ''interest'']"
definition own_posts_rx :: rx where
  "own_posts_rx = seqs [Start, Alt (seqs [anycase ''post'', optional (anycase ''s'')]) (seqs [anycase ''video'', optional (anycase ''s'')]), Stop]"
definition label_split_rx :: rx where
  "label_split_rx = seqs [Many space, One (\<lambda>c. c \<in> {124, 44, 10}), Many space]"

definition tiktok_labels :: "pstr \<Rightarrow> pstr list" where
  "tiktok_labels value = filter (\<lambda>l. 0 < length l \<and> length l < 60) (splits label_split_rx (stripped value))"

definition tiktok_add :: "library \<Rightarrow> pstr \<Rightarrow> string \<Rightarrow> moment option \<Rightarrow> intake \<Rightarrow> intake" where
  "tiktok_add L text source moment st =
     (let t = dropWhile (\<lambda>c. c = 35) (stripped text) in
      if t = [] then st else accept (lb_lower L t) (passage_of t source (lit ''tiktok'') moment) st)"

text \<open>One item of an object; \<open>counted\<close> tells whether a watch of this object was counted already.\<close>

definition tiktok_item :: "library \<Rightarrow> pstr list \<Rightarrow> moment option \<Rightarrow> pstr \<times> json \<Rightarrow> bool \<times> intake \<Rightarrow> bool \<times> intake" where
  "tiktok_item L path date = (\<lambda>(k, v) (counted, st). case v of
     JStr s \<Rightarrow>
       if searches search_key_rx k then (counted, tiktok_add L s ''search'' date st)
       else if searches hashtag_key_rx k then (counted, tiktok_add L s ''hashtag'' date st)
       else if searches sound_key_rx k then (counted, tiktok_add L s ''sound'' date st)
       else if matches comment_key_rx (stripped k) then (counted, tiktok_add L s ''comment'' date st)
       else if lb_lower L (stripped k) = lit ''title'' \<and> list_ex (matches own_posts_rx) path
         then (counted, tiktok_add L s ''caption'' date st)
       else if searches ad_interest_rx k then (counted, add_labels (tiktok_labels s) st)
       else if list_ex (searches watch_section_rx) path \<and> \<not> counted \<and> date \<noteq> None \<and> searches served_url_rx s
         then (True, add_watch (the date) st)
       else (counted, st)
   | JList vs \<Rightarrow> if searches ad_interest_rx k then (counted, add_labels (concat (map tiktok_labels (strings vs))) st) else (counted, st)
   | _ \<Rightarrow> (counted, st))"

definition tiktok_node :: "library \<Rightarrow> (pstr \<times> json) list \<times> pstr list \<Rightarrow> intake \<Rightarrow> intake" where
  "tiktok_node L = (\<lambda>(node, path) st.
     snd (fold (tiktok_item L path (node_date date_key_rx (parse_timestamp L) node)) node (False, st)))"

definition load_tiktok :: "library \<Rightarrow> json list \<Rightarrow> intake" where
  "load_tiktok L blobs = settle (fold (\<lambda>blob. fold (tiktok_node L) (iter_dicts [] blob)) blobs nothing_read)"

section \<open>X\<close>

definition x_query_rx :: rx where "x_query_rx = seqs [Start, anycase ''query'', Stop]"
definition tweet_text_rx :: rx where "tweet_text_rx = seqs [Start, anycase ''full'', optional (anycase ''_''), anycase ''text'', Stop]"
definition interest_list_rx :: rx where
  "interest_list_rx = seqs [Start, Alt (anycase ''interests'') (anycase ''partnerinterests''), Stop]"
definition x_date_rx :: rx where
  "x_date_rx = one_of (seqs [anycase ''created'', optional dot, anycase ''at'']) [anycase ''date'', anycase ''time'']"

text \<open>The wrapper \<open>window.YTD.<stream>.part<n> =\<close>: what comes before the name of the stream, the name, the rest.\<close>

definition wrapper_parts :: "library \<Rightarrow> rx \<times> rx \<times> rx" where
  "wrapper_parts L =
     (seqs [Start, Many space, exactly (lit ''window.YTD.'')],
      at_least 1 (One (lb_word L)),
      seqs [exactly (lit ''.part''), at_least 1 (One (lb_decimal L)), Many space, exactly (lit ''=''), Many space])"

definition unwrap_stream :: "library \<Rightarrow> pstr \<Rightarrow> (pstr \<times> pstr) option" where
  "unwrap_stream L s =
     (case wrapper_parts L of (head_rx, name_rx, tail_rx) \<Rightarrow>
        (case concat (map (\<lambda>c. concat (map (\<lambda>d. map (\<lambda>e. (between c d, snd e)) (run tail_rx d)) (run name_rx c)))
                (run head_rx ([], s))) of
           [] \<Rightarrow> None | found # _ \<Rightarrow> Some found))"

definition rstripped :: "pstr \<Rightarrow> pstr" where
  "rstripped s = rev (dropWhile py_isspace (rev s))"

definition x_unwrap :: "library \<Rightarrow> pstr \<Rightarrow> trouble + (pstr option \<times> json)" where
  "x_unwrap L text =
     (let s = dropWhile (\<lambda>c. c = 65279) text;
          (stream, s) = (case unwrap_stream L s of
             Some (name, rest) \<Rightarrow>
               (let t = rstripped rest in (Some name, if t \<noteq> [] \<and> last t = 59 then butlast t else t))
           | None \<Rightarrow> (None, s))
      in case lb_loads L s of
           Some v \<Rightarrow> Inr (stream, v)
         | None \<Rightarrow> Inl (Value_Error (lit ''Cannot read JSON export'')))"

definition x_date :: "library \<Rightarrow> pstr \<Rightarrow> moment option" where
  "x_date L v = either_of (parse_timestamp L v) (lb_strptime L (stripped v))"

definition x_add :: "library \<Rightarrow> pstr \<Rightarrow> string \<Rightarrow> moment option \<Rightarrow> intake \<Rightarrow> intake" where
  "x_add L text source moment st =
     (let t = stripped text in
      if t = [] then st else accept (lit source @ lit '':'' @ lb_lower L t) (passage_of t source (lit ''x'') moment) st)"

definition x_label :: "json \<Rightarrow> pstr list" where
  "x_label i =
     (let v = (case i of
         JObj d \<Rightarrow> if dget d ''isDisabled'' = Some (JBool True) then JNull
                   else (case dget d ''name'' of Some n \<Rightarrow> n | None \<Rightarrow> JNull)
       | _ \<Rightarrow> i)
      in case v of JStr s \<Rightarrow> if 0 < length (stripped s) \<and> length (stripped s) < 60 then [stripped s] else [] | _ \<Rightarrow> [])"

definition x_item :: "library \<Rightarrow> pstr list \<Rightarrow> moment option \<Rightarrow> pstr \<times> json \<Rightarrow> intake \<Rightarrow> intake" where
  "x_item L path date = (\<lambda>(k, v) st. case v of
     JStr s \<Rightarrow>
       if matches tweet_text_rx k
       then x_add L s (if list_ex (\<lambda>p. lb_lower L p = lit ''like'') path then ''like''
              else if starts_with (lit ''RT @'') (dropWhile py_isspace s) then ''repost'' else ''post'') date st
       else if matches x_query_rx k then x_add L s ''search'' date st
       else st
   | JList items \<Rightarrow>
       if matches interest_list_rx k \<or> (k = lit ''shows'' \<and> list_ex (\<lambda>p. lb_lower L p = lit ''interests'') path)
       then add_labels (concat (map x_label items)) st else st
   | _ \<Rightarrow> st)"

definition x_node :: "library \<Rightarrow> (pstr \<times> json) list \<times> pstr list \<Rightarrow> intake \<Rightarrow> intake" where
  "x_node L = (\<lambda>(node, path) st. fold (x_item L path (node_date x_date_rx (x_date L) node)) node st)"

definition load_streams :: "library \<Rightarrow> (pstr option \<times> json) list \<Rightarrow> intake" where
  "load_streams L streams =
     settle (fold (\<lambda>(stream, blob). fold (x_node L) (iter_dicts (case stream of Some s \<Rightarrow> [s] | None \<Rightarrow> []) blob)) streams nothing_read)"

end
