(* ===== verification/Saint_Files.thy ===== *)
theory Saint_Files imports Saint_Records begin

text \<open>
  The readers of other formats: the CSV exports of Reddit and Amazon (\<open>reddit.py\<close>, \<open>amazon.py\<close>), browser
  histories (\<open>mirror.py\<close>) and notes (\<open>notes.py\<close>).
\<close>

text \<open>\<open>file['text']\<close> of a file the page sent: anything but an object with that key raises.\<close>

definition file_text :: "json \<Rightarrow> trouble + json" where
  "file_text file = (case file of
     JObj f \<Rightarrow> (case dget f ''text'' of Some v \<Rightarrow> Inr v | None \<Rightarrow> Inl Other_Exception)
   | _ \<Rightarrow> Inl Other_Exception)"

section \<open>CSV exports\<close>

text \<open>\<open>io.StringIO(text)\<close> takes a string or \<open>None\<close>, which is empty.\<close>

definition csv_text :: "json \<Rightarrow> trouble + pstr" where
  "csv_text v = (case v of JStr s \<Rightarrow> Inr s | JNull \<Rightarrow> Inr [] | _ \<Rightarrow> Inl Other_Exception)"

text \<open>\<open>_find_column\<close>: the first named column the pattern is found in.\<close>

definition find_column :: "pstr list \<Rightarrow> rx \<Rightarrow> pstr option" where
  "find_column fieldnames pattern = find (\<lambda>name. name \<noteq> [] \<and> searches pattern name) fieldnames"

definition utc_rx :: rx where "utc_rx = seqs [Many space, anycase ''utc'', Stop]"

text \<open>\<open>_parse_reddit_date\<close> and \<open>_parse_amazon_date\<close> of a cell.\<close>

definition csv_date :: "library \<Rightarrow> pstr option \<Rightarrow> moment option" where
  "csv_date L value = (case value of
     Some v \<Rightarrow> if v = [] then None else parse_timestamp L (sub utc_rx (lit ''+00:00'') (stripped v))
   | None \<Rightarrow> None)"

text \<open>\<open>(row.get(column) or '').strip()\<close>, with another default for a missing or empty cell.\<close>

definition cell :: "csv_row \<Rightarrow> pstr \<Rightarrow> pstr \<Rightarrow> pstr" where
  "cell row fallback column = stripped (case row column of Some v \<Rightarrow> if v = [] then fallback else v | None \<Rightarrow> fallback)"

definition cannot_read :: "pstr \<Rightarrow> trouble" where
  "cannot_read message = Value_Error (lit ''Cannot read CSV export: '' @ message)"

text \<open>The header of a file, and its rows once they are needed.\<close>

definition csv_rows :: "pstr + csv_row list \<Rightarrow> trouble + csv_row list" where
  "csv_rows rows = (case rows of Inl e \<Rightarrow> Inl (cannot_read e) | Inr rs \<Rightarrow> Inr rs)"

subsection \<open>Reddit\<close>

definition title_col_rx :: rx where "title_col_rx = anycase ''title''"
definition body_col_rx :: rx where "body_col_rx = seqs [Start, anycase ''body'', Stop]"
definition subreddit_col_rx :: rx where "subreddit_col_rx = anycase ''subreddit''"
definition reddit_date_rx :: rx where "reddit_date_rx = seqs [Start, anycase ''date'', Stop]"
definition removed_text :: "pstr list" where "removed_text = [lit ''[deleted]'', lit ''[removed]'']"

definition reddit_kind :: "library \<Rightarrow> pstr list \<Rightarrow> string option" where
  "reddit_kind L fieldnames =
     (let names = map (\<lambda>n. lb_lower L (stripped n)) (filter (\<lambda>n. n \<noteq> []) fieldnames) in
      if lit ''title'' \<in> set names \<or> lit ''url'' \<in> set names then Some ''post''
      else if lit ''parent'' \<in> set names \<or> lit ''link'' \<in> set names then Some ''comment''
      else None)"

definition kept_text :: "pstr \<Rightarrow> pstr" where
  "kept_text s = (if s \<in> set removed_text then [] else s)"

definition reddit_text :: "string \<Rightarrow> pstr \<Rightarrow> pstr \<Rightarrow> pstr" where
  "reddit_text kind title body =
     (if kind = ''post'' then stripped (strip_by (\<lambda>c. c = 46 \<or> c = 32) (title @ lit ''. '' @ body)) else body)"

definition reddit_row :: "library \<Rightarrow> string \<Rightarrow> pstr list \<Rightarrow> csv_row \<Rightarrow> intake \<Rightarrow> intake" where
  "reddit_row L kind fieldnames row st =
     (let title = (case find_column fieldnames title_col_rx of Some c \<Rightarrow> cell row [] c | None \<Rightarrow> []);
          body = (case find_column fieldnames body_col_rx of Some c \<Rightarrow> cell row [] c | None \<Rightarrow> []);
          text = reddit_text kind (kept_text title) (kept_text body);
          detail = (case find_column fieldnames subreddit_col_rx of
            Some c \<Rightarrow> cell row (lit ''reddit'') c | None \<Rightarrow> lit ''reddit'');
          moment = (case find_column fieldnames reddit_date_rx of Some c \<Rightarrow> csv_date L (row c) | None \<Rightarrow> None)
      in if text = [] then st
         else accept (lit kind @ lit '':'' @ lb_lower L text) (passage_of text kind detail moment) st)"

definition youtube_comments :: pstr where
  "youtube_comments = lit ''This comments.csv looks like a YouTube Takeout export, which isn'' @ [39] @
     lit ''t supported yet. Choose Reddit'' @ [39] @ lit ''s posts.csv or comments.csv.''"

definition reddit_file :: "library \<Rightarrow> pstr \<Rightarrow> intake \<Rightarrow> trouble + intake" where
  "reddit_file L text st = (case lb_csv L text of
     Inl e \<Rightarrow> Inl (cannot_read e)
   | Inr (fieldnames, rows) \<Rightarrow>
       (case reddit_kind L fieldnames of
          None \<Rightarrow>
            if list_ex (\<lambda>n. n \<noteq> [] \<and> lb_lower L (stripped n) = lit ''comment text'') fieldnames
            then Inl (Value_Error youtube_comments) else Inr st
        | Some kind \<Rightarrow> bindE (csv_rows rows) (\<lambda>rs. Inr (fold (reddit_row L kind fieldnames) rs st))))"

definition load_reddit :: "library \<Rightarrow> json list \<Rightarrow> trouble + intake" where
  "load_reddit L files =
     fold_try (\<lambda>file st. bindE (bindE (file_text file) csv_text) (\<lambda>text. reddit_file L text st)) files nothing_read"

subsection \<open>Amazon\<close>

definition product_col_rx :: rx where
  "product_col_rx = Alt (seqs [anycase ''product'', Many dot, anycase ''name'']) (seqs [Start, anycase ''title'', Stop])"
definition order_date_rx :: rx where
  "order_date_rx = Alt (seqs [anycase ''order'', Many dot, anycase ''date'']) (seqs [Start, anycase ''date'', Stop])"

definition amazon_row :: "library \<Rightarrow> pstr list \<Rightarrow> pstr \<Rightarrow> csv_row \<Rightarrow> intake \<Rightarrow> intake" where
  "amazon_row L fieldnames product_col row st =
     (let text = cell row [] product_col;
          moment = (case find_column fieldnames order_date_rx of Some c \<Rightarrow> csv_date L (row c) | None \<Rightarrow> None)
      in if text = [] then st else accept (lb_lower L text) (passage_of text ''order'' (lit ''amazon'') moment) st)"

definition amazon_file :: "library \<Rightarrow> pstr \<Rightarrow> intake \<Rightarrow> trouble + intake" where
  "amazon_file L text st = (case lb_csv L text of
     Inl e \<Rightarrow> Inl (cannot_read e)
   | Inr (fieldnames, rows) \<Rightarrow>
       (case find_column fieldnames product_col_rx of
          None \<Rightarrow> Inr st
        | Some c \<Rightarrow> bindE (csv_rows rows) (\<lambda>rs. Inr (fold (amazon_row L fieldnames c) rs st))))"

definition load_amazon :: "library \<Rightarrow> json list \<Rightarrow> trouble + intake" where
  "load_amazon L files =
     fold_try (\<lambda>file st. bindE (bindE (file_text file) csv_text) (\<lambda>text. amazon_file L text st)) files nothing_read"

section \<open>Browser histories\<close>

definition extract_query :: "library \<Rightarrow> pstr \<Rightarrow> pstr option" where
  "extract_query L url = (case lb_query L url of
     Some (q # _) \<Rightarrow> if stripped q = [] then None else Some (stripped q) | _ \<Rightarrow> None)"

definition history_record :: "library \<Rightarrow> pstr \<times> pstr option \<Rightarrow> passage list" where
  "history_record L = (\<lambda>(url, title). case extract_query L url of
     Some query \<Rightarrow> [passage_of query ''query'' url None]
   | None \<Rightarrow> (case title of Some t \<Rightarrow> if t = [] then [] else [passage_of t ''title'' url None] | None \<Rightarrow> []))"

definition rows_to_records :: "library \<Rightarrow> (pstr \<times> pstr option) list \<Rightarrow> intake" where
  "rows_to_records L rows =
     fold (\<lambda>p. accept (lb_lower L (pa_text p)) p) (concat (map (history_record L) rows)) nothing_read"

section \<open>Notes\<close>

definition max_file_bytes :: nat where "max_file_bytes = 1000000"
definition note_extensions :: "pstr list" where "note_extensions = [lit ''.md'', lit ''.markdown'', lit ''.txt'']"

definition newline :: rx where "newline = One (\<lambda>c. c = 10)"
definition anything :: rx where "anything = One (\<lambda>c. True)"

definition front_matter_rx :: rx where
  "front_matter_rx = seqs [Start, exactly (lit ''---'' @ [10]), Few anything, exactly (10 # lit ''---''), Alt newline Stop]"

definition fence_rx :: rx where
  "fence_rx = Seq Line_Start (Then (Alt (at_least 3 (One (\<lambda>c. c = 96))) (at_least 3 (One (\<lambda>c. c = 126))))
     (\<lambda>fence. seqs [Many dot, newline, Few anything, Line_Start, exactly fence, Many dot, Alt newline Line_Stop]))"

definition paragraph_rx :: rx where "paragraph_rx = seqs [newline, Many space, newline]"
definition heading_rx :: rx where "heading_rx = seqs [Start, One (\<lambda>c. c = 35), up_to 5 (One (\<lambda>c. c = 35)), space]"
definition heading_mark_rx :: rx where "heading_mark_rx = seqs [Start, at_least 1 (One (\<lambda>c. c = 35)), Many space]"

text \<open>\<open>str.splitlines()\<close>; a carriage return and the line feed after it end one line.\<close>

definition line_end :: "nat \<Rightarrow> bool" where
  "line_end c \<longleftrightarrow> c \<in> {10, 11, 12, 13, 28, 29, 30, 133, 8232, 8233}"

function splitlines :: "pstr \<Rightarrow> pstr list" where
  "splitlines s =
     (if s = [] then []
      else (let line = takeWhile (\<lambda>c. \<not> line_end c) s; rest = dropWhile (\<lambda>c. \<not> line_end c) s in
        line # splitlines (if take 2 rest = [13, 10] then drop 2 rest else drop 1 rest)))"
  by pat_completeness auto
termination
proof (relation "measure length")
  fix s :: pstr and line rest
  assume s: "s \<noteq> []" and rest: "rest = dropWhile (\<lambda>c. \<not> line_end c) s"
  have "length (if take 2 rest = [13, 10] then drop 2 rest else drop 1 rest) \<le> length rest - 1"
    by (simp add: diff_le_mono2)
  also have "\<dots> \<le> length s - 1"
    using length_dropWhile_le [of "\<lambda>c. \<not> line_end c" s] by (simp add: rest diff_le_mono)
  also have "\<dots> < length s"
    using s by (cases s) simp_all
  finally show "(if take 2 rest = [13, 10] then drop 2 rest else drop 1 rest, s) \<in> measure length"
    by simp
qed simp

text \<open>\<open>str.split()\<close>.\<close>

function split_words :: "pstr \<Rightarrow> pstr list" where
  "split_words s =
     (let t = dropWhile py_isspace s in
      if t = [] then [] else takeWhile (\<lambda>c. \<not> py_isspace c) t # split_words (dropWhile (\<lambda>c. \<not> py_isspace c) t))"
  by pat_completeness auto
termination
proof (relation "measure length")
  fix s t :: pstr
  assume t: "t = dropWhile py_isspace s" and "t \<noteq> []"
  then have "\<not> py_isspace (hd t)"
    using hd_dropWhile [of py_isspace s] by simp
  with \<open>t \<noteq> []\<close> have "dropWhile (\<lambda>c. \<not> py_isspace c) t = dropWhile (\<lambda>c. \<not> py_isspace c) (tl t)"
    by (cases t) simp_all
  also have "length \<dots> \<le> length (tl t)"
    by (rule length_dropWhile_le)
  also have "\<dots> < length t"
    using \<open>t \<noteq> []\<close> by (cases t) simp_all
  also have "\<dots> \<le> length s"
    unfolding t by (rule length_dropWhile_le)
  finally show "(dropWhile (\<lambda>c. \<not> py_isspace c) t, s) \<in> measure length"
    by simp
qed simp

declare splitlines.simps [simp del] split_words.simps [simp del]

text \<open>\<open>[xs[i:i + n] for i in range(0, len(xs), n)]\<close>.\<close>

function chunks :: "nat \<Rightarrow> 'a list \<Rightarrow> 'a list list" where
  "chunks n xs = (if xs = [] \<or> n = 0 then [] else take n xs # chunks n (drop n xs))"
  by pat_completeness auto
termination
  by (relation "measure (length \<circ> snd)") auto

declare chunks.simps [simp del]

definition chunk_words :: nat where "chunk_words = 120"

text \<open>One line: a heading replaces the heading in force, any other line is kept.\<close>

definition note_line :: "pstr \<Rightarrow> pstr \<times> pstr list \<Rightarrow> pstr \<times> pstr list" where
  "note_line line = (\<lambda>(heading, lines).
     if matches heading_rx line then (stripped (sub heading_mark_rx [] line), lines)
     else (heading, lines @ [stripped line]))"

definition note_paragraph :: "pstr \<Rightarrow> pstr \<Rightarrow> pstr \<times> passage list \<Rightarrow> pstr \<times> passage list" where
  "note_paragraph name paragraph = (\<lambda>(heading, records).
     let (heading, lines) = fold note_line (splitlines paragraph) (heading, []);
         prose = stripped (joined [32] lines)
     in (heading, records @ map (\<lambda>ws. passage_of (joined [32] ws) ''note'' (name @ [32, 183, 32] @ heading) None)
                              (chunks chunk_words (split_words prose))))"

text \<open>A lone surrogate has no UTF-8 form; the message of that error is shortened.\<close>

definition parse_note :: "library \<Rightarrow> pstr \<Rightarrow> pstr \<Rightarrow> trouble + passage list" where
  "parse_note L name text =
     (if lb_lower L (path_suffix name) \<notin> set note_extensions
      then Inl (Value_Error (lit ''Choose Markdown (.md) or plain-text (.txt) notes.''))
      else if list_ex is_surrogate text then Inl (Value_Error (lit ''surrogates not allowed''))
      else if max_file_bytes < utf8_length text then Inl (Value_Error (name @ lit '': exceeds the 1 MB per-file limit.''))
      else if 0 \<in> set text then Inl (Value_Error (name @ lit '': appears to be a binary file.''))
      else
        (let text = sub (exactly [13, 10]) [10] (dropWhile (\<lambda>c. c = 65279) text);
             text = sub fence_rx [] (sub front_matter_rx [] text)
         in Inr (snd (fold (note_paragraph name) (splits paragraph_rx text) (path_stem name, [])))))"

end
