(* ===== verification/Saint_Session.thy ===== *)
theory Saint_Session imports Saint_Readers Saint_Files "HOL-Library.Product_Lexorder" begin

text \<open>
  The session of The Saint (\<open>src/app.py\<close>): detection of the source of an upload, the words of a passage, the
  snapshot of a session, the merge of an import into it, and the figures the page shows that need no
  floating-point arithmetic.
\<close>

section \<open>Detecting a source\<close>

definition file_ext :: "string list \<Rightarrow> rx" where
  "file_ext exts = seqs [anycase ''.'', one_of (anycase (hd exts)) (map anycase (tl exts)), Stop]"

definition source_patterns :: "(rx \<times> string) list" where
  "source_patterns =
     [(file_ext [''md'', ''markdown'', ''txt''], ''notes''),
      (seqs [Alt (anycase ''watch-history'') (anycase ''search-history''), file_ext [''json'', ''html'']], ''youtube''),
      (one_of (anycase ''your_topics'') (map anycase [''recommended_topics'', ''word_or_phrase_searches'', ''ads_viewed'', ''ads_and_topics'']), ''instagram''),
      (one_of (anycase ''streaming_history_audio'') [anycase ''streaminghistory'',
         seqs [anycase ''searchqueries.json'', Stop], seqs [anycase ''inferences.json'', Stop]], ''spotify''),
      (Alt (seqs [anycase ''posts.csv'', Stop]) (seqs [anycase ''comments.csv'', Stop]), ''reddit''),
      (Alt (anycase ''retail.orderhistory'') (seqs [anycase ''order history.csv'', Stop]), ''amazon''),
      (Alt (anycase ''usage'') (seqs [anycase ''screen'', optional dot, anycase ''time'']), ''usage''),
      (Alt (seqs [anycase ''user_data.json'', Stop]) (anycase ''tiktok''), ''tiktok''),
      (seqs [anycase ''.js'', Stop], ''x'')]"

definition guess_source :: "pstr \<Rightarrow> string option" where
  "guess_source name = map_option snd (find (\<lambda>(pattern, _). searches pattern name) source_patterns)"

text \<open>\<open>file.get('name', '')\<close>; a name that is no string makes \<open>pattern.search\<close> raise.\<close>

definition file_name :: "json \<Rightarrow> trouble + pstr" where
  "file_name file = (case file of
     JObj f \<Rightarrow> (case dget f ''name'' of None \<Rightarrow> Inr [] | Some (JStr s) \<Rightarrow> Inr s | Some _ \<Rightarrow> Inl Other_Exception)
   | _ \<Rightarrow> Inr [])"

definition detect_source :: "json \<Rightarrow> trouble + pstr" where
  "detect_source files = (case files of
     JList (f # fs) \<Rightarrow>
       bindE (fold_try (\<lambda>file guesses. bindE (file_name file) (\<lambda>name.
           Inr (case guess_source name of Some g \<Rightarrow> List.insert (lit g) guesses | None \<Rightarrow> guesses))) (f # fs) [])
         (\<lambda>guesses. case guesses of
            [g] \<Rightarrow> Inr g
          | [] \<Rightarrow> Inl (Value_Error (lit ''Could not detect a source from these filenames. Choose one manually from the dropdown.''))
          | _ \<Rightarrow> Inl (Value_Error (lit ''These files look like different sources ('' @ joined (lit '', '') (sort guesses) @
                   lit ''). Import one source at a time.'')))
   | _ \<Rightarrow> Inl (Value_Error (lit ''Choose one or more files to auto-detect a source.'')))"

section \<open>Words\<close>

definition stop_words :: "pstr list" where
  "stop_words = split_on 32 (lit (''the and that this with from have was were are for but not you your my our had has will into just about they them then when what some more been very can '' @
     ''there their these those would could should didn doesn don isn wasn aren weren also than only which who how why where because while''))"

definition not_words_rx :: "library \<Rightarrow> rx" where
  "not_words_rx L = Alt (seqs [exactly (lit ''http''), optional (exactly (lit ''s'')), exactly (lit ''://''), at_least 1 nonspace])
     (seqs [exactly (lit ''@''), at_least 1 (One (lb_word L))])"

definition letter :: "library \<Rightarrow> nat \<Rightarrow> bool" where
  "letter L c \<longleftrightarrow> lb_word L c \<and> \<not> lb_decimal L c \<and> c \<noteq> 95"

definition word_rx :: "library \<Rightarrow> rx" where "word_rx L = at_least 3 (One (letter L))"

definition words :: "library \<Rightarrow> pstr \<Rightarrow> pstr list" where
  "words L text = filter (\<lambda>w. w \<notin> set stop_words) (findall (word_rx L) (lb_lower L (sub (not_words_rx L) [32] text)))"

text \<open>\<open>collections.Counter\<close>, in the order the keys first appear, and \<open>most_common\<close>.\<close>

definition tally :: "'a list \<Rightarrow> ('a \<times> nat) list" where
  "tally xs = fold (\<lambda>x t. AList.update x (case map_of t x of Some n \<Rightarrow> Suc n | None \<Rightarrow> 1) t) xs []"

definition most_common :: "nat \<Rightarrow> ('a \<times> nat) list \<Rightarrow> ('a \<times> nat) list" where
  "most_common n t = take n (sort_key (\<lambda>(_, k). - int k) t)"

section \<open>Snapshots\<close>

record kept = passage +
  ke_origin :: "pstr option"

record 'm snapshot =
  sp_records :: "kept list"
  sp_categories :: "pstr list"
  sp_watches :: nat
  sp_watch_times :: "moment list"
  sp_terms :: "(pstr \<times> nat) list"
  sp_map :: "'m option"
  sp_sources :: "(pstr \<times> nat) list"

definition word_terms :: "library \<Rightarrow> kept list \<Rightarrow> (pstr \<times> nat) list" where
  "word_terms L records = most_common 16 (tally (concat (map (\<lambda>r. words L (pa_text r)) records)))"

text \<open>\<open>asdict(record)\<close>, which has no origin, and \<open>{**record, 'origin': source}\<close>.\<close>

definition as_dict :: "passage \<Rightarrow> kept" where
  "as_dict p = passage.extend p \<lparr> ke_origin = None \<rparr>"

definition tagged :: "pstr \<Rightarrow> kept \<Rightarrow> kept" where
  "tagged source r = r\<lparr>ke_origin := Some source\<rparr>"

definition summarize :: "library \<Rightarrow> passage list \<Rightarrow> pstr list \<Rightarrow> moment list \<Rightarrow> 'm snapshot" where
  "summarize L records categories watch_times =
     \<lparr> sp_records = map as_dict records, sp_categories = sorted_set categories, sp_watches = length watch_times,
       sp_watch_times = watch_times, sp_terms = word_terms L (map as_dict records), sp_map = None, sp_sources = [] \<rparr>"

section \<open>Merging an import\<close>

definition dated_identity_sources :: "pstr list" where "dated_identity_sources = [lit ''usage'']"

type_synonym record_id = "pstr option \<times> pstr \<times> pstr \<times> pstr \<times> moment option"

definition record_key :: "library \<Rightarrow> kept \<Rightarrow> record_id" where
  "record_key L r =
     (let moment = (if \<exists>s \<in> set dated_identity_sources. ke_origin r = Some s then pa_when r else None)
      in (ke_origin r, pa_source r, lb_lower L (pa_text r), pa_detail r, moment))"

primrec absorb :: "('a \<Rightarrow> 'k) \<Rightarrow> 'a list \<Rightarrow> ('k \<Rightarrow> nat) \<Rightarrow> 'a list" where
  "absorb key [] remaining = []"
| "absorb key (x # xs) remaining =
     (if remaining (key x) \<noteq> 0 then absorb key xs (remaining(key x := remaining (key x) - 1))
      else x # absorb key xs remaining)"

definition not_already_present :: "'a list \<Rightarrow> 'a list \<Rightarrow> ('a \<Rightarrow> 'k) \<Rightarrow> 'a list" where
  "not_already_present existing incoming key = absorb key incoming (count_list (map key existing))"

text \<open>The order of \<open>_newest\<close>: dated before undated, later before earlier, then as they stand.\<close>

definition age_key :: "moment option \<Rightarrow> nat \<times> int" where
  "age_key t = (case t of None \<Rightarrow> (1, 0) | Some t \<Rightarrow> (0, - t))"

definition newest :: "('a \<Rightarrow> moment option) \<Rightarrow> 'a list \<Rightarrow> nat \<Rightarrow> 'a list" where
  "newest when_of records count =
     (let ranked = sort_key (\<lambda>i. age_key (when_of (records ! i))) [0..<length records]
      in map (\<lambda>i. records ! i) (sort (take count ranked)))"

text \<open>
  The dictionaries of a list are told apart by \<open>id\<close>: each stands beside its number here. Of the passages of
  this source the newest that fit are kept, with the others'. The result is the passages of the session, those of them
  that are new, and how many of this source were left out.
\<close>

definition fit :: "nat \<Rightarrow> pstr \<Rightarrow> kept list \<Rightarrow> kept list \<Rightarrow> kept list \<times> kept list \<times> nat" where
  "fit limit source existing new =
     (if length (existing @ new) \<le> limit then (existing @ new, new, 0)
      else
        (let rows = enumerate 0 (existing @ new);
             same = filter (\<lambda>(_, r). ke_origin r = Some source) rows;
             capacity = limit - (length rows - length same);
             ids = map fst (newest (\<lambda>(_, r). pa_when r) same capacity);
             stays = (\<lambda>(i, _). i \<in> set ids)
         in (map snd (filter (\<lambda>(i, r). ke_origin r \<noteq> Some source \<or> i \<in> set ids) rows),
             map snd (filter stays (drop (length existing) rows)),
             length same - length ids)))"

fun set_count :: "pstr \<Rightarrow> nat \<Rightarrow> (pstr \<times> nat) list \<Rightarrow> (pstr \<times> nat) list" where
  "set_count source n [] = [(source, n)]"
| "set_count source n ((s, k) # es) = (if s = source then (s, n) # es else (s, k) # set_count source n es)"

text \<open>The result of a merge; \<open>mg_changed\<close> is false when the snapshot is the existing one itself.\<close>

record 'm merged =
  mg_changed :: bool
  mg_snapshot :: "'m snapshot"
  mg_added :: nat
  mg_skipped :: nat
  mg_dropped :: nat

definition merge_upto :: "nat \<Rightarrow> library \<Rightarrow> 'm snapshot \<Rightarrow> 'm snapshot \<Rightarrow> pstr \<Rightarrow> 'm merged" where
  "merge_upto limit L existing incoming source =
     (let here = map (tagged source) (sp_records incoming);
          new_records = not_already_present (sp_records existing) here (record_key L);
          skipped = length here - length new_records;
          (records, new_records, dropped) = fit limit source (sp_records existing) new_records;
          new_watches = not_already_present (sp_watch_times existing) (sp_watch_times incoming) id;
          categories = sorted_set (sp_categories existing @ sp_categories incoming)
      in if new_records = [] \<and> new_watches = [] \<and> length categories = length (sp_categories existing)
         then \<lparr> mg_changed = False, mg_snapshot = existing, mg_added = 0, mg_skipped = skipped, mg_dropped = dropped \<rparr>
         else
           (let count = length (filter (\<lambda>r. ke_origin r = Some source) records);
                watch_times = sp_watch_times existing @ new_watches
            in \<lparr> mg_changed = True,
                 mg_snapshot = \<lparr> sp_records = records, sp_categories = categories, sp_watches = length watch_times,
                   sp_watch_times = watch_times, sp_terms = word_terms L records, sp_map = None,
                   sp_sources = set_count source count (sp_sources existing) \<rparr>,
                 mg_added = length new_records, mg_skipped = skipped, mg_dropped = dropped \<rparr>))"

definition max_records :: nat where "max_records = 5000"

definition merge_snapshot :: "library \<Rightarrow> 'm snapshot \<Rightarrow> 'm snapshot \<Rightarrow> pstr \<Rightarrow> 'm merged" where
  "merge_snapshot L existing incoming source = merge_upto max_records L existing incoming source"

section \<open>Importing\<close>

definition max_import_records :: nat where "max_import_records = 100000"

text \<open>What a source yields: passages, labels and watch times.\<close>

type_synonym imported = "passage list \<times> pstr list \<times> moment list"

definition of_intake :: "intake \<Rightarrow> imported" where
  "of_intake st = (in_records st, in_categories st, in_watches st)"

definition data_files :: "(pstr \<times> json) list \<Rightarrow> string \<Rightarrow> trouble + json list" where
  "data_files data message = (case dget data ''files'' of
     Some (JList files) \<Rightarrow> if files = [] \<or> 500 < length files then Inl (Value_Error (lit message)) else Inr files
   | _ \<Rightarrow> Inl (Value_Error (lit message)))"

text \<open>\<open>[json.loads(f['text'].lstrip('\ufeff')) for f in files]\<close>; whatever goes wrong is the same error.\<close>

definition read_blob :: "library \<Rightarrow> json \<Rightarrow> json option" where
  "read_blob L f = (case file_text f of
     Inr (JStr s) \<Rightarrow> lb_loads L (dropWhile (\<lambda>c. c = 65279) s) | _ \<Rightarrow> None)"

definition json_blobs :: "library \<Rightarrow> string \<Rightarrow> json list \<Rightarrow> trouble + json list" where
  "json_blobs L message files =
     (if list_all (\<lambda>f. read_blob L f \<noteq> None) files then Inr (map (\<lambda>f. the (read_blob L f)) files)
      else Inl (Value_Error (lit message)))"

definition note_file :: "library \<Rightarrow> json \<Rightarrow> passage list \<Rightarrow> trouble + passage list" where
  "note_file L file records = (case file of
     JObj f \<Rightarrow>
       (case (dstr f ''name'', dstr f ''text'') of
          (Some name, Some text) \<Rightarrow>
            bindE (parse_note L name text) (\<lambda>ps.
              if max_import_records < length (records @ ps) then Inl (Value_Error (lit ''Choose fewer notes at once.''))
              else Inr (records @ ps))
        | _ \<Rightarrow> Inl (Value_Error (lit ''Invalid note file.'')))
   | _ \<Rightarrow> Inl (Value_Error (lit ''Invalid note file.'')))"

definition html_file :: "json \<Rightarrow> bool" where
  "html_file f = (case file_text f of Inr (JStr s) \<Rightarrow> starts_with (lit ''<'') (dropWhile py_isspace s) | _ \<Rightarrow> False)"

definition demo_themes :: "(string \<times> string) list" where
  "demo_themes =
     [(''Garden'', ''I planted tomatoes and watered the herbs. The garden feels peaceful.''),
      (''Music'', ''I practiced piano chords and recorded a new melody.''),
      (''Walking'', ''I walked through the woods and enjoyed the quiet trail.''),
      (''Making'', ''I built a small wooden shelf and sketched my next project.''),
      (''Friends'', ''I cooked dinner with friends and enjoyed our conversation.'')]"

definition demo_records :: "passage list" where
  "demo_records = concat (map (\<lambda>(title, text). map (\<lambda>i.
     passage_of (lit text @ lit '' Reflection '' @ int_str (int i + 1) @ lit ''.'') ''note''
       (lit ''Sample journal '' @ [183, 32] @ lit title) None) [0..<12]) demo_themes)"

definition x_files :: "library \<Rightarrow> json list \<Rightarrow> trouble + intake" where
  "x_files L files =
     bindE (fold_try (\<lambda>file streams.
         bindE (file_text file) (\<lambda>v. case v of
           JStr s \<Rightarrow> bindE (x_unwrap L s) (\<lambda>u. Inr (streams @ [u])) | _ \<Rightarrow> Inl Other_Exception)) files [])
       (\<lambda>streams. Inr (load_streams L streams))"

definition read_source :: "library \<Rightarrow> (pstr \<times> json) list \<Rightarrow> json \<Rightarrow> trouble + imported" where
  "read_source L data source =
     (if source = JStr (lit ''notes'')
      then bindE (data_files data ''Choose between 1 and 500 note files.'') (\<lambda>files.
        bindE (fold_try (note_file L) files []) (\<lambda>ps. Inr (ps, [], [])))
      else if source = JStr (lit ''tiktok'')
      then bindE (data_files data ''Choose JSON export files.'') (\<lambda>files.
        bindE (json_blobs L ''Each TikTok file must contain valid JSON.'' files) (\<lambda>blobs. Inr (of_intake (load_tiktok L blobs))))
      else if source = JStr (lit ''youtube'')
      then bindE (data_files data ''Choose YouTube Takeout JSON export files.'') (\<lambda>files.
        if list_ex html_file files
        then Inl (Value_Error (lit ''This is the HTML version of your YouTube history. Export it again from Google Takeout with the history format set to JSON.''))
        else bindE (json_blobs L ''Each YouTube file must contain valid JSON.'' files) (\<lambda>blobs. Inr (of_intake (load_youtube L blobs))))
      else if source = JStr (lit ''instagram'')
      then bindE (data_files data ''Choose Instagram JSON export files.'') (\<lambda>files.
        bindE (json_blobs L ''Each Instagram file must contain valid JSON.'' files) (\<lambda>blobs.
          bindE (load_instagram L blobs) (\<lambda>st. Inr (of_intake st))))
      else if source = JStr (lit ''spotify'')
      then bindE (data_files data ''Choose Spotify streaming history JSON files.'') (\<lambda>files.
        bindE (json_blobs L ''Each Spotify file must contain valid JSON.'' files) (\<lambda>blobs. Inr (of_intake (load_spotify L blobs))))
      else if source = JStr (lit ''reddit'')
      then bindE (data_files data ''Choose Reddit posts.csv / comments.csv export files.'') (\<lambda>files.
        bindE (load_reddit L files) (\<lambda>st. Inr (of_intake st)))
      else if source = JStr (lit ''amazon'')
      then bindE (data_files data ''Choose an Amazon order history CSV file.'') (\<lambda>files.
        bindE (load_amazon L files) (\<lambda>st. Inr (of_intake st)))
      else if source = JStr (lit ''usage'')
      then bindE (data_files data ''Choose a usage.json screen-time export file.'') (\<lambda>files.
        bindE (json_blobs L ''Each usage file must contain valid JSON.'' files) (\<lambda>blobs.
          bindE (load_usage L blobs) (\<lambda>st. Inr (of_intake st))))
      else if source = JStr (lit ''x'')
      then bindE (data_files data ''Choose X/Twitter export .js files.'') (\<lambda>files.
        bindE (x_files L files) (\<lambda>st. Inr (of_intake st)))
      else if source = JStr (lit ''firefox'') \<or> source = JStr (lit ''chrome'')
      then bindE (lb_history L (if source = JStr (lit ''firefox'') then lit ''firefox'' else lit ''chrome''))
        (\<lambda>rows. Inr (of_intake (rows_to_records L rows)))
      else if source = JStr (lit ''demo'') then Inr (demo_records, [], [])
      else Inl (Value_Error (lit ''Unknown source.'')))"

definition import_data :: "library \<Rightarrow> (pstr \<times> json) list \<Rightarrow> json \<Rightarrow> trouble + 'm snapshot" where
  "import_data L data source =
     bindE (read_source L data source) (\<lambda>(records, categories, watch_times).
       if records = [] \<and> categories = [] \<and> watch_times = []
       then Inl (Value_Error (lit ''No usable entries found in this source.''))
       else if max_import_records < length records
       then Inl (Value_Error (lit ''This file has more entries than the app can read at once. Choose a smaller export file.''))
       else Inr (summarize L records categories watch_times))"

section \<open>Figures of the page\<close>

text \<open>The factor that is lowest for a passage; of equal ones the earlier.\<close>

definition factor_names :: "string list" where "factor_names = [''fit'', ''clarity'', ''recency'', ''typical'']"

definition lowest :: "(string \<Rightarrow> 'a::linorder) \<Rightarrow> string" where
  "lowest row = the (find (\<lambda>name. list_all (\<lambda>other. row name \<le> row other) factor_names) factor_names)"

definition factor_index :: "string \<Rightarrow> nat" where
  "factor_index name = length (takeWhile (\<lambda>n. n \<noteq> name) factor_names)"

definition held_back_by :: "(string \<Rightarrow> 'a::linorder) list \<Rightarrow> bool list \<Rightarrow> (string \<times> nat) list" where
  "held_back_by factor_rows signals =
     sort_key (\<lambda>(name, n). (- int n, factor_index name))
       (tally (map (\<lambda>(row, _). lowest row) (filter (\<lambda>(_, signal). \<not> signal) (zip factor_rows signals))))"

text \<open>\<open>_month\<close>: months since the year 0 of the month of a moment, in UTC.\<close>

definition month_number :: "moment \<Rightarrow> nat" where
  "month_number ts =
     (let days = nat (ts - min_timestamp) div 86400000000; y = fst (year_day days); doy = snd (year_day days)
      in y * 12 + month_of (is_leap y) doy - 1)"

record axis =
  ax_first_month :: nat
  ax_bucket_months :: nat
  ax_buckets :: nat

text \<open>\<open>-(-a // b)\<close>.\<close>

definition ceil_div :: "nat \<Rightarrow> nat \<Rightarrow> nat" where "ceil_div a b = (a + b - 1) div b"

definition activity_axis :: "kept list \<Rightarrow> nat \<Rightarrow> axis option" where
  "activity_axis records max_buckets =
     (case map month_number (concat (map (\<lambda>r. case pa_when r of Some t \<Rightarrow> [t] | None \<Rightarrow> []) records)) of
        [] \<Rightarrow> None
      | m # ms \<Rightarrow>
          (let low = foldl min m ms; span = foldl max m ms - low + 1; size = ceil_div span max_buckets
           in Some \<lparr> ax_first_month = low, ax_bucket_months = size, ax_buckets = ceil_div span size \<rparr>))"

text \<open>The bucket of a passage in the activity chart of an island.\<close>

definition bucket_of :: "axis \<Rightarrow> moment \<Rightarrow> nat" where
  "bucket_of a ts = (month_number ts - ax_first_month a) div ax_bucket_months a"

end
