(* ===== verification/Saint_Server.thy ===== *)
theory Saint_Server imports Saint_Session begin

text \<open>
  The server of The Saint (\<open>Server\<close> and \<open>Handler\<close> of \<open>src/app.py\<close>): its state, the checks before a request is
  handled, the requests and the analysis thread. Everything a request or the end of an analysis does to the
  state happens under the lock, so each is one step; \<open>saint_step\<close> is the relation of these steps.
\<close>

section \<open>State\<close>

datatype job = Idle | Running | Failed pstr | Finished

text \<open>\<open>sv_workers\<close>: the threads started and not yet finished, each with the snapshot and generation it was given.\<close>

record 'm server =
  sv_token :: pstr
  sv_port :: nat
  sv_snapshot :: "'m snapshot"
  sv_job :: job
  sv_generation :: nat
  sv_busy :: bool
  sv_workers :: "('m snapshot \<times> nat) list"

definition new_server :: "library \<Rightarrow> pstr \<Rightarrow> nat \<Rightarrow> 'm server" where
  "new_server L token port =
     \<lparr> sv_token = token, sv_port = port, sv_snapshot = summarize L [] [] [], sv_job = Idle, sv_generation = 0,
       sv_busy = False, sv_workers = [] \<rparr>"

text \<open>The end of \<open>analyze\<close>: the result of \<open>semantic_map\<close>, or the message of its failure.\<close>

definition analyzed :: "'m snapshot \<times> nat \<Rightarrow> pstr + 'm \<Rightarrow> 'm server \<Rightarrow> 'm server" where
  "analyzed worker result s =
     (let s = s\<lparr>sv_busy := False, sv_workers := remove1 worker (sv_workers s)\<rparr> in
      if snd worker = sv_generation s
      then (case result of
              Inl message \<Rightarrow> s\<lparr>sv_job := Failed message\<rparr>
            | Inr m \<Rightarrow> s\<lparr>sv_snapshot := (sv_snapshot s)\<lparr>sp_map := Some m\<rparr>, sv_job := Finished\<rparr>)
      else s)"

section \<open>Requests\<close>

text \<open>The headers the server reads, and the body as text.\<close>

record web_request =
  wr_path :: pstr
  wr_host :: "pstr option"
  wr_origin :: "pstr option"
  wr_fetch_site :: "pstr option"
  wr_token :: "pstr option"
  wr_length :: "pstr option"
  wr_type :: "pstr option"
  wr_body :: pstr

text \<open>What is sent back. \<open>Broken\<close>: the handler raised before it replied, and the connection is closed.\<close>

datatype 'm answer =
    Error nat pstr
  | Session pstr "'m snapshot" job
  | Asset string
  | Imported pstr bool nat nat nat
  | Done nat
  | Broken

definition loopback :: "'m server \<Rightarrow> pstr" where
  "loopback s = lit ''127.0.0.1:'' @ dec (sv_port s)"

text \<open>\<open>allowed\<close>: nothing, or the refusal.\<close>

definition allowed :: "'m server \<Rightarrow> web_request \<Rightarrow> 'm answer option" where
  "allowed s r =
     (if wr_host r \<noteq> Some (loopback s) then Some (Error 403 (lit ''Use the printed 127.0.0.1 address.''))
      else if wr_origin r \<noteq> None \<and> wr_origin r \<noteq> Some [] \<and> wr_origin r \<noteq> Some (lit ''http://'' @ loopback s)
      then Some (Error 403 (lit ''Cross-origin request rejected.''))
      else if wr_fetch_site r = Some (lit ''cross-site'') then Some (Error 403 (lit ''Cross-site request rejected.''))
      else None)"

text \<open>The session without \<open>PRIVATE_SNAPSHOT_KEYS\<close>.\<close>

definition public :: "'m snapshot \<Rightarrow> 'm snapshot" where
  "public p = p\<lparr>sp_watch_times := []\<rparr>"

definition do_get :: "'m server \<Rightarrow> web_request \<Rightarrow> 'm answer" where
  "do_get s r = (case allowed s r of
     Some refusal \<Rightarrow> refusal
   | None \<Rightarrow>
       if wr_path r = lit ''/api/state'' then Session (sv_token s) (public (sv_snapshot s)) (sv_job s)
       else if wr_path r = lit ''/'' then Asset ''index.html''
       else if wr_path r = lit ''/app.js'' then Asset ''app.js''
       else if wr_path r = lit ''/style.css'' then Asset ''style.css''
       else Error 404 (lit ''Not found''))"

definition failed :: "trouble \<Rightarrow> 'm answer" where
  "failed e = (case e of Value_Error message \<Rightarrow> Error 400 message
     | Other_Exception \<Rightarrow> Error 500 (lit ''Import failed. Check the selected files and try again.''))"

text \<open>The files whose names decide the source of an upload.\<close>

definition selection :: "(pstr \<times> json) list \<Rightarrow> json" where
  "selection data = (case dget data ''names'' of
     Some (JList names) \<Rightarrow> JList (map (\<lambda>n. JObj [(lit ''name'', JStr n)]) (strings names))
   | _ \<Rightarrow> (case dget data ''files'' of Some files \<Rightarrow> files | None \<Rightarrow> JNull))"

definition resolve_source :: "(pstr \<times> json) list \<Rightarrow> trouble + json" where
  "resolve_source data =
     (let source = (case dget data ''source'' of Some v \<Rightarrow> v | None \<Rightarrow> JNull) in
      if source = JStr (lit ''auto'') then bindE (detect_source (selection data)) (\<lambda>s. Inr (JStr s)) else Inr source)"

definition source_name :: "json \<Rightarrow> pstr" where
  "source_name v = (case v of JStr s \<Rightarrow> s | _ \<Rightarrow> [])"

definition post_import :: "library \<Rightarrow> (pstr \<times> json) list \<Rightarrow> 'm server \<Rightarrow> 'm server \<times> 'm answer" where
  "post_import L data s =
     (case bindE (resolve_source data) (\<lambda>source. bindE (import_data L data source) (\<lambda>incoming. Inr (source_name source, incoming))) of
        Inl e \<Rightarrow> (s, failed e)
      | Inr (source, incoming) \<Rightarrow>
          (let m = merge_snapshot L (sv_snapshot s) incoming source;
               s = (if mg_changed m
                    then s\<lparr>sv_generation := sv_generation s + 1, sv_snapshot := mg_snapshot m, sv_job := Idle\<rparr> else s)
           in (s, Imported source (mg_changed m) (mg_added m) (mg_skipped m) (mg_dropped m))))"

definition post_clear :: "library \<Rightarrow> 'm server \<Rightarrow> 'm server \<times> 'm answer" where
  "post_clear L s = (s\<lparr>sv_generation := sv_generation s + 1, sv_snapshot := summarize L [] [] [], sv_job := Idle\<rparr>, Done 200)"

definition post_analyze :: "'m server \<Rightarrow> 'm server \<times> 'm answer" where
  "post_analyze s =
     (if sv_busy s then (s, Error 409 (lit ''An analysis is still running. Please wait.''))
      else if length (sp_records (sv_snapshot s)) < 30
      then (s, failed (Value_Error (lit ''Import at least 30 passages for semantic clustering.'')))
      else (s\<lparr>sv_busy := True, sv_job := Running,
              sv_workers := sv_workers s @ [(sv_snapshot s, sv_generation s)]\<rparr>, Done 202))"

definition max_request :: int where "max_request = 64000000"

text \<open>\<open>secrets.compare_digest\<close> raises for a header that is not ASCII, before the \<open>try\<close> of the handler.\<close>

definition do_post :: "library \<Rightarrow> web_request \<Rightarrow> 'm server \<Rightarrow> 'm server \<times> 'm answer" where
  "do_post L r s = (case allowed s r of
     Some refusal \<Rightarrow> (s, refusal)
   | None \<Rightarrow>
       (let token = (case wr_token r of Some t \<Rightarrow> t | None \<Rightarrow> []) in
        if list_ex (\<lambda>c. 128 \<le> c) token then (s, Broken)
        else if token \<noteq> sv_token s then (s, Error 403 (lit ''Session expired. Reload this page.''))
        else
          (case py_int 10 (case wr_length r of Some l \<Rightarrow> l | None \<Rightarrow> lit ''0'') of
             None \<Rightarrow> (s, failed (Value_Error (lit ''invalid literal for int() with base 10'')))
           | Some n \<Rightarrow>
               if \<not> (0 < n \<and> n \<le> max_request) then (s, Error 413 (lit ''Choose a smaller file (maximum 32 MB per file).''))
               else if wr_type r \<noteq> Some (lit ''application/json'') then (s, Error 415 (lit ''JSON required.''))
               else (case lb_loads L (wr_body r) of
                   Some (JObj data) \<Rightarrow>
                     if wr_path r = lit ''/api/import'' then post_import L data s
                     else if wr_path r = lit ''/api/clear'' then post_clear L s
                     else if wr_path r = lit ''/api/analyze'' then post_analyze s
                     else (s, Error 404 (lit ''Not found''))
                 | Some _ \<Rightarrow> (s, failed (Value_Error (lit ''Expected a JSON object.'')))
                 | None \<Rightarrow> (s, failed (Value_Error (lit ''Expecting value'')))))))"

section \<open>Steps\<close>

text \<open>\<open>may p r\<close>: running \<open>semantic_map\<close> on the snapshot \<open>p\<close> may end with \<open>r\<close>.\<close>

inductive saint_step :: "library \<Rightarrow> ('m snapshot \<Rightarrow> pstr + 'm \<Rightarrow> bool) \<Rightarrow> 'm server \<Rightarrow> 'm server \<Rightarrow> bool"
  for L may where
  Post: "saint_step L may s (fst (do_post L r s))"
| Analyzed: "worker \<in> set (sv_workers s) \<Longrightarrow> may (fst worker) result \<Longrightarrow> saint_step L may s (analyzed worker result s)"

inductive saint_reaches :: "library \<Rightarrow> ('m snapshot \<Rightarrow> pstr + 'm \<Rightarrow> bool) \<Rightarrow> 'm server \<Rightarrow> 'm server \<Rightarrow> bool"
  for L may where
  Here: "saint_reaches L may s s"
| On: "saint_reaches L may s t \<Longrightarrow> saint_step L may t u \<Longrightarrow> saint_reaches L may s u"

end
