(* ===== verification/Saint_Merge.thy ===== *)
theory Saint_Merge imports Saint_Session "HOL-Library.Multiset" begin

text \<open>
  What merging an import does to a session. \<open>not_already_present\<close> makes the identities of the session the union of
  two multisets; \<open>newest\<close> keeps a sublist no member of which is older than one left out; \<open>fit\<close> never touches
  passages of other sources. From these: a session never outgrows its limit, and importing the same export
  again adds nothing unless two passages of one identity carry different dates.
\<close>

section \<open>Items not yet present\<close>

lemma count_absorb:
  "count (mset (map key (absorb key xs remaining))) k = count (mset (map key xs)) k - remaining k"
  by (induction xs arbitrary: remaining) auto

lemma count_list_mset: "count_list xs k = count (mset xs) k"
  by (induction xs) auto

lemma set_absorb: "set (absorb key xs remaining) \<subseteq> set xs"
  by (induction xs arbitrary: remaining) auto

lemma not_already_present_keys:
  "mset (map key (not_already_present existing incoming key)) = mset (map key incoming) - mset (map key existing)"
  by (rule multiset_eqI) (simp only: not_already_present_def count_absorb count_list_mset count_diff)

lemma not_already_present_union:
  "mset (map key (existing @ not_already_present existing incoming key)) = mset (map key existing) \<union># mset (map key incoming)"
  unfolding map_append mset_append not_already_present_keys by (simp add: union_mset_def)

lemma not_already_present_subset: "set (not_already_present existing incoming key) \<subseteq> set incoming"
  by (simp add: not_already_present_def set_absorb)

lemma not_already_present_Nil:
  "not_already_present existing incoming key = [] \<longleftrightarrow> mset (map key incoming) \<subseteq># mset (map key existing)"
proof -
  have "not_already_present existing incoming key = [] \<longleftrightarrow> mset (map key (not_already_present existing incoming key)) = {#}"
    by simp
  then show ?thesis
    by (simp only: not_already_present_keys Diff_eq_empty_iff_mset)
qed

lemma not_already_present_again:
  "not_already_present (existing @ not_already_present existing incoming key) incoming key = []"
  unfolding not_already_present_Nil not_already_present_union by simp

section \<open>The newest\<close>

definition ranks :: "('a \<Rightarrow> moment option) \<Rightarrow> 'a list \<Rightarrow> nat list" where
  "ranks w xs = sort_key (\<lambda>i. age_key (w (xs ! i))) [0..<length xs]"

lemma newest_ranks: "newest w xs n = map ((!) xs) (sort (take n (ranks w xs)))"
  by (simp add: newest_def ranks_def)

lemma set_ranks [simp]: "set (ranks w xs) = {0..<length xs}"
  by (simp add: ranks_def)

lemma distinct_ranks [simp]: "distinct (ranks w xs)"
  by (simp add: ranks_def)

lemma length_ranks [simp]: "length (ranks w xs) = length xs"
  by (simp add: ranks_def)

lemma length_newest [simp]: "length (newest w xs n) = min n (length xs)"
  by (simp add: newest_ranks min.commute)

lemma mset_ranks: "image_mset ((!) xs) (mset (ranks w xs)) = mset xs"
  unfolding ranks_def mset_sort mset_map [symmetric] map_nth by simp

lemma newest_split:
  "mset xs = mset (newest w xs n) + image_mset ((!) xs) (mset (drop n (ranks w xs)))"
proof -
  have "mset xs = image_mset ((!) xs) (mset (take n (ranks w xs) @ drop n (ranks w xs)))"
    by (simp only: append_take_drop_id mset_ranks)
  also have "\<dots> = image_mset ((!) xs) (mset (take n (ranks w xs))) + image_mset ((!) xs) (mset (drop n (ranks w xs)))"
    by (simp only: mset_append image_mset_union)
  also have "image_mset ((!) xs) (mset (take n (ranks w xs))) = mset (newest w xs n)"
    by (simp add: newest_ranks)
  finally show ?thesis .
qed

lemma newest_older:
  assumes "x \<in> set (newest w xs n)" and "y \<in># mset xs - mset (newest w xs n)"
  shows "age_key (w x) \<le> age_key (w y)"
proof -
  from assms(1) obtain i where i: "i \<in> set (take n (ranks w xs))" and x: "x = xs ! i"
    by (auto simp: newest_ranks)
  from assms(2) have "y \<in># image_mset ((!) xs) (mset (drop n (ranks w xs)))"
    unfolding newest_split [of xs w n] by simp
  then obtain j where j: "j \<in> set (drop n (ranks w xs))" and y: "y = xs ! j"
    by auto
  have "sorted (map (\<lambda>i. age_key (w (xs ! i))) (take n (ranks w xs) @ drop n (ranks w xs)))"
    by (simp add: ranks_def)
  then have "\<forall>a \<in> set (take n (ranks w xs)). \<forall>b \<in> set (drop n (ranks w xs)). age_key (w (xs ! a)) \<le> age_key (w (xs ! b))"
    unfolding map_append sorted_append by simp
  with i j x y show ?thesis
    by blast
qed

lemma newest_subset: "set (newest w xs n) \<subseteq> set xs"
  using in_set_takeD [of _ n "ranks w xs"] by (fastforce simp: newest_ranks)

lemma distinct_newest: "distinct xs \<Longrightarrow> distinct (newest w xs n)"
  by (auto simp: newest_ranks distinct_map inj_on_def nth_eq_iff_index_eq dest!: in_set_takeD)

text \<open>When none of the first items is older than any of the rest, they are the newest.\<close>

lemma sort_key_append_le:
  fixes f :: "'a \<Rightarrow> 'b::linorder"
  assumes "\<And>x y. x \<in> set xs \<Longrightarrow> y \<in> set ys \<Longrightarrow> f x \<le> f y"
  shows "sort_key f (xs @ ys) = sort_key f xs @ sort_key f ys"
proof (rule properties_for_sort_key)
  show "filter (\<lambda>x. f k = f x) (sort_key f xs @ sort_key f ys) = filter (\<lambda>x. f k = f x) (xs @ ys)" for k
    using sort_key_stable [of f "f k" xs] sort_key_stable [of f "f k" ys] by (simp add: eq_commute)
qed (use assms in \<open>auto simp: sorted_append\<close>)

lemma newest_first:
  assumes "\<And>x y. x \<in> set xs \<Longrightarrow> y \<in> set ys \<Longrightarrow> age_key (w x) \<le> age_key (w y)"
  shows "newest w (xs @ ys) (length xs) = xs"
proof -
  let ?f = "\<lambda>i. age_key (w ((xs @ ys) ! i))"
  have "[0..<length (xs @ ys)] = [0..<length xs] @ [length xs..<length (xs @ ys)]"
    by (simp add: upt_add_eq_append [of 0, simplified])
  moreover have "sort_key ?f ([0..<length xs] @ [length xs..<length (xs @ ys)]) =
      sort_key ?f [0..<length xs] @ sort_key ?f [length xs..<length (xs @ ys)]"
    by (rule sort_key_append_le) (auto simp: nth_append intro!: assms)
  ultimately have "take (length xs) (ranks w (xs @ ys)) = sort_key ?f [0..<length xs]"
    by (simp add: ranks_def)
  then have "sort (take (length xs) (ranks w (xs @ ys))) = [0..<length xs]"
    by (intro properties_for_sort) simp_all
  moreover have "map ((!) (xs @ ys)) [0..<length xs] = xs"
    by (rule nth_equalityI) (simp_all add: nth_append)
  ultimately show ?thesis
    by (simp add: newest_ranks)
qed

text \<open>Kept items keep their order.\<close>

lemma sort_take_ranks:
  "sort (take n (ranks w xs)) = filter (\<lambda>i. i \<in> set (take n (ranks w xs))) [0..<length xs]"
proof (rule sorted_distinct_set_unique)
  have "set (take n (ranks w xs)) \<subseteq> {0..<length xs}"
    using set_take_subset [of n "ranks w xs"] by simp
  then show "set (sort (take n (ranks w xs))) = set (filter (\<lambda>i. i \<in> set (take n (ranks w xs))) [0..<length xs])"
    by auto
  show "sorted (filter (\<lambda>i. i \<in> set (take n (ranks w xs))) [0..<length xs])"
    by (rule sorted_wrt_filter) simp
qed simp_all

lemma newest_indices: "newest w xs n = map ((!) xs) (filter (\<lambda>i. i \<in> set (take n (ranks w xs))) [0..<length xs])"
  by (simp only: newest_ranks sort_take_ranks)

lemma newest_filter:
  assumes "distinct xs"
  shows "newest w xs n = filter (\<lambda>x. x \<in> set (newest w xs n)) xs"
proof -
  let ?I = "set (take n (ranks w xs))"
  have "set (take n (ranks w xs)) \<subseteq> {0..<length xs}"
    using set_take_subset [of n "ranks w xs"] by simp
  then have mem: "xs ! i \<in> set (newest w xs n) \<longleftrightarrow> i \<in> ?I" if "i < length xs" for i
    using that assms by (auto simp: newest_ranks nth_eq_iff_index_eq subset_eq)
  have "filter (\<lambda>x. x \<in> set (newest w xs n)) xs = filter (\<lambda>x. x \<in> set (newest w xs n)) (map ((!) xs) [0..<length xs])"
    by (simp add: map_nth)
  also have "\<dots> = map ((!) xs) (filter (\<lambda>i. xs ! i \<in> set (newest w xs n)) [0..<length xs])"
    by (simp add: filter_map o_def)
  also have "\<dots> = map ((!) xs) (filter (\<lambda>i. i \<in> ?I) [0..<length xs])"
    by (intro arg_cong [of _ _ "map ((!) xs)"] filter_cong) (simp_all add: mem)
  finally show ?thesis
    by (simp add: newest_indices)
qed

lemma sort_key_cong_on:
  fixes f g :: "'a \<Rightarrow> 'b::linorder"
  assumes "\<And>x. x \<in> set xs \<Longrightarrow> f x = g x"
  shows "sort_key f xs = sort_key g xs"
proof (rule properties_for_sort_key)
  show "filter (\<lambda>x. f k = f x) (sort_key g xs) = filter (\<lambda>x. f k = f x) xs" if "k \<in> set (sort_key g xs)" for k
  proof -
    have "filter (\<lambda>x. f k = f x) ys = filter (\<lambda>x. g x = g k) ys" if "set ys = set xs" for ys
      using that \<open>k \<in> set (sort_key g xs)\<close> assms by (intro filter_cong) auto
    then show ?thesis
      using sort_key_stable [of g "g k" xs] by simp
  qed
  have "map f (sort_key g xs) = map g (sort_key g xs)"
    by (rule map_cong) (simp_all add: assms)
  then show "sorted (map f (sort_key g xs))"
    by (simp only: sorted_sort_key)
qed simp

lemma newest_map: "newest w (map g xs) n = map g (newest (w \<circ> g) xs n)"
proof -
  have "ranks w (map g xs) = ranks (w \<circ> g) xs"
    unfolding ranks_def length_map by (rule sort_key_cong_on) simp
  moreover have "\<forall>i \<in> set (sort (take n (ranks (w \<circ> g) xs))). i < length xs"
    using set_take_subset [of n "ranks (w \<circ> g) xs"] by auto
  ultimately show ?thesis
    by (simp add: newest_ranks)
qed

section \<open>Fitting into the limit\<close>

abbreviation own :: "pstr \<Rightarrow> kept \<Rightarrow> bool" where
  "own source r \<equiv> ke_origin r = Some source"

lemma filter_enumerate_snd: "map snd (filter (\<lambda>(_, r). P r) (enumerate n xs)) = filter P xs"
  by (induction xs arbitrary: n) simp_all

lemma distinct_enumerate: "distinct (enumerate n xs)"
  by (metis distinct_map distinct_upt map_fst_enumerate)

lemma enumerate_fst_unique:
  "(i, r) \<in> set (enumerate n xs) \<Longrightarrow> (i, r') \<in> set (enumerate n xs) \<Longrightarrow> r = r'"
  by (auto simp: in_set_enumerate_eq)

lemma fit_own:
  assumes "limit < length (existing @ new)" and "fit limit source existing new = (records, fresh, dropped)"
  shows "filter (own source) records =
      newest pa_when (filter (own source) (existing @ new)) (limit - length (filter (\<lambda>r. \<not> own source r) (existing @ new)))"
    and "filter (\<lambda>r. \<not> own source r) records = filter (\<lambda>r. \<not> own source r) (existing @ new)"
proof -
  define rows where "rows = enumerate 0 (existing @ new)"
  define same where "same = filter (\<lambda>(_, r). own source r) rows"
  define capacity where "capacity = limit - (length rows - length same)"
  define best where "best = newest (\<lambda>(_, r). pa_when r) same capacity"
  have records: "records = map snd (filter (\<lambda>(i, r). \<not> own source r \<or> i \<in> set (map fst best)) rows)"
    using assms(2) assms(1) [unfolded not_le [symmetric]]
    unfolding fit_def Let_def rows_def [symmetric] same_def [symmetric] capacity_def [symmetric] best_def [symmetric]
    by (simp only: if_False prod.inject)
  have same: "map snd same = filter (own source) (existing @ new)"
    unfolding same_def rows_def by (rule filter_enumerate_snd)
  have "length rows - length same = length (filter (\<lambda>r. \<not> own source r) (existing @ new))"
    using sum_length_filter_compl [of "own source" "existing @ new"] same [THEN arg_cong, of length]
    by (simp add: rows_def)
  then have capacity: "capacity = limit - length (filter (\<lambda>r. \<not> own source r) (existing @ new))"
    by (simp add: capacity_def)
  have distinct: "distinct same"
    unfolding same_def rows_def by (intro distinct_filter distinct_enumerate)
  have sub: "set best \<subseteq> set same"
    unfolding best_def by (rule newest_subset)
  have mem: "(i, r) \<in> set same \<and> i \<in> set (map fst best) \<longleftrightarrow> (i, r) \<in> set best" for i r
  proof
    assume l: "(i, r) \<in> set same \<and> i \<in> set (map fst best)"
    then obtain r' where r': "(i, r') \<in> set best"
      by auto
    with sub have "(i, r') \<in> set same"
      by blast
    with l have "r = r'"
      using enumerate_fst_unique [of i r 0 "existing @ new" r'] by (simp add: same_def rows_def)
    with r' show "(i, r) \<in> set best"
      by simp
  qed (use sub in \<open>force simp: image_iff\<close>)
  have "filter (own source) records = map snd (filter (\<lambda>p. p \<in> set best) same)"
    unfolding records same_def filter_map filter_filter
    by (intro arg_cong [of _ _ "map snd"] filter_cong) (use mem in \<open>auto simp: same_def rows_def split: prod.splits\<close>)
  also have "\<dots> = map snd best"
    using newest_filter [OF distinct] by (simp add: best_def)
  also have "\<dots> = newest pa_when (map snd same) capacity"
    unfolding best_def newest_map by (simp add: o_def case_prod_unfold)
  finally show "filter (own source) records =
      newest pa_when (filter (own source) (existing @ new)) (limit - length (filter (\<lambda>r. \<not> own source r) (existing @ new)))"
    unfolding same capacity .
  have "filter (\<lambda>r. \<not> own source r) records = map snd (filter (\<lambda>(_, r). \<not> own source r) rows)"
    unfolding records filter_map filter_filter
    by (intro arg_cong [of _ _ "map snd"] filter_cong) auto
  then show "filter (\<lambda>r. \<not> own source r) records = filter (\<lambda>r. \<not> own source r) (existing @ new)"
    unfolding rows_def filter_enumerate_snd .
qed

lemma fit_small: "length (existing @ new) \<le> limit \<Longrightarrow> fit limit source existing new = (existing @ new, new, 0)"
  by (simp add: fit_def)

lemma fit_all:
  assumes "\<not> limit < length (existing @ new)" and "fit limit source existing new = (records, fresh, dropped)"
  shows "records = existing @ new" and "fresh = new"
  using assms by (auto simp: fit_def)

lemma length_by: "length xs = length (filter P xs) + length (filter (\<lambda>x. \<not> P x) xs)"
  using sum_length_filter_compl [of P xs] by simp

text \<open>From here on the new passages are of the source, and the session was within its limit.\<close>

lemma fit_others:
  assumes "\<And>r. r \<in> set new \<Longrightarrow> own source r" and "fit limit source existing new = (records, fresh, dropped)"
  shows "filter (\<lambda>r. \<not> own source r) records = filter (\<lambda>r. \<not> own source r) existing"
proof -
  have none: "filter (\<lambda>r. \<not> own source r) new = []"
    using assms(1) by (simp add: filter_empty_conv)
  show ?thesis
  proof (cases "limit < length (existing @ new)")
    case True
    with fit_own(2) [OF True assms(2)] none show ?thesis
      by simp
  next
    case False
    with fit_all(1) [OF False assms(2)] none show ?thesis
      by simp
  qed
qed

lemma fit_length:
  assumes "\<And>r. r \<in> set new \<Longrightarrow> own source r" and "length existing \<le> limit"
    and fit: "fit limit source existing new = (records, fresh, dropped)"
  shows "length records = min limit (length (existing @ new))"
proof (cases "limit < length (existing @ new)")
  case True
  let ?others = "length (filter (\<lambda>r. \<not> own source r) (existing @ new))"
  have others: "?others = length (filter (\<lambda>r. \<not> own source r) existing)"
    using assms(1) by (simp add: filter_empty_conv)
  then have fits: "?others \<le> limit"
    using assms(2) le_trans [OF length_filter_le] by metis
  have "length (filter (own source) records) = min (limit - ?others) (length (filter (own source) (existing @ new)))"
    unfolding fit_own(1) [OF True fit] by simp
  moreover have "length (filter (\<lambda>r. \<not> own source r) records) = ?others"
    unfolding fit_own(2) [OF True fit] ..
  ultimately show ?thesis
    using True fits length_by [of records "own source"] length_by [of "existing @ new" "own source"] by linarith
next
  case False
  with fit_all(1) [OF False fit] show ?thesis
    by simp
qed

lemma fit_newest:
  assumes fit: "fit limit source existing new = (records, fresh, dropped)"
    and "r \<in> set (filter (own source) records)"
    and "q \<in># mset (filter (own source) (existing @ new)) - mset (filter (own source) records)"
  shows "age_key (pa_when r) \<le> age_key (pa_when q)"
proof (cases "limit < length (existing @ new)")
  case True
  from assms(2,3) show ?thesis
    unfolding fit_own(1) [OF True fit] by (rule newest_older)
next
  case False
  with fit have "records = existing @ new"
    by (intro fit_all(1))
  with assms(3) show ?thesis
    by simp
qed

lemma fit_nothing_fresh:
  assumes "\<And>r. r \<in> set new \<Longrightarrow> own source r" and "length existing \<le> limit"
    and fit: "fit limit source existing new = (records, [], dropped)"
  shows "records = existing"
proof (cases "limit < length (existing @ new)")
  case True
  define stays where "stays ids = (\<lambda>(i :: nat, r). \<not> own source r \<or> i \<in> set ids)" for ids :: "nat list"
  define before after where "before = enumerate 0 existing" and "after = enumerate (length existing) new"
  have rows: "enumerate 0 (existing @ new) = before @ after" and drop: "drop (length existing) (before @ after) = after"
    by (simp_all add: before_def after_def enumerate_append_eq)
  have "\<not> length (existing @ new) \<le> limit"
    using True by simp
  with fit obtain ids where records: "records = map snd (filter (stays ids) (before @ after))"
    and fresh: "map snd (filter (\<lambda>(i, _). i \<in> set ids) after) = []"
    unfolding fit_def Let_def rows drop stays_def by (simp only: if_False prod.inject) blast
  have "filter (stays ids) after = []"
    using fresh assms(1) by (auto simp: filter_empty_conv stays_def after_def in_set_enumerate_eq)
  with records have r: "records = map snd (filter (stays ids) before)"
    by simp
  have "length records = limit"
    using fit_length [OF assms(1,2) fit] True by simp
  then have "length (filter (stays ids) before) \<ge> length before"
    using r assms(2) by (simp add: before_def)
  then have "filter (stays ids) before = before"
    by (metis filter_True filter_id_conv length_filter_less linorder_not_less)
  then show ?thesis
    by (simp add: r before_def)
next
  case False
  from fit_all [OF False fit] show ?thesis
    by simp
qed

lemma fit_full:
  assumes "\<And>r. r \<in> set new \<Longrightarrow> own source r" and "limit = length existing"
    and older: "\<And>r q. r \<in> set existing \<Longrightarrow> own source r \<Longrightarrow> q \<in> set new \<Longrightarrow> age_key (pa_when r) \<le> age_key (pa_when q)"
  shows "fst (snd (fit limit source existing new)) = []"
proof (cases "new = []")
  case True
  with assms(2) show ?thesis
    by (simp add: fit_small)
next
  case False
  define before after where "before = enumerate 0 existing" and "after = enumerate (length existing) new"
  have rows: "enumerate 0 (existing @ new) = before @ after" and drop: "drop (length existing) (before @ after) = after"
    by (simp_all add: before_def after_def enumerate_append_eq)
  define P Q where "P = filter (\<lambda>(_, r). own source r) before" and "Q = filter (\<lambda>(_, r). own source r) after"
  have "Q = after"
    using assms(1) by (auto simp: Q_def after_def filter_id_conv in_set_enumerate_eq)
  have others: "length before - length P = length (filter (\<lambda>r. \<not> own source r) existing)"
    using length_by [of existing "own source"] filter_enumerate_snd [of "own source" 0 existing, THEN arg_cong, of length]
    by (simp add: before_def P_def)
  have le: "length P \<le> length before"
    by (simp add: P_def)
  have capacity: "limit - (length (before @ after) - length (P @ Q)) = length P"
    using le by (simp add: assms(2) \<open>Q = after\<close> before_def)
  have best: "newest (\<lambda>(_, r). pa_when r) (P @ Q) (length P) = P"
    by (rule newest_first) (auto simp: P_def Q_def before_def after_def in_set_enumerate_eq intro!: older)
  have "filter (\<lambda>(i, _). i \<in> set (map fst P)) after = []"
    by (auto simp: filter_empty_conv P_def before_def after_def in_set_enumerate_eq)
  moreover have "\<not> length (existing @ new) \<le> limit"
    using False assms(2) by simp
  ultimately show ?thesis
    unfolding fit_def Let_def rows drop filter_append P_def [symmetric] Q_def [symmetric] capacity best
    by (simp only: if_False snd_conv fst_conv list.map)
qed

section \<open>Merging\<close>

text \<open>The passages of an import as they enter the session, those of them that are not there yet, and the fit.\<close>

definition arriving :: "'m snapshot \<Rightarrow> pstr \<Rightarrow> kept list" where
  "arriving incoming source = map (tagged source) (sp_records incoming)"

definition unseen :: "library \<Rightarrow> 'm snapshot \<Rightarrow> 'm snapshot \<Rightarrow> pstr \<Rightarrow> kept list" where
  "unseen L s incoming source = not_already_present (sp_records s) (arriving incoming source) (record_key L)"

definition unseen_watches :: "'m snapshot \<Rightarrow> 'm snapshot \<Rightarrow> moment list" where
  "unseen_watches s incoming = not_already_present (sp_watch_times s) (sp_watch_times incoming) id"

definition all_labels :: "'m snapshot \<Rightarrow> 'm snapshot \<Rightarrow> pstr list" where
  "all_labels s incoming = sorted_set (sp_categories s @ sp_categories incoming)"

lemma unseen_own: "r \<in> set (unseen L s incoming source) \<Longrightarrow> own source r"
  using not_already_present_subset [of "sp_records s" "arriving incoming source" "record_key L"]
  by (auto simp: unseen_def arriving_def tagged_def)

lemma merge_unfold:
  assumes "fit limit source (sp_records s) (unseen L s incoming source) = (records, fresh, dropped)"
  shows "merge_upto limit L s incoming source =
     (let here = arriving incoming source; skipped = length here - length (unseen L s incoming source) in
      if fresh = [] \<and> unseen_watches s incoming = [] \<and> length (all_labels s incoming) = length (sp_categories s)
      then \<lparr> mg_changed = False, mg_snapshot = s, mg_added = 0, mg_skipped = skipped, mg_dropped = dropped \<rparr>
      else
        (let count = length (filter (own source) records); watch_times = sp_watch_times s @ unseen_watches s incoming in
         \<lparr> mg_changed = True,
           mg_snapshot = \<lparr> sp_records = records, sp_categories = all_labels s incoming, sp_watches = length watch_times,
             sp_watch_times = watch_times, sp_terms = word_terms L records, sp_map = None,
             sp_sources = set_count source count (sp_sources s) \<rparr>,
           mg_added = length fresh, mg_skipped = skipped, mg_dropped = dropped \<rparr>))"
  unfolding merge_upto_def arriving_def [symmetric] unseen_watches_def [symmetric] all_labels_def [symmetric] Let_def
    unseen_def [symmetric] assms
  by (simp only: prod.case)

lemma merge_cases:
  assumes "fit limit source (sp_records s) (unseen L s incoming source) = (records, fresh, dropped)"
  obtains (same) "fresh = []" and "unseen_watches s incoming = []" and "length (all_labels s incoming) = length (sp_categories s)"
      and "\<not> mg_changed (merge_upto limit L s incoming source)" and "mg_snapshot (merge_upto limit L s incoming source) = s"
      and "mg_added (merge_upto limit L s incoming source) = 0"
  | (changed) "\<not> (fresh = [] \<and> unseen_watches s incoming = [] \<and> length (all_labels s incoming) = length (sp_categories s))"
      and "mg_changed (merge_upto limit L s incoming source)"
      and "sp_records (mg_snapshot (merge_upto limit L s incoming source)) = records"
      and "sp_watch_times (mg_snapshot (merge_upto limit L s incoming source)) = sp_watch_times s @ unseen_watches s incoming"
      and "sp_watches (mg_snapshot (merge_upto limit L s incoming source)) = length (sp_watch_times s @ unseen_watches s incoming)"
      and "sp_categories (mg_snapshot (merge_upto limit L s incoming source)) = all_labels s incoming"
      and "sp_map (mg_snapshot (merge_upto limit L s incoming source)) = None"
      and "mg_added (merge_upto limit L s incoming source) = length fresh"
      and "sp_sources (mg_snapshot (merge_upto limit L s incoming source)) = set_count source (length (filter (own source) records)) (sp_sources s)"
proof (cases "fresh = [] \<and> unseen_watches s incoming = [] \<and> length (all_labels s incoming) = length (sp_categories s)")
  case True
  show thesis
    by (rule same) (use True in \<open>simp_all add: merge_unfold [OF assms]\<close>)
next
  case False
  show thesis
    by (rule changed [OF False]) (simp_all only: merge_unfold [OF assms] if_not_P [OF False] Let_def merged.simps snapshot.simps)
qed

lemma merge_records:
  assumes "length (sp_records s) \<le> limit"
    and fit: "fit limit source (sp_records s) (unseen L s incoming source) = (records, fresh, dropped)"
  shows "sp_records (mg_snapshot (merge_upto limit L s incoming source)) = records"
proof (rule merge_cases [OF fit])
  assume "fresh = []" and s: "mg_snapshot (merge_upto limit L s incoming source) = s"
  with fit have "fit limit source (sp_records s) (unseen L s incoming source) = (records, [], dropped)"
    by simp
  from fit_nothing_fresh [OF unseen_own [of _ L s incoming] assms(1) this] show ?thesis
    by (simp add: s)
qed

text \<open>A session stays within its limit, keeps the other sources whole, and of its own source the newest.\<close>

definition contenders :: "library \<Rightarrow> 'm snapshot \<Rightarrow> 'm snapshot \<Rightarrow> pstr \<Rightarrow> kept list" where
  "contenders L s incoming source = filter (own source) (sp_records s @ unseen L s incoming source)"

lemma merge_within:
  fixes L :: library and s incoming :: "'m snapshot" and source :: pstr
  assumes "length (sp_records s) \<le> limit"
  defines "records \<equiv> sp_records (mg_snapshot (merge_upto limit L s incoming source))"
  shows "length records = min limit (length (sp_records s @ unseen L s incoming source))"
    and "filter (\<lambda>r. \<not> own source r) records = filter (\<lambda>r. \<not> own source r) (sp_records s)"
    and "\<lbrakk>r \<in> set (filter (own source) records);
          q \<in># mset (contenders L s incoming source) - mset (filter (own source) records)\<rbrakk>
         \<Longrightarrow> age_key (pa_when r) \<le> age_key (pa_when q)"
proof -
  obtain rs fresh dropped where fit: "fit limit source (sp_records s) (unseen L s incoming source) = (rs, fresh, dropped)"
    by (cases "fit limit source (sp_records s) (unseen L s incoming source)")
  have records: "records = rs"
    unfolding records_def by (rule merge_records [OF assms(1) fit])
  show "length records = min limit (length (sp_records s @ unseen L s incoming source))"
    unfolding records by (rule fit_length [OF unseen_own assms(1) fit])
  show "filter (\<lambda>r. \<not> own source r) records = filter (\<lambda>r. \<not> own source r) (sp_records s)"
    unfolding records by (rule fit_others [OF unseen_own fit])
  show "\<lbrakk>r \<in> set (filter (own source) records);
          q \<in># mset (contenders L s incoming source) - mset (filter (own source) records)\<rbrakk>
         \<Longrightarrow> age_key (pa_when r) \<le> age_key (pa_when q)"
    unfolding records contenders_def by (rule fit_newest [OF fit])
qed

text \<open>The identities of a session that has room are the union of its identities and the import's.\<close>

lemma unseen_length: "length (unseen L s incoming source) \<le> length (sp_records incoming)"
proof -
  have "length (absorb key xs c) \<le> length xs" for key :: "kept \<Rightarrow> record_id" and xs c
    by (induction xs arbitrary: c) (auto intro: le_SucI)
  then show ?thesis
    unfolding unseen_def not_already_present_def arriving_def by (metis length_map)
qed

lemma merge_union:
  assumes "length (sp_records s) + length (sp_records incoming) \<le> limit"
  shows "mset (map (record_key L) (sp_records (mg_snapshot (merge_upto limit L s incoming source)))) =
     mset (map (record_key L) (sp_records s)) \<union># mset (map (record_key L) (arriving incoming source))"
proof -
  have small: "length (sp_records s @ unseen L s incoming source) \<le> limit"
    using assms unseen_length [of L s incoming source] by simp
  have "length (sp_records s) \<le> limit"
    using assms by simp
  then have "sp_records (mg_snapshot (merge_upto limit L s incoming source)) = sp_records s @ unseen L s incoming source"
    by (rule merge_records) (rule fit_small [OF small])
  then show ?thesis
    by (simp only: unseen_def not_already_present_union)
qed

lemma sorted_set_again: "sorted_set (sorted_set (xs @ ys) @ ys) = sorted_set (xs @ ys)"
  unfolding sorted_set_def sorted_list_of_set_sort_remdups [symmetric] by (simp add: Un_assoc)

text \<open>No two passages of one identity, of the session or the import, carry different dates.\<close>

definition one_date :: "library \<Rightarrow> kept list \<Rightarrow> bool" where
  "one_date L rs \<longleftrightarrow> (\<forall>p \<in> set rs. \<forall>q \<in> set rs. record_key L p = record_key L q \<longrightarrow> pa_when p = pa_when q)"

lemma count_own_key:
  "fst k = Some source \<Longrightarrow> count (mset (map (record_key L) (filter (own source) rs))) k = count (mset (map (record_key L) rs)) k"
  by (induction rs) (auto simp: record_key_def Let_def)

lemma diff_key:
  assumes "count (mset (map key ys)) k < count (mset (map key xs)) k"
  obtains x where "x \<in># mset xs - mset ys" and "key x = k"
proof -
  have "mset xs \<subseteq># mset ys + (mset xs - mset ys)"
    by (rule mset_subset_eqI) (unfold count_union count_diff, arith)
  then have "image_mset key (mset xs) \<subseteq># image_mset key (mset ys) + image_mset key (mset xs - mset ys)"
    by (metis image_mset_subseteq_mono image_mset_union)
  from mset_subset_eq_count [OF this, of k] assms have "0 < count (image_mset key (mset xs - mset ys)) k"
    unfolding mset_map count_union by linarith
  then show thesis
    using that by (auto simp: count_greater_zero_iff)
qed

lemma unseen_has_rival:
  assumes t: "sp_records t = records" and q: "q \<in> set (unseen L t incoming source)"
  obtains y where "y \<in># mset (contenders L s incoming source) - mset (filter (own source) records)"
    and "record_key L y = record_key L q" and "y \<in> set (sp_records s @ arriving incoming source)"
    and "q \<in> set (arriving incoming source)"
proof -
  let ?k = "record_key L q"
  have k: "fst ?k = Some source"
    using unseen_own [OF q] by (simp add: record_key_def Let_def)
  have "?k \<in># mset (map (record_key L) (unseen L t incoming source))"
    using q by auto
  then have "count (mset (map (record_key L) records)) ?k < count (mset (map (record_key L) (arriving incoming source))) ?k"
    unfolding unseen_def not_already_present_keys t by (simp only: in_diff_count)
  also have "\<dots> \<le> count (mset (map (record_key L) (sp_records s @ unseen L s incoming source))) ?k"
    unfolding unseen_def not_already_present_union by simp
  finally have "count (mset (map (record_key L) (filter (own source) records))) ?k <
      count (mset (map (record_key L) (contenders L s incoming source))) ?k"
    unfolding contenders_def count_own_key [OF k] .
  then obtain y where y: "y \<in># mset (contenders L s incoming source) - mset (filter (own source) records)" "record_key L y = ?k"
    by (rule diff_key)
  have "y \<in> set (contenders L s incoming source)"
    using in_diffD [OF y(1)] by simp
  then have "y \<in> set (sp_records s @ arriving incoming source)"
    using not_already_present_subset by (fastforce simp: contenders_def unseen_def)
  moreover have "q \<in> set (arriving incoming source)"
    using q not_already_present_subset by (fastforce simp: unseen_def)
  ultimately show thesis
    using that y by blast
qed

lemma merge_again:
  fixes L :: library and s incoming :: "'m snapshot" and source :: pstr
  assumes within: "length (sp_records s) \<le> limit"
    and dates: "length (sp_records s @ unseen L s incoming source) \<le> limit \<or> one_date L (sp_records s @ arriving incoming source)"
  defines "t \<equiv> mg_snapshot (merge_upto limit L s incoming source)"
  shows "\<not> mg_changed (merge_upto limit L t incoming source)" and "mg_snapshot (merge_upto limit L t incoming source) = t"
    and "mg_added (merge_upto limit L t incoming source) = 0"
proof -
  obtain rs fresh dropped where fit: "fit limit source (sp_records s) (unseen L s incoming source) = (rs, fresh, dropped)"
    by (cases "fit limit source (sp_records s) (unseen L s incoming source)")
  obtain rs' fresh' dropped' where fit': "fit limit source (sp_records t) (unseen L t incoming source) = (rs', fresh', dropped')"
    by (cases "fit limit source (sp_records t) (unseen L t incoming source)")
  have records: "sp_records t = rs"
    unfolding t_def by (rule merge_records [OF within fit])
  have fresh': "fresh' = []"
  proof (cases "length (sp_records s @ unseen L s incoming source) \<le> limit")
    case True
    then have "rs = sp_records s @ unseen L s incoming source"
      using fit by (intro fit_all(1)) simp_all
    then have "unseen L t incoming source = []"
      unfolding unseen_def records by (simp only: not_already_present_again)
    with fit' records fit_length [OF unseen_own [of _ L s incoming] within fit] show ?thesis
      by (simp add: fit_small)
  next
    case False
    with dates have one: "one_date L (sp_records s @ arriving incoming source)"
      by simp
    have full: "limit = length (sp_records t)"
      using fit_length [OF unseen_own [of _ L s incoming] within fit] False by (simp add: records)
    have older: "age_key (pa_when r) \<le> age_key (pa_when q)"
      if r: "r \<in> set (sp_records t)" "own source r" and q: "q \<in> set (unseen L t incoming source)" for r q
    proof -
      obtain y where y: "y \<in># mset (contenders L s incoming source) - mset (filter (own source) (sp_records t))"
        and key: "record_key L y = record_key L q" and yin: "y \<in> set (sp_records s @ arriving incoming source)"
        and qin: "q \<in> set (arriving incoming source)"
        by (rule unseen_has_rival [OF refl q])
      have "q \<in> set (sp_records s @ arriving incoming source)"
        using qin by simp
      then have "pa_when y = pa_when q"
        by (rule one [unfolded one_date_def, THEN bspec, OF yin, THEN bspec, THEN mp, OF _ key])
      moreover have "r \<in> set (filter (own source) (sp_records t))"
        using r by simp
      ultimately show ?thesis
        using merge_within(3) [OF within, where L = L and incoming = incoming and source = source, folded t_def, OF _ y] by simp
    qed
    have "fst (snd (fit limit source (sp_records t) (unseen L t incoming source))) = []"
      by (rule fit_full) (blast intro: unseen_own full older)+
    with fit' show ?thesis
      by simp
  qed
  have watches: "unseen_watches t incoming = []"
    by (rule merge_cases [OF fit]) (simp_all add: t_def unseen_watches_def not_already_present_again)
  have labels: "length (all_labels t incoming) = length (sp_categories t)"
    by (rule merge_cases [OF fit]) (simp_all add: t_def all_labels_def sorted_set_again)
  show "\<not> mg_changed (merge_upto limit L t incoming source)" and "mg_snapshot (merge_upto limit L t incoming source) = t"
    and "mg_added (merge_upto limit L t incoming source) = 0"
    by (rule merge_cases [OF fit'], use fresh' watches labels in simp_all)+
qed

end
