(* ===== verification/Saint_Life.thy ===== *)
theory Saint_Life imports Saint_Server Saint_Merge begin

text \<open>
  The life of The Saint's server. \<open>desk\<close> is what a user sees of it: the session, the state of the analysis and
  whether one is running. Its steps speak neither of threads nor of generations: a changed session has no
  map and an idle analysis, an analysis that is delivered is one of the session shown, any other is thrown
  away. \<open>saint_ok\<close> is the invariant under which the generation counter implements this (\<open>saint_simulates\<close>).
\<close>

section \<open>What an operation may do\<close>

definition answered_error :: "'m answer \<Rightarrow> bool" where
  "answered_error a \<longleftrightarrow> (case a of Error _ _ \<Rightarrow> True | Broken \<Rightarrow> True | _ \<Rightarrow> False)"

lemma answered_error_simps [simp]:
  "answered_error (Error n m)" "answered_error Broken" "answered_error (failed e)" "\<not> answered_error (Done n)"
  "\<not> answered_error (Imported t c a k d)"
  by (simp_all add: answered_error_def failed_def split: trouble.split)

text \<open>A request of the page itself: to the printed address, from no other origin, with the token of the session.\<close>

definition presented :: "web_request \<Rightarrow> pstr" where
  "presented r = (case wr_token r of Some t \<Rightarrow> t | None \<Rightarrow> [])"

definition from_page :: "'m server \<Rightarrow> web_request \<Rightarrow> bool" where
  "from_page s r \<longleftrightarrow> allowed s r = None \<and> presented r = sv_token s \<and> wr_type r = Some (lit ''application/json'')"

text \<open>The three ways a request leaves the server.\<close>

inductive served :: "library \<Rightarrow> 'm server \<Rightarrow> 'm server \<Rightarrow> bool" for L s where
  Unchanged: "served L s s"
| Imported: "mg_changed (merge_snapshot L (sv_snapshot s) incoming source) \<Longrightarrow>
    served L s (s\<lparr>sv_generation := Suc (sv_generation s),
      sv_snapshot := mg_snapshot (merge_snapshot L (sv_snapshot s) incoming source), sv_job := Idle\<rparr>)"
| Cleared: "served L s (s\<lparr>sv_generation := Suc (sv_generation s), sv_snapshot := summarize L [] [] [], sv_job := Idle\<rparr>)"
| Started: "\<not> sv_busy s \<Longrightarrow> 30 \<le> length (sp_records (sv_snapshot s)) \<Longrightarrow>
    served L s (s\<lparr>sv_busy := True, sv_job := Running, sv_workers := sv_workers s @ [(sv_snapshot s, sv_generation s)]\<rparr>)"

lemma post_import_served: "served L s (fst (post_import L data s))"
  by (auto simp: post_import_def Let_def split: sum.splits intro: served.intros)

lemma post_clear_served: "served L s (fst (post_clear L s))"
  by (simp add: post_clear_def served.Cleared)

lemma post_analyze_served: "served L s (fst (post_analyze s))"
  by (auto simp: post_analyze_def intro: served.intros)

text \<open>How a post ends: refused, or handed to one of the three operations.\<close>

lemma do_post_refuses:
  "fst (do_post L r s) = s \<and> answered_error (snd (do_post L r s)) \<or>
   from_page s r \<and> (\<exists>data. do_post L r s = post_import L data s \<or> do_post L r s = post_clear L s \<or> do_post L r s = post_analyze s)"
proof (cases "allowed s r")
  case (Some refusal)
  then have "answered_error refusal"
    by (auto simp: allowed_def split: if_splits)
  with Some show ?thesis
    by (simp add: do_post_def)
next
  case None
  define n where "n = py_int 10 (case wr_length r of Some l \<Rightarrow> l | None \<Rightarrow> lit ''0'')"
  note post = do_post_def [of L r s, unfolded None option.case Let_def, folded presented_def n_def]
  show ?thesis
  proof (cases "list_ex (\<lambda>c. 128 \<le> c) (presented r) \<or> presented r \<noteq> sv_token s \<or> n = None \<or>
      \<not> (0 < the n \<and> the n \<le> max_request) \<or> wr_type r \<noteq> Some (lit ''application/json'')")
    case True
    then show ?thesis
      by (cases n) (auto simp: post)
  next
    case False
    then obtain i where "n = Some i" and "from_page s r"
      using None by (auto simp: from_page_def)
    with False have post: "do_post L r s = (case lb_loads L (wr_body r) of
        Some (JObj data) \<Rightarrow>
          if wr_path r = lit ''/api/import'' then post_import L data s
          else if wr_path r = lit ''/api/clear'' then post_clear L s
          else if wr_path r = lit ''/api/analyze'' then post_analyze s
          else (s, Error 404 (lit ''Not found''))
      | Some _ \<Rightarrow> (s, failed (Value_Error (lit ''Expected a JSON object.'')))
      | None \<Rightarrow> (s, failed (Value_Error (lit ''Expecting value''))))"
      by (simp add: post)
    show ?thesis
    proof (cases "\<exists>data. lb_loads L (wr_body r) = Some (JObj data)")
      case True
      then obtain data where "lb_loads L (wr_body r) = Some (JObj data)" ..
      with \<open>from_page s r\<close> show ?thesis
        unfolding post by (simp only: option.case json.case split: if_split) auto
    next
      case False
      then show ?thesis
        unfolding post by (auto split: option.split json.split)
    qed
  qed
qed

lemma do_post_cases:
  obtains (refused) "fst (do_post L r s) = s" and "answered_error (snd (do_post L r s))"
  | (imported) data where "from_page s r" and "do_post L r s = post_import L data s"
  | (cleared) "from_page s r" and "do_post L r s = post_clear L s"
  | (started) "from_page s r" and "do_post L r s = post_analyze s"
  using do_post_refuses [of L r s] by blast

lemma do_post_served: "served L s (fst (do_post L r s))"
  by (rule do_post_cases [of L r s])
    (simp_all add: served.Unchanged post_import_served post_clear_served post_analyze_served)

text \<open>A request that is answered with an error has changed nothing.\<close>

lemma post_import_error: "answered_error (snd (post_import L data s)) \<Longrightarrow> fst (post_import L data s) = s"
  by (auto simp: post_import_def Let_def split: sum.splits)

lemma post_analyze_error: "answered_error (snd (post_analyze s)) \<Longrightarrow> fst (post_analyze s) = s"
  by (auto simp: post_analyze_def split: if_splits)

lemma do_post_error: "answered_error (snd (do_post L r s)) \<Longrightarrow> fst (do_post L r s) = s"
  by (rule do_post_cases [of L r s])
    (simp_all add: post_clear_def post_import_error post_analyze_error)

section \<open>The invariant\<close>

text \<open>The content of a snapshot, whatever its map.\<close>

definition same_content :: "'m snapshot \<Rightarrow> 'm snapshot \<Rightarrow> bool" where
  "same_content p q \<longleftrightarrow> p\<lparr>sp_map := None\<rparr> = q\<lparr>sp_map := None\<rparr>"

definition counts_of :: "kept list \<Rightarrow> (pstr \<times> nat) list \<Rightarrow> bool" where
  "counts_of records sources \<longleftrightarrow>
     distinct (map fst sources) \<and>
     (\<forall>(s, n) \<in> set sources. n = length (filter (own s) records)) \<and>
     (\<forall>r \<in> set records. \<exists>s \<in> fst ` set sources. ke_origin r = Some s)"

definition snapshot_ok :: "'m snapshot \<Rightarrow> bool" where
  "snapshot_ok p \<longleftrightarrow>
     length (sp_records p) \<le> max_records \<and> sp_watches p = length (sp_watch_times p) \<and>
     sorted (sp_categories p) \<and> distinct (sp_categories p) \<and> counts_of (sp_records p) (sp_sources p)"

text \<open>The thread that runs, if one does, belongs to the session shown exactly when the page says it is running.\<close>

definition workers_ok :: "'m server \<Rightarrow> bool" where
  "workers_ok s \<longleftrightarrow>
     sv_workers s = [] \<and> \<not> sv_busy s \<and> sv_job s \<noteq> Running \<or>
     (\<exists>p g. sv_workers s = [(p, g)] \<and> sv_busy s \<and> g \<le> sv_generation s \<and>
        (g = sv_generation s \<longleftrightarrow> sv_job s = Running) \<and> (sv_job s = Running \<longrightarrow> p = sv_snapshot s))"

definition map_ok :: "('m snapshot \<Rightarrow> pstr + 'm \<Rightarrow> bool) \<Rightarrow> 'm server \<Rightarrow> bool" where
  "map_ok may s \<longleftrightarrow>
     (sv_job s = Finished \<longrightarrow> sp_map (sv_snapshot s) \<noteq> None) \<and>
     (\<forall>m. sp_map (sv_snapshot s) = Some m \<longrightarrow> (\<exists>p. same_content p (sv_snapshot s) \<and> may p (Inr m)))"

definition saint_ok :: "('m snapshot \<Rightarrow> pstr + 'm \<Rightarrow> bool) \<Rightarrow> 'm server \<Rightarrow> bool" where
  "saint_ok may s \<longleftrightarrow> snapshot_ok (sv_snapshot s) \<and> workers_ok s \<and> map_ok may s"

lemma counts_of_set_count:
  assumes counts: "counts_of old sources"
    and others: "filter (\<lambda>r. \<not> own s r) records = filter (\<lambda>r. \<not> own s r) old"
  shows "counts_of records (set_count s (length (filter (own s) records)) sources)"
proof -
  have fsts: "fst ` set (set_count s n es) = insert s (fst ` set es)" for s n es
    by (induction s n es rule: set_count.induct) auto
  have dist: "distinct (map fst es) \<Longrightarrow> distinct (map fst (set_count s n es))" for s n es
  proof (induction s n es rule: set_count.induct)
    case (2 s n t k es)
    then have "t \<notin> fst ` set (set_count s n es)" if "t \<noteq> s"
      using that by (simp add: fsts)
    with 2 show ?case
      by (cases "t = s") auto
  qed simp
  have mem: "distinct (map fst es) \<Longrightarrow> (t, k) \<in> set (set_count s n es) \<Longrightarrow> (if t = s then k = n else (t, k) \<in> set es)" for s t k n es
  proof (induction s n es rule: set_count.induct)
    case (2 s n u j es)
    then show ?case
      by (cases "u = s") (auto simp: rev_image_eqI)
  qed simp
  have same: "filter (own t) records = filter (own t) old" if "t \<noteq> s" for t
  proof -
    have "filter (own t) rs = filter (own t) (filter (\<lambda>r. \<not> own s r) rs)" for rs
      using that by (auto simp: filter_filter intro: filter_cong)
    then show ?thesis
      by (metis others)
  qed
  have "\<exists>t \<in> insert s (fst ` set sources). ke_origin r = Some t" if "r \<in> set records" for r
  proof (cases "own s r")
    case False
    with that have "r \<in> set (filter (\<lambda>r. \<not> own s r) records)"
      by simp
    then have "r \<in> set old"
      unfolding others by simp
    with counts show ?thesis
      unfolding counts_of_def by blast
  qed simp
  moreover have "n = length (filter (own t) records)"
    if "(t, n) \<in> set (set_count s (length (filter (own s) records)) sources)" for t n
    using mem [OF _ that] counts same unfolding counts_of_def by (cases "t = s") auto
  ultimately show ?thesis
    using counts dist unfolding counts_of_def fsts by blast
qed

subsection \<open>Sessions\<close>

lemma sorted_set_facts [simp]: "sorted (sorted_set xs)" "distinct (sorted_set xs)" "set (sorted_set xs) = set xs"
  by (simp_all add: sorted_set_def)

lemma empty_snapshot_ok: "snapshot_ok (summarize L [] [] [])"
  by (simp add: snapshot_ok_def summarize_def counts_of_def sorted_set_def)

lemma empty_snapshot_map [simp]: "sp_map (summarize L ps cs ws) = None"
  by (simp add: summarize_def)

lemma merge_sources:
  assumes "mg_changed (merge_upto limit L s incoming source)"
  shows "sp_sources (mg_snapshot (merge_upto limit L s incoming source)) =
      set_count source (length (filter (own source) (sp_records (mg_snapshot (merge_upto limit L s incoming source))))) (sp_sources s)"
proof -
  obtain rs fresh dropped where fit: "fit limit source (sp_records s) (unseen L s incoming source) = (rs, fresh, dropped)"
    by (cases "fit limit source (sp_records s) (unseen L s incoming source)")
  show ?thesis
  proof (rule merge_cases [OF fit])
    assume "\<not> mg_changed (merge_upto limit L s incoming source)"
    with assms show ?thesis
      by blast
  qed simp
qed

lemma merge_snapshot_ok:
  assumes "snapshot_ok s" and changed: "mg_changed (merge_snapshot L s incoming source)"
  shows "snapshot_ok (mg_snapshot (merge_snapshot L s incoming source))"
    and "sp_map (mg_snapshot (merge_snapshot L s incoming source)) = None"
proof -
  let ?t = "mg_snapshot (merge_upto max_records L s incoming source)"
  have within: "length (sp_records s) \<le> max_records"
    using assms(1) by (simp add: snapshot_ok_def)
  obtain rs fresh dropped where fit: "fit max_records source (sp_records s) (unseen L s incoming source) = (rs, fresh, dropped)"
    by (cases "fit max_records source (sp_records s) (unseen L s incoming source)")
  have "sp_map ?t = None \<and> sp_watches ?t = length (sp_watch_times ?t) \<and> sorted (sp_categories ?t) \<and> distinct (sp_categories ?t)"
    by (rule merge_cases [OF fit]) (use changed in \<open>simp_all add: merge_snapshot_def all_labels_def\<close>)
  moreover have "length (sp_records ?t) \<le> max_records"
    using merge_within(1) [OF within, of L incoming source] by simp
  moreover have "counts_of (sp_records ?t) (sp_sources ?t)"
    unfolding merge_sources [OF changed [unfolded merge_snapshot_def]]
    by (rule counts_of_set_count [OF _ merge_within(2) [OF within]]) (use assms(1) in \<open>simp add: snapshot_ok_def\<close>)
  ultimately show "snapshot_ok (mg_snapshot (merge_snapshot L s incoming source))"
    and "sp_map (mg_snapshot (merge_snapshot L s incoming source)) = None"
    by (simp_all add: snapshot_ok_def merge_snapshot_def)
qed

lemma served_ok:
  assumes "served L s t" and "saint_ok may s"
  shows "saint_ok may t"
  using assms
proof cases
  case (Imported incoming source)
  have "snapshot_ok (sv_snapshot s)"
    using assms(2) by (simp add: saint_ok_def)
  from merge_snapshot_ok [OF this Imported(2)] assms(2) Imported(1) show ?thesis
    by (auto simp: saint_ok_def workers_ok_def map_ok_def)
next
  case Cleared
  with assms(2) show ?thesis
    by (auto simp: saint_ok_def workers_ok_def map_ok_def empty_snapshot_ok)
next
  case Started
  with assms(2) show ?thesis
    by (auto simp: saint_ok_def workers_ok_def map_ok_def)
qed simp

lemma analyzed_ok:
  assumes "saint_ok may s" and worker: "worker \<in> set (sv_workers s)" and result: "may (fst worker) result"
  shows "saint_ok may (analyzed worker result s)"
proof -
  obtain p g where w: "sv_workers s = [(p, g)]" and "worker = (p, g)" and p: "sv_job s = Running \<Longrightarrow> p = sv_snapshot s"
    and g: "g \<le> sv_generation s" "g = sv_generation s \<longleftrightarrow> sv_job s = Running"
    using assms(1) worker by (auto simp: saint_ok_def workers_ok_def)
  show ?thesis
  proof (cases "sv_job s = Running")
    case True
    with p g result \<open>worker = (p, g)\<close> have "may (sv_snapshot s) result" and "g = sv_generation s"
      by simp_all
    with assms(1) w \<open>worker = (p, g)\<close> show ?thesis
      by (cases result)
        (auto simp: saint_ok_def analyzed_def Let_def workers_ok_def map_ok_def snapshot_ok_def same_content_def intro!: exI [of _ "sv_snapshot s"])
  next
    case False
    with g assms(1) w \<open>worker = (p, g)\<close> show ?thesis
      by (auto simp: saint_ok_def analyzed_def Let_def workers_ok_def map_ok_def)
  qed
qed

lemma new_server_ok: "saint_ok may (new_server L token port)"
  by (simp add: saint_ok_def new_server_def workers_ok_def map_ok_def empty_snapshot_ok)

lemma saint_step_ok: "saint_step L may s t \<Longrightarrow> saint_ok may s \<Longrightarrow> saint_ok may t"
  by (induction rule: saint_step.induct) (auto intro: served_ok do_post_served analyzed_ok)

lemma saint_reaches_ok: "saint_reaches L may s t \<Longrightarrow> saint_ok may s \<Longrightarrow> saint_ok may t"
  by (induction rule: saint_reaches.induct) (auto intro: saint_step_ok)

section \<open>What the user sees\<close>

record 'm desk =
  dk_session :: "'m snapshot"
  dk_job :: job
  dk_busy :: bool

inductive desk_step :: "library \<Rightarrow> ('m snapshot \<Rightarrow> pstr + 'm \<Rightarrow> bool) \<Rightarrow> 'm desk \<Rightarrow> 'm desk \<Rightarrow> bool" for L may where
  Import: "mg_changed (merge_snapshot L (dk_session d) incoming source) \<Longrightarrow>
    desk_step L may d (d\<lparr>dk_session := mg_snapshot (merge_snapshot L (dk_session d) incoming source), dk_job := Idle\<rparr>)"
| Clear: "desk_step L may d (d\<lparr>dk_session := summarize L [] [] [], dk_job := Idle\<rparr>)"
| Begin: "\<not> dk_busy d \<Longrightarrow> 30 \<le> length (sp_records (dk_session d)) \<Longrightarrow> desk_step L may d (d\<lparr>dk_busy := True, dk_job := Running\<rparr>)"
| Deliver: "dk_busy d \<Longrightarrow> dk_job d = Running \<Longrightarrow> may (dk_session d) (Inr m) \<Longrightarrow>
    desk_step L may d (d\<lparr>dk_busy := False, dk_session := (dk_session d)\<lparr>sp_map := Some m\<rparr>, dk_job := Finished\<rparr>)"
| Fail: "dk_busy d \<Longrightarrow> dk_job d = Running \<Longrightarrow> may (dk_session d) (Inl e) \<Longrightarrow>
    desk_step L may d (d\<lparr>dk_busy := False, dk_job := Failed e\<rparr>)"
| Discard: "dk_busy d \<Longrightarrow> dk_job d \<noteq> Running \<Longrightarrow> desk_step L may d (d\<lparr>dk_busy := False\<rparr>)"

inductive desk_reaches :: "library \<Rightarrow> ('m snapshot \<Rightarrow> pstr + 'm \<Rightarrow> bool) \<Rightarrow> 'm desk \<Rightarrow> 'm desk \<Rightarrow> bool" for L may where
  Stay: "desk_reaches L may d d"
| Go: "desk_reaches L may d e \<Longrightarrow> desk_step L may e f \<Longrightarrow> desk_reaches L may d f"

definition desk_of :: "'m server \<Rightarrow> 'm desk" where
  "desk_of s = \<lparr> dk_session = sv_snapshot s, dk_job = sv_job s, dk_busy = sv_busy s \<rparr>"

lemma served_simulates: "served L s t \<Longrightarrow> desk_of t = desk_of s \<or> desk_step L may (desk_of s) (desk_of t)"
proof (induction rule: served.induct)
  case (Imported incoming source)
  then show ?case
    using desk_step.Import [of L "desk_of s" incoming source may] by (simp add: desk_of_def)
next
  case Cleared
  then show ?case
    using desk_step.Clear [of L may "desk_of s"] by (simp add: desk_of_def)
next
  case Started
  then show ?case
    using desk_step.Begin [of "desk_of s" L may] by (simp add: desk_of_def)
qed simp

lemma analyzed_simulates:
  assumes "saint_ok may s" and "worker \<in> set (sv_workers s)" and "may (fst worker) result"
  shows "desk_step L may (desk_of s) (desk_of (analyzed worker result s))"
proof -
  obtain p g where "worker = (p, g)" and busy: "sv_busy s" and p: "sv_job s = Running \<Longrightarrow> p = sv_snapshot s"
    and g: "g = sv_generation s \<longleftrightarrow> sv_job s = Running"
    using assms(1,2) by (auto simp: saint_ok_def workers_ok_def)
  show ?thesis
  proof (cases "sv_job s = Running")
    case True
    with p assms(3) \<open>worker = (p, g)\<close> have may: "may (sv_snapshot s) result"
      by simp
    show ?thesis
    proof (cases result)
      case (Inl e)
      with True busy may g \<open>worker = (p, g)\<close> show ?thesis
        using desk_step.Fail [of "desk_of s" may e L] by (simp add: desk_of_def analyzed_def Let_def)
    next
      case (Inr m)
      with True busy may g \<open>worker = (p, g)\<close> show ?thesis
        using desk_step.Deliver [of "desk_of s" may m L] by (simp add: desk_of_def analyzed_def Let_def)
    qed
  next
    case False
    with busy g \<open>worker = (p, g)\<close> show ?thesis
      using desk_step.Discard [of "desk_of s" L may] by (simp add: desk_of_def analyzed_def Let_def)
  qed
qed

lemma saint_simulates:
  assumes "saint_step L may s t" and "saint_ok may s"
  shows "desk_of t = desk_of s \<or> desk_step L may (desk_of s) (desk_of t)"
  using assms(1)
proof cases
  case (Post r)
  then show ?thesis
    using served_simulates [OF do_post_served] by simp
next
  case (Analyzed worker result)
  then show ?thesis
    using analyzed_simulates [OF assms(2)] by blast
qed

lemma saint_simulation: "saint_reaches L may s t \<Longrightarrow> saint_ok may s \<Longrightarrow> desk_reaches L may (desk_of s) (desk_of t)"
proof (induction rule: saint_reaches.induct)
  case (On s t u)
  from saint_simulates [OF On.hyps(2) saint_reaches_ok [OF On.hyps(1) On.prems]] On show ?case
    by (auto intro: desk_reaches.Go)
qed (simp add: desk_reaches.Stay)

end
