(* ===== verification/Saint_Reading.thy ===== *)
theory Saint_Reading imports Saint_Session begin

text \<open>
  What the readers of The Saint have in common, as a locale: a loop body that keeps an intake \<open>tidy\<close>, that is,
  the keys seen are exactly the keys of the passages, no key twice, and no passage is empty. It is interpreted
  on the loop body of every reader, so an import never holds two passages of one kind and text. Then the cutting of notes,
  the words of a passage and the axis of the activity chart.
\<close>

section \<open>Tidy intakes\<close>

definition tidy :: "(passage \<Rightarrow> pstr) \<Rightarrow> intake \<Rightarrow> bool" where
  "tidy key st \<longleftrightarrow> in_seen st = rev (map key (in_records st)) \<and> distinct (map key (in_records st)) \<and>
     (\<forall>p \<in> set (in_records st). pa_text p \<noteq> [])"

lemma tidy_nothing [simp]: "tidy key nothing_read"
  by (simp add: tidy_def nothing_read_def)

lemma tidy_accept: "tidy key st \<Longrightarrow> pa_text p \<noteq> [] \<Longrightarrow> k = key p \<Longrightarrow> tidy key (accept k p st)"
  by (auto simp: tidy_def accept_def)

lemma tidy_others [simp]:
  "tidy key (add_labels ls st) \<longleftrightarrow> tidy key st" "tidy key (add_watch t st) \<longleftrightarrow> tidy key st"
  "tidy key (settle st) \<longleftrightarrow> tidy key st"
  by (simp_all add: tidy_def add_labels_def add_watch_def settle_def)

lemma passage_of_simps [simp]:
  "pa_text (passage_of t s d w) = t" "pa_source (passage_of t s d w) = lit s" "pa_detail (passage_of t s d w) = d"
  "pa_when (passage_of t s d w) = w"
  by (simp_all add: passage_of_def)

locale tidy_reader =
  fixes key :: "passage \<Rightarrow> pstr" and body :: "'e \<Rightarrow> intake \<Rightarrow> intake"
  assumes keeps: "tidy key st \<Longrightarrow> tidy key (body e st)"
begin

lemma fold_tidy: "tidy key st \<Longrightarrow> tidy key (fold body es st)"
  by (induction es arbitrary: st) (simp_all add: keeps)

lemma nested_tidy: "tidy key st \<Longrightarrow> tidy key (fold (\<lambda>b. fold body (parts b)) bs st)"
  by (induction bs arbitrary: st) (simp_all add: fold_tidy)

end

text \<open>A loop body that may raise.\<close>

locale tidy_raising =
  fixes key :: "passage \<Rightarrow> pstr" and body :: "'e \<Rightarrow> intake \<Rightarrow> trouble + intake"
  assumes keeps_or_raises: "tidy key st \<Longrightarrow> body e st = Inr st' \<Longrightarrow> tidy key st'"
begin

lemma try_tidy: "tidy key st \<Longrightarrow> fold_try body es st = Inr st' \<Longrightarrow> tidy key st'"
  using fold_try_invariant [of es body "tidy key" st st'] keeps_or_raises by blast

lemma nested_try_tidy: "tidy key st \<Longrightarrow> fold_try (\<lambda>b. fold_try body (parts b)) bs st = Inr st' \<Longrightarrow> tidy key st'"
  using fold_try_invariant [of bs "\<lambda>b. fold_try body (parts b)" "tidy key" st st'] try_tidy by blast

end

text \<open>The keys: the kind and the text, or the text alone.\<close>

definition kind_key :: "library \<Rightarrow> passage \<Rightarrow> pstr" where
  "kind_key L p = pa_source p @ lit '':'' @ lb_lower L (pa_text p)"

definition text_key :: "library \<Rightarrow> passage \<Rightarrow> pstr" where
  "text_key L p = lb_lower L (pa_text p)"

interpretation youtube: tidy_reader "kind_key L" "youtube_entry L" for L
proof
  fix st e
  assume "tidy (kind_key L) st"
  then show "tidy (kind_key L) (youtube_entry L e st)"
    by (auto simp: youtube_entry_def Let_def kind_key_def split: json.splits option.splits intro!: tidy_accept)
qed

lemma spotify_text_nonempty: "spotify_text d k = Some t \<Longrightarrow> t \<noteq> []"
  by (auto simp: spotify_text_def int_str_def split: option.splits json.splits if_splits)

lemma spotify_either_nonempty: "either_of (spotify_text d j) (spotify_text d k) = Some t \<Longrightarrow> t \<noteq> []"
  by (cases "spotify_text d j") (auto simp: either_of_def dest: spotify_text_nonempty)

lemma tidy_spotify_add: "tidy (kind_key L) st \<Longrightarrow> t \<noteq> [] \<Longrightarrow> tidy (kind_key L) (spotify_add L t s w st)"
  by (simp add: spotify_add_def tidy_accept kind_key_def)

lemma tidy_spotify_play:
  assumes "tidy (kind_key L) st"
  shows "tidy (kind_key L) (spotify_play L d st)"
proof -
  have dash: "dash \<noteq> []"
    by (simp add: dash_def)
  have given: "spotify_text d k \<noteq> Some []" "either_of (spotify_text d j) (spotify_text d k) \<noteq> Some []" for j k
    using spotify_text_nonempty spotify_either_nonempty by blast+
  show ?thesis
    unfolding spotify_play_def Let_def
    by (auto split: option.split intro!: tidy_spotify_add [OF assms] simp: assms dash given)
qed

interpretation spotify: tidy_reader "kind_key L" "spotify_entry L" for L
proof
  fix st e
  assume "tidy (kind_key L) st"
  then show "tidy (kind_key L) (spotify_entry L e st)"
    by (auto simp: spotify_entry_def tidy_spotify_play split: json.splits option.splits
        intro!: tidy_spotify_add dest: spotify_text_nonempty)
qed

interpretation spotify_files: tidy_reader "kind_key L" "spotify_blob L" for L
proof
  fix st e
  assume "tidy (kind_key L) st"
  then show "tidy (kind_key L) (spotify_blob L e st)"
    by (simp add: spotify_blob_def spotify.fold_tidy split: json.split option.split)
qed

lemma tidy_tiktok_add: "tidy (text_key L) st \<Longrightarrow> tidy (text_key L) (tiktok_add L t s w st)"
  by (simp add: tiktok_add_def Let_def tidy_accept text_key_def)

lemma tidy_tiktok_item:
  "tidy (text_key L) (snd st) \<Longrightarrow> tidy (text_key L) (snd (tiktok_item L path date it st))"
  by (cases st; cases it) (simp add: tiktok_item_def tidy_tiktok_add split: json.split)

lemma tidy_tiktok_items:
  "tidy (text_key L) (snd st) \<Longrightarrow> tidy (text_key L) (snd (fold (tiktok_item L path date) its st))"
  by (induction its arbitrary: st) (simp_all add: tidy_tiktok_item)

interpretation tiktok: tidy_reader "text_key L" "tiktok_node L" for L
proof
  fix st e
  assume "tidy (text_key L) st"
  then show "tidy (text_key L) (tiktok_node L e st)"
    by (cases e) (simp add: tiktok_node_def tidy_tiktok_items)
qed

lemma tidy_x_add: "tidy (kind_key L) st \<Longrightarrow> tidy (kind_key L) (x_add L t s w st)"
  by (simp add: x_add_def Let_def tidy_accept kind_key_def)

interpretation x_item: tidy_reader "kind_key L" "x_item L path date" for L path date
proof
  fix st and e :: "pstr \<times> json"
  assume "tidy (kind_key L) st"
  then show "tidy (kind_key L) (x_item L path date e st)"
    by (cases e) (simp add: x_item_def tidy_x_add split: json.split)
qed

interpretation x: tidy_reader "kind_key L" "x_node L" for L
proof
  fix st e
  assume "tidy (kind_key L) st"
  then show "tidy (kind_key L) (x_node L e st)"
    by (cases e) (simp add: x_node_def x_item.fold_tidy)
qed

interpretation reddit: tidy_reader "kind_key L" "reddit_row L kind fieldnames" for L kind fieldnames
proof
  fix st e
  assume "tidy (kind_key L) st"
  then show "tidy (kind_key L) (reddit_row L kind fieldnames e st)"
    by (simp add: reddit_row_def Let_def tidy_accept kind_key_def)
qed

interpretation amazon: tidy_reader "text_key L" "amazon_row L fieldnames c" for L fieldnames c
proof
  fix st e
  assume "tidy (text_key L) st"
  then show "tidy (text_key L) (amazon_row L fieldnames c e st)"
    by (simp add: amazon_row_def Let_def tidy_accept text_key_def)
qed

interpretation reddit_files: tidy_raising "kind_key L" "\<lambda>f st. bindE (bindE (file_text f) csv_text) (\<lambda>text. reddit_file L text st)" for L
proof
  fix st e st'
  assume t: "tidy (kind_key L) st" and r: "bindE (bindE (file_text e) csv_text) (\<lambda>text. reddit_file L text st) = Inr st'"
  from r obtain content where "reddit_file L content st = Inr st'"
    by (cases "bindE (file_text e) csv_text") auto
  with t show "tidy (kind_key L) st'"
    by (auto simp: reddit_file_def reddit.fold_tidy csv_rows_def split: sum.splits option.splits if_splits)
qed

interpretation amazon_files: tidy_raising "text_key L" "\<lambda>f st. bindE (bindE (file_text f) csv_text) (\<lambda>text. amazon_file L text st)" for L
proof
  fix st e st'
  assume t: "tidy (text_key L) st" and r: "bindE (bindE (file_text e) csv_text) (\<lambda>text. amazon_file L text st) = Inr st'"
  from r obtain content where "amazon_file L content st = Inr st'"
    by (cases "bindE (file_text e) csv_text") auto
  with t show "tidy (text_key L) st'"
    by (auto simp: amazon_file_def amazon.fold_tidy csv_rows_def split: sum.splits option.splits if_splits)
qed

text \<open>Instagram keeps a repaired text, which is never empty.\<close>

lemma utf8_decode_nonempty: "utf8_decode s = Some t \<Longrightarrow> s \<noteq> [] \<Longrightarrow> t \<noteq> []"
  by (cases s) (auto simp: Let_def split: if_splits list.splits)

lemma fix_meta_text_nonempty: "s \<noteq> [] \<Longrightarrow> fix_meta_text s \<noteq> []"
  by (auto simp: fix_meta_text_def dest: utf8_decode_nonempty split: option.splits)

lemma fix_meta_text_Nil: "[] = fix_meta_text s \<Longrightarrow> s = []"
  using fix_meta_text_nonempty [of s] by (cases "s = []") auto

lemma instagram_values_nonempty: "(f, v) \<in> set (instagram_values L smd) \<Longrightarrow> v \<noteq> []"
  by (auto simp: instagram_values_def dest: fix_meta_text_Nil split: option.splits if_splits)

lemma tidy_instagram_search: "tidy (kind_key L) st \<Longrightarrow> v \<noteq> [] \<Longrightarrow> tidy (kind_key L) (instagram_search L v w st)"
  by (simp add: instagram_search_def tidy_accept kind_key_def lit_def)

lemma tidy_instagram_fields:
  "tidy (kind_key L) st \<Longrightarrow> (\<And>f v. (f, v) \<in> set fs \<Longrightarrow> v \<noteq> []) \<Longrightarrow> tidy (kind_key L) (fold (instagram_field L w) fs st)"
proof (induction fs arbitrary: st)
  case (Cons f fs)
  have "snd f \<noteq> []"
    using Cons.prems(2) [of "fst f" "snd f"] by simp
  then have "tidy (kind_key L) (instagram_field L w f st)"
    using Cons.prems(1) by (cases f) (simp add: instagram_field_def tidy_instagram_search)
  from Cons.IH [OF this] Cons.prems(2) show ?case
    by auto
qed simp

interpretation instagram: tidy_raising "kind_key L" "instagram_node L" for L
proof
  fix st e st'
  assume t: "tidy (kind_key L) st" and r: "instagram_node L e st = Inr st'"
  obtain node path where e: "e = (node, path)"
    by (cases e)
  show "tidy (kind_key L) st'"
  proof (cases "\<exists>smd moment. dget node ''string_map_data'' = Some (JObj smd) \<and> instagram_when smd = Inr moment")
    case True
    then obtain smd moment where smd: "dget node ''string_map_data'' = Some (JObj smd)" and w: "instagram_when smd = Inr moment"
      by blast
    have "tidy (kind_key L) (fold (instagram_field L moment) (instagram_values L smd) st)"
      by (rule tidy_instagram_fields [OF t]) (rule instagram_values_nonempty)
    moreover have "tidy (kind_key L) (instagram_search L v moment st)" if "instagram_values L smd = (f, v) # vs" for f v vs
      using instagram_values_nonempty [of f v L smd] that by (intro tidy_instagram_search [OF t]) simp
    ultimately show ?thesis
      using t r by (auto simp: instagram_node_def e smd w Let_def split: option.splits if_splits list.splits)
  next
    case False
    with t r show ?thesis
      by (auto simp: instagram_node_def e split: option.splits json.splits elim: bindE.elims)
  qed
qed

section \<open>Every source\<close>

lemma load_youtube_tidy: "tidy (kind_key L) (load_youtube L blobs)"
  by (simp add: load_youtube_def youtube.nested_tidy)

lemma load_spotify_tidy: "tidy (kind_key L) (load_spotify L blobs)"
  by (simp add: load_spotify_def spotify_files.fold_tidy)

lemma load_tiktok_tidy: "tidy (text_key L) (load_tiktok L blobs)"
  by (simp add: load_tiktok_def tiktok.nested_tidy)

lemma load_streams_tidy: "tidy (kind_key L) (load_streams L streams)"
proof -
  have "tidy (kind_key L) (fold (\<lambda>(stream, blob). fold (x_node L) (iter_dicts (p stream) blob)) streams st)"
    if "tidy (kind_key L) st" for p st
    using that by (induction streams arbitrary: st) (auto simp: x.fold_tidy)
  then show ?thesis
    by (simp add: load_streams_def)
qed

lemma load_instagram_tidy: "load_instagram L blobs = Inr st \<Longrightarrow> tidy (kind_key L) st"
  by (auto simp: load_instagram_def elim!: bindE.elims dest: instagram.nested_try_tidy [OF tidy_nothing])

lemma load_reddit_tidy: "load_reddit L files = Inr st \<Longrightarrow> tidy (kind_key L) st"
  unfolding load_reddit_def by (rule reddit_files.try_tidy [OF tidy_nothing])

lemma load_amazon_tidy: "load_amazon L files = Inr st \<Longrightarrow> tidy (text_key L) st"
  unfolding load_amazon_def by (rule amazon_files.try_tidy [OF tidy_nothing])

lemma x_files_tidy: "x_files L files = Inr st \<Longrightarrow> tidy (kind_key L) st"
  by (auto simp: x_files_def load_streams_tidy elim!: bindE.elims)

lemma history_record_nonempty: "p \<in> set (history_record L row) \<Longrightarrow> pa_text p \<noteq> []"
  by (cases row) (auto simp: history_record_def extract_query_def split: option.splits list.splits if_splits)

lemma rows_to_records_tidy: "tidy (text_key L) (rows_to_records L rows)"
proof -
  have fold: "tidy (text_key L) (fold (\<lambda>p. accept (lb_lower L (pa_text p)) p) ps st)"
    if "\<And>p. p \<in> set ps \<Longrightarrow> pa_text p \<noteq> []" and "tidy (text_key L) st" for ps st
    using that by (induction ps arbitrary: st) (simp_all add: tidy_accept text_key_def)
  show ?thesis
    unfolding rows_to_records_def by (rule fold) (use history_record_nonempty in auto)
qed

text \<open>The key a source tells its passages apart by.\<close>

definition reader_key :: "library \<Rightarrow> pstr \<Rightarrow> passage \<Rightarrow> pstr" where
  "reader_key L source =
     (if source \<in> set (map lit [''tiktok'', ''amazon'', ''firefox'', ''chrome'']) then text_key L else kind_key L)"

lemma of_intake_tidy:
  assumes "of_intake st = (ps, cats, ws)" and "tidy key st"
  shows "distinct (map key ps) \<and> (\<forall>p \<in> set ps. pa_text p \<noteq> [])"
  using assms by (auto simp: of_intake_def tidy_def)

lemma read_source_tidy:
  assumes "read_source L data (JStr source) = Inr (ps, cats, ws)"
    and "source \<notin> set (map lit [''notes'', ''usage'', ''demo''])"
  shows "distinct (map (reader_key L source) ps) \<and> (\<forall>p \<in> set ps. pa_text p \<noteq> [])"
proof -
  have "\<exists>st. of_intake st = (ps, cats, ws) \<and> tidy (reader_key L source) st"
  proof -
    consider "source = lit ''tiktok''" | "source = lit ''youtube''" | "source = lit ''instagram''" | "source = lit ''spotify''"
      | "source = lit ''reddit''" | "source = lit ''amazon''" | "source = lit ''x''" | "source = lit ''firefox''" | "source = lit ''chrome''"
      using assms by (auto simp: read_source_def split: if_splits)
    then show ?thesis
    proof cases
      case 1
      with assms(1) show ?thesis
        by (auto simp: read_source_def bindE_eq_Inr reader_key_def intro: load_tiktok_tidy)
    next
      case 2
      with assms(1) show ?thesis
        by (auto simp: read_source_def bindE_eq_Inr reader_key_def intro: load_youtube_tidy split: if_splits)
    next
      case 3
      with assms(1) show ?thesis
        by (auto simp: read_source_def bindE_eq_Inr reader_key_def intro: load_instagram_tidy)
    next
      case 4
      with assms(1) show ?thesis
        by (auto simp: read_source_def bindE_eq_Inr reader_key_def intro: load_spotify_tidy)
    next
      case 5
      with assms(1) show ?thesis
        by (auto simp: read_source_def bindE_eq_Inr reader_key_def intro: load_reddit_tidy)
    next
      case 6
      with assms(1) show ?thesis
        by (auto simp: read_source_def bindE_eq_Inr reader_key_def intro: load_amazon_tidy)
    next
      case 7
      with assms(1) show ?thesis
        by (auto simp: read_source_def bindE_eq_Inr reader_key_def intro: x_files_tidy)
    next
      case 8
      with assms(1) show ?thesis
        by (auto simp: read_source_def bindE_eq_Inr reader_key_def intro: rows_to_records_tidy)
    next
      case 9
      with assms(1) show ?thesis
        by (auto simp: read_source_def bindE_eq_Inr reader_key_def intro: rows_to_records_tidy)
    qed
  qed
  then show ?thesis
    using of_intake_tidy by blast
qed

section \<open>Notes\<close>

lemma chunks_simp: "0 < n \<Longrightarrow> xs \<noteq> [] \<Longrightarrow> chunks n xs = take n xs # chunks n (drop n xs)"
  by (subst chunks.simps) simp

lemma chunks_Nil [simp]: "chunks n [] = []"
  by (subst chunks.simps) simp

lemma chunks_lossless: "0 < n \<Longrightarrow> concat (chunks n xs) = xs"
proof (induction n xs rule: chunks.induct)
  case (1 n xs)
  then show ?case
    by (cases "xs = []") (simp_all add: chunks_simp)
qed

lemma chunks_bounded: "0 < n \<Longrightarrow> c \<in> set (chunks n xs) \<Longrightarrow> c \<noteq> [] \<and> length c \<le> n"
proof (induction n xs rule: chunks.induct)
  case (1 n xs)
  then show ?case
    by (cases "xs = []") (auto simp: chunks_simp)
qed

lemma split_words_unfold:
  "split_words s = (let t = dropWhile py_isspace s in
     if t = [] then [] else takeWhile (\<lambda>c. \<not> py_isspace c) t # split_words (dropWhile (\<lambda>c. \<not> py_isspace c) t))"
  by (rule split_words.simps)

definition word_like :: "pstr \<Rightarrow> bool" where
  "word_like w \<longleftrightarrow> w \<noteq> [] \<and> list_all (\<lambda>c. \<not> py_isspace c) w"

lemma split_words_like: "w \<in> set (split_words s) \<Longrightarrow> word_like w"
proof (induction s rule: split_words.induct)
  case (1 s)
  define t where "t = dropWhile py_isspace s"
  show ?case
  proof (cases "t = []")
    case True
    with "1.prems" show ?thesis
      by (simp add: split_words_unfold [of s] t_def [symmetric])
  next
    case False
    then have "\<not> py_isspace (hd t)"
      using hd_dropWhile [of py_isspace s] by (simp add: t_def)
    with False have "word_like (takeWhile (\<lambda>c. \<not> py_isspace c) t)"
      by (cases t) (auto simp: word_like_def list_all_iff dest: set_takeWhileD)
    moreover have "w = takeWhile (\<lambda>c. \<not> py_isspace c) t \<or> w \<in> set (split_words (dropWhile (\<lambda>c. \<not> py_isspace c) t))"
      using "1.prems" False by (simp add: split_words_unfold [of s] t_def [symmetric])
    ultimately show ?thesis
      using "1.IH" [OF t_def False] by blast
  qed
qed

lemma split_words_step:
  assumes "word_like w" and "s = [] \<or> py_isspace (hd s)"
  shows "split_words (w @ s) = w # split_words s"
proof -
  have drop: "dropWhile py_isspace (w @ s) = w @ s" and "w @ s \<noteq> []"
    using assms(1) by (cases w; simp add: word_like_def)+
  have "takeWhile (\<lambda>c. \<not> py_isspace c) (w @ s) = w" and "dropWhile (\<lambda>c. \<not> py_isspace c) (w @ s) = s"
    using assms by (cases s; simp add: word_like_def list_all_iff)+
  with drop \<open>w @ s \<noteq> []\<close> show ?thesis
    unfolding split_words_unfold [of "w @ s"] Let_def by simp
qed

lemma split_words_space: "split_words (32 # s) = split_words s"
  unfolding split_words_unfold [of "32 # s"] split_words_unfold [of s] by (simp add: py_isspace_def)

lemma split_words_joined: "list_all word_like ws \<Longrightarrow> split_words (joined [32] ws) = ws"
proof (induction ws)
  case (Cons w ws)
  show ?case
  proof (cases ws)
    case Nil
    with Cons.prems show ?thesis
      using split_words_step [of w "[]"] by (simp add: split_words_unfold [of "[]"])
  next
    case (Cons v vs)
    with Cons.prems Cons.IH show ?thesis
      using split_words_step [of w "32 # joined [32] (v # vs)"] by (simp add: split_words_space py_isspace_def)
  qed
qed (simp add: split_words_unfold [of "[]"])

definition note_passage :: "pstr \<Rightarrow> passage \<Rightarrow> bool" where
  "note_passage name p \<longleftrightarrow> pa_source p = lit ''note'' \<and> pa_when p = None \<and>
     (\<exists>heading. pa_detail p = name @ [32, 183, 32] @ heading) \<and>
     split_words (pa_text p) \<noteq> [] \<and> length (split_words (pa_text p)) \<le> chunk_words"

lemma note_paragraph_passages:
  assumes "list_all (note_passage name) ps"
  shows "list_all (note_passage name) (snd (note_paragraph name paragraph (heading, ps)))"
proof -
  obtain heading' lines where lines: "fold note_line (splitlines paragraph) (heading, []) = (heading', lines)"
    by (cases "fold note_line (splitlines paragraph) (heading, [])")
  have "note_passage name (passage_of (joined [32] ws) ''note'' (name @ [32, 183, 32] @ heading') None)"
    if ws: "ws \<in> set (chunks chunk_words (split_words (stripped (joined [32] lines))))" for ws
  proof -
    have "ws \<noteq> [] \<and> length ws \<le> chunk_words"
      by (rule chunks_bounded [OF _ ws]) (simp add: chunk_words_def)
    moreover have "set ws \<subseteq> set (split_words (stripped (joined [32] lines)))"
      using ws chunks_lossless [of chunk_words "split_words (stripped (joined [32] lines))"]
      by (metis (no_types, lifting) chunk_words_def set_concat Union_upper imageI zero_less_numeral)
    then have "list_all word_like ws"
      using split_words_like by (auto simp: list_all_iff)
    ultimately show ?thesis
      by (simp add: note_passage_def split_words_joined)
  qed
  with assms lines show ?thesis
    by (auto simp: note_paragraph_def Let_def list_all_iff)
qed

lemma parse_note_passages:
  assumes "parse_note L name content = Inr ps"
  shows "list_all (note_passage name) ps"
proof -
  have "list_all (note_passage name) (snd (fold (note_paragraph name) paragraphs st))"
    if "list_all (note_passage name) (snd st)" for paragraphs st
    using that
  proof (induction paragraphs arbitrary: st)
    case (Cons p paragraphs)
    then show ?case
      using note_paragraph_passages [of name "snd st" p "fst st"] by simp
  qed simp
  with assms show ?thesis
    by (auto simp: parse_note_def Let_def split: if_splits)
qed

section \<open>Words\<close>

lemma words_letters:
  assumes "w \<in> set (words L content)"
  shows "list_all (letter L) w" and "3 \<le> length w" and "w \<notin> set stop_words"
    and "\<exists>before after. lb_lower L (sub (not_words_rx L) [32] content) = before @ w @ after"
proof -
  let ?s = "lb_lower L (sub (not_words_rx L) [32] content)"
  from assms obtain m d where m: "onward ([], ?s) m" and d: "d \<in> set (run (word_rx L) m)" and w: "w = between m d"
    using findall_match [of w "word_rx L" ?s] by (auto simp: words_def)
  from d have "list_all (letter L) (between m d) \<and> 3 \<le> length (between m d)"
    unfolding word_rx_def by (rule at_least_class)
  then show "list_all (letter L) w" and "3 \<le> length w"
    by (simp_all add: w)
  show "w \<notin> set stop_words"
    using assms by (simp add: words_def)
  show "\<exists>before after. ?s = before @ w @ after"
    using onward_between [OF m] onward_between [OF run_onward [OF d]] w by auto
qed

section \<open>The axis of the activity chart\<close>

lemma foldl_min_le: "foldl min m ms \<le> (m :: nat) \<and> (\<forall>x \<in> set ms. foldl min m ms \<le> x)"
proof (induction ms arbitrary: m)
  case (Cons x ms)
  from Cons.IH [of "min m x"] show ?case
    by auto
qed simp

lemma foldl_max_ge: "(m :: nat) \<le> foldl max m ms \<and> (\<forall>x \<in> set ms. x \<le> foldl max m ms)"
proof (induction ms arbitrary: m)
  case (Cons x ms)
  from Cons.IH [of "max m x"] show ?case
    by auto
qed simp

lemma ceil_div_covers: "0 < b \<Longrightarrow> a \<le> ceil_div a b * b"
proof -
  assume b: "0 < b"
  have "a + b - 1 = ceil_div a b * b + (a + b - 1) mod b"
    by (simp add: ceil_div_def)
  moreover have "(a + b - 1) mod b < b"
    using b by simp
  ultimately show ?thesis
    using b by linarith
qed

lemma ceil_div_least: "0 < b \<Longrightarrow> a \<le> n * b \<Longrightarrow> ceil_div a b \<le> n"
proof -
  assume b: "0 < b" and a: "a \<le> n * b"
  have "(a + b - 1) div b \<le> (n * b + (b - 1)) div b"
    using a b by (intro div_le_mono) simp
  also have "\<dots> = n"
    by (rule div_nat_eqI) (use b in \<open>simp_all add: mult.commute\<close>)
  finally show ?thesis
    using b by (simp add: ceil_div_def)
qed

lemma ceil_div_positive: "0 < a \<Longrightarrow> 0 < b \<Longrightarrow> 0 < ceil_div a b"
  using ceil_div_covers [of b a] by (cases "ceil_div a b") auto

lemma activity_axis_covers:
  assumes axis: "activity_axis records max_buckets = Some a" and "0 < max_buckets"
    and r: "r \<in> set records" and t: "pa_when r = Some t"
  shows "bucket_of a t < ax_buckets a" and "ax_first_month a \<le> month_number t"
    and "0 < ax_buckets a" and "ax_buckets a \<le> max_buckets" and "0 < ax_bucket_months a"
proof -
  define months where "months = map month_number (concat (map (\<lambda>r. case pa_when r of Some t \<Rightarrow> [t] | None \<Rightarrow> []) records))"
  have t': "month_number t \<in> set months"
    using r t by (auto simp: months_def image_iff intro!: bexI [of _ r])
  then obtain m ms where months: "months = m # ms"
    by (cases months) auto
  define low span where "low = foldl min m ms" and "span = foldl max m ms - low + 1"
  define size where "size = ceil_div span max_buckets"
  have a: "ax_first_month a = low" "ax_bucket_months a = size" "ax_buckets a = ceil_div span size"
    using axis unfolding activity_axis_def months_def [symmetric] months by (auto simp: Let_def low_def span_def size_def)
  have low: "low \<le> month_number t" and high: "month_number t \<le> foldl max m ms"
    using t' foldl_min_le [of m ms] foldl_max_ge [of m ms] by (auto simp: months low_def)
  then have offset: "month_number t - low < span"
    by (simp add: span_def)
  have "0 < span"
    by (simp add: span_def)
  then have size: "0 < size"
    using assms(2) by (simp add: size_def ceil_div_positive)
  have "span \<le> ceil_div span size * size"
    by (rule ceil_div_covers [OF size])
  then show "bucket_of a t < ax_buckets a"
    using offset size by (simp add: bucket_of_def a less_mult_imp_div_less)
  show "ax_first_month a \<le> month_number t"
    using low by (simp add: a)
  show "0 < ax_buckets a" and "0 < ax_bucket_months a"
    using \<open>0 < span\<close> size by (simp_all add: a ceil_div_positive)
  have "span \<le> size * max_buckets"
    unfolding size_def by (rule ceil_div_covers [OF assms(2)])
  then show "ax_buckets a \<le> max_buckets"
    using size by (simp add: a ceil_div_least mult.commute)
qed

end
