(* ===== verification/Saint_Properties.thy ===== *)
theory Saint_Properties imports Saint_Life Saint_Reading begin

text \<open>
  The properties of The Saint, each with a witness. The witnesses share a plain library, whose decoder reads a body as the
  name of a source, a page that sends the right headers, and a server that imported the sample journal.
\<close>

section \<open>A plain server\<close>

definition plain_library :: library where
  "plain_library = \<lparr> lb_lower = (\<lambda>s. s), lb_word = (\<lambda>c. 97 \<le> c \<and> c \<le> 122), lb_decimal = is_digit,
     lb_fromiso = (\<lambda>s. None), lb_strptime = (\<lambda>s. None), lb_repr = (\<lambda>v. []), lb_query = (\<lambda>u. None),
     lb_csv = (\<lambda>s. Inr ([], Inr [])), lb_loads = (\<lambda>s. Some (JObj [(lit ''source'', JStr s)])), lb_history = (\<lambda>b. Inr []) \<rparr>"

definition page_request :: "string \<Rightarrow> string \<Rightarrow> web_request" where
  "page_request path source = \<lparr> wr_path = lit path, wr_host = Some (lit ''127.0.0.1:8''), wr_origin = None, wr_fetch_site = None,
     wr_token = Some (lit ''k''), wr_length = Some (lit ''4''), wr_type = Some (lit ''application/json''), wr_body = lit source \<rparr>"

definition fresh_server :: "nat server" where
  "fresh_server = new_server plain_library (lit ''k'') 8"

lemma plain_length: "py_int 10 (lit ''4'') = Some 4"
  by (simp add: py_int_def read_unsigned_def digit_of_def strip_by_def py_isspace_def lit_def)

lemma page_allowed: "sv_port s = 8 \<Longrightarrow> allowed s (page_request path source) = None"
  by (simp add: allowed_def loopback_def page_request_def lit_def dec.simps)

lemma page_post:
  assumes "sv_port s = 8" and "sv_token s = lit ''k''"
  shows "do_post plain_library (page_request path source) s =
     (if path = ''/api/import'' then post_import plain_library [(lit ''source'', JStr (lit source))] s
      else if path = ''/api/clear'' then post_clear plain_library s
      else if path = ''/api/analyze'' then post_analyze s
      else (s, Error 404 (lit ''Not found'')))"
proof -
  have "\<not> list_ex (\<lambda>c. 128 \<le> c) (lit ''k'')"
    by (simp add: lit_def)
  then show ?thesis
    using assms plain_length
    by (simp add: do_post_def page_allowed) (simp add: page_request_def plain_library_def max_request_def)
qed

text \<open>The server after the sample journal was imported, and after an analysis of it was started.\<close>

definition journal :: "nat snapshot" where
  "journal = summarize plain_library demo_records [] []"

lemma journal_length: "length (sp_records journal) = 60"
  by (simp add: journal_def summarize_def demo_records_def demo_themes_def)

lemma absorb_all: "absorb key xs (\<lambda>_. 0) = xs"
  by (induction xs) simp_all

lemma count_list_Nil: "count_list [] = (\<lambda>_. 0)"
  by (rule ext) simp

lemma unseen_empty: "sp_records s = [] \<Longrightarrow> unseen L s incoming source = arriving incoming source"
  by (simp add: unseen_def not_already_present_def count_list_Nil absorb_all)

definition with_journal :: "nat server" where
  "with_journal = fst (do_post plain_library (page_request ''/api/import'' ''demo'') fresh_server)"

definition analyzing :: "nat server" where
  "analyzing = fst (do_post plain_library (page_request ''/api/analyze'' '''') with_journal)"

lemma fresh_fields [simp]: "sv_port fresh_server = 8" "sv_token fresh_server = lit ''k''" "sp_records (sv_snapshot fresh_server) = []"
  by (simp_all add: fresh_server_def new_server_def summarize_def)

lemma demo_imported: "import_data plain_library data (JStr (lit ''demo'')) = Inr journal"
proof -
  have "demo_records \<noteq> []" and "length demo_records \<le> max_import_records"
    by (simp_all add: demo_records_def demo_themes_def max_import_records_def)
  then show ?thesis
    by (simp add: import_data_def read_source_def journal_def)
qed

lemma journal_merged:
  fixes s :: "nat snapshot"
  assumes "sp_records s = []"
  shows "mg_changed (merge_snapshot plain_library s journal source)"
    and "sp_records (mg_snapshot (merge_snapshot plain_library s journal source)) = arriving journal source"
proof -
  have len: "length (arriving journal source) = 60"
    by (simp add: arriving_def journal_length)
  have fit: "fit max_records source (sp_records s) (unseen plain_library s journal source) = (arriving journal source, arriving journal source, 0)"
    using len by (simp add: assms unseen_empty fit_def max_records_def)
  show "mg_changed (merge_snapshot plain_library s journal source)"
    and "sp_records (mg_snapshot (merge_snapshot plain_library s journal source)) = arriving journal source"
    unfolding merge_snapshot_def by (rule merge_cases [OF fit]; use len in force)+
qed

lemma with_journal_state:
  "with_journal = fresh_server\<lparr>sv_generation := 1,
     sv_snapshot := mg_snapshot (merge_snapshot plain_library (sv_snapshot fresh_server) journal (lit ''demo'')), sv_job := Idle\<rparr>"
proof -
  have "resolve_source [(lit ''source'', JStr (lit ''demo''))] = Inr (JStr (lit ''demo''))"
    by (simp add: resolve_source_def dget_def)
  then show ?thesis
    using journal_merged(1) [of "sv_snapshot fresh_server" "lit ''demo''"]
    by (simp add: with_journal_def page_post post_import_def demo_imported source_name_def)
      (simp add: fresh_server_def new_server_def Let_def)
qed

lemma with_journal_fields:
  "sv_port with_journal = 8" "sv_token with_journal = lit ''k''" "\<not> sv_busy with_journal" "sv_workers with_journal = []"
  "sv_generation with_journal = 1" "length (sp_records (sv_snapshot with_journal)) = 60"
  by (simp_all add: with_journal_state journal_merged(2) arriving_def journal_length) (simp_all add: fresh_server_def new_server_def)

lemma analyzing_state:
  "analyzing = with_journal\<lparr>sv_busy := True, sv_job := Running, sv_workers := [(sv_snapshot with_journal, 1)]\<rparr>"
  unfolding analyzing_def page_post [OF with_journal_fields(1,2)] post_analyze_def
  by (simp add: with_journal_fields)

lemma reaches_analyzing: "saint_reaches plain_library may fresh_server analyzing"
  unfolding analyzing_def with_journal_def by (rule saint_reaches.On [OF saint_reaches.On [OF saint_reaches.Here saint_step.Post] saint_step.Post])

text \<open>The journal is cleared while it is being analyzed, and the analysis ends after that.\<close>

definition cleared :: "nat server" where
  "cleared = fst (do_post plain_library (page_request ''/api/clear'' '''') analyzing)"

definition late :: "nat server" where
  "late = analyzed (sv_snapshot with_journal, 1) (Inr 7) cleared"

lemma cleared_workers: "sv_workers cleared = [(sv_snapshot with_journal, 1)]"
proof -
  have "sv_port analyzing = 8" and "sv_token analyzing = lit ''k''"
    by (simp_all add: analyzing_state with_journal_fields)
  then show ?thesis
    by (simp add: cleared_def page_post post_clear_def) (simp add: analyzing_state)
qed

lemma reaches_late: "saint_reaches plain_library (\<lambda>p r. r = Inr 7) fresh_server late"
proof -
  have "saint_reaches plain_library (\<lambda>p r. r = Inr 7) fresh_server cleared"
    unfolding cleared_def by (rule saint_reaches.On [OF reaches_analyzing saint_step.Post])
  moreover have "saint_step plain_library (\<lambda>p r. r = Inr 7) cleared late"
    unfolding late_def by (rule saint_step.Analyzed) (simp_all add: cleared_workers)
  ultimately show ?thesis
    by (rule saint_reaches.On)
qed

section \<open>The server\<close>

text \<open>C8. The server with its threads and generations behaves as the simple desk does: every run of it is a run of
  the desk, where a map is delivered to the very session it was computed for, and an analysis the session
  has outlived is thrown away.\<close>

theorem server_refines_desk:
  assumes "saint_reaches L may (new_server L token port) s"
  shows "desk_reaches L may (desk_of (new_server L token port)) (desk_of s)"
  using saint_simulation [OF assms new_server_ok] .

theorem server_refines_desk_witness:
  "desk_reaches plain_library (\<lambda>p r. r = Inr 7) (desk_of fresh_server) (desk_of late) \<and> sv_workers cleared \<noteq> []"
  using server_refines_desk [of plain_library "\<lambda>p r. r = Inr 7" "lit ''k''" 8 late] reaches_late cleared_workers
  by (simp add: fresh_server_def)

text \<open>C13. In every state the server can reach, a map shown was computed from the passages shown with it, at most one
  analysis runs, a running analysis is of the session shown, and the session holds at most 5000 passages, each of
  a listed source and each source listed with the number of its passages.\<close>

theorem shown_map_is_of_the_session:
  assumes "saint_reaches L may (new_server L token port) s"
  shows "(\<forall>m. sp_map (sv_snapshot s) = Some m \<longrightarrow> (\<exists>p. same_content p (sv_snapshot s) \<and> may p (Inr m))) \<and>
     (sv_job s = Finished \<longrightarrow> sp_map (sv_snapshot s) \<noteq> None) \<and>
     length (sv_workers s) \<le> 1 \<and> (sv_busy s \<longleftrightarrow> sv_workers s \<noteq> []) \<and>
     (sv_job s = Running \<longrightarrow> sv_workers s = [(sv_snapshot s, sv_generation s)]) \<and>
     length (sp_records (sv_snapshot s)) \<le> max_records \<and>
     counts_of (sp_records (sv_snapshot s)) (sp_sources (sv_snapshot s))"
proof -
  have "saint_ok may s"
    using saint_reaches_ok [OF assms new_server_ok] .
  then show ?thesis
    by (auto simp: saint_ok_def map_ok_def workers_ok_def snapshot_ok_def)
qed

theorem shown_map_is_of_the_session_witness:
  "sv_job analyzing = Running \<and> sv_workers analyzing = [(sv_snapshot analyzing, sv_generation analyzing)] \<and>
   counts_of (sp_records (sv_snapshot analyzing)) (sp_sources (sv_snapshot analyzing))"
  using shown_map_is_of_the_session [OF reaches_analyzing [unfolded fresh_server_def], of "\<lambda>p r. True"]
  by (auto simp: analyzing_state)

text \<open>C16. Only the page changes the session: a request that changes the state came to the printed address, from no other
  origin, was not marked cross-site, and carries the token and the type of JSON; the token and the session are
  given to such requests for the page's own address only; and a request answered with an error changes nothing.\<close>

theorem only_the_page_acts:
  "(fst (do_post L r s) \<noteq> s \<longrightarrow>
      wr_host r = Some (loopback s) \<and> wr_origin r \<in> {None, Some [], Some (lit ''http://'' @ loopback s)} \<and>
      wr_fetch_site r \<noteq> Some (lit ''cross-site'') \<and> presented r = sv_token s \<and>
      wr_type r = Some (lit ''application/json'') \<and> \<not> answered_error (snd (do_post L r s))) \<and>
   (do_get s g = Session t p j \<longrightarrow>
      wr_host g = Some (loopback s) \<and> wr_origin g \<in> {None, Some [], Some (lit ''http://'' @ loopback s)} \<and>
      wr_fetch_site g \<noteq> Some (lit ''cross-site'') \<and> sp_watch_times p = [])"
proof (intro conjI [of "_ \<longrightarrow> _"] impI)
  have page: "wr_host q = Some (loopback s) \<and> wr_origin q \<in> {None, Some [], Some (lit ''http://'' @ loopback s)} \<and>
      wr_fetch_site q \<noteq> Some (lit ''cross-site'')" if "allowed s q = None" for q
    using that by (auto simp: allowed_def split: if_splits)
  assume "fst (do_post L r s) \<noteq> s"
  then have "from_page s r" and "\<not> answered_error (snd (do_post L r s))"
    using do_post_refuses [of L r s] do_post_error [of L r s] by blast+
  with page [of r] show "wr_host r = Some (loopback s) \<and> wr_origin r \<in> {None, Some [], Some (lit ''http://'' @ loopback s)} \<and>
      wr_fetch_site r \<noteq> Some (lit ''cross-site'') \<and> presented r = sv_token s \<and>
      wr_type r = Some (lit ''application/json'') \<and> \<not> answered_error (snd (do_post L r s))"
    by (simp add: from_page_def)
next
  assume session: "do_get s g = Session t p j"
  have allowed: "allowed s g = None"
    using session by (auto simp: do_get_def allowed_def split: option.splits if_splits)
  with session have "sp_watch_times p = []"
    by (auto simp: do_get_def public_def split: if_splits)
  with allowed show "wr_host g = Some (loopback s) \<and> wr_origin g \<in> {None, Some [], Some (lit ''http://'' @ loopback s)} \<and>
      wr_fetch_site g \<noteq> Some (lit ''cross-site'') \<and> sp_watch_times p = []"
    by (auto simp: allowed_def split: if_splits)
qed

theorem only_the_page_acts_witness:
  "presented (page_request ''/api/clear'' '''') = sv_token analyzing \<and>
   wr_host (page_request ''/api/state'' '''') = Some (loopback fresh_server)"
proof -
  have "sv_job analyzing \<noteq> sv_job cleared"
    by (simp add: cleared_def page_post post_clear_def analyzing_state with_journal_fields)
  then have "fst (do_post plain_library (page_request ''/api/clear'' '''') analyzing) \<noteq> analyzing"
    unfolding cleared_def by metis
  moreover have "do_get fresh_server (page_request ''/api/state'' '''') =
      Session (lit ''k'') (public (sv_snapshot fresh_server)) (sv_job fresh_server)"
    by (simp add: do_get_def page_allowed) (simp add: page_request_def)
  ultimately show ?thesis
    using only_the_page_acts [of plain_library "page_request ''/api/clear'' ''''" analyzing]
      only_the_page_acts [of plain_library "page_request ''/api/clear'' ''''" fresh_server "page_request ''/api/state'' ''''"] by blast
qed

section \<open>The session\<close>

text \<open>C20. Importing the same export again adds nothing and keeps the session, with its map, as it is, provided that
  it fitted into the session or that no two passages of one identity carry different dates.\<close>

theorem importing_again_adds_nothing:
  assumes "length (sp_records s) \<le> max_records"
    and "length (sp_records s @ unseen L s incoming source) \<le> max_records \<or> one_date L (sp_records s @ arriving incoming source)"
    and "t = mg_snapshot (merge_snapshot L s incoming source)"
  shows "\<not> mg_changed (merge_snapshot L t incoming source) \<and> mg_snapshot (merge_snapshot L t incoming source) = t \<and>
     mg_added (merge_snapshot L t incoming source) = 0"
  using merge_again [OF assms(1,2)] unfolding assms(3) merge_snapshot_def by blast

theorem importing_again_adds_nothing_witness:
  "\<not> mg_changed (merge_snapshot plain_library
      (mg_snapshot (merge_snapshot plain_library (sv_snapshot fresh_server) journal (lit ''demo''))) journal (lit ''demo''))"
  using importing_again_adds_nothing [of "sv_snapshot fresh_server" plain_library journal "lit ''demo''", OF _ _ refl]
  by (simp add: unseen_empty arriving_def journal_length max_records_def)

text \<open>C22. A session stays within its limit and is full when anything had to be left out; importing one source leaves the
  passages of all others as they were; and of its own source no passage left out is more recent than one kept.\<close>

theorem session_stays_within_limit:
  assumes "length (sp_records s) \<le> limit"
    and "records = sp_records (mg_snapshot (merge_upto limit L s incoming source))"
  shows "length records = min limit (length (sp_records s @ unseen L s incoming source)) \<and>
     filter (\<lambda>r. \<not> own source r) records = filter (\<lambda>r. \<not> own source r) (sp_records s) \<and>
     (\<forall>r \<in> set (filter (own source) records). \<forall>q \<in># mset (contenders L s incoming source) - mset (filter (own source) records).
        age_key (pa_when r) \<le> age_key (pa_when q))"
  using merge_within [OF assms(1), where L = L and incoming = incoming and source = source] unfolding assms(2) by blast

theorem session_stays_within_limit_witness:
  "length (sp_records (mg_snapshot (merge_upto 40 plain_library (sv_snapshot fresh_server) journal (lit ''demo'')))) = 40"
  using session_stays_within_limit [of "sv_snapshot fresh_server" 40 _ plain_library journal "lit ''demo''", OF _ refl]
  by (simp add: unseen_empty arriving_def journal_length)

text \<open>C23. As long as there is room for everything, the identities of a session are the union, as multisets, of those it had and
  those imported: a passage that is there is not added again, one that repeats within a file keeps its
  repeats, and two imports give the same identities in either order.\<close>

theorem imports_form_a_union:
  assumes "length (sp_records s) + length (sp_records a) + length (sp_records b) \<le> limit"
    and keys: "keys = (\<lambda>t. mset (map (record_key L) (sp_records t)))"
    and put: "put = (\<lambda>source incoming t. mg_snapshot (merge_upto limit L t incoming source))"
  shows "keys (put j b (put i a s)) =
      keys s \<union># mset (map (record_key L) (arriving a i)) \<union># mset (map (record_key L) (arriving b j)) \<and>
     keys (put j b (put i a s)) = keys (put i a (put j b s))"
proof -
  have room: "length (sp_records (put k c s)) + length (sp_records d) \<le> limit"
    if "c = a \<and> d = b \<or> c = b \<and> d = a" for k c d
  proof -
    have "length (sp_records (put k c s)) \<le> length (sp_records s @ unseen L s c k)"
      using merge_within(1) [of s limit L c k] assms(1) unfolding put by simp
    also have "\<dots> \<le> length (sp_records s) + length (sp_records c)"
      using unseen_length [of L s c k] by simp
    finally show ?thesis
      using assms(1) that by auto
  qed
  have one: "keys (put k c t) = keys t \<union># mset (map (record_key L) (arriving c k))"
    if "length (sp_records t) + length (sp_records c) \<le> limit" for k c t
    unfolding keys put by (rule merge_union [OF that])
  have two: "keys (put k d (put l c s)) = keys s \<union># mset (map (record_key L) (arriving c l)) \<union># mset (map (record_key L) (arriving d k))"
    if "c = a \<and> d = b \<or> c = b \<and> d = a" for k l c d
  proof -
    have "length (sp_records s) + length (sp_records c) \<le> limit"
      using that assms(1) by auto
    from one [OF room [OF that, of l], of k] one [OF this, of l] show ?thesis
      by simp
  qed
  have "keys (put j b (put i a s)) =
      keys s \<union># mset (map (record_key L) (arriving a i)) \<union># mset (map (record_key L) (arriving b j))"
    by (rule two) simp
  moreover have "keys (put i a (put j b s)) =
      keys s \<union># mset (map (record_key L) (arriving b j)) \<union># mset (map (record_key L) (arriving a i))"
    by (rule two) simp
  ultimately show ?thesis
    by (simp add: ac_simps)
qed

theorem imports_form_a_union_witness:
  "mset (map (record_key plain_library) (sp_records (mg_snapshot (merge_upto 200 plain_library
       (mg_snapshot (merge_upto 200 plain_library (sv_snapshot fresh_server) journal (lit ''demo''))) journal (lit ''notes''))))) =
   mset (map (record_key plain_library) (arriving journal (lit ''demo''))) \<union>#
   mset (map (record_key plain_library) (arriving journal (lit ''notes'')))"
  using imports_form_a_union [of "sv_snapshot fresh_server" journal journal 200 _ plain_library _ "lit ''notes''" "lit ''demo''", OF _ refl refl]
  by (simp add: journal_length)

text \<open>C24. A reader collapses repeats: what one import of TikTok, YouTube, Instagram, Spotify, Reddit, Amazon, X or a
  browser yields holds no two passages of the same kind and text (or, for those sources whose passages are
  of one kind, of the same text), case aside, and no empty one.\<close>

theorem readers_collapse_repeats:
  assumes "read_source L data (JStr source) = Inr (ps, labels, watches)"
    and "source \<notin> set (map lit [''notes'', ''usage'', ''demo''])"
  shows "distinct (map (reader_key L source) ps) \<and> (\<forall>p \<in> set ps. pa_text p \<noteq> [])"
  using read_source_tidy [OF assms] .

definition searches_library :: library where
  "searches_library = plain_library\<lparr>lb_loads := (\<lambda>s. Some (JList
     [JObj [(lit ''searchQuery'', JStr (lit ''jazz''))], JObj [(lit ''searchQuery'', JStr (lit '' jazz''))]]))\<rparr>"

lemma searches_read:
  "read_source searches_library [(lit ''files'', JList [JObj [(lit ''text'', JStr [])]])] (JStr (lit ''spotify'')) =
     Inr ([passage_of (lit ''jazz'') ''search'' (lit ''spotify'') None], [], [])"
proof -
  have strip: "stripped (lit ''jazz'') = lit ''jazz''" "stripped (lit '' jazz'') = lit ''jazz''" "lit ''jazz'' \<noteq> []"
    by (simp_all add: strip_by_def py_isspace_def lit_def)
  have blob: "read_blob searches_library (JObj [(lit ''text'', JStr [])]) = Some (JList
      [JObj [(lit ''searchQuery'', JStr (lit ''jazz''))], JObj [(lit ''searchQuery'', JStr (lit '' jazz''))]])"
    by (simp add: read_blob_def file_text_def dget_def searches_library_def)
  have lower: "lb_lower searches_library s = s" for s
    by (simp add: searches_library_def plain_library_def)
  have entry: "spotify_entry searches_library (JObj [(lit ''searchQuery'', JStr t)]) st =
      spotify_add searches_library (lit ''jazz'') ''search'' None st" if "stripped t = lit ''jazz''" for t st
    using that strip(3) by (simp add: spotify_entry_def dget_def spotify_text_def spotify_when_def)
  have "load_spotify searches_library [JList
      [JObj [(lit ''searchQuery'', JStr (lit ''jazz''))], JObj [(lit ''searchQuery'', JStr (lit '' jazz''))]]] =
      nothing_read\<lparr>in_seen := [lit ''search:jazz''], in_records := [passage_of (lit ''jazz'') ''search'' (lit ''spotify'') None]\<rparr>"
    by (simp add: load_spotify_def spotify_blob_def rows_of_def entry strip spotify_add_def lower accept_def nothing_read_def
        settle_def sorted_set_def) (simp add: lit_def)
  then show ?thesis
    by (simp add: read_source_def data_files_def dget_def json_blobs_def blob of_intake_def nothing_read_def)
qed

theorem readers_collapse_repeats_witness:
  "distinct (map (reader_key searches_library (lit ''spotify'')) [passage_of (lit ''jazz'') ''search'' (lit ''spotify'') None])"
  using readers_collapse_repeats [OF searches_read] by simp

text \<open>C38. Text that Meta wrote with every UTF-8 byte as a character of its own is restored, whatever the text was.\<close>

theorem meta_text_is_restored:
  assumes "list_all scalar_value s"
  shows "fix_meta_text (utf8 s) = s"
  using assms by (rule fix_meta_text_undoes)

theorem meta_text_is_restored_witness: "fix_meta_text [226, 128, 153, 195, 169, 33] = [8217, 233, 33]"
  using meta_text_is_restored [of "[8217, 233, 33]"] by (simp add: scalar_value_def is_surrogate_def utf8_char_def)

section \<open>An export that is not absorbed\<close>



definition song :: "string \<Rightarrow> moment \<Rightarrow> passage" where
  "song title t = passage_of (lit title) ''track'' (lit ''spotify'') (Some t)"



definition kept_song :: "string \<Rightarrow> moment \<Rightarrow> kept" where
  "kept_song title t = tagged (lit ''spotify'') (as_dict (song title t))"

definition kept_note :: kept where
  "kept_note = tagged (lit ''notes'') (as_dict (passage_of (lit ''n'') ''note'' (lit ''n.md'') None))"



lemma kept_fields [simp]:
  "ke_origin (kept_song title t) = Some (lit ''spotify'')" "pa_when (kept_song title t) = Some t" "ke_origin kept_note = Some (lit ''notes'')"
  by (simp_all add: kept_song_def kept_note_def tagged_def as_dict_def song_def passage_of_def passage.defs kept.defs)











end
