(* ===== verification/Spec2Isabelle.thy ===== *)
theory Spec2Isabelle imports Ledger_Properties Kernel_Properties Boundary_Properties Export_Properties Memorial_Properties Site_Properties Ledger_File_Properties Saint_Properties begin

text \<open>
  A verification development of the Remembrance programs.

  \<^bold>\<open>The programs.\<close> The repository holds three. \<open>remembrance-consent/app\<close> is the consent service: it keeps
  profiles of deceased people and the consent grants of their estates, decides which uses of a person's likeness
  may run, issues short-lived tokens for the uses it allows, revokes, deletes what was made under a revoked
  grant, and keeps a hash-chained audit ledger of all of it. \<open>remembrance/\<close> is a memorial web site with
  reviewed sharing, succession of care and permanent erasure of its own, which asks the consent service before a
  voice action. The Saint, in the root directory, is a separate local program: a loopback web server that reads
  personal archives into a session in memory and draws a map of it.

  \<^bold>\<open>Consent service: theories and code.\<close>
  \<^item> \<open>Vocabulary\<close> (\<open>consent/constants.py\<close>): the closed enums and tables, \<open>normalize_purpose\<close> and the screen for
    banned purposes; the Unicode database is the record \<open>ucd\<close>.
  \<^item> \<open>Schema\<close> (\<open>consent/models.py\<close>, \<open>successors/models.py\<close>, \<open>downstream/models.py\<close>, the migration): rows as
    records, the database \<open>consent_db\<close> as lists of rows, constraints as checks on insert and update, the row
    guards of the migration as \<open>consent_grant_guard\<close> and \<open>authorization_token_guard\<close>.
  \<^item> \<open>Text_Json\<close> (\<open>isoformat\<close>, \<open>json.dumps\<close> with sorted keys, UUID text), \<open>Audit_Log\<close> (\<open>consent/audit.py\<close>).
  \<^item> \<open>Kernel\<close> (the pure part of \<open>consent/kernel.py\<close>), \<open>Tokens\<close> (\<open>consent/tokens.py\<close>), \<open>Authorize\<close>
    (\<open>kernel.authorize\<close> and the violation audit), \<open>Lifecycle\<close> (\<open>consent/router.py\<close>, \<open>schemas.py\<close>,
    \<open>acknowledgments.py\<close>, the profile and successor routers).
  \<^item> \<open>Cascade\<close> (\<open>consent/cascade.py\<close>, \<open>worker.py\<close>), \<open>Storage\<close> (\<open>storage.py\<close>), \<open>Export\<close> (\<open>export/\<close>).
  \<^item> \<open>Rate_Limit\<close> (\<open>ratelimit.py\<close>), \<open>Boundary\<close> (\<open>auth.py\<close>, \<open>consent/middleware.py\<close>, \<open>main.py\<close>), \<open>Config\<close>
    (\<open>config.py\<close>, \<open>services.py\<close>).
  \<^item> \<open>Service\<close> composes them: \<open>serve\<close> is one call over the database and the object store, \<open>service_step\<close> the
    relation of requests, refused attempts and worker runs, \<open>reaches\<close> its closure.

  \<^bold>\<open>Memorial site: theories and code.\<close> \<open>Memorial_Store\<close> (\<open>schema.sql\<close>, \<open>migrations/\<close>), \<open>Memorial_Consent\<close>
  (\<open>consent.py\<close>), \<open>Succession\<close> (\<open>succession.py\<close>), \<open>Erasure\<close> (\<open>erasure.py\<close>) and \<open>Kernel_Client\<close>
  (\<open>kernel_client.py\<close>).
  \<^item> \<open>Ledger_File\<close>: the loops of \<open>erasure.Ledger\<close> that write and read the bytes of the ledger.
  \<^item> \<open>Site_Request\<close>, \<open>Site_Pages\<close>, \<open>Site_Owner\<close> and \<open>Site\<close> (\<open>app.py\<close>): every route, from \<open>prepare\<close> to the reply; the
    state is the database, the media files and the counters, and \<open>vs_meanwhile\<close> is what other connections commit
    between a check of ownership and the write it guards. \<open>dispatch\<close> in \<open>Site\<close> is one request.

  \<^bold>\<open>The Saint: theories and code.\<close>
  \<^item> \<open>Saint_Regex\<close>: the part of Python's \<open>re\<close> the program uses, as a backtracking matcher, so that every pattern
    of the code is a value of the datatype \<open>rx\<close>.
  \<^item> \<open>Saint_Records\<close> (\<open>mirror.Record\<close>, what the readers share), \<open>Saint_Readers\<close> (\<open>usage.py\<close>, \<open>youtube.py\<close>,
    \<open>spotify.py\<close>, \<open>instagram.py\<close>, \<open>tiktok.py\<close>, \<open>x.py\<close>), \<open>Saint_Files\<close> (\<open>reddit.py\<close>, \<open>amazon.py\<close>, the rows of
    \<open>mirror.py\<close>, \<open>notes.py\<close>): every reader from parsed documents to passages, labels and watch times.
  \<^item> \<open>Saint_Session\<close> (\<open>app.py\<close>): detection of a source, \<open>merge_snapshot\<close>, \<open>import_data\<close>; \<open>Saint_Server\<close> (\<open>Server\<close> and
    \<open>Handler\<close>): the requests and the analysis thread; all they do to the state happens under the lock, so
    \<open>saint_step\<close> is one request or the end of one analysis. Unicode tables, \<open>datetime\<close>, \<open>csv\<close> and \<open>json\<close> are the
    record \<open>library\<close>, the result of \<open>semantic_map\<close> is the argument \<open>may\<close>.

  \<^bold>\<open>How code is rendered.\<close> A handler is a function from the arguments of the request, an environment of what it
  reads from outside (clock readings and fresh identifiers, numbered in the order of the code) and the database
  to a sum: \<open>Inl\<close> is the exception raised, \<open>Inr\<close> the new database and the response. A transaction that raises
  leaves the database as it was. Python strings are lists of code points (\<open>pstr\<close>), times are microseconds as
  integers, UUIDs are 128-bit words, JSON is a datatype. SHA-256, HMAC, PyJWT, zip, Ed25519, JSON parsing, the
  HTTP transport and object stores are arguments; where a theorem needs a law of one of them (reading back what
  was written, no collision on the texts at hand) the law is a named hypothesis, and the witness supplies an
  instance.

  \<^bold>\<open>What is shown.\<close>
  \<^item> \<open>Ledger\<close>, \<open>Hash_Chain\<close>, \<open>Payloads\<close>, \<open>Json_Parse\<close>: chains as a locale, interpreted three times (audit
    ledger, sharing history, erasure ledger); correctness of the verifiers, anchors and checkpoints, and of
    canonical JSON as an injective, readable encoding.
  \<^item> \<open>Evolution\<close>, \<open>Grant_Life\<close>, \<open>Cascade_Facts\<close>, \<open>Service\<close>: every operation keeps the table constraints and the
    ledger and only evolves rows the ways the guards allow (\<open>evolves\<close>); reachable states are sound.
  \<^item> \<open>Memorial_History\<close>, \<open>Memorial_Facts\<close>, \<open>Erasure_Facts\<close>: the same for the memorial site, crashes included.
  \<^item> \<open>Site_Facts\<close>, \<open>Site_Access\<close>: who may change and who may see what of a memorial, whatever the request.
  \<^item> \<open>Saint_Merge\<close>: what a merge keeps, as multisets of identities; \<open>Saint_Life\<close>: the invariant of the server and its
    simulation by \<open>desk_step\<close>, a desk without threads or generations; \<open>Saint_Reading\<close>: the contract of a reader as
    the locales \<open>tidy_reader\<close> and \<open>tidy_raising\<close>, interpreted for each reader.
  \<^item> \<open>Export_Facts\<close>: what \<open>build_bundle\<close> writes is accepted by \<open>verify_bundle\<close>, and the manifest fixes the
    content.
  \<^item> The theories named \<open>Sample_\<close> hold concrete states, and those named \<open>_Properties\<close> the properties, each with a
    witness on such a state.

  \<^bold>\<open>Bounds and termination.\<close> No operation needs fuel: the loops of the programs run over rows, lines or
  characters and are structural recursions, or (the matcher, \<open>splitlines\<close>, \<open>split_words\<close>, \<open>chunks\<close>) recursions with
  a measure. \<open>write_all\<close> and \<open>read_all\<close> may run for ever when the system makes no progress and are partial
  functions; \<open>append_to_ledger_ends\<close> shows that with progress they end. \<open>run_cascade\<close> is one attempt; the retries are steps of
  \<open>service_step\<close>.

  \<^bold>\<open>Not modelled.\<close> Database roles and grants; the SQLAlchemy engine and Celery task declarations; S3 storage
  (calls to boto3); PEM parsing; EmailStr; column widths; the command lines and the printed erasure preview;
  templates, QR images and response headers of the web pages. Of The Saint: \<open>semantic_map\<close>, \<open>island_summaries\<close>,
  \<open>recent_trend\<close>, \<open>signal_score.py\<close> and the embedding and drawing in \<open>mirror.py\<close> (floating point, numpy, umap and
  hdbscan); the copy of a browser's SQLite file; walking export directories; and documents whose numbers have a
  fraction, which \<open>json\<close> here has no value for.
\<close>

end
